(* ===== verification/Prelude.thy ===== *)
theory Prelude
  imports Main "HOL-Library.AList"
begin

text \<open>
  Shared vocabulary of the development: the hint collections, Python's insertion-ordered
  dictionaries and truth values, the state-and-exception computations in which the
  asynchronous handlers are written, a small Hoare calculus over them, and the generic
  notion of a state machine with an invariant.
\<close>

named_theorems run_simps \<open>evaluation rules of the computations\<close>
named_theorems triple_intro \<open>introduction rules of the Hoare calculus\<close>
named_theorems dict_simps \<open>lookup rules of insertion-ordered dictionaries\<close>

section \<open>Python truth values and optional values\<close>

text \<open>An optional string is true when it is present and not empty.\<close>

definition truthy :: "string option \<Rightarrow> bool" where
  "truthy s = (case s of None \<Rightarrow> False | Some t \<Rightarrow> t \<noteq> [])"

text \<open>\<open>value or default\<close> on optional strings and the version that yields a string.\<close>

definition or_else :: "string option \<Rightarrow> string option \<Rightarrow> string option" where
  "or_else a b = (if truthy a then a else b)"

definition or_str :: "string option \<Rightarrow> string \<Rightarrow> string" where
  "or_str a d = (case a of None \<Rightarrow> d | Some t \<Rightarrow> if t = [] then d else t)"

text \<open>\<open>a if a is not None else b\<close>.\<close>

definition if_none :: "'a option \<Rightarrow> 'a option \<Rightarrow> 'a option" where
  "if_none a b = (case a of None \<Rightarrow> b | Some x \<Rightarrow> Some x)"

lemma truthy_simps [simp]:
  "truthy None = False" "truthy (Some s) = (s \<noteq> [])"
  by (simp_all add: truthy_def)

lemma or_else_simps [simp]:
  "or_else None b = b" "or_else (Some []) b = b" "s \<noteq> [] \<Longrightarrow> or_else (Some s) b = Some s"
  by (simp_all add: or_else_def)

lemma or_str_simps [simp]:
  "or_str None d = d" "or_str (Some []) d = d" "s \<noteq> [] \<Longrightarrow> or_str (Some s) d = s"
  by (simp_all add: or_str_def)

lemma if_none_simps [simp]:
  "if_none None b = b" "if_none (Some x) b = Some x"
  by (simp_all add: if_none_def)

section \<open>Insertion-ordered dictionaries\<close>

text \<open>
  A Python dictionary whose order is observable is an association list with distinct keys:
  assignment replaces in place or appends, as \<open>AList.update\<close> does.
\<close>

type_synonym ('k, 'v) dict = "('k \<times> 'v) list"

abbreviation dict_get :: "('k, 'v) dict \<Rightarrow> 'k \<Rightarrow> 'v option" where
  "dict_get d k \<equiv> map_of d k"

abbreviation dict_set :: "'k \<Rightarrow> 'v \<Rightarrow> ('k, 'v) dict \<Rightarrow> ('k, 'v) dict" where
  "dict_set k v d \<equiv> AList.update k v d"

definition dict_append :: "'k \<Rightarrow> 'v \<Rightarrow> ('k, 'v list) dict \<Rightarrow> ('k, 'v list) dict" where
  "dict_append k v d = dict_set k ((case dict_get d k of None \<Rightarrow> [] | Some vs \<Rightarrow> vs) @ [v]) d"

definition dict_update :: "('k, 'v) dict \<Rightarrow> ('k, 'v) dict \<Rightarrow> ('k, 'v) dict" where
  "dict_update d e = fold (\<lambda>(k, v). dict_set k v) e d"

definition is_dict :: "('k, 'v) dict \<Rightarrow> bool" where
  "is_dict d = distinct (map fst d)"

lemma dict_get_set [dict_simps, simp]:
  "dict_get (dict_set k v d) k' = (if k' = k then Some v else dict_get d k')"
  by (simp add: update_conv')

lemma is_dict_set [dict_simps, simp]: "is_dict d \<Longrightarrow> is_dict (dict_set k v d)"
  by (simp add: is_dict_def distinct_update)

lemma is_dict_Nil [simp]: "is_dict []"
  by (simp add: is_dict_def)

lemma is_dict_append [simp]: "is_dict d \<Longrightarrow> is_dict (dict_append k v d)"
  by (simp add: dict_append_def)

lemma dict_get_append:
  "dict_get (dict_append k v d) k' =
     (if k' = k then Some ((case dict_get d k of None \<Rightarrow> [] | Some vs \<Rightarrow> vs) @ [v])
      else dict_get d k')"
  by (simp add: dict_append_def)

lemma dict_get_mem: "is_dict d \<Longrightarrow> (k, v) \<in> set d \<longleftrightarrow> dict_get d k = Some v"
  by (simp add: is_dict_def)

section \<open>Lists\<close>

text \<open>The first element that satisfies a test, as \<open>next(..., None)\<close> finds it.\<close>

fun find_index :: "('a \<Rightarrow> bool) \<Rightarrow> 'a list \<Rightarrow> nat option" where
  "find_index p [] = None"
| "find_index p (x # xs) = (if p x then Some 0 else map_option Suc (find_index p xs))"

lemma find_index_SomeD: "find_index p xs = Some i \<Longrightarrow> i < length xs \<and> p (xs ! i)"
  by (induction xs arbitrary: i) (auto split: if_splits)

lemma find_index_None: "find_index p xs = None \<longleftrightarrow> (\<forall>x \<in> set xs. \<not> p x)"
  by (induction xs) auto

lemma distinct_same_set_length:
  "distinct xs \<Longrightarrow> distinct ys \<Longrightarrow> set xs = set ys \<Longrightarrow> length xs = length ys"
  by (metis distinct_card)

lemma filter_eq_self: "(\<And>x. x \<in> set xs \<Longrightarrow> p x) \<Longrightarrow> filter p xs = xs"
  by (induction xs) auto

text \<open>Splitting a list into the chunks of at most \<open>n\<close> elements that a batch loop writes.\<close>

function chunks :: "nat \<Rightarrow> 'a list \<Rightarrow> 'a list list" where
  "chunks n xs = (if xs = [] \<or> n = 0 then [] else take n xs # chunks n (drop n xs))"
  by pat_completeness auto
termination
  by (relation "measure (\<lambda>(n, xs). length xs)") auto

declare chunks.simps [simp del]

lemma chunks_Nil [simp]: "chunks n [] = []"
  by (simp add: chunks.simps)

lemma concat_chunks: "0 < n \<Longrightarrow> concat (chunks n xs) = xs"
proof (induction n xs rule: chunks.induct)
  case (1 n xs)
  then show ?case
    by (cases "xs = []") (simp_all add: chunks.simps [of n xs])
qed

lemma length_chunks_mem: "c \<in> set (chunks n xs) \<Longrightarrow> length c \<le> n \<and> c \<noteq> []"
proof (induction n xs rule: chunks.induct)
  case (1 n xs)
  show ?case
  proof (cases "xs = [] \<or> n = 0")
    case True
    with "1.prems" show ?thesis by (simp add: chunks.simps [of n xs])
  next
    case False
    with "1.prems" have "c = take n xs \<or> c \<in> set (chunks n (drop n xs))"
      by (simp add: chunks.simps [of n xs])
    with "1.IH" [OF False] False show ?thesis by auto
  qed
qed

section \<open>Computations with state and exceptions\<close>

text \<open>
  An \<open>async\<close> handler reads and writes a state and returns or raises: it is a function from
  the state to an outcome (\<open>Inl\<close> the exception, \<open>Inr\<close> the result) and the next state. The
  state at the point of a raise is kept, as the effects of a coroutine are.
\<close>

type_synonym ('s, 'e, 'a) proc = "'s \<Rightarrow> ('e + 'a) \<times> 's"

definition ret :: "'a \<Rightarrow> ('s, 'e, 'a) proc" where
  "ret a = (\<lambda>s. (Inr a, s))"

definition throw :: "'e \<Rightarrow> ('s, 'e, 'a) proc" where
  "throw e = (\<lambda>s. (Inl e, s))"

definition andthen :: "('s, 'e, 'a) proc \<Rightarrow> ('a \<Rightarrow> ('s, 'e, 'b) proc) \<Rightarrow> ('s, 'e, 'b) proc" where
  "andthen m k = (\<lambda>s. case m s of (Inl e, t) \<Rightarrow> (Inl e, t) | (Inr a, t) \<Rightarrow> k a t)"

definition catching :: "('s, 'e, 'a) proc \<Rightarrow> ('e \<Rightarrow> ('s, 'e, 'a) proc) \<Rightarrow> ('s, 'e, 'a) proc" where
  "catching m h = (\<lambda>s. case m s of (Inl e, t) \<Rightarrow> h e t | (Inr a, t) \<Rightarrow> (Inr a, t))"

definition attempt :: "('s, 'e, 'a) proc \<Rightarrow> ('s, 'e, 'e + 'a) proc" where
  "attempt m = (\<lambda>s. case m s of (r, t) \<Rightarrow> (Inr r, t))"

definition reads :: "('s \<Rightarrow> 'a) \<Rightarrow> ('s, 'e, 'a) proc" where
  "reads f = (\<lambda>s. (Inr (f s), s))"

definition writes :: "('s \<Rightarrow> 's) \<Rightarrow> ('s, 'e, unit) proc" where
  "writes f = (\<lambda>s. (Inr (), f s))"

definition when_do :: "bool \<Rightarrow> ('s, 'e, unit) proc \<Rightarrow> ('s, 'e, unit) proc" where
  "when_do b m = (if b then m else ret ())"

fun for_each :: "'a list \<Rightarrow> ('a \<Rightarrow> ('s, 'e, unit) proc) \<Rightarrow> ('s, 'e, unit) proc" where
  "for_each [] f = ret ()"
| "for_each (x # xs) f = andthen (f x) (\<lambda>_. for_each xs f)"

fun fold_each :: "'a list \<Rightarrow> 'b \<Rightarrow> ('b \<Rightarrow> 'a \<Rightarrow> ('s, 'e, 'b) proc) \<Rightarrow> ('s, 'e, 'b) proc" where
  "fold_each [] b f = ret b"
| "fold_each (x # xs) b f = andthen (f b x) (\<lambda>c. fold_each xs c f)"

lemma run_ret [run_simps]: "ret a s = (Inr a, s)"
  by (simp add: ret_def)

lemma run_throw [run_simps]: "throw e s = (Inl e, s)"
  by (simp add: throw_def)

lemma run_andthen [run_simps]:
  "andthen m k s = (case m s of (Inl e, t) \<Rightarrow> (Inl e, t) | (Inr a, t) \<Rightarrow> k a t)"
  by (simp add: andthen_def)

lemma run_catching [run_simps]:
  "catching m h s = (case m s of (Inl e, t) \<Rightarrow> h e t | (Inr a, t) \<Rightarrow> (Inr a, t))"
  by (simp add: catching_def)

lemma run_attempt [run_simps]: "attempt m s = (case m s of (r, t) \<Rightarrow> (Inr r, t))"
  by (simp add: attempt_def)

lemma run_reads [run_simps]: "reads f s = (Inr (f s), s)"
  by (simp add: reads_def)

lemma run_writes [run_simps]: "writes f s = (Inr (), f s)"
  by (simp add: writes_def)

lemma run_when_do [run_simps]: "when_do b m s = (if b then m s else (Inr (), s))"
  by (simp add: when_do_def ret_def)

text \<open>How a computation returned, read backwards.\<close>

named_theorems ok_simps \<open>what a normal return says of the parts\<close>

lemma ok_andthen [ok_simps]:
  "andthen m k s = (Inr b, t) \<longleftrightarrow> (\<exists>a u. m s = (Inr a, u) \<and> k a u = (Inr b, t))"
  by (cases "m s") (auto simp: andthen_def split: sum.splits)

lemma ok_ret [ok_simps]: "ret a s = (Inr b, t) \<longleftrightarrow> b = a \<and> t = s"
  by (auto simp: ret_def)

lemma ok_throw [ok_simps]: "\<not> throw e s = (Inr b, t)"
  by (simp add: throw_def)

lemma ok_reads [ok_simps]: "reads f s = (Inr b, t) \<longleftrightarrow> b = f s \<and> t = s"
  by (auto simp: reads_def)

lemma ok_writes [ok_simps]: "writes f s = (Inr b, t) \<longleftrightarrow> t = f s"
  by (auto simp: writes_def)

lemma ok_catching [ok_simps]:
  "catching m h s = (Inr b, t) \<longleftrightarrow>
     m s = (Inr b, t) \<or> (\<exists>e u. m s = (Inl e, u) \<and> h e u = (Inr b, t))"
  by (cases "m s") (auto simp: catching_def split: sum.splits)

lemma ok_attempt [ok_simps]: "attempt m s = (Inr b, t) \<longleftrightarrow> m s = (b, t)"
  by (cases "m s") (auto simp: attempt_def)

lemma ok_when_do [ok_simps]:
  "when_do c m s = (Inr b, t) \<longleftrightarrow> (if c then m s = (Inr b, t) else t = s)"
  by (auto simp: when_do_def ret_def)

section \<open>A Hoare calculus\<close>

text \<open>
  \<open>triple P m Q E\<close>: from a state that satisfies \<open>P\<close>, a return of \<open>m\<close> satisfies \<open>Q\<close> and a raise
  satisfies \<open>E\<close>. Computations are total, so this is total correctness.
\<close>

definition triple ::
  "('s \<Rightarrow> bool) \<Rightarrow> ('s, 'e, 'a) proc \<Rightarrow> ('a \<Rightarrow> 's \<Rightarrow> bool) \<Rightarrow> ('e \<Rightarrow> 's \<Rightarrow> bool) \<Rightarrow> bool"
where
  "triple P m Q E \<longleftrightarrow>
     (\<forall>s. P s \<longrightarrow> (case m s of (Inl e, t) \<Rightarrow> E e t | (Inr a, t) \<Rightarrow> Q a t))"

lemma tripleI:
  "(\<And>s. P s \<Longrightarrow> case m s of (Inl e, t) \<Rightarrow> E e t | (Inr a, t) \<Rightarrow> Q a t) \<Longrightarrow> triple P m Q E"
  by (simp add: triple_def)

lemma triple_returnD: "triple P m Q E \<Longrightarrow> P s \<Longrightarrow> m s = (Inr a, t) \<Longrightarrow> Q a t"
  by (fastforce simp: triple_def)

lemma triple_raiseD: "triple P m Q E \<Longrightarrow> P s \<Longrightarrow> m s = (Inl e, t) \<Longrightarrow> E e t"
  by (fastforce simp: triple_def)

lemma triple_weaken:
  assumes "triple P' m Q' E'" and "\<And>s. P s \<Longrightarrow> P' s"
    and "\<And>a s. Q' a s \<Longrightarrow> Q a s" and "\<And>e s. E' e s \<Longrightarrow> E e s"
  shows "triple P m Q E"
  using assms unfolding triple_def by (fastforce split: prod.splits sum.splits)

lemma triple_ret [triple_intro]: "(\<And>s. P s \<Longrightarrow> Q a s) \<Longrightarrow> triple P (ret a) Q E"
  by (simp add: triple_def ret_def)

lemma triple_throw [triple_intro]: "(\<And>s. P s \<Longrightarrow> E e s) \<Longrightarrow> triple P (throw e) Q E"
  by (simp add: triple_def throw_def)

lemma triple_reads [triple_intro]: "(\<And>s. P s \<Longrightarrow> Q (f s) s) \<Longrightarrow> triple P (reads f) Q E"
  by (simp add: triple_def reads_def)

lemma triple_writes [triple_intro]: "(\<And>s. P s \<Longrightarrow> Q () (f s)) \<Longrightarrow> triple P (writes f) Q E"
  by (simp add: triple_def writes_def)

lemma triple_andthen:
  assumes "triple P m R E" and "\<And>a. triple (R a) (k a) Q E"
  shows "triple P (andthen m k) Q E"
  using assms unfolding triple_def andthen_def by (fastforce split: prod.splits sum.splits)

lemma triple_catching:
  assumes "triple P m Q F" and "\<And>e. triple (F e) (h e) Q E"
  shows "triple P (catching m h) Q E"
  using assms unfolding triple_def catching_def by (fastforce split: prod.splits sum.splits)

lemma triple_attempt:
  assumes "triple P m (\<lambda>a. Q (Inr a)) (\<lambda>e. Q (Inl e))"
  shows "triple P (attempt m) Q E"
  using assms unfolding triple_def attempt_def by (fastforce split: prod.splits sum.splits)

lemma triple_if [triple_intro]:
  "(b \<Longrightarrow> triple P m Q E) \<Longrightarrow> (\<not> b \<Longrightarrow> triple P n Q E) \<Longrightarrow> triple P (if b then m else n) Q E"
  by simp

lemma triple_when_do [triple_intro]:
  "(b \<Longrightarrow> triple P m Q E) \<Longrightarrow> (\<not> b \<Longrightarrow> triple P (ret ()) Q E) \<Longrightarrow> triple P (when_do b m) Q E"
  by (simp add: when_do_def)

lemma triple_option [triple_intro]:
  "(v = None \<Longrightarrow> triple P m Q E) \<Longrightarrow> (\<And>x. v = Some x \<Longrightarrow> triple P (f x) Q E) \<Longrightarrow>
     triple P (case v of None \<Rightarrow> m | Some x \<Rightarrow> f x) Q E"
  by (cases v) auto

lemma triple_prod [triple_intro]:
  "(\<And>a b. v = (a, b) \<Longrightarrow> triple P (f a b) Q E) \<Longrightarrow> triple P (case v of (a, b) \<Rightarrow> f a b) Q E"
  by (cases v) auto

lemma triple_fact: "(c \<Longrightarrow> triple P m Q E) \<Longrightarrow> triple (\<lambda>s. P s \<and> c) m Q E"
  by (auto simp: triple_def)

lemma triple_for_each:
  assumes "\<And>x. x \<in> set xs \<Longrightarrow> triple I (f x) (\<lambda>_. I) E"
  shows "triple I (for_each xs f) (\<lambda>_. I) E"
  using assms
proof (induction xs)
  case Nil
  show ?case by (simp add: triple_ret)
next
  case (Cons x xs)
  then show ?case by (auto intro!: triple_andthen)
qed

lemma triple_fold_each:
  assumes "\<And>b x. x \<in> set xs \<Longrightarrow> triple (I b) (f b x) I E"
  shows "triple (I b) (fold_each xs b f) I E"
  using assms
proof (induction xs arbitrary: b)
  case Nil
  show ?case by (simp add: triple_ret)
next
  case (Cons x xs)
  then show ?case by (auto intro!: triple_andthen [where R = I])
qed

text \<open>An invariant that a computation keeps, whether it returns or raises.\<close>

definition keeps :: "('s \<Rightarrow> bool) \<Rightarrow> ('s, 'e, 'a) proc \<Rightarrow> bool" where
  "keeps I m \<longleftrightarrow> triple I m (\<lambda>_. I) (\<lambda>_. I)"

named_theorems keeps_intro \<open>computations that keep an invariant\<close>

lemma keepsD: "keeps I m \<Longrightarrow> I s \<Longrightarrow> I (snd (m s))"
  unfolding keeps_def triple_def by (cases "m s") (fastforce split: sum.splits)

lemma keepsI: "(\<And>s. I s \<Longrightarrow> I (snd (m s))) \<Longrightarrow> keeps I m"
  unfolding keeps_def triple_def by (force split: prod.splits sum.splits)

lemma keeps_ret [keeps_intro]: "keeps I (ret a)"
  by (simp add: keepsI run_simps)

lemma keeps_throw [keeps_intro]: "keeps I (throw e)"
  by (simp add: keepsI run_simps)

lemma keeps_reads [keeps_intro]: "keeps I (reads f)"
  by (simp add: keepsI run_simps)

lemma keeps_writes: "(\<And>s. I s \<Longrightarrow> I (f s)) \<Longrightarrow> keeps I (writes f)"
  by (simp add: keepsI run_simps)

lemma keeps_andthen [keeps_intro]:
  "keeps I m \<Longrightarrow> (\<And>a. keeps I (k a)) \<Longrightarrow> keeps I (andthen m k)"
  unfolding keeps_def by (rule triple_andthen)

lemma keeps_catching [keeps_intro]:
  "keeps I m \<Longrightarrow> (\<And>e. keeps I (h e)) \<Longrightarrow> keeps I (catching m h)"
  unfolding keeps_def by (rule triple_catching)

lemma keeps_attempt [keeps_intro]: "keeps I m \<Longrightarrow> keeps I (attempt m)"
  unfolding keeps_def by (rule triple_attempt) simp

lemma keeps_when_do [keeps_intro]: "keeps I m \<Longrightarrow> keeps I (when_do b m)"
  by (simp add: when_do_def keeps_ret)

lemma keeps_if [keeps_intro]: "keeps I m \<Longrightarrow> keeps I n \<Longrightarrow> keeps I (if b then m else n)"
  by simp

lemma keeps_for_each [keeps_intro]:
  "(\<And>x. x \<in> set xs \<Longrightarrow> keeps I (f x)) \<Longrightarrow> keeps I (for_each xs f)"
  unfolding keeps_def by (rule triple_for_each)

lemma keeps_fold_each [keeps_intro]:
  "(\<And>b x. x \<in> set xs \<Longrightarrow> keeps I (f b x)) \<Longrightarrow> keeps I (fold_each xs b f)"
  unfolding keeps_def by (rule triple_fold_each)

lemma keeps_option [keeps_intro]:
  "(v = None \<Longrightarrow> keeps I m) \<Longrightarrow> (\<And>x. v = Some x \<Longrightarrow> keeps I (f x)) \<Longrightarrow>
     keeps I (case v of None \<Rightarrow> m | Some x \<Rightarrow> f x)"
  by (cases v) auto

lemma keeps_sum [keeps_intro]:
  "(\<And>e. v = Inl e \<Longrightarrow> keeps I (g e)) \<Longrightarrow> (\<And>x. v = Inr x \<Longrightarrow> keeps I (f x)) \<Longrightarrow>
     keeps I (case v of Inl e \<Rightarrow> g e | Inr x \<Rightarrow> f x)"
  by (cases v) auto

lemma keeps_prod [keeps_intro]: "(\<And>a b. v = (a, b) \<Longrightarrow> keeps I (f a b)) \<Longrightarrow> keeps I (case v of (a, b) \<Rightarrow> f a b)"
  by (cases v) auto

section \<open>State machines\<close>

inductive reach :: "('s \<Rightarrow> bool) \<Rightarrow> ('s \<Rightarrow> 's \<Rightarrow> bool) \<Rightarrow> 's \<Rightarrow> bool" for start step where
  reach_start: "start s \<Longrightarrow> reach start step s"
| reach_step: "reach start step s \<Longrightarrow> step s t \<Longrightarrow> reach start step t"

text \<open>The contract between a component's steps and whoever relies on its invariant.\<close>

locale invariant_system =
  fixes start :: "'s \<Rightarrow> bool" and step :: "'s \<Rightarrow> 's \<Rightarrow> bool" and inv :: "'s \<Rightarrow> bool"
  assumes inv_start: "start s \<Longrightarrow> inv s"
    and inv_step: "step s t \<Longrightarrow> inv s \<Longrightarrow> inv t"
begin

lemma reach_inv: "reach start step s \<Longrightarrow> inv s"
  by (induction rule: reach.induct) (auto intro: inv_start inv_step)

lemma steps_inv: "step\<^sup>*\<^sup>* s t \<Longrightarrow> inv s \<Longrightarrow> inv t"
  by (induction rule: rtranclp_induct) (auto intro: inv_step)

end

text \<open>The elements of a list of results, when none is missing.\<close>

fun all_some :: "'a option list \<Rightarrow> 'a list option" where
  "all_some [] = Some []"
| "all_some (x # xs) = (case (x, all_some xs) of (Some y, Some ys) \<Rightarrow> Some (y # ys) | _ \<Rightarrow> None)"

end
