(* ===== verification/Py_Text.thy ===== *)
theory Py_Text
  imports Prelude
begin

text \<open>
  The parts of Python's \<open>str\<close> and \<open>re\<close> that the program uses. A string is a list of
  characters, one per code point, restricted to the code points below 256; on them the
  functions below agree with Python, except that the three characters whose upper case or
  case folding lies outside the range (micro sign, y with diaeresis, and the micro sign
  again when folded) are left unchanged.
\<close>

section \<open>Character classes and case\<close>

abbreviation ord :: "char \<Rightarrow> nat" where
  "ord c \<equiv> of_char c"

definition is_space :: "char \<Rightarrow> bool" where
  "is_space c = (let n = ord c in (9 \<le> n \<and> n \<le> 13) \<or> (28 \<le> n \<and> n \<le> 32) \<or> n = 133 \<or> n = 160)"

definition is_digit :: "char \<Rightarrow> bool" where
  "is_digit c = (let n = ord c in 48 \<le> n \<and> n \<le> 57)"

definition is_lower_alnum :: "char \<Rightarrow> bool" where
  "is_lower_alnum c = (let n = ord c in (97 \<le> n \<and> n \<le> 122) \<or> (48 \<le> n \<and> n \<le> 57))"

definition lower_char :: "char \<Rightarrow> char" where
  "lower_char c =
     (let n = ord c in
      if (65 \<le> n \<and> n \<le> 90) \<or> (192 \<le> n \<and> n \<le> 222 \<and> n \<noteq> 215) then char_of (n + 32) else c)"

definition upper_char :: "char \<Rightarrow> string" where
  "upper_char c =
     (let n = ord c in
      if n = 223 then ''SS''
      else if (97 \<le> n \<and> n \<le> 122) \<or> (224 \<le> n \<and> n \<le> 254 \<and> n \<noteq> 247) then [char_of (n - 32)]
      else [c])"

definition lower :: "string \<Rightarrow> string" where
  "lower s = map lower_char s"

definition upper :: "string \<Rightarrow> string" where
  "upper s = concat (map upper_char s)"

definition casefold :: "string \<Rightarrow> string" where
  "casefold s = concat (map (\<lambda>c. if ord c = 223 then ''ss'' else [lower_char c]) s)"

lemma ord_char_of: "n < 256 \<Longrightarrow> ord (char_of n) = n"
  by (simp add: of_char_of)

lemma ord_lower_char:
  "ord (lower_char c) =
     (if (65 \<le> ord c \<and> ord c \<le> 90) \<or> (192 \<le> ord c \<and> ord c \<le> 222 \<and> ord c \<noteq> 215)
      then ord c + 32 else ord c)"
  by (auto simp: lower_char_def Let_def ord_char_of)

lemma lower_char_idem [simp]: "lower_char (lower_char c) = lower_char c"
  unfolding lower_char_def [of "lower_char c"] Let_def ord_lower_char by auto

lemma lower_idem [simp]: "lower (lower s) = lower s"
  by (simp add: lower_def)

lemma lower_append [simp]: "lower (s @ t) = lower s @ lower t"
  by (simp add: lower_def)

lemma lower_Nil [simp]: "lower [] = []" and lower_eq_Nil [simp]: "lower s = [] \<longleftrightarrow> s = []"
  by (simp_all add: lower_def)

section \<open>Stripping, prefixes, splitting\<close>

definition lstrip_by :: "(char \<Rightarrow> bool) \<Rightarrow> string \<Rightarrow> string" where
  "lstrip_by p s = dropWhile p s"

definition rstrip_by :: "(char \<Rightarrow> bool) \<Rightarrow> string \<Rightarrow> string" where
  "rstrip_by p s = rev (dropWhile p (rev s))"

definition strip_by :: "(char \<Rightarrow> bool) \<Rightarrow> string \<Rightarrow> string" where
  "strip_by p s = rstrip_by p (lstrip_by p s)"

definition strip :: "string \<Rightarrow> string" where
  "strip s = strip_by is_space s"

definition starts_with :: "string \<Rightarrow> string \<Rightarrow> bool" where
  "starts_with p s = (take (length p) s = p)"

definition ends_with :: "string \<Rightarrow> string \<Rightarrow> bool" where
  "ends_with p s = starts_with (rev p) (rev s)"

fun contains :: "string \<Rightarrow> string \<Rightarrow> bool" where
  "contains p [] = (p = [])"
| "contains p (c # s) = (starts_with p (c # s) \<or> contains p s)"

text \<open>
  \<open>partition_on p s\<close>: the text before and after the first occurrence of the non-empty
  separator \<open>p\<close>, as \<open>s.split(p, 1)\<close> yields it; \<open>None\<close> when it does not occur.
\<close>

fun partition_on :: "string \<Rightarrow> string \<Rightarrow> (string \<times> string) option" where
  "partition_on p [] = None"
| "partition_on p (c # s) =
     (if starts_with p (c # s) then Some ([], drop (length p) (c # s))
      else map_option (\<lambda>(a, b). (c # a, b)) (partition_on p s))"

definition before_first :: "string \<Rightarrow> string \<Rightarrow> string" where
  "before_first p s = (case partition_on p s of None \<Rightarrow> s | Some (a, b) \<Rightarrow> a)"

fun split_on :: "char \<Rightarrow> string \<Rightarrow> string list" where
  "split_on d [] = [[]]"
| "split_on d (c # s) =
     (if c = d then [] # split_on d s
      else case split_on d s of [] \<Rightarrow> [[c]] | w # ws \<Rightarrow> (c # w) # ws)"

text \<open>\<open>s.rsplit(d, 1)[-1]\<close>: what follows the last separator.\<close>

definition after_last :: "char \<Rightarrow> string \<Rightarrow> string" where
  "after_last d s = rev (takeWhile (\<lambda>c. c \<noteq> d) (rev s))"

fun join :: "string \<Rightarrow> string list \<Rightarrow> string" where
  "join d [] = []"
| "join d [w] = w"
| "join d (w # ws) = w @ d @ join d ws"

definition replace_char :: "char \<Rightarrow> string \<Rightarrow> string \<Rightarrow> string" where
  "replace_char c t s = concat (map (\<lambda>x. if x = c then t else [x]) s)"

lemma starts_with_append: "starts_with p s \<longleftrightarrow> (\<exists>t. s = p @ t)"
  unfolding starts_with_def by (metis append_eq_conv_conj append_take_drop_id)

lemma starts_with_prefix [simp]: "starts_with p (p @ s)"
  by (auto simp: starts_with_append)

lemma partition_on_SomeD: "partition_on p s = Some (a, b) \<Longrightarrow> s = a @ p @ b"
  by (induction s arbitrary: a b) (auto split: if_splits simp: starts_with_append)

lemma strip_by_subset: "set (strip_by p s) \<subseteq> set s"
  unfolding strip_by_def rstrip_by_def lstrip_by_def
  by (auto dest!: set_dropWhileD)

lemma lstrip_idle: "s = [] \<or> \<not> p (hd s) \<Longrightarrow> lstrip_by p s = s"
  by (cases s) (auto simp: lstrip_by_def)

lemma rstrip_idle: "s = [] \<or> \<not> p (last s) \<Longrightarrow> rstrip_by p s = s"
  by (cases s rule: rev_cases) (auto simp: rstrip_by_def)

lemma rstrip_last: "rstrip_by p s \<noteq> [] \<Longrightarrow> \<not> p (last (rstrip_by p s))"
  unfolding rstrip_by_def by (metis hd_dropWhile last_rev rev_is_Nil_conv)

lemma rstrip_hd: "rstrip_by p s \<noteq> [] \<Longrightarrow> hd (rstrip_by p s) = hd s"
proof -
  have "s = rstrip_by p s @ rev (takeWhile p (rev s))"
    unfolding rstrip_by_def by (metis rev_append rev_rev_ident takeWhile_dropWhile_id)
  then show "rstrip_by p s \<noteq> [] \<Longrightarrow> hd (rstrip_by p s) = hd s"
    by (metis hd_append2)
qed

lemma strip_by_ends:
  assumes "strip_by p s \<noteq> []"
  shows "\<not> p (hd (strip_by p s))" and "\<not> p (last (strip_by p s))"
proof -
  from assms have "lstrip_by p s \<noteq> []"
    by (auto simp: strip_by_def rstrip_by_def)
  then have "\<not> p (hd (lstrip_by p s))"
    unfolding lstrip_by_def by (rule hd_dropWhile)
  with assms show "\<not> p (hd (strip_by p s))"
    by (simp add: strip_by_def rstrip_hd)
  from assms show "\<not> p (last (strip_by p s))"
    unfolding strip_by_def by (rule rstrip_last)
qed

lemma strip_by_idem [simp]: "strip_by p (strip_by p s) = strip_by p s"
proof (cases "strip_by p s = []")
  case True
  have "strip_by p [] = []" by (simp add: strip_by_def lstrip_by_def rstrip_by_def)
  with True show ?thesis by (simp only: True)
next
  case False
  then show ?thesis
    using strip_by_ends [OF False]
    by (simp add: strip_by_def [of p "strip_by p s"] lstrip_idle rstrip_idle)
qed

section \<open>Decimal numerals\<close>

fun nat_digits :: "nat \<Rightarrow> string" where
  "nat_digits n = (if n < 10 then [char_of (48 + n)] else nat_digits (n div 10) @ [char_of (48 + n mod 10)])"

declare nat_digits.simps [simp del]

definition str_int :: "int \<Rightarrow> string" where
  "str_int i = (if i < 0 then CHR ''-'' # nat_digits (nat (- i)) else nat_digits (nat i))"

abbreviation str_nat :: "nat \<Rightarrow> string" where
  "str_nat n \<equiv> nat_digits n"

text \<open>Reading a non-empty run of ASCII digits, as \<open>int\<close> does.\<close>

definition read_nat :: "string \<Rightarrow> nat" where
  "read_nat s = foldl (\<lambda>n c. 10 * n + (ord c - 48)) 0 s"

definition all_digits :: "string \<Rightarrow> bool" where
  "all_digits s = (s \<noteq> [] \<and> list_all is_digit s)"

lemma ord_digit: "k < 10 \<Longrightarrow> ord (char_of (48 + k)) = 48 + k"
  by (simp add: ord_char_of)

lemma all_digits_nat_digits: "all_digits (nat_digits n)"
proof (induction n rule: nat_digits.induct)
  case (1 n)
  have d: "is_digit (char_of (48 + k))" if "k < 10" for k :: nat
    using that by (simp add: is_digit_def Let_def ord_digit)
  show ?case
  proof (cases "n < 10")
    case True
    then show ?thesis by (simp add: nat_digits.simps [of n] all_digits_def d)
  next
    case False
    with "1.IH" have "all_digits (nat_digits (n div 10))" by simp
    with False show ?thesis
      by (simp add: nat_digits.simps [of n] all_digits_def d)
  qed
qed

lemma read_nat_digits [simp]: "read_nat (nat_digits n) = n"
proof (induction n rule: nat_digits.induct)
  case (1 n)
  show ?case
  proof (cases "n < 10")
    case True
    then show ?thesis by (simp add: nat_digits.simps [of n] read_nat_def ord_digit)
  next
    case False
    with "1.IH" have "read_nat (nat_digits (n div 10)) = n div 10" by simp
    with False show ?thesis
      by (simp add: nat_digits.simps [of n] read_nat_def ord_digit)
  qed
qed

lemma nat_digits_inj [simp]: "nat_digits m = nat_digits n \<longleftrightarrow> m = n"
  by (metis read_nat_digits)

lemma digits_no_mark: "is_digit c = False \<Longrightarrow> c \<notin> set (nat_digits n)"
  using all_digits_nat_digits [of n] by (auto simp: all_digits_def list_all_iff)

text \<open>A text followed by a mark and a numeral determines both.\<close>

lemma mark_numeral_inj:
  assumes "is_digit c = False"
  shows "s @ c # nat_digits m = t @ c # nat_digits n \<longleftrightarrow> s = t \<and> m = n"
proof
  assume eq: "s @ c # nat_digits m = t @ c # nat_digits n"
  have no: "c \<notin> set (nat_digits k)" for k
    by (rule digits_no_mark [OF assms])
  have "rev (s @ c # nat_digits m) = rev (t @ c # nat_digits n)"
    using eq by simp
  then have e: "rev (nat_digits m) @ c # rev s = rev (nat_digits n) @ c # rev t"
    by simp
  have "takeWhile (\<lambda>x. x \<noteq> c) (rev (nat_digits k) @ c # r) = rev (nat_digits k)" for k r
    using no [of k] by (subst takeWhile_append2) auto
  with e have "rev (nat_digits m) = rev (nat_digits n)"
    by metis
  then have "nat_digits m = nat_digits n" by simp
  with e show "s = t \<and> m = n" by simp
qed simp

section \<open>The two normalising substitutions\<close>

text \<open>
  The pattern \<open>[^a-z0-9]+\<close> replaced by a given text: each maximal run of other characters
  becomes one replacement.
\<close>

function noise_sub :: "string \<Rightarrow> string \<Rightarrow> string" where
  "noise_sub r [] = []"
| "noise_sub r (c # s) =
     (if is_lower_alnum c then c # noise_sub r s
      else r @ noise_sub r (dropWhile (\<lambda>x. \<not> is_lower_alnum x) s))"
  by pat_completeness auto
termination
  by (relation "measure (\<lambda>(r, s). length s)") (auto simp: le_imp_less_Suc length_dropWhile_le)

text \<open>
  The pattern \<open>\s*[\(\[]?\s*(feat|ft|with)\.?\s.*$\<close> at the start of a text: what follows
  the match, or \<open>None\<close>. White space, brackets and letters are disjoint, so the greedy
  choices never need to be undone. \<open>.\<close> stops at a line feed and \<open>$\<close> also stands before
  a final line feed.
\<close>

definition line_rest :: "string \<Rightarrow> string option" where
  "line_rest s =
     (let r = dropWhile (\<lambda>c. ord c \<noteq> 10) s in
      if r = [] then Some [] else if length r = 1 then Some r else None)"

definition feat_tail :: "string \<Rightarrow> string option" where
  "feat_tail s =
     (let s1 = (case s of [] \<Rightarrow> [] | c # t \<Rightarrow> if c = CHR ''.'' then t else s) in
      case s1 of [] \<Rightarrow> None | c # t \<Rightarrow> if is_space c then line_rest t else None)"

definition feat_word :: "string \<Rightarrow> string option" where
  "feat_word s =
     (if starts_with ''feat'' s then Some (drop 4 s)
      else if starts_with ''ft'' s then Some (drop 2 s)
      else if starts_with ''with'' s then Some (drop 4 s) else None)"

definition feat_match :: "string \<Rightarrow> string option" where
  "feat_match s =
     (let s1 = lstrip_by is_space s;
          s2 = (case s1 of [] \<Rightarrow> [] | c # t \<Rightarrow> if c = CHR ''('' \<or> c = CHR ''['' then t else s1);
          s3 = lstrip_by is_space s2
      in case feat_word s3 of None \<Rightarrow> None | Some t \<Rightarrow> feat_tail t)"

text \<open>
  Substituting the empty text for every match: a match leaves at most a final line feed,
  which cannot match again, so the scan goes on over what is left.
\<close>

fun feat_sub :: "string \<Rightarrow> string" where
  "feat_sub [] = []"
| "feat_sub (c # s) =
     (case feat_match (c # s) of Some r \<Rightarrow> r | None \<Rightarrow> c # feat_sub s)"

lemma line_rest_cases: "line_rest s = Some r \<Longrightarrow> r = [] \<or> (\<exists>c. r = [c] \<and> ord c = 10)"
proof -
  assume a: "line_rest s = Some r"
  define d where "d = dropWhile (\<lambda>c. ord c \<noteq> 10) s"
  have hd: "d \<noteq> [] \<Longrightarrow> ord (hd d) = 10"
    unfolding d_def using hd_dropWhile [of "\<lambda>c. ord c \<noteq> 10" s] by simp
  from a have "(if d = [] then Some [] else if length d = 1 then Some d else None) = Some r"
    by (simp only: line_rest_def Let_def d_def)
  with hd show ?thesis
    by (cases d) (auto split: if_splits)
qed

lemma feat_match_rest: "feat_match s = Some r \<Longrightarrow> r = [] \<or> (\<exists>c. r = [c] \<and> ord c = 10)"
  by (auto simp: feat_match_def feat_tail_def Let_def
      split: option.splits list.splits if_splits dest: line_rest_cases)

lemma feat_match_newline: "ord c = 10 \<Longrightarrow> feat_match [c] = None"
  by (simp add: feat_match_def lstrip_by_def is_space_def Let_def feat_word_def starts_with_def)

definition tidy :: "string \<Rightarrow> string" where
  "tidy s = strip (noise_sub '' '' s)"

lemma noise_sub_chars: "set (noise_sub r s) \<subseteq> set r \<union> {c. is_lower_alnum c}"
  by (induction r s rule: noise_sub.induct) auto

lemma space_not_alnum: "is_space c \<Longrightarrow> \<not> is_lower_alnum c"
  by (auto simp: is_space_def is_lower_alnum_def Let_def)

lemma is_space_blank [simp]: "is_space (CHR '' '')"
  by (simp add: is_space_def)

text \<open>No two separators in a row survive the noise substitution.\<close>

definition spaced :: "string \<Rightarrow> bool" where
  "spaced s = (\<forall>i. Suc i < length s \<longrightarrow> is_lower_alnum (s ! i) \<or> is_lower_alnum (s ! Suc i))"

lemma spaced_Cons: "spaced (c # s) \<longleftrightarrow> spaced s \<and> (s = [] \<or> is_lower_alnum c \<or> is_lower_alnum (hd s))"
  unfolding spaced_def by (cases s) (auto simp: nth_Cons split: nat.splits)

lemma noise_sub_hd:
  "s = [] \<or> is_lower_alnum (hd s) \<Longrightarrow> noise_sub r s = [] \<or> is_lower_alnum (hd (noise_sub r s))"
  by (cases s) auto

lemma dropWhile_hd_alnum:
  "dropWhile (\<lambda>x. \<not> is_lower_alnum x) s = [] \<or> is_lower_alnum (hd (dropWhile (\<lambda>x. \<not> is_lower_alnum x) s))"
  by (metis (mono_tags, lifting) hd_dropWhile)

lemma noise_sub_spaced: "spaced (noise_sub '' '' s)"
proof (induction "'' ''" s rule: noise_sub.induct)
  case 1
  then show ?case by (simp add: spaced_def)
next
  case (2 c s)
  then show ?case
    using noise_sub_hd [OF dropWhile_hd_alnum, of "'' ''" s]
    by (auto simp: spaced_Cons)
qed

end
