(* ===== verification/Json.thy ===== *)
theory Json
  imports Py_Text "HOL-Library.List_Lexorder" "HOL-Library.Char_ord"
    "HOL-Library.Multiset"
begin

text \<open>
  JSON values and their canonical text, as \<open>json.dumps\<close> writes them with compact separators.
  Numbers are integers: no payload the model serialises holds a fractional number.
\<close>

datatype json =
    JNull
  | JBool bool
  | JInt int
  | JStr string
  | JList "json list"
  | JObj "(string \<times> json) list"

definition hex4 :: "nat \<Rightarrow> string" where
  "hex4 n = map (\<lambda>k. (let d = n div 16 ^ k mod 16 in
      if d < 10 then char_of (48 + d) else char_of (87 + d))) [3, 2, 1, 0]"

text \<open>ASCII output: quote, backslash, the short escapes, and \<open>\uXXXX\<close> outside the printable range.\<close>

definition escape_char :: "char \<Rightarrow> string" where
  "escape_char c =
     (let n = ord c in
      if n = 34 then [char_of (92::nat), char_of (34::nat)]
      else if n = 92 then [char_of (92::nat), char_of (92::nat)]
      else if n = 10 then [char_of (92::nat), CHR ''n'']
      else if n = 13 then [char_of (92::nat), CHR ''r'']
      else if n = 9 then [char_of (92::nat), CHR ''t'']
      else if n = 8 then [char_of (92::nat), CHR ''b'']
      else if n = 12 then [char_of (92::nat), CHR ''f'']
      else if n < 32 \<or> 126 < n then char_of (92::nat) # CHR ''u'' # hex4 n
      else [c])"

definition json_string :: "string \<Rightarrow> string" where
  "json_string s = char_of (34::nat) # concat (map escape_char s) @ [char_of (34::nat)]"

text \<open>Sorting the members of an object by key; the sort is stable and keys are distinct.\<close>

definition sort_members :: "(string \<times> 'a) list \<Rightarrow> (string \<times> 'a) list" where
  "sort_members ms = sort_key fst ms"

fun dumps :: "bool \<Rightarrow> json \<Rightarrow> string" where
  "dumps sk JNull = ''null''"
| "dumps sk (JBool b) = (if b then ''true'' else ''false'')"
| "dumps sk (JInt i) = str_int i"
| "dumps sk (JStr s) = json_string s"
| "dumps sk (JList vs) = ''['' @ join '','' (map (dumps sk) vs) @ '']''"
| "dumps sk (JObj ms) =
     (let parts = map (\<lambda>(k, v). (k, json_string k @ '':'' @ dumps sk v)) ms
      in ''{'' @ join '','' (map snd (if sk then sort_members parts else parts)) @ ''}'')"

definition opt_str :: "string option \<Rightarrow> json" where
  "opt_str v = (case v of None \<Rightarrow> JNull | Some s \<Rightarrow> JStr s)"

definition opt_int :: "int option \<Rightarrow> json" where
  "opt_int v = (case v of None \<Rightarrow> JNull | Some i \<Rightarrow> JInt i)"

definition opt_bool :: "bool option \<Rightarrow> json" where
  "opt_bool v = (case v of None \<Rightarrow> JNull | Some b \<Rightarrow> JBool b)"

definition json_get :: "json \<Rightarrow> string \<Rightarrow> json option" where
  "json_get v k = (case v of JObj ms \<Rightarrow> map_of ms k | _ \<Rightarrow> None)"

text \<open>Python's truth value of a decoded JSON value.\<close>

definition json_truthy :: "json \<Rightarrow> bool" where
  "json_truthy v =
     (case v of JNull \<Rightarrow> False | JBool b \<Rightarrow> b | JInt i \<Rightarrow> i \<noteq> 0 | JStr s \<Rightarrow> s \<noteq> []
      | JList vs \<Rightarrow> vs \<noteq> [] | JObj ms \<Rightarrow> ms \<noteq> [])"

text \<open>With sorted keys the text of an object does not depend on the order of its members.\<close>

lemma sort_members_perm:
  assumes "mset ms = mset ms'" and "distinct (map fst ms)"
  shows "sort_members ms = sort_members ms'"
proof (rule map_sorted_distinct_set_unique [where f = fst])
  have set: "set ms = set ms'" using assms(1) by (metis set_mset_mset)
  have keys: "mset (map fst ms) = mset (map fst ms')" using assms(1) by simp
  have dist: "distinct (map fst ms')" using assms(2) keys by (metis mset_eq_imp_distinct_iff)
  show "inj_on fst (set (sort_members ms) \<union> set (sort_members ms'))"
    using assms(2) set by (simp add: sort_members_def distinct_map)
  have d: "distinct (map fst (sort_members xs))" if "distinct (map fst xs)" for xs :: "(string \<times> 'a) list"
    using that by (simp add: sort_members_def distinct_map)
  show "distinct (map fst (sort_members ms))" and "distinct (map fst (sort_members ms'))"
    by (rule d [OF assms(2)], rule d [OF dist])
  show "set (sort_members ms) = set (sort_members ms')"
    using set by (simp add: sort_members_def)
qed (simp_all add: sort_members_def)

end
