(* ===== verification/Models.thy ===== *)
theory Models
  imports Json
begin

text \<open>
  The interchange model (\<open>app/core/models.py\<close>) and the capability descriptors
  (\<open>app/core/capabilities.py\<close>): enumerations as datatypes with the string each member stands
  for, pydantic classes as records with the field defaults written out. Fields carry a short
  prefix per class, since HOL records share one name space. Time stamps that are only carried
  along (\<open>added_at\<close>, \<open>created_at\<close>, \<open>updated_at\<close>) are their ISO texts.
\<close>

section \<open>Enumerations\<close>

datatype media_type = TRACK | EPISODE | VIDEO | LOCAL_FILE | UNKNOWN

fun media_value :: "media_type \<Rightarrow> string" where
  "media_value TRACK = ''track''"
| "media_value EPISODE = ''episode''"
| "media_value VIDEO = ''video''"
| "media_value LOCAL_FILE = ''local_file''"
| "media_value UNKNOWN = ''unknown''"

datatype playlist_kind = STANDARD | LIKED_TRACKS

fun kind_value :: "playlist_kind \<Rightarrow> string" where
  "kind_value STANDARD = ''standard''"
| "kind_value LIKED_TRACKS = ''liked_tracks''"

datatype entity_type = E_TRACK | E_ALBUM | E_ARTIST

fun entity_value :: "entity_type \<Rightarrow> string" where
  "entity_value E_TRACK = ''track''"
| "entity_value E_ALBUM = ''album''"
| "entity_value E_ARTIST = ''artist''"

datatype artist_semantics = FOLLOW | FAVORITE

fun semantics_value :: "artist_semantics \<Rightarrow> string" where
  "semantics_value FOLLOW = ''follow''"
| "semantics_value FAVORITE = ''favorite''"

lemma media_value_inj [simp]: "media_value a = media_value b \<longleftrightarrow> a = b"
  by (cases a; cases b) simp_all

lemma kind_value_inj [simp]: "kind_value a = kind_value b \<longleftrightarrow> a = b"
  by (cases a; cases b) simp_all

lemma entity_value_inj [simp]: "entity_value a = entity_value b \<longleftrightarrow> a = b"
  by (cases a; cases b) simp_all

section \<open>Dates\<close>

datatype date = Date (date_year: int) (date_month: int) (date_day: int)

definition two_digits :: "int \<Rightarrow> string" where
  "two_digits n = (if n < 10 then CHR ''0'' # str_int n else str_int n)"

definition four_digits :: "int \<Rightarrow> string" where
  "four_digits n = (let s = str_int n in replicate (4 - length s) (CHR ''0'') @ s)"

definition date_text :: "date \<Rightarrow> string" where
  "date_text d = four_digits (date_year d) @ ''-'' @ two_digits (date_month d) @ ''-'' @ two_digits (date_day d)"

instantiation date :: linorder
begin

definition less_eq_date :: "date \<Rightarrow> date \<Rightarrow> bool" where
  "d \<le> e \<longleftrightarrow> date_year d < date_year e \<or> (date_year d = date_year e \<and>
     (date_month d < date_month e \<or> (date_month d = date_month e \<and> date_day d \<le> date_day e)))"

definition less_date :: "date \<Rightarrow> date \<Rightarrow> bool" where
  "d < e \<longleftrightarrow> d \<le> e \<and> \<not> e \<le> (d :: date)"

instance
  by standard (auto simp: less_eq_date_def less_date_def intro: date.expand)

end

text \<open>
  A \<open>datetime\<close>: seconds since the epoch when it knows its zone, local seconds otherwise.
\<close>

datatype datetime = Aware int | Naive int

section \<open>Tracks, playlists and library entities\<close>

record credit =
  cr_role :: string
  cr_name :: string
  cr_instrument :: "string option"
  cr_uri :: "string option"

record track =
  trk_id :: "string option"
  trk_title :: string
  trk_artist :: string
  trk_album :: "string option"
  trk_duration_s :: "int option"
  trk_release_date :: "date option"
  trk_release_year :: "int option"
  trk_genre :: "string option"
  trk_track_number :: "int option"
  trk_disc_number :: "int option"
  trk_explicit :: "bool option"
  trk_composer :: "string option"
  trk_credits :: "credit list"
  trk_label :: "string option"
  trk_isrc :: "string option"
  trk_artwork_uri :: "string option"
  trk_provider_uris :: "(string, string) dict"
  trk_metadata :: "(string, json) dict"
  trk_migration_status :: "string option"
  trk_migrated_target_playlist_id :: "string option"
  trk_migrated_target_uri :: "string option"
  trk_position :: "int option"
  trk_media_type :: media_type
  trk_is_local :: bool
  trk_source_item_id :: "string option"
  trk_added_at :: "string option"
  trk_unsupported_reason :: "string option"

definition new_track :: "string \<Rightarrow> string \<Rightarrow> track" where
  "new_track title artist =
     \<lparr>trk_id = None, trk_title = title, trk_artist = artist, trk_album = None,
      trk_duration_s = None, trk_release_date = None, trk_release_year = None,
      trk_genre = None, trk_track_number = None, trk_disc_number = None,
      trk_explicit = None, trk_composer = None, trk_credits = [], trk_label = None,
      trk_isrc = None, trk_artwork_uri = None, trk_provider_uris = [], trk_metadata = [],
      trk_migration_status = None, trk_migrated_target_playlist_id = None,
      trk_migrated_target_uri = None, trk_position = None, trk_media_type = TRACK,
      trk_is_local = False, trk_source_item_id = None, trk_added_at = None,
      trk_unsupported_reason = None\<rparr>"

definition is_migratable :: "track \<Rightarrow> bool" where
  "is_migratable t = (trk_media_type t = TRACK \<and> \<not> trk_is_local t)"

record playlist_selection =
  psel_playlist_ids :: "string list"
  psel_tracks :: "(string, string list) dict"

record album =
  alb_id :: "string option"
  alb_title :: string
  alb_artists :: "string list"
  alb_upc :: "string option"
  alb_release_date :: "date option"
  alb_release_year :: "int option"
  alb_artwork_uri :: "string option"
  alb_provider_uris :: "(string, string) dict"
  alb_metadata :: "(string, json) dict"
  alb_source_item_id :: "string option"
  alb_added_at :: "string option"

record artist =
  art_id :: "string option"
  art_name :: string
  art_artwork_uri :: "string option"
  art_provider_uris :: "(string, string) dict"
  art_metadata :: "(string, json) dict"
  art_source_item_id :: "string option"
  art_added_at :: "string option"

record playlist_ref =
  ref_id :: string
  ref_name :: string
  ref_track_count :: "int option"
  ref_owner_id :: "string option"
  ref_owner_name :: "string option"
  ref_is_owned :: "bool option"
  ref_is_followed :: "bool option"
  ref_collaborative :: "bool option"
  ref_snapshot_id :: "string option"
  ref_tracks_href :: "string option"
  ref_created_at :: "string option"
  ref_updated_at :: "string option"
  ref_migration_status :: "string option"
  ref_migrated_track_count :: int
  ref_remaining_track_count :: "int option"
  ref_migration_note :: "string option"
  ref_kind :: playlist_kind

definition new_ref :: "string \<Rightarrow> string \<Rightarrow> playlist_ref" where
  "new_ref i n =
     \<lparr>ref_id = i, ref_name = n, ref_track_count = None, ref_owner_id = None,
      ref_owner_name = None, ref_is_owned = None, ref_is_followed = None,
      ref_collaborative = None, ref_snapshot_id = None, ref_tracks_href = None,
      ref_created_at = None, ref_updated_at = None, ref_migration_status = None,
      ref_migrated_track_count = 0, ref_remaining_track_count = None,
      ref_migration_note = None, ref_kind = STANDARD\<rparr>"

record playlist =
  pl_id :: "string option"
  pl_name :: string
  pl_description :: "string option"
  pl_photo :: "string option"
  pl_tracks :: "track list"
  pl_owner_id :: "string option"
  pl_owner_name :: "string option"
  pl_is_owned :: "bool option"
  pl_is_followed :: "bool option"
  pl_collaborative :: "bool option"
  pl_snapshot_id :: "string option"
  pl_created_at :: "string option"
  pl_updated_at :: "string option"
  pl_kind :: playlist_kind

definition new_playlist :: "string option \<Rightarrow> string \<Rightarrow> track list \<Rightarrow> playlist" where
  "new_playlist i n ts =
     \<lparr>pl_id = i, pl_name = n, pl_description = None, pl_photo = None, pl_tracks = ts,
      pl_owner_id = None, pl_owner_name = None, pl_is_owned = None, pl_is_followed = None,
      pl_collaborative = None, pl_snapshot_id = None, pl_created_at = None,
      pl_updated_at = None, pl_kind = STANDARD\<rparr>"

section \<open>The JSON form of a track\<close>

text \<open>\<open>model_dump(mode="json")\<close>: every field, in declaration order.\<close>

definition credit_json :: "credit \<Rightarrow> json" where
  "credit_json c = JObj [(''role'', JStr (cr_role c)), (''name'', JStr (cr_name c)),
     (''instrument'', opt_str (cr_instrument c)), (''uri'', opt_str (cr_uri c))]"

definition track_json :: "track \<Rightarrow> json" where
  "track_json t = JObj
     [(''id'', opt_str (trk_id t)),
      (''title'', JStr (trk_title t)),
      (''artist'', JStr (trk_artist t)),
      (''album'', opt_str (trk_album t)),
      (''duration_s'', opt_int (trk_duration_s t)),
      (''release_date'', opt_str (map_option date_text (trk_release_date t))),
      (''release_year'', opt_int (trk_release_year t)),
      (''genre'', opt_str (trk_genre t)),
      (''track_number'', opt_int (trk_track_number t)),
      (''disc_number'', opt_int (trk_disc_number t)),
      (''explicit'', opt_bool (trk_explicit t)),
      (''composer'', opt_str (trk_composer t)),
      (''credits'', JList (map credit_json (trk_credits t))),
      (''label'', opt_str (trk_label t)),
      (''isrc'', opt_str (trk_isrc t)),
      (''artwork_uri'', opt_str (trk_artwork_uri t)),
      (''provider_uris'', JObj (map (\<lambda>(k, v). (k, JStr v)) (trk_provider_uris t))),
      (''metadata'', JObj (trk_metadata t)),
      (''migration_status'', opt_str (trk_migration_status t)),
      (''migrated_target_playlist_id'', opt_str (trk_migrated_target_playlist_id t)),
      (''migrated_target_uri'', opt_str (trk_migrated_target_uri t)),
      (''position'', opt_int (trk_position t)),
      (''media_type'', JStr (media_value (trk_media_type t))),
      (''is_local'', JBool (trk_is_local t)),
      (''source_item_id'', opt_str (trk_source_item_id t)),
      (''added_at'', opt_str (trk_added_at t)),
      (''unsupported_reason'', opt_str (trk_unsupported_reason t))]"

text \<open>The members of the stored object.\<close>

definition track_members :: "track \<Rightarrow> (string, json) dict" where
  "track_members t = (case track_json t of JObj ms \<Rightarrow> ms | _ \<Rightarrow> [])"

section \<open>Capabilities\<close>

datatype capability =
    READ_PLAYLISTS | READ_TRACKS | READ_LIBRARY | WRITE_LIBRARY
  | READ_SAVED_ALBUMS | WRITE_SAVED_ALBUMS | READ_FOLLOWED_ARTISTS | WRITE_FOLLOWED_ARTISTS
  | CREATE_PLAYLIST | ADD_TRACKS | REMOVE_TRACKS | UNFOLLOW_PLAYLIST | DELETE_PLAYLIST
  | REORDER | SET_COVER | SET_DESCRIPTION

datatype search_mode = BY_ISRC | BY_TEXT

datatype ordering_guarantee = PRESERVED | BEST_EFFORT | UNORDERED

datatype stability = STABLE | BETA | EXPERIMENTAL | UNAVAILABLE

record capability_descriptor =
  cap_set :: "capability list"
  cap_has_isrc :: bool
  cap_search_modes :: "search_mode list"
  cap_official :: bool
  cap_stability :: stability
  cap_max_add_batch :: int
  cap_max_remove_batch :: int
  cap_max_library_batch :: int
  cap_max_playlist_size :: "int option"
  cap_supports_duplicates :: bool
  cap_ordering :: ordering_guarantee
  cap_description_max_len :: "int option"
  cap_search_quota_cost :: int
  cap_write_quota_cost :: int
  cap_daily_quota :: "int option"
  cap_warning :: "string option"

definition new_capabilities :: "capability list \<Rightarrow> capability_descriptor" where
  "new_capabilities cs =
     \<lparr>cap_set = cs, cap_has_isrc = False, cap_search_modes = [BY_TEXT], cap_official = True,
      cap_stability = STABLE, cap_max_add_batch = 100, cap_max_remove_batch = 100,
      cap_max_library_batch = 50, cap_max_playlist_size = None, cap_supports_duplicates = True,
      cap_ordering = PRESERVED, cap_description_max_len = None, cap_search_quota_cost = 1,
      cap_write_quota_cost = 1, cap_daily_quota = None, cap_warning = None\<rparr>"

definition can :: "capability_descriptor \<Rightarrow> capability \<Rightarrow> bool" where
  "can d c = (c \<in> set (cap_set d))"

end
