(* ===== verification/Adapter.thy ===== *)
theory Adapter
  imports Models Complex_Main
begin

text \<open>
  The provider plugin contract (\<open>app/core/adapter.py\<close>) and the registry
  (\<open>app/core/registry.py\<close>). The music services behind an adapter are outside the
  repository: an adapter is a record of operations over an abstract state \<open>'w\<close> of the outside
  world, a parameter of everything that uses it. What the core relies on is stated as locales.
\<close>

section \<open>Exceptions\<close>

text \<open>
  The exception classes the modelled code raises or catches, the provider errors first.
  Arguments are the exception's own: the message, or what the message is made of. An
  \<open>HTTPProblem\<close> is an HTTP exception whose detail is an object; its text is only ever logged.
\<close>

datatype exn =
    ProviderError string
  | AuthExpired string
  | RefreshTokenExpired string
  | AccessDenied string
  | RateLimited "rat option" string int
  | NotFound string
  | Unsupported string
  | SyncPartialFailure string
  | ValueError string
  | TypeError string
  | IntegrityError
  | KeyError string
  | RuntimeError string
  | AccountNotFound string
  | CredentialNotFound string
  | SyncAlreadyRunning string
  | ItemExecutionError string "(string \<times> json) list" bool
  | CancelledError
  | HTTPException int string
  | HTTPProblem int json
  | LocalImportNotFound string
  | LocalImportExpired string
  | LocalImportStateError string string
  | SnapshotIntegrityError string

definition is_provider_error :: "exn \<Rightarrow> bool" where
  "is_provider_error e = (case e of
      ProviderError _ \<Rightarrow> True | AuthExpired _ \<Rightarrow> True | RefreshTokenExpired _ \<Rightarrow> True
    | AccessDenied _ \<Rightarrow> True | RateLimited _ _ _ \<Rightarrow> True | NotFound _ \<Rightarrow> True
    | Unsupported _ \<Rightarrow> True | SyncPartialFailure _ \<Rightarrow> True | _ \<Rightarrow> False)"

definition is_auth_expired :: "exn \<Rightarrow> bool" where
  "is_auth_expired e = (case e of AuthExpired _ \<Rightarrow> True | RefreshTokenExpired _ \<Rightarrow> True | _ \<Rightarrow> False)"

definition is_rate_limited :: "exn \<Rightarrow> bool" where
  "is_rate_limited e = (case e of RateLimited _ _ _ \<Rightarrow> True | _ \<Rightarrow> False)"

definition is_not_found :: "exn \<Rightarrow> bool" where
  "is_not_found e = (case e of NotFound _ \<Rightarrow> True | _ \<Rightarrow> False)"

text \<open>\<open>repr\<close> of a text without control characters, as \<open>str\<close> of a \<open>KeyError\<close> shows its key.\<close>

definition repr_str :: "string \<Rightarrow> string" where
  "repr_str s =
     (let q = (if char_of (39::nat) \<in> set s \<and> char_of (34::nat) \<notin> set s
               then char_of (34::nat) else char_of (39::nat));
          esc = (\<lambda>c. if c = char_of (92::nat) \<or> c = q then [char_of (92::nat), c] else [c])
      in q # concat (map esc s) @ [q])"

definition exn_text :: "exn \<Rightarrow> string" where
  "exn_text e = (case e of
      ProviderError m \<Rightarrow> m | AuthExpired m \<Rightarrow> m | RefreshTokenExpired m \<Rightarrow> m
    | AccessDenied m \<Rightarrow> m | RateLimited _ m _ \<Rightarrow> m | NotFound m \<Rightarrow> m | Unsupported m \<Rightarrow> m
    | SyncPartialFailure m \<Rightarrow> m | ValueError m \<Rightarrow> m | TypeError m \<Rightarrow> m | IntegrityError \<Rightarrow> ''constraint violated''
    | KeyError k \<Rightarrow> repr_str k
    | RuntimeError m \<Rightarrow> m | AccountNotFound m \<Rightarrow> m | CredentialNotFound m \<Rightarrow> m
    | SyncAlreadyRunning m \<Rightarrow> m | ItemExecutionError m _ _ \<Rightarrow> m | CancelledError \<Rightarrow> []
    | HTTPException code d \<Rightarrow> str_int code @ '': '' @ d
    | HTTPProblem code d \<Rightarrow> str_int code @ '': '' @ dumps False d
    | LocalImportNotFound m \<Rightarrow> m
    | LocalImportExpired i \<Rightarrow> ''Local import '' @ [char_of (39::nat)] @ i @ [char_of (39::nat)] @
        '' expired before the migration could claim it.''
    | LocalImportStateError m code \<Rightarrow> m
    | SnapshotIntegrityError m \<Rightarrow> m)"

definition exn_class :: "exn \<Rightarrow> string" where
  "exn_class e = (case e of
      ProviderError _ \<Rightarrow> ''ProviderError'' | AuthExpired _ \<Rightarrow> ''AuthExpired''
    | RefreshTokenExpired _ \<Rightarrow> ''RefreshTokenExpired'' | AccessDenied _ \<Rightarrow> ''AccessDenied''
    | RateLimited _ _ _ \<Rightarrow> ''RateLimited'' | NotFound _ \<Rightarrow> ''NotFound''
    | Unsupported _ \<Rightarrow> ''Unsupported'' | SyncPartialFailure _ \<Rightarrow> ''SyncPartialFailure''
    | ValueError _ \<Rightarrow> ''ValueError'' | TypeError _ \<Rightarrow> ''TypeError''
    | IntegrityError \<Rightarrow> ''IntegrityError'' | KeyError _ \<Rightarrow> ''KeyError''
    | RuntimeError _ \<Rightarrow> ''RuntimeError'' | AccountNotFound _ \<Rightarrow> ''AccountNotFound''
    | CredentialNotFound _ \<Rightarrow> ''CredentialNotFound''
    | SyncAlreadyRunning _ \<Rightarrow> ''SyncAlreadyRunning''
    | ItemExecutionError _ _ _ \<Rightarrow> ''ItemExecutionError'' | CancelledError \<Rightarrow> ''CancelledError''
    | HTTPException _ _ \<Rightarrow> ''HTTPException'' | HTTPProblem _ _ \<Rightarrow> ''HTTPException'' | LocalImportNotFound _ \<Rightarrow> ''LocalImportNotFound''
    | LocalImportExpired _ \<Rightarrow> ''LocalImportExpired''
    | LocalImportStateError _ _ \<Rightarrow> ''LocalImportStateError''
    | SnapshotIntegrityError _ \<Rightarrow> ''SnapshotIntegrityError'')"

text \<open>What a provider error becomes in the API.\<close>

definition api_error :: "exn \<Rightarrow> exn" where
  "api_error e =
     (case e of
        KeyError _ \<Rightarrow> HTTPException 404 (exn_text e)
      | AccountNotFound _ \<Rightarrow> HTTPException 404 (exn_text e)
      | CredentialNotFound _ \<Rightarrow> HTTPException 404 (exn_text e)
      | NotFound _ \<Rightarrow> HTTPException 404 (exn_text e)
      | AuthExpired _ \<Rightarrow> HTTPException 401 (exn_text e)
      | RefreshTokenExpired _ \<Rightarrow> HTTPException 401 (exn_text e)
      | RateLimited _ _ code \<Rightarrow> HTTPException code (exn_text e)
      | AccessDenied _ \<Rightarrow> HTTPException 403 (exn_text e)
      | _ \<Rightarrow> if is_provider_error e then HTTPException 400 (exn_text e) else e)"

section \<open>Credentials, candidates, results\<close>

datatype auth_kind = OAUTH_PKCE | OAUTH_DEVICE | HEADER_PASTE | DEVELOPER_USER_TOKEN | LONG_LIVED_TOKEN

record credential =
  crd_account_id :: string
  crd_provider :: string
  crd_auth_kind :: auth_kind
  crd_access_token :: "string option"
  crd_refresh_token :: "string option"
  crd_expires_at :: "rat option"
  crd_scopes :: "string list"
  crd_extra :: "(string, json) dict"
  crd_version :: int

record create_spec =
  spec_name :: string
  spec_description :: "string option"
  spec_public :: bool

record track_candidate =
  cand_track_id :: string
  cand_uri :: string
  cand_title :: string
  cand_artist :: string
  cand_album :: "string option"
  cand_duration_s :: "int option"
  cand_isrc :: "string option"
  cand_explicit :: "bool option"
  cand_market :: "string option"

record album_candidate =
  acand_album_id :: string
  acand_uri :: string
  acand_title :: string
  acand_artists :: "string list"
  acand_upc :: "string option"
  acand_release_date :: "string option"
  acand_artwork_uri :: "string option"

record artist_candidate =
  rcand_artist_id :: string
  rcand_uri :: string
  rcand_name :: string
  rcand_artwork_uri :: "string option"

record add_item_result =
  ar_uri :: string
  ar_ok :: bool
  ar_already_present :: bool
  ar_position :: "int option"
  ar_error :: "string option"

record mutation_result =
  mr_ok :: bool
  mr_already_absent :: bool

record track_removal =
  rm_source_item_id :: "string option"
  rm_provider_uri :: string
  rm_position :: int

record remove_item_result =
  rr_source_item_id :: "string option"
  rr_provider_uri :: string
  rr_position :: int
  rr_ok :: bool
  rr_error :: "string option"

record remove_tracks_result =
  rt_items :: "remove_item_result list"
  rt_snapshot_id :: "string option"

section \<open>Provider information and its guards\<close>

record provider_info =
  inf_name :: string
  inf_display_name :: string
  inf_capabilities :: capability_descriptor
  inf_auth_kind :: auth_kind
  inf_liked_tracks_playlist_id :: "string option"
  inf_library_read_scope :: "string option"
  inf_library_write_scope :: "string option"
  inf_saved_albums_read_scope :: "string option"
  inf_saved_albums_write_scope :: "string option"
  inf_followed_artists_read_scope :: "string option"
  inf_followed_artists_write_scope :: "string option"
  inf_artist_semantics :: "artist_semantics option"

definition require_liked_tracks_target :: "provider_info \<Rightarrow> credential \<Rightarrow> exn + string" where
  "require_liked_tracks_target i cred =
     (if \<not> can (inf_capabilities i) WRITE_LIBRARY
      then Inl (Unsupported (inf_display_name i @ '' cannot write liked tracks''))
      else if \<not> truthy (inf_liked_tracks_playlist_id i)
      then Inl (Unsupported (inf_display_name i @ '' does not expose a liked-tracks collection''))
      else
        let missing = concat (map (\<lambda>scope. case scope of None \<Rightarrow> []
              | Some sc \<Rightarrow> if sc \<noteq> [] \<and> sc \<notin> set (crd_scopes cred) then [sc] else [])
              [inf_library_read_scope i, inf_library_write_scope i])
        in if missing \<noteq> []
           then Inl (AccessDenied (''Reconnect '' @ inf_display_name i @
                  '' to grant the required library scopes: '' @ join '', '' missing))
           else Inr (the (inf_liked_tracks_playlist_id i)))"

definition require_scope :: "provider_info \<Rightarrow> credential \<Rightarrow> string option \<Rightarrow> string \<Rightarrow> exn + unit" where
  "require_scope i cred scope act =
     (case scope of None \<Rightarrow> Inr ()
      | Some sc \<Rightarrow>
          if sc \<noteq> [] \<and> sc \<notin> set (crd_scopes cred)
          then Inl (AccessDenied (''Reconnect '' @ inf_display_name i @
                 '' to grant the required scope before '' @ act @ '': '' @ sc))
          else Inr ())"

definition require_library_capability ::
  "provider_info \<Rightarrow> credential \<Rightarrow> capability \<Rightarrow> string option \<Rightarrow> string \<Rightarrow> exn + unit"
where
  "require_library_capability i cred c scope act =
     (if \<not> can (inf_capabilities i) c
      then Inl (Unsupported (inf_display_name i @ '' cannot '' @ act))
      else require_scope i cred scope act)"

definition require_saved_albums_source :: "provider_info \<Rightarrow> credential \<Rightarrow> exn + unit" where
  "require_saved_albums_source i cred =
     require_library_capability i cred READ_SAVED_ALBUMS (inf_saved_albums_read_scope i)
       ''read saved albums''"

definition require_saved_albums_target :: "provider_info \<Rightarrow> credential \<Rightarrow> exn + unit" where
  "require_saved_albums_target i cred =
     (case require_library_capability i cred WRITE_SAVED_ALBUMS (inf_saved_albums_write_scope i)
             ''write saved albums'' of
        Inl e \<Rightarrow> Inl e
      | Inr _ \<Rightarrow> require_scope i cred (inf_saved_albums_read_scope i) ''check saved albums'')"

definition require_semantics :: "provider_info \<Rightarrow> exn + unit" where
  "require_semantics i =
     (if inf_artist_semantics i = None
      then Inl (Unsupported (inf_display_name i @ '' does not define artist library semantics''))
      else Inr ())"

definition require_followed_artists_source :: "provider_info \<Rightarrow> credential \<Rightarrow> exn + unit" where
  "require_followed_artists_source i cred =
     (case require_library_capability i cred READ_FOLLOWED_ARTISTS
             (inf_followed_artists_read_scope i) ''read followed or favorite artists'' of
        Inl e \<Rightarrow> Inl e
      | Inr _ \<Rightarrow> require_semantics i)"

definition require_followed_artists_target :: "provider_info \<Rightarrow> credential \<Rightarrow> exn + unit" where
  "require_followed_artists_target i cred =
     (case require_library_capability i cred WRITE_FOLLOWED_ARTISTS
             (inf_followed_artists_write_scope i) ''write followed or favorite artists'' of
        Inl e \<Rightarrow> Inl e
      | Inr _ \<Rightarrow>
          (case require_scope i cred (inf_followed_artists_read_scope i)
                  ''check followed or favorite artists'' of
             Inl e \<Rightarrow> Inl e
           | Inr _ \<Rightarrow> require_semantics i))"

section \<open>Adapters\<close>

text \<open>
  An asynchronous iteration yields some elements and then ends or raises. The optional
  protocols that the core tests with \<open>isinstance\<close> are optional fields.
\<close>

type_synonym ('w, 'a) stream = "'w \<Rightarrow> ('a list \<times> exn option) \<times> 'w"

record 'w album_reader =
  alr_read :: "credential \<Rightarrow> string \<Rightarrow> ('w, exn, album) proc"
  alr_contains :: "credential \<Rightarrow> string list \<Rightarrow> ('w, exn, bool list) proc"

record 'w album_writer =
  alw_search :: "credential \<Rightarrow> album \<Rightarrow> ('w, exn, album_candidate list) proc"
  alw_validate :: "credential \<Rightarrow> string \<Rightarrow> ('w, exn, bool) proc"
  alw_contains :: "credential \<Rightarrow> string list \<Rightarrow> ('w, exn, bool list) proc"
  alw_save :: "credential \<Rightarrow> string list \<Rightarrow> ('w, exn, add_item_result list) proc"

record 'w artist_reader =
  arr_read :: "credential \<Rightarrow> string \<Rightarrow> ('w, exn, artist) proc"
  arr_contains :: "credential \<Rightarrow> string list \<Rightarrow> ('w, exn, bool list) proc"

record 'w artist_writer =
  arw_search :: "credential \<Rightarrow> artist \<Rightarrow> ('w, exn, artist_candidate list) proc"
  arw_validate :: "credential \<Rightarrow> string \<Rightarrow> ('w, exn, bool) proc"
  arw_contains :: "credential \<Rightarrow> string list \<Rightarrow> ('w, exn, bool list) proc"
  arw_follow :: "credential \<Rightarrow> string list \<Rightarrow> ('w, exn, add_item_result list) proc"

record 'w adapter =
  ad_info :: provider_info
  ad_refresh :: "credential \<Rightarrow> ('w, exn, credential) proc"
  ad_iter_playlists :: "credential \<Rightarrow> ('w, playlist_ref) stream"
  ad_read_playlist :: "credential \<Rightarrow> playlist_ref \<Rightarrow> ('w, exn, playlist) proc"
  ad_search_tracks :: "credential \<Rightarrow> track \<Rightarrow> ('w, exn, track_candidate list) proc"
  ad_validate_uri :: "credential \<Rightarrow> string \<Rightarrow> ('w, exn, bool) proc"
  ad_create_playlist :: "credential \<Rightarrow> create_spec \<Rightarrow> ('w, exn, string) proc"
  ad_add_tracks :: "credential \<Rightarrow> string \<Rightarrow> string list \<Rightarrow> ('w, exn, add_item_result list) proc"
  ad_unfollow_playlist :: "credential \<Rightarrow> playlist_ref \<Rightarrow> ('w, exn, mutation_result) proc"
  ad_delete_playlist :: "credential \<Rightarrow> playlist_ref \<Rightarrow> ('w, exn, mutation_result) proc"
  ad_remove_tracks ::
    "credential \<Rightarrow> playlist_ref \<Rightarrow> track_removal list \<Rightarrow> ('w, exn, remove_tracks_result) proc"
  ad_replace_tracks :: "(credential \<Rightarrow> string \<Rightarrow> string list \<Rightarrow> ('w, exn, unit) proc) option"
  ad_album_reader :: "'w album_reader option"
  ad_album_writer :: "'w album_writer option"
  ad_artist_reader :: "'w artist_reader option"
  ad_artist_writer :: "'w artist_writer option"

text \<open>\<open>[ref async for ref in ...]\<close>: all the elements, or the exception that ended the iteration.\<close>

definition collect :: "('w, 'a) stream \<Rightarrow> ('w, exn, 'a list) proc" where
  "collect st = (\<lambda>w. case st w of ((xs, None), w') \<Rightarrow> (Inr xs, w') | ((xs, Some e), w') \<Rightarrow> (Inl e, w'))"

section \<open>The registry\<close>

type_synonym 'w registry = "(string, 'w adapter) dict"

definition register :: "'w adapter \<Rightarrow> 'w registry \<Rightarrow> exn + 'w registry" where
  "register a reg =
     (let name = inf_name (ad_info a) in
      if dict_get reg name \<noteq> None
      then Inl (ValueError (''provider '' @ repr_str name @ '' already registered''))
      else Inr (dict_set name a reg))"

definition get_adapter :: "'w registry \<Rightarrow> string \<Rightarrow> exn + 'w adapter" where
  "get_adapter reg name =
     (case dict_get reg name of
        None \<Rightarrow> Inl (KeyError (''unknown provider '' @ [char_of (39::nat)] @ name @ [char_of (39::nat)]))
      | Some a \<Rightarrow> Inr a)"

definition all_adapters :: "'w registry \<Rightarrow> 'w adapter list" where
  "all_adapters reg = map snd reg"

definition all_info :: "'w registry \<Rightarrow> provider_info list" where
  "all_info reg = map (\<lambda>a. ad_info a) (map snd reg)"

text \<open>Every registered adapter is found under the name it announces.\<close>

definition registry_ok :: "'w registry \<Rightarrow> bool" where
  "registry_ok reg = (is_dict reg \<and> list_all (\<lambda>(n, a). inf_name (ad_info a) = n) reg)"

lemma set_dict_set: "set (dict_set k v d) \<subseteq> insert (k, v) (set d)"
  by (induction d) auto

lemma register_ok: "registry_ok reg \<Longrightarrow> register a reg = Inr reg' \<Longrightarrow> registry_ok reg'"
  unfolding registry_ok_def register_def Let_def
  using set_dict_set [of "inf_name (ad_info a)" a reg]
  by (fastforce simp: list_all_iff split: if_splits)

lemma register_get:
  "register a reg = Inr reg' \<Longrightarrow>
     get_adapter reg' n = (if n = inf_name (ad_info a) then Inr a else get_adapter reg n)"
  by (auto simp: register_def get_adapter_def Let_def split: if_splits)

lemma register_twice: "register a reg = Inr reg' \<Longrightarrow> \<exists>e. register a reg' = Inl (ValueError e)"
  by (auto simp: register_def Let_def split: if_splits)

section \<open>What the core relies on\<close>

text \<open>
  The contract of playlist writes that the conformance suite
  (\<open>tests/conformance/test_adapter_contract.py\<close>) checks of every adapter: adding to a playlist
  the account can write reports one result per URI, in order, and appends them; adding to an
  unknown one raises \<open>NotFound\<close> and changes nothing.
\<close>

locale playlist_writer =
  fixes add :: "string \<Rightarrow> string list \<Rightarrow> ('w, exn, add_item_result list) proc"
    and content :: "'w \<Rightarrow> string \<Rightarrow> string list option"
  assumes add_known: "content w p = Some us \<Longrightarrow>
      \<exists>rs w'. add p uris w = (Inr rs, w') \<and> map ar_uri rs = uris \<and> list_all ar_ok rs \<and>
        content w' = (content w)(p \<mapsto> us @ uris)"
    and add_unknown: "content w p = None \<Longrightarrow> \<exists>m. add p uris w = (Inl (NotFound m), w)"
begin

text \<open>A sequence of batches, as the migration writer issues them.\<close>

definition add_batches :: "string \<Rightarrow> string list list \<Rightarrow> ('w, exn, unit) proc" where
  "add_batches p bs = for_each bs (\<lambda>b. andthen (add p b) (\<lambda>_. ret ()))"

lemma add_batches_content:
  assumes "content w p = Some us"
  shows "\<exists>w'. add_batches p bs w = (Inr (), w') \<and> content w' = (content w)(p \<mapsto> us @ concat bs)"
  using assms
proof (induction bs arbitrary: w us)
  case Nil
  then show ?case by (auto simp: add_batches_def run_simps fun_upd_idem)
next
  case (Cons b bs)
  from add_known [OF Cons.prems] obtain rs w1
    where b: "add p b w = (Inr rs, w1)" and c1: "content w1 = (content w)(p \<mapsto> us @ b)"
    by blast
  from c1 have "content w1 p = Some (us @ b)" by simp
  from Cons.IH [OF this] obtain w2
    where "add_batches p bs w1 = (Inr (), w2)" and "content w2 = (content w1)(p \<mapsto> (us @ b) @ concat bs)"
    by blast
  with b c1 show ?case by (auto simp: add_batches_def run_simps)
qed

text \<open>How the sequence is cut into batches does not matter.\<close>

lemma add_chunks_content:
  assumes "content w p = Some us" and "0 < n"
  shows "\<exists>w'. add_batches p (chunks n uris) w = (Inr (), w') \<and>
     content w' = (content w)(p \<mapsto> us @ uris)"
  using add_batches_content [OF assms(1), of "chunks n uris"] by (simp add: concat_chunks assms(2))

end

end
