(* ===== verification/Rate_Limit.thy ===== *)
theory Rate_Limit
  imports Adapter
begin

text \<open>
  The token buckets of \<open>app/core/rate_limit.py\<close>. Floating-point amounts are exact rationals,
  \<open>time.monotonic()\<close> is an argument, and the lock makes each call one step. A bucket created
  inside a call is stamped with that call's own clock reading: it is full, so the refill that
  follows leaves it full whatever lies between the two readings.
\<close>

record bucket =
  bk_capacity :: rat
  bk_refill_per_s :: rat
  bk_tokens :: rat
  bk_updated :: rat

type_synonym limiter = "(string, bucket) dict"

definition full_bucket :: "rat \<Rightarrow> rat \<Rightarrow> rat \<Rightarrow> bucket" where
  "full_bucket capacity refill now =
     \<lparr>bk_capacity = capacity, bk_refill_per_s = refill, bk_tokens = capacity, bk_updated = now\<rparr>"

definition configure :: "string \<Rightarrow> rat \<Rightarrow> rat \<Rightarrow> rat \<Rightarrow> limiter \<Rightarrow> limiter" where
  "configure key capacity refill now l = dict_set key (full_bucket capacity refill now) l"

definition ensure_configured :: "string \<Rightarrow> rat \<Rightarrow> rat \<Rightarrow> rat \<Rightarrow> limiter \<Rightarrow> limiter" where
  "ensure_configured key capacity refill now l =
     (if dict_get l key = None then configure key capacity refill now l else l)"

definition refilled :: "rat \<Rightarrow> bucket \<Rightarrow> bucket" where
  "refilled now b =
     b\<lparr>bk_tokens := min (bk_capacity b) (bk_tokens b + (now - bk_updated b) * bk_refill_per_s b),
       bk_updated := now\<rparr>"

text \<open>One attempt on a bucket: the waiting time (\<open>None\<close> when the tokens were taken) and the bucket.\<close>

definition take_tokens :: "rat \<Rightarrow> rat \<Rightarrow> bucket \<Rightarrow> rat option \<times> bucket" where
  "take_tokens cost now b =
     (let r = refilled now b in
      if cost \<le> bk_tokens r then (None, r\<lparr>bk_tokens := bk_tokens r - cost\<rparr>)
      else (Some ((cost - bk_tokens r) / bk_refill_per_s r), r))"

definition bucket_for :: "string \<Rightarrow> rat \<Rightarrow> rat \<Rightarrow> rat \<Rightarrow> limiter \<Rightarrow> bucket" where
  "bucket_for key capacity refill now l =
     (case dict_get l key of
        None \<Rightarrow> full_bucket capacity refill now
      | Some b \<Rightarrow>
          if bk_capacity b \<noteq> capacity \<or> bk_refill_per_s b \<noteq> refill
          then full_bucket capacity refill now else b)"

definition try_consume ::
  "string \<Rightarrow> rat \<Rightarrow> rat \<Rightarrow> rat \<Rightarrow> rat \<Rightarrow> limiter \<Rightarrow> exn + (rat option \<times> limiter)"
where
  "try_consume key capacity refill cost now l =
     (if capacity \<le> 0 \<or> refill \<le> 0 \<or> cost \<le> 0
      then Inl (ValueError ''rate limit values must be positive'')
      else case take_tokens cost now (bucket_for key capacity refill now l) of
        (w, b) \<Rightarrow> Inr (w, dict_set key b l))"

definition clear_limits :: "limiter \<Rightarrow> limiter" where
  "clear_limits l = []"

text \<open>
  \<open>acquire\<close> holds the lock for one round at a time and gives it up while it sleeps. A turn is one
  round: what the other callers have done to the limiter since the last round, and the reading of the
  clock in it. The list holds the turns of a call; \<open>None\<close> says that none of them succeeded, and
  the loop is still waiting.
\<close>

type_synonym turn = "(limiter \<Rightarrow> limiter) \<times> rat"

fun acquire :: "string \<Rightarrow> rat \<Rightarrow> turn list \<Rightarrow> limiter \<Rightarrow> limiter option" where
  "acquire key cost [] l = None"
| "acquire key cost ((others, now) # later) l =
     (case dict_get (others l) key of
        None \<Rightarrow> Some (others l)
      | Some b \<Rightarrow>
          (case take_tokens cost now b of
             (None, b') \<Rightarrow> Some (dict_set key b' (others l))
           | (Some wait, b') \<Rightarrow> acquire key cost later (dict_set key b' (others l))))"

section \<open>The level of a bucket\<close>

definition bucket_ok :: "rat \<Rightarrow> bucket \<Rightarrow> bool" where
  "bucket_ok now b = (0 \<le> bk_tokens b \<and> bk_tokens b \<le> bk_capacity b \<and>
     0 \<le> bk_refill_per_s b \<and> bk_updated b \<le> now)"

definition limiter_ok :: "rat \<Rightarrow> limiter \<Rightarrow> bool" where
  "limiter_ok now l = list_all (\<lambda>(k, b). bucket_ok now b) l"

lemma limiter_ok_get: "limiter_ok now l \<Longrightarrow> dict_get l k = Some b \<Longrightarrow> bucket_ok now b"
  by (auto simp: limiter_ok_def list_all_iff dest: map_of_SomeD)

lemma bucket_ok_later: "bucket_ok now b \<Longrightarrow> now \<le> later \<Longrightarrow> bucket_ok later b"
  by (simp add: bucket_ok_def)

lemma bucket_ok_full: "0 \<le> capacity \<Longrightarrow> 0 \<le> refill \<Longrightarrow> bucket_ok now (full_bucket capacity refill now)"
  by (simp add: bucket_ok_def full_bucket_def)

lemma bucket_ok_refilled: "bucket_ok t b \<Longrightarrow> t \<le> now \<Longrightarrow> bucket_ok now (refilled now b)"
  by (simp add: bucket_ok_def refilled_def)

lemma bucket_ok_take:
  "bucket_ok t b \<Longrightarrow> t \<le> now \<Longrightarrow> 0 \<le> cost \<Longrightarrow> bucket_ok now (snd (take_tokens cost now b))"
  using bucket_ok_refilled [of t b now]
  by (auto simp: take_tokens_def Let_def bucket_ok_def)

lemma take_tokens_shape:
  "bk_capacity (snd (take_tokens cost now b)) = bk_capacity b"
  "bk_refill_per_s (snd (take_tokens cost now b)) = bk_refill_per_s b"
  "bk_updated (snd (take_tokens cost now b)) = now"
  by (simp_all add: take_tokens_def Let_def refilled_def)

lemma limiter_ok_set:
  "limiter_ok t l \<Longrightarrow> t \<le> now \<Longrightarrow> bucket_ok now b \<Longrightarrow> limiter_ok now (dict_set k b l)"
  unfolding limiter_ok_def list_all_iff
  using set_dict_set [of k b l] by (auto intro: bucket_ok_later)

lemma bucket_for_ok:
  "limiter_ok t l \<Longrightarrow> t \<le> now \<Longrightarrow> 0 < capacity \<Longrightarrow> 0 < refill \<Longrightarrow>
     bucket_ok now (bucket_for key capacity refill now l)"
  by (auto simp: bucket_for_def bucket_ok_full intro: bucket_ok_later dest: limiter_ok_get
      split: option.splits)

lemma bucket_for_shape [simp]:
  "bk_capacity (bucket_for key capacity refill now l) = capacity"
  "bk_refill_per_s (bucket_for key capacity refill now l) = refill"
  by (auto simp: bucket_for_def full_bucket_def split: option.splits)

lemma bucket_for_stored:
  "dict_get l key = Some b \<Longrightarrow> bk_capacity b = capacity \<Longrightarrow> bk_refill_per_s b = refill \<Longrightarrow>
     bucket_for key capacity refill now l = b"
  by (simp add: bucket_for_def)

section \<open>The limiter as a state machine\<close>

text \<open>Its state: the clock, which never runs backwards, and the buckets.\<close>

inductive limiter_step :: "rat \<times> limiter \<Rightarrow> rat \<times> limiter \<Rightarrow> bool" where
  step_configure: "t \<le> now \<Longrightarrow> 0 \<le> capacity \<Longrightarrow> 0 \<le> refill \<Longrightarrow>
     limiter_step (t, l) (now, configure key capacity refill now l)"
| step_ensure: "t \<le> now \<Longrightarrow> 0 \<le> capacity \<Longrightarrow> 0 \<le> refill \<Longrightarrow>
     limiter_step (t, l) (now, ensure_configured key capacity refill now l)"
| step_consume: "t \<le> now \<Longrightarrow> try_consume key capacity refill cost now l = Inr (w, l') \<Longrightarrow>
     limiter_step (t, l) (now, l')"
| step_clear: "limiter_step (t, l) (t, clear_limits l)"
| step_acquire: "t \<le> now \<Longrightarrow> 0 \<le> cost \<Longrightarrow> dict_get l key = Some b \<Longrightarrow>
     limiter_step (t, l) (now, dict_set key (snd (take_tokens cost now b)) l)"

inductive_cases limiter_stepE: "limiter_step (t, l) s"

lemma try_consume_ok:
  assumes "limiter_ok t l" and "t \<le> now" and "try_consume key capacity refill cost now l = Inr (w, l')"
  shows "limiter_ok now l'"
proof -
  from assms(3) have pos: "0 < capacity" "0 < refill" "0 < cost"
    and l': "l' = dict_set key (snd (take_tokens cost now (bucket_for key capacity refill now l))) l"
    by (auto simp: try_consume_def split: if_splits prod.splits)
  from bucket_for_ok [OF assms(1,2) pos(1,2)]
  have "bucket_ok now (snd (take_tokens cost now (bucket_for key capacity refill now l)))"
    using pos by (intro bucket_ok_take) auto
  with assms(1,2) show ?thesis unfolding l' by (rule limiter_ok_set)
qed

lemma limiter_step_ok: "limiter_step s s' \<Longrightarrow> limiter_ok (fst s) (snd s) \<Longrightarrow> limiter_ok (fst s') (snd s')"
proof (induction rule: limiter_step.induct)
  case (step_configure t now capacity refill l key)
  then show ?case by (simp add: configure_def bucket_ok_full limiter_ok_set)
next
  case (step_ensure t now capacity refill l key)
  then have "limiter_ok now l" by (auto simp: limiter_ok_def list_all_iff intro: bucket_ok_later)
  with step_ensure show ?case
    by (simp add: ensure_configured_def configure_def bucket_ok_full limiter_ok_set)
next
  case (step_consume t now key capacity refill cost l w l')
  then show ?case using try_consume_ok by simp
next
  case (step_clear t l)
  then show ?case by (simp add: limiter_ok_def clear_limits_def)
next
  case (step_acquire t now cost l key b)
  then have "bucket_ok t b" by (simp add: limiter_ok_get)
  with step_acquire show ?case
    by (auto intro!: limiter_ok_set bucket_ok_take)
qed

definition limiter_start :: "rat \<times> limiter \<Rightarrow> bool" where
  "limiter_start s = (snd s = [])"

interpretation limits: invariant_system limiter_start limiter_step "\<lambda>s. limiter_ok (fst s) (snd s)"
  using limiter_step_ok by unfold_locales (auto simp: limiter_start_def limiter_ok_def)

section \<open>Waiting is enough, and the rate is bounded\<close>

lemma take_after_wait:
  assumes "take_tokens cost now b = (Some w, b')" and "bucket_ok t b" and "t \<le> now"
    and "0 < bk_refill_per_s b" and "cost \<le> bk_capacity b" and "now + w \<le> later"
  shows "fst (take_tokens cost later b') = None"
proof -
  let ?r = "refilled now b"
  from assms(1) have b': "b' = ?r" and w: "w = (cost - bk_tokens ?r) / bk_refill_per_s b"
    by (auto simp: take_tokens_def Let_def refilled_def split: if_splits)
  have "cost - bk_tokens ?r = w * bk_refill_per_s b" using w assms(4) by simp
  also have "\<dots> \<le> (later - now) * bk_refill_per_s b"
    using assms(4,6) by (intro mult_right_mono) auto
  finally have "cost \<le> bk_tokens ?r + (later - now) * bk_refill_per_s b" by simp
  then show ?thesis
    using assms(5) by (simp add: take_tokens_def b' Let_def refilled_def)
qed

text \<open>A run of attempts on one bucket: the amounts granted and the last bucket.\<close>

fun granted :: "(rat \<times> rat) list \<Rightarrow> bucket \<Rightarrow> rat" where
  "granted [] b = 0"
| "granted ((now, cost) # calls) b =
     (case take_tokens cost now b of
        (None, b') \<Rightarrow> cost + granted calls b'
      | (Some _, b') \<Rightarrow> granted calls b')"

lemma take_tokens_level:
  "bucket_ok t b \<Longrightarrow> t \<le> now \<Longrightarrow> take_tokens cost now b = (w, b') \<Longrightarrow>
     bk_tokens b' + (if w = None then cost else 0)
       \<le> bk_tokens b + (now - bk_updated b) * bk_refill_per_s b"
  by (auto simp: take_tokens_def Let_def refilled_def split: if_splits)

lemma granted_bound:
  assumes "bucket_ok t b" and "sorted (t # map fst calls)" and "list_all (\<lambda>(n, c). 0 \<le> c) calls"
    and "set (map fst calls) \<subseteq> {..end_time}" and "t \<le> end_time"
  shows "granted calls b \<le> bk_tokens b + (end_time - bk_updated b) * bk_refill_per_s b"
  using assms
proof (induction calls arbitrary: b t)
  case Nil
  then have "0 \<le> (end_time - bk_updated b) * bk_refill_per_s b"
    by (auto simp: bucket_ok_def intro: mult_nonneg_nonneg)
  with Nil show ?case by (simp add: bucket_ok_def)
next
  case (Cons call calls)
  obtain now cost where call: "call = (now, cost)" by (cases call)
  obtain w b' where tk: "take_tokens cost now b = (w, b')" by (cases "take_tokens cost now b")
  from Cons.prems call have t: "t \<le> now" and c: "0 \<le> cost" and e: "now \<le> end_time" by auto
  have ok: "bucket_ok now b'" using bucket_ok_take [OF Cons.prems(1) t c] tk by simp
  have sh: "bk_updated b' = now" "bk_refill_per_s b' = bk_refill_per_s b"
    using take_tokens_shape [of cost now b] tk by simp_all
  have "granted calls b' \<le> bk_tokens b' + (end_time - now) * bk_refill_per_s b"
    using Cons.IH [OF ok] Cons.prems call e sh by auto
  moreover have "granted (call # calls) b = (if w = None then cost else 0) + granted calls b'"
    by (cases w) (simp_all add: call tk)
  ultimately have "granted (call # calls) b \<le> bk_tokens b +
      (now - bk_updated b) * bk_refill_per_s b + (end_time - now) * bk_refill_per_s b"
    using take_tokens_level [OF Cons.prems(1) t tk] by linarith
  also have "\<dots> = bk_tokens b + (end_time - bk_updated b) * bk_refill_per_s b"
    by (simp add: algebra_simps)
  finally show ?case .
qed

lemma take_refilled: "take_tokens cost now (refilled now b) = take_tokens cost now b"
  by (simp add: take_tokens_def refilled_def Let_def)

lemma take_beyond_capacity: "bk_capacity b < cost \<Longrightarrow> fst (take_tokens cost now b) \<noteq> None"
  by (auto simp: take_tokens_def Let_def refilled_def)

text \<open>A run of calls of \<open>try_consume\<close> with one key and one configuration: the total granted.\<close>

fun consumed :: "string \<Rightarrow> rat \<Rightarrow> rat \<Rightarrow> (rat \<times> rat) list \<Rightarrow> limiter \<Rightarrow> rat" where
  "consumed key capacity refill [] l = 0"
| "consumed key capacity refill ((now, cost) # calls) l =
     (case try_consume key capacity refill cost now l of
        Inl e \<Rightarrow> consumed key capacity refill calls l
      | Inr (None, l') \<Rightarrow> cost + consumed key capacity refill calls l'
      | Inr (Some w, l') \<Rightarrow> consumed key capacity refill calls l')"

lemma consumed_stored:
  assumes "dict_get l key = Some b" and "bk_capacity b = capacity" and "bk_refill_per_s b = refill"
    and "0 < capacity" and "0 < refill" and "list_all (\<lambda>(n, c). 0 < c) calls"
  shows "consumed key capacity refill calls l = granted calls b"
  using assms
proof (induction calls arbitrary: l b)
  case (Cons call calls)
  obtain now cost where call: "call = (now, cost)" by (cases call)
  obtain w b' where tk: "take_tokens cost now b = (w, b')" by (cases "take_tokens cost now b")
  have "try_consume key capacity refill cost now l = Inr (w, dict_set key b' l)"
    using Cons.prems tk call by (simp add: try_consume_def bucket_for_stored)
  moreover have "consumed key capacity refill calls (dict_set key b' l) = granted calls b'"
    using Cons.prems take_tokens_shape [of cost now b] tk by (intro Cons.IH) auto
  ultimately show ?case by (cases w) (simp_all add: call tk)
qed simp

lemma consumed_first:
  assumes "0 < capacity" and "0 < refill" and "list_all (\<lambda>(n, c). 0 < c) ((now, cost) # calls)"
  shows "consumed key capacity refill ((now, cost) # calls) l =
    granted ((now, cost) # calls) (bucket_for key capacity refill now l)"
proof -
  let ?b = "bucket_for key capacity refill now l"
  obtain w b' where tk: "take_tokens cost now ?b = (w, b')" by (cases "take_tokens cost now ?b")
  have "try_consume key capacity refill cost now l = Inr (w, dict_set key b' l)"
    using assms tk by (simp add: try_consume_def)
  moreover have "consumed key capacity refill calls (dict_set key b' l) = granted calls b'"
    using assms take_tokens_shape [of cost now ?b] tk by (intro consumed_stored) auto
  ultimately show ?thesis by (cases w) (simp_all add: tk)
qed

text \<open>
  C35. In every state the limiter can reach, each bucket holds between zero and its capacity of
  tokens, and its stamp is not in the future.
\<close>

theorem limiter_levels:
  assumes "reach limiter_start limiter_step (now, l)"
  shows "list_all (\<lambda>(k, b). 0 \<le> bk_tokens b \<and> bk_tokens b \<le> bk_capacity b \<and> bk_updated b \<le> now) l"
  using limits.reach_inv [OF assms] by (auto simp: limiter_ok_def bucket_ok_def list_all_iff)

theorem limiter_levels_witness:
  "list_all (\<lambda>(k, b). 0 \<le> bk_tokens b \<and> bk_tokens b \<le> bk_capacity b \<and> bk_updated b \<le> 0)
     (configure ''s:a'' 5 1 0 [])"
proof (rule limiter_levels)
  have "reach limiter_start limiter_step (0, [])" by (rule reach_start) (simp add: limiter_start_def)
  then show "reach limiter_start limiter_step (0, configure ''s:a'' 5 1 0 [])"
    by (rule reach_step) (rule step_configure, simp_all)
qed

text \<open>
  The waiting time that \<open>try_consume\<close> reports is enough: the same request, made that much
  later, is granted, unless it asks for more than the bucket can hold.
\<close>

lemma try_consume_retry:
  assumes "limiter_ok t l" and "t \<le> now" and "cost \<le> capacity"
    and "try_consume key capacity refill cost now l = Inr (Some w, l')" and "now + w \<le> later"
  shows "\<exists>l''. try_consume key capacity refill cost later l' = Inr (None, l'')"
proof -
  let ?b = "bucket_for key capacity refill now l"
  obtain b' where tk: "take_tokens cost now ?b = (Some w, b')" and l': "l' = dict_set key b' l"
    and pos: "0 < capacity" "0 < refill" "0 < cost"
    using assms(4) by (auto simp: try_consume_def split: if_splits prod.splits)
  have "bucket_ok now ?b" by (rule bucket_for_ok [OF assms(1,2) pos(1,2)])
  from take_after_wait [OF tk this] have "fst (take_tokens cost later b') = None"
    using assms(3,5) pos by simp
  moreover have "bucket_for key capacity refill later l' = b'"
    using take_tokens_shape [of cost now ?b] tk by (intro bucket_for_stored) (simp_all add: l')
  ultimately show ?thesis
    using pos by (auto simp: try_consume_def split: prod.splits)
qed

lemma try_consume_retry_witness:
  "\<exists>l''. try_consume ''k'' 2 1 2 5
     [(''k'', \<lparr>bk_capacity = 2, bk_refill_per_s = 1, bk_tokens = 1, bk_updated = 4\<rparr>)] = Inr (None, l'')"
  by (rule try_consume_retry [where t = 3 and now = 4 and w = 1 and
        l = "[(''k'', \<lparr>bk_capacity = 2, bk_refill_per_s = 1, bk_tokens = 0, bk_updated = 3\<rparr>)]"])
    (simp_all add: limiter_ok_def bucket_ok_def try_consume_def bucket_for_def take_tokens_def
      refilled_def)

text \<open>
  C36. Whatever was requested and however often, the amount granted to one key in a window is at
  most one full bucket plus what the refill rate brings in over the window.
\<close>

theorem consumed_rate_bound:
  assumes "limiter_ok t l" and "sorted (t # map fst ((now, cost) # calls))"
    and "list_all (\<lambda>(n, c). 0 < c) ((now, cost) # calls)" and "0 < capacity" and "0 < refill"
    and "set (map fst ((now, cost) # calls)) \<subseteq> {..end_time}"
  shows "consumed key capacity refill ((now, cost) # calls) l \<le> capacity + (end_time - now) * refill"
proof -
  let ?b = "bucket_for key capacity refill now l" and ?cs = "(now, cost) # calls"
  have t: "t \<le> now" using assms(2) by simp
  have nonneg: "list_all (\<lambda>(n, c). 0 \<le> c) ?cs"
    using assms(3) by (auto simp: list_all_iff intro: less_imp_le)
  have ok: "bucket_ok now (refilled now ?b)"
    using bucket_for_ok [OF assms(1) t assms(4,5)] by (rule bucket_ok_refilled) simp
  have "consumed key capacity refill ?cs l = granted ?cs (refilled now ?b)"
    using consumed_first [OF assms(4,5,3)] by (simp add: take_refilled)
  also have "\<dots> \<le> bk_tokens (refilled now ?b) + (end_time - now) * refill"
    using granted_bound [OF ok, of ?cs end_time] assms(2,6) nonneg
    by (simp add: refilled_def del: granted.simps)
  finally show ?thesis by (simp add: refilled_def)
qed

theorem consumed_rate_bound_witness:
  "consumed ''k'' 2 1 [(0, 2), (1, 1), (1, 1)] [] \<le> 2 + (1 - 0) * (1 :: rat)"
  by (rule consumed_rate_bound [where t = 0]) (simp_all add: limiter_ok_def)

text \<open>
  Each round of \<open>acquire\<close> that finds its bucket is one step of the limiter, so that the levels hold
  whatever the other callers do in between, as long as they take steps too.
\<close>

definition turn_ok :: "turn \<Rightarrow> bool" where
  "turn_ok = (\<lambda>(others, now). \<forall>t l. limiter_ok t l \<longrightarrow> t \<le> now \<longrightarrow> limiter_ok now (others l))"

lemma acquire_levels:
  assumes "acquire key cost turns l = Some l'" and "limiter_ok t l" and "0 \<le> cost"
    and "list_all turn_ok turns" and "sorted (t # map snd turns)"
  shows "\<exists>now \<in> set (map snd turns). limiter_ok now l'"
  using assms
proof (induction key cost turns l arbitrary: t rule: acquire.induct)
  case (2 key cost others now later l)
  then have o: "limiter_ok now (others l)" by (auto simp: turn_ok_def)
  show ?case
  proof (cases "dict_get (others l) key")
    case None
    with 2 o show ?thesis by simp
  next
    case (Some b)
    obtain w b' where tk: "take_tokens cost now b = (w, b')" by (cases "take_tokens cost now b")
    have "bucket_ok now b'" using bucket_ok_take [OF limiter_ok_get [OF o Some], of now cost] 2(4) tk by simp
    with o have ok: "limiter_ok now (dict_set key b' (others l))" by (intro limiter_ok_set) auto
    show ?thesis
    proof (cases w)
      case None
      with 2(2) Some tk ok show ?thesis by auto
    next
      case w: (Some v)
      with 2(2) Some tk have "acquire key cost later (dict_set key b' (others l)) = Some l'" by simp
      from 2(1) [OF Some tk [symmetric] w this ok 2(4)] 2(5,6) show ?thesis by auto
    qed
  qed
qed simp

text \<open>
  When nobody else touches the limiter and amounts are exact, one sleep is enough for a request that
  the bucket can hold. Both provisos matter: another caller can take the tokens during the sleep, and
  a rounded wait can end a little early; the loop then goes on.
\<close>

lemma acquire_alone:
  assumes "dict_get l key = Some b" and "bucket_ok t b" and "t \<le> now" and "0 < bk_refill_per_s b"
    and "cost \<le> bk_capacity b"
    and "now + (case fst (take_tokens cost now b) of None \<Rightarrow> 0 | Some w \<Rightarrow> w) \<le> later"
  shows "acquire key cost [(id, now), (id, later)] l \<noteq> None"
proof -
  obtain w b' where tk: "take_tokens cost now b = (w, b')" by (cases "take_tokens cost now b")
  show ?thesis
  proof (cases w)
    case None
    with tk assms(1) show ?thesis by simp
  next
    case (Some v)
    with take_after_wait [OF _ assms(2-4) assms(5)] assms(6) tk
    have "fst (take_tokens cost later b') = None" by simp
    with Some tk assms(1) show ?thesis by (auto split: prod.splits)
  qed
qed

end
