(* ===== verification/Retention.thy ===== *)
theory Retention
  imports Adapter "HOL-Library.Product_Lexorder"
begin

text \<open>
  Retention of library snapshots (\<open>app/snapshots/retention.py\<close>): which archives of a profile
  are deleted. Only the columns the selection reads are modelled. Comparing a zoned with an
  unzoned time stamp raises \<open>TypeError\<close>, as in Python.
\<close>

record library_snapshot =
  ls_id :: string
  ls_status :: string
  ls_archive_name :: "string option"
  ls_created_at :: "datetime option"
  ls_size_bytes :: int

definition is_aware :: "datetime \<Rightarrow> bool" where
  "is_aware d = (case d of Aware _ \<Rightarrow> True | Naive _ \<Rightarrow> False)"

definition seconds_of :: "datetime \<Rightarrow> int" where
  "seconds_of d = (case d of Aware t \<Rightarrow> t | Naive t \<Rightarrow> t)"

text \<open>\<open>datetime.min\<close>, the first second of the year 1, in the zone of the reference.\<close>

definition datetime_min :: int where
  "datetime_min = - 62135596800"

definition created_key :: "datetime \<Rightarrow> library_snapshot \<Rightarrow> datetime" where
  "created_key now s =
     (case ls_created_at s of
        Some d \<Rightarrow> d
      | None \<Rightarrow> if is_aware now then Aware datetime_min else Naive datetime_min)"

definition sort_tuple :: "datetime \<Rightarrow> library_snapshot \<Rightarrow> int \<times> string" where
  "sort_tuple now s = (seconds_of (created_key now s), ls_id s)"

definition eligible_snapshot :: "library_snapshot \<Rightarrow> bool" where
  "eligible_snapshot s = (ls_status s \<in> {''complete'', ''partial''} \<and> truthy (ls_archive_name s))"

text \<open>
  \<open>list.sort(reverse=True)\<close> keeps the order of equal elements; a list of two or more keys can
  be sorted when all of them are zoned or none is.
\<close>

definition same_zone :: "datetime list \<Rightarrow> bool" where
  "same_zone ds = (list_all is_aware ds \<or> list_all (\<lambda>d. \<not> is_aware d) ds)"

definition newest_first :: "datetime \<Rightarrow> library_snapshot list \<Rightarrow> library_snapshot list" where
  "newest_first now ss = rev (sort_key (sort_tuple now) (rev ss))"

definition comparable :: "datetime \<Rightarrow> datetime \<Rightarrow> datetime" where
  "comparable v reference =
     (if \<not> is_aware v \<and> is_aware reference then Aware (seconds_of v) else v)"

definition count_overflow :: "int option \<Rightarrow> library_snapshot list \<Rightarrow> string set" where
  "count_overflow retention_count es =
     (case retention_count of
        None \<Rightarrow> {} | Some n \<Rightarrow> set (map ls_id (drop (nat (max 1 n)) es)))"

text \<open>Snapshots older than the cutoff; the newest one is skipped before its date is looked at.\<close>

definition age_checked :: "library_snapshot list \<Rightarrow> library_snapshot list" where
  "age_checked es =
     filter (\<lambda>s. ls_id s \<noteq> ls_id (hd es) \<and> ls_created_at s \<noteq> None) es"

definition age_overflow ::
  "datetime \<Rightarrow> int option \<Rightarrow> library_snapshot list \<Rightarrow> exn + string set"
where
  "age_overflow now retention_days es =
     (case retention_days of
        None \<Rightarrow> Inr {}
      | Some days \<Rightarrow>
          if list_ex (\<lambda>s. is_aware (comparable (the (ls_created_at s)) now) \<noteq> is_aware now) (age_checked es)
          then Inl (TypeError ''can't compare offset-naive and offset-aware datetimes'')
          else Inr (set (map ls_id (filter
            (\<lambda>s. seconds_of (comparable (the (ls_created_at s)) now) < seconds_of now - days * 86400)
            (age_checked es)))))"

definition retention_candidates ::
  "library_snapshot list \<Rightarrow> datetime \<Rightarrow> int option \<Rightarrow> int option \<Rightarrow> exn + library_snapshot list"
where
  "retention_candidates snapshots now retention_count retention_days =
     (let el = filter eligible_snapshot snapshots in
      if 2 \<le> length el \<and> \<not> same_zone (map (created_key now) el)
      then Inl (TypeError ''can't compare offset-naive and offset-aware datetimes'')
      else let es = newest_first now el in
        if length es \<le> 1 then Inr []
        else case age_overflow now retention_days es of
          Inl e \<Rightarrow> Inl e
        | Inr old \<Rightarrow> Inr (filter (\<lambda>s. ls_id s \<in> count_overflow retention_count es \<union> old) (rev es)))"

section \<open>Lemmas\<close>

lemma set_newest_first [simp]: "set (newest_first now ss) = set ss"
  by (simp add: newest_first_def)

lemma length_newest_first [simp]: "length (newest_first now ss) = length ss"
  by (simp add: newest_first_def)

lemma sorted_newest_first: "sorted (map (sort_tuple now) (rev (newest_first now ss)))"
  by (simp add: newest_first_def)

lemma distinct_newest_first:
  "distinct (map ls_id ss) \<Longrightarrow> distinct (map ls_id (newest_first now ss))"
  by (simp add: newest_first_def distinct_map)

lemma newest_first_hd:
  assumes "s \<in> set ss"
  shows "sort_tuple now s \<le> sort_tuple now (hd (newest_first now ss))"
proof -
  let ?ds = "newest_first now ss"
  have ne: "?ds \<noteq> []" using assms by (metis empty_iff list.set(1) set_newest_first)
  have "s \<in> set (rev ?ds)" using assms by simp
  moreover have "rev ?ds = rev (tl ?ds) @ [hd ?ds]" using ne by (metis list.collapse rev.simps(2))
  ultimately show ?thesis
    using sorted_newest_first [of now ss] by (auto simp: sorted_append)
qed

lemma age_overflow_not_hd: "age_overflow now rd es = Inr old \<Longrightarrow> ls_id (hd es) \<notin> old"
  by (auto simp: age_overflow_def age_checked_def split: option.splits if_splits)

lemma count_overflow_not_hd:
  assumes "distinct (map ls_id es)" and "es \<noteq> []"
  shows "ls_id (hd es) \<notin> count_overflow rc es"
proof (cases rc)
  case (Some n)
  have "0 < nat (max 1 n)" by simp
  then obtain k where k: "nat (max 1 n) = Suc k" by (metis gr0_implies_Suc)
  have "set (drop k (tl es)) \<subseteq> set (tl es)" by (rule set_drop_subset)
  with assms Some k show ?thesis
    by (cases es) (auto simp: count_overflow_def)
qed (simp add: count_overflow_def)

lemma filter_length_split: "length (filter p xs) + length (filter (\<lambda>x. \<not> p x) xs) = length xs"
  by (rule sum_length_filter_compl)

lemma kept_by_count:
  assumes "distinct (map ls_id es)"
  shows "length (filter (\<lambda>s. ls_id s \<notin> count_overflow (Some n) es) es) \<le> nat (max 1 n)"
proof -
  let ?k = "nat (max 1 n)" and ?p = "\<lambda>s. ls_id s \<notin> count_overflow (Some n) es"
  have "filter ?p (drop ?k es) = []"
    by (simp add: count_overflow_def filter_empty_conv)
  then have "filter ?p es = filter ?p (take ?k es)"
    by (metis append_take_drop_id append.right_neutral filter_append)
  then show ?thesis
    by (metis length_filter_le length_take min.cobounded2 order_trans)
qed

text \<open>What a successful selection is made of.\<close>

lemma retention_cases:
  assumes "retention_candidates ss now rc rd = Inr ds" and "ds \<noteq> []"
  obtains es old where "es = newest_first now (filter eligible_snapshot ss)" and "1 < length es"
    and "age_overflow now rd es = Inr old"
    and "ds = filter (\<lambda>s. ls_id s \<in> count_overflow rc es \<union> old) (rev es)"
  using assms by (auto simp: retention_candidates_def Let_def split: if_splits sum.splits)

text \<open>
  Retention deletes only finished archives of the list, oldest first, each at most once, and
  never the newest of them.
\<close>

lemma retention_keeps_newest:
  assumes "distinct (map ls_id ss)" and "retention_candidates ss now rc rd = Inr ds"
  shows "set ds \<subseteq> set (filter eligible_snapshot ss) \<and> distinct (map ls_id ds) \<and>
    sorted (map (sort_tuple now) ds) \<and>
    (filter eligible_snapshot ss = [] \<or>
      (\<exists>m \<in> set (filter eligible_snapshot ss) - set ds.
         list_all (\<lambda>s. sort_tuple now s \<le> sort_tuple now m) (filter eligible_snapshot ss)))"
proof -
  let ?el = "filter eligible_snapshot ss"
  define es where "es = newest_first now ?el"
  have de: "distinct (map ls_id es)"
    unfolding es_def using assms(1) by (intro distinct_newest_first) (simp add: distinct_map_filter)
  have shape: "\<exists>p. ds = filter p (rev es) \<and> (es = [] \<or> \<not> p (hd es))"
  proof (cases "ds = []")
    case True
    then have "ds = filter (\<lambda>_. False) (rev es) \<and> (es = [] \<or> \<not> False)" by simp
    then show ?thesis by blast
  next
    case False
    from retention_cases [OF assms(2) this] obtain old
      where "age_overflow now rd es = Inr old"
        and d: "ds = filter (\<lambda>s. ls_id s \<in> count_overflow rc es \<union> old) (rev es)"
      unfolding es_def by metis
    then have "es = [] \<or> ls_id (hd es) \<notin> count_overflow rc es \<union> old"
      using age_overflow_not_hd count_overflow_not_hd [OF de] by blast
    with d show ?thesis by blast
  qed
  then obtain p where ds: "ds = filter p (rev es)" and np: "es = [] \<or> \<not> p (hd es)" by blast
  have "?el = [] \<or> (\<exists>m \<in> set ?el - set ds. list_all (\<lambda>s. sort_tuple now s \<le> sort_tuple now m) ?el)"
  proof (cases "es = []")
    case True
    then show ?thesis by (metis es_def list.set(1) set_empty set_newest_first)
  next
    case False
    then have "hd es \<in> set es" by simp
    moreover have "set es = set ?el" by (simp add: es_def)
    moreover have "hd es \<notin> set ds" using False np by (simp add: ds)
    ultimately have "hd es \<in> set ?el - set ds" by blast
    moreover have "list_all (\<lambda>s. sort_tuple now s \<le> sort_tuple now (hd es)) ?el"
      unfolding list_all_iff es_def using newest_first_hd by blast
    ultimately show ?thesis by blast
  qed
  moreover have "set ds \<subseteq> set ?el"
    by (metis ds es_def filter_is_subset set_newest_first set_rev)
  moreover have "distinct (map ls_id ds)"
    using de by (simp add: ds rev_map [symmetric] distinct_map_filter)
  moreover have "sorted (map (sort_tuple now) ds)"
    unfolding ds es_def by (rule sorted_filter [OF sorted_newest_first])
  ultimately show ?thesis by blast
qed

definition sample_snapshot :: "string \<Rightarrow> int \<Rightarrow> library_snapshot" where
  "sample_snapshot i t = \<lparr>ls_id = i, ls_status = ''complete'', ls_archive_name = Some i,
     ls_created_at = Some (Aware t), ls_size_bytes = 1\<rparr>"

lemmas retention_eval = retention_candidates_def newest_first_def eligible_snapshot_def
  same_zone_def created_key_def sort_tuple_def count_overflow_def age_overflow_def
  age_checked_def is_aware_def seconds_of_def comparable_def sample_snapshot_def Let_def

lemma sample_retention:
  "retention_candidates [sample_snapshot ''a'' 10, sample_snapshot ''b'' 30, sample_snapshot ''c'' 20]
     (Aware 40) (Some 1) None = Inr [sample_snapshot ''a'' 10, sample_snapshot ''c'' 20]"
  by code_simp

lemma retention_keeps_newest_witness:
  "sorted (map (sort_tuple (Aware 40)) [sample_snapshot ''a'' 10, sample_snapshot ''c'' 20])"
  using retention_keeps_newest [OF _ sample_retention] by (simp add: sample_snapshot_def)

text \<open>
  With a retention count, at most that many finished archives (and always one) remain after
  the selected ones are deleted.
\<close>

lemma retention_count_bound:
  assumes "distinct (map ls_id ss)" and "retention_candidates ss now (Some n) rd = Inr ds"
  shows "length (filter (\<lambda>s. s \<notin> set ds) (filter eligible_snapshot ss)) \<le> nat (max 1 n)"
proof -
  let ?el = "filter eligible_snapshot ss"
  define es where "es = newest_first now ?el"
  have de: "distinct (map ls_id es)"
    unfolding es_def using assms(1) by (intro distinct_newest_first) (simp add: distinct_map_filter)
  have "mset es = mset ?el" by (simp add: es_def newest_first_def)
  then have len: "length (filter p es) = length (filter p ?el)" for p
    by (metis mset_filter size_mset)
  show ?thesis
  proof (cases "length es \<le> 1")
    case True
    then show ?thesis by (metis es_def length_filter_le length_newest_first max.cobounded1
          nat_mono nat_one_as_int of_nat_1 order_trans)
  next
    case False
    with assms(2) obtain old where
      "ds = filter (\<lambda>s. ls_id s \<in> count_overflow (Some n) es \<union> old) (rev es)"
      by (auto simp: retention_candidates_def Let_def es_def split: if_splits sum.splits)
    then have "set (filter (\<lambda>s. s \<notin> set ds) es) \<subseteq>
        set (filter (\<lambda>s. ls_id s \<notin> count_overflow (Some n) es) es)"
      by auto
    moreover have "distinct es" using de by (simp add: distinct_map)
    ultimately have "length (filter (\<lambda>s. s \<notin> set ds) es) \<le>
        length (filter (\<lambda>s. ls_id s \<notin> count_overflow (Some n) es) es)"
      by (metis card_mono distinct_card distinct_filter finite_set)
    with kept_by_count [OF de, of n] show ?thesis by (simp only: len)
  qed
qed

theorem retention_count_bound_witness:
  "length (filter (\<lambda>s. s \<notin> set [sample_snapshot ''a'' 10, sample_snapshot ''c'' 20])
     (filter eligible_snapshot
       [sample_snapshot ''a'' 10, sample_snapshot ''b'' 30, sample_snapshot ''c'' 20])) \<le> nat (max 1 1)"
  by (rule retention_count_bound [OF _ sample_retention]) (simp add: sample_snapshot_def)

end
