(* ===== verification/Track_Keys.thy ===== *)
theory Track_Keys
  imports Models
begin

text \<open>
  The keys that make two tracks comparable (\<open>app/core/migration_state.py\<close>): text
  normalisation, the identifiers drawn from a URI, the key set of a track, overlap and
  selection. A set of strings is a HOL set. \<open>urllib.parse\<close> is modelled as far as the
  module uses it: the query component and its first \<open>v\<close> parameter, with the restriction that
  percent escapes stand for ASCII bytes and that a bracketed host is well formed (otherwise
  \<open>urlparse\<close> raises \<open>ValueError\<close>). Durations are read as whole seconds, and \<open>round(d / 5) * 5\<close>
  on them is the nearest multiple of five: no fifth is a tie.
\<close>

section \<open>Normalised text\<close>

definition normalize_text :: "string option \<Rightarrow> string" where
  "normalize_text v =
     (if \<not> truthy v then [] else strip (noise_sub '' '' (feat_sub (lower (the v)))))"

definition duration_bucket :: "int option \<Rightarrow> string" where
  "duration_bucket d =
     (case d of None \<Rightarrow> [] | Some n \<Rightarrow> if n = 0 then [] else str_int (((n + 2) div 5) * 5))"

section \<open>Identifiers in URIs\<close>

definition url_query :: "string \<Rightarrow> string" where
  "url_query uri =
     (let url = filter (\<lambda>c. ord c \<notin> {9, 10, 13}) uri
      in case partition_on ''?'' (before_first ''#'' url) of None \<Rightarrow> [] | Some (p, q) \<Rightarrow> q)"

definition hex_value :: "char \<Rightarrow> nat option" where
  "hex_value c =
     (let n = ord c in
      if 48 \<le> n \<and> n \<le> 57 then Some (n - 48)
      else if 65 \<le> n \<and> n \<le> 70 then Some (n - 55)
      else if 97 \<le> n \<and> n \<le> 102 then Some (n - 87) else None)"

fun unquote :: "string \<Rightarrow> string" where
  "unquote (c # h # l # s) =
     (if c = CHR ''%'' then
        (case (hex_value h, hex_value l) of
           (Some a, Some b) \<Rightarrow>
             if 16 * a + b < 128 then char_of (16 * a + b) # unquote s else c # unquote (h # l # s)
         | _ \<Rightarrow> c # unquote (h # l # s))
      else c # unquote (h # l # s))"
| "unquote s = s"

text \<open>\<open>parse_qs(query).get("v")[0]\<close>: blank values and fields without \<open>=\<close> are skipped.\<close>

fun first_param :: "string \<Rightarrow> string list \<Rightarrow> string option" where
  "first_param name [] = None"
| "first_param name (field # fs) =
     (case partition_on ''='' field of
        None \<Rightarrow> first_param name fs
      | Some (k, v) \<Rightarrow>
          if v \<noteq> [] \<and> unquote (replace_char (CHR ''+'') '' '' k) = name
          then Some (unquote (replace_char (CHR ''+'') '' '' v))
          else first_param name fs)"

definition none_if_empty :: "string \<Rightarrow> string option" where
  "none_if_empty s = (if s = [] then None else Some s)"

fun marker_id :: "string list \<Rightarrow> string \<Rightarrow> string option option" where
  "marker_id [] uri = None"
| "marker_id (t # ts) uri =
     (case partition_on (''/'' @ t @ ''/'') uri of
        None \<Rightarrow> marker_id ts uri
      | Some (a, tail) \<Rightarrow> Some (none_if_empty (before_first ''/'' (before_first ''?'' tail))))"

definition provider_item_id :: "string \<Rightarrow> string option" where
  "provider_item_id uri =
     (case first_param ''v'' (split_on (CHR ''&'') (url_query uri)) of
        Some v \<Rightarrow> Some v
      | None \<Rightarrow>
          (case marker_id [''track'', ''album'', ''artist''] uri of
             Some r \<Rightarrow> r
           | None \<Rightarrow>
               if contains '':'' uri \<and> \<not> contains ''//'' uri
               then none_if_empty (after_last (CHR '':'') uri)
               else none_if_empty uri))"

definition uri_keys :: "string option \<Rightarrow> string set" where
  "uri_keys u =
     (if \<not> truthy u then {}
      else let uri = strip (the u) in
        if uri = [] then {}
        else {''uri:'' @ lower uri} \<union>
          (case provider_item_id uri of
             None \<Rightarrow> {}
           | Some i \<Rightarrow> if i = [] then {} else {''id:'' @ lower i}))"

section \<open>Keys of a track\<close>

record key_values =
  kv_title :: "string option"
  kv_artist :: "string option"
  kv_album :: "string option"
  kv_duration_s :: "int option"
  kv_isrc :: "string option"
  kv_track_id :: "string option"
  kv_source_item_id :: "string option"
  kv_provider_uris :: "string option list"

definition id_key :: "string option \<Rightarrow> string set" where
  "id_key v = (if truthy v then {''id:'' @ lower (the v)} else {})"

definition signature_keys :: "key_values \<Rightarrow> string set" where
  "signature_keys v =
     (let t = normalize_text (kv_title v); a = normalize_text (kv_artist v)
      in if t \<noteq> [] \<and> a \<noteq> []
         then {''sig:'' @ t @ ''|'' @ a @ ''|'' @ normalize_text (kv_album v) @ ''|'' @
                 duration_bucket (kv_duration_s v),
               ''song:'' @ t @ ''|'' @ a}
         else {})"

definition keys_from_values :: "key_values \<Rightarrow> string set" where
  "keys_from_values v =
     (if truthy (kv_isrc v) then {''isrc:'' @ upper (the (kv_isrc v))} else {}) \<union>
     id_key (kv_track_id v) \<union> id_key (kv_source_item_id v) \<union>
     (\<Union>u \<in> set (kv_provider_uris v). uri_keys u) \<union> signature_keys v"

definition track_values :: "track \<Rightarrow> key_values" where
  "track_values t =
     \<lparr>kv_title = Some (trk_title t), kv_artist = Some (trk_artist t), kv_album = trk_album t,
      kv_duration_s = trk_duration_s t, kv_isrc = trk_isrc t, kv_track_id = trk_id t,
      kv_source_item_id = trk_source_item_id t,
      kv_provider_uris = map (\<lambda>(k, u). Some u) (trk_provider_uris t)\<rparr>"

definition track_keys :: "track \<Rightarrow> string set" where
  "track_keys t = keys_from_values (track_values t)"

text \<open>
  Stored metadata is decoded JSON. \<open>str\<close> of a text, a number, a truth value; the program
  stores no list or object under the keys that are read this way.
\<close>

definition py_str :: "json \<Rightarrow> string" where
  "py_str v =
     (case v of JNull \<Rightarrow> ''None'' | JBool b \<Rightarrow> if b then ''True'' else ''False''
      | JInt i \<Rightarrow> str_int i | JStr s \<Rightarrow> s | JList _ \<Rightarrow> dumps False v | JObj _ \<Rightarrow> dumps False v)"

text \<open>\<open>str(metadata.get(k) or d or "")\<close>\<close>

definition meta_str :: "(string, json) dict \<Rightarrow> string \<Rightarrow> string option \<Rightarrow> string" where
  "meta_str m k d =
     (case dict_get m k of
        None \<Rightarrow> or_str d []
      | Some v \<Rightarrow> if json_truthy v then py_str v else or_str d [])"

definition int_or_none :: "json option \<Rightarrow> int option" where
  "int_or_none v =
     (case v of Some (JInt i) \<Rightarrow> Some i | Some (JBool b) \<Rightarrow> Some (if b then 1 else 0)
      | Some (JStr s) \<Rightarrow> if all_digits s then Some (int (read_nat s)) else None
      | _ \<Rightarrow> None)"

definition json_text :: "json \<Rightarrow> string option" where
  "json_text v = (case v of JStr s \<Rightarrow> Some s | _ \<Rightarrow> None)"

definition keys_from_metadata ::
  "(string, json) dict option \<Rightarrow> string option \<Rightarrow> string option \<Rightarrow> string option \<Rightarrow> int option \<Rightarrow>
     string option \<Rightarrow> string set"
where
  "keys_from_metadata metadata title artist album duration isrc =
     (let m = (case metadata of None \<Rightarrow> [] | Some m \<Rightarrow> m);
          d = int_or_none (dict_get m ''duration_s'')
      in keys_from_values
        \<lparr>kv_title = Some (meta_str m ''title'' title),
         kv_artist = Some (meta_str m ''artist'' artist),
         kv_album = none_if_empty (meta_str m ''album'' album),
         kv_duration_s = (if d = None \<or> d = Some 0 then duration else d),
         kv_isrc = none_if_empty (meta_str m ''isrc'' isrc),
         kv_track_id = none_if_empty (meta_str m ''id'' None),
         kv_source_item_id = none_if_empty (meta_str m ''source_item_id'' None),
         kv_provider_uris =
           (case dict_get m ''provider_uris'' of
              Some (JObj ms) \<Rightarrow> map (\<lambda>(k, v). json_text v) ms | _ \<Rightarrow> [])\<rparr>)"

definition has_track_overlap :: "track list \<Rightarrow> track list \<Rightarrow> bool" where
  "has_track_overlap left right =
     (let right_keys = \<Union> (track_keys ` set right)
      in list_ex (\<lambda>t. track_keys t \<inter> right_keys \<noteq> {}) left)"

definition track_selected :: "track \<Rightarrow> string set \<Rightarrow> bool" where
  "track_selected t wanted =
     (if wanted = {} then True
      else let position = map_option str_int (trk_position t);
               identifiers = {s. Some s \<in> {trk_id t, trk_source_item_id t, position} \<and> s \<noteq> []}
           in identifiers \<inter> wanted \<noteq> {})"

section \<open>Lemmas\<close>

lemma normalize_text_lower: "normalize_text (Some (lower s)) = normalize_text (Some s)"
  by (simp add: normalize_text_def)

lemma normalize_text_chars:
  "set (normalize_text v) \<subseteq> insert (CHR '' '') {c. is_lower_alnum c}"
proof (cases "truthy v")
  case True
  have "set (normalize_text v) \<subseteq> set (noise_sub '' '' (feat_sub (lower (the v))))"
    using True strip_by_subset by (simp add: normalize_text_def strip_def)
  also have "\<dots> \<subseteq> insert (CHR '' '') {c. is_lower_alnum c}"
    using noise_sub_chars [of "'' ''"] by simp
  finally show ?thesis .
qed (simp add: normalize_text_def)

lemma normalize_text_no_bar: "CHR ''|'' \<notin> set (normalize_text v)"
  using normalize_text_chars [of v] by (auto simp: is_lower_alnum_def Let_def)

lemma split_first_bar:
  "c \<notin> set a \<Longrightarrow> c \<notin> set a' \<Longrightarrow> a @ c # b = a' @ c # b' \<longleftrightarrow> a = a' \<and> b = b'"
proof (induction a arbitrary: a')
  case Nil
  then show ?case by (cases a') auto
next
  case (Cons x a)
  then show ?case by (cases a') auto
qed

lemma normalize_text_ends:
  assumes "normalize_text v \<noteq> []"
  shows "is_lower_alnum (hd (normalize_text v))" and "is_lower_alnum (last (normalize_text v))"
proof -
  define s where "s = noise_sub '' '' (feat_sub (lower (the v)))"
  have v: "normalize_text v = strip_by is_space s"
    using assms by (simp add: normalize_text_def strip_def s_def split: if_splits)
  have "\<not> is_space (hd (normalize_text v)) \<and> \<not> is_space (last (normalize_text v))"
    using assms strip_by_ends [of is_space s] unfolding v by simp
  moreover have "c \<in> set (normalize_text v) \<Longrightarrow> \<not> is_space c \<Longrightarrow> is_lower_alnum c" for c
    using normalize_text_chars [of v] is_space_blank by auto
  ultimately show "is_lower_alnum (hd (normalize_text v))"
    and "is_lower_alnum (last (normalize_text v))"
    using assms by simp_all
qed

text \<open>Keys of different kinds never coincide.\<close>

definition key_kind :: "string \<Rightarrow> string \<Rightarrow> bool" where
  "key_kind p k = starts_with (p @ '':'') k"

lemma key_kind_simps [simp]:
  "key_kind ''isrc'' (''isrc:'' @ s)" "key_kind ''id'' (''id:'' @ s)"
  "key_kind ''uri'' (''uri:'' @ s)" "key_kind ''sig'' (''sig:'' @ s)"
  "key_kind ''song'' (''song:'' @ s)"
  by (simp_all add: key_kind_def starts_with_def)

lemma song_key_iff:
  "''song:'' @ normalize_text t @ ''|'' @ normalize_text a =
   ''song:'' @ normalize_text t' @ ''|'' @ normalize_text a' \<longleftrightarrow>
     normalize_text t = normalize_text t' \<and> normalize_text a = normalize_text a'"
  using split_first_bar [OF normalize_text_no_bar [of t] normalize_text_no_bar [of t']]
  by simp

lemma uri_keys_cases: "k \<in> uri_keys u \<Longrightarrow> (\<exists>s. k = ''uri:'' @ s) \<or> (\<exists>s. k = ''id:'' @ s)"
  by (auto simp: uri_keys_def Let_def split: if_splits option.splits)

lemma signature_keys_sig:
  "''sig:'' @ s \<in> signature_keys v \<longleftrightarrow>
     normalize_text (kv_title v) \<noteq> [] \<and> normalize_text (kv_artist v) \<noteq> [] \<and>
     s = normalize_text (kv_title v) @ ''|'' @ normalize_text (kv_artist v) @ ''|'' @
       normalize_text (kv_album v) @ ''|'' @ duration_bucket (kv_duration_s v)"
  by (auto simp: signature_keys_def Let_def)

lemma signature_keys_song:
  "''song:'' @ s \<in> signature_keys v \<longleftrightarrow>
     normalize_text (kv_title v) \<noteq> [] \<and> normalize_text (kv_artist v) \<noteq> [] \<and>
     s = normalize_text (kv_title v) @ ''|'' @ normalize_text (kv_artist v)"
  by (auto simp: signature_keys_def Let_def)

lemma has_track_overlap_iff:
  "has_track_overlap xs ys \<longleftrightarrow>
     (\<exists>x \<in> set xs. \<exists>y \<in> set ys. track_keys x \<inter> track_keys y \<noteq> {})"
  unfolding has_track_overlap_def Let_def list_ex_iff by blast

lemma has_track_overlap_sym: "has_track_overlap xs ys = has_track_overlap ys xs"
  unfolding has_track_overlap_iff by blast

text \<open>A track known only by its texts.\<close>

definition bare_track :: "track \<Rightarrow> bool" where
  "bare_track t = (\<not> truthy (trk_isrc t) \<and> \<not> truthy (trk_id t) \<and>
     \<not> truthy (trk_source_item_id t) \<and> trk_provider_uris t = [])"

lemma bare_track_keys: "bare_track t \<Longrightarrow> track_keys t = signature_keys (track_values t)"
  by (simp add: bare_track_def track_keys_def keys_from_values_def track_values_def id_key_def)

lemma signature_overlap:
  "signature_keys v \<inter> signature_keys w \<noteq> {} \<longleftrightarrow>
     normalize_text (kv_title v) \<noteq> [] \<and> normalize_text (kv_artist v) \<noteq> [] \<and>
     normalize_text (kv_title v) = normalize_text (kv_title w) \<and>
     normalize_text (kv_artist v) = normalize_text (kv_artist w)" (is "?l \<longleftrightarrow> ?r")
proof
  assume ?l
  then obtain k where k: "k \<in> signature_keys v" "k \<in> signature_keys w" by blast
  note bars = split_first_bar [OF normalize_text_no_bar normalize_text_no_bar]
  from k show ?r
    by (auto simp: signature_keys_def Let_def bars split: if_splits)
next
  assume r: ?r
  then have "normalize_text (kv_title w) \<noteq> []" and "normalize_text (kv_artist w) \<noteq> []"
    by metis+
  with r have "''song:'' @ normalize_text (kv_title v) @ ''|'' @ normalize_text (kv_artist v)
      \<in> signature_keys v \<inter> signature_keys w"
    by (simp add: signature_keys_def Let_def)
  then show ?l by blast
qed

text \<open>
  The normal form of a text is made of lower-case letters, digits and single blanks, and it
  neither starts nor ends with a blank, so the separator of the composed keys never occurs in it.
\<close>

lemma normalize_text_form:
  "set (normalize_text v) \<subseteq> insert (CHR '' '') {c. is_lower_alnum c} \<and>
   CHR ''|'' \<notin> set (normalize_text v) \<and>
   (normalize_text v = [] \<or>
      is_lower_alnum (hd (normalize_text v)) \<and> is_lower_alnum (last (normalize_text v))) \<and>
   normalize_text (map_option lower v) = normalize_text v"
  using normalize_text_chars [of v] normalize_text_no_bar [of v] normalize_text_ends [of v]
  by (cases v) (auto simp: normalize_text_lower)

text \<open>
  Two tracks that carry no identifier are taken for the same recording exactly when their
  normalised titles and artists agree and are not empty; album and duration never decide.
\<close>

lemma bare_tracks_overlap:
  assumes "bare_track x" and "bare_track y"
  shows "has_track_overlap [x] [y] \<longleftrightarrow>
    normalize_text (Some (trk_title x)) \<noteq> [] \<and> normalize_text (Some (trk_artist x)) \<noteq> [] \<and>
    normalize_text (Some (trk_title x)) = normalize_text (Some (trk_title y)) \<and>
    normalize_text (Some (trk_artist x)) = normalize_text (Some (trk_artist y))"
  using signature_overlap [of "track_values x" "track_values y"]
  by (simp add: has_track_overlap_iff bare_track_keys assms track_values_def)

theorem bare_tracks_overlap_witness:
  "has_track_overlap [new_track ''One'' ''U2''] [new_track ''ONE (feat. X)'' ''u2'']"
proof -
  have b: "bare_track (new_track ''One'' ''U2'')" "bare_track (new_track ''ONE (feat. X)'' ''u2'')"
    by (simp_all add: bare_track_def new_track_def)
  have n: "normalize_text (Some ''One'') = ''one''" "normalize_text (Some ''U2'') = ''u2''"
    "normalize_text (Some ''ONE (feat. X)'') = ''one''" "normalize_text (Some ''u2'') = ''u2''"
    by code_simp+
  show ?thesis
    unfolding bare_tracks_overlap [OF b] by (simp add: new_track_def n)
qed

end
