(* ===== verification/Similarity.thy ===== *)
theory Similarity
  imports Py_Text Complex_Main
begin

text \<open>
  The part of Python's \<open>difflib\<close> that scoring uses: \<open>SequenceMatcher(None, a, b).ratio()\<close>, with
  its default \<open>autojunk\<close> heuristic, as an exact rational. Only the total size of the matching
  blocks matters, so the blocks themselves are not collected.
\<close>

section \<open>The index of the second sequence\<close>

text \<open>\<open>b2j\<close>: the positions of a character in \<open>b\<close>, none for the popular ones of a long \<open>b\<close>.\<close>

definition positions :: "string \<Rightarrow> char \<Rightarrow> nat list" where
  "positions b c = filter (\<lambda>j. b ! j = c) [0..<length b]"

definition b2j :: "string \<Rightarrow> char \<Rightarrow> nat list" where
  "b2j b c =
     (let js = positions b c in
      if 200 \<le> length b \<and> length b div 100 + 1 < length js then [] else js)"

section \<open>The longest match of two ranges\<close>

type_synonym best = "nat \<times> nat \<times> nat"

text \<open>
  One row of the dynamic programme: the candidate columns \<open>js\<close>, the lengths of the row above,
  the lengths of this row so far and the best block so far.
\<close>

definition run_length :: "(nat \<times> nat) list \<Rightarrow> nat \<Rightarrow> nat" where
  "run_length up j = Suc (if j = 0 then 0 else case map_of up (j - 1) of None \<Rightarrow> 0 | Some n \<Rightarrow> n)"

fun match_row ::
  "nat \<Rightarrow> nat \<Rightarrow> nat \<Rightarrow> nat list \<Rightarrow> (nat \<times> nat) list \<Rightarrow> (nat \<times> nat) list \<Rightarrow> best \<Rightarrow> (nat \<times> nat) list \<times> best"
where
  "match_row i blo bhi [] up row best = (row, best)"
| "match_row i blo bhi (j # js) up row best =
     (if j < blo then match_row i blo bhi js up row best
      else if bhi \<le> j then (row, best)
      else
        let k = run_length up j in
        match_row i blo bhi js up ((j, k) # row)
          (if snd (snd best) < k then (i + 1 - k, j + 1 - k, k) else best))"

fun match_rows ::
  "string \<Rightarrow> string \<Rightarrow> nat \<Rightarrow> nat \<Rightarrow> nat list \<Rightarrow> (nat \<times> nat) list \<Rightarrow> best \<Rightarrow> best"
where
  "match_rows a b blo bhi [] up best = best"
| "match_rows a b blo bhi (i # is) up best =
     (case match_row i blo bhi (b2j b (a ! i)) up [] best of
        (row, best') \<Rightarrow> match_rows a b blo bhi is row best')"

text \<open>Popular characters adjacent to the block are taken in afterwards.\<close>

fun extend_left :: "string \<Rightarrow> string \<Rightarrow> nat \<Rightarrow> nat \<Rightarrow> nat \<Rightarrow> nat \<Rightarrow> nat \<Rightarrow> best" where
  "extend_left a b alo blo 0 j k = (0, j, k)"
| "extend_left a b alo blo (Suc i) j k =
     (if alo < Suc i \<and> blo < j \<and> a ! i = b ! (j - 1)
      then extend_left a b alo blo i (j - 1) (Suc k) else (Suc i, j, k))"

function extend_right :: "string \<Rightarrow> string \<Rightarrow> nat \<Rightarrow> nat \<Rightarrow> best \<Rightarrow> best" where
  "extend_right a b ahi bhi (i, j, k) =
     (if i + k < ahi \<and> j + k < bhi \<and> a ! (i + k) = b ! (j + k)
      then extend_right a b ahi bhi (i, j, Suc k) else (i, j, k))"
  by pat_completeness auto
termination
  by (relation "measure (\<lambda>(a, b, ahi, bhi, i, j, k). ahi - (i + k))") auto

declare extend_right.simps [simp del]

definition find_longest_match :: "string \<Rightarrow> string \<Rightarrow> nat \<Rightarrow> nat \<Rightarrow> nat \<Rightarrow> nat \<Rightarrow> best" where
  "find_longest_match a b alo ahi blo bhi =
     (case match_rows a b blo bhi [alo..<ahi] [] (alo, blo, 0) of (i, j, k) \<Rightarrow>
        extend_right a b ahi bhi (extend_left a b alo blo i j k))"

text \<open>Where a block found in two ranges lies.\<close>

definition in_range :: "nat \<Rightarrow> nat \<Rightarrow> nat \<Rightarrow> nat \<Rightarrow> best \<Rightarrow> bool" where
  "in_range alo ahi blo bhi m =
     (case m of (i, j, k) \<Rightarrow> alo \<le> i \<and> i + k \<le> ahi \<and> blo \<le> j \<and> j + k \<le> bhi)"

text \<open>The lengths kept for row \<open>i\<close> never reach outside the ranges.\<close>

definition row_ok :: "nat \<Rightarrow> nat \<Rightarrow> nat \<Rightarrow> (nat \<times> nat) list \<Rightarrow> bool" where
  "row_ok alo blo i row = list_all (\<lambda>(j, k). k + alo \<le> Suc i \<and> k + blo \<le> Suc j \<and> blo \<le> j) row"

definition upper_ok :: "nat \<Rightarrow> nat \<Rightarrow> nat \<Rightarrow> (nat \<times> nat) list \<Rightarrow> bool" where
  "upper_ok alo blo i row = (\<forall>j k. map_of row j = Some k \<longrightarrow> k + alo \<le> i \<and> k + blo \<le> Suc j)"

lemma row_ok_upper: "row_ok alo blo i row \<Longrightarrow> upper_ok alo blo (Suc i) row"
  by (fastforce simp: row_ok_def upper_ok_def list_all_iff dest: map_of_SomeD)

lemma match_row_ok:
  assumes "match_row i blo bhi js up row best = (row', best')" and "upper_ok alo blo i up"
    and "row_ok alo blo i row" and "in_range alo ahi blo bhi best" and "alo \<le> i" and "i < ahi"
  shows "row_ok alo blo i row' \<and> in_range alo ahi blo bhi best'"
  using assms
proof (induction js arbitrary: row best)
  case (Cons j js)
  define k where "k = run_length up j"
  consider "j < blo" | "\<not> j < blo" "bhi \<le> j" | "blo \<le> j" "j < bhi" by linarith
  then show ?case
  proof cases
    case 3
    have "map_of up (j - 1) = Some n \<Longrightarrow> n + alo \<le> i \<and> n + blo \<le> Suc (j - 1)" for n
      using Cons.prems(2) unfolding upper_ok_def by blast
    then have k: "k + alo \<le> Suc i" "k + blo \<le> Suc j"
      using Cons.prems(5) 3 by (auto simp: k_def run_length_def split: option.splits)
    let ?best = "if snd (snd best) < k then (i + 1 - k, j + 1 - k, k) else best"
    have "match_row i blo bhi js up ((j, k) # row) ?best = (row', best')"
      using Cons.prems(1) 3 by (simp add: k_def Let_def split: if_splits)
    moreover have "row_ok alo blo i ((j, k) # row)"
      using Cons.prems(3) k 3 by (simp add: row_ok_def)
    moreover have "in_range alo ahi blo bhi ?best"
      using Cons.prems(4,6) k 3 by (auto simp: in_range_def)
    ultimately show ?thesis
      using Cons.IH Cons.prems(2,5,6) by blast
  qed (use Cons in simp_all)
qed simp

lemma match_rows_ok:
  assumes "upper_ok alo blo i up" and "in_range alo ahi blo bhi best" and "alo \<le> i" and "i \<le> ahi"
  shows "in_range alo ahi blo bhi (match_rows a b blo bhi [i..<ahi] up best)"
  using assms
proof (induction "ahi - i" arbitrary: i up best)
  case (Suc n)
  then have i: "i < ahi" by simp
  obtain row best' where r: "match_row i blo bhi (b2j b (a ! i)) up [] best = (row, best')"
    by (cases "match_row i blo bhi (b2j b (a ! i)) up [] best")
  have "row_ok alo blo i row \<and> in_range alo ahi blo bhi best'"
    using match_row_ok [OF r Suc.prems(1) _ Suc.prems(2,3) i] by (simp add: row_ok_def)
  then have "in_range alo ahi blo bhi (match_rows a b blo bhi [Suc i..<ahi] row best')"
    using Suc i by (intro Suc.hyps) (auto intro: row_ok_upper)
  then show ?case using i r by (simp add: upt_conv_Cons)
qed simp

lemma extend_left_ok:
  "in_range alo ahi blo bhi (i, j, k) \<Longrightarrow> in_range alo ahi blo bhi (extend_left a b alo blo i j k)"
  by (induction a b alo blo i j k rule: extend_left.induct) (auto simp: in_range_def)

lemma extend_right_ok:
  "in_range alo ahi blo bhi (i, j, k) \<Longrightarrow> in_range alo ahi blo bhi (extend_right a b ahi bhi (i, j, k))"
proof (induction a b ahi bhi "(i, j, k)" arbitrary: i j k rule: extend_right.induct)
  case (1 a b ahi bhi i j k)
  show ?case
    unfolding extend_right.simps [of a b ahi bhi i j k] using 1 by (auto simp: in_range_def)
qed

lemma find_longest_match_range:
  assumes "alo \<le> ahi" and "blo \<le> bhi"
  shows "in_range alo ahi blo bhi (find_longest_match a b alo ahi blo bhi)"
proof -
  have "in_range alo ahi blo bhi (match_rows a b blo bhi [alo..<ahi] [] (alo, blo, 0))"
    using assms by (intro match_rows_ok) (auto simp: in_range_def upper_ok_def)
  then show ?thesis
    unfolding find_longest_match_def
    by (auto split: prod.splits) (metis extend_left_ok extend_right_ok prod_cases3)
qed

section \<open>The total size of the matching blocks\<close>

text \<open>
  The queue of \<open>get_matching_blocks\<close> visits both sides of each block; the order does not
  influence the sum.
\<close>

function matched_size :: "string \<Rightarrow> string \<Rightarrow> nat \<Rightarrow> nat \<Rightarrow> nat \<Rightarrow> nat \<Rightarrow> nat" where
  "matched_size a b alo ahi blo bhi =
     (if alo < ahi \<and> blo < bhi then
        (case find_longest_match a b alo ahi blo bhi of (i, j, k) \<Rightarrow>
           if k = 0 then 0
           else matched_size a b alo i blo j + k + matched_size a b (i + k) ahi (j + k) bhi)
      else 0)"
  by pat_completeness auto
termination
proof (relation "measure (\<lambda>(a, b, alo, ahi, blo, bhi). ahi - alo)", simp, goal_cases)
  case (1 a b alo ahi blo bhi i j k)
  with find_longest_match_range [of alo ahi blo bhi a b] show ?case
    by (auto simp: in_range_def)
next
  case (2 a b alo ahi blo bhi i j k)
  with find_longest_match_range [of alo ahi blo bhi a b] show ?case
    by (auto simp: in_range_def)
qed

declare matched_size.simps [simp del]

definition ratio :: "string \<Rightarrow> string \<Rightarrow> rat" where
  "ratio a b =
     (let n = length a + length b in
      if n = 0 then 1 else 2 * of_nat (matched_size a b 0 (length a) 0 (length b)) / of_nat n)"

lemma matched_size_le:
  "alo \<le> ahi \<Longrightarrow> blo \<le> bhi \<Longrightarrow> matched_size a b alo ahi blo bhi \<le> min (ahi - alo) (bhi - blo)"
proof (induction a b alo ahi blo bhi rule: matched_size.induct)
  case (1 a b alo ahi blo bhi)
  show ?case
  proof (cases "alo < ahi \<and> blo < bhi")
    case True
    obtain i j k where m: "find_longest_match a b alo ahi blo bhi = (i, j, k)"
      by (metis prod_cases3)
    then have r: "alo \<le> i" "i + k \<le> ahi" "blo \<le> j" "j + k \<le> bhi"
      using find_longest_match_range [of alo ahi blo bhi a b] True by (auto simp: in_range_def)
    show ?thesis
    proof (cases "k = 0")
      case False
      have "matched_size a b alo i blo j \<le> min (i - alo) (j - blo)"
        and "matched_size a b (i + k) ahi (j + k) bhi \<le> min (ahi - (i + k)) (bhi - (j + k))"
        using "1.IH" True m False r by simp_all
      then show ?thesis
        using r False True m by (subst matched_size.simps) auto
    qed (use True m in \<open>simp add: matched_size.simps [of a b alo ahi blo bhi]\<close>)
  qed (auto simp: matched_size.simps [of a b alo ahi blo bhi])
qed

lemma ratio_bounds: "0 \<le> ratio a b \<and> ratio a b \<le> 1"
proof (cases "length a + length b = 0")
  case False
  let ?m = "matched_size a b 0 (length a) 0 (length b)"
  have "2 * ?m \<le> length a + length b"
    using matched_size_le [of 0 "length a" 0 "length b" a b] by simp
  then have "2 * (of_nat ?m :: rat) \<le> of_nat (length a + length b)"
    by (metis of_nat_le_iff of_nat_mult of_nat_numeral)
  then show ?thesis
    unfolding ratio_def Let_def using False by (simp del: of_nat_add)
qed (simp add: ratio_def)

end
