(* ===== verification/Matching.thy ===== *)
theory Matching
  imports Track_Keys Adapter Similarity
begin

text \<open>
  Scoring and review policy: \<open>app/core/match_service.py\<close> for tracks and
  \<open>app/core/library_match.py\<close> for albums and artists. Confidences are exact rationals, rounded
  half to even as \<open>round\<close> does; the binary rounding of the floats in between is not modelled.
\<close>

section \<open>Rounding\<close>

definition round_half_even :: "rat \<Rightarrow> int" where
  "round_half_even x =
     (let f = \<lfloor>x\<rfloor>; d = x - of_int f in
      if d < 1 / 2 then f else if 1 / 2 < d then f + 1 else if even f then f else f + 1)"

definition round4 :: "rat \<Rightarrow> rat" where
  "round4 x = of_int (round_half_even (x * 10000)) / 10000"

text \<open>The format \<open>:.2f\<close> of a number that is not negative.\<close>

definition fixed2 :: "rat \<Rightarrow> string" where
  "fixed2 x = (let n = round_half_even (x * 100) in str_int (n div 100) @ ''.'' @ two_digits (n mod 100))"

lemma round_half_even_mono: "x \<le> y \<Longrightarrow> round_half_even x \<le> round_half_even y"
proof -
  assume xy: "x \<le> y"
  then have f: "\<lfloor>x\<rfloor> \<le> \<lfloor>y\<rfloor>" by (rule floor_mono)
  show ?thesis
  proof (cases "\<lfloor>x\<rfloor> = \<lfloor>y\<rfloor>")
    case True
    with xy show ?thesis by (auto simp: round_half_even_def Let_def)
  next
    case False
    have "round_half_even x \<le> \<lfloor>x\<rfloor> + 1" "\<lfloor>y\<rfloor> \<le> round_half_even y"
      by (auto simp: round_half_even_def Let_def)
    with f False show ?thesis by linarith
  qed
qed

lemma round_half_even_of_int [simp]: "round_half_even (of_int i) = i"
  by (simp add: round_half_even_def)

lemma round4_mono: "x \<le> y \<Longrightarrow> round4 x \<le> round4 y"
  unfolding round4_def by (simp add: divide_right_mono round_half_even_mono)

lemma round4_of_int [simp]: "round4 0 = 0" "round4 1 = 1"
  using round_half_even_of_int [of 0] round_half_even_of_int [of 10000]
  by (simp_all add: round4_def)

lemma round4_bounds: "0 \<le> x \<Longrightarrow> x \<le> 1 \<Longrightarrow> 0 \<le> round4 x \<and> round4 x \<le> 1"
  using round4_mono [of 0 x] round4_mono [of x 1] by simp

section \<open>Tracks\<close>

record match_result =
  mt_candidate :: "track_candidate option"
  mt_confidence :: rat
  mt_source :: string
  mt_needs_review :: bool
  mt_review_reason :: "string option"

text \<open>\<open>_norm\<close> is the same text normalisation as \<open>normalize_text\<close>, with its own two patterns.\<close>

definition norm_text :: "string option \<Rightarrow> string" where
  "norm_text v =
     (if \<not> truthy v then [] else strip (noise_sub '' '' (feat_sub (lower (the v)))))"

text \<open>
  The word \<open>live\<close> between word boundaries: normalised text consists of letters, digits and
  single blanks, so its words are what the blanks separate.
\<close>

definition has_live_marker :: "string option \<Rightarrow> bool" where
  "has_live_marker title = (''live'' \<in> set (split_on (CHR '' '') (norm_text title)))"

definition live_version_mismatch :: "track \<Rightarrow> track_candidate \<Rightarrow> bool" where
  "live_version_mismatch t c =
     (\<not> has_live_marker (Some (trk_title t)) \<and> has_live_marker (Some (cand_title c)))"

definition apply_live_penalty ::
  "track \<Rightarrow> track_candidate \<Rightarrow> rat \<Rightarrow> string \<Rightarrow> rat \<times> string"
where
  "apply_live_penalty t c confidence source =
     (if \<not> live_version_mismatch t c then (round4 confidence, source)
      else (max 0 (round4 (confidence - 1 / 5)), source @ ''_live''))"

definition score :: "track \<Rightarrow> track_candidate \<Rightarrow> rat \<times> string" where
  "score t c =
     (if truthy (trk_isrc t) \<and> truthy (cand_isrc c) \<and> trk_isrc t = cand_isrc c
      then apply_live_penalty t c 1 ''isrc_exact''
      else
        let title = ratio (norm_text (Some (trk_title t))) (norm_text (Some (cand_title c)));
            artist = ratio (norm_text (Some (trk_artist t))) (norm_text (Some (cand_artist c)));
            album = (if truthy (trk_album t) \<and> truthy (cand_album c)
                     then ratio (norm_text (trk_album t)) (norm_text (cand_album c)) else 0);
            dur = (case (trk_duration_s t, cand_duration_s c) of
                     (Some d, Some e) \<Rightarrow>
                       if d = 0 \<or> e = 0 then 0
                       else if \<bar>d - e\<bar> \<le> 3 then 1 else max 0 (1 - of_int \<bar>d - e\<bar> / 30)
                   | _ \<Rightarrow> 0)
        in apply_live_penalty t c
             (9 / 20 * title + 7 / 20 * artist + 1 / 10 * album + 1 / 10 * dur) ''fuzzy'')"

definition live_review_reason :: "track_candidate option \<Rightarrow> string option" where
  "live_review_reason c =
     map_option (\<lambda>c. ''Target title '' @ [char_of (34::nat)] @ cand_title c @ [char_of (34::nat)] @
       '' appears to be a live version; confirm before migrating.'') c"

definition needs_review :: "rat \<Rightarrow> string \<Rightarrow> rat \<Rightarrow> bool" where
  "needs_review confidence source threshold =
     (confidence < threshold \<or> ends_with ''_live'' source)"

text \<open>The first candidate of the highest confidence.\<close>

type_synonym 'c scored = "'c option \<times> rat \<times> string"

fun best_candidate ::
  "('c \<Rightarrow> rat \<times> string) \<Rightarrow> 'c list \<Rightarrow> 'c scored \<Rightarrow> 'c scored"
where
  "best_candidate sc [] best = best"
| "best_candidate sc (c # cs) best =
     (case sc c of (conf, src) \<Rightarrow>
        best_candidate sc cs (if fst (snd best) < conf then (Some c, conf, src) else best))"

record 'w evidence_graph =
  eg_lookup :: "string option \<Rightarrow> string \<Rightarrow> ('w, exn, track_candidate option) proc"
  eg_record :: "track \<Rightarrow> string \<Rightarrow> track_candidate \<Rightarrow> rat \<Rightarrow> string \<Rightarrow> ('w, exn, unit) proc"

definition cached_result :: "track \<Rightarrow> rat \<Rightarrow> track_candidate \<Rightarrow> match_result" where
  "cached_result t threshold c =
     (case apply_live_penalty t c 1 ''graph_cache'' of (confidence, source) \<Rightarrow>
       \<lparr>mt_candidate = Some c, mt_confidence = confidence, mt_source = source,
        mt_needs_review = needs_review confidence source threshold,
        mt_review_reason =
          (if ends_with ''_live'' source then live_review_reason (Some c) else None)\<rparr>)"

definition search_result :: "track \<Rightarrow> rat \<Rightarrow> track_candidate list \<Rightarrow> match_result" where
  "search_result t threshold cs =
     (if cs = []
      then \<lparr>mt_candidate = None, mt_confidence = 0, mt_source = ''none'',
            mt_needs_review = True, mt_review_reason = None\<rparr>
      else case best_candidate (score t) cs (None, -1, ''none'') of (best, conf, src) \<Rightarrow>
        \<lparr>mt_candidate = best, mt_confidence = conf, mt_source = src,
         mt_needs_review = needs_review conf src threshold,
         mt_review_reason = (if ends_with ''_live'' src then live_review_reason best else None)\<rparr>)"

definition resolve_track ::
  "'w evidence_graph option \<Rightarrow> rat \<Rightarrow> track \<Rightarrow> 'w adapter \<Rightarrow> credential \<Rightarrow> ('w, exn, match_result) proc"
where
  "resolve_track graph threshold t target cred =
     andthen
       (case graph of
          Some g \<Rightarrow> if truthy (trk_isrc t) then eg_lookup g (trk_isrc t) (inf_name (ad_info target)) else ret None
        | None \<Rightarrow> ret None)
       (\<lambda>cached. case cached of
          Some c \<Rightarrow> ret (cached_result t threshold c)
        | None \<Rightarrow> andthen (ad_search_tracks target cred t) (\<lambda>cs.
            let r = search_result t threshold cs in
            case (graph, mt_candidate r) of
              (Some g, Some best) \<Rightarrow>
                if mt_needs_review r then ret r
                else andthen (eg_record g t (inf_name (ad_info target)) best (mt_confidence r) (mt_source r))
                  (\<lambda>_. ret r)
            | _ \<Rightarrow> ret r))"

section \<open>Albums and artists\<close>

text \<open>NFKC on the code points below 256; the fraction slash is shown as a plain one.\<close>

definition nfkc_char :: "char \<Rightarrow> string" where
  "nfkc_char c =
     (let n = ord c in
      if n \<in> {160, 168, 175, 180, 184} then '' ''
      else if n = 170 then ''a'' else if n = 186 then ''o''
      else if n = 178 then ''2'' else if n = 179 then ''3'' else if n = 185 then ''1''
      else if n = 188 then ''1/4'' else if n = 189 then ''1/2'' else if n = 190 then ''3/4''
      else [c])"

definition is_word :: "char \<Rightarrow> bool" where
  "is_word c =
     (let n = ord c in
      is_lower_alnum c \<or> (65 \<le> n \<and> n \<le> 90) \<or> n = 95 \<or> n = 170 \<or> n = 181 \<or> n = 186 \<or>
      n \<in> {178, 179, 185, 188, 189, 190} \<or> (192 \<le> n \<and> n \<noteq> 215 \<and> n \<noteq> 247))"

function word_noise_sub :: "string \<Rightarrow> string" where
  "word_noise_sub [] = []"
| "word_noise_sub (c # s) =
     (if is_word c then c # word_noise_sub s
      else '' '' @ word_noise_sub (dropWhile (\<lambda>x. \<not> is_word x) s))"
  by pat_completeness auto
termination
  by (relation "measure length") (auto simp: le_imp_less_Suc length_dropWhile_le)

definition normalize_name :: "string option \<Rightarrow> string" where
  "normalize_name v =
     (if \<not> truthy v then []
      else strip (word_noise_sub (feat_sub (casefold (concat (map nfkc_char (the v)))))))"

definition name_ratio :: "string option \<Rightarrow> string option \<Rightarrow> rat" where
  "name_ratio l r =
     (let a = normalize_name l; b = normalize_name r in if a = [] \<or> b = [] then 0 else ratio a b)"

definition artist_signature :: "string list \<Rightarrow> string" where
  "artist_signature vs =
     join '' '' (sort (filter (\<lambda>v. v \<noteq> []) (map (\<lambda>v. normalize_name (Some v)) vs)))"

definition album_year :: "album \<Rightarrow> int option" where
  "album_year a =
     (case alb_release_date a of Some d \<Rightarrow> Some (date_year d) | None \<Rightarrow> alb_release_year a)"

definition score_album :: "album \<Rightarrow> album_candidate \<Rightarrow> rat \<times> string" where
  "score_album a c =
     (if truthy (alb_upc a) \<and> truthy (acand_upc c) then
        (if upper (the (alb_upc a)) = upper (the (acand_upc c))
         then (1, ''upc_exact'') else (0, ''upc_conflict''))
      else
        let title = name_ratio (Some (alb_title a)) (Some (acand_title c));
            artists = name_ratio (Some (artist_signature (alb_artists a)))
                        (Some (artist_signature (acand_artists c)));
            release = (case album_year a of
                Some y \<Rightarrow> if y \<noteq> 0 \<and> truthy (acand_release_date c) \<and>
                            str_int y = take 4 (the (acand_release_date c)) then 1 else 0
              | None \<Rightarrow> 0)
        in (round4 (3 / 5 * title + 7 / 20 * artists + 1 / 20 * release), ''metadata''))"

definition score_artist :: "artist \<Rightarrow> artist_candidate \<Rightarrow> rat \<times> string" where
  "score_artist a c = (round4 (name_ratio (Some (art_name a)) (Some (rcand_name c))), ''name'')"

record 'c library_result =
  lm_candidate :: "'c option"
  lm_confidence :: rat
  lm_source :: string
  lm_needs_review :: bool
  lm_review_reason :: "string option"

text \<open>\<open>sorted(..., reverse=True)\<close> keeps the order of candidates with the same confidence.\<close>

definition ranked :: "('c \<Rightarrow> rat \<times> string) \<Rightarrow> 'c list \<Rightarrow> ('c \<times> rat \<times> string) list" where
  "ranked sc cs = rev (sort_key (\<lambda>r. fst (snd r)) (rev (map (\<lambda>c. (c, sc c)) cs)))"

definition close_second :: "('c \<times> rat \<times> string) list \<Rightarrow> bool" where
  "close_second rs =
     (case rs of (c, conf, src) # (c', conf', src') # _ \<Rightarrow> \<bar>conf - conf'\<bar> \<le> 1 / 50 | _ \<Rightarrow> False)"

definition release_text :: "album \<Rightarrow> string option" where
  "release_text a =
     (case alb_release_date a of
        Some d \<Rightarrow> Some (date_text d)
      | None \<Rightarrow> (case alb_release_year a of
            Some y \<Rightarrow> if y = 0 then None else Some (str_int y) | None \<Rightarrow> None))"

definition same_album :: "album \<Rightarrow> string \<Rightarrow> string \<Rightarrow> album_candidate" where
  "same_album a i uri =
     \<lparr>acand_album_id = i, acand_uri = uri, acand_title = alb_title a,
      acand_artists = alb_artists a, acand_upc = alb_upc a,
      acand_release_date = release_text a, acand_artwork_uri = alb_artwork_uri a\<rparr>"

definition same_artist :: "artist \<Rightarrow> string \<Rightarrow> string \<Rightarrow> artist_candidate" where
  "same_artist a i uri =
     \<lparr>rcand_artist_id = i, rcand_uri = uri, rcand_name = art_name a,
      rcand_artwork_uri = art_artwork_uri a\<rparr>"

definition album_search_result ::
  "rat \<Rightarrow> album \<Rightarrow> album_candidate list \<Rightarrow> album_candidate library_result"
where
  "album_search_result threshold a cs =
     (case ranked (score_album a) cs of
        [] \<Rightarrow> \<lparr>lm_candidate = None, lm_confidence = 0, lm_source = ''none'',
              lm_needs_review = True, lm_review_reason = Some ''No target album match found.''\<rparr>
      | (c, confidence, source) # rest \<Rightarrow>
          let conflicting = (source = ''upc_conflict'');
              ambiguous = (source \<noteq> ''upc_exact'' \<and> close_second ((c, confidence, source) # rest))
          in \<lparr>lm_candidate = Some c, lm_confidence = confidence, lm_source = source,
              lm_needs_review = (confidence < threshold \<or> ambiguous \<or> conflicting),
              lm_review_reason =
                (if conflicting then Some ''Source and target album UPCs conflict.''
                 else if ambiguous then Some ''Multiple target albums are equally plausible.''
                 else if confidence < threshold
                 then Some (''Album match confidence '' @ fixed2 confidence @
                        '' is below the review threshold.'')
                 else None)\<rparr>)"

definition resolve_album ::
  "rat \<Rightarrow> provider_info \<Rightarrow> 'w album_writer \<Rightarrow> credential \<Rightarrow> album \<Rightarrow>
     ('w, exn, album_candidate library_result) proc"
where
  "resolve_album threshold info target cred a =
     (let direct = dict_get (alb_provider_uris a) (inf_name info) in
      andthen (if truthy direct then alw_validate target cred (the direct) else ret False)
        (\<lambda>ok. if ok
           then ret \<lparr>lm_candidate = Some (same_album a (or_str (alb_id a) (the direct)) (the direct)),
                     lm_confidence = 1, lm_source = ''provider_uri'',
                     lm_needs_review = False, lm_review_reason = None\<rparr>
           else andthen (alw_search target cred a) (\<lambda>cs. ret (album_search_result threshold a cs))))"

definition artist_search_result :: "artist \<Rightarrow> artist_candidate list \<Rightarrow> artist_candidate library_result" where
  "artist_search_result a cs =
     (case ranked (score_artist a) cs of
        [] \<Rightarrow> \<lparr>lm_candidate = None, lm_confidence = 0, lm_source = ''none'',
              lm_needs_review = True, lm_review_reason = Some ''No target artist match found.''\<rparr>
      | (c, confidence, source) # rest \<Rightarrow>
          \<lparr>lm_candidate = Some c, lm_confidence = confidence, lm_source = source,
           lm_needs_review = True,
           lm_review_reason = Some (if close_second ((c, confidence, source) # rest)
             then ''Multiple target artists are equally plausible.''
             else ''Artist names are not stable cross-provider identifiers.'')\<rparr>)"

definition resolve_artist ::
  "provider_info \<Rightarrow> 'w artist_writer \<Rightarrow> credential \<Rightarrow> artist \<Rightarrow>
     ('w, exn, artist_candidate library_result) proc"
where
  "resolve_artist info target cred a =
     (let direct = dict_get (art_provider_uris a) (inf_name info) in
      andthen (if truthy direct then arw_validate target cred (the direct) else ret False)
        (\<lambda>ok. if ok
           then ret \<lparr>lm_candidate = Some (same_artist a (or_str (art_id a) (the direct)) (the direct)),
                     lm_confidence = 1, lm_source = ''provider_uri'',
                     lm_needs_review = False, lm_review_reason = None\<rparr>
           else andthen (arw_search target cred a) (\<lambda>cs. ret (artist_search_result a cs))))"

section \<open>Lemmas\<close>

lemma norm_text_eq: "norm_text v = normalize_text v"
  by (simp add: norm_text_def normalize_text_def)

lemma live_penalty_bounds:
  "0 \<le> x \<Longrightarrow> x \<le> 1 \<Longrightarrow> 0 \<le> fst (apply_live_penalty t c x src) \<and> fst (apply_live_penalty t c x src) \<le> 1"
  using round4_bounds [of x] round4_mono [of "x - 1 / 5" 1] by (simp add: apply_live_penalty_def)

lemma duration_score_bounds:
  fixes d e :: int
  shows "0 \<le> (if \<bar>d - e\<bar> \<le> 3 then 1 else max 0 (1 - of_int \<bar>d - e\<bar> / 30) :: rat) \<and>
    (if \<bar>d - e\<bar> \<le> 3 then 1 else max 0 (1 - of_int \<bar>d - e\<bar> / 30) :: rat) \<le> 1"
  by simp

lemma score_bounds: "0 \<le> fst (score t c) \<and> fst (score t c) \<le> 1"
proof (cases "truthy (trk_isrc t) \<and> truthy (cand_isrc c) \<and> trk_isrc t = cand_isrc c")
  case True
  then show ?thesis using live_penalty_bounds [of 1] by (simp add: score_def)
next
  case False
  let ?t = "ratio (norm_text (Some (trk_title t))) (norm_text (Some (cand_title c)))"
  let ?a = "ratio (norm_text (Some (trk_artist t))) (norm_text (Some (cand_artist c)))"
  define al where "al = (if truthy (trk_album t) \<and> truthy (cand_album c)
      then ratio (norm_text (trk_album t)) (norm_text (cand_album c)) else 0)"
  define du :: rat where "du = (case (trk_duration_s t, cand_duration_s c) of
      (Some d, Some e) \<Rightarrow>
        if d = 0 \<or> e = 0 then 0
        else if \<bar>d - e\<bar> \<le> 3 then 1 else max 0 (1 - of_int \<bar>d - e\<bar> / 30)
    | _ \<Rightarrow> 0)"
  have du: "0 \<le> du \<and> du \<le> 1"
    by (auto simp: du_def split: option.split)
  have al: "0 \<le> al \<and> al \<le> 1" using ratio_bounds by (simp add: al_def)
  have "fst (score t c) = fst (apply_live_penalty t c (9 / 20 * ?t + 7 / 20 * ?a + 1 / 10 * al + 1 / 10 * du) ''fuzzy'')"
    using False by (simp only: score_def Let_def if_False al_def du_def)
  moreover have "0 \<le> 9 / 20 * ?t + 7 / 20 * ?a + 1 / 10 * al + 1 / 10 * du \<and>
      9 / 20 * ?t + 7 / 20 * ?a + 1 / 10 * al + 1 / 10 * du \<le> 1"
    using du al ratio_bounds [of "norm_text (Some (trk_title t))" "norm_text (Some (cand_title c))"]
      ratio_bounds [of "norm_text (Some (trk_artist t))" "norm_text (Some (cand_artist c))"]
    by linarith
  ultimately show ?thesis using live_penalty_bounds by metis
qed

lemma live_score: "live_version_mismatch t c \<Longrightarrow> ends_with ''_live'' (snd (score t c))"
  by (simp add: score_def apply_live_penalty_def Let_def ends_with_def starts_with_def)

lemma best_candidate_max:
  assumes "best_candidate sc cs (b0, m0, s0) = (b, m, s)"
  shows "m0 \<le> m \<and> list_all (\<lambda>c. fst (sc c) \<le> m) cs \<and>
    ((b, m, s) = (b0, m0, s0) \<or> (\<exists>c \<in> set cs. b = Some c \<and> sc c = (m, s)))"
  using assms
proof (induction cs arbitrary: b0 m0 s0)
  case (Cons c cs)
  obtain conf src where c: "sc c = (conf, src)" by (cases "sc c")
  show ?case
  proof (cases "m0 < conf")
    case True
    with Cons.prems c have "best_candidate sc cs (Some c, conf, src) = (b, m, s)" by simp
    from Cons.IH [OF this] True c show ?thesis by auto
  next
    case False
    with Cons.prems c have "best_candidate sc cs (b0, m0, s0) = (b, m, s)" by simp
    from Cons.IH [OF this] False c show ?thesis by auto
  qed
qed simp

lemma best_score:
  assumes "cs \<noteq> []" and "best_candidate (score t) cs (None, -1, ''none'') = (b, m, s)"
  obtains c where "c \<in> set cs" and "b = Some c" and "score t c = (m, s)"
    and "list_all (\<lambda>c. fst (score t c) \<le> m) cs"
proof -
  note best = best_candidate_max [OF assms(2)]
  have "fst (score t (hd cs)) \<le> m" using best assms(1) by (simp add: list_all_iff)
  with score_bounds [of t "hd cs"] have "0 \<le> m" by linarith
  with best have "\<exists>c \<in> set cs. b = Some c \<and> score t c = (m, s)" by auto
  with best that show ?thesis by blast
qed



text \<open>
  A match found by searching is the first best candidate the target offered, with a
  confidence in the unit interval that no other candidate exceeds. It goes to review exactly when
  that confidence is below the threshold or the candidate is a live version the source is not.
\<close>

lemma search_result_best:
  assumes "cs \<noteq> []"
  shows "\<exists>c \<in> set cs. mt_candidate (search_result t threshold cs) = Some c \<and>
    score t c = (mt_confidence (search_result t threshold cs), mt_source (search_result t threshold cs)) \<and>
    0 \<le> mt_confidence (search_result t threshold cs) \<and> mt_confidence (search_result t threshold cs) \<le> 1 \<and>
    list_all (\<lambda>d. fst (score t d) \<le> mt_confidence (search_result t threshold cs)) cs \<and>
    mt_needs_review (search_result t threshold cs) =
      (mt_confidence (search_result t threshold cs) < threshold \<or> live_version_mismatch t c)"
proof -
  obtain b m s where bm: "best_candidate (score t) cs (None, -1, ''none'') = (b, m, s)"
    by (metis prod_cases3)
  from best_score [OF assms this] obtain c where c: "c \<in> set cs" "b = Some c" "score t c = (m, s)"
    and mx: "list_all (\<lambda>c. fst (score t c) \<le> m) cs" .
  have "ends_with ''_live'' s = live_version_mismatch t c"
  proof
    assume "ends_with ''_live'' s"
    then show "live_version_mismatch t c"
      using c(3) by (auto simp: score_def apply_live_penalty_def Let_def ends_with_def
          starts_with_def split: if_splits)
  next
    assume "live_version_mismatch t c"
    then show "ends_with ''_live'' s" using live_score [of t c] c(3) by simp
  qed
  then show ?thesis
    using assms c mx score_bounds [of t c]
    by (intro bexI [of _ c]) (simp_all add: search_result_def bm needs_review_def)
qed

definition sample_candidate :: "string \<Rightarrow> string \<Rightarrow> track_candidate" where
  "sample_candidate title isrc =
     \<lparr>cand_track_id = ''1'', cand_uri = ''s:1'', cand_title = title, cand_artist = ''U2'',
      cand_album = None, cand_duration_s = None, cand_isrc = Some isrc, cand_explicit = None,
      cand_market = None\<rparr>"

lemma search_result_best_witness:
  "mt_candidate (search_result (new_track ''One'' ''U2'') (4 / 5) [sample_candidate ''One'' ''X'']) =
     Some (sample_candidate ''One'' ''X'')"
  using search_result_best [of "[sample_candidate ''One'' ''X'']" "new_track ''One'' ''U2''" "4 / 5"]
  by auto







end
