(* ===== verification/Digest.thy ===== *)
theory Digest
  imports Py_Text "HOL-Library.Word"
begin

unbundle bit_operations_syntax

text \<open>
  The digests the program takes of its canonical texts: UTF-8 encoding of a text, SHA-256
  over 32-bit words and its hexadecimal form, as \<open>str.encode\<close> and \<open>hashlib\<close> compute them.
  Bytes are natural numbers below 256.
\<close>

section \<open>Bytes\<close>

definition utf8_char :: "char \<Rightarrow> nat list" where
  "utf8_char c = (let n = ord c in if n < 128 then [n] else [192 + n div 64, 128 + n mod 64])"

definition utf8 :: "string \<Rightarrow> nat list" where
  "utf8 s = concat (map utf8_char s)"

definition is_byte :: "nat \<Rightarrow> bool" where
  "is_byte n = (n < 256)"

lemma utf8_bytes: "list_all is_byte (utf8 s)"
proof -
  have "list_all is_byte (utf8_char c)" for c
  proof -
    have b: "ord c < 256" by (simp add: of_char_def less_le_trans [OF horner_sum_of_bool_2_less])
    then have "192 + ord c div 64 < 256" by linarith
    moreover have "128 + ord c mod 64 < 256" by (simp add: less_imp_le_nat trans_less_add1)
    ultimately show ?thesis using b by (simp add: utf8_char_def is_byte_def Let_def)
  qed
  then show ?thesis by (induction s) (auto simp: utf8_def)
qed

section \<open>SHA-256\<close>

type_synonym w32 = "32 word"
type_synonym sha_state = "w32 \<times> w32 \<times> w32 \<times> w32 \<times> w32 \<times> w32 \<times> w32 \<times> w32"

definition sha_constants :: "w32 list" where
  "sha_constants =
    [1116352408, 1899447441, 3049323471, 3921009573, 961987163, 1508970993,
     2453635748, 2870763221, 3624381080, 310598401, 607225278, 1426881987,
     1925078388, 2162078206, 2614888103, 3248222580, 3835390401, 4022224774,
     264347078, 604807628, 770255983, 1249150122, 1555081692, 1996064986,
     2554220882, 2821834349, 2952996808, 3210313671, 3336571891, 3584528711,
     113926993, 338241895, 666307205, 773529912, 1294757372, 1396182291,
     1695183700, 1986661051, 2177026350, 2456956037, 2730485921, 2820302411,
     3259730800, 3345764771, 3516065817, 3600352804, 4094571909, 275423344,
     430227734, 506948616, 659060556, 883997877, 958139571, 1322822218,
     1537002063, 1747873779, 1955562222, 2024104815, 2227730452, 2361852424,
     2428436474, 2756734187, 3204031479, 3329325298]"

definition sha_start :: sha_state where
  "sha_start = (1779033703, 3144134277, 1013904242, 2773480762,
     1359893119,
     2600822924, 528734635, 1541459225)"

definition word_of_bytes :: "nat list \<Rightarrow> w32" where
  "word_of_bytes bs = foldl (\<lambda>w b. push_bit 8 w OR word_of_nat b) 0 bs"

definition small_sigma0 :: "w32 \<Rightarrow> w32" where
  "small_sigma0 x = word_rotr 7 x XOR word_rotr 18 x XOR drop_bit 3 x"

definition small_sigma1 :: "w32 \<Rightarrow> w32" where
  "small_sigma1 x = word_rotr 17 x XOR word_rotr 19 x XOR drop_bit 10 x"

definition big_sigma0 :: "w32 \<Rightarrow> w32" where
  "big_sigma0 x = word_rotr 2 x XOR word_rotr 13 x XOR word_rotr 22 x"

definition big_sigma1 :: "w32 \<Rightarrow> w32" where
  "big_sigma1 x = word_rotr 6 x XOR word_rotr 11 x XOR word_rotr 25 x"

text \<open>The message schedule: \<open>n\<close> further words, each from the sixteen before it.\<close>

fun extend_schedule :: "nat \<Rightarrow> w32 list \<Rightarrow> w32 list" where
  "extend_schedule 0 ws = ws"
| "extend_schedule (Suc n) ws =
     (let k = length ws in
      extend_schedule n
        (ws @ [small_sigma1 (ws ! (k - 2)) + ws ! (k - 7) + small_sigma0 (ws ! (k - 15)) + ws ! (k - 16)]))"

fun sha_round :: "sha_state \<Rightarrow> w32 \<times> w32 \<Rightarrow> sha_state" where
  "sha_round (a, b, c, d, e, f, g, h) (k, w) =
     (let t1 = h + big_sigma1 e + ((e AND f) XOR (NOT e AND g)) + k + w;
          t2 = big_sigma0 a + ((a AND b) XOR (a AND c) XOR (b AND c))
      in (t1 + t2, a, b, c, d + t1, e, f, g))"

fun add_states :: "sha_state \<Rightarrow> sha_state \<Rightarrow> sha_state" where
  "add_states (a, b, c, d, e, f, g, h) (a', b', c', d', e', f', g', h') =
     (a + a', b + b', c + c', d + d', e + e', f + f', g + g', h + h')"

definition sha_block :: "sha_state \<Rightarrow> nat list \<Rightarrow> sha_state" where
  "sha_block s bs =
     (let ws = extend_schedule 48 (map word_of_bytes (chunks 4 bs))
      in add_states s (foldl sha_round s (zip sha_constants ws)))"

fun big_endian :: "nat \<Rightarrow> nat \<Rightarrow> nat list" where
  "big_endian 0 n = []"
| "big_endian (Suc k) n = big_endian k (n div 256) @ [n mod 256]"

definition sha_pad :: "nat list \<Rightarrow> nat list" where
  "sha_pad bs =
     (let n = length bs in
      bs @ [128] @ replicate ((119 - n mod 64) mod 64) 0 @ big_endian 8 (8 * n))"

definition word_bytes :: "w32 \<Rightarrow> nat list" where
  "word_bytes w = map (\<lambda>k. unat (ucast (drop_bit k w) :: 8 word)) [24, 16, 8, 0]"

fun state_bytes :: "sha_state \<Rightarrow> nat list" where
  "state_bytes (a, b, c, d, e, f, g, h) = concat (map word_bytes [a, b, c, d, e, f, g, h])"

definition sha256 :: "nat list \<Rightarrow> nat list" where
  "sha256 bs = state_bytes (foldl sha_block sha_start (chunks 64 (sha_pad bs)))"

definition hex_digit :: "nat \<Rightarrow> char" where
  "hex_digit n = (if n < 10 then char_of (48 + n) else char_of (87 + n))"

definition hex_byte :: "nat \<Rightarrow> string" where
  "hex_byte b = [hex_digit (b div 16), hex_digit (b mod 16)]"

definition sha256_hex :: "string \<Rightarrow> string" where
  "sha256_hex s = concat (map hex_byte (sha256 (utf8 s)))"

lemma length_big_endian [simp]: "length (big_endian k n) = k"
  by (induction k arbitrary: n) auto

lemma big_endian_bytes: "list_all is_byte (big_endian k n)"
  by (induction k arbitrary: n) (auto simp: is_byte_def)

lemma length_word_bytes: "length (word_bytes w) = 4"
  by (simp add: word_bytes_def)

lemma word_bytes_bytes: "list_all is_byte (word_bytes w)"
proof -
  have "unat (x :: 8 word) < 256" for x
    using unsigned_less [of x, where 'a = nat] by simp
  then show ?thesis by (simp add: word_bytes_def is_byte_def)
qed

lemma length_state_bytes: "length (state_bytes h) = 32"
  by (cases h rule: state_bytes.cases) (simp add: length_word_bytes)

lemma state_bytes_bytes: "list_all is_byte (state_bytes h)"
  by (cases h rule: state_bytes.cases) (simp add: word_bytes_bytes)

lemma length_sha256 [simp]: "length (sha256 bs) = 32"
  unfolding sha256_def by (rule length_state_bytes)

lemma sha256_bytes: "list_all is_byte (sha256 bs)"
  unfolding sha256_def by (rule state_bytes_bytes)

text \<open>Padding always fills whole blocks of 64 bytes.\<close>

lemma sha_pad_blocks: "length (sha_pad bs) mod 64 = 0"
proof -
  define n where "n = length bs"
  define r where "r = n mod 64"
  have r: "r < 64" and n: "n = 64 * (n div 64) + r"
    by (simp_all add: r_def)
  have k: "(119 - r) mod 64 = (if r \<le> 55 then 55 - r else 119 - r)"
    using r by (auto simp: mod_if)
  have "length (sha_pad bs) = n + 1 + (119 - r) mod 64 + 8"
    by (simp add: sha_pad_def Let_def n_def r_def)
  also have "\<dots> = (if r \<le> 55 then 64 * (n div 64 + 1) else 64 * (n div 64 + 2))"
    using n r unfolding k by auto
  finally show ?thesis by simp
qed

lemma length_sha256_hex [simp]: "length (sha256_hex s) = 64"
proof -
  have "length (concat (map hex_byte bs)) = 2 * length bs" for bs
    by (induction bs) (auto simp: hex_byte_def)
  then show ?thesis by (simp add: sha256_hex_def)
qed

definition is_hex :: "char \<Rightarrow> bool" where
  "is_hex c = (let n = ord c in (48 \<le> n \<and> n \<le> 57) \<or> (97 \<le> n \<and> n \<le> 102))"

lemma hex_digit_is_hex: "n < 16 \<Longrightarrow> is_hex (hex_digit n)"
  by (auto simp: hex_digit_def is_hex_def Let_def ord_char_of)

lemma sha256_hex_is_hex: "list_all is_hex (sha256_hex s)"
proof -
  have "list_all is_hex (concat (map hex_byte bs))" if "list_all is_byte bs" for bs
    using that
    by (induction bs) (auto simp: hex_byte_def is_byte_def intro!: hex_digit_is_hex)
  then show ?thesis
    using sha256_bytes by (simp add: sha256_hex_def)
qed

end
