(* ===== verification/Sync_Core.thy ===== *)
theory Sync_Core
  imports Track_Keys Digest Adapter
begin

text \<open>
  Playlist snapshots and their differences (\<open>app/core/sync.py\<close>). A stored snapshot is a
  dictionary the module builds itself, so it is a record here; the empty dictionary that stands
  for "no snapshot yet" is \<open>None\<close>. A \<open>Counter\<close> is a function from keys to counts.
\<close>

section \<open>Snapshots\<close>

datatype sync_mode = ADD_ONLY | MIRROR

fun mode_value :: "sync_mode \<Rightarrow> string" where
  "mode_value ADD_ONLY = ''add_only''"
| "mode_value MIRROR = ''mirror''"

record entry =
  en_token :: string
  en_identity :: string
  en_occurrence :: nat
  en_index :: nat
  en_position :: int
  en_provider_uri :: "string option"
  en_track :: track

record snapshot =
  sn_playlist_id :: "string option"
  sn_name :: string
  sn_kind :: playlist_kind
  sn_provider :: string
  sn_provider_snapshot_id :: "string option"
  sn_unsupported_count :: nat
  sn_tracks :: "entry list"
  sn_fingerprint :: string

record sync_diff =
  df_added_positions :: "int list"
  df_removed_count :: nat
  df_reordered_count :: nat

definition changed_count :: "sync_diff \<Rightarrow> nat" where
  "changed_count d = length (df_added_positions d) + df_removed_count d + df_reordered_count d"

type_synonym 'a counter = "'a \<Rightarrow> nat"

definition bump :: "'a \<Rightarrow> 'a counter \<Rightarrow> 'a counter" where
  "bump x c = c(x := Suc (c x))"

definition counter_of :: "'a list \<Rightarrow> 'a counter" where
  "counter_of xs = count_list xs"

definition make_token :: "string \<Rightarrow> nat \<Rightarrow> string" where
  "make_token identity occurrence = identity @ CHR ''#'' # str_nat occurrence"

definition track_identity :: "track \<Rightarrow> string option \<Rightarrow> string" where
  "track_identity t provider_uri =
     (if truthy (trk_source_item_id t) then ''source-item:'' @ lower (the (trk_source_item_id t))
      else if truthy provider_uri then ''provider-uri:'' @ lower (strip (the provider_uri))
      else if truthy (trk_id t) then ''track-id:'' @ lower (the (trk_id t))
      else if truthy (trk_isrc t) then ''isrc:'' @ upper (the (trk_isrc t))
      else ''signature:'' @ normalize_text (Some (trk_title t)) @ ''|'' @
        normalize_text (Some (trk_artist t)) @ ''|'' @ normalize_text (trk_album t) @ ''|'' @
        duration_bucket (trk_duration_s t))"

fun build_entries :: "string \<Rightarrow> string counter \<Rightarrow> nat \<Rightarrow> track list \<Rightarrow> entry list" where
  "build_entries provider occurrences i [] = []"
| "build_entries provider occurrences i (t # ts) =
     (if \<not> is_migratable t then build_entries provider occurrences (Suc i) ts
      else
        let uri = dict_get (trk_provider_uris t) provider;
            identity = track_identity t uri;
            occurrence = occurrences identity
        in \<lparr>en_token = make_token identity occurrence, en_identity = identity,
            en_occurrence = occurrence, en_index = i,
            en_position = (case trk_position t of Some p \<Rightarrow> p | None \<Rightarrow> int i),
            en_provider_uri = uri, en_track = t\<rparr>
           # build_entries provider (bump identity occurrences) (Suc i) ts)"

definition entry_json :: "entry \<Rightarrow> json" where
  "entry_json e = JObj
     [(''token'', JStr (en_token e)), (''identity'', JStr (en_identity e)),
      (''occurrence'', JInt (int (en_occurrence e))), (''index'', JInt (int (en_index e))),
      (''position'', JInt (en_position e)), (''provider_uri'', opt_str (en_provider_uri e)),
      (''track'', track_json (en_track e))]"

definition snapshot_payload :: "snapshot \<Rightarrow> json" where
  "snapshot_payload s = JObj
     [(''playlist_id'', opt_str (sn_playlist_id s)), (''name'', JStr (sn_name s)),
      (''kind'', JStr (kind_value (sn_kind s))), (''provider'', JStr (sn_provider s)),
      (''provider_snapshot_id'', opt_str (sn_provider_snapshot_id s)),
      (''unsupported_count'', JInt (int (sn_unsupported_count s))),
      (''tracks'', JList (map entry_json (sn_tracks s)))]"

definition snapshot_fingerprint :: "snapshot \<Rightarrow> string" where
  "snapshot_fingerprint s = sha256_hex (dumps True (snapshot_payload s))"

definition build_playlist_snapshot :: "playlist \<Rightarrow> string \<Rightarrow> snapshot" where
  "build_playlist_snapshot p provider =
     (let s = \<lparr>sn_playlist_id = pl_id p, sn_name = pl_name p, sn_kind = pl_kind p,
               sn_provider = provider, sn_provider_snapshot_id = pl_snapshot_id p,
               sn_unsupported_count = length (filter (\<lambda>t. \<not> is_migratable t) (pl_tracks p)),
               sn_tracks = build_entries provider (\<lambda>_. 0) 0 (pl_tracks p),
               sn_fingerprint = []\<rparr>
      in s\<lparr>sn_fingerprint := snapshot_fingerprint s\<rparr>)"

definition entries :: "snapshot option \<Rightarrow> entry list" where
  "entries s = (case s of None \<Rightarrow> [] | Some sn \<Rightarrow> sn_tracks sn)"

section \<open>Differences\<close>

fun added_positions :: "string counter \<Rightarrow> string counter \<Rightarrow> entry list \<Rightarrow> int list" where
  "added_positions prev seen [] = []"
| "added_positions prev seen (e # es) =
     (let i = en_identity e in
      if prev i \<le> seen i then en_position e # added_positions prev (bump i seen) es
      else added_positions prev (bump i seen) es)"

definition shared_tokens :: "string counter \<Rightarrow> string counter \<Rightarrow> string list \<Rightarrow> string set" where
  "shared_tokens prev cur ids =
     set (concat (map (\<lambda>i. map (make_token i) [0..<min (prev i) (cur i)]) ids))"

text \<open>\<open>zip(..., strict=True)\<close> raises when the lists differ in length.\<close>

fun count_moved :: "'a list \<Rightarrow> 'a list \<Rightarrow> exn + nat" where
  "count_moved [] [] = Inr 0"
| "count_moved (x # xs) (y # ys) =
     (case count_moved xs ys of Inl e \<Rightarrow> Inl e | Inr n \<Rightarrow> Inr ((if x \<noteq> y then 1 else 0) + n))"
| "count_moved [] (y # ys) = Inl (ValueError ''zip() argument 2 is longer than argument 1'')"
| "count_moved (x # xs) [] = Inl (ValueError ''zip() argument 2 is shorter than argument 1'')"

definition diff_snapshots :: "snapshot option \<Rightarrow> snapshot option \<Rightarrow> exn + sync_diff" where
  "diff_snapshots previous current =
     (let ps = entries previous; cs = entries current;
          prev = counter_of (map en_identity ps); cur = counter_of (map en_identity cs);
          added = added_positions prev (\<lambda>_. 0) cs;
          removed = sum_list (map (\<lambda>i. prev i - cur i) (remdups (map en_identity ps)));
          shared = shared_tokens prev cur (remdups (map en_identity ps @ map en_identity cs));
          previous_order = filter (\<lambda>t. t \<in> shared) (map en_token ps);
          current_order = filter (\<lambda>t. t \<in> shared) (map en_token cs)
      in case count_moved previous_order current_order of
           Inl e \<Rightarrow> Inl e
         | Inr n \<Rightarrow> Inr \<lparr>df_added_positions = added, df_removed_count = removed,
                         df_reordered_count = n\<rparr>)"

section \<open>Mappings, sequences, mirror checks, schedule\<close>

type_synonym mappings = "(string, string option) dict"

fun carry_entries :: "string list \<Rightarrow> mappings \<Rightarrow> entry list \<Rightarrow> mappings \<Rightarrow> mappings" where
  "carry_entries previous_tokens m [] carried = carried"
| "carry_entries previous_tokens m (e # es) carried =
     carry_entries previous_tokens m es
       (case dict_get m (en_token e) of
          Some u \<Rightarrow> if en_token e \<in> set previous_tokens then dict_set (en_token e) u carried else carried
        | None \<Rightarrow> carried)"

definition carry_target_mappings :: "snapshot option \<Rightarrow> snapshot option \<Rightarrow> mappings \<Rightarrow> mappings" where
  "carry_target_mappings previous current m =
     carry_entries (map en_token (entries previous)) m (entries current) []"

definition target_uri_sequence :: "snapshot option \<Rightarrow> string list" where
  "target_uri_sequence s =
     map (\<lambda>e. the (en_provider_uri e)) (filter (\<lambda>e. truthy (en_provider_uri e)) (entries s))"

definition mirror_unavailable_reason :: "'w adapter \<Rightarrow> playlist_kind \<Rightarrow> string option" where
  "mirror_unavailable_reason a kind =
     (let i = ad_info a; caps = inf_capabilities i in
      if kind \<noteq> STANDARD then Some ''Mirror mode is only available for standard playlists''
      else if \<not> (can caps REMOVE_TRACKS \<and> can caps REORDER)
      then Some (inf_display_name i @ '' cannot remove and reorder playlist tracks'')
      else if ad_replace_tracks a = None
      then Some (inf_display_name i @ '' does not implement ordered playlist replacement'')
      else None)"

definition next_run_after :: "datetime \<Rightarrow> int \<Rightarrow> exn + datetime" where
  "next_run_after now cadence_minutes =
     (case now of
        Naive _ \<Rightarrow> Inl (ValueError ''scheduled timestamps must be timezone-aware'')
      | Aware t \<Rightarrow>
          if cadence_minutes \<le> 0 then Inl (ValueError ''cadence_minutes must be positive'')
          else Inr (Aware (t + cadence_minutes * 60)))"

fun find_entry :: "entry list \<Rightarrow> string \<Rightarrow> entry option" where
  "find_entry [] token = None"
| "find_entry (e # es) token = (if en_token e = token then Some e else find_entry es token)"

definition snapshot_track :: "snapshot option \<Rightarrow> string \<Rightarrow> exn + track" where
  "snapshot_track s token =
     (case find_entry (entries s) token of
        Some e \<Rightarrow> Inr (en_track e) | None \<Rightarrow> Inl (KeyError token))"

section \<open>Numbered occurrences\<close>

text \<open>
  The contract of the tokens: they name an identity and the number of its occurrence without
  confusion. Everything about differences follows from it.
\<close>

fun number_from :: "'i counter \<Rightarrow> 'i list \<Rightarrow> ('i \<times> nat) list" where
  "number_from c [] = []"
| "number_from c (x # xs) = (x, c x) # number_from (bump x c) xs"

lemma map_fst_number [simp]: "map fst (number_from c xs) = xs"
  by (induction xs arbitrary: c) auto

lemma length_number [simp]: "length (number_from c xs) = length xs"
  by (induction xs arbitrary: c) auto

lemma set_number: "set (number_from c xs) = {(i, k). c i \<le> k \<and> k < c i + count_list xs i}"
proof (induction xs arbitrary: c)
  case (Cons x xs)
  show ?case
    by (simp only: number_from.simps list.set Cons.IH) (auto simp: bump_def split: if_splits)
qed simp

lemma distinct_number: "distinct (number_from c xs)"
  by (induction xs arbitrary: c) (auto simp: set_number bump_def)

locale occurrence_tokens =
  fixes token :: "'i \<Rightarrow> nat \<Rightarrow> 't"
  assumes token_inj: "token i m = token j n \<longleftrightarrow> i = j \<and> m = n"
begin

definition tokens :: "'i list \<Rightarrow> 't list" where
  "tokens xs = map (\<lambda>(i, k). token i k) (number_from (\<lambda>_. 0) xs)"

definition shared :: "'i list \<Rightarrow> 'i list \<Rightarrow> 't set" where
  "shared xs ys = {token i k | i k. k < min (count_list xs i) (count_list ys i)}"

lemma inj_token: "inj_on (\<lambda>(i, k). token i k) A"
  by (auto simp: inj_on_def token_inj)

lemma distinct_tokens: "distinct (tokens xs)"
  by (simp add: tokens_def distinct_map distinct_number inj_token)

lemma set_tokens: "set (tokens xs) = {token i k | i k. k < count_list xs i}"
  by (auto simp: tokens_def set_number)

lemma token_mem_shared: "token i k \<in> shared xs ys \<longleftrightarrow> k < count_list xs i \<and> k < count_list ys i"
  by (auto simp: shared_def token_inj)

lemma set_kept: "set (filter (\<lambda>t. t \<in> shared xs ys) (tokens xs)) = shared xs ys"
  "set (filter (\<lambda>t. t \<in> shared xs ys) (tokens ys)) = shared xs ys"
  by (auto simp: set_tokens shared_def)

lemma length_kept:
  "length (filter (\<lambda>t. t \<in> shared xs ys) (tokens xs)) = length (filter (\<lambda>t. t \<in> shared xs ys) (tokens ys))"
  by (rule distinct_same_set_length) (simp_all only: distinct_filter distinct_tokens set_kept)

lemma kept_all:
  assumes "count_list xs = count_list ys"
  shows "filter (\<lambda>t. t \<in> shared xs ys) (tokens xs) = tokens xs"
    and "filter (\<lambda>t. t \<in> shared xs ys) (tokens ys) = tokens ys"
  by (rule filter_eq_self; auto simp: set_tokens token_mem_shared assms)+

lemma tokens_inj [simp]: "tokens xs = tokens ys \<longleftrightarrow> xs = ys"
proof
  assume "tokens xs = tokens ys"
  then have "number_from (\<lambda>_. 0) xs = number_from (\<lambda>_. 0) ys"
    unfolding tokens_def by (rule map_injective) (simp add: inj_token)
  then show "xs = ys" by (metis map_fst_number)
qed simp

end

interpretation occ: occurrence_tokens make_token
  by unfold_locales (simp add: make_token_def mark_numeral_inj is_digit_def Let_def)

section \<open>What the snapshots satisfy\<close>

text \<open>A snapshot as \<open>build_playlist_snapshot\<close> makes it: its tokens number its identities.\<close>

definition tokens_ok :: "snapshot option \<Rightarrow> bool" where
  "tokens_ok s = (map en_token (entries s) = occ.tokens (map en_identity (entries s)))"

lemma build_entries_tokens:
  "map en_token (build_entries provider c i ts) =
     map (\<lambda>(j, k). make_token j k) (number_from c (map en_identity (build_entries provider c i ts)))"
  by (induction ts arbitrary: c i) (auto simp: Let_def)

lemma build_entries_tracks:
  "map en_track (build_entries provider c i ts) = filter is_migratable ts"
  by (induction ts arbitrary: c i) (auto simp: Let_def)

lemma build_tokens_ok: "tokens_ok (Some (build_playlist_snapshot p provider))"
  unfolding tokens_ok_def occ.tokens_def
  by (simp add: entries_def build_playlist_snapshot_def Let_def build_entries_tokens)

lemma none_tokens_ok [simp]: "tokens_ok None"
  by (simp add: tokens_ok_def entries_def occ.tokens_def)

lemma count_moved_ok: "length xs = length ys \<Longrightarrow> \<exists>n. count_moved xs ys = Inr n \<and> (n = 0 \<longleftrightarrow> xs = ys)"
  by (induction xs ys rule: list_induct2) auto

lemma shared_tokens_eq:
  "shared_tokens (counter_of xs) (counter_of ys) (remdups (xs @ ys)) = occ.shared xs ys"
proof -
  have mem: "i \<in> set xs" if "k < count_list xs i" for i and k :: nat
    using that by (metis count_notin less_nat_zero_code)
  have "shared_tokens p c ids = {make_token i k | i k. i \<in> set ids \<and> k < min (p i) (c i)}" for p c ids
    unfolding shared_tokens_def by (simp only: set_concat set_map set_upt image_image) force
  moreover have "{make_token i k | i k. i \<in> set (remdups (xs @ ys)) \<and>
      k < min (counter_of xs i) (counter_of ys i)} = occ.shared xs ys"
    using mem unfolding occ.shared_def counter_of_def by (intro Collect_cong) fastforce
  ultimately show ?thesis by simp
qed

lemma added_positions_number:
  "added_positions prev c es =
     map (\<lambda>(e, i, k). en_position e)
       (filter (\<lambda>(e, i, k). prev i \<le> k) (zip es (number_from c (map en_identity es))))"
  by (induction es arbitrary: c) (auto simp: Let_def)

lemma length_filter_zip:
  "length xs = length ys \<Longrightarrow> length (filter (\<lambda>(x, y). p y) (zip xs ys)) = length (filter p ys)"
  by (induction xs ys rule: list_induct2) auto

lemma length_added:
  "length (added_positions prev c es) =
     length (filter (\<lambda>(i, k). prev i \<le> k) (number_from c (map en_identity es)))"
  using length_filter_zip [of es "number_from c (map en_identity es)" "\<lambda>(i, k). prev i \<le> k"]
  by (simp add: added_positions_number)

lemma count_list_mem: "k < count_list xs i \<Longrightarrow> i \<in> set xs"
  by (metis count_notin less_nat_zero_code)

lemma length_added_sum:
  assumes "finite S" and "set (map en_identity es) \<subseteq> S"
  shows "length (added_positions prev (\<lambda>_. 0) es) =
     (\<Sum>i \<in> S. count_list (map en_identity es) i - prev i)"
proof -
  let ?xs = "map en_identity es"
  let ?f = "filter (\<lambda>(i, k). prev i \<le> k) (number_from (\<lambda>_. 0) ?xs)"
  have "set ?f = Sigma S (\<lambda>i. {prev i..<count_list ?xs i})"
    using assms(2) count_list_mem [of _ ?xs] unfolding set_filter set_number by fastforce
  moreover have "distinct ?f" by (simp add: distinct_number)
  ultimately have "length ?f = card (Sigma S (\<lambda>i. {prev i..<count_list ?xs i}))"
    by (metis distinct_card)
  also have "\<dots> = (\<Sum>i \<in> S. count_list ?xs i - prev i)"
    using assms(1) by (simp add: card_SigmaI)
  finally show ?thesis by (simp only: length_added)
qed

lemma removed_sum:
  assumes "finite S" and "set xs \<subseteq> S"
  shows "sum_list (map (\<lambda>i. count_list xs i - c i) (remdups xs)) = (\<Sum>i \<in> S. count_list xs i - c i)"
proof -
  have "sum_list (map (\<lambda>i. count_list xs i - c i) (remdups xs)) = (\<Sum>i \<in> set xs. count_list xs i - c i)"
    by (simp add: sum_list_distinct_conv_sum_set)
  also have "\<dots> = (\<Sum>i \<in> S. count_list xs i - c i)"
    using assms by (intro sum.mono_neutral_left) (auto simp: count_notin)
  finally show ?thesis .
qed

text \<open>The result of a difference, on the identity sequences.\<close>

lemma diff_snapshots_result:
  assumes "tokens_ok prev" and "tokens_ok cur"
  defines "xs \<equiv> map en_identity (entries prev)" and "ys \<equiv> map en_identity (entries cur)"
  obtains d where "diff_snapshots prev cur = Inr d"
    and "length (df_added_positions d) = (\<Sum>i \<in> set xs \<union> set ys. count_list ys i - count_list xs i)"
    and "df_removed_count d = (\<Sum>i \<in> set xs \<union> set ys. count_list xs i - count_list ys i)"
    and "df_reordered_count d = 0 \<longleftrightarrow>
      filter (\<lambda>t. t \<in> occ.shared xs ys) (occ.tokens xs) = filter (\<lambda>t. t \<in> occ.shared xs ys) (occ.tokens ys)"
proof -
  have tk: "map en_token (entries prev) = occ.tokens xs" "map en_token (entries cur) = occ.tokens ys"
    using assms(1,2) by (simp_all add: tokens_ok_def xs_def ys_def)
  from count_moved_ok [OF occ.length_kept [of xs ys]] obtain n
    where n: "count_moved (filter (\<lambda>t. t \<in> occ.shared xs ys) (occ.tokens xs))
        (filter (\<lambda>t. t \<in> occ.shared xs ys) (occ.tokens ys)) = Inr n"
      and n0: "n = 0 \<longleftrightarrow> filter (\<lambda>t. t \<in> occ.shared xs ys) (occ.tokens xs) =
        filter (\<lambda>t. t \<in> occ.shared xs ys) (occ.tokens ys)"
    by blast
  have "diff_snapshots prev cur = Inr
      \<lparr>df_added_positions = added_positions (counter_of xs) (\<lambda>_. 0) (entries cur),
       df_removed_count = sum_list (map (\<lambda>i. counter_of xs i - counter_of ys i) (remdups xs)),
       df_reordered_count = n\<rparr>"
    using n by (simp only: diff_snapshots_def Let_def tk shared_tokens_eq sum.case
        xs_def [symmetric] ys_def [symmetric])
  moreover have "length (added_positions (counter_of xs) (\<lambda>_. 0) (entries cur)) =
      (\<Sum>i \<in> set xs \<union> set ys. count_list ys i - count_list xs i)"
    unfolding ys_def counter_of_def by (rule length_added_sum) auto
  moreover have "sum_list (map (\<lambda>i. counter_of xs i - counter_of ys i) (remdups xs)) =
      (\<Sum>i \<in> set xs \<union> set ys. count_list xs i - count_list ys i)"
    unfolding counter_of_def by (rule removed_sum) auto
  ultimately show ?thesis
    using n0 that by simp
qed

lemma carry_entries_get:
  "dict_get (carry_entries pt m es c) t =
     (if t \<in> set (map en_token es) \<and> t \<in> set pt \<and> dict_get m t \<noteq> None then dict_get m t
      else dict_get c t)"
  by (induction es arbitrary: c) (auto split: option.splits)

lemma find_entry_Some: "find_entry es t = Some e \<Longrightarrow> e \<in> set es \<and> en_token e = t"
  by (induction es) (auto split: if_splits)

lemma find_entry_None: "find_entry es t = None \<longleftrightarrow> t \<notin> en_token ` set es"
  by (induction es) auto

lemma find_entry_mem: "distinct (map en_token es) \<Longrightarrow> e \<in> set es \<Longrightarrow> find_entry es (en_token e) = Some e"
  by (induction es) force+

lemma tokens_distinct: "tokens_ok s \<Longrightarrow> distinct (map en_token (entries s))"
  by (simp add: tokens_ok_def occ.distinct_tokens)

lemma sum_balance:
  fixes f g :: "'a \<Rightarrow> nat"
  assumes "finite S"
  shows "sum f S + (\<Sum>i \<in> S. g i - f i) = sum g S + (\<Sum>i \<in> S. f i - g i)"
  by (simp add: sum.distrib [symmetric]) (rule sum.cong, auto)

lemma length_counts:
  assumes "finite S" and "set xs \<subseteq> S"
  shows "length xs = (\<Sum>i \<in> S. count_list xs i)"
  using sum_count_set [OF assms(2,1)] by simp

lemma no_difference:
  fixes xs ys :: "string list"
  assumes "(\<Sum>i \<in> set xs \<union> set ys. count_list ys i - count_list xs i) = 0"
    and "(\<Sum>i \<in> set xs \<union> set ys. count_list xs i - count_list ys i) = 0"
    and "filter (\<lambda>t. t \<in> occ.shared xs ys) (occ.tokens xs) =
      filter (\<lambda>t. t \<in> occ.shared xs ys) (occ.tokens ys)"
  shows "xs = ys"
proof -
  have "count_list xs i = count_list ys i" for i
  proof (cases "i \<in> set xs \<union> set ys")
    case True
    with assms(1,2) show ?thesis by (auto simp: sum_eq_0_iff intro: le_antisym)
  qed (simp add: count_notin)
  then have "count_list xs = count_list ys" by blast
  from occ.kept_all [OF this] assms(3) show ?thesis by simp
qed

text \<open>The snapshot of a playlist at a provider, when one has been taken.\<close>

definition taken :: "(playlist \<times> string) option \<Rightarrow> snapshot option" where
  "taken = map_option (\<lambda>(p, provider). build_playlist_snapshot p provider)"

lemma taken_tokens_ok: "tokens_ok (taken x)"
  by (cases x) (auto simp: taken_def build_tokens_ok)

text \<open>
  Comparing two snapshots the program has taken never raises (the strict \<open>zip\<close> always meets
  lists of one length); entries are conserved: what was there plus what was added is what is
  there plus what was removed; and the change count is zero exactly when the two playlists are
  the same sequence of recordings.
\<close>

lemma diff_snapshots_sound:
  "\<exists>d. diff_snapshots (taken x) (taken y) = Inr d \<and>
     length (entries (taken x)) + length (df_added_positions d) =
       length (entries (taken y)) + df_removed_count d \<and>
     (changed_count d = 0 \<longleftrightarrow>
        map en_identity (entries (taken x)) = map en_identity (entries (taken y)))"
proof -
  let ?xs = "map en_identity (entries (taken x))" and ?ys = "map en_identity (entries (taken y))"
  let ?S = "set ?xs \<union> set ?ys"
  obtain d where d: "diff_snapshots (taken x) (taken y) = Inr d"
    and a: "length (df_added_positions d) = (\<Sum>i \<in> ?S. count_list ?ys i - count_list ?xs i)"
    and r: "df_removed_count d = (\<Sum>i \<in> ?S. count_list ?xs i - count_list ?ys i)"
    and m: "df_reordered_count d = 0 \<longleftrightarrow>
      filter (\<lambda>t. t \<in> occ.shared ?xs ?ys) (occ.tokens ?xs) =
      filter (\<lambda>t. t \<in> occ.shared ?xs ?ys) (occ.tokens ?ys)"
    by (rule diff_snapshots_result [OF taken_tokens_ok taken_tokens_ok])
  have "length ?xs + length (df_added_positions d) = length ?ys + df_removed_count d"
    unfolding a r using sum_balance [of ?S "count_list ?xs" "count_list ?ys"]
      length_counts [of ?S ?xs] length_counts [of ?S ?ys] by simp
  moreover have "changed_count d = 0 \<longleftrightarrow> ?xs = ?ys"
  proof
    assume "changed_count d = 0"
    then have z: "length (df_added_positions d) = 0" "df_removed_count d = 0" "df_reordered_count d = 0"
      unfolding changed_count_def by simp_all
    show "?xs = ?ys"
      by (rule no_difference [OF z(1) [unfolded a] z(2) [unfolded r] z(3) [unfolded m]])
  next
    assume "?xs = ?ys"
    with a r m show "changed_count d = 0" by (simp add: changed_count_def)
  qed
  ultimately show ?thesis using d by simp
qed

text \<open>
  A snapshot holds one entry per migratable track, in playlist order, and counts the others;
  its tokens are distinct, so looking a token up returns the track it was made for.
\<close>

theorem build_snapshot_lookup:
  "let s = build_playlist_snapshot p provider in
     map en_track (sn_tracks s) = filter is_migratable (pl_tracks p) \<and>
     length (sn_tracks s) + sn_unsupported_count s = length (pl_tracks p) \<and>
     distinct (map en_token (sn_tracks s)) \<and>
     list_all (\<lambda>e. snapshot_track (Some s) (en_token e) = Inr (en_track e)) (sn_tracks s)"
proof -
  define s where "s = build_playlist_snapshot p provider"
  have tr: "map en_track (sn_tracks s) = filter is_migratable (pl_tracks p)"
    by (simp add: s_def build_playlist_snapshot_def Let_def build_entries_tracks)
  have dist: "distinct (map en_token (sn_tracks s))"
    using tokens_distinct [OF build_tokens_ok [of p provider]] by (simp add: s_def entries_def)
  have "list_all (\<lambda>e. snapshot_track (Some s) (en_token e) = Inr (en_track e)) (sn_tracks s)"
    unfolding list_all_iff using find_entry_mem [OF dist]
    by (simp add: snapshot_track_def entries_def)
  moreover have "length (sn_tracks s) + sn_unsupported_count s = length (pl_tracks p)"
  proof -
    have "length (sn_tracks s) = length (filter is_migratable (pl_tracks p))"
      using tr by (metis length_map)
    moreover have "sn_unsupported_count s = length (filter (\<lambda>t. \<not> is_migratable t) (pl_tracks p))"
      by (simp add: s_def build_playlist_snapshot_def Let_def)
    ultimately show ?thesis by (simp add: sum_length_filter_compl)
  qed
  ultimately show ?thesis
    unfolding Let_def s_def [symmetric] using tr dist by blast
qed

text \<open>
  Mappings to the target are carried from one snapshot to the next exactly for the tokens
  that both snapshots hold, with their value unchanged (also when the value records that no
  match exists).
\<close>

theorem carry_target_mappings_get:
  "dict_get (carry_target_mappings previous current m) t =
     (if t \<in> en_token ` set (entries previous) \<inter> en_token ` set (entries current)
      then dict_get m t else None)"
  unfolding carry_target_mappings_def carry_entries_get by (simp add: image_iff)

end
