(* ===== verification/Sharing.thy ===== *)
theory Sharing
  imports Models
begin

text \<open>
  Shared playlist snapshots and their portable texts (\<open>app/core/sharing.py\<close>): the cleaning of
  texts, the playlist a snapshot stands for, and the CSV, TXT and M3U8 exports. The limits on
  lengths are part of the records that are built, the byte limit of an export counts UTF-8 bytes.
\<close>

section \<open>Snapshots\<close>

record shared_source =
  shs_provider :: string
  shs_url :: "string option"

record shared_track =
  sht_position :: int
  sht_title :: string
  sht_artist :: string
  sht_album :: "string option"
  sht_duration_s :: "int option"
  sht_release_year :: "int option"
  sht_explicit :: "bool option"
  sht_isrc :: "string option"
  sht_artwork_url :: "string option"
  sht_source_url :: "string option"
  sht_media_type :: media_type
  sht_unsupported_reason :: "string option"

record shared_snapshot =
  shp_schema_version :: string
  shp_name :: string
  shp_description :: "string option"
  shp_cover_url :: "string option"
  shp_attribution :: "string option"
  shp_source :: shared_source
  shp_tracks :: "shared_track list"

definition track_of_shared :: "shared_track \<Rightarrow> track" where
  "track_of_shared t =
     (new_track (sht_title t) (sht_artist t))\<lparr>trk_album := sht_album t,
        trk_duration_s := sht_duration_s t, trk_release_year := sht_release_year t,
        trk_explicit := sht_explicit t, trk_isrc := sht_isrc t,
        trk_artwork_uri := sht_artwork_url t, trk_position := Some (sht_position t),
        trk_media_type := sht_media_type t, trk_unsupported_reason := sht_unsupported_reason t\<rparr>"

definition snapshot_to_playlist :: "shared_snapshot \<Rightarrow> playlist" where
  "snapshot_to_playlist s =
     (new_playlist None (shp_name s) (map track_of_shared (shp_tracks s)))\<lparr>
        pl_description := shp_description s, pl_photo := shp_cover_url s\<rparr>"

section \<open>Cleaning texts\<close>

definition is_control :: "char \<Rightarrow> bool" where
  "is_control c = (let n = (ord c :: nat) in
     n \<le> 8 \<or> n = 11 \<or> n = 12 \<or> (14 \<le> n \<and> n \<le> 31) \<or> n = 127)"

definition drop_controls :: "string \<Rightarrow> string" where
  "drop_controls s = filter (\<lambda>c. \<not> is_control c) s"

function squeeze :: "string \<Rightarrow> string" where
  "squeeze [] = []"
| "squeeze (c # s) =
     (if is_space c then CHR '' '' # squeeze (dropWhile is_space s) else c # squeeze s)"
  by pat_completeness auto
termination
  by (relation "measure length") (auto simp: le_imp_less_Suc length_dropWhile_le)

definition nonempty :: "string \<Rightarrow> string option" where
  "nonempty s = (if s = [] then None else Some s)"

definition flat_line :: "string \<Rightarrow> string" where
  "flat_line s = strip (squeeze (drop_controls
     (map (\<lambda>c. if ord c = (13::nat) \<or> ord c = (10::nat) then CHR '' '' else c) s)))"

definition single_line :: "string option \<Rightarrow> nat \<Rightarrow> string option" where
  "single_line v limit = (case v of None \<Rightarrow> None | Some s \<Rightarrow> nonempty (take limit (flat_line s)))"

text \<open>\<open>replace("\r\n", "\n").replace("\r", "\n")\<close>.\<close>

fun newlines :: "string \<Rightarrow> string" where
  "newlines [] = []"
| "newlines (c # s) =
     (if ord c = (13::nat)
      then (case s of d # t \<Rightarrow> if ord d = (10::nat) then newlines s else char_of (10::nat) # newlines s
            | [] \<Rightarrow> [char_of (10::nat)])
      else c # newlines s)"

definition multiline :: "string option \<Rightarrow> nat \<Rightarrow> string option" where
  "multiline v limit =
     (case v of None \<Rightarrow> None
      | Some s \<Rightarrow> nonempty (take limit (strip (drop_controls (newlines s)))))"

section \<open>Portable texts\<close>

definition formula_prefixes :: string where
  "formula_prefixes = [CHR ''='', CHR ''+'', CHR ''-'', CHR ''@'', CHR 0x09]"

definition spreadsheet_safe :: "string \<Rightarrow> string" where
  "spreadsheet_safe s =
     (let t = or_str (single_line (Some s) 4096) [] in
      case t of [] \<Rightarrow> t | c # _ \<Rightarrow> if c \<in> set formula_prefixes then CHR 0x27 # t else t)"

text \<open>The CSV writer: the cell of an absent value is empty; a cell is quoted when it has to be.\<close>

definition quote :: char where
  "quote = CHR 0x22"

definition newline :: char where
  "newline = CHR 0x0A"

definition needs_quotes :: "string \<Rightarrow> bool" where
  "needs_quotes s = list_ex (\<lambda>c. c = CHR '','' \<or> c = quote \<or> c = newline \<or> ord c = (13::nat)) s"

definition csv_cell :: "string \<Rightarrow> string" where
  "csv_cell s =
     (if needs_quotes s
      then quote # concat (map (\<lambda>c. if c = quote then [quote, quote] else [c]) s) @ [quote]
      else s)"

definition csv_row :: "string list \<Rightarrow> string" where
  "csv_row cells = join '','' (map csv_cell cells) @ [newline]"

definition csv_fields :: "string list" where
  "csv_fields = [''position'', ''title'', ''artist'', ''album'', ''duration_seconds'',
     ''release_year'', ''explicit'', ''isrc'', ''source_url'', ''artwork_url'', ''media_type'',
     ''unsupported_reason'']"

definition text_cell :: "string option \<Rightarrow> string" where
  "text_cell v = (case v of None \<Rightarrow> [] | Some s \<Rightarrow> spreadsheet_safe s)"

definition int_cell :: "int option \<Rightarrow> string" where
  "int_cell v = (case v of None \<Rightarrow> [] | Some n \<Rightarrow> str_int n)"

definition bool_cell :: "bool option \<Rightarrow> string" where
  "bool_cell v = (case v of None \<Rightarrow> [] | Some b \<Rightarrow> if b then ''True'' else ''False'')"

definition csv_cells :: "shared_track \<Rightarrow> string list" where
  "csv_cells t =
     [str_int (sht_position t), text_cell (Some (sht_title t)), text_cell (Some (sht_artist t)),
      text_cell (sht_album t), int_cell (sht_duration_s t), int_cell (sht_release_year t),
      bool_cell (sht_explicit t), text_cell (sht_isrc t), text_cell (sht_source_url t),
      text_cell (sht_artwork_url t), media_value (sht_media_type t),
      text_cell (sht_unsupported_reason t)]"

text \<open>The content after the byte order mark.\<close>

definition csv_content :: "shared_snapshot \<Rightarrow> string" where
  "csv_content s = csv_row csv_fields @ concat (map (\<lambda>t. csv_row (csv_cells t)) (shp_tracks s))"

definition txt_content :: "shared_snapshot \<Rightarrow> string" where
  "txt_content s =
     join [newline]
       ([shp_name s] @ (if truthy (shp_attribution s) then [the (shp_attribution s)] else []) @ [[]] @
        map (\<lambda>(i, t). str_nat (Suc i) @ ''. '' @ sht_artist t @ '' - '' @ sht_title t)
          (List.enumerate 0 (shp_tracks s))) @ [newline]"

definition m3u8_content :: "shared_snapshot \<Rightarrow> string" where
  "m3u8_content s =
     join [newline]
       ([''#EXTM3U'', ''#PLAYLIST:'' @ shp_name s] @
        concat (map (\<lambda>t.
          [''#EXTINF:'' @ str_int (case sht_duration_s t of Some d \<Rightarrow> d | None \<Rightarrow> -1) @ '','' @
             sht_artist t @ '' - '' @ sht_title t,
           if truthy (sht_source_url t) then the (sht_source_url t)
           else ''# OPE-MISSING-URI '' @ str_int (sht_position t)]) (shp_tracks s))) @ [newline]"

text \<open>The number of bytes of a text in UTF-8.\<close>

definition utf8_length :: "string \<Rightarrow> nat" where
  "utf8_length s = sum_list (map (\<lambda>c. if (ord c :: nat) < 128 then 1 else 2) s)"

section \<open>Reading a CSV text back\<close>

text \<open>
  A reader of comma-separated values with quoted cells, as a spreadsheet has one. The modes: at
  the start of a cell, inside a plain cell, inside a quoted cell, after a quote in a quoted cell.
\<close>

datatype csv_mode = Start | Plain | Quoted | Closing

fun csv_read :: "csv_mode \<Rightarrow> string \<Rightarrow> string list \<Rightarrow> string \<Rightarrow> string list list" where
  "csv_read m cell row [] = []"
| "csv_read Start cell row (c # s) =
     (if c = quote then csv_read Quoted [] row s
      else if c = CHR '','' then csv_read Start [] (row @ [cell]) s
      else if c = newline then (row @ [cell]) # csv_read Start [] [] s
      else csv_read Plain (cell @ [c]) row s)"
| "csv_read Plain cell row (c # s) =
     (if c = CHR '','' then csv_read Start [] (row @ [cell]) s
      else if c = newline then (row @ [cell]) # csv_read Start [] [] s
      else csv_read Plain (cell @ [c]) row s)"
| "csv_read Quoted cell row (c # s) =
     (if c = quote then csv_read Closing cell row s else csv_read Quoted (cell @ [c]) row s)"
| "csv_read Closing cell row (c # s) =
     (if c = quote then csv_read Quoted (cell @ [quote]) row s
      else if c = CHR '','' then csv_read Start [] (row @ [cell]) s
      else if c = newline then (row @ [cell]) # csv_read Start [] [] s
      else csv_read Plain (cell @ [c]) row s)"

definition read_csv :: "string \<Rightarrow> string list list" where
  "read_csv s = csv_read Start [] [] s"

definition ends_cell :: "char \<Rightarrow> bool" where
  "ends_cell c \<longleftrightarrow> c = CHR '','' \<or> c = newline"

text \<open>What a reader does at the character after a cell.\<close>

definition after_cell :: "char \<Rightarrow> string list \<Rightarrow> string \<Rightarrow> string list list" where
  "after_cell c row s = (if c = newline then row # csv_read Start [] [] s else csv_read Start [] row s)"

lemma csv_marks [simp]: "quote \<noteq> newline" "newline \<noteq> quote" "quote \<noteq> CHR '',''" "newline \<noteq> CHR '',''"
  "CHR '','' \<noteq> quote" "CHR '','' \<noteq> newline"
  by (simp_all add: quote_def newline_def)

lemma read_plain:
  "\<not> needs_quotes p \<Longrightarrow> ends_cell c \<Longrightarrow>
     csv_read Plain cell row (p @ c # s) = after_cell c (row @ [cell @ p]) s"
  by (induction p arbitrary: cell) (auto simp: needs_quotes_def ends_cell_def after_cell_def)

lemma read_quoted:
  "ends_cell c \<Longrightarrow>
     csv_read Quoted cell row (concat (map (\<lambda>c. if c = quote then [quote, quote] else [c]) p) @ quote # c # s) =
       after_cell c (row @ [cell @ p]) s"
  by (induction p arbitrary: cell) (auto simp: ends_cell_def after_cell_def)

lemma read_cell:
  assumes "ends_cell c"
  shows "csv_read Start [] row (csv_cell p @ c # s) = after_cell c (row @ [p]) s"
proof (cases "needs_quotes p")
  case True
  then show ?thesis using read_quoted [OF assms, of "[]" row p s] by (simp add: csv_cell_def)
next
  case False
  show ?thesis
  proof (cases p)
    case Nil
    with False show ?thesis using assms by (auto simp: csv_cell_def ends_cell_def after_cell_def)
  next
    case (Cons d q)
    with False have "\<not> needs_quotes q" "d \<noteq> quote" "d \<noteq> CHR '',''" "d \<noteq> newline"
      by (auto simp: needs_quotes_def)
    with False Cons show ?thesis using read_plain [OF _ assms, of q "[d]" row s] by (simp add: csv_cell_def)
  qed
qed

lemma read_row:
  "cells \<noteq> [] \<Longrightarrow> csv_read Start [] row (csv_row cells @ s) = (row @ cells) # csv_read Start [] [] s"
  unfolding csv_row_def
proof (induction cells arbitrary: row)
  case (Cons w ws)
  show ?case
  proof (cases ws)
    case Nil
    then show ?thesis using read_cell [of newline row w s] by (simp add: ends_cell_def after_cell_def)
  next
    case (Cons v vs)
    then show ?thesis
      using Cons.IH [of "row @ [w]"] read_cell [of "CHR '',''" row w "join '','' (map csv_cell ws) @ newline # s"]
      by (simp add: ends_cell_def after_cell_def)
  qed
qed simp

text \<open>
  C34. A spreadsheet that opens the CSV export of a snapshot sees exactly the header and one row
  per track with the cells that were written: no title, name or URL, whatever quotes, commas or
  line breaks it contains, shifts a column or starts a row of its own.
\<close>

theorem csv_roundtrip: "read_csv (csv_content s) = csv_fields # map csv_cells (shp_tracks s)"
proof -
  have "csv_read Start [] [] (concat (map (\<lambda>t. csv_row (csv_cells t)) ts)) = map csv_cells ts" for ts
    by (induction ts) (simp_all add: read_row csv_cells_def)
  then show ?thesis by (simp add: read_csv_def csv_content_def read_row csv_fields_def)
qed

section \<open>Formula injection\<close>

lemma squeeze_chars: "set (squeeze s) \<subseteq> insert (CHR '' '') {c \<in> set s. \<not> is_space c}"
proof (induction s rule: squeeze.induct)
  case (2 c s)
  then show ?case using set_dropWhileD [of _ is_space s] by auto
qed simp

text \<open>What a cleaned line is made of: no control character, no break, at most the limit.\<close>

definition plain_line :: "string \<Rightarrow> bool" where
  "plain_line t \<longleftrightarrow> list_all (\<lambda>c. \<not> is_control c \<and> (is_space c \<longrightarrow> c = CHR '' '')) t"

lemma flat_line_plain: "plain_line (flat_line s)"
proof -
  have "set (flat_line s) \<subseteq> set (squeeze (drop_controls
     (map (\<lambda>c. if ord c = (13::nat) \<or> ord c = (10::nat) then CHR '' '' else c) s)))"
    unfolding flat_line_def strip_def by (rule strip_by_subset)
  also have "\<dots> \<subseteq> {c. \<not> is_control c \<and> (is_space c \<longrightarrow> c = CHR '' '')}"
  proof (rule subset_trans [OF squeeze_chars])
    have "\<not> is_control (CHR '' '')" by (simp add: is_control_def)
    then show "insert (CHR '' '') {c \<in> set (drop_controls u). \<not> is_space c} \<subseteq>
        {c. \<not> is_control c \<and> (is_space c \<longrightarrow> c = CHR '' '')}" for u
      by (auto simp: drop_controls_def)
  qed
  finally show ?thesis by (auto simp: plain_line_def list_all_iff)
qed

definition safe_cell :: "string \<Rightarrow> bool" where
  "safe_cell t \<longleftrightarrow> (case t of [] \<Rightarrow> True | c # _ \<Rightarrow> c \<notin> set formula_prefixes)"

lemma spreadsheet_safe_cell: "safe_cell (spreadsheet_safe s)"
  by (cases "or_str (single_line (Some s) 4096) []")
    (auto simp: safe_cell_def spreadsheet_safe_def formula_prefixes_def Let_def)

lemma text_cell_safe: "safe_cell (text_cell v)"
  by (cases v) (simp_all add: text_cell_def spreadsheet_safe_cell, simp add: safe_cell_def)

lemma media_cell_safe: "safe_cell (media_value m)"
  by (cases m) (simp_all add: safe_cell_def formula_prefixes_def)

lemma bool_cell_safe: "safe_cell (bool_cell b)"
  by (simp add: safe_cell_def bool_cell_def formula_prefixes_def split: option.split)

text \<open>
  No cell of an export that carries text from a playlist (title, artist, album, identifiers,
  URLs, reasons) begins with a character a spreadsheet would evaluate as a formula.
\<close>

lemma csv_text_cells_safe:
  "list_all (\<lambda>i. safe_cell (csv_cells t ! i)) [1, 2, 3, 6, 7, 8, 9, 10, 11]"
  by (simp add: csv_cells_def text_cell_safe media_cell_safe bool_cell_safe)

text \<open>
  A cleaned line is absent, or it is a non-empty text within the limit without control
  characters and without white space other than single blanks inside a line.
\<close>

theorem single_line_clean:
  "case single_line v limit of None \<Rightarrow> True
   | Some t \<Rightarrow> t \<noteq> [] \<and> length t \<le> limit \<and> plain_line t"
proof (cases v)
  case (Some s)
  have "plain_line (take limit (flat_line s))"
    using flat_line_plain [of s] by (auto simp: plain_line_def list_all_iff dest: in_set_takeD)
  with Some show ?thesis by (simp add: single_line_def nonempty_def)
qed (simp add: single_line_def)

end
