(* ===== verification/Database.thy ===== *)
theory Database
  imports Sync_Core Sharing Rate_Limit "HOL-Library.Product_Lexorder"
begin

text \<open>
  The tables of \<open>app/db/models.py\<close> that the jobs read and write, the database session
  (\<open>app/db/base.py\<close>) and the credential store (\<open>app/db/repositories.py\<close>, with
  \<open>app/db/account_scope.py\<close>). A table is a dictionary from primary keys to rows. JSON columns
  the program itself fills are typed records; the empty object that stands for "nothing yet" is
  \<open>None\<close>. Time stamps are seconds since the epoch: the columns are declared with a time zone.
\<close>

section \<open>Rows\<close>

record provider_account =
  pa_id :: string
  pa_user_id :: string
  pa_provider :: string
  pa_provider_user_id :: "string option"
  pa_display_name :: "string option"
  pa_ephemeral_expires_at :: "int option"
  pa_created_at :: int

text \<open>
  The encrypted blob of a credential row is kept as the credential it decrypts to: encryption
  (Fernet) is a library, and decrypting what was encrypted with the same key returns it.
\<close>

record stored_credential =
  sc_id :: string
  sc_account_id :: string
  sc_auth_kind :: auth_kind
  sc_payload :: credential
  sc_scopes :: "string list"
  sc_expires_at :: "rat option"
  sc_version :: int
  sc_created_at :: int

record sync_intent =
  si_status :: "string option"
  si_sync_rule_id :: "string option"
  si_mode :: "string option"
  si_cadence_minutes :: "int option"
  si_timezone :: "string option"
  si_error :: "string option"

text \<open>The confirmed draft a generated migration carries.\<close>

record generated_playlist =
  gen_draft_id :: "string option"
  gen_name :: "string option"
  gen_description :: "string option"

text \<open>The \<open>selection\<close> column of a job, by the keys the program uses.\<close>

record selection =
  sel_playlist_ids :: "string list"
  sel_saved_album_ids :: "string list"
  sel_followed_artist_ids :: "string list"
  sel_tracks :: "(string, string list) dict"
  sel_playlist_snapshots :: "(string, playlist) dict"
  sel_target_playlist_ids :: "(string, string) dict"
  sel_match_only :: bool
  sel_playlist_metadata :: "(string, playlist) dict"
  sel_continuous_sync :: "sync_intent option"
  sel_generated_playlist :: "generated_playlist option"

definition empty_selection :: selection where
  "empty_selection =
     \<lparr>sel_playlist_ids = [], sel_saved_album_ids = [], sel_followed_artist_ids = [],
      sel_tracks = [], sel_playlist_snapshots = [], sel_target_playlist_ids = [],
      sel_match_only = False, sel_playlist_metadata = [], sel_continuous_sync = None,
      sel_generated_playlist = None\<rparr>"

record status_count =
  stc_total :: int
  stc_pending :: int
  stc_matched :: int
  stc_needs_review :: int
  stc_written :: int
  stc_skipped :: int
  stc_failed :: int
  stc_other :: "(string, int) dict"

record playlist_summary =
  psm_source_playlist_id :: string
  psm_source_playlist_name :: "string option"
  psm_target_playlist_id :: "string option"
  psm_counts :: status_count

record job_summary =
  jsm_counts :: status_count
  jsm_playlists :: "playlist_summary list"
  jsm_entity_counts :: "(string, status_count) dict"

record migration_job =
  mj_id :: string
  mj_user_id :: string
  mj_source_kind :: string
  mj_source_provider :: string
  mj_target_provider :: string
  mj_source_account_id :: string
  mj_source_snapshot_id :: "string option"
  mj_target_account_id :: string
  mj_source_share_id :: "string option"
  mj_source_snapshot :: "shared_snapshot option"
  mj_selection :: selection
  mj_status :: string
  mj_total :: int
  mj_done :: int
  mj_failed :: int
  mj_error :: "string option"
  mj_origin :: string
  mj_sync_run_id :: "string option"
  mj_result_summary :: "job_summary option"
  mj_created_at :: int
  mj_started_at :: "int option"
  mj_completed_at :: "int option"
  mj_details_expires_at :: "int option"
  mj_details_purged_at :: "int option"
  mj_warnings :: "(string \<times> string) list"

record job_item =
  ji_id :: string
  ji_job_id :: string
  ji_entity_type :: entity_type
  ji_source_playlist_id :: "string option"
  ji_source_playlist_name :: "string option"
  ji_target_playlist_id :: "string option"
  ji_source_entity_id :: "string option"
  ji_source_entity_name :: "string option"
  ji_target_entity_id :: "string option"
  ji_position :: int
  ji_title :: string
  ji_artist :: string
  ji_album :: "string option"
  ji_duration_s :: "int option"
  ji_release_year :: "int option"
  ji_explicit :: "bool option"
  ji_isrc :: "string option"
  ji_source_metadata :: "(string, json) dict"
  ji_target_uri :: "string option"
  ji_confidence :: "rat option"
  ji_status :: string
  ji_reason :: "string option"
  ji_review_action :: "string option"
  ji_created_at :: int
  ji_updated_at :: int
  ji_review_original_status :: "string option"
  ji_review_original_reason :: "string option"
  ji_reviewed_at :: "int option"

record review_decision =
  rd_id :: string
  rd_job_id :: string
  rd_user_id :: string
  rd_source_provider :: string
  rd_target_provider :: string
  rd_source_account_id :: string
  rd_target_account_id :: string
  rd_entity_type :: entity_type
  rd_source_entity_id :: "string option"
  rd_source_entity_name :: "string option"
  rd_target_entity_id :: "string option"
  rd_title :: string
  rd_artist :: string
  rd_album :: "string option"
  rd_duration_s :: "int option"
  rd_isrc :: "string option"
  rd_source_metadata :: "(string, json) dict"
  rd_target_uri :: string
  rd_confidence :: rat
  rd_status :: string
  rd_action :: string
  rd_created_at :: int

record operation_ledger =
  ol_id :: string
  ol_job_id :: string
  ol_op :: string
  ol_intent :: json
  ol_observed_target_id :: "string option"
  ol_position :: "int option"
  ol_state :: string
  ol_updated_at :: int

record sync_rule =
  rule_id :: string
  rule_user_id :: string
  rule_source_provider :: string
  rule_source_account_id :: string
  rule_source_playlist_id :: string
  rule_source_playlist_name :: string
  rule_target_provider :: string
  rule_target_account_id :: string
  rule_target_playlist_id :: string
  rule_target_playlist_name :: string
  rule_mode :: string
  rule_cadence_minutes :: int
  rule_timezone :: string
  rule_enabled :: bool
  rule_status :: string
  rule_last_run_at :: "int option"
  rule_last_success_at :: "int option"
  rule_next_run_at :: "rat option"
  rule_last_error :: "string option"
  rule_last_added :: int
  rule_last_removed :: int
  rule_last_reordered :: int
  rule_created_at :: int

record sync_run =
  run_id :: string
  run_rule_id :: string
  run_trigger :: string
  run_status :: string
  run_lease_token :: string
  run_queue_job_id :: string
  run_source_snapshot :: "snapshot option"
  run_target_before :: "snapshot option"
  run_target_after :: "snapshot option"
  run_added :: int
  run_removed :: int
  run_reordered :: int
  run_error :: "string option"
  run_started_at :: "int option"
  run_heartbeat_at :: "int option"
  run_finished_at :: "int option"
  run_created_at :: int

record sync_checkpoint =
  ck_rule_id :: string
  ck_source_snapshot :: "snapshot option"
  ck_target_snapshot :: "snapshot option"
  ck_mappings :: mappings
  ck_unresolved :: "string list"

text \<open>Imported playlists waiting to be migrated: a row is ready, queued for a job, or failed.\<close>

record local_import =
  li_id :: string
  li_user_id :: string
  li_filename :: string
  li_detected_format :: string
  li_encoding :: "string option"
  li_file_size :: int
  li_status :: string
  li_queued_job_id :: "string option"
  li_playlists :: "playlist list"
  li_issues :: "json list"
  li_playlist_count :: int
  li_track_count :: int
  li_duplicate_count :: int
  li_malformed_count :: int
  li_unsupported_count :: int
  li_expires_at :: int
  li_source_kind :: string
  li_source_provider :: "string option"
  li_source_label :: "string option"
  li_source_locator :: "string option"
  li_source_fingerprint :: "string option"
  li_created_at :: int

text \<open>The cached reads of a provider account.\<close>

record cached_ref =
  cpr_user_id :: string
  cpr_provider :: string
  cpr_account_id :: string
  cpr_ref :: playlist_ref

record cached_tracks =
  cpt_user_id :: string
  cpt_provider :: string
  cpt_account_id :: string
  cpt_playlist_id :: string
  cpt_snapshot_id :: "string option"
  cpt_name :: string
  cpt_owner_id :: "string option"
  cpt_tracks :: "track list"

text \<open>Organizer jobs; the request of an item is what preflight resolved.\<close>

record organizer_request =
  orq_playlist :: playlist_ref
  orq_tracks :: "track_removal list"
  orq_baseline_hash :: "string option"
  orq_expected_hash :: "string option"

record organizer_job =
  oj_id :: string
  oj_user_id :: string
  oj_provider :: string
  oj_account_id :: string
  oj_status :: string
  oj_total :: int
  oj_done :: int
  oj_failed :: int
  oj_error :: "string option"
  oj_created_at :: int

record organizer_item =
  oi_id :: string
  oi_job_id :: string
  oi_playlist_id :: string
  oi_playlist_name :: string
  oi_action :: string
  oi_destructive :: bool
  oi_ownership :: string
  oi_collaborative :: "bool option"
  oi_request :: organizer_request
  oi_result :: "(string, json) dict"
  oi_status :: string
  oi_attempts :: int
  oi_retryable :: bool
  oi_error :: "string option"
  oi_created_at :: int

section \<open>Tables and the database\<close>

type_synonym 'r table = "(string, 'r) dict"

definition rows :: "'r table \<Rightarrow> 'r list" where
  "rows t = map snd t"

definition select_rows :: "('r \<Rightarrow> bool) \<Rightarrow> 'r table \<Rightarrow> 'r list" where
  "select_rows p t = filter p (rows t)"

definition update_row :: "string \<Rightarrow> ('r \<Rightarrow> 'r) \<Rightarrow> 'r table \<Rightarrow> 'r table" where
  "update_row i f t = map (\<lambda>(k, r). (k, if k = i then f r else r)) t"

definition delete_rows :: "('r \<Rightarrow> bool) \<Rightarrow> 'r table \<Rightarrow> 'r table" where
  "delete_rows p t = filter (\<lambda>(k, r). \<not> p r) t"

record db =
  db_accounts :: "provider_account table"
  db_credentials :: "stored_credential table"
  db_jobs :: "migration_job table"
  db_items :: "job_item table"
  db_decisions :: "review_decision table"
  db_ledger :: "operation_ledger table"
  db_rules :: "sync_rule table"
  db_runs :: "sync_run table"
  db_checkpoints :: "sync_checkpoint table"
  db_imports :: "local_import table"
  db_cached_refs :: "cached_ref table"
  db_cached_tracks :: "cached_tracks table"
  db_organizer_jobs :: "organizer_job table"
  db_organizer_items :: "organizer_item table"

definition active_run :: "sync_run \<Rightarrow> bool" where
  "active_run r = (run_status r \<in> {''queued'', ''running''})"

type_synonym endpoint = "string \<times> string \<times> string"

definition rule_source :: "sync_rule \<Rightarrow> endpoint" where
  "rule_source r = (rule_source_provider r, rule_source_account_id r, rule_source_playlist_id r)"

definition rule_target :: "sync_rule \<Rightarrow> endpoint" where
  "rule_target r = (rule_target_provider r, rule_target_account_id r, rule_target_playlist_id r)"

text \<open>
  The unique constraints of the tables: one active run per rule (\<open>uq_sync_run_active_rule\<close>),
  one rule per pair of endpoints of a user (\<open>uq_sync_rule_endpoint_pair\<close>), unique queue
  identifiers, one job per run, one account per user, provider and provider user, one item per
  playlist and action of an organizer job.
\<close>

definition one_active_run :: "sync_run table \<Rightarrow> bool" where
  "one_active_run t = distinct (map run_rule_id (select_rows active_run t))"

definition one_rule_per_pair :: "sync_rule table \<Rightarrow> bool" where
  "one_rule_per_pair t = distinct (map (\<lambda>r. (rule_user_id r, rule_source r, rule_target r)) (rows t))"

definition organizer_key :: "organizer_item \<Rightarrow> string \<times> string \<times> string" where
  "organizer_key i = (oi_job_id i, oi_playlist_id i, oi_action i)"

definition constraints_ok :: "db \<Rightarrow> bool" where
  "constraints_ok d =
     (one_active_run (db_runs d) \<and> one_rule_per_pair (db_rules d) \<and>
      distinct (map run_queue_job_id (rows (db_runs d))) \<and>
      distinct (map mj_sync_run_id (select_rows (\<lambda>j. mj_sync_run_id j \<noteq> None) (db_jobs d))) \<and>
      distinct (map (\<lambda>a. (pa_user_id a, pa_provider a, pa_provider_user_id a))
        (select_rows (\<lambda>a. pa_provider_user_id a \<noteq> None) (db_accounts d))) \<and>
      distinct (map organizer_key (rows (db_organizer_items d))))"

section \<open>The engine: sessions, clock, identifiers\<close>

record settings =
  set_review_confidence_threshold :: rat
  set_sync_min_cadence_minutes :: int
  set_sync_max_cadence_minutes :: int
  set_sync_retry_delay_s :: int
  set_sync_stale_run_after_s :: int
  set_sync_scheduler_batch_size :: nat
  set_migration_history_retention_days :: int
  set_migration_history_cleanup_batch_size :: nat
  set_migration_safe_max_playlists_per_job :: int
  set_migration_safe_max_tracks_per_job :: int
  set_migration_safe_daily_tracks :: int
  set_migration_safe_min_job_gap_s :: int
  set_local_import_retention_s :: int
  set_local_import_queued_retention_s :: int
  set_local_import_failed_retention_s :: int
  set_organizer_retry_attempts :: nat
  set_organizer_retry_max_delay_s :: rat
  set_organizer_rate_limit_capacity :: rat
  set_organizer_rate_limit_refill_per_s :: rat

text \<open>
  A verified snapshot archive: its library, what its manifest says of its collections, and the
  playlists it holds. Archives are files in the configured storage.
\<close>

record archive_collection =
  ac_source_provider :: string
  ac_name :: string
  ac_complete :: bool
  ac_error :: "string option"

record archive =
  arc_library_id :: string
  arc_collections :: "(string, archive_collection) dict"
  arc_read :: "string \<Rightarrow> exn + playlist"

text \<open>
  What a handler runs with: the settings, the registry of adapters, the identifiers that
  \<open>uuid4\<close> will draw, the zones the installed zone database knows, the archive of a ready
  snapshot of a user, by the snapshot's identifier, and the validation of a stored track, which is a
  library's.
\<close>

record 'w env =
  env_settings :: settings
  env_registry :: "'w registry"
  env_uuid :: "nat \<Rightarrow> string"
  env_zone_known :: "string \<Rightarrow> bool"
  env_open_archive :: "string \<Rightarrow> string \<Rightarrow> exn + archive"
  env_read_track :: "(string, json) dict \<Rightarrow> track option"

text \<open>
  The state a handler works on: the committed database, the view of the open session, the world
  behind the adapters, the clock, the number of identifiers drawn, the jobs put on the queue
  (function, argument, job identifier), the rate limiter of the process, and the turns at it
  that the worker will get until its time limit cancels it.
\<close>

record 'w engine =
  st_db :: db
  st_work :: db
  st_world :: 'w
  st_clock :: int
  st_drawn :: nat
  st_queue :: "(string \<times> string \<times> string) list"
  st_limiter :: limiter
  st_readings :: "turn list"

type_synonym ('w, 'a) handler = "('w engine, exn, 'a) proc"

definition open_session :: "('w, unit) handler" where
  "open_session = writes (\<lambda>s. s\<lparr>st_work := st_db s\<rparr>)"

definition rollback :: "('w, unit) handler" where
  "rollback = writes (\<lambda>s. s\<lparr>st_work := st_db s\<rparr>)"

definition flush :: "('w, unit) handler" where
  "flush = (\<lambda>s. if constraints_ok (st_work s) then (Inr (), s) else (Inl IntegrityError, s))"

definition commit :: "('w, unit) handler" where
  "commit = (\<lambda>s. if constraints_ok (st_work s) then (Inr (), s\<lparr>st_db := st_work s\<rparr>)
                 else (Inl IntegrityError, s))"

definition edit :: "(db \<Rightarrow> db) \<Rightarrow> ('w, unit) handler" where
  "edit f = writes (\<lambda>s. s\<lparr>st_work := f (st_work s)\<rparr>)"

definition query :: "(db \<Rightarrow> 'a) \<Rightarrow> ('w, 'a) handler" where
  "query f = reads (\<lambda>s. f (st_work s))"

definition utcnow :: "('w, int) handler" where
  "utcnow = reads st_clock"

definition uuid4 :: "'w env \<Rightarrow> ('w, string) handler" where
  "uuid4 env = (\<lambda>s. (Inr (env_uuid env (st_drawn s)), s\<lparr>st_drawn := Suc (st_drawn s)\<rparr>))"

definition enqueue :: "string \<Rightarrow> string \<Rightarrow> string \<Rightarrow> ('w, unit) handler" where
  "enqueue f arg job = writes (\<lambda>s. s\<lparr>st_queue := st_queue s @ [(f, arg, job)]\<rparr>)"

text \<open>
  A request hands work to the queue, which names it itself. When the queue cannot be reached the
  work runs in the background of the process: either way it is work to start.
\<close>

definition start_work :: "string \<Rightarrow> string \<Rightarrow> ('w, unit) handler" where
  "start_work f arg = enqueue f arg []"

text \<open>A call to an adapter changes the world and nothing else.\<close>

definition call :: "('w, exn, 'a) proc \<Rightarrow> ('w, 'a) handler" where
  "call m = (\<lambda>s. case m (st_world s) of (r, w) \<Rightarrow> (r, s\<lparr>st_world := w\<rparr>))"

definition expect :: "exn + 'a \<Rightarrow> ('w, 'a) handler" where
  "expect r = (\<lambda>s. (r, s))"

definition edit_job :: "string \<Rightarrow> (migration_job \<Rightarrow> migration_job) \<Rightarrow> ('w, unit) handler" where
  "edit_job i f = edit (\<lambda>d. d\<lparr>db_jobs := update_row i f (db_jobs d)\<rparr>)"

text \<open>An update that changes a job item stamps it (\<open>onupdate\<close>).\<close>

definition edit_item :: "string \<Rightarrow> (job_item \<Rightarrow> job_item) \<Rightarrow> ('w, unit) handler" where
  "edit_item i f = andthen utcnow (\<lambda>now.
     edit (\<lambda>d. d\<lparr>db_items :=
       update_row i (\<lambda>r. if f r = r then r else (f r)\<lparr>ji_updated_at := now\<rparr>) (db_items d)\<rparr>))"

definition edit_rule :: "string \<Rightarrow> (sync_rule \<Rightarrow> sync_rule) \<Rightarrow> ('w, unit) handler" where
  "edit_rule i f = edit (\<lambda>d. d\<lparr>db_rules := update_row i f (db_rules d)\<rparr>)"

definition edit_run :: "string \<Rightarrow> (sync_run \<Rightarrow> sync_run) \<Rightarrow> ('w, unit) handler" where
  "edit_run i f = edit (\<lambda>d. d\<lparr>db_runs := update_row i f (db_runs d)\<rparr>)"

definition edit_checkpoint ::
  "string \<Rightarrow> (sync_checkpoint \<Rightarrow> sync_checkpoint) \<Rightarrow> ('w, unit) handler"
where
  "edit_checkpoint i f = edit (\<lambda>d. d\<lparr>db_checkpoints := update_row i f (db_checkpoints d)\<rparr>)"

definition get_job :: "string \<Rightarrow> ('w, migration_job option) handler" where
  "get_job i = query (\<lambda>d. dict_get (db_jobs d) i)"

definition get_checkpoint :: "string \<Rightarrow> ('w, sync_checkpoint option) handler" where
  "get_checkpoint i = query (\<lambda>d. dict_get (db_checkpoints d) i)"

definition job_items :: "string \<Rightarrow> db \<Rightarrow> job_item list" where
  "job_items j d = select_rows (\<lambda>i. ji_job_id i = j) (db_items d)"

definition add_ledger ::
  "'w env \<Rightarrow> string \<Rightarrow> string \<Rightarrow> json \<Rightarrow> string option \<Rightarrow> int option \<Rightarrow> string \<Rightarrow> ('w, string) handler"
where
  "add_ledger env job op intent observed pos state =
     andthen (uuid4 env) (\<lambda>i. andthen utcnow (\<lambda>now.
     andthen (edit (\<lambda>d. d\<lparr>db_ledger := dict_set i
        \<lparr>ol_id = i, ol_job_id = job, ol_op = op, ol_intent = intent,
         ol_observed_target_id = observed, ol_position = pos, ol_state = state,
         ol_updated_at = now\<rparr> (db_ledger d)\<rparr>)) (\<lambda>_. ret i)))"

lemmas session_defs = open_session_def rollback_def flush_def commit_def edit_def query_def
  utcnow_def uuid4_def enqueue_def call_def expect_def

section \<open>How the session operations return\<close>

lemma ok_session [ok_simps]:
  "open_session s = (Inr b, t) \<longleftrightarrow> t = s\<lparr>st_work := st_db s\<rparr>"
  "rollback s = (Inr b, t) \<longleftrightarrow> t = s\<lparr>st_work := st_db s\<rparr>"
  "flush s = (Inr b, t) \<longleftrightarrow> constraints_ok (st_work s) \<and> t = s"
  "commit s = (Inr b, t) \<longleftrightarrow> constraints_ok (st_work s) \<and> t = s\<lparr>st_db := st_work s\<rparr>"
  "edit f s = (Inr b, t) \<longleftrightarrow> t = s\<lparr>st_work := f (st_work s)\<rparr>"
  "enqueue fn arg job s = (Inr b, t) \<longleftrightarrow> t = s\<lparr>st_queue := st_queue s @ [(fn, arg, job)]\<rparr>"
  by (auto simp: session_defs writes_def)

lemma ok_queries [ok_simps]:
  "query g s = (Inr x, t) \<longleftrightarrow> x = g (st_work s) \<and> t = s"
  "utcnow s = (Inr n, t) \<longleftrightarrow> n = st_clock s \<and> t = s"
  "uuid4 env s = (Inr i, t) \<longleftrightarrow> i = env_uuid env (st_drawn s) \<and> t = s\<lparr>st_drawn := Suc (st_drawn s)\<rparr>"
  "expect r s = (Inr y, t) \<longleftrightarrow> r = Inr y \<and> t = s"
  by (auto simp: session_defs reads_def)

lemma ok_call [ok_simps]:
  "call m s = (Inr x, t) \<longleftrightarrow> (\<exists>w. m (st_world s) = (Inr x, w) \<and> t = s\<lparr>st_world := w\<rparr>)"
  by (cases "m (st_world s)") (auto simp: call_def)

lemma run_session [run_simps]:
  "open_session s = (Inr (), s\<lparr>st_work := st_db s\<rparr>)"
  "rollback s = (Inr (), s\<lparr>st_work := st_db s\<rparr>)"
  "flush s = (if constraints_ok (st_work s) then Inr () else Inl IntegrityError, s)"
  "commit s = (if constraints_ok (st_work s) then (Inr (), s\<lparr>st_db := st_work s\<rparr>) else (Inl IntegrityError, s))"
  "edit f s = (Inr (), s\<lparr>st_work := f (st_work s)\<rparr>)"
  "enqueue fn arg job s = (Inr (), s\<lparr>st_queue := st_queue s @ [(fn, arg, job)]\<rparr>)"
  "uuid4 env s = (Inr (env_uuid env (st_drawn s)), s\<lparr>st_drawn := Suc (st_drawn s)\<rparr>)"
  by (auto simp: session_defs writes_def)

lemma run_queries [run_simps]:
  "query g s = (Inr (g (st_work s)), s)"
  "utcnow s = (Inr (st_clock s), s)"
  "expect r s = (r, s)"
  by (auto simp: session_defs reads_def)

lemma run_call [run_simps]:
  "call m s = (fst (m (st_world s)), s\<lparr>st_world := snd (m (st_world s))\<rparr>)"
  by (simp add: call_def split: prod.splits)

section \<open>Tables\<close>

lemma update_row_Nil [simp]: "update_row i f [] = []"
  by (simp add: update_row_def)

lemma dict_get_update_row [simp]:
  "dict_get (update_row i f t) k = (if k = i then map_option f (dict_get t k) else dict_get t k)"
  by (induction t) (auto simp: update_row_def)

lemma keys_update_row [simp]: "map fst (update_row i f t) = map fst t"
  by (induction t) (auto simp: update_row_def)

lemma is_dict_update_row [simp]: "is_dict (update_row i f t) = is_dict t"
  by (simp add: is_dict_def)

lemma rows_mem: "is_dict t \<Longrightarrow> r \<in> set (rows t) \<longleftrightarrow> (\<exists>k. dict_get t k = Some r)"
  by (force simp: rows_def is_dict_def)

lemma dict_get_rows: "dict_get t k = Some r \<Longrightarrow> r \<in> set (rows t)"
  by (metis image_eqI map_of_SomeD rows_def set_map snd_conv)

lemma dict_set_new: "dict_get t k = None \<Longrightarrow> dict_set k v t = t @ [(k, v)]"
  by (induction t) auto

lemma rows_update_row: "rows (update_row i f t) = map (\<lambda>(k, r). if k = i then f r else r) t"
  by (simp add: rows_def update_row_def case_prod_unfold)

lemma map_rows_update: "(\<And>r. g (f r) = g r) \<Longrightarrow> map g (rows (update_row i f t)) = map g (rows t)"
  by (induction t) (auto simp: rows_def update_row_def)

text \<open>Rows are stored under their own key.\<close>

definition keyed :: "('r \<Rightarrow> string) \<Rightarrow> 'r table \<Rightarrow> bool" where
  "keyed key t = (is_dict t \<and> list_all (\<lambda>(k, r). key r = k) t)"

text \<open>A table whose rows are stored under their own key and satisfy a condition.\<close>

definition table_ok :: "('r \<Rightarrow> string) \<Rightarrow> ('r \<Rightarrow> bool) \<Rightarrow> 'r table \<Rightarrow> bool" where
  "table_ok key p t \<longleftrightarrow> is_dict t \<and> (\<forall>(k, r) \<in> set t. key r = k \<and> p r)"

lemma table_ok_Nil [simp]: "table_ok key p []"
  by (simp add: table_ok_def)

lemma table_ok_get: "table_ok key p t \<Longrightarrow> dict_get t i = Some r \<Longrightarrow> key r = i \<and> p r"
  unfolding table_ok_def by (blast dest: map_of_SomeD)

lemma table_ok_row: "table_ok key p t \<Longrightarrow> r \<in> set (rows t) \<Longrightarrow> p r \<and> dict_get t (key r) = Some r"
  unfolding table_ok_def rows_def by (force simp: is_dict_def)

lemma table_ok_inj: "table_ok key p t \<Longrightarrow> inj_on key (set (rows t))"
  by (rule inj_onI) (metis option.inject table_ok_row)

lemma table_ok_update:
  assumes "table_ok key p t" and "\<And>r. dict_get t i = Some r \<Longrightarrow> key (f r) = key r \<and> p (f r)"
  shows "table_ok key p (update_row i f t)"
proof -
  have "key r' = k \<and> p r'" if m: "(k, r') \<in> set (update_row i f t)" for k r'
  proof -
    from m obtain r where r: "(k, r) \<in> set t" "r' = (if k = i then f r else r)"
      by (auto simp: update_row_def)
    with assms(1) have g: "dict_get t k = Some r" by (simp add: table_ok_def dict_get_mem)
    moreover have "key r = k \<and> p r" using assms(1) g by (rule table_ok_get)
    moreover note r(2)
    ultimately show ?thesis using assms(2) [of r] by (cases "k = i") simp_all
  qed
  with assms(1) show ?thesis by (auto simp: table_ok_def)
qed

lemma table_ok_delete: "table_ok key p t \<Longrightarrow> table_ok key p (delete_rows q t)"
  by (auto simp: table_ok_def delete_rows_def is_dict_def intro: distinct_map_filter)

lemma table_ok_new:
  "table_ok key p t \<Longrightarrow> dict_get t (key r) = None \<Longrightarrow> p r \<Longrightarrow> table_ok key p (dict_set (key r) r t)"
  using set_dict_set [of "key r" r t] by (fastforce simp: table_ok_def)

lemma table_ok_weaken: "table_ok key p t \<Longrightarrow> (\<And>r. p r \<Longrightarrow> q r) \<Longrightarrow> table_ok key q t"
  by (auto simp: table_ok_def)

section \<open>Frames\<close>

text \<open>A part of the database has a value, both as committed and as the session sees it.\<close>

definition part_is :: "(db \<Rightarrow> 'v) \<Rightarrow> 'v \<Rightarrow> 'w engine \<Rightarrow> bool" where
  "part_is f v s = (f (st_db s) = v \<and> f (st_work s) = v)"

lemma keeps_part [keeps_intro]:
  "keeps (part_is f v) open_session" "keeps (part_is f v) rollback" "keeps (part_is f v) flush"
  "keeps (part_is f v) commit" "keeps (part_is f v) (query g)" "keeps (part_is f v) utcnow"
  "keeps (part_is f v) (uuid4 env)" "keeps (part_is f v) (enqueue fn arg job)"
  "keeps (part_is f v) (call m)" "keeps (part_is f v) (expect r)"
  by (auto intro!: keepsI simp: run_simps part_is_def)

lemma keeps_part_edit [keeps_intro]: "(\<And>d. f (g d) = f d) \<Longrightarrow> keeps (part_is f v) (edit g)"
  by (auto intro!: keepsI simp: run_simps part_is_def)

text \<open>Steps that keep a part, then a computation that may rely on it.\<close>

lemma part_andthen:
  assumes "keeps (part_is f v) m" and "\<And>s. part_is f v s \<Longrightarrow> E s"
    and "\<And>a. triple (part_is f v) (k a) (\<lambda>_. E) (\<lambda>_. E)"
  shows "triple (part_is f v) (andthen m k) (\<lambda>_. E) (\<lambda>_. E)"
proof (rule triple_andthen)
  show "triple (part_is f v) m (\<lambda>_. part_is f v) (\<lambda>_. E)"
    using assms(1) unfolding keeps_def by (rule triple_weaken) (auto intro: assms(2))
qed (rule assms(3))

text \<open>
  The committed database satisfies the constraints, and both it and the session hold a job of
  which \<open>p\<close> is true.
\<close>

definition holding :: "string \<Rightarrow> (migration_job \<Rightarrow> bool) \<Rightarrow> 'w engine \<Rightarrow> bool" where
  "holding job p s \<longleftrightarrow> constraints_ok (st_db s) \<and>
     pred_option p (dict_get (db_jobs (st_db s)) job) \<and> dict_get (db_jobs (st_db s)) job \<noteq> None \<and>
     pred_option p (dict_get (db_jobs (st_work s)) job) \<and> dict_get (db_jobs (st_work s)) job \<noteq> None"

lemma keeps_holding [keeps_intro]:
  "keeps (holding job p) open_session" "keeps (holding job p) rollback" "keeps (holding job p) flush"
  "keeps (holding job p) commit" "keeps (holding job p) (query g)" "keeps (holding job p) utcnow"
  "keeps (holding job p) (uuid4 env)" "keeps (holding job p) (enqueue fn arg j)"
  "keeps (holding job p) (call m)" "keeps (holding job p) (expect r)"
  by (auto intro!: keepsI simp: run_simps holding_def)

lemma keeps_holding_edit [keeps_intro]: "(\<And>d. db_jobs (g d) = db_jobs d) \<Longrightarrow> keeps (holding job p) (edit g)"
  by (auto intro!: keepsI simp: run_simps holding_def)

lemma keeps_holding_job [keeps_intro]:
  "(\<And>j. p j \<Longrightarrow> p (f j)) \<Longrightarrow> keeps (holding job p) (edit_job i f)"
  by (auto intro!: keepsI simp: run_simps edit_job_def holding_def option.pred_set)

section \<open>What a worker leaves alone\<close>

text \<open>
  The jobs of the migration worker never touch a synchronization run, never delete a job and never
  delete a rule. Their edits are quiet in this sense, and whatever the session operations and quiet
  edits keep, a whole migration keeps.
\<close>

definition quiet :: "(db \<Rightarrow> db) \<Rightarrow> bool" where
  "quiet g \<longleftrightarrow> (\<forall>d. db_runs (g d) = db_runs d \<and>
     (\<forall>k. dict_get (db_jobs d) k \<noteq> None \<longrightarrow> dict_get (db_jobs (g d)) k \<noteq> None) \<and>
     (\<forall>k. dict_get (db_rules d) k \<noteq> None \<longrightarrow> dict_get (db_rules (g d)) k \<noteq> None))"

lemma quietI:
  "(\<And>d. db_runs (g d) = db_runs d) \<Longrightarrow> (\<And>d k. dict_get (db_jobs d) k \<noteq> None \<Longrightarrow> dict_get (db_jobs (g d)) k \<noteq> None) \<Longrightarrow>
     (\<And>d k. dict_get (db_rules d) k \<noteq> None \<Longrightarrow> dict_get (db_rules (g d)) k \<noteq> None) \<Longrightarrow> quiet g"
  by (simp add: quiet_def)

locale worker_frame =
  fixes I :: "'w engine \<Rightarrow> bool"
  assumes frame_open: "I s \<Longrightarrow> I (s\<lparr>st_work := st_db s\<rparr>)"
    and frame_commit: "I s \<Longrightarrow> constraints_ok (st_work s) \<Longrightarrow> I (s\<lparr>st_db := st_work s\<rparr>)"
    and frame_world: "I s \<Longrightarrow> I (s\<lparr>st_world := w\<rparr>)"
    and frame_drawn: "I s \<Longrightarrow> I (s\<lparr>st_drawn := n\<rparr>)"
    and frame_queue: "I s \<Longrightarrow> I (s\<lparr>st_queue := q\<rparr>)"
    and frame_edit: "I s \<Longrightarrow> quiet g \<Longrightarrow> I (s\<lparr>st_work := g (st_work s)\<rparr>)"
begin

lemma frame_session [keeps_intro]:
  "keeps I open_session" "keeps I rollback" "keeps I flush" "keeps I commit" "keeps I (query g)"
  "keeps I utcnow" "keeps I (uuid4 env)" "keeps I (enqueue fn arg job)" "keeps I (call m)" "keeps I (expect r)"
  by (auto intro!: keepsI simp: run_simps frame_open frame_commit frame_world frame_drawn frame_queue)

lemma frame_quiet [keeps_intro]:
  "(\<And>d. db_runs (g d) = db_runs d) \<Longrightarrow> (\<And>d k. dict_get (db_jobs d) k \<noteq> None \<Longrightarrow> dict_get (db_jobs (g d)) k \<noteq> None) \<Longrightarrow>
     (\<And>d k. dict_get (db_rules d) k \<noteq> None \<Longrightarrow> dict_get (db_rules (g d)) k \<noteq> None) \<Longrightarrow> keeps I (edit g)"
  by (auto intro!: keepsI frame_edit quietI simp: run_simps)

lemma frame_edit_job [keeps_intro]: "keeps I (edit_job i f)"
  unfolding edit_job_def by (rule frame_quiet) auto

end

interpretation part: worker_frame "part_is db_runs v" for v
  by unfold_locales (auto simp: part_is_def quiet_def)

end
