(* ===== verification/Fake_Provider.thy ===== *)
theory Fake_Provider
  imports Adapter
begin

text \<open>
  The in-memory reference adapter of the conformance suite
  (\<open>tests/conformance/fake_provider.py\<close>): the concrete adapter that shows the contract of
  \<open>Adapter\<close> can be met, and the world in which the concrete runs of this development take place.
\<close>

record fake_world =
  fw_library :: "(string, playlist) dict"
  fw_created :: "(string, string list) dict"
  fw_saved_albums :: "string list"
  fw_followed_artists :: "string list"

definition fake_track :: "string \<Rightarrow> string \<Rightarrow> string \<Rightarrow> int \<Rightarrow> track" where
  "fake_track title artist isrc pos =
     (new_track title artist)\<lparr>trk_isrc := Some isrc, trk_position := Some pos\<rparr>"

definition fake_library :: "(string, playlist) dict" where
  "fake_library =
     [(''pl-1'', new_playlist (Some ''pl-1'') ''Roadtrip''
        [fake_track ''Song One'' ''Artist One'' ''US0000000001'' 0,
         fake_track ''Song Two'' ''Artist Two'' ''US0000000002'' 1])]"

definition fake_start :: fake_world where
  "fake_start =
     \<lparr>fw_library = fake_library, fw_created = [], fw_saved_albums = [''fake:album:album-1''],
      fw_followed_artists = [''fake:artist:artist-1'']\<rparr>"

definition fake_cred :: "string \<Rightarrow> credential" where
  "fake_cred provider =
     \<lparr>crd_account_id = ''acc-1'', crd_provider = provider, crd_auth_kind = LONG_LIVED_TOKEN,
      crd_access_token = None, crd_refresh_token = None, crd_expires_at = None,
      crd_scopes = [], crd_extra = [], crd_version = 1\<rparr>"

definition fake_info :: provider_info where
  "fake_info =
     \<lparr>inf_name = ''fake'', inf_display_name = ''Fake Provider'',
      inf_capabilities = (new_capabilities
        [READ_PLAYLISTS, READ_TRACKS, READ_SAVED_ALBUMS, WRITE_SAVED_ALBUMS,
         READ_FOLLOWED_ARTISTS, WRITE_FOLLOWED_ARTISTS, CREATE_PLAYLIST, ADD_TRACKS])
        \<lparr>cap_has_isrc := True, cap_search_modes := [BY_ISRC, BY_TEXT],
         cap_max_add_batch := 2, cap_max_library_batch := 2\<rparr>,
      inf_auth_kind = LONG_LIVED_TOKEN, inf_liked_tracks_playlist_id = None,
      inf_library_read_scope = None, inf_library_write_scope = None,
      inf_saved_albums_read_scope = None, inf_saved_albums_write_scope = None,
      inf_followed_artists_read_scope = None, inf_followed_artists_write_scope = None,
      inf_artist_semantics = Some FOLLOW\<rparr>"

section \<open>Operations\<close>

definition fake_iter_playlists :: "credential \<Rightarrow> (fake_world, playlist_ref) stream" where
  "fake_iter_playlists cred = (\<lambda>w.
     ((map (\<lambda>(k, p). (new_ref (or_str (pl_id p) []) (pl_name p))
         \<lparr>ref_track_count := Some (int (length (pl_tracks p)))\<rparr>) (fw_library w), None), w))"

definition fake_read_playlist :: "credential \<Rightarrow> playlist_ref \<Rightarrow> (fake_world, exn, playlist) proc" where
  "fake_read_playlist cred ref =
     andthen (reads (\<lambda>w. dict_get (fw_library w) (ref_id ref))) (\<lambda>found.
       case found of None \<Rightarrow> throw (NotFound (ref_id ref)) | Some p \<Rightarrow> ret p)"

definition fake_search_tracks :: "credential \<Rightarrow> track \<Rightarrow> (fake_world, exn, track_candidate list) proc" where
  "fake_search_tracks cred t =
     reads (\<lambda>w. take 5 (map (\<lambda>h.
         \<lparr>cand_track_id = or_str (trk_id h) (trk_title h), cand_uri = ''fake:track:'' @ trk_title h,
          cand_title = trk_title h, cand_artist = trk_artist h, cand_album = None,
          cand_duration_s = None, cand_isrc = trk_isrc h, cand_explicit = None, cand_market = None\<rparr>)
       (filter (\<lambda>h. contains (lower (trk_title t)) (lower (trk_title h)))
         (concat (map (\<lambda>(k, p). pl_tracks p) (fw_library w))))))"

definition fake_album :: album where
  "fake_album =
     \<lparr>alb_id = Some ''album-1'', alb_title = ''Album One'', alb_artists = [''Artist One''],
      alb_upc = Some ''0123456789012'', alb_release_date = None, alb_release_year = None,
      alb_artwork_uri = None, alb_provider_uris = [(''fake'', ''fake:album:album-1'')],
      alb_metadata = [], alb_source_item_id = None, alb_added_at = None\<rparr>"

definition fake_artist :: artist where
  "fake_artist =
     \<lparr>art_id = Some ''artist-1'', art_name = ''Artist One'', art_artwork_uri = None,
      art_provider_uris = [(''fake'', ''fake:artist:artist-1'')], art_metadata = [],
      art_source_item_id = None, art_added_at = None\<rparr>"

definition fake_create_playlist :: "credential \<Rightarrow> create_spec \<Rightarrow> (fake_world, exn, string) proc" where
  "fake_create_playlist cred sp = (\<lambda>w.
     let pid = ''new-'' @ str_nat (length (fw_created w) + 1)
     in (Inr pid, w\<lparr>fw_created := dict_set pid [] (fw_created w)\<rparr>))"

definition added_results :: "nat \<Rightarrow> string list \<Rightarrow> add_item_result list" where
  "added_results n uris =
     map (\<lambda>(i, u). \<lparr>ar_uri = u, ar_ok = True, ar_already_present = False,
       ar_position = Some (int i), ar_error = None\<rparr>) (zip [n..<n + length uris] uris)"

definition fake_add_tracks ::
  "credential \<Rightarrow> string \<Rightarrow> string list \<Rightarrow> (fake_world, exn, add_item_result list) proc"
where
  "fake_add_tracks cred p uris = (\<lambda>w.
     case dict_get (fw_created w) p of
       None \<Rightarrow> (Inl (NotFound p), w)
     | Some us \<Rightarrow> (Inr (added_results (length us) uris),
         w\<lparr>fw_created := dict_set p (us @ uris) (fw_created w)\<rparr>))"

definition fake_drop_playlist :: "credential \<Rightarrow> playlist_ref \<Rightarrow> (fake_world, exn, mutation_result) proc" where
  "fake_drop_playlist cred ref = (\<lambda>w.
     (Inr \<lparr>mr_ok = True, mr_already_absent = False\<rparr>,
      w\<lparr>fw_library := filter (\<lambda>(k, p). k \<noteq> ref_id ref) (fw_library w)\<rparr>))"

definition fake_remove_tracks ::
  "credential \<Rightarrow> playlist_ref \<Rightarrow> track_removal list \<Rightarrow> (fake_world, exn, remove_tracks_result) proc"
where
  "fake_remove_tracks cred ref items = ret
     \<lparr>rt_items = map (\<lambda>i. \<lparr>rr_source_item_id = rm_source_item_id i, rr_provider_uri = rm_provider_uri i,
        rr_position = rm_position i, rr_ok = True, rr_error = None\<rparr>) items, rt_snapshot_id = None\<rparr>"

definition fake_album_reader :: "fake_world album_reader" where
  "fake_album_reader =
     \<lparr>alr_read = (\<lambda>cred i. if i = ''album-1'' then ret fake_album else throw (NotFound i)),
      alr_contains = (\<lambda>cred uris. reads (\<lambda>w. map (\<lambda>u. u \<in> set (fw_saved_albums w)) uris))\<rparr>"

definition fake_album_writer :: "fake_world album_writer" where
  "fake_album_writer =
     \<lparr>alw_search = (\<lambda>cred a. ret [\<lparr>acand_album_id = ''album-1'', acand_uri = ''fake:album:album-1'',
        acand_title = ''Album One'', acand_artists = [''Artist One''],
        acand_upc = Some ''0123456789012'', acand_release_date = None, acand_artwork_uri = None\<rparr>]),
      alw_validate = (\<lambda>cred u. ret (starts_with ''fake:album:'' u)),
      alw_contains = (\<lambda>cred uris. reads (\<lambda>w. map (\<lambda>u. u \<in> set (fw_saved_albums w)) uris)),
      alw_save = (\<lambda>cred uris w. (Inr (added_results 0 uris),
        w\<lparr>fw_saved_albums := uris @ fw_saved_albums w\<rparr>))\<rparr>"

definition fake_artist_reader :: "fake_world artist_reader" where
  "fake_artist_reader =
     \<lparr>arr_read = (\<lambda>cred i. if i = ''artist-1'' then ret fake_artist else throw (NotFound i)),
      arr_contains = (\<lambda>cred uris. reads (\<lambda>w. map (\<lambda>u. u \<in> set (fw_followed_artists w)) uris))\<rparr>"

definition fake_artist_writer :: "fake_world artist_writer" where
  "fake_artist_writer =
     \<lparr>arw_search = (\<lambda>cred a. ret [\<lparr>rcand_artist_id = ''artist-1'', rcand_uri = ''fake:artist:artist-1'',
        rcand_name = ''Artist One'', rcand_artwork_uri = None\<rparr>]),
      arw_validate = (\<lambda>cred u. ret (starts_with ''fake:artist:'' u)),
      arw_contains = (\<lambda>cred uris. reads (\<lambda>w. map (\<lambda>u. u \<in> set (fw_followed_artists w)) uris)),
      arw_follow = (\<lambda>cred uris w. (Inr (added_results 0 uris),
        w\<lparr>fw_followed_artists := uris @ fw_followed_artists w\<rparr>))\<rparr>"

definition fake_adapter :: "fake_world adapter" where
  "fake_adapter =
     \<lparr>ad_info = fake_info, ad_refresh = (\<lambda>cred. ret cred),
      ad_iter_playlists = fake_iter_playlists, ad_read_playlist = fake_read_playlist,
      ad_search_tracks = fake_search_tracks,
      ad_validate_uri = (\<lambda>cred u. ret (starts_with ''fake:track:'' u)),
      ad_create_playlist = fake_create_playlist, ad_add_tracks = fake_add_tracks,
      ad_unfollow_playlist = fake_drop_playlist, ad_delete_playlist = fake_drop_playlist,
      ad_remove_tracks = fake_remove_tracks, ad_replace_tracks = None,
      ad_album_reader = Some fake_album_reader, ad_album_writer = Some fake_album_writer,
      ad_artist_reader = Some fake_artist_reader, ad_artist_writer = Some fake_artist_writer\<rparr>"

section \<open>The contract\<close>

lemma added_results_uris: "map ar_uri (added_results n uris) = uris"
  by (simp add: added_results_def o_def case_prod_unfold)

lemma added_results_ok: "list_all ar_ok (added_results n uris)"
  by (simp add: added_results_def list_all_iff case_prod_unfold)

interpretation fake: playlist_writer "fake_add_tracks cred" "\<lambda>w. dict_get (fw_created w)" for cred
proof
  fix w :: fake_world and p us uris
  assume "dict_get (fw_created w) p = Some us"
  then show "\<exists>rs w'. fake_add_tracks cred p uris w = (Inr rs, w') \<and> map ar_uri rs = uris \<and>
      list_all ar_ok rs \<and> dict_get (fw_created w') = (dict_get (fw_created w))(p \<mapsto> us @ uris)"
    by (auto simp: fake_add_tracks_def added_results_uris added_results_ok update_conv)
next
  fix w :: fake_world and p uris
  assume "dict_get (fw_created w) p = None"
  then show "\<exists>m. fake_add_tracks cred p uris w = (Inl (NotFound m), w)"
    by (simp add: fake_add_tracks_def)
qed

text \<open>
  Cutting the URIs of a playlist into batches of any size and adding them one batch after the
  other leaves the playlist as one call would have.
\<close>

lemma fake_chunks_content:
  "dict_get (fw_created w) p = Some us \<Longrightarrow> 0 < n \<Longrightarrow>
     \<exists>w'. fake.add_batches cred p (chunks n uris) w = (Inr (), w') \<and>
       dict_get (fw_created w') = (dict_get (fw_created w))(p \<mapsto> us @ uris)"
  by (rule fake.add_chunks_content)

end
