(* ===== verification/Track_Codec.thy ===== *)
theory Track_Codec
  imports Models
begin

text \<open>
  A concrete reader of stored tracks for the sample environment. Reading a track back is the work of
  the validation library and a parameter of the model (\<open>env_read_track\<close>); this one takes the
  fields that \<open>Track\<close> of \<open>app/core/models.py\<close> declares, in the types they are written in: absent
  optional fields have their defaults, a missing or ill-typed field is an error (\<open>None\<close>). Dates and
  times stay texts.
\<close>

section \<open>Fields\<close>

type_synonym members = "(string, json) dict"

definition field :: "'a \<Rightarrow> (json \<Rightarrow> 'a option) \<Rightarrow> members \<Rightarrow> string \<Rightarrow> 'a option" where
  "field dflt decode ms k = (case dict_get ms k of None \<Rightarrow> Some dflt | Some v \<Rightarrow> decode v)"

definition required :: "(json \<Rightarrow> 'a option) \<Rightarrow> members \<Rightarrow> string \<Rightarrow> 'a option" where
  "required decode ms k = (case dict_get ms k of None \<Rightarrow> None | Some v \<Rightarrow> decode v)"

definition as_str :: "json \<Rightarrow> string option" where
  "as_str v = (case v of JStr s \<Rightarrow> Some s | _ \<Rightarrow> None)"

definition as_bool :: "json \<Rightarrow> bool option" where
  "as_bool v = (case v of JBool b \<Rightarrow> Some b | _ \<Rightarrow> None)"

definition as_int :: "json \<Rightarrow> int option" where
  "as_int v = (case v of JInt i \<Rightarrow> Some i | _ \<Rightarrow> None)"

definition nullable :: "(json \<Rightarrow> 'a option) \<Rightarrow> json \<Rightarrow> 'a option option" where
  "nullable decode v = (case v of JNull \<Rightarrow> Some None | _ \<Rightarrow> map_option Some (decode v))"

definition as_list :: "(json \<Rightarrow> 'a option) \<Rightarrow> json \<Rightarrow> 'a list option" where
  "as_list decode v = (case v of JList vs \<Rightarrow> all_some (map decode vs) | _ \<Rightarrow> None)"

definition as_dict :: "(json \<Rightarrow> 'a option) \<Rightarrow> json \<Rightarrow> (string, 'a) dict option" where
  "as_dict decode v =
     (case v of JObj ms \<Rightarrow> all_some (map (\<lambda>(k, v). map_option (Pair k) (decode v)) ms) | _ \<Rightarrow> None)"

section \<open>Dates\<close>

definition parse_date :: "string \<Rightarrow> date option" where
  "parse_date s =
     (if length s = 10 \<and> s ! 4 = CHR ''-'' \<and> s ! 7 = CHR ''-'' \<and>
         all_digits (take 4 s) \<and> all_digits (take 2 (drop 5 s)) \<and> all_digits (drop 8 s)
      then let m = read_nat (take 2 (drop 5 s)); d = read_nat (drop 8 s) in
        if 1 \<le> m \<and> m \<le> 12 \<and> 1 \<le> d \<and> d \<le> 31
        then Some (Date (int (read_nat (take 4 s))) (int m) (int d)) else None
      else None)"

definition date_ok :: "date \<Rightarrow> bool" where
  "date_ok d = (1 \<le> date_year d \<and> date_year d \<le> 9999 \<and> 1 \<le> date_month d \<and> date_month d \<le> 12 \<and>
     1 \<le> date_day d \<and> date_day d \<le> 31)"

definition as_date :: "json \<Rightarrow> date option" where
  "as_date v = (case v of JStr s \<Rightarrow> parse_date s | _ \<Rightarrow> None)"

section \<open>Tracks\<close>

fun media_of_value :: "string \<Rightarrow> media_type option" where
  "media_of_value s = find (\<lambda>m. media_value m = s) [TRACK, EPISODE, VIDEO, LOCAL_FILE, UNKNOWN]"

definition as_media :: "json \<Rightarrow> media_type option" where
  "as_media v = (case v of JStr s \<Rightarrow> media_of_value s | _ \<Rightarrow> None)"

definition credit_of_json :: "json \<Rightarrow> credit option" where
  "credit_of_json v =
     (case v of
        JObj ms \<Rightarrow>
          (case (required as_str ms ''role'', required as_str ms ''name'',
                 field None (nullable as_str) ms ''instrument'', field None (nullable as_str) ms ''uri'') of
             (Some r, Some n, Some i, Some u) \<Rightarrow>
               Some \<lparr>cr_role = r, cr_name = n, cr_instrument = i, cr_uri = u\<rparr>
           | _ \<Rightarrow> None)
      | _ \<Rightarrow> None)"

text \<open>Fields are read into the record one after the other; the first error wins.\<close>

definition put :: "'a option \<Rightarrow> ('a \<Rightarrow> 't \<Rightarrow> 't) \<Rightarrow> 't option \<Rightarrow> 't option" where
  "put v f t = (case (v, t) of (Some x, Some r) \<Rightarrow> Some (f x r) | _ \<Rightarrow> None)"

definition track_of_members :: "members \<Rightarrow> track option" where
  "track_of_members ms =
     (let txt = (\<lambda>k. field None (nullable as_str) ms k);
          num = (\<lambda>k. field None (nullable as_int) ms k)
      in put (required as_str ms ''title'') (\<lambda>v t. t\<lparr>trk_title := v\<rparr>)
        (put (required as_str ms ''artist'') (\<lambda>v t. t\<lparr>trk_artist := v\<rparr>)
        (put (txt ''id'') (\<lambda>v t. t\<lparr>trk_id := v\<rparr>)
        (put (txt ''album'') (\<lambda>v t. t\<lparr>trk_album := v\<rparr>)
        (put (num ''duration_s'') (\<lambda>v t. t\<lparr>trk_duration_s := v\<rparr>)
        (put (field None (nullable as_date) ms ''release_date'') (\<lambda>v t. t\<lparr>trk_release_date := v\<rparr>)
        (put (num ''release_year'') (\<lambda>v t. t\<lparr>trk_release_year := v\<rparr>)
        (put (txt ''genre'') (\<lambda>v t. t\<lparr>trk_genre := v\<rparr>)
        (put (num ''track_number'') (\<lambda>v t. t\<lparr>trk_track_number := v\<rparr>)
        (put (num ''disc_number'') (\<lambda>v t. t\<lparr>trk_disc_number := v\<rparr>)
        (put (field None (nullable as_bool) ms ''explicit'') (\<lambda>v t. t\<lparr>trk_explicit := v\<rparr>)
        (put (txt ''composer'') (\<lambda>v t. t\<lparr>trk_composer := v\<rparr>)
        (put (field [] (as_list credit_of_json) ms ''credits'') (\<lambda>v t. t\<lparr>trk_credits := v\<rparr>)
        (put (txt ''label'') (\<lambda>v t. t\<lparr>trk_label := v\<rparr>)
        (put (txt ''isrc'') (\<lambda>v t. t\<lparr>trk_isrc := v\<rparr>)
        (put (txt ''artwork_uri'') (\<lambda>v t. t\<lparr>trk_artwork_uri := v\<rparr>)
        (put (field [] (as_dict as_str) ms ''provider_uris'') (\<lambda>v t. t\<lparr>trk_provider_uris := v\<rparr>)
        (put (field [] (as_dict Some) ms ''metadata'') (\<lambda>v t. t\<lparr>trk_metadata := v\<rparr>)
        (put (txt ''migration_status'') (\<lambda>v t. t\<lparr>trk_migration_status := v\<rparr>)
        (put (txt ''migrated_target_playlist_id'') (\<lambda>v t. t\<lparr>trk_migrated_target_playlist_id := v\<rparr>)
        (put (txt ''migrated_target_uri'') (\<lambda>v t. t\<lparr>trk_migrated_target_uri := v\<rparr>)
        (put (num ''position'') (\<lambda>v t. t\<lparr>trk_position := v\<rparr>)
        (put (field TRACK as_media ms ''media_type'') (\<lambda>v t. t\<lparr>trk_media_type := v\<rparr>)
        (put (field False as_bool ms ''is_local'') (\<lambda>v t. t\<lparr>trk_is_local := v\<rparr>)
        (put (txt ''source_item_id'') (\<lambda>v t. t\<lparr>trk_source_item_id := v\<rparr>)
        (put (txt ''added_at'') (\<lambda>v t. t\<lparr>trk_added_at := v\<rparr>)
        (put (txt ''unsupported_reason'') (\<lambda>v t. t\<lparr>trk_unsupported_reason := v\<rparr>)
        (Some (new_track [] [])))))))))))))))))))))))))))))"

section \<open>Round trip\<close>

lemma nullable_simps [simp]:
  "nullable as_str (opt_str v) = Some v" "nullable as_int (opt_int i) = Some i"
  "nullable as_bool (opt_bool b) = Some b"
  by (cases v; simp add: nullable_def opt_str_def as_str_def)
    (cases i; cases b; simp add: nullable_def opt_int_def opt_bool_def as_int_def as_bool_def)+

lemma all_some_map: "(\<And>x. x \<in> set xs \<Longrightarrow> f x = Some (g x)) \<Longrightarrow> all_some (map f xs) = Some (map g xs)"
  by (induction xs) auto

lemma credits_roundtrip [simp]: "as_list credit_of_json (JList (map credit_json cs)) = Some cs"
proof -
  have "credit_of_json (credit_json c) = Some c" for c
    by (simp add: credit_json_def credit_of_json_def required_def field_def as_str_def)
  then show ?thesis
    using all_some_map [of cs "credit_of_json \<circ> credit_json" id] by (simp add: as_list_def)
qed

lemma uris_roundtrip [simp]: "as_dict as_str (JObj (map (\<lambda>(k, v). (k, JStr v)) us)) = Some us"
  using all_some_map [of us "\<lambda>(k, v). map_option (Pair k) (as_str (JStr v))" id]
  by (simp add: as_dict_def as_str_def case_prod_unfold o_def)

lemma metadata_roundtrip [simp]: "as_dict Some (JObj ms) = Some ms"
  using all_some_map [of ms "\<lambda>(k, v). map_option (Pair k) (Some v)" id]
  by (simp add: as_dict_def case_prod_unfold)

lemma media_roundtrip [simp]: "as_media (JStr (media_value m)) = Some m"
  by (cases m) (simp_all add: as_media_def)

lemma scalar_roundtrip [simp]: "as_str (JStr s) = Some s" "as_bool (JBool b) = Some b"
  by (simp_all add: as_str_def as_bool_def)

lemma length_nat_digits: "0 < k \<Longrightarrow> n < 10 ^ k \<Longrightarrow> length (nat_digits n) \<le> k"
proof (induction k arbitrary: n)
  case (Suc k)
  show ?case
  proof (cases "n < 10")
    case True
    then show ?thesis by (simp add: nat_digits.simps [of n])
  next
    case False
    with Suc.prems have "0 < k" by (cases k) auto
    moreover have "n div 10 < 10 ^ k" using Suc.prems by (simp add: less_mult_imp_div_less mult.commute)
    ultimately show ?thesis using Suc.IH [of "n div 10"] False by (simp add: nat_digits.simps [of n])
  qed
qed simp

lemma read_nat_zeros: "read_nat (replicate k (CHR ''0'') @ s) = read_nat s"
proof -
  have "foldl (\<lambda>n c. 10 * n + (ord c - 48)) (0::nat) (replicate k (CHR ''0'')) = 0"
    by (induction k) auto
  then show ?thesis by (simp add: read_nat_def)
qed

definition padded :: "nat \<Rightarrow> string \<Rightarrow> nat \<Rightarrow> bool" where
  "padded k s n = (length s = k \<and> all_digits s \<and> read_nat s = n)"

lemma padded_zeros:
  assumes "0 < k" and "n < 10 ^ k"
  shows "padded k (replicate (k - length (nat_digits n)) (CHR ''0'') @ nat_digits n) n"
proof -
  have "all_digits (replicate m (CHR ''0'') @ nat_digits n)" for m
    using all_digits_nat_digits [of n] by (auto simp: all_digits_def list_all_iff is_digit_def)
  then show ?thesis
    using length_nat_digits [OF assms] by (simp add: padded_def read_nat_zeros)
qed

lemma two_digits_padded: "0 \<le> n \<Longrightarrow> n < 100 \<Longrightarrow> padded 2 (two_digits n) (nat n)"
proof -
  assume n: "0 \<le> n" "n < 100"
  have "length (nat_digits (nat n)) = (if n < 10 then 1 else 2)"
  proof (cases "n < 10")
    case True
    then have "nat n < 10" by simp
    with True show ?thesis by (simp add: nat_digits.simps [of "nat n"])
  next
    case False
    with n have "\<not> nat n < 10" and "nat n div 10 < 10" by linarith+
    with False show ?thesis
      by (simp add: nat_digits.simps [of "nat n"] nat_digits.simps [of "nat n div 10"])
  qed
  then show ?thesis
    using padded_zeros [of 2 "nat n"] n by (simp add: two_digits_def str_int_def split: if_splits)
qed

lemma four_digits_padded: "0 \<le> n \<Longrightarrow> n < 10000 \<Longrightarrow> padded 4 (four_digits n) (nat n)"
  using padded_zeros [of 4 "nat n"] by (simp add: four_digits_def str_int_def Let_def)

lemma parse_date_text: "date_ok d \<Longrightarrow> parse_date (date_text d) = Some d"
proof -
  assume d: "date_ok d"
  let ?y = "four_digits (date_year d)" and ?m = "two_digits (date_month d)"
    and ?t = "two_digits (date_day d)"
  have y: "length ?y = 4" "all_digits ?y" "read_nat ?y = nat (date_year d)"
    using four_digits_padded [of "date_year d"] d by (auto simp: date_ok_def padded_def)
  have m: "length ?m = 2" "all_digits ?m" "read_nat ?m = nat (date_month d)"
    using two_digits_padded [of "date_month d"] d by (auto simp: date_ok_def padded_def)
  have t: "length ?t = 2" "all_digits ?t" "read_nat ?t = nat (date_day d)"
    using two_digits_padded [of "date_day d"] d by (auto simp: date_ok_def padded_def)
  show ?thesis
    using d y m t by (cases d) (auto simp: parse_date_def date_text_def nth_append date_ok_def Let_def)
qed

lemma date_roundtrip: "(case v of None \<Rightarrow> True | Some d \<Rightarrow> date_ok d) \<Longrightarrow>
    nullable as_date (opt_str (map_option date_text v)) = Some v"
  by (cases v) (simp_all add: nullable_def opt_str_def as_date_def parse_date_text)

lemma put_Some [simp]: "put (Some x) f (Some r) = Some (f x r)"
  by (simp add: put_def)

lemma field_Some [simp]: "dict_get ms k = Some v \<Longrightarrow> field d f ms k = f v"
  by (simp add: field_def)

lemma required_Some [simp]: "dict_get ms k = Some v \<Longrightarrow> required f ms k = f v"
  by (simp add: required_def)

text \<open>
  A track that is stored as JSON is read back unchanged, every field of it, as long as its release
  date is a date.
\<close>

lemma track_roundtrip:
  assumes "case trk_release_date t of None \<Rightarrow> True | Some d \<Rightarrow> date_ok d"
  shows "track_of_members (track_members t) = Some t"
  using date_roundtrip [OF assms]
  by (simp add: track_of_members_def track_members_def track_json_def Let_def new_track_def)

lemma track_roundtrip_witness:
  "track_of_members (track_members ((new_track ''One'' ''U2'')\<lparr>trk_release_date := Some (Date 1992 2 24)\<rparr>)) =
     Some ((new_track ''One'' ''U2'')\<lparr>trk_release_date := Some (Date 1992 2 24)\<rparr>)"
  by (rule track_roundtrip) (simp add: date_ok_def)

end
