(* ===== verification/Sample_World.thy ===== *)
theory Sample_World
  imports Database Fake_Provider Track_Codec
begin

text \<open>
  A concrete environment and engine state over the reference adapter, in which the properties
  with hypotheses are exercised: one user with one account at the fake provider.
\<close>

definition sample_settings :: settings where
  "sample_settings =
     \<lparr>set_review_confidence_threshold = 4 / 5, set_sync_min_cadence_minutes = 5,
      set_sync_max_cadence_minutes = 10080, set_sync_retry_delay_s = 300,
      set_sync_stale_run_after_s = 3900, set_sync_scheduler_batch_size = 20,
      set_migration_history_retention_days = 90, set_migration_history_cleanup_batch_size = 100,
      set_migration_safe_max_playlists_per_job = 1, set_migration_safe_max_tracks_per_job = 50,
      set_migration_safe_daily_tracks = 250, set_migration_safe_min_job_gap_s = 120,
      set_local_import_retention_s = 3600, set_local_import_queued_retention_s = 86400,
      set_local_import_failed_retention_s = 86400, set_organizer_retry_attempts = 3,
      set_organizer_retry_max_delay_s = 30, set_organizer_rate_limit_capacity = 5,
      set_organizer_rate_limit_refill_per_s = 1\<rparr>"

definition sample_env :: "fake_world env" where
  "sample_env =
     \<lparr>env_settings = sample_settings, env_registry = [(''fake'', fake_adapter)],
      env_uuid = str_nat, env_zone_known = (\<lambda>z. z = ''UTC''),
      env_open_archive = (\<lambda>i user. Inl (SnapshotIntegrityError ''snapshot source was not found'')),
      env_read_track = track_of_members\<rparr>"

lemma sample_uuid_inj: "inj (env_uuid sample_env)"
  by (simp add: sample_env_def inj_def)

definition sample_account :: provider_account where
  "sample_account =
     \<lparr>pa_id = ''acc-1'', pa_user_id = ''owner'', pa_provider = ''fake'',
      pa_provider_user_id = Some ''me'', pa_display_name = None,
      pa_ephemeral_expires_at = None, pa_created_at = 0\<rparr>"

definition sample_credential :: stored_credential where
  "sample_credential =
     \<lparr>sc_id = ''c-1'', sc_account_id = ''acc-1'', sc_auth_kind = LONG_LIVED_TOKEN,
      sc_payload = fake_cred ''fake'', sc_scopes = [], sc_expires_at = None, sc_version = 1,
      sc_created_at = 0\<rparr>"

definition empty_db :: db where
  "empty_db =
     \<lparr>db_accounts = [], db_credentials = [], db_jobs = [], db_items = [], db_decisions = [],
      db_ledger = [], db_rules = [], db_runs = [], db_checkpoints = [],
      db_imports = [], db_cached_refs = [], db_cached_tracks = [], db_organizer_jobs = [],
      db_organizer_items = []\<rparr>"

definition account_db :: db where
  "account_db = empty_db\<lparr>db_accounts := [(''acc-1'', sample_account)],
     db_credentials := [(''c-1'', sample_credential)]\<rparr>"

definition sample_job :: "string \<Rightarrow> migration_job" where
  "sample_job i =
     \<lparr>mj_id = i, mj_user_id = ''owner'', mj_source_kind = ''provider'', mj_source_provider = ''fake'',
      mj_target_provider = ''fake'', mj_source_account_id = ''acc-1'', mj_source_snapshot_id = None,
      mj_target_account_id = ''acc-1'', mj_source_share_id = None, mj_source_snapshot = None,
      mj_selection = empty_selection, mj_status = ''pending'', mj_total = 0, mj_done = 0,
      mj_failed = 0, mj_error = None, mj_origin = ''manual'', mj_sync_run_id = None,
      mj_result_summary = None, mj_created_at = 0, mj_started_at = None, mj_completed_at = None,
      mj_details_expires_at = None, mj_details_purged_at = None, mj_warnings = []\<rparr>"

definition engine_on :: "db \<Rightarrow> fake_world engine" where
  "engine_on d =
     \<lparr>st_db = d, st_work = d, st_world = fake_start, st_clock = 1000, st_drawn = 0, st_queue = [],
      st_limiter = [], st_readings = map (Pair id) [0, 1, 2, 3, 4]\<rparr>"

lemmas constraint_defs = constraints_ok_def one_active_run_def one_rule_per_pair_def
  select_rows_def rows_def

lemma account_db_organizer [simp]: "db_organizer_items account_db = []"
  by (simp add: account_db_def empty_db_def)

lemma constraints_ok_empty [simp]: "constraints_ok empty_db"
  by (simp add: constraint_defs empty_db_def)

lemma constraints_ok_account [simp]: "constraints_ok account_db"
  by (simp add: constraint_defs account_db_def empty_db_def sample_account_def)

end
