(* ===== verification/Accounts.thy ===== *)
theory Accounts
  imports Sample_World
begin

text \<open>
  Accounts and credentials: \<open>app/db/repositories.py\<close> and the account scopes of migration history
  in \<open>app/db/account_scope.py\<close>. The second part of this theory shows that a handler only ever
  obtains the credential of the account it asked for.
\<close>

section \<open>Accounts\<close>

text \<open>\<open>order_by(key.desc())\<close> over a unique key.\<close>

definition order_desc :: "('a \<Rightarrow> 'k::linorder) \<Rightarrow> 'a list \<Rightarrow> 'a list" where
  "order_desc key xs = rev (sort_key key xs)"

definition list_accounts :: "string \<Rightarrow> string option \<Rightarrow> db \<Rightarrow> provider_account list" where
  "list_accounts user provider d =
     order_desc pa_created_at
       (select_rows (\<lambda>a. pa_user_id a = user \<and> (\<not> truthy provider \<or> pa_provider a = the provider))
         (db_accounts d))"

text \<open>Deleting an account deletes its credentials and its cached reads.\<close>

definition drop_account :: "string \<Rightarrow> db \<Rightarrow> db" where
  "drop_account i d =
     d\<lparr>db_accounts := delete_rows (\<lambda>a. pa_id a = i) (db_accounts d),
       db_credentials := delete_rows (\<lambda>c. sc_account_id c = i) (db_credentials d),
       db_cached_refs := delete_rows (\<lambda>c. cpr_account_id c = i) (db_cached_refs d),
       db_cached_tracks := delete_rows (\<lambda>c. cpt_account_id c = i) (db_cached_tracks d)\<rparr>"

definition delete_account :: "string \<Rightarrow> string \<Rightarrow> ('w, bool) handler" where
  "delete_account i user = andthen (query (\<lambda>d. dict_get (db_accounts d) i)) (\<lambda>found.
     case found of
       None \<Rightarrow> ret False
     | Some a \<Rightarrow>
         if pa_user_id a \<noteq> user then ret False
         else andthen (edit (drop_account i)) (\<lambda>_. andthen flush (\<lambda>_. ret True)))"

definition find_account :: "string \<Rightarrow> string \<Rightarrow> string option \<Rightarrow> db \<Rightarrow> provider_account option" where
  "find_account user provider provider_user d =
     find (\<lambda>a. pa_user_id a = user \<and> pa_provider a = provider \<and> pa_provider_user_id a = provider_user)
       (rows (db_accounts d))"

definition save_credential ::
  "'w env \<Rightarrow> string \<Rightarrow> string \<Rightarrow> string option \<Rightarrow> string option \<Rightarrow> credential \<Rightarrow> int option \<Rightarrow>
     ('w, provider_account) handler"
where
  "save_credential env user provider provider_user display cred ephemeral =
     andthen (query (find_account user provider provider_user)) (\<lambda>found.
     andthen
       (case found of
          None \<Rightarrow> andthen (uuid4 env) (\<lambda>i. andthen utcnow (\<lambda>now.
            let a = \<lparr>pa_id = i, pa_user_id = user, pa_provider = provider,
                     pa_provider_user_id = provider_user, pa_display_name = display,
                     pa_ephemeral_expires_at = ephemeral, pa_created_at = now\<rparr>
            in andthen (edit (\<lambda>d. d\<lparr>db_accounts := dict_set i a (db_accounts d)\<rparr>)) (\<lambda>_.
               andthen flush (\<lambda>_. ret a))))
        | Some a0 \<Rightarrow>
            let a = a0\<lparr>pa_display_name := or_else display (pa_display_name a0),
                       pa_ephemeral_expires_at := ephemeral\<rparr>
            in andthen (edit (\<lambda>d. d\<lparr>db_accounts := update_row (pa_id a0) (\<lambda>_. a) (db_accounts d)\<rparr>))
                 (\<lambda>_. ret a))
       (\<lambda>a. let persisted = cred\<lparr>crd_account_id := pa_id a, crd_provider := provider\<rparr> in
        andthen (uuid4 env) (\<lambda>i. andthen utcnow (\<lambda>now.
        andthen (edit (\<lambda>d. d\<lparr>db_credentials := dict_set i
            \<lparr>sc_id = i, sc_account_id = pa_id a, sc_auth_kind = crd_auth_kind persisted,
             sc_payload = persisted, sc_scopes = crd_scopes persisted,
             sc_expires_at = crd_expires_at persisted, sc_version = crd_version persisted,
             sc_created_at = now\<rparr> (db_credentials d)\<rparr>)) (\<lambda>_.
        andthen flush (\<lambda>_. ret a))))))"

definition expired_ephemeral :: "int \<Rightarrow> provider_account \<Rightarrow> bool" where
  "expired_ephemeral cutoff a =
     (case pa_ephemeral_expires_at a of None \<Rightarrow> False | Some t \<Rightarrow> t \<le> cutoff)"

definition delete_expired_ephemeral_accounts :: "int \<Rightarrow> ('w, nat) handler" where
  "delete_expired_ephemeral_accounts cutoff =
     andthen (query (\<lambda>d. select_rows (expired_ephemeral cutoff) (db_accounts d))) (\<lambda>expired.
     andthen (for_each expired (\<lambda>a. edit (drop_account (pa_id a)))) (\<lambda>_.
     andthen (if expired \<noteq> [] then flush else ret ()) (\<lambda>_.
     ret (length expired))))"

section \<open>Credentials\<close>

definition newest_credential :: "string \<Rightarrow> db \<Rightarrow> stored_credential option" where
  "newest_credential account d =
     (case order_desc (\<lambda>c. (sc_created_at c, sc_id c))
             (select_rows (\<lambda>c. sc_account_id c = account) (db_credentials d)) of
        [] \<Rightarrow> None | c # _ \<Rightarrow> Some c)"

definition runtime_credential :: "provider_account \<Rightarrow> stored_credential \<Rightarrow> credential" where
  "runtime_credential a c =
     (let extra = crd_extra (sc_payload c);
          extra' = (if truthy (pa_provider_user_id a) \<and> dict_get extra ''provider_user_id'' = None
                    then dict_set ''provider_user_id'' (JStr (the (pa_provider_user_id a))) extra
                    else extra)
      in (sc_payload c)\<lparr>crd_account_id := pa_id a, crd_provider := pa_provider a,
           crd_scopes := sc_scopes c, crd_expires_at := sc_expires_at c,
           crd_extra := extra', crd_version := sc_version c\<rparr>)"

definition load_credential ::
  "string \<Rightarrow> string option \<Rightarrow> string option \<Rightarrow> ('w, credential \<times> provider_account) handler"
where
  "load_credential account provider user =
     andthen (query (\<lambda>d. find (\<lambda>a. pa_id a = account \<and>
         (\<not> truthy provider \<or> pa_provider a = the provider) \<and>
         (\<not> truthy user \<or> pa_user_id a = the user)) (rows (db_accounts d)))) (\<lambda>found.
     case found of
       None \<Rightarrow> throw (AccountNotFound account)
     | Some a \<Rightarrow> andthen (query (newest_credential (pa_id a))) (\<lambda>row.
         case row of
           None \<Rightarrow> throw (CredentialNotFound (pa_id a))
         | Some c \<Rightarrow> ret (runtime_credential a c, a)))"

definition expires_soon :: "credential \<Rightarrow> int \<Rightarrow> bool" where
  "expires_soon c now =
     (case crd_expires_at c of None \<Rightarrow> False | Some e \<Rightarrow> e \<noteq> 0 \<and> e \<le> of_int now + 60)"

text \<open>An expired refresh token removes the account for good before the error is passed on.\<close>

definition refresh_credential :: "'w adapter \<Rightarrow> credential \<Rightarrow> provider_account \<Rightarrow> ('w, credential) handler" where
  "refresh_credential ad cred a =
     catching (call (ad_refresh ad cred)) (\<lambda>e.
       case e of
         RefreshTokenExpired m \<Rightarrow>
           andthen (edit (drop_account (pa_id a))) (\<lambda>_.
           andthen flush (\<lambda>_. andthen commit (\<lambda>_. throw e)))
       | _ \<Rightarrow> throw e)"

definition load_fresh_credential ::
  "'w env \<Rightarrow> string \<Rightarrow> 'w adapter \<Rightarrow> string option \<Rightarrow> string option \<Rightarrow>
     ('w, credential \<times> provider_account) handler"
where
  "load_fresh_credential env account ad provider user =
     andthen (load_credential account provider user) (\<lambda>(cred, a).
     andthen utcnow (\<lambda>now.
     if \<not> expires_soon cred now then ret (cred, a)
     else andthen (refresh_credential ad cred a) (\<lambda>fresh.
       andthen (save_credential env (pa_user_id a) (pa_provider a) (pa_provider_user_id a)
           (pa_display_name a) fresh (pa_ephemeral_expires_at a)) (\<lambda>a'.
       ret (fresh\<lparr>crd_account_id := pa_id a', crd_provider := pa_provider a'\<rparr>, a')))))"

definition invalidate_playlist_cache :: "string \<Rightarrow> string \<Rightarrow> string \<Rightarrow> ('w, unit) handler" where
  "invalidate_playlist_cache user provider account =
     andthen (edit (\<lambda>d. d\<lparr>
        db_cached_tracks := delete_rows (\<lambda>c. cpt_user_id c = user \<and> cpt_provider c = provider \<and>
          cpt_account_id c = account) (db_cached_tracks d),
        db_cached_refs := delete_rows (\<lambda>c. cpr_user_id c = user \<and> cpr_provider c = provider \<and>
          cpr_account_id c = account) (db_cached_refs d)\<rparr>)) (\<lambda>_. flush)"

section \<open>Account scopes of migration history\<close>

definition provider_account_history :: "db \<Rightarrow> string \<Rightarrow> string \<Rightarrow> string \<Rightarrow> string \<Rightarrow> bool" where
  "provider_account_history d account current user provider =
     (account = current \<or>
      list_ex (\<lambda>a. pa_id a = account \<and> pa_user_id a = user \<and> pa_provider a = provider)
        (rows (db_accounts d)) \<or>
      \<not> list_ex (\<lambda>a. pa_id a = account) (rows (db_accounts d)))"

definition migration_source_history ::
  "db \<Rightarrow> string \<Rightarrow> string \<Rightarrow> string \<Rightarrow> string \<Rightarrow> string \<Rightarrow> string \<Rightarrow> bool"
where
  "migration_source_history d account kind current current_kind user provider =
     (if current_kind \<noteq> ''provider'' then kind = current_kind \<and> account = current
      else kind = ''provider'' \<and> provider_account_history d account current user provider)"

section \<open>Lemmas\<close>

lemma select_rows_delete: "select_rows p (delete_rows q t) = filter (\<lambda>r. p r \<and> \<not> q r) (rows t)"
  by (induction t) (auto simp: select_rows_def delete_rows_def rows_def)

lemma load_credential_Inr:
  assumes "load_credential account provider user s = (Inr (cred, a), t)"
  shows "t = s \<and> a \<in> set (rows (db_accounts (st_work s))) \<and> pa_id a = account \<and>
    (truthy provider \<longrightarrow> pa_provider a = the provider) \<and> (truthy user \<longrightarrow> pa_user_id a = the user) \<and>
    crd_account_id cred = account \<and> crd_provider cred = pa_provider a"
  using assms
  by (auto simp: load_credential_def ok_simps runtime_credential_def Let_def
      find_Some_iff split: option.splits)

lemma save_credential_Inr:
  assumes "save_credential env user provider provider_user display cred ephemeral s = (Inr a, t)"
  shows "pa_user_id a = user \<and> pa_provider a = provider \<and> pa_provider_user_id a = provider_user"
  using assms
  by (auto simp: save_credential_def ok_simps Let_def find_account_def find_Some_iff
      split: option.splits)

text \<open>Only the account tables are written.\<close>

definition account_free :: "(db \<Rightarrow> 'v) \<Rightarrow> bool" where
  "account_free f \<longleftrightarrow> (\<forall>d as cs rs ts. f (d\<lparr>db_accounts := as\<rparr>) = f d \<and>
     f (d\<lparr>db_credentials := cs\<rparr>) = f d \<and> f (d\<lparr>db_cached_refs := rs\<rparr>) = f d \<and>
     f (d\<lparr>db_cached_tracks := ts\<rparr>) = f d)"

lemma keeps_save_credential:
  "account_free f \<Longrightarrow> keeps (part_is f v) (save_credential env user provider provider_user display cred eph)"
  by (auto simp: save_credential_def Let_def account_free_def intro!: keeps_intro)

lemma keeps_refresh_credential: "account_free f \<Longrightarrow> keeps (part_is f v) (refresh_credential ad cred a)"
  by (auto simp: refresh_credential_def account_free_def drop_account_def intro!: keeps_intro split: exn.splits)

lemma keeps_load_fresh_credential [keeps_intro]:
  "account_free f \<Longrightarrow> keeps (part_is f v) (load_fresh_credential env account ad provider user)"
  by (auto simp: load_fresh_credential_def load_credential_def
      intro!: keeps_intro keeps_save_credential keeps_refresh_credential)

text \<open>
  A credential is handed out only for an account of the requested user and provider, and it
  names that provider, whether it was stored or has just been refreshed.
\<close>

lemma load_fresh_credential_scoped:
  assumes "load_fresh_credential env account ad (Some provider) (Some user) s = (Inr (cred, a), t)"
    and "provider \<noteq> []" and "user \<noteq> []"
  shows "pa_provider a = provider \<and> pa_user_id a = user \<and> crd_provider cred = provider \<and>
    crd_account_id cred = pa_id a"
proof -
  from assms(1) obtain cred0 a0 s1 where
    l: "load_credential account (Some provider) (Some user) s = (Inr (cred0, a0), s1)"
    and r: "(if \<not> expires_soon cred0 (st_clock s1) then ret (cred0, a0)
       else andthen (refresh_credential ad cred0 a0) (\<lambda>fresh.
         andthen (save_credential env (pa_user_id a0) (pa_provider a0) (pa_provider_user_id a0)
             (pa_display_name a0) fresh (pa_ephemeral_expires_at a0)) (\<lambda>a'.
         ret (fresh\<lparr>crd_account_id := pa_id a', crd_provider := pa_provider a'\<rparr>, a')))) s1 = (Inr (cred, a), t)"
    by (auto simp: load_fresh_credential_def ok_simps)
  note a0 = load_credential_Inr [OF l]
  from r show ?thesis
    using a0 assms(2,3) by (auto simp: ok_simps dest!: save_credential_Inr split: if_splits)
qed

lemma load_fresh_credential_scoped_witness:
  "\<exists>cred a t. load_fresh_credential sample_env ''acc-1'' fake_adapter (Some ''fake'') (Some ''owner'')
       (engine_on account_db) = (Inr (cred, a), t) \<and> pa_user_id a = ''owner'' \<and> crd_provider cred = ''fake''"
proof -
  have "fst (load_fresh_credential sample_env ''acc-1'' fake_adapter (Some ''fake'') (Some ''owner'')
      (engine_on account_db)) = Inr (runtime_credential sample_account sample_credential, sample_account)"
    by (simp add: load_fresh_credential_def load_credential_def run_simps engine_on_def account_db_def
        empty_db_def sample_account_def sample_credential_def rows_def newest_credential_def
        order_desc_def select_rows_def runtime_credential_def fake_cred_def expires_soon_def Let_def)
  then obtain t where t: "load_fresh_credential sample_env ''acc-1'' fake_adapter (Some ''fake'')
      (Some ''owner'') (engine_on account_db) =
      (Inr (runtime_credential sample_account sample_credential, sample_account), t)"
    by (metis prod.collapse)
  from load_fresh_credential_scoped [OF this] show ?thesis using t by blast
qed

text \<open>
  When the provider reports that the refresh token has expired, the account and its
  credentials are gone from the committed database before the error is passed on, and every other
  account and credential is untouched.
\<close>

lemma expired_refresh_token_drops_account:
  assumes "ad_refresh ad cred (st_world s) = (Inl (RefreshTokenExpired m), w)"
    and "constraints_ok (drop_account (pa_id a) (st_work s))"
  shows "refresh_credential ad cred a s =
    (Inl (RefreshTokenExpired m),
     s\<lparr>st_world := w, st_work := drop_account (pa_id a) (st_work s),
       st_db := drop_account (pa_id a) (st_work s)\<rparr>) \<and>
    newest_credential (pa_id a) (drop_account (pa_id a) (st_work s)) = None \<and>
    rows (db_accounts (drop_account (pa_id a) (st_work s))) =
      filter (\<lambda>b. pa_id b \<noteq> pa_id a) (rows (db_accounts (st_work s)))"
proof -
  have "rows (delete_rows p t) = filter (\<lambda>r. \<not> p r) (rows t)" for p and t :: "'r table"
    using select_rows_delete [of "\<lambda>_. True" p t] by (simp add: select_rows_def)
  then show ?thesis
    using assms by (simp add: refresh_credential_def run_simps newest_credential_def order_desc_def
        select_rows_delete drop_account_def)
qed

lemma expired_refresh_token_drops_account_witness:
  "rows (db_accounts (drop_account ''acc-1'' account_db)) =
     filter (\<lambda>b. pa_id b \<noteq> ''acc-1'') (rows (db_accounts account_db))"
proof -
  let ?ad = "fake_adapter\<lparr>ad_refresh := \<lambda>cred. throw (RefreshTokenExpired ''gone'')\<rparr>"
  have "ad_refresh ?ad (fake_cred ''fake'') (st_world (engine_on account_db)) =
      (Inl (RefreshTokenExpired ''gone''), fake_start)"
    by (simp add: run_simps engine_on_def)
  moreover have "constraints_ok (drop_account (pa_id sample_account) (st_work (engine_on account_db)))"
    by (simp add: engine_on_def drop_account_def account_db_def empty_db_def constraint_defs
        delete_rows_def sample_account_def)
  ultimately show ?thesis
    using expired_refresh_token_drops_account [of ?ad "fake_cred ''fake''" "engine_on account_db"
        "''gone''" fake_start sample_account]
    by (simp add: engine_on_def sample_account_def)
qed

end
