(* ===== verification/Local_Imports.thy ===== *)
theory Local_Imports
  imports Accounts
begin

text \<open>
  Imported playlists (\<open>app/imports/service.py\<close>): rows that wait for a migration under a lease.
  A row is ready, then queued for one job, then deleted or failed; an expired row is removed.
  Parsing files and resolving links produce the row's playlists and are not part of this theory.
\<close>

section \<open>Rows\<close>

definition filename_parts :: "string \<Rightarrow> string list" where
  "filename_parts s =
     split_on (CHR ''/'') (map (\<lambda>c. if ord c = (92::nat) then CHR ''/'' else c) s)"

definition sanitize_filename :: "string \<Rightarrow> string" where
  "sanitize_filename s =
     (let v = take 255 (last (filename_parts (strip (filter (\<lambda>c. ord c \<noteq> (0::nat)) s))))
      in if v = [] then ''playlist'' else v)"

record parse_result =
  pr_detected_format :: string
  pr_encoding :: "string option"
  pr_file_size :: int
  pr_playlists :: "playlist list"
  pr_issues :: "json list"
  pr_playlist_count :: int
  pr_track_count :: int
  pr_duplicate_count :: int
  pr_malformed_count :: int
  pr_unsupported_count :: int

definition create_import ::
  "'w env \<Rightarrow> string \<Rightarrow> string \<Rightarrow> parse_result \<Rightarrow> ('w, local_import) handler"
where
  "create_import env user filename r =
     andthen utcnow (\<lambda>now. andthen (uuid4 env) (\<lambda>i.
     let row = \<lparr>li_id = i, li_user_id = user, li_filename = sanitize_filename filename,
        li_detected_format = pr_detected_format r, li_encoding = pr_encoding r,
        li_file_size = pr_file_size r, li_status = ''ready'', li_queued_job_id = None,
        li_playlists = pr_playlists r, li_issues = pr_issues r,
        li_playlist_count = pr_playlist_count r, li_track_count = pr_track_count r,
        li_duplicate_count = pr_duplicate_count r, li_malformed_count = pr_malformed_count r,
        li_unsupported_count = pr_unsupported_count r,
        li_expires_at = now + set_local_import_retention_s (env_settings env),
        li_source_kind = ''local_file'', li_source_provider = None, li_source_label = None,
        li_source_locator = None, li_source_fingerprint = None, li_created_at = now\<rparr>
     in andthen (edit (\<lambda>d. d\<lparr>db_imports := dict_set i row (db_imports d)\<rparr>)) (\<lambda>_.
        andthen flush (\<lambda>_. ret row))))"

text \<open>The row of a user; rows are stored under their identifier.\<close>

definition owned :: "string \<Rightarrow> string \<Rightarrow> db \<Rightarrow> local_import option" where
  "owned i user d =
     (case dict_get (db_imports d) i of
        Some r \<Rightarrow> if li_user_id r = user then Some r else None
      | None \<Rightarrow> None)"

definition drop_import :: "string \<Rightarrow> db \<Rightarrow> db" where
  "drop_import i d = d\<lparr>db_imports := delete_rows (\<lambda>r. li_id r = i) (db_imports d)\<rparr>"

definition owned_import :: "string \<Rightarrow> string \<Rightarrow> ('w, local_import) handler" where
  "owned_import i user =
     andthen (query (owned i user)) (\<lambda>found.
       case found of None \<Rightarrow> throw (LocalImportNotFound i) | Some r \<Rightarrow> ret r)"

definition update_import :: "string \<Rightarrow> (local_import \<Rightarrow> local_import) \<Rightarrow> ('w, unit) handler" where
  "update_import i f = edit (\<lambda>d. d\<lparr>db_imports := update_row i f (db_imports d)\<rparr>)"

section \<open>Operations\<close>

definition load_preview_import :: "string \<Rightarrow> string \<Rightarrow> ('w, local_import) handler" where
  "load_preview_import i user =
     andthen (owned_import i user) (\<lambda>r. andthen utcnow (\<lambda>now.
     if li_status r \<noteq> ''ready''
     then throw (LocalImportStateError ''This import has already been queued for migration.'' ''import_queued'')
     else if li_expires_at r \<le> now
     then andthen (edit (drop_import i)) (\<lambda>_. andthen flush (\<lambda>_. throw (LocalImportExpired i)))
     else ret r))"

definition discard_import :: "string \<Rightarrow> string \<Rightarrow> ('w, unit) handler" where
  "discard_import i user =
     andthen (query (owned i user)) (\<lambda>found.
     case found of
       None \<Rightarrow> throw (LocalImportNotFound i)
     | Some r \<Rightarrow>
         if li_status r = ''ready'' then andthen (edit (drop_import i)) (\<lambda>_. flush)
         else throw (LocalImportStateError
           ''A queued import cannot be discarded while its migration is active.'' ''import_queued''))"

definition queue_import ::
  "'w env \<Rightarrow> string \<Rightarrow> string \<Rightarrow> string \<Rightarrow> ('w, local_import) handler"
where
  "queue_import env i user job =
     andthen utcnow (\<lambda>now. andthen (query (owned i user)) (\<lambda>found.
     case found of
       None \<Rightarrow> throw (LocalImportNotFound i)
     | Some r \<Rightarrow>
         if li_status r = ''ready'' \<and> now < li_expires_at r
         then andthen (update_import i (\<lambda>r. r\<lparr>li_status := ''queued'', li_queued_job_id := Some job,
                li_expires_at := now + set_local_import_queued_retention_s (env_settings env)\<rparr>)) (\<lambda>_.
              owned_import i user)
         else if li_expires_at r \<le> now \<and> li_status r = ''ready''
         then andthen (edit (drop_import i)) (\<lambda>_. andthen flush (\<lambda>_. throw (LocalImportExpired i)))
         else throw (LocalImportStateError
           ''This import is already queued for another migration.'' ''import_queued'')))"

definition load_import_for_job ::
  "'w env \<Rightarrow> string \<Rightarrow> string \<Rightarrow> string \<Rightarrow> ('w, local_import) handler"
where
  "load_import_for_job env i user job =
     andthen utcnow (\<lambda>now. andthen (query (owned i user)) (\<lambda>found.
     case found of
       None \<Rightarrow> throw (LocalImportNotFound i)
     | Some r \<Rightarrow>
         if li_queued_job_id r = Some job \<and> li_status r \<in> {''queued'', ''failed''} \<and> now < li_expires_at r
         then andthen (update_import i (\<lambda>r. r\<lparr>li_status := ''queued'',
                li_expires_at := now + set_local_import_queued_retention_s (env_settings env)\<rparr>)) (\<lambda>_.
              owned_import i user)
         else if li_expires_at r \<le> now then throw (LocalImportExpired i)
         else throw (LocalImportStateError
           ''This local import is not assigned to the requested migration.'' ''import_job_mismatch'')))"

definition import_of_job :: "string \<Rightarrow> string \<Rightarrow> db \<Rightarrow> local_import option" where
  "import_of_job i job d =
     (case dict_get (db_imports d) i of
        Some r \<Rightarrow> if li_queued_job_id r = Some job then Some r else None
      | None \<Rightarrow> None)"

definition mark_import_failed :: "'w env \<Rightarrow> string \<Rightarrow> string \<Rightarrow> ('w, unit) handler" where
  "mark_import_failed env i job =
     andthen (query (import_of_job i job)) (\<lambda>found.
     case found of
       None \<Rightarrow> ret ()
     | Some r \<Rightarrow> andthen utcnow (\<lambda>now.
         andthen (update_import i (\<lambda>r. r\<lparr>li_status := ''failed'',
           li_expires_at := now + set_local_import_failed_retention_s (env_settings env)\<rparr>)) (\<lambda>_. flush)))"

definition delete_import_for_job :: "string \<Rightarrow> string \<Rightarrow> ('w, unit) handler" where
  "delete_import_for_job i job =
     andthen (query (import_of_job i job)) (\<lambda>found.
     case found of
       None \<Rightarrow> ret ()
     | Some r \<Rightarrow> andthen (edit (drop_import i)) (\<lambda>_. flush))"

text \<open>One expired row: it goes, and a job that still counted on it fails.\<close>

definition expire_import :: "local_import \<Rightarrow> db \<Rightarrow> db" where
  "expire_import r d =
     (if li_status r \<in> {''ready'', ''failed''} then drop_import (li_id r) d
      else if li_status r \<noteq> ''queued'' then d
      else drop_import (li_id r)
        (case li_queued_job_id r of
           None \<Rightarrow> d
         | Some job \<Rightarrow>
             if job = [] then d
             else d\<lparr>db_jobs := update_row job (\<lambda>j.
               if mj_status j \<in> {''pending'', ''running''}
               then j\<lparr>mj_status := ''failed'', mj_error := Some
                 (''Local import lease expired before the migration completed. '' @
                  ''Upload the file and start a new migration.'')\<rparr>
               else j) (db_jobs d)\<rparr>))"

definition expired_imports :: "int \<Rightarrow> db \<Rightarrow> local_import list" where
  "expired_imports now d = select_rows (\<lambda>r. li_expires_at r \<le> now) (db_imports d)"

definition cleanup_expired_imports :: "('w, nat) handler" where
  "cleanup_expired_imports =
     andthen utcnow (\<lambda>now. andthen (query (expired_imports now)) (\<lambda>expired.
     andthen (edit (fold expire_import expired)) (\<lambda>_. andthen flush (\<lambda>_.
     ret (length (filter (\<lambda>r. li_status r \<in> {''ready'', ''failed'', ''queued''}) expired))))))"

definition cleanup_local_imports :: "('w, nat) handler" where
  "cleanup_local_imports =
     andthen open_session (\<lambda>_. andthen cleanup_expired_imports (\<lambda>n. andthen commit (\<lambda>_. ret n)))"

text \<open>The playlists of a row by their identifier; of two with the same one the last.\<close>

definition available_playlists :: "local_import \<Rightarrow> (string, playlist) dict" where
  "available_playlists r =
     fold (\<lambda>p m. if truthy (pl_id p) then dict_set (the (pl_id p)) p m else m) (li_playlists r) []"

fun select_imports ::
  "local_import \<Rightarrow> (string, string list) dict \<Rightarrow> (string, playlist) dict \<Rightarrow> string list \<Rightarrow>
     exn + (string, playlist) dict"
where
  "select_imports r filters acc [] = Inr acc"
| "select_imports r filters acc (p # ps) =
     (case dict_get (available_playlists r) p of
        None \<Rightarrow> Inl (LocalImportStateError
          (''Playlist '' @ [char_of (39::nat)] @ p @ [char_of (39::nat)] @
           '' is not part of this local import.'') ''unknown_playlist'')
      | Some pl \<Rightarrow>
          let wanted = set (case dict_get filters p of None \<Rightarrow> [] | Some ts \<Rightarrow> ts)
          in select_imports r filters
               (dict_set p (pl\<lparr>pl_tracks := filter (\<lambda>t. track_selected t wanted) (pl_tracks pl)\<rparr>) acc) ps)"

definition selected_import_playlists ::
  "local_import \<Rightarrow> string list \<Rightarrow> (string, string list) dict \<Rightarrow> exn + (string, playlist) dict"
where
  "selected_import_playlists r ids filters = select_imports r filters [] ids"

section \<open>One claim per import\<close>

text \<open>
  C24. An import is claimed by at most one migration: once it is queued for a job, every further
  attempt of its owner to queue it, to preview it or to discard it is refused and leaves everything
  as it is, no other job can load it, and the job it is queued for can.
\<close>

theorem queued_import_exclusive:
  assumes "queue_import env i user job s = (Inr r, t)"
    and "0 < set_local_import_queued_retention_s (env_settings env)"
  shows "li_status r = ''queued'' \<and> li_queued_job_id r = Some job \<and>
    fst (queue_import env i user other t) =
      Inl (LocalImportStateError ''This import is already queued for another migration.'' ''import_queued'') \<and>
    snd (queue_import env i user other t) = t \<and>
    load_preview_import i user t =
      (Inl (LocalImportStateError ''This import has already been queued for migration.'' ''import_queued''), t) \<and>
    discard_import i user t =
      (Inl (LocalImportStateError ''A queued import cannot be discarded while its migration is active.'' ''import_queued''), t) \<and>
    (if other = job then \<exists>r'. fst (load_import_for_job env i user other t) = Inr r'
     else fst (load_import_for_job env i user other t) =
       Inl (LocalImportStateError
         ''This local import is not assigned to the requested migration.'' ''import_job_mismatch''))"
proof -
  from assms(1) obtain r0 where r0: "dict_get (db_imports (st_work s)) i = Some r0" "li_user_id r0 = user"
    and t: "t = s\<lparr>st_work := (st_work s)\<lparr>db_imports := update_row i (\<lambda>r. r\<lparr>li_status := ''queued'',
        li_queued_job_id := Some job,
        li_expires_at := st_clock s + set_local_import_queued_retention_s (env_settings env)\<rparr>)
        (db_imports (st_work s))\<rparr>\<rparr>"
    and r: "r = r0\<lparr>li_status := ''queued'', li_queued_job_id := Some job,
        li_expires_at := st_clock s + set_local_import_queued_retention_s (env_settings env)\<rparr>"
    by (auto simp: queue_import_def ok_simps owned_def update_import_def owned_import_def
        split: option.splits if_splits)
  have o: "dict_get (db_imports (st_work t)) i = Some r" "li_user_id r = user" "st_clock t = st_clock s"
    by (simp_all add: t r r0)
  show ?thesis
    using o assms(2) by (simp add: r queue_import_def load_import_for_job_def load_preview_import_def discard_import_def
        run_simps owned_def update_import_def owned_import_def)
qed

definition sample_import :: local_import where
  "sample_import =
     \<lparr>li_id = ''i1'', li_user_id = ''owner'', li_filename = ''mix.csv'', li_detected_format = ''csv'',
      li_encoding = None, li_file_size = 10, li_status = ''ready'', li_queued_job_id = None,
      li_playlists = [], li_issues = [], li_playlist_count = 0, li_track_count = 0,
      li_duplicate_count = 0, li_malformed_count = 0, li_unsupported_count = 0,
      li_expires_at = 2000, li_source_kind = ''local_file'', li_source_provider = None,
      li_source_label = None, li_source_locator = None, li_source_fingerprint = None,
      li_created_at = 0\<rparr>"

definition import_db :: db where
  "import_db = account_db\<lparr>db_imports := [(''i1'', sample_import)]\<rparr>"

lemma import_engine_simps [simp]:
  "st_work (engine_on d) = d" "st_db (engine_on d) = d" "st_clock (engine_on d) = 1000"
  by (simp_all add: engine_on_def)

theorem queued_import_exclusive_witness:
  "\<exists>r t. queue_import sample_env ''i1'' ''owner'' ''j1'' (engine_on import_db) = (Inr r, t) \<and>
     fst (load_import_for_job sample_env ''i1'' ''owner'' ''j2'' t) = Inl (LocalImportStateError
       ''This local import is not assigned to the requested migration.'' ''import_job_mismatch'') \<and>
     snd (discard_import ''i1'' ''owner'' t) = t"
proof -
  have "\<exists>r t. queue_import sample_env ''i1'' ''owner'' ''j1'' (engine_on import_db) = (Inr r, t)"
    by (simp add: queue_import_def run_simps owned_def owned_import_def update_import_def import_db_def
        sample_import_def)
  then obtain r t where q: "queue_import sample_env ''i1'' ''owner'' ''j1'' (engine_on import_db) = (Inr r, t)"
    by blast
  from queued_import_exclusive [OF q, of "''j2''"] q show ?thesis
    by (auto simp: sample_env_def sample_settings_def)
qed

section \<open>The life of an import\<close>

definition import_wf :: "local_import \<Rightarrow> bool" where
  "import_wf r \<longleftrightarrow>
     (if li_status r = ''ready'' then li_queued_job_id r = None
      else li_status r \<in> {''queued'', ''failed''} \<and> li_queued_job_id r \<noteq> None)"

lemma import_wf_status: "import_wf r \<Longrightarrow> li_status r \<in> {''ready'', ''failed'', ''queued''}"
  by (auto simp: import_wf_def split: if_splits)

definition all_imports :: "db \<Rightarrow> bool" where
  "all_imports d \<longleftrightarrow> table_ok li_id import_wf (db_imports d)"

definition imports_ok :: "'w engine \<Rightarrow> bool" where
  "imports_ok s \<longleftrightarrow> all_imports (st_db s) \<and> all_imports (st_work s)"

lemma all_imports_drop: "all_imports d \<Longrightarrow> all_imports (drop_import i d)"
  by (simp add: all_imports_def drop_import_def table_ok_delete)

lemma all_imports_jobs [simp]: "all_imports (d\<lparr>db_jobs := js\<rparr>) = all_imports d"
  by (simp add: all_imports_def)

lemma all_imports_update:
  "all_imports d \<Longrightarrow>
     (\<And>r. dict_get (db_imports d) i = Some r \<Longrightarrow> li_id (f r) = li_id r \<and> import_wf (f r)) \<Longrightarrow>
     all_imports (d\<lparr>db_imports := update_row i f (db_imports d)\<rparr>)"
  unfolding all_imports_def by simp (rule table_ok_update)

lemma all_imports_new:
  "all_imports d \<Longrightarrow> dict_get (db_imports d) i = None \<Longrightarrow> li_id r = i \<Longrightarrow> import_wf r \<Longrightarrow>
     all_imports (d\<lparr>db_imports := dict_set i r (db_imports d)\<rparr>)"
  unfolding all_imports_def using table_ok_new [of li_id import_wf "db_imports d" r] by simp

lemma all_imports_expire: "all_imports d \<Longrightarrow> all_imports (expire_import r d)"
  by (auto simp: expire_import_def intro!: all_imports_drop split: option.split)

lemma all_imports_expired: "all_imports d \<Longrightarrow> all_imports (fold expire_import rs d)"
  by (induction rs arbitrary: d) (simp_all add: all_imports_expire)

text \<open>The identifier that the next import gets is not in use.\<close>

definition fresh_import :: "'w env \<Rightarrow> 'w engine \<Rightarrow> bool" where
  "fresh_import env s \<longleftrightarrow> dict_get (db_imports (st_work s)) (env_uuid env (st_drawn s)) = None"

lemmas import_ops = create_import_def load_preview_import_def discard_import_def queue_import_def
  load_import_for_job_def mark_import_failed_def delete_import_for_job_def cleanup_expired_imports_def
  owned_import_def update_import_def owned_def import_of_job_def

lemma imports_ok_ops:
  assumes "imports_ok s"
  shows "fresh_import env s \<Longrightarrow> imports_ok (snd (create_import env user file p s))"
    and "imports_ok (snd (load_preview_import i user s))" and "imports_ok (snd (discard_import i user s))"
    and "imports_ok (snd (queue_import env i user job s))"
    and "imports_ok (snd (load_import_for_job env i user job s))"
    and "imports_ok (snd (mark_import_failed env i job s))"
    and "imports_ok (snd (delete_import_for_job i job s))"
    and "imports_ok (snd (cleanup_expired_imports s))"
    and "imports_ok (snd (open_session s))" and "imports_ok (snd (commit s))"
proof -
  from assms have d: "all_imports (st_db s)" and w: "all_imports (st_work s)"
    by (simp_all add: imports_ok_def)
  note u = all_imports_update [OF w]
  show "fresh_import env s \<Longrightarrow> imports_ok (snd (create_import env user file p s))"
    using d by (simp add: create_import_def run_simps imports_ok_def Let_def fresh_import_def
        import_wf_def all_imports_new [OF w])
  show "imports_ok (snd (load_preview_import i user s))" "imports_ok (snd (discard_import i user s))"
    using d w all_imports_drop [OF w] by (simp_all add: import_ops run_simps imports_ok_def split: option.split)
  show "imports_ok (snd (queue_import env i user job s))"
    using d w all_imports_drop [OF w]
    by (auto simp: import_ops run_simps imports_ok_def import_wf_def intro!: u split: option.split)
  show "imports_ok (snd (load_import_for_job env i user job s))"
    using d w by (auto simp: import_ops run_simps imports_ok_def import_wf_def intro!: u split: option.split)
  show "imports_ok (snd (mark_import_failed env i job s))"
    using d w by (auto simp: import_ops run_simps imports_ok_def import_wf_def intro!: u split: option.split)
  show "imports_ok (snd (delete_import_for_job i job s))"
    using d w all_imports_drop [OF w] by (simp add: import_ops run_simps imports_ok_def split: option.split)
  show "imports_ok (snd (cleanup_expired_imports s))"
    using d all_imports_expired [OF w] by (simp add: import_ops run_simps imports_ok_def)
  show "imports_ok (snd (open_session s))" "imports_ok (snd (commit s))"
    using d w by (simp_all add: run_simps imports_ok_def)
qed

inductive import_step :: "'w env \<Rightarrow> 'w engine \<Rightarrow> 'w engine \<Rightarrow> bool" for env where
  "fresh_import env s \<Longrightarrow> import_step env s (snd (create_import env user file p s))"
| "import_step env s (snd (load_preview_import i user s))"
| "import_step env s (snd (discard_import i user s))"
| "import_step env s (snd (queue_import env i user job s))"
| "import_step env s (snd (load_import_for_job env i user job s))"
| "import_step env s (snd (mark_import_failed env i job s))"
| "import_step env s (snd (delete_import_for_job i job s))"
| "import_step env s (snd (cleanup_expired_imports s))"
| "import_step env s (snd (open_session s))"
| "import_step env s (snd (commit s))"
| "db_imports (st_db t) = db_imports (st_db s) \<Longrightarrow> db_imports (st_work t) = db_imports (st_work s) \<Longrightarrow>
    import_step env s t"

definition no_imports :: "'w engine \<Rightarrow> bool" where
  "no_imports s \<longleftrightarrow> db_imports (st_db s) = [] \<and> db_imports (st_work s) = []"

lemma import_step_ok: "import_step env s t \<Longrightarrow> imports_ok s \<Longrightarrow> imports_ok t"
  by (induction rule: import_step.induct)
    (simp_all only: imports_ok_ops, simp only: imports_ok_def all_imports_def)

interpretation lease: invariant_system no_imports "import_step env" imports_ok for env
proof
  show "imports_ok s" if "no_imports s" for s :: "'a engine"
    using that by (simp add: no_imports_def imports_ok_def all_imports_def)
qed (rule import_step_ok)

text \<open>
  C33. However imports are created, previewed, queued, claimed, failed, discarded and cleaned up: an
  import is ready and belongs to no job, or it is queued or failed and belongs to exactly one.
\<close>

theorem import_life:
  assumes "reach no_imports (import_step env) s" and "dict_get (db_imports (st_db s)) i = Some r"
  shows "(li_status r = ''ready'' \<and> li_queued_job_id r = None) \<or>
    (li_status r \<in> {''queued'', ''failed''} \<and> li_queued_job_id r \<noteq> None)"
proof -
  have "import_wf r"
    using lease.reach_inv [OF assms(1)] assms(2) unfolding imports_ok_def all_imports_def
    by (blast dest: table_ok_get)
  then show ?thesis by (simp add: import_wf_def split: if_splits)
qed

definition sample_result :: parse_result where
  "sample_result = \<lparr>pr_detected_format = ''csv'', pr_encoding = None, pr_file_size = 10,
     pr_playlists = [], pr_issues = [], pr_playlist_count = 0, pr_track_count = 0,
     pr_duplicate_count = 0, pr_malformed_count = 0, pr_unsupported_count = 0\<rparr>"

theorem import_life_witness:
  "let s = snd (commit (snd (create_import sample_env ''owner'' ''mix.csv'' sample_result (engine_on account_db))))
   in \<exists>r. dict_get (db_imports (st_db s)) (str_nat 0) = Some r \<and>
     ((li_status r = ''ready'' \<and> li_queued_job_id r = None) \<or>
      (li_status r \<in> {''queued'', ''failed''} \<and> li_queued_job_id r \<noteq> None))"
proof -
  let ?c = "snd (create_import sample_env ''owner'' ''mix.csv'' sample_result (engine_on account_db))"
  have e: "db_imports account_db = []" by (simp add: account_db_def empty_db_def)
  have k: "constraints_ok (account_db\<lparr>db_imports := x\<rparr>)" for x
    using constraints_ok_account by (simp add: constraints_ok_def)
  have "reach no_imports (import_step sample_env) (engine_on account_db)"
    by (rule reach_start) (simp add: no_imports_def e)
  then have "reach no_imports (import_step sample_env) ?c"
    by (rule reach_step) (rule import_step.intros, simp add: fresh_import_def e)
  then have r: "reach no_imports (import_step sample_env) (snd (commit ?c))"
    by (rule reach_step) (rule import_step.intros)
  have "\<exists>r. dict_get (db_imports (st_db (snd (commit ?c)))) (str_nat 0) = Some r"
    by (simp add: create_import_def run_simps Let_def engine_on_def k sample_env_def)
  then obtain x where x: "dict_get (db_imports (st_db (snd (commit ?c)))) (str_nat 0) = Some x" by blast
  from import_life [OF r x] x show ?thesis unfolding Let_def by blast
qed

lemma drop_import_rows:
  "rows (db_imports (drop_import i d)) = filter (\<lambda>r. li_id r \<noteq> i) (rows (db_imports d))"
  by (simp add: drop_import_def delete_rows_def rows_def filter_map comp_def case_prod_unfold)

lemma expire_import_rows:
  "import_wf r \<Longrightarrow> rows (db_imports (expire_import r d)) = filter (\<lambda>x. li_id x \<noteq> li_id r) (rows (db_imports d))"
  by (auto simp: expire_import_def import_wf_def drop_import_rows split: option.split if_splits)

lemma expire_imports_rows:
  "list_all import_wf rs \<Longrightarrow> rows (db_imports (fold expire_import rs d)) =
     filter (\<lambda>x. li_id x \<notin> li_id ` set rs) (rows (db_imports d))"
  by (induction rs arbitrary: d) (auto simp: expire_import_rows intro: filter_cong)

text \<open>A migration that was to run or ran, failed because the lease of its import ran out.\<close>

definition lease_expired_error :: string where
  "lease_expired_error = ''Local import lease expired before the migration completed. Upload the file and start a new migration.''"

definition lease_failed :: "migration_job \<Rightarrow> migration_job" where
  "lease_failed j = j\<lparr>mj_status := ''failed'', mj_error := Some lease_expired_error\<rparr>"

definition unfinished :: "migration_job \<Rightarrow> bool" where
  "unfinished j \<longleftrightarrow> mj_status j \<in> {''pending'', ''running''}"

definition leased_to :: "string \<Rightarrow> local_import \<Rightarrow> bool" where
  "leased_to job r \<longleftrightarrow> li_status r = ''queued'' \<and> li_queued_job_id r = Some job \<and> job \<noteq> []"

lemma failed_is_finished [simp]: "\<not> unfinished (lease_failed j)"
  by (simp add: unfinished_def lease_failed_def)

lemma expire_import_jobs:
  "dict_get (db_jobs (expire_import r d)) job =
     map_option (\<lambda>j. if unfinished j \<and> leased_to job r then lease_failed j else j) (dict_get (db_jobs d) job)"
  by (cases "li_queued_job_id r"; cases "dict_get (db_jobs d) job")
    (auto simp: expire_import_def drop_import_def leased_to_def unfinished_def lease_failed_def lease_expired_error_def)

lemma expire_imports_jobs:
  "dict_get (db_jobs (fold expire_import rs d)) job =
     map_option (\<lambda>j. if unfinished j \<and> (\<exists>r \<in> set rs. leased_to job r) then lease_failed j else j) (dict_get (db_jobs d) job)"
proof (induction rs arbitrary: d)
  case (Cons r rs)
  then show ?case
    by (cases "dict_get (db_jobs d) job"; cases "leased_to job r") (auto simp: expire_import_jobs)
qed (simp add: option.map_ident)

text \<open>
  C38. Cleaning up removes exactly the imports whose lease has run out and reports their number; a
  migration that was pending or running on one of them, queued for it, is failed with the reason, and
  every other job is as it was.
\<close>

theorem cleanup_removes_expired:
  assumes "cleanup_expired_imports s = (Inr n, t)" and "all_imports (st_work s)"
  shows "rows (db_imports (st_work t)) =
      filter (\<lambda>r. st_clock s < li_expires_at r) (rows (db_imports (st_work s))) \<and>
    n = length (filter (\<lambda>r. li_expires_at r \<le> st_clock s) (rows (db_imports (st_work s)))) \<and>
    dict_get (db_jobs (st_work t)) job = map_option (\<lambda>j.
      if mj_status j \<in> {''pending'', ''running''} \<and>
        (\<exists>r \<in> set (rows (db_imports (st_work s))). li_expires_at r \<le> st_clock s \<and> leased_to job r)
      then j\<lparr>mj_status := ''failed'', mj_error := Some lease_expired_error\<rparr> else j) (dict_get (db_jobs (st_work s)) job)"
proof -
  let ?rs = "expired_imports (st_clock s) (st_work s)"
  from assms(1) have t: "st_work t = fold expire_import ?rs (st_work s)"
    and n: "n = length (filter (\<lambda>r. li_status r \<in> {''ready'', ''failed'', ''queued''}) ?rs)"
    by (auto simp: cleanup_expired_imports_def ok_simps)
  from assms(2) have ok: "table_ok li_id import_wf (db_imports (st_work s))" by (simp add: all_imports_def)
  have "import_wf r" if "r \<in> set ?rs" for r
    using table_ok_row [OF ok] that by (simp add: expired_imports_def select_rows_def)
  then have wf: "list_all import_wf ?rs" unfolding list_all_iff by blast
  note inj = table_ok_inj [OF ok]
  have "filter (\<lambda>x. li_id x \<notin> li_id ` set ?rs) (rows (db_imports (st_work s))) =
      filter (\<lambda>r. st_clock s < li_expires_at r) (rows (db_imports (st_work s)))"
    by (rule filter_cong [OF refl])
      (simp add: expired_imports_def select_rows_def inj_on_image_mem_iff [OF inj] not_le)
  moreover have "filter (\<lambda>r. li_status r \<in> {''ready'', ''failed'', ''queued''}) ?rs = ?rs"
    by (rule filter_eq_self) (use wf import_wf_status in \<open>simp only: list_all_iff\<close>)
  moreover have "\<And>p. (\<exists>r \<in> set ?rs. p r) \<longleftrightarrow> (\<exists>r \<in> set (rows (db_imports (st_work s))). li_expires_at r \<le> st_clock s \<and> p r)"
    by (auto simp: expired_imports_def select_rows_def)
  note jobs = expire_imports_jobs [of ?rs "st_work s" job, unfolded this unfinished_def lease_failed_def, folded t]
  show ?thesis
  proof (intro conjI)
    show "n = length (filter (\<lambda>r. li_expires_at r \<le> st_clock s) (rows (db_imports (st_work s))))"
      using calculation(2) by (simp add: n expired_imports_def select_rows_def)
  qed (use calculation(1) jobs in \<open>simp_all only: t expire_imports_rows [OF wf]\<close>)
qed

definition expired_db :: db where
  "expired_db = account_db\<lparr>db_imports := [(''i1'', sample_import\<lparr>li_expires_at := 900, li_status := ''queued'',
       li_queued_job_id := Some ''j1''\<rparr>)], db_jobs := [(''j1'', sample_job ''j1'')]\<rparr>"

theorem cleanup_removes_expired_witness:
  "\<exists>t j. cleanup_expired_imports (engine_on expired_db) = (Inr 1, t) \<and> rows (db_imports (st_work t)) = [] \<and>
     mj_status (sample_job ''j1'') \<in> {''pending'', ''running''} \<and>
     dict_get (db_jobs (st_work t)) ''j1'' = Some j \<and> mj_status j = ''failed''"
proof -
  have status: "mj_status (sample_job ''j1'') \<in> {''pending'', ''running''}" by (simp add: sample_job_def)
  have "constraints_ok (fold expire_import (expired_imports 1000 expired_db) expired_db)"
    by (simp add: expired_db_def expired_imports_def select_rows_def rows_def expire_import_def sample_import_def
        drop_import_def account_db_def empty_db_def constraint_defs sample_account_def sample_job_def update_row_def)
  then obtain t where c: "cleanup_expired_imports (engine_on expired_db) = (Inr 1, t)"
    by (simp add: cleanup_expired_imports_def run_simps)
      (simp add: expired_db_def expired_imports_def select_rows_def rows_def sample_import_def)
  have "all_imports (st_work (engine_on expired_db))"
    by (simp add: expired_db_def all_imports_def table_ok_def is_dict_def import_wf_def sample_import_def)
  note cleanup_removes_expired [OF c this, of "''j1''"]
  moreover have "rows (db_imports expired_db) = [sample_import\<lparr>li_expires_at := 900, li_status := ''queued'', li_queued_job_id := Some ''j1''\<rparr>]"
    and "dict_get (db_jobs expired_db) ''j1'' = Some (sample_job ''j1'')"
    by (simp_all add: expired_db_def rows_def)
  ultimately show ?thesis using c status by (auto simp: leased_to_def)
qed

end
