(* ===== verification/Migration_History.thy ===== *)
theory Migration_History
  imports Accounts
begin

text \<open>
  Migration history (\<open>app/db/migration_history.py\<close>): the life of a job's row, the summary that
  outlives its items, and the filters of the item list.
\<close>

section \<open>The life of a job\<close>

definition terminal_job_statuses :: "string set" where
  "terminal_job_statuses = {''done'', ''failed''}"

definition problem_count :: "status_count \<Rightarrow> int" where
  "problem_count c = stc_needs_review c + stc_skipped c + stc_failed c"

definition migration_outcome :: "string \<Rightarrow> status_count \<Rightarrow> string" where
  "migration_outcome status c =
     (if status \<in> {''pending'', ''running''} then status
      else if status = ''failed'' then ''failed''
      else if status = ''done'' then (if problem_count c \<noteq> 0 then ''partial'' else ''completed'')
      else status)"

definition mark_job_started :: "int \<Rightarrow> migration_job \<Rightarrow> migration_job" where
  "mark_job_started now j =
     j\<lparr>mj_status := ''running'', mj_error := None, mj_started_at := if_none (mj_started_at j) (Some now)\<rparr>"

definition mark_job_terminal ::
  "int \<Rightarrow> string \<Rightarrow> int \<Rightarrow> migration_job \<Rightarrow> exn + migration_job"
where
  "mark_job_terminal now status retention_days j =
     (if status \<notin> terminal_job_statuses
      then Inl (ValueError (''unsupported terminal migration status: '' @ status))
      else Inr (j\<lparr>mj_status := status, mj_completed_at := Some now,
        mj_details_expires_at :=
          if 0 < retention_days then Some (now + retention_days * 86400) else None\<rparr>))"

definition effective_details_expires_at :: "int \<Rightarrow> migration_job \<Rightarrow> int option" where
  "effective_details_expires_at retention_days j =
     (case mj_details_expires_at j of
        Some t \<Rightarrow> Some t
      | None \<Rightarrow>
          if retention_days \<le> 0 \<or> mj_status j \<notin> terminal_job_statuses then None
          else Some ((case mj_completed_at j of Some t \<Rightarrow> t | None \<Rightarrow> mj_created_at j)
                 + retention_days * 86400))"

definition details_available :: "int \<Rightarrow> int \<Rightarrow> migration_job \<Rightarrow> bool" where
  "details_available now retention_days j =
     (if mj_details_purged_at j \<noteq> None then False
      else case effective_details_expires_at retention_days j of
             None \<Rightarrow> True | Some t \<Rightarrow> now < t)"

section \<open>Counting statuses\<close>

definition known_statuses :: "string list" where
  "known_statuses = [''pending'', ''matched'', ''needs_review'', ''written'', ''skipped'', ''failed'']"

definition raw_counts :: "(string \<times> int) list \<Rightarrow> (string, int) dict" where
  "raw_counts rs = fold (\<lambda>(s, n). dict_set s n) rs []"

definition count_of :: "(string, int) dict \<Rightarrow> string \<Rightarrow> int" where
  "count_of raw s = (case dict_get raw s of None \<Rightarrow> 0 | Some n \<Rightarrow> n)"

definition other_counts :: "(string, int) dict \<Rightarrow> (string, int) dict" where
  "other_counts raw = filter (\<lambda>(s, n). s \<notin> set known_statuses \<and> 0 < n) raw"

definition status_counts :: "(string \<times> int) list \<Rightarrow> int \<Rightarrow> status_count" where
  "status_counts rs hint =
     (let raw = raw_counts rs; other = other_counts raw;
          observed = sum_list (map (count_of raw) known_statuses) + sum_list (map snd other)
      in \<lparr>stc_total = max hint observed,
          stc_pending = count_of raw ''pending'' + (if observed < hint then hint - observed else 0),
          stc_matched = count_of raw ''matched'', stc_needs_review = count_of raw ''needs_review'',
          stc_written = count_of raw ''written'', stc_skipped = count_of raw ''skipped'',
          stc_failed = count_of raw ''failed'', stc_other = other\<rparr>)"

text \<open>\<open>select status, count(*) group by status\<close>.\<close>

definition status_rows :: "job_item list \<Rightarrow> (string \<times> int) list" where
  "status_rows items =
     map (\<lambda>s. (s, int (length (filter (\<lambda>i. ji_status i = s) items)))) (remdups (map ji_status items))"

section \<open>The summary of a job\<close>

text \<open>\<open>max\<close> of a nullable column: absent values do not count.\<close>

fun max_text :: "string option list \<Rightarrow> string option" where
  "max_text [] = None"
| "max_text (None # vs) = max_text vs"
| "max_text (Some s # vs) = (case max_text vs of None \<Rightarrow> Some s | Some t \<Rightarrow> Some (max s t))"

definition playlist_rows :: "job_item list \<Rightarrow> job_item list" where
  "playlist_rows items = filter (\<lambda>i. ji_entity_type i = E_TRACK \<and> ji_source_playlist_id i \<noteq> None) items"

definition summarize_playlist :: "job_item list \<Rightarrow> string \<Rightarrow> playlist_summary" where
  "summarize_playlist items p =
     (let mine = filter (\<lambda>i. ji_source_playlist_id i = Some p) items;
          statuses = sort (remdups (map ji_status mine));
          group = (\<lambda>s. filter (\<lambda>i. ji_status i = s) mine);
          named = foldl (\<lambda>(n, t) s.
            (or_else n (max_text (map ji_source_playlist_name (group s))),
             or_else t (max_text (map ji_target_playlist_id (group s))))) (None, None) statuses
      in \<lparr>psm_source_playlist_id = p, psm_source_playlist_name = fst named,
          psm_target_playlist_id = snd named,
          psm_counts = status_counts (map (\<lambda>s. (s, int (length (group s)))) statuses) 0\<rparr>)"

definition summarize_playlists :: "job_item list \<Rightarrow> playlist_summary list" where
  "summarize_playlists items =
     (let mine = playlist_rows items
      in map (summarize_playlist mine) (sort (remdups (map (\<lambda>i. the (ji_source_playlist_id i)) mine))))"

definition job_result_summary :: "migration_job \<Rightarrow> job_item list \<Rightarrow> job_summary" where
  "job_result_summary j items =
     \<lparr>jsm_counts = status_counts (status_rows items) (mj_total j),
      jsm_playlists = summarize_playlists items,
      jsm_entity_counts = map (\<lambda>e. (entity_value e,
        status_counts (status_rows (filter (\<lambda>i. ji_entity_type i = e) items)) 0))
        [E_TRACK, E_ALBUM, E_ARTIST]\<rparr>"

definition collect_job_result_summary :: "migration_job \<Rightarrow> ('w, job_summary) handler" where
  "collect_job_result_summary j = query (\<lambda>d. job_result_summary j (job_items (mj_id j) d))"

definition summary_counts :: "migration_job \<Rightarrow> status_count" where
  "summary_counts j =
     (case mj_result_summary j of
        None \<Rightarrow> status_counts [] (mj_total j) | Some s \<Rightarrow> jsm_counts s)"

definition summary_playlists :: "migration_job \<Rightarrow> playlist_summary list" where
  "summary_playlists j = (case mj_result_summary j of None \<Rightarrow> [] | Some s \<Rightarrow> jsm_playlists s)"

definition summary_entity_counts :: "migration_job \<Rightarrow> (string, status_count) dict" where
  "summary_entity_counts j =
     (case mj_result_summary j of
        None \<Rightarrow> [(''track'', summary_counts j), (''album'', status_counts [] 0),
                 (''artist'', status_counts [] 0)]
      | Some s \<Rightarrow> map (\<lambda>e. (entity_value e,
          case dict_get (jsm_entity_counts s) (entity_value e) of
            Some c \<Rightarrow> c | None \<Rightarrow> status_counts [] 0)) [E_TRACK, E_ALBUM, E_ARTIST])"

section \<open>Filtering items\<close>

record item_filters =
  fi_source_playlist_id :: "string option"
  fi_entity_types :: "entity_type list"
  fi_statuses :: "string list"
  fi_min_confidence :: "rat option"
  fi_max_confidence :: "rat option"
  fi_reason :: "string option"
  fi_title :: "string option"
  fi_artist :: "string option"
  fi_problem_only :: bool

definition backslash :: char where
  "backslash = CHR 0x5C"

definition percent :: char where
  "percent = CHR 0x25"

definition underscore :: char where
  "underscore = CHR 0x5F"

definition escape_like :: "string \<Rightarrow> string" where
  "escape_like v =
     replace_char underscore [backslash, underscore]
       (replace_char percent [backslash, percent] (replace_char backslash [backslash, backslash] v))"

text \<open>The matcher of \<open>LIKE ... ESCAPE\<close>: a list of what the pattern asks for.\<close>

datatype like_part = Any_Text | Any_Char | Exactly char

fun like_parts :: "string \<Rightarrow> like_part list" where
  "like_parts [] = []"
| "like_parts (c # s) =
     (if c = backslash then (case s of [] \<Rightarrow> [Exactly c] | d # t \<Rightarrow> Exactly d # like_parts t)
      else if c = percent then Any_Text # like_parts s
      else if c = underscore then Any_Char # like_parts s
      else Exactly c # like_parts s)"

fun like_match :: "like_part list \<Rightarrow> string \<Rightarrow> bool" where
  "like_match [] t = (t = [])"
| "like_match (Any_Text # ps) t = (like_match ps t \<or> (case t of [] \<Rightarrow> False | _ # u \<Rightarrow> like_match (Any_Text # ps) u))"
| "like_match (Any_Char # ps) t = (case t of [] \<Rightarrow> False | _ # u \<Rightarrow> like_match ps u)"
| "like_match (Exactly c # ps) t = (case t of [] \<Rightarrow> False | d # u \<Rightarrow> d = c \<and> like_match ps u)"

definition ilike :: "string option \<Rightarrow> string \<Rightarrow> bool" where
  "ilike column pattern =
     (case column of None \<Rightarrow> False | Some t \<Rightarrow> like_match (like_parts (lower pattern)) (lower t))"

definition text_condition :: "string option \<Rightarrow> string option \<Rightarrow> bool" where
  "text_condition column v =
     (\<not> truthy v \<or> ilike column (percent # escape_like (the v) @ [percent]))"

definition item_matches :: "item_filters \<Rightarrow> job_item \<Rightarrow> bool" where
  "item_matches f i =
     ((\<not> truthy (fi_source_playlist_id f) \<or> ji_source_playlist_id i = fi_source_playlist_id f) \<and>
      (fi_entity_types f = [] \<or> ji_entity_type i \<in> set (fi_entity_types f)) \<and>
      (fi_statuses f = [] \<or> ji_status i \<in> set (fi_statuses f)) \<and>
      (\<not> fi_problem_only f \<or> ji_status i \<in> {''needs_review'', ''skipped'', ''failed''}) \<and>
      (case fi_min_confidence f of None \<Rightarrow> True
       | Some lo \<Rightarrow> (case ji_confidence i of None \<Rightarrow> False | Some c \<Rightarrow> lo \<le> c)) \<and>
      (case fi_max_confidence f of None \<Rightarrow> True
       | Some hi \<Rightarrow> (case ji_confidence i of None \<Rightarrow> False | Some c \<Rightarrow> c \<le> hi)) \<and>
      text_condition (ji_reason i) (fi_reason f) \<and>
      text_condition (Some (ji_title i)) (fi_title f) \<and>
      text_condition (Some (ji_artist i)) (fi_artist f))"

text \<open>The items of a user's job that satisfy the filters, in no particular order, and their number.\<close>

definition migration_items :: "string \<Rightarrow> string \<Rightarrow> item_filters \<Rightarrow> db \<Rightarrow> job_item list" where
  "migration_items job user f d =
     (case dict_get (db_jobs d) job of
        None \<Rightarrow> []
      | Some j \<Rightarrow> if mj_user_id j = user then filter (item_matches f) (job_items job d) else [])"

definition migration_item_count :: "string \<Rightarrow> string \<Rightarrow> item_filters \<Rightarrow> db \<Rightarrow> int" where
  "migration_item_count job user f d = int (length (migration_items job user f d))"

section \<open>Searching is literal\<close>

definition special :: "char \<Rightarrow> bool" where
  "special c \<longleftrightarrow> c = backslash \<or> c = percent \<or> c = underscore"

lemma like_marks [simp]: "backslash \<noteq> percent" "backslash \<noteq> underscore" "percent \<noteq> underscore"
  "percent \<noteq> backslash" "underscore \<noteq> backslash" "underscore \<noteq> percent"
  by (simp_all add: backslash_def percent_def underscore_def)

lemma escape_like_map: "escape_like v = concat (map (\<lambda>c. if special c then [backslash, c] else [c]) v)"
  by (induction v) (auto simp: escape_like_def replace_char_def special_def)

lemma special_ord: "special c \<longleftrightarrow> ord c \<in> {92, 37, 95 :: nat}"
proof -
  have "(ord c = (92::nat)) = (c = backslash)" "(ord c = (37::nat)) = (c = percent)"
    "(ord c = (95::nat)) = (c = underscore)"
    using of_char_eq_iff [where 'a = nat, of c backslash] of_char_eq_iff [where 'a = nat, of c percent]
      of_char_eq_iff [where 'a = nat, of c underscore]
    by (simp_all add: backslash_def percent_def underscore_def)
  then show ?thesis by (simp add: special_def)
qed

lemma lower_char_special [simp]: "special (lower_char c) = special c" "special c \<Longrightarrow> lower_char c = c"
  by (auto simp: special_ord ord_lower_char lower_char_def Let_def)

lemma lower_char_backslash [simp]: "lower_char backslash = backslash"
  by (rule lower_char_special(2)) (simp add: special_def)

lemma lower_escape: "lower (escape_like v) = escape_like (lower v)"
  by (induction v) (simp_all add: escape_like_map lower_def)

lemma like_parts_escape: "like_parts (escape_like v @ s) = map Exactly v @ like_parts s"
  by (induction v) (auto simp: escape_like_map special_def)

lemma like_match_prefix: "like_match (map Exactly v @ [Any_Text]) t \<longleftrightarrow> starts_with v t"
proof (induction v arbitrary: t)
  case Nil
  have "like_match [Any_Text] t" by (induction t) simp_all
  then show ?case by (simp add: starts_with_append)
next
  case (Cons c v)
  then show ?case by (cases t) (auto simp: starts_with_append)
qed

lemma like_match_within: "like_match (Any_Text # map Exactly v @ [Any_Text]) t \<longleftrightarrow> contains v t"
proof (induction t)
  case Nil
  have "starts_with v [] \<longleftrightarrow> v = []" by (simp add: starts_with_append)
  then show ?case by (simp add: like_match_prefix)
next
  case (Cons c t)
  then show ?case by (simp add: like_match_prefix)
qed

text \<open>
  Searching the items of a job for a text finds the items that contain exactly that text,
  whatever case it is written in: a percent sign, an underscore or a backslash in the search
  stands for itself.
\<close>

lemma search_is_literal:
  "ilike column (percent # escape_like v @ [percent]) \<longleftrightarrow>
     (case column of None \<Rightarrow> False | Some t \<Rightarrow> contains (lower v) (lower t))"
proof -
  have "lower_char percent = percent" by (simp add: lower_char_def percent_def)
  then have "like_parts (lower (percent # escape_like v @ [percent])) =
      Any_Text # map Exactly (lower v) @ [Any_Text]"
    using like_parts_escape [of "lower v" "[percent]"] by (simp add: lower_escape [symmetric]) (simp add: lower_def)
  then show ?thesis by (simp only: ilike_def like_match_within)
qed

section \<open>Summaries account for every item\<close>

lemma sum_indicator: "distinct ss \<Longrightarrow> x \<in> set ss \<Longrightarrow> sum_list (map (\<lambda>s. if x = s then 1 else 0 :: nat) ss) = 1"
proof (induction ss)
  case (Cons s ss)
  have "x \<notin> set ss \<Longrightarrow> sum_list (map (\<lambda>s. if x = s then 1 else 0 :: nat) ss) = 0" by (induction ss) auto
  with Cons show ?case by auto
qed simp

lemma sum_groups:
  "distinct ss \<Longrightarrow> f ` set xs \<subseteq> set ss \<Longrightarrow>
     sum_list (map (\<lambda>s. length (filter (\<lambda>x. f x = s) xs)) ss) = length xs"
proof (induction xs)
  case (Cons x xs)
  have "length (filter (\<lambda>y. f y = s) (x # xs)) = (if f x = s then 1 else 0) + length (filter (\<lambda>y. f y = s) xs)"
    for s by simp
  then show ?case
    using Cons sum_indicator [of ss "f x"] by (simp only: sum_list_addf) simp
qed (simp add: sum_list_0)

lemma raw_counts_distinct: "is_dict rs \<Longrightarrow> raw_counts rs = rs"
proof -
  have "is_dict (acc @ rs) \<Longrightarrow> fold (\<lambda>(s, n). dict_set s n) rs acc = acc @ rs" for acc
  proof (induction rs arbitrary: acc)
    case (Cons r rs)
    obtain s n where r: "r = (s, n)" by force
    with Cons.prems have "dict_get acc s = None"
      by (auto simp: is_dict_def map_of_eq_None_iff)
    then have "dict_set s n acc = acc @ [(s, n)]" by (rule dict_set_new)
    with Cons.IH [of "acc @ [(s, n)]"] Cons.prems r show ?case by simp
  qed simp
  from this [of "[]"] show "is_dict rs \<Longrightarrow> raw_counts rs = rs" by (simp add: raw_counts_def)
qed

lemma sum_known:
  "is_dict rs \<Longrightarrow> distinct ks \<Longrightarrow>
     sum_list (map (count_of rs) ks) = sum_list (map snd (filter (\<lambda>(s, n). s \<in> set ks) rs))"
proof (induction rs)
  case Nil
  then show ?case by (simp add: count_of_def sum_list_0)
next
  case (Cons r rs)
  obtain s n where r: "r = (s, n)" by force
  with Cons.prems have d: "is_dict rs" "dict_get rs s = None" by (auto simp: is_dict_def map_of_eq_None_iff)
  have c: "count_of (r # rs) = (\<lambda>k. (if s = k then n else 0) + count_of rs k)"
  proof
    fix k
    show "count_of (r # rs) k = (if s = k then n else 0) + count_of rs k"
      using d(2) by (cases "s = k") (auto simp: r count_of_def)
  qed
  have "sum_list (map (\<lambda>k. if s = k then n else 0) ks) = (if s \<in> set ks then n else 0)"
    using Cons.prems(2) by (induction ks) auto
  then have "sum_list (map (count_of (r # rs)) ks) =
      (if s \<in> set ks then n else 0) + sum_list (map (count_of rs) ks)"
    unfolding c by (simp add: sum_list_addf)
  then show ?case using Cons.IH [OF d(1) Cons.prems(2)] by (simp add: r)
qed

lemma status_rows_props:
  "is_dict (status_rows items)" "\<And>s n. (s, n) \<in> set (status_rows items) \<Longrightarrow> 0 < n"
  "sum_list (map snd (status_rows items)) = int (length items)"
proof -
  show "is_dict (status_rows items)" by (simp add: status_rows_def is_dict_def comp_def)
  show "0 < n" if "(s, n) \<in> set (status_rows items)" for s n
    using that by (auto simp: status_rows_def filter_empty_conv)
  show "sum_list (map snd (status_rows items)) = int (length items)"
    using sum_groups [of "remdups (map ji_status items)" ji_status items]
      sum_list_of_nat [where 'a = int, of "map (\<lambda>s. length (filter (\<lambda>i. ji_status i = s) items))
        (remdups (map ji_status items))"]
    by (simp add: status_rows_def comp_def)
qed

lemma sum_partition:
  "sum_list (map snd (filter p rs)) + sum_list (map snd (filter (\<lambda>x. \<not> p x) rs)) = (sum_list (map snd rs) :: int)"
  by (induction rs) auto

lemma observed_items:
  "sum_list (map (count_of (status_rows items)) known_statuses) +
     sum_list (map snd (other_counts (status_rows items))) = int (length items)"
proof -
  have "other_counts (status_rows items) = filter (\<lambda>x. \<not> (\<lambda>(s, n). s \<in> set known_statuses) x) (status_rows items)"
    unfolding other_counts_def by (rule filter_cong) (use status_rows_props(2) in \<open>auto split: prod.splits\<close>)
  moreover have "distinct known_statuses" by (simp add: known_statuses_def)
  ultimately show ?thesis
    using sum_known [OF status_rows_props(1), of known_statuses items]
      sum_partition [of "\<lambda>(s, n). s \<in> set known_statuses" "status_rows items"] status_rows_props(3) [of items]
    by simp
qed

text \<open>
  A summary accounts for every item exactly once: the parts (with the statuses the program
  does not know) add up to the total, which is the number of items, or the number of tracks the
  job announced when not all of them have an item yet; those are pending.
\<close>

theorem status_counts_total:
  "let c = status_counts (status_rows items) hint
   in stc_total c = max hint (int (length items)) \<and>
      stc_total c = stc_pending c + stc_matched c + stc_needs_review c + stc_written c +
        stc_skipped c + stc_failed c + sum_list (map snd (stc_other c))"
  using observed_items [of items]
  by (simp add: status_counts_def Let_def raw_counts_distinct status_rows_props(1) known_statuses_def)

section \<open>Details expire\<close>

text \<open>
  Once a job has ended, its details stay available for exactly the configured number of days,
  whatever the setting becomes later; with no retention they stay for good.
\<close>

lemma details_retention:
  assumes "mark_job_terminal now status days j = Inr j'" and "mj_details_purged_at j = None"
    and "0 < days"
  shows "details_available t later j' \<longleftrightarrow> t < now + days * 86400"
  using assms by (auto simp: mark_job_terminal_def details_available_def effective_details_expires_at_def
      split: if_splits)

lemma details_retention_witness:
  "\<exists>j'. mark_job_terminal 1000 ''done'' 90 (sample_job ''j1'') = Inr j' \<and>
     details_available 2000 0 j' \<and> \<not> details_available 7777000 0 j'"
proof -
  obtain j' where j': "mark_job_terminal 1000 ''done'' 90 (sample_job ''j1'') = Inr j'"
    by (simp add: mark_job_terminal_def terminal_job_statuses_def)
  have "mj_details_purged_at (sample_job ''j1'') = None" by (simp add: sample_job_def)
  from details_retention [OF j' this] j' show ?thesis by simp
qed

end
