(* ===== verification/Migration_Write.thy ===== *)
theory Migration_Write
  imports Migration_History
begin

text \<open>
  The write phase of \<open>app/jobs/migration.py\<close>: items of a job, their counts, the check for
  duplicates, and the batches that are added to the target playlist. An item the code holds is
  its identifier here; its attributes are read from the session when the code reads them.
\<close>

section \<open>Items\<close>

definition import_record_providers :: "string set" where
  "import_record_providers = {''local_file'', ''public_url'', ''pasted_text''}"

definition get_item :: "string \<Rightarrow> ('w, job_item) handler" where
  "get_item i = andthen (query (\<lambda>d. dict_get (db_items d) i)) (\<lambda>found.
     case found of None \<Rightarrow> throw (RuntimeError ''the row of the item is gone'') | Some r \<Rightarrow> ret r)"

definition mark_item :: "string \<Rightarrow> string \<Rightarrow> string option \<Rightarrow> ('w, unit) handler" where
  "mark_item i status reason = edit_item i (\<lambda>r. r\<lparr>ji_status := status, ji_reason := reason\<rparr>)"

definition done_statuses :: "string set" where
  "done_statuses = {''written'', ''skipped'', ''needs_review''}"

definition count_items :: "string \<Rightarrow> (job_item \<Rightarrow> bool) \<Rightarrow> db \<Rightarrow> int" where
  "count_items job p d = int (length (filter p (job_items job d)))"

definition with_counts :: "string \<Rightarrow> db \<Rightarrow> db" where
  "with_counts job d = d\<lparr>db_jobs := update_row job (\<lambda>j. j\<lparr>
     mj_total := count_items job (\<lambda>_. True) d,
     mj_done := count_items job (\<lambda>i. ji_status i \<in> done_statuses) d,
     mj_failed := count_items job (\<lambda>i. ji_status i = ''failed'') d\<rparr>) (db_jobs d)\<rparr>"

definition commit_job_counts :: "string \<Rightarrow> ('w, unit) handler" where
  "commit_job_counts job = andthen flush (\<lambda>_. andthen (edit (with_counts job)) (\<lambda>_. commit))"

definition source_item_keys :: "job_item \<Rightarrow> string set" where
  "source_item_keys i =
     keys_from_metadata (Some (ji_source_metadata i)) (Some (ji_title i)) (Some (ji_artist i))
       (ji_album i) (ji_duration_s i) (ji_isrc i)"

definition item_target_keys :: "job_item \<Rightarrow> string set" where
  "item_target_keys i = uri_keys (ji_target_uri i) \<union> source_item_keys i"

definition new_item :: "string \<Rightarrow> string \<Rightarrow> string \<Rightarrow> string \<Rightarrow> int \<Rightarrow> track \<Rightarrow> int \<Rightarrow> job_item" where
  "new_item i job p name pos t now =
     \<lparr>ji_id = i, ji_job_id = job, ji_entity_type = E_TRACK, ji_source_playlist_id = Some p,
      ji_source_playlist_name = Some name, ji_target_playlist_id = None,
      ji_source_entity_id = None, ji_source_entity_name = None, ji_target_entity_id = None,
      ji_position = pos, ji_title = trk_title t, ji_artist = trk_artist t, ji_album = trk_album t,
      ji_duration_s = trk_duration_s t, ji_release_year = trk_release_year t,
      ji_explicit = trk_explicit t, ji_isrc = trk_isrc t, ji_source_metadata = track_members t,
      ji_target_uri = None, ji_confidence = None, ji_status = ''pending'', ji_reason = None,
      ji_review_action = None, ji_created_at = now, ji_updated_at = now,
      ji_review_original_status = None, ji_review_original_reason = None, ji_reviewed_at = None\<rparr>"

text \<open>The items of an earlier attempt, by position; of several with one position the last.\<close>

definition existing_items :: "migration_job \<Rightarrow> string \<Rightarrow> db \<Rightarrow> (int, string) dict" where
  "existing_items j p d =
     (if mj_source_provider j \<in> import_record_providers
      then fold (\<lambda>i. dict_set (ji_position i) (ji_id i))
             (filter (\<lambda>i. ji_source_playlist_id i = Some p) (job_items (mj_id j) d)) []
      else [])"

definition create_items ::
  "'w env \<Rightarrow> migration_job \<Rightarrow> string \<Rightarrow> string \<Rightarrow> track list \<Rightarrow> ('w, (string \<times> track) list) handler"
where
  "create_items env j p name ts =
     andthen (query (existing_items j p)) (\<lambda>existing.
     andthen (fold_each (List.enumerate 0 ts) [] (\<lambda>pairs (k, t).
        let pos = (case trk_position t of Some n \<Rightarrow> n | None \<Rightarrow> int k) in
        case dict_get existing pos of
          Some i \<Rightarrow> ret (pairs @ [(i, t)])
        | None \<Rightarrow>
            andthen (uuid4 env) (\<lambda>i. andthen utcnow (\<lambda>now.
            andthen (edit (\<lambda>d. d\<lparr>db_items := dict_set i (new_item i (mj_id j) p name pos t now) (db_items d)\<rparr>))
              (\<lambda>_. ret (pairs @ [(i, t)])))))) (\<lambda>pairs.
     andthen (commit_job_counts (mj_id j)) (\<lambda>_. ret pairs)))"

section \<open>The target playlist\<close>

definition read_target :: "'w adapter \<Rightarrow> credential \<Rightarrow> string \<Rightarrow> ('w, playlist) handler" where
  "read_target ta cred p = call (ad_read_playlist ta cred (new_ref p p))"

text \<open>What \<open>except NotFound\<close> makes of a call.\<close>

definition unless_missing :: "('w, 'a) handler \<Rightarrow> ('w, 'a option) handler" where
  "unless_missing m =
     andthen (attempt m) (\<lambda>r. case r of
        Inr a \<Rightarrow> ret (Some a) | Inl e \<Rightarrow> if is_not_found e then ret None else throw e)"

definition target_playlist_exists :: "'w adapter \<Rightarrow> credential \<Rightarrow> string \<Rightarrow> ('w, bool) handler" where
  "target_playlist_exists ta cred p =
     andthen (unless_missing (read_target ta cred p)) (\<lambda>found. ret (found \<noteq> None))"

definition target_playlist_keys :: "'w adapter \<Rightarrow> credential \<Rightarrow> string \<Rightarrow> ('w, string set) handler" where
  "target_playlist_keys ta cred p =
     andthen (unless_missing (read_target ta cred p)) (\<lambda>found.
       ret (case found of None \<Rightarrow> {} | Some pl \<Rightarrow> \<Union> (track_keys ` set (pl_tracks pl))))"

section \<open>Writing batches\<close>

definition skip_duplicate_items ::
  "string \<Rightarrow> string list \<Rightarrow> string set \<Rightarrow> ('w, string list) handler"
where
  "skip_duplicate_items job ids existing =
     andthen (fold_each ids ([], existing) (\<lambda>(kept, seen) i.
        andthen (get_item i) (\<lambda>r.
        if item_target_keys r \<inter> seen \<noteq> {}
        then andthen (mark_item i ''skipped'' (Some ''duplicate already exists in target playlist'')) (\<lambda>_.
             andthen (commit_job_counts job) (\<lambda>_. ret (kept, seen)))
        else ret (kept @ [i], seen \<union> item_target_keys r))))
       (\<lambda>(kept, seen). ret kept)"

definition is_sync_stop :: "migration_job \<Rightarrow> exn \<Rightarrow> bool" where
  "is_sync_stop j e \<longleftrightarrow> mj_origin j = ''sync'' \<and> (is_auth_expired e \<or> is_rate_limited e)"

definition fail_items :: "string list \<Rightarrow> string \<Rightarrow> ('w, unit) handler" where
  "fail_items ids reason = for_each ids (\<lambda>i. mark_item i ''failed'' (Some reason))"

definition record_result ::
  "'w env \<Rightarrow> string \<Rightarrow> string \<Rightarrow> string set \<Rightarrow> string \<times> add_item_result \<Rightarrow> ('w, string set) handler"
where
  "record_result env job p existing x = (case x of (i, r) \<Rightarrow>
     andthen (add_ledger env job ''add_track''
        (JObj [(''playlist_id'', JStr p), (''uri'', JStr (ar_uri r))])
        (if ar_ok r then Some p else None) (ar_position r)
        (if ar_ok r then ''done'' else ''ambiguous'')) (\<lambda>_.
     andthen (get_item i) (\<lambda>row.
     andthen (if ar_ok r then mark_item i ''written'' None
              else mark_item i ''failed'' (Some (or_str (ar_error r) ''target rejected track''))) (\<lambda>_.
     andthen (commit_job_counts job) (\<lambda>_.
     ret (if ar_ok r then existing \<union> item_target_keys row else existing))))))"

text \<open>What becomes of the items a batch tried to add.\<close>

definition settle_outcome ::
  "'w env \<Rightarrow> migration_job \<Rightarrow> string \<Rightarrow> string list \<Rightarrow> string set \<Rightarrow> exn + add_item_result list \<Rightarrow>
     ('w, string set) handler"
where
  "settle_outcome env j p kept existing outcome = (case outcome of
      Inl e \<Rightarrow>
        if \<not> is_provider_error e then throw e
        else andthen (fail_items kept (exn_text e)) (\<lambda>_.
             andthen (commit_job_counts (mj_id j)) (\<lambda>_.
             if is_sync_stop j e then throw e else ret existing))
    | Inr results \<Rightarrow>
        andthen (fold_each (zip kept results) existing (record_result env (mj_id j) p)) (\<lambda>known.
        andthen (for_each (drop (length results) kept) (\<lambda>i.
           andthen (mark_item i ''failed'' (Some ''target did not return a result for this track'')) (\<lambda>_.
           commit_job_counts (mj_id j)))) (\<lambda>_.
        ret known)))"

definition item_uris :: "string list \<Rightarrow> ('w, string list) handler" where
  "item_uris ids =
     fold_each ids [] (\<lambda>us i. andthen (get_item i) (\<lambda>r. ret (us @ [or_str (ji_target_uri r) []])))"

definition write_matched_items ::
  "'w env \<Rightarrow> migration_job \<Rightarrow> 'w adapter \<Rightarrow> credential \<Rightarrow> string \<Rightarrow> string list \<Rightarrow> string set \<Rightarrow>
     ('w, string set) handler"
where
  "write_matched_items env j ta cred p ids existing =
     andthen (skip_duplicate_items (mj_id j) ids existing) (\<lambda>kept.
     if kept = [] then ret existing
     else
       andthen (item_uris kept) (\<lambda>uris.
       andthen (attempt (call (ad_add_tracks ta cred p uris))) (\<lambda>outcome.
       settle_outcome env j p kept existing outcome)))"

definition write_chunk_size :: "'w adapter \<Rightarrow> nat" where
  "write_chunk_size ta = nat (max 1 (cap_max_add_batch (inf_capabilities (ad_info ta))))"

definition flush_matched_chunk ::
  "'w env \<Rightarrow> migration_job \<Rightarrow> 'w adapter \<Rightarrow> credential \<Rightarrow> string \<Rightarrow> bool \<Rightarrow> string list \<times> string set \<Rightarrow>
     ('w, string list \<times> string set) handler"
where
  "flush_matched_chunk env j ta cred p force state = (case state of (matched, existing) \<Rightarrow>
     let size = write_chunk_size ta in
     if matched = [] \<or> (\<not> force \<and> length matched < size) then ret (matched, existing)
     else andthen (write_matched_items env j ta cred p (take size matched) existing) (\<lambda>known.
          ret (drop size matched, known)))"

text \<open>\<open>while matched\<close>: every round writes at least one item, so the rounds end.\<close>

fun flush_rounds ::
  "nat \<Rightarrow> 'w env \<Rightarrow> migration_job \<Rightarrow> 'w adapter \<Rightarrow> credential \<Rightarrow> string \<Rightarrow> string list \<times> string set \<Rightarrow>
     ('w, string list \<times> string set) handler"
where
  "flush_rounds 0 env j ta cred p state = ret state"
| "flush_rounds (Suc n) env j ta cred p state =
     (if fst state = [] then ret state
      else andthen (flush_matched_chunk env j ta cred p True state) (flush_rounds n env j ta cred p))"

definition flush_all ::
  "'w env \<Rightarrow> migration_job \<Rightarrow> 'w adapter \<Rightarrow> credential \<Rightarrow> string \<Rightarrow> string list \<times> string set \<Rightarrow>
     ('w, string list \<times> string set) handler"
where
  "flush_all env j ta cred p state = flush_rounds (length (fst state)) env j ta cred p state"

lemma write_chunk_pos: "0 < write_chunk_size ta"
  by (simp add: write_chunk_size_def)

text \<open>The bound on the rounds is enough: nothing is left to write.\<close>

lemma flush_rounds_done:
  "flush_rounds n env j ta cred p state s = (Inr r, t) \<Longrightarrow> length (fst state) \<le> n \<Longrightarrow> fst r = []"
proof (induction n arbitrary: state s)
  case 0
  then show ?case by (simp add: ok_simps)
next
  case (Suc n)
  show ?case
  proof (cases "fst state = []")
    case True
    with Suc.prems show ?thesis by (simp add: ok_simps)
  next
    case False
    obtain m e where st: "state = (m, e)" by force
    from Suc.prems(1) False obtain r1 u where
      f: "flush_matched_chunk env j ta cred p True state s = (Inr r1, u)"
      and g: "flush_rounds n env j ta cred p r1 u = (Inr r, t)"
      by (auto simp: ok_simps)
    from f False st have "fst r1 = drop (write_chunk_size ta) m"
      by (auto simp: flush_matched_chunk_def Let_def ok_simps)
    with Suc.prems(2) st write_chunk_pos [of ta] have "length (fst r1) \<le> n" by simp
    with Suc.IH [OF g] show ?thesis .
  qed
qed

section \<open>How loops return\<close>

lemma fold_each_returns:
  assumes "fold_each xs b f s = (Inr c, t)" and "Q [] b s"
    and "\<And>ys x b s b' t. f b x s = (Inr b', t) \<Longrightarrow> Q ys b s \<Longrightarrow> Q (ys @ [x]) b' t"
  shows "Q xs c t"
proof -
  have "fold_each xs b f s = (Inr c, t) \<Longrightarrow> Q ys b s \<Longrightarrow> Q (ys @ xs) c t" for ys
  proof (induction xs arbitrary: ys b s)
    case Nil
    then show ?case by (simp add: ok_simps)
  next
    case (Cons x xs)
    from Cons.prems(1) obtain b' u where "f b x s = (Inr b', u)" "fold_each xs b' f u = (Inr c, t)"
      by (auto simp: ok_simps)
    with Cons.IH [of b' u "ys @ [x]"] assms(3) Cons.prems(2) show ?case by simp
  qed
  from this [of "[]"] assms(1,2) show ?thesis by simp
qed

lemma for_each_fold: "for_each xs f = fold_each xs () (\<lambda>_. f)"
  by (induction xs) simp_all

lemma for_each_returns:
  assumes "for_each xs f s = (Inr c, t)" and "Q [] s"
    and "\<And>ys x s t. f x s = (Inr (), t) \<Longrightarrow> Q ys s \<Longrightarrow> Q (ys @ [x]) t"
  shows "Q xs t"
  using fold_each_returns [of xs "()" "\<lambda>_. f" s c t "\<lambda>ys _. Q ys"] assms by (simp add: for_each_fold)

section \<open>How the operations on items return\<close>

definition status_in :: "string set \<Rightarrow> string \<Rightarrow> 'w engine \<Rightarrow> bool" where
  "status_in S i s \<longleftrightarrow>
     (case dict_get (db_items (st_work s)) i of None \<Rightarrow> False | Some r \<Rightarrow> ji_status r \<in> S)"

definition final_statuses :: "string set" where
  "final_statuses = {''written'', ''skipped'', ''failed''}"

lemma get_item_ok [ok_simps]:
  "get_item i s = (Inr r, t) \<longleftrightarrow> dict_get (db_items (st_work s)) i = Some r \<and> t = s"
  by (cases "dict_get (db_items (st_work s)) i") (auto simp: get_item_def ok_simps)

lemma stamped_status:
  "ji_status (if r\<lparr>ji_status := st, ji_reason := reason\<rparr> = r then r
     else r\<lparr>ji_status := st, ji_reason := reason, ji_updated_at := now\<rparr>) = st"
proof (cases "r\<lparr>ji_status := st, ji_reason := reason\<rparr> = r")
  case True
  from arg_cong [OF this, of ji_status] have "ji_status r = st" by simp
  with True show ?thesis by simp
qed simp

lemma mark_item_status:
  "mark_item i st reason s = (Inr u, t) \<Longrightarrow>
     status_in S k t = (if k = i then dict_get (db_items (st_work s)) i \<noteq> None \<and> st \<in> S else status_in S k s)"
  by (cases "dict_get (db_items (st_work s)) i"; cases "k = i")
    (simp_all add: mark_item_def edit_item_def ok_simps status_in_def stamped_status)

lemma same_items_status: "db_items (st_work t) = db_items (st_work s) \<Longrightarrow> status_in S i t = status_in S i s"
  by (simp add: status_in_def)

lemma commit_job_counts_items: "commit_job_counts job s = (Inr u, t) \<Longrightarrow> db_items (st_work t) = db_items (st_work s)"
  by (auto simp: commit_job_counts_def with_counts_def ok_simps)

lemma add_ledger_items:
  "add_ledger env job op intent obs pos state s = (Inr u, t) \<Longrightarrow> db_items (st_work t) = db_items (st_work s)"
  by (auto simp: add_ledger_def ok_simps)

lemma call_items: "call m s = (r, t) \<Longrightarrow> db_items (st_work t) = db_items (st_work s)"
  by (auto simp: run_simps)

lemmas item_steps = commit_job_counts_items [THEN same_items_status] add_ledger_items [THEN same_items_status]
  call_items [THEN same_items_status] mark_item_status

lemma mark_commit_status:
  assumes "andthen (mark_item i st reason) (\<lambda>_. andthen (commit_job_counts job) (\<lambda>_. ret x)) s = (Inr y, t)"
  shows "status_in S k t = (if k = i then dict_get (db_items (st_work s)) i \<noteq> None \<and> st \<in> S else status_in S k s)"
  using assms by (auto simp: ok_simps item_steps)

section \<open>Every item of a batch is settled\<close>

lemma status_in_UNIV: "status_in UNIV i s \<longleftrightarrow> dict_get (db_items (st_work s)) i \<noteq> None"
  by (simp add: status_in_def split: option.split)

lemma status_in_mono: "status_in S i s \<Longrightarrow> S \<subseteq> T \<Longrightarrow> status_in T i s"
  by (cases "dict_get (db_items (st_work s)) i") (auto simp: status_in_def)

lemma skip_duplicates_settles:
  fixes s :: "'w engine"
  assumes "skip_duplicate_items job ids existing s = (Inr kept, t)"
  shows "(\<forall>i \<in> set ids. i \<in> set kept \<or> status_in final_statuses i t) \<and>
    (\<forall>i \<in> set kept. status_in UNIV i t) \<and> set kept \<subseteq> set ids"
proof -
  define Q :: "string list \<Rightarrow> string list \<times> string set \<Rightarrow> 'w engine \<Rightarrow> bool" where
    "Q ys b u \<longleftrightarrow> (\<forall>i \<in> set ys. i \<in> set (fst b) \<or> status_in final_statuses i u) \<and>
       (\<forall>i \<in> set (fst b). status_in UNIV i u) \<and> set (fst b) \<subseteq> set ys" for ys b u
  from assms obtain seen where
    f: "fold_each ids ([], existing) (\<lambda>(kept, seen) i.
        andthen (get_item i) (\<lambda>r.
        if item_target_keys r \<inter> seen \<noteq> {}
        then andthen (mark_item i ''skipped'' (Some ''duplicate already exists in target playlist'')) (\<lambda>_.
             andthen (commit_job_counts job) (\<lambda>_. ret (kept, seen)))
        else ret (kept @ [i], seen \<union> item_target_keys r))) s = (Inr (kept, seen), t)"
    by (auto simp: skip_duplicate_items_def ok_simps)
  have "Q ids (kept, seen) t"
  proof (rule fold_each_returns [OF f, where Q = Q])
    show "Q [] ([], existing) s" by (simp add: Q_def)
  next
    fix ys i b u b' v
    assume step: "(case b of (kept, seen) \<Rightarrow> \<lambda>i. andthen (get_item i) (\<lambda>r.
        if item_target_keys r \<inter> seen \<noteq> {}
        then andthen (mark_item i ''skipped'' (Some ''duplicate already exists in target playlist'')) (\<lambda>_.
             andthen (commit_job_counts job) (\<lambda>_. ret (kept, seen)))
        else ret (kept @ [i], seen \<union> item_target_keys r))) i u = (Inr b', v)" and "Q ys b u"
    obtain k0 s0 where b: "b = (k0, s0)" by force
    from step obtain r where r: "dict_get (db_items (st_work u)) i = Some r"
      and m: "(if item_target_keys r \<inter> s0 \<noteq> {}
        then andthen (mark_item i ''skipped'' (Some ''duplicate already exists in target playlist'')) (\<lambda>_.
             andthen (commit_job_counts job) (\<lambda>_. ret (k0, s0)))
        else ret (k0 @ [i], s0 \<union> item_target_keys r)) u = (Inr b', v)"
      by (auto simp: b ok_simps)
    show "Q (ys @ [i]) b' v"
    proof (cases "item_target_keys r \<inter> s0 \<noteq> {}")
      case True
      with m have m': "andthen (mark_item i ''skipped'' (Some ''duplicate already exists in target playlist'')) (\<lambda>_.
             andthen (commit_job_counts job) (\<lambda>_. ret (k0, s0))) u = (Inr b', v)" by simp
      then have "b' = (k0, s0)" by (auto simp: ok_simps)
      with \<open>Q ys b u\<close> r show ?thesis
        unfolding Q_def b by (auto simp: mark_commit_status [OF m'] final_statuses_def)
    next
      case False
      with m have "b' = (k0 @ [i], s0 \<union> item_target_keys r)" "v = u" by (simp_all add: ok_simps)
      with \<open>Q ys b u\<close> r show ?thesis unfolding Q_def b by (auto simp: status_in_UNIV)
    qed
  qed
  then show ?thesis by (simp add: Q_def)
qed

section \<open>Moving items to a status\<close>

text \<open>
  \<open>moves K X s t\<close>: between the two states the items of \<open>K\<close> reached a status of \<open>X\<close> if their row
  is there, and the others keep the status they had.
\<close>

definition moves :: "string set \<Rightarrow> string set \<Rightarrow> 'w engine \<Rightarrow> 'w engine \<Rightarrow> bool" where
  "moves K X s t \<longleftrightarrow>
     (\<forall>S k. status_in S k s \<longrightarrow> (k \<in> K \<longrightarrow> X \<subseteq> S) \<longrightarrow> status_in S k t) \<and>
     (\<forall>k \<in> K. status_in UNIV k s \<longrightarrow> status_in X k t)"

lemma moves_keep: "moves K X s t \<Longrightarrow> status_in S k s \<Longrightarrow> (k \<in> K \<Longrightarrow> X \<subseteq> S) \<Longrightarrow> status_in S k t"
  by (simp add: moves_def)

lemma moves_reach: "moves K X s t \<Longrightarrow> k \<in> K \<Longrightarrow> status_in S k s \<Longrightarrow> status_in X k t"
  unfolding moves_def using status_in_mono [of S k s UNIV] by blast

lemma moves_trans:
  assumes "moves K X s t" and "moves L X t u"
  shows "moves (K \<union> L) X s u"
proof -
  have "status_in S k u" if "status_in S k s" "k \<in> K \<union> L \<longrightarrow> X \<subseteq> S" for S k
    using that assms unfolding moves_def by blast
  moreover have "status_in X k u" if k: "k \<in> K \<union> L" and "status_in UNIV k s" for k
  proof (cases "k \<in> K")
    case True
    with that have "status_in X k t" using assms(1) by (simp add: moves_def)
    then show ?thesis using assms(2) by (simp add: moves_def)
  next
    case False
    with that have "status_in UNIV k t" using assms(1) by (simp add: moves_def)
    with False k show ?thesis using assms(2) by (simp add: moves_def)
  qed
  ultimately show ?thesis by (simp add: moves_def)
qed

lemma moves_weaken: "moves K X s t \<Longrightarrow> X \<subseteq> Y \<Longrightarrow> moves K Y s t"
  unfolding moves_def by (meson status_in_mono subset_trans)

lemma moves_same: "db_items (st_work t) = db_items (st_work s) \<Longrightarrow> moves {} X s t"
  unfolding moves_def using same_items_status [of t s] by blast

lemma moves_refl: "moves {} X s s"
  by (simp add: moves_same)

lemma moves_mark: "mark_item i st reason s = (Inr u, t) \<Longrightarrow> st \<in> X \<Longrightarrow> moves {i} X s t"
  by (auto simp: moves_def mark_item_status status_in_UNIV dest: status_in_mono [where T = UNIV])

lemmas moves_quiet = commit_job_counts_items [THEN moves_same] add_ledger_items [THEN moves_same]
  call_items [THEN moves_same]

text \<open>Marking an item and committing the counts, the way the code always pairs them.\<close>

lemma moves_mark_commit:
  assumes "mark_item i st reason s = (Inr u, t)" and "commit_job_counts job t = (Inr v, t')" and "st \<in> X"
  shows "moves {i} X s t'"
  using moves_trans [OF moves_mark [OF assms(1,3)] moves_quiet(1) [OF assms(2)]] by simp

text \<open>A loop whose rounds each move their item moves them all.\<close>

lemma moves_fold:
  assumes "fold_each xs b f s = (Inr c, t)"
    and "\<And>x b s b' t. x \<in> set xs \<Longrightarrow> f b x s = (Inr b', t) \<Longrightarrow> moves (key x) X s t"
  shows "moves (\<Union>x \<in> set xs. key x) X s t"
  using assms
proof (induction xs arbitrary: b s)
  case Nil
  then show ?case by (simp add: ok_simps moves_refl)
next
  case (Cons x xs)
  from Cons.prems(1) obtain b' u where x: "f b x s = (Inr b', u)" and r: "fold_each xs b' f u = (Inr c, t)"
    by (auto simp: ok_simps)
  have "moves (\<Union>x \<in> set xs. key x) X u t" using r Cons.prems(2) by (intro Cons.IH) auto
  with Cons.prems(2) [OF _ x] show ?case by (auto dest: moves_trans)
qed

lemma moves_each:
  assumes "for_each xs f s = (Inr u, t)"
    and "\<And>x s t. x \<in> set xs \<Longrightarrow> f x s = (Inr (), t) \<Longrightarrow> moves (key x) X s t"
  shows "moves (\<Union>x \<in> set xs. key x) X s t"
  using moves_fold [of xs "()" "\<lambda>_. f" s u t key X] assms by (simp add: for_each_fold)

lemma fail_items_moves: "fail_items ids reason s = (Inr u, t) \<Longrightarrow> ''failed'' \<in> X \<Longrightarrow> moves (set ids) X s t"
  unfolding fail_items_def by (drule moves_each [where key = "\<lambda>i. {i}" and X = X]) (auto intro: moves_mark)

lemma fail_each_moves:
  assumes "for_each ids (\<lambda>i. andthen (mark_item i ''failed'' reason) (\<lambda>_. commit_job_counts job)) s = (Inr u, t)"
    and "''failed'' \<in> X"
  shows "moves (set ids) X s t"
  using moves_each [OF assms(1), of "\<lambda>i. {i}" X] assms(2) by (auto simp: ok_simps intro: moves_mark_commit)

lemma item_uris_same: "item_uris ids s = (Inr us, t) \<Longrightarrow> t = s"
  unfolding item_uris_def
proof (rule fold_each_returns [where Q = "\<lambda>ys b u. u = s"])
qed (auto simp: ok_simps)

lemma set_zip_rest: "set xs = fst ` set (zip xs ys) \<union> set (drop (length ys) xs)"
proof (induction xs arbitrary: ys)
  case (Cons x xs)
  show ?case
  proof (cases ys)
    case (Cons y zs)
    then show ?thesis using Cons.IH [of zs] by simp
  qed simp
qed simp

section \<open>The outcome of a batch\<close>

lemma record_result_moves:
  assumes "record_result env job p existing x s = (Inr known, t)"
  shows "moves {fst x} final_statuses s t"
proof -
  obtain i r where x: "x = (i, r)" by force
  from assms obtain y u row v w where l: "add_ledger env job ''add_track''
        (JObj [(''playlist_id'', JStr p), (''uri'', JStr (ar_uri r))])
        (if ar_ok r then Some p else None) (ar_position r)
        (if ar_ok r then ''done'' else ''ambiguous'') s = (Inr y, u)"
    and m: "(if ar_ok r then mark_item i ''written'' None
              else mark_item i ''failed'' (Some (or_str (ar_error r) ''target rejected track''))) u = (Inr (), v)"
    and c: "commit_job_counts job v = (Inr w, t)"
    by (auto simp: record_result_def x ok_simps)
  from m have "moves {i} final_statuses u t"
    by (cases "ar_ok r") (auto intro!: moves_mark_commit [OF _ c] simp: final_statuses_def)
  with moves_trans [OF moves_quiet(2) [OF l] this] show ?thesis by (simp add: x)
qed

lemma settle_outcome_moves:
  assumes "settle_outcome env j p kept existing outcome s = (Inr known, t)"
  shows "moves (set kept) final_statuses s t"
proof (cases outcome)
  case (Inl e)
  with assms(1) obtain x where f: "fail_items kept (exn_text e) s = (Inr (), x)"
    and c: "commit_job_counts (mj_id j) x = (Inr (), t)"
    by (auto simp: settle_outcome_def ok_simps split: if_splits)
  from moves_trans [OF fail_items_moves [OF f] moves_quiet(1) [OF c]] show ?thesis
    by (simp add: final_statuses_def)
next
  case (Inr results)
  with assms(1) obtain kn x where z: "fold_each (zip kept results) existing (record_result env (mj_id j) p) s = (Inr kn, x)"
    and d: "for_each (drop (length results) kept) (\<lambda>i.
          andthen (mark_item i ''failed'' (Some ''target did not return a result for this track'')) (\<lambda>_.
          commit_job_counts (mj_id j))) x = (Inr (), t)"
    by (auto simp: settle_outcome_def ok_simps)
  have "moves (\<Union>y \<in> set (zip kept results). {fst y}) final_statuses s x"
    by (rule moves_fold [OF z]) (rule record_result_moves)
  then have "moves (fst ` set (zip kept results)) final_statuses s x" by (simp add: UNION_singleton_eq_range)
  from moves_trans [OF this fail_each_moves [OF d]] show ?thesis
    by (simp add: set_zip_rest [of kept results] final_statuses_def)
qed

text \<open>
  C4. Writing a batch leaves no item in between: when it returns, every item of the batch has been
  written, skipped as a duplicate, or has failed, whatever the provider answered (fewer results
  than items, rejections, an error for the whole batch).
\<close>

theorem batch_settles:
  assumes "write_matched_items env j ta cred p ids existing s = (Inr known, t)" and "i \<in> set ids"
  shows "status_in final_statuses i t"
proof -
  from assms(1) obtain kept u where k: "skip_duplicate_items (mj_id j) ids existing s = (Inr kept, u)"
    and rest: "kept = [] \<and> t = u \<or> (\<exists>uris v outcome w. item_uris kept u = (Inr uris, v) \<and>
      call (ad_add_tracks ta cred p uris) v = (outcome, w) \<and>
      settle_outcome env j p kept existing outcome w = (Inr known, t))"
    by (auto simp: write_matched_items_def ok_simps split: if_splits)
  note sk = skip_duplicates_settles [OF k]
  from rest show ?thesis
  proof (elim disjE exE conjE)
    assume "kept = []" "t = u"
    with sk assms(2) show ?thesis by auto
  next
    fix uris v outcome w
    assume r: "item_uris kept u = (Inr uris, v)" and c: "call (ad_add_tracks ta cred p uris) v = (outcome, w)"
      and o: "settle_outcome env j p kept existing outcome w = (Inr known, t)"
    have "moves (set kept) final_statuses u t"
      using moves_trans [OF moves_quiet(3) [OF c] settle_outcome_moves [OF o]] item_uris_same [OF r] by simp
    then show ?thesis using sk assms(2) moves_keep moves_reach by (metis order_refl)
  qed
qed

text \<open>A job with one matched item, in a database with a fake account.\<close>

definition sample_track :: track where
  "sample_track = new_track ''One'' ''Band''"

definition sample_item :: "string \<Rightarrow> job_item" where
  "sample_item status = (new_item ''t1'' ''j1'' ''pl-1'' ''Roadtrip'' 0 sample_track 0)\<lparr>
     ji_status := status, ji_target_uri := Some ''fake:track:One''\<rparr>"

definition job_db :: "string \<Rightarrow> db" where
  "job_db status = account_db\<lparr>db_jobs := [(''j1'', sample_job ''j1'')], db_items := [(''t1'', sample_item status)]\<rparr>"

text \<open>Items and counts do not matter to the constraints.\<close>

lemma constraints_items [simp]:
  "constraints_ok (d\<lparr>db_items := x\<rparr>) = constraints_ok d" "constraints_ok (d\<lparr>db_ledger := l\<rparr>) = constraints_ok d"
  "constraints_ok (d\<lparr>db_decisions := r\<rparr>) = constraints_ok d"
  by (simp_all add: constraints_ok_def)

lemma map_select_update:
  "(\<And>r. g (f r) = g r) \<Longrightarrow>
     map g (select_rows (\<lambda>r. p (g r)) (update_row i f t)) = map g (select_rows (\<lambda>r. p (g r)) t)"
proof (induction t)
  case (Cons x t)
  then show ?case by (cases x) (simp add: select_rows_def rows_def update_row_def)
qed (simp add: select_rows_def rows_def)

lemma constraints_with_counts [simp]: "constraints_ok (with_counts job d) = constraints_ok d"
  unfolding constraints_ok_def with_counts_def
  by (simp add: map_select_update [of mj_sync_run_id _ "\<lambda>r. r \<noteq> None", simplified])

lemma job_db_constraints [simp]: "constraints_ok (job_db status)"
  by (simp add: job_db_def account_db_def empty_db_def constraint_defs sample_account_def sample_job_def)

theorem batch_settles_witness:
  "\<exists>known t. write_matched_items sample_env (sample_job ''j1'') fake_adapter (fake_cred ''fake'') ''gone''
     [''t1''] {} (engine_on (job_db ''matched'')) = (Inr known, t) \<and> status_in final_statuses ''t1'' t"
proof -
  have g: "dict_get (db_items (job_db ''matched'')) ''t1'' = Some (sample_item ''matched'')"
    by (simp add: job_db_def)
  have a: "ad_add_tracks fake_adapter (fake_cred ''fake'') ''gone'' uris fake_start = (Inl (NotFound ''gone''), fake_start)"
    for uris by (simp add: fake_adapter_def fake_add_tracks_def fake_start_def)
  have "\<exists>known t. write_matched_items sample_env (sample_job ''j1'') fake_adapter (fake_cred ''fake'') ''gone''
     [''t1''] {} (engine_on (job_db ''matched'')) = (Inr known, t)"
    by (simp add: write_matched_items_def settle_outcome_def item_uris_def skip_duplicate_items_def get_item_def run_simps g a engine_on_def
        fail_items_def mark_item_def edit_item_def commit_job_counts_def is_provider_error_def is_sync_stop_def
        sample_job_def)
  then obtain known t where w: "write_matched_items sample_env (sample_job ''j1'') fake_adapter
     (fake_cred ''fake'') ''gone'' [''t1''] {} (engine_on (job_db ''matched'')) = (Inr known, t)" by blast
  from batch_settles [OF w, of "''t1''"] w show ?thesis by auto
qed

section \<open>Counts\<close>

text \<open>
  C32. The committed counts of a job describe its items: the total is their number, the done ones are
  those that were written, skipped or left for a review, the failed ones those that failed; together
  they make up the total exactly when no item is pending or matched. The items, and every other job,
  are as they were.
\<close>

theorem job_counts_consistent:
  assumes "commit_job_counts job s = (Inr u, t)" and "dict_get (db_jobs (st_work s)) job = Some j"
  shows "\<exists>j'. dict_get (db_jobs (st_db t)) job = Some j' \<and>
    mj_total j' = int (length (job_items job (st_db t))) \<and>
    mj_done j' = int (length (filter (\<lambda>i. ji_status i \<in> {''written'', ''skipped'', ''needs_review''}) (job_items job (st_db t)))) \<and>
    mj_failed j' = int (length (filter (\<lambda>i. ji_status i = ''failed'') (job_items job (st_db t)))) \<and>
    mj_done j' + mj_failed j' \<le> mj_total j' \<and>
    db_items (st_db t) = db_items (st_work s) \<and>
    (\<forall>k. k \<noteq> job \<longrightarrow> dict_get (db_jobs (st_db t)) k = dict_get (db_jobs (st_work s)) k) \<and>
    (mj_done j' + mj_failed j' = mj_total j' \<longleftrightarrow>
       list_all (\<lambda>i. ji_status i \<in> {''written'', ''skipped'', ''needs_review'', ''failed''})
         (job_items job (st_db t)))"
proof -
  let ?d = "st_work s"
  let ?is = "job_items job ?d"
  have split: "length (filter (\<lambda>i. ji_status i \<in> done_statuses) xs) + length (filter (\<lambda>i. ji_status i = ''failed'') xs)
      \<le> length xs \<and>
      (length (filter (\<lambda>i. ji_status i \<in> done_statuses) xs) + length (filter (\<lambda>i. ji_status i = ''failed'') xs)
        = length xs \<longleftrightarrow> list_all (\<lambda>i. ji_status i \<in> insert ''failed'' done_statuses) xs)" for xs :: "job_item list"
    by (induction xs) (auto simp: done_statuses_def)
  from assms(1) have t: "st_db t = with_counts job ?d" by (auto simp: commit_job_counts_def ok_simps)
  let ?j = "j\<lparr>mj_total := count_items job (\<lambda>_. True) ?d, mj_done := count_items job (\<lambda>i. ji_status i \<in> done_statuses) ?d,
     mj_failed := count_items job (\<lambda>i. ji_status i = ''failed'') ?d\<rparr>"
  have "dict_get (db_jobs (st_db t)) job = Some ?j" using assms(2) by (simp add: t with_counts_def)
  moreover have items: "job_items job (st_db t) = ?is" by (simp add: t with_counts_def job_items_def)
  moreover have "insert ''failed'' done_statuses = {''written'', ''skipped'', ''needs_review'', ''failed''}"
    and "done_statuses = {''written'', ''skipped'', ''needs_review''}"
    by (auto simp: done_statuses_def)
  moreover have "db_items (st_db t) = db_items ?d" "\<forall>k. k \<noteq> job \<longrightarrow> dict_get (db_jobs (st_db t)) k = dict_get (db_jobs ?d) k"
    by (simp_all add: t with_counts_def)
  ultimately show ?thesis
    using split [of ?is] by (intro exI [of _ ?j]) (simp add: count_items_def flip: of_nat_add)
qed

theorem job_counts_consistent_witness:
  "\<exists>t j'. commit_job_counts ''j1'' (engine_on (job_db ''written'')) = (Inr (), t) \<and>
     dict_get (db_jobs (st_db t)) ''j1'' = Some j' \<and> mj_done j' + mj_failed j' \<le> mj_total j'"
proof -
  obtain t where t: "commit_job_counts ''j1'' (engine_on (job_db ''written'')) = (Inr (), t)"
    by (simp add: commit_job_counts_def run_simps engine_on_def)
  have "dict_get (db_jobs (st_work (engine_on (job_db ''written'')))) ''j1'' = Some (sample_job ''j1'')"
    by (simp add: engine_on_def job_db_def)
  from job_counts_consistent [OF t this] t show ?thesis by blast
qed

section \<open>Chunks\<close>

text \<open>
  Writing what has been matched is writing its chunks one after the other: every matched item
  once, in order, and (lemma \<open>length_chunks_mem\<close>) never more at a time than the provider accepts.
\<close>

lemma flush_all_chunks:
  "flush_all env j ta cred p (matched, existing) =
     andthen (fold_each (chunks (write_chunk_size ta) matched) existing
        (\<lambda>known c. write_matched_items env j ta cred p c known)) (\<lambda>known. ret ([], known))"
proof -
  let ?n = "write_chunk_size ta"
  let ?w = "\<lambda>known c. write_matched_items env j ta cred p c known"
  have "length m \<le> n \<Longrightarrow> flush_rounds n env j ta cred p (m, k) s =
      andthen (fold_each (chunks ?n m) k ?w) (\<lambda>known. ret ([], known)) s" for n m k s
  proof (induction n arbitrary: m k s)
    case 0
    then show ?case by (simp add: run_simps)
  next
    case (Suc n)
    show ?case
    proof (cases "m = []")
      case True
      then show ?thesis by (simp add: run_simps)
    next
      case False
      have "length (drop ?n m) \<le> n" using Suc.prems write_chunk_pos [of ta] by simp
      note IH = Suc.IH [OF this]
      have "chunks ?n m = take ?n m # chunks ?n (drop ?n m)"
        using False write_chunk_pos [of ta] by (simp add: chunks.simps [of ?n m])
      then show ?thesis
        using False
        by (cases "?w k (take ?n m) s"; cases "fst (?w k (take ?n m) s)")
          (simp_all add: run_simps flush_matched_chunk_def Let_def IH)
    qed
  qed
  then show ?thesis unfolding flush_all_def by (intro ext) simp
qed

end
