(* ===== verification/Migration_Target.thy ===== *)
theory Migration_Target
  imports Migration_Write Matching
begin

text \<open>
  Where a migration writes to and what earlier reviews decided (\<open>app/jobs/migration.py\<close>): the
  resolution of the target playlist, the target of an earlier migration, and the decisions a
  user approved before, for tracks and for library items.
\<close>

section \<open>Earlier migrations\<close>

definition source_account_history :: "db \<Rightarrow> migration_job \<Rightarrow> string \<Rightarrow> bool" where
  "source_account_history d j account =
     (if mj_source_snapshot j \<noteq> None \<or> mj_source_kind j \<noteq> ''provider''
      then account = mj_source_account_id j
      else provider_account_history d account (mj_source_account_id j) (mj_user_id j)
             (mj_source_provider j))"

definition target_account_history :: "db \<Rightarrow> migration_job \<Rightarrow> string \<Rightarrow> bool" where
  "target_account_history d j account =
     provider_account_history d account (mj_target_account_id j) (mj_user_id j) (mj_target_provider j)"

text \<open>The other jobs of the user between the same accounts.\<close>

definition related_job :: "db \<Rightarrow> migration_job \<Rightarrow> migration_job \<Rightarrow> bool" where
  "related_job d j k =
     (mj_id k \<noteq> mj_id j \<and> mj_user_id k = mj_user_id j \<and>
      mj_source_provider k = mj_source_provider j \<and>
      source_account_history d j (mj_source_account_id k) \<and>
      mj_target_provider k = mj_target_provider j \<and>
      target_account_history d j (mj_target_account_id k))"

definition related_items :: "migration_job \<Rightarrow> string \<Rightarrow> db \<Rightarrow> job_item list" where
  "related_items j p d =
     select_rows (\<lambda>i. ji_source_playlist_id i = Some p \<and> ji_target_playlist_id i \<noteq> None \<and>
       (case dict_get (db_jobs d) (ji_job_id i) of None \<Rightarrow> False | Some k \<Rightarrow> related_job d j k))
     (db_items d)"

definition prior_jobs :: "migration_job \<Rightarrow> db \<Rightarrow> migration_job list" where
  "prior_jobs j d =
     order_desc (\<lambda>k. (mj_completed_at k \<noteq> None, case mj_completed_at k of None \<Rightarrow> 0 | Some t \<Rightarrow> t,
         mj_created_at k, mj_id k))
       (select_rows (\<lambda>k. related_job d j k \<and> mj_status k \<in> terminal_job_statuses) (db_jobs d))"

fun summarized_target :: "playlist_summary list \<Rightarrow> string \<Rightarrow> string option" where
  "summarized_target [] p = None"
| "summarized_target (s # ss) p =
     (if psm_source_playlist_id s = p \<and> truthy (psm_target_playlist_id s)
      then psm_target_playlist_id s else summarized_target ss p)"

fun target_playlist_id_from_summaries :: "migration_job list \<Rightarrow> string \<Rightarrow> string option" where
  "target_playlist_id_from_summaries [] p = None"
| "target_playlist_id_from_summaries (j # js) p =
     (case summarized_target (summary_playlists j) p of
        Some t \<Rightarrow> Some t | None \<Rightarrow> target_playlist_id_from_summaries js p)"

definition previous_target :: "migration_job \<Rightarrow> string \<Rightarrow> db \<Rightarrow> string option" where
  "previous_target j p d =
     (let newest = (case order_desc ji_updated_at (related_items j p d) of
                      [] \<Rightarrow> None | i # _ \<Rightarrow> ji_target_playlist_id i)
      in if truthy newest then newest else target_playlist_id_from_summaries (prior_jobs j d) p)"

definition previous_target_playlist_id :: "migration_job \<Rightarrow> string \<Rightarrow> ('w, string option) handler" where
  "previous_target_playlist_id j p = query (previous_target j p)"

section \<open>The target playlist\<close>

definition same_name :: "string \<Rightarrow> playlist_ref \<Rightarrow> bool" where
  "same_name name r = (strip (ref_name r) = strip name)"

definition reusable :: "track list \<Rightarrow> playlist \<Rightarrow> bool" where
  "reusable ts pl = (pl_tracks pl = [] \<or> has_track_overlap ts (pl_tracks pl))"

fun reusable_playlist ::
  "'w adapter \<Rightarrow> credential \<Rightarrow> track list \<Rightarrow> playlist_ref list \<Rightarrow> ('w, string option) handler"
where
  "reusable_playlist ta cred ts [] = ret None"
| "reusable_playlist ta cred ts (r # rs) =
     andthen (unless_missing (call (ad_read_playlist ta cred r))) (\<lambda>found.
       case found of
         None \<Rightarrow> reusable_playlist ta cred ts rs
       | Some pl \<Rightarrow> if reusable ts pl then ret (Some (ref_id r)) else reusable_playlist ta cred ts rs)"

definition create_target ::
  "'w env \<Rightarrow> string \<Rightarrow> 'w adapter \<Rightarrow> credential \<Rightarrow> string \<Rightarrow> string \<Rightarrow> string \<Rightarrow> ('w, string) handler"
where
  "create_target env job ta cred p name description =
     andthen (call (ad_create_playlist ta cred
        \<lparr>spec_name = name, spec_description = Some description, spec_public = False\<rparr>)) (\<lambda>made.
     andthen (add_ledger env job ''create_playlist''
        (JObj [(''source_playlist_id'', JStr p), (''name'', JStr name)]) (Some made) None ''done'') (\<lambda>_.
     ret made))"

definition resolve_target_playlist ::
  "'w env \<Rightarrow> migration_job \<Rightarrow> 'w adapter \<Rightarrow> credential \<Rightarrow> string \<Rightarrow> string \<Rightarrow> string \<Rightarrow>
     playlist_kind \<Rightarrow> track list \<Rightarrow> string option \<Rightarrow> bool \<Rightarrow> ('w, string) handler"
where
  "resolve_target_playlist env j ta cred p name description kind ts forced reuse_previous =
     (if kind = LIKED_TRACKS then expect (require_liked_tracks_target (ad_info ta) cred)
      else if truthy forced then
        andthen (target_playlist_exists ta cred (the forced)) (\<lambda>there.
          if there then ret (the forced)
          else throw (NotFound (''target playlist not found: '' @ the forced)))
      else
        andthen (if reuse_previous then previous_target_playlist_id j p else ret None) (\<lambda>previous.
        andthen (if truthy previous then target_playlist_exists ta cred (the previous) else ret False)
          (\<lambda>there.
        if there then ret (the previous)
        else
          andthen (call (collect (ad_iter_playlists ta cred))) (\<lambda>refs.
          andthen (reusable_playlist ta cred ts (filter (same_name name) refs)) (\<lambda>reused.
          case reused of
            Some r \<Rightarrow> ret r
          | None \<Rightarrow> create_target env (mj_id j) ta cred p name description)))))"

section \<open>Reviewed tracks\<close>

definition review_history_bonus :: rat where
  "review_history_bonus = 1 / 10"

definition previous_reviewed ::
  "migration_job \<Rightarrow> entity_type \<Rightarrow> rat \<Rightarrow> db \<Rightarrow> review_decision list"
where
  "previous_reviewed j e threshold d =
     order_desc rd_created_at (select_rows (\<lambda>r.
       rd_job_id r \<noteq> mj_id j \<and> rd_user_id r = mj_user_id j \<and>
       rd_source_provider r = mj_source_provider j \<and>
       source_account_history d j (rd_source_account_id r) \<and>
       rd_target_provider r = mj_target_provider j \<and>
       target_account_history d j (rd_target_account_id r) \<and>
       rd_entity_type r = e \<and> rd_status r \<in> {''written'', ''skipped''} \<and> rd_action r = ''approve'' \<and>
       (e = E_TRACK \<longrightarrow> rd_confidence r < threshold)) (db_decisions d))"

definition previous_reviewed_items ::
  "migration_job \<Rightarrow> entity_type \<Rightarrow> rat \<Rightarrow> ('w, review_decision list) handler"
where
  "previous_reviewed_items j e threshold = query (previous_reviewed j e threshold)"

definition is_non_track_uri :: "string \<Rightarrow> bool" where
  "is_non_track_uri uri =
     list_ex (\<lambda>m. contains m (lower uri)) ['':album:'', '':artist:'', ''/album/'', ''/artist/'']"

definition decision_source_keys :: "review_decision \<Rightarrow> string set" where
  "decision_source_keys r =
     keys_from_metadata (Some (rd_source_metadata r)) (Some (rd_title r)) (Some (rd_artist r))
       (rd_album r) (rd_duration_s r) (rd_isrc r)"

definition prior_reviewed_item ::
  "track \<Rightarrow> review_decision list \<Rightarrow> rat \<Rightarrow> review_decision option"
where
  "prior_reviewed_item t rs threshold =
     (let keys = track_keys t in
      if keys = {} then None
      else find (\<lambda>r. rd_entity_type r = E_TRACK \<and> rd_target_uri r \<noteq> [] \<and> rd_confidence r < threshold \<and>
        \<not> is_non_track_uri (rd_target_uri r) \<and> rd_status r \<in> {''written'', ''skipped''} \<and>
        keys \<inter> decision_source_keys r \<noteq> {}) rs)"

text \<open>The identifier among the keys of a URI, or the URI.\<close>

definition provider_track_id :: "string \<Rightarrow> string" where
  "provider_track_id uri =
     (if strip uri = [] then uri
      else case provider_item_id (strip uri) of
             None \<Rightarrow> uri | Some i \<Rightarrow> if i = [] then uri else lower i)"

definition candidate_from_reviewed_item :: "review_decision \<Rightarrow> track_candidate" where
  "candidate_from_reviewed_item r =
     \<lparr>cand_track_id = provider_track_id (rd_target_uri r), cand_uri = rd_target_uri r,
      cand_title = rd_title r, cand_artist = rd_artist r, cand_album = rd_album r,
      cand_duration_s = rd_duration_s r, cand_isrc = rd_isrc r, cand_explicit = None,
      cand_market = None\<rparr>"

definition apply_review_history_bonus ::
  "review_decision list \<Rightarrow> track \<Rightarrow> match_result \<Rightarrow> rat \<Rightarrow> match_result"
where
  "apply_review_history_bonus history t result threshold =
     (case prior_reviewed_item t history threshold of
        None \<Rightarrow> result
      | Some r \<Rightarrow>
          if rd_target_uri r = [] then result
          else
            let confidence = min 1 (round4 (max (mt_confidence result) (rd_confidence r) + review_history_bonus))
            in \<lparr>mt_candidate = Some (candidate_from_reviewed_item r), mt_confidence = confidence,
                mt_source = ''review_history'', mt_needs_review = confidence < threshold,
                mt_review_reason =
                  (if confidence < threshold
                   then Some ''Previously accepted in another migration; confirm this match again.''
                   else None)\<rparr>)"

section \<open>Which playlist is written to\<close>

lemma unless_missing_ok [ok_simps]:
  "unless_missing m s = (Inr r, t) \<longleftrightarrow>
     (\<exists>a. r = Some a \<and> m s = (Inr a, t)) \<or> (\<exists>e. r = None \<and> m s = (Inl e, t) \<and> is_not_found e)"
  by (cases "m s"; cases "fst (m s)") (auto simp: unless_missing_def run_simps)

text \<open>Reading from a provider leaves the database alone.\<close>

lemma call_same_db: "call m s = (r, t) \<Longrightarrow> st_work t = st_work s \<and> st_db t = st_db s"
  by (auto simp: call_def split: prod.splits)

lemma target_exists_same_db:
  "target_playlist_exists ta cred p s = (Inr b, t) \<Longrightarrow> st_work t = st_work s \<and> st_db t = st_db s"
  by (auto simp: target_playlist_exists_def read_target_def ok_simps dest: call_same_db)

lemma reusable_playlist_sound:
  "reusable_playlist ta cred ts rs s = (Inr (Some p), t) \<Longrightarrow>
     st_work t = st_work s \<and> st_db t = st_db s \<and>
     (\<exists>r \<in> set rs. ref_id r = p \<and> (\<exists>pl w w'. ad_read_playlist ta cred r w = (Inr pl, w') \<and> reusable ts pl))"
proof (induction rs arbitrary: s)
  case Nil
  then show ?case by (simp add: ok_simps)
next
  case (Cons r rs)
  from Cons.prems obtain found u where
    f: "unless_missing (call (ad_read_playlist ta cred r)) s = (Inr found, u)"
    and g: "(case found of None \<Rightarrow> reusable_playlist ta cred ts rs
       | Some pl \<Rightarrow> if reusable ts pl then ret (Some (ref_id r)) else reusable_playlist ta cred ts rs) u
       = (Inr (Some p), t)"
    by (auto simp only: reusable_playlist.simps ok_andthen)
  from f have same: "st_work u = st_work s \<and> st_db u = st_db s" by (auto simp: ok_simps dest: call_same_db)
  show ?case
  proof (cases "\<exists>pl. found = Some pl \<and> reusable ts pl")
    case True
    then obtain pl where pl: "found = Some pl" "reusable ts pl" by blast
    with f obtain w' where "ad_read_playlist ta cred r (st_world s) = (Inr pl, w')" by (auto simp: ok_simps)
    with g pl same show ?thesis by (auto simp: ok_simps)
  next
    case False
    with g have "reusable_playlist ta cred ts rs u = (Inr (Some p), t)" by (auto split: option.splits if_splits)
    from Cons.IH [OF this] same show ?thesis by auto
  qed
qed

lemma create_target_ok:
  assumes "create_target env job ta cred p name description s = (Inr made, t)"
  shows "(\<exists>w w'. ad_create_playlist ta cred
        \<lparr>spec_name = name, spec_description = Some description, spec_public = False\<rparr> w = (Inr made, w')) \<and>
     (\<exists>l \<in> set (rows (db_ledger (st_work t))). ol_job_id l = job \<and> ol_op l = ''create_playlist'' \<and>
        ol_observed_target_id l = Some made)"
proof -
  from assms obtain w' u x where c: "ad_create_playlist ta cred
        \<lparr>spec_name = name, spec_description = Some description, spec_public = False\<rparr> (st_world s) = (Inr made, w')"
    and l: "add_ledger env job ''create_playlist''
        (JObj [(''source_playlist_id'', JStr p), (''name'', JStr name)]) (Some made) None ''done'' u = (Inr x, t)"
    by (auto simp: create_target_def ok_simps)
  from l obtain row where "dict_get (db_ledger (st_work t)) x = Some row" "ol_job_id row = job"
    "ol_op row = ''create_playlist''" "ol_observed_target_id row = Some made"
    by (auto simp: add_ledger_def ok_simps)
  then show ?thesis
    using c dict_get_rows [of "db_ledger (st_work t)" x row] by (intro conjI exI [of _ "st_world s"] exI [of _ w']) auto
qed

text \<open>
  C6. A migration writes only where it may: into the library of liked tracks when that is what it
  migrates, into the playlist it was told to use, into the target of an earlier migration of the
  same playlist between the same accounts, into a playlist of the same name that is empty or
  already shares a track, or into a new private playlist, which the operation ledger then names.
\<close>

theorem target_justified:
  assumes "resolve_target_playlist env j ta cred p name description kind ts forced reuse s = (Inr target, t)"
  shows "kind = LIKED_TRACKS \<and> require_liked_tracks_target (ad_info ta) cred = Inr target \<or>
    forced = Some target \<or>
    reuse \<and> previous_target j p (st_work s) = Some target \<or>
    (\<exists>r pl w w'. ref_id r = target \<and> same_name name r \<and> ad_read_playlist ta cred r w = (Inr pl, w') \<and>
       reusable ts pl) \<or>
    (\<exists>w w'. ad_create_playlist ta cred
        \<lparr>spec_name = name, spec_description = Some description, spec_public = False\<rparr> w = (Inr target, w')) \<and>
    (\<exists>l \<in> set (rows (db_ledger (st_work t))). ol_job_id l = mj_id j \<and> ol_op l = ''create_playlist'' \<and>
        ol_observed_target_id l = Some target)"
proof (cases "kind = LIKED_TRACKS \<or> truthy forced")
  case True
  with assms show ?thesis
    by (auto simp: resolve_target_playlist_def ok_simps truthy_def split: if_splits option.splits)
next
  case False
  with assms obtain previous there u v where
    pr: "(if reuse then previous_target_playlist_id j p else ret None) s = (Inr previous, u)"
    and th: "(if truthy previous then target_playlist_exists ta cred (the previous) else ret False) u = (Inr there, v)"
    and rest: "(if there then ret (the previous)
        else
          andthen (call (collect (ad_iter_playlists ta cred))) (\<lambda>refs.
          andthen (reusable_playlist ta cred ts (filter (same_name name) refs)) (\<lambda>reused.
          case reused of
            Some r \<Rightarrow> ret r
          | None \<Rightarrow> create_target env (mj_id j) ta cred p name description))) v = (Inr target, t)"
    by (simp add: resolve_target_playlist_def ok_simps) blast
  from pr have u: "u = s" "previous = (if reuse then previous_target j p (st_work s) else None)"
    by (auto simp: previous_target_playlist_id_def ok_simps split: if_splits)
  show ?thesis
  proof (cases there)
    case True
    with th have "truthy previous" by (auto simp: ok_simps split: if_splits)
    with True rest u show ?thesis by (auto simp: ok_simps truthy_def split: if_splits option.splits)
  next
    case False
    with rest obtain refs reused x y where
      f: "reusable_playlist ta cred ts (filter (same_name name) refs) x = (Inr reused, y)"
      and c: "(case reused of Some r \<Rightarrow> ret r
          | None \<Rightarrow> create_target env (mj_id j) ta cred p name description) y = (Inr target, t)"
      by (auto simp: ok_simps)
    show ?thesis
    proof (cases reused)
      case None
      with c create_target_ok [of env "mj_id j" ta cred p name description y target t] show ?thesis by simp
    next
      case (Some r)
      with c have "reused = Some target" by (simp add: ok_simps)
      from reusable_playlist_sound [OF f [unfolded this]] obtain r pl w w' where
        "same_name name r" "ref_id r = target" "ad_read_playlist ta cred r w = (Inr pl, w')" "reusable ts pl"
        by fastforce
      then show ?thesis by (intro disjI2 disjI1 exI conjI)
    qed
  qed
qed

theorem target_justified_witness:
  "\<exists>target t. resolve_target_playlist sample_env (sample_job ''j1'') fake_adapter (fake_cred ''fake'') ''pl-9''
       ''Unseen'' ''d'' STANDARD [] None False (engine_on empty_db) = (Inr target, t) \<and> target \<noteq> ''pl-1'' \<and>
     ((\<exists>r pl w w'. ref_id r = target \<and> same_name ''Unseen'' r \<and>
         ad_read_playlist fake_adapter (fake_cred ''fake'') r w = (Inr pl, w') \<and> reusable [] pl) \<or>
      (\<exists>l \<in> set (rows (db_ledger (st_work t))). ol_op l = ''create_playlist'' \<and> ol_observed_target_id l = Some target))"
proof -
  have refs: "filter (same_name ''Unseen'') (map (\<lambda>(k, p). (new_ref (or_str (pl_id p) []) (pl_name p))
         \<lparr>ref_track_count := Some (int (length (pl_tracks p)))\<rparr>) (fw_library fake_start)) = []"
    by code_simp
  have "\<exists>target t. resolve_target_playlist sample_env (sample_job ''j1'') fake_adapter (fake_cred ''fake'') ''pl-9''
       ''Unseen'' ''d'' STANDARD [] None False (engine_on empty_db) = (Inr target, t) \<and> target \<noteq> ''pl-1''"
    by (simp add: resolve_target_playlist_def run_simps fake_adapter_def fake_iter_playlists_def collect_def
        engine_on_def refs create_target_def add_ledger_def fake_create_playlist_def Let_def)
  then obtain target t where r: "resolve_target_playlist sample_env (sample_job ''j1'') fake_adapter (fake_cred ''fake'')
       ''pl-9'' ''Unseen'' ''d'' STANDARD [] None False (engine_on empty_db) = (Inr target, t)" and n: "target \<noteq> ''pl-1''"
    by blast
  have "((\<exists>r pl w w'. ref_id r = target \<and> same_name ''Unseen'' r \<and>
         ad_read_playlist fake_adapter (fake_cred ''fake'') r w = (Inr pl, w') \<and> reusable [] pl) \<or>
      (\<exists>l \<in> set (rows (db_ledger (st_work t))). ol_op l = ''create_playlist'' \<and> ol_observed_target_id l = Some target))"
    using target_justified [OF r] by (elim disjE conjE bexE) (auto simp del: fun_upd_apply)
  with r n show ?thesis by blast
qed

section \<open>What earlier reviews decide\<close>

text \<open>The identifier is the one among the keys of the URI.\<close>

lemma provider_track_id_key:
  "k \<in> uri_keys (Some uri) \<Longrightarrow> starts_with ''id:'' k \<Longrightarrow> k = ''id:'' @ provider_track_id uri"
  by (auto simp: uri_keys_def provider_track_id_def Let_def starts_with_def split: if_splits option.splits)

lemma round4_bonus: "x \<le> round4 (x + review_history_bonus)"
proof -
  have "(x + 1 / 10) * 10000 - 1 \<le> of_int \<lfloor>(x + 1 / 10) * 10000\<rfloor>" by linarith
  also have "\<dots> \<le> of_int (round_half_even ((x + 1 / 10) * 10000))"
    by (simp add: round_half_even_def Let_def)
  finally show ?thesis by (simp add: round4_def review_history_bonus_def field_simps)
qed

text \<open>
  What a user approved in an earlier migration is reused only within the history of that user
  and only for a track that shares a key with the approved one; it can raise the confidence of a
  match and never lowers it below the smaller of one and what it was; and the match goes back to
  review exactly when the raised confidence is still below the threshold.
\<close>

lemma review_reuse_scoped:
  fixes j d t r threshold
  defines "r' \<equiv> apply_review_history_bonus (previous_reviewed j E_TRACK threshold d) t r threshold"
  shows "r' = r \<or>
    (\<exists>q \<in> set (rows (db_decisions d)). rd_user_id q = mj_user_id j \<and> rd_action q = ''approve'' \<and>
       rd_job_id q \<noteq> mj_id j \<and> track_keys t \<inter> decision_source_keys q \<noteq> {} \<and>
       mt_candidate r' = Some (candidate_from_reviewed_item q) \<and>
       min 1 (mt_confidence r) \<le> mt_confidence r' \<and> mt_confidence r' \<le> 1 \<and>
       mt_needs_review r' = (mt_confidence r' < threshold))"
proof (cases "prior_reviewed_item t (previous_reviewed j E_TRACK threshold d) threshold")
  case None
  then show ?thesis by (simp add: r'_def apply_review_history_bonus_def)
next
  case (Some q)
  then have q: "q \<in> set (previous_reviewed j E_TRACK threshold d)" "track_keys t \<inter> decision_source_keys q \<noteq> {}"
    by (auto simp: prior_reviewed_item_def Let_def find_Some_iff split: if_splits)
  let ?m = "max (mt_confidence r) (rd_confidence q)"
  have le: "mt_confidence r \<le> round4 (?m + review_history_bonus)" using round4_bonus [of ?m] by simp
  show ?thesis
  proof (cases "rd_target_uri q = []")
    case True
    with Some show ?thesis by (simp add: r'_def apply_review_history_bonus_def)
  next
    case False
    with Some have r': "r' = \<lparr>mt_candidate = Some (candidate_from_reviewed_item q),
        mt_confidence = min 1 (round4 (?m + review_history_bonus)), mt_source = ''review_history'',
        mt_needs_review = min 1 (round4 (?m + review_history_bonus)) < threshold,
        mt_review_reason = (if min 1 (round4 (?m + review_history_bonus)) < threshold
           then Some ''Previously accepted in another migration; confirm this match again.'' else None)\<rparr>"
      by (simp add: r'_def apply_review_history_bonus_def Let_def)
    from q(1) have "q \<in> set (rows (db_decisions d))" "rd_user_id q = mj_user_id j" "rd_action q = ''approve''"
      "rd_job_id q \<noteq> mj_id j"
      by (simp_all add: previous_reviewed_def order_desc_def select_rows_def)
    with q(2) le show ?thesis unfolding r' by (intro disjI2 bexI [of _ q]) auto
  qed
qed

end
