(* ===== verification/Migration_Library.thy ===== *)
theory Migration_Library
  imports Migration_Target
begin

text \<open>
  The library part of a migration (\<open>app/jobs/migration.py\<close>): saved albums and followed artists
  are read, matched or taken from an earlier review, checked against the target library and
  written in batches. The entity type selects the operations, as in the code.
\<close>

section \<open>Entities and the two libraries\<close>

datatype library_entity = Album_Entity album | Artist_Entity artist

datatype 'w library_source = Album_Source "'w album_reader" | Artist_Source "'w artist_reader"

datatype 'w library_target = Album_Target "'w album_writer" | Artist_Target "'w artist_writer"

definition require_saved_album_reader :: "'w adapter \<Rightarrow> exn + 'w library_source" where
  "require_saved_album_reader a = (case ad_album_reader a of
      None \<Rightarrow> Inl (ProviderError (inf_display_name (ad_info a) @ '' cannot read saved albums''))
    | Some r \<Rightarrow> Inr (Album_Source r))"

definition require_saved_album_writer :: "'w adapter \<Rightarrow> exn + 'w library_target" where
  "require_saved_album_writer a = (case ad_album_writer a of
      None \<Rightarrow> Inl (ProviderError (inf_display_name (ad_info a) @ '' cannot write saved albums''))
    | Some w \<Rightarrow> Inr (Album_Target w))"

definition require_followed_artist_reader :: "'w adapter \<Rightarrow> exn + 'w library_source" where
  "require_followed_artist_reader a = (case ad_artist_reader a of
      None \<Rightarrow> Inl (ProviderError (inf_display_name (ad_info a) @
                '' cannot read followed or favorite artists''))
    | Some r \<Rightarrow> Inr (Artist_Source r))"

definition require_followed_artist_writer :: "'w adapter \<Rightarrow> exn + 'w library_target" where
  "require_followed_artist_writer a = (case ad_artist_writer a of
      None \<Rightarrow> Inl (ProviderError (inf_display_name (ad_info a) @
                '' cannot write followed or favorite artists''))
    | Some w \<Rightarrow> Inr (Artist_Target w))"

definition source_contains :: "'w library_source \<Rightarrow> credential \<Rightarrow> string list \<Rightarrow> ('w, exn, bool list) proc" where
  "source_contains src cred ids = (case src of
      Album_Source r \<Rightarrow> alr_contains r cred ids | Artist_Source r \<Rightarrow> arr_contains r cred ids)"

definition read_entity :: "'w library_source \<Rightarrow> credential \<Rightarrow> string \<Rightarrow> ('w, exn, library_entity) proc" where
  "read_entity src cred i = (case src of
      Album_Source r \<Rightarrow> andthen (alr_read r cred i) (\<lambda>a. ret (Album_Entity a))
    | Artist_Source r \<Rightarrow> andthen (arr_read r cred i) (\<lambda>a. ret (Artist_Entity a)))"

definition target_contains :: "'w library_target \<Rightarrow> credential \<Rightarrow> string list \<Rightarrow> ('w, exn, bool list) proc" where
  "target_contains tgt cred uris = (case tgt of
      Album_Target w \<Rightarrow> alw_contains w cred uris | Artist_Target w \<Rightarrow> arw_contains w cred uris)"

definition target_save ::
  "'w library_target \<Rightarrow> credential \<Rightarrow> string list \<Rightarrow> ('w, exn, add_item_result list) proc"
where
  "target_save tgt cred uris = (case tgt of
      Album_Target w \<Rightarrow> alw_save w cred uris | Artist_Target w \<Rightarrow> arw_follow w cred uris)"

definition validate_entity_uri :: "'w library_target \<Rightarrow> credential \<Rightarrow> string \<Rightarrow> ('w, exn, bool) proc" where
  "validate_entity_uri tgt cred uri = (case tgt of
      Album_Target w \<Rightarrow> alw_validate w cred uri | Artist_Target w \<Rightarrow> arw_validate w cred uri)"

text \<open>Of a match the migration uses the candidate's identifier and URI.\<close>

type_synonym entity_match = "(string \<times> string) library_result"

definition chosen :: "('c \<Rightarrow> string \<times> string) \<Rightarrow> 'c library_result \<Rightarrow> entity_match" where
  "chosen f r =
     \<lparr>lm_candidate = map_option f (lm_candidate r), lm_confidence = lm_confidence r,
      lm_source = lm_source r, lm_needs_review = lm_needs_review r,
      lm_review_reason = lm_review_reason r\<rparr>"

definition album_choice :: "album_candidate \<Rightarrow> string \<times> string" where
  "album_choice c = (acand_album_id c, acand_uri c)"

definition artist_choice :: "artist_candidate \<Rightarrow> string \<times> string" where
  "artist_choice c = (rcand_artist_id c, rcand_uri c)"

definition resolve_entity ::
  "rat \<Rightarrow> provider_info \<Rightarrow> 'w library_target \<Rightarrow> credential \<Rightarrow> library_entity \<Rightarrow> ('w, exn, entity_match) proc"
where
  "resolve_entity threshold info tgt cred ent = (case (tgt, ent) of
      (Album_Target w, Album_Entity a) \<Rightarrow>
        andthen (resolve_album threshold info w cred a) (\<lambda>r. ret (chosen album_choice r))
    | (Artist_Target w, Artist_Entity a) \<Rightarrow>
        andthen (resolve_artist info w cred a) (\<lambda>r. ret (chosen artist_choice r))
    | _ \<Rightarrow> throw (TypeError ''the entity is of another kind than the library''))"

section \<open>Items\<close>

definition pending_library_item :: "string \<Rightarrow> string \<Rightarrow> entity_type \<Rightarrow> string \<Rightarrow> int \<Rightarrow> int \<Rightarrow> job_item" where
  "pending_library_item i job e entity pos now =
     \<lparr>ji_id = i, ji_job_id = job, ji_entity_type = e, ji_source_playlist_id = None,
      ji_source_playlist_name = None, ji_target_playlist_id = None,
      ji_source_entity_id = Some entity, ji_source_entity_name = Some entity,
      ji_target_entity_id = None, ji_position = pos, ji_title = entity, ji_artist = entity,
      ji_album = None, ji_duration_s = None, ji_release_year = None, ji_explicit = None,
      ji_isrc = None, ji_source_metadata = [(''id'', JStr entity)], ji_target_uri = None,
      ji_confidence = None, ji_status = ''pending'', ji_reason = None, ji_review_action = None,
      ji_created_at = now, ji_updated_at = now, ji_review_original_status = None,
      ji_review_original_reason = None, ji_reviewed_at = None\<rparr>"

definition album_members :: "album \<Rightarrow> members" where
  "album_members a =
     [(''id'', opt_str (alb_id a)), (''title'', JStr (alb_title a)),
      (''artists'', JList (map JStr (alb_artists a))), (''upc'', opt_str (alb_upc a)),
      (''release_date'', opt_str (map_option date_text (alb_release_date a))),
      (''release_year'', opt_int (alb_release_year a)),
      (''artwork_uri'', opt_str (alb_artwork_uri a)),
      (''provider_uris'', JObj (map (\<lambda>(k, v). (k, JStr v)) (alb_provider_uris a))),
      (''metadata'', JObj (alb_metadata a)), (''source_item_id'', opt_str (alb_source_item_id a)),
      (''added_at'', opt_str (alb_added_at a))]"

definition artist_members :: "artist \<Rightarrow> members" where
  "artist_members a =
     [(''id'', opt_str (art_id a)), (''name'', JStr (art_name a)),
      (''artwork_uri'', opt_str (art_artwork_uri a)),
      (''provider_uris'', JObj (map (\<lambda>(k, v). (k, JStr v)) (art_provider_uris a))),
      (''metadata'', JObj (art_metadata a)), (''source_item_id'', opt_str (art_source_item_id a)),
      (''added_at'', opt_str (art_added_at a))]"

definition populate_item :: "entity_type \<Rightarrow> library_entity \<Rightarrow> job_item \<Rightarrow> exn + job_item" where
  "populate_item e ent i = (case (e, ent) of
      (E_ALBUM, Album_Entity a) \<Rightarrow>
        let artist = join '', '' (alb_artists a) in
        Inr (i\<lparr>ji_source_entity_id := or_else (alb_source_item_id a) (alb_id a),
               ji_source_entity_name := Some (alb_title a), ji_title := alb_title a,
               ji_artist := (if artist = [] then ''Unknown'' else artist),
               ji_release_year := album_year a, ji_source_metadata := album_members a\<rparr>)
    | (E_ARTIST, Artist_Entity a) \<Rightarrow>
        Inr (i\<lparr>ji_source_entity_id := or_else (art_source_item_id a) (art_id a),
               ji_source_entity_name := Some (art_name a), ji_title := art_name a,
               ji_artist := art_name a, ji_release_year := None,
               ji_source_metadata := artist_members a\<rparr>)
    | _ \<Rightarrow> Inl (ValueError (''invalid '' @ entity_value e @ '' entity'')))"

definition populate_library_item :: "string \<Rightarrow> entity_type \<Rightarrow> library_entity \<Rightarrow> ('w, unit) handler" where
  "populate_library_item i e ent =
     andthen (get_item i) (\<lambda>r. andthen (expect (populate_item e ent r)) (\<lambda>r'. edit_item i (\<lambda>_. r')))"

definition artist_action :: "provider_info \<Rightarrow> string" where
  "artist_action info =
     (if inf_artist_semantics info = Some FAVORITE then ''favorited'' else ''followed'')"

definition source_library_missing_reason :: "provider_info \<Rightarrow> entity_type \<Rightarrow> string" where
  "source_library_missing_reason info e =
     (if e = E_ALBUM then ''album is no longer saved in the source library''
      else ''artist is no longer '' @ artist_action info @ '' in the source library'')"

definition library_duplicate_reason :: "provider_info \<Rightarrow> entity_type \<Rightarrow> string" where
  "library_duplicate_reason info e =
     (if e = E_ALBUM then ''album already saved in target library''
      else ''artist already '' @ artist_action info @ '' in target library'')"

section \<open>Reviewed library items\<close>

definition entity_id :: "library_entity \<Rightarrow> string option" where
  "entity_id ent = (case ent of Album_Entity a \<Rightarrow> alb_id a | Artist_Entity a \<Rightarrow> art_id a)"

definition entity_uris :: "library_entity \<Rightarrow> (string, string) dict" where
  "entity_uris ent = (case ent of Album_Entity a \<Rightarrow> alb_provider_uris a | Artist_Entity a \<Rightarrow> art_provider_uris a)"

definition entity_upc :: "library_entity \<Rightarrow> string option" where
  "entity_upc ent = (case ent of Album_Entity a \<Rightarrow> alb_upc a | Artist_Entity a \<Rightarrow> None)"

definition same_entity :: "entity_type \<Rightarrow> library_entity \<Rightarrow> review_decision \<Rightarrow> bool" where
  "same_entity e ent r =
     (let m = rd_source_metadata r;
          source_uri = (case dict_get m ''provider_uris'' of
              Some (JObj us) \<Rightarrow> dict_get us (rd_source_provider r) | _ \<Rightarrow> None);
          current = dict_get (entity_uris ent) (rd_source_provider r)
      in rd_entity_type r = e \<and>
         (truthy (entity_id ent) \<and> rd_source_entity_id r = entity_id ent \<or>
          truthy current \<and> source_uri = Some (JStr (the current)) \<or>
          e = E_ALBUM \<and> truthy (entity_upc ent) \<and>
            upper (meta_str m ''upc'' None) = upper (the (entity_upc ent))))"

definition prior_library_review_decision ::
  "entity_type \<Rightarrow> library_entity \<Rightarrow> review_decision list \<Rightarrow> review_decision option"
where
  "prior_library_review_decision e ent history = find (same_entity e ent) history"

definition reviewed_choice :: "library_entity \<Rightarrow> review_decision \<Rightarrow> entity_match" where
  "reviewed_choice ent r =
     (let i = or_str (rd_target_entity_id r) (provider_track_id (rd_target_uri r)) in
      \<lparr>lm_candidate = Some (case ent of
          Album_Entity a \<Rightarrow> album_choice (same_album a i (rd_target_uri r))
        | Artist_Entity a \<Rightarrow> artist_choice (same_artist a i (rd_target_uri r))),
       lm_confidence = rd_confidence r, lm_source = ''review_history'',
       lm_needs_review = False, lm_review_reason = None\<rparr>)"

definition library_review_history_result ::
  "entity_type \<Rightarrow> library_entity \<Rightarrow> 'w library_target \<Rightarrow> credential \<Rightarrow> review_decision list \<Rightarrow>
     ('w, exn, entity_match option) proc"
where
  "library_review_history_result e ent tgt cred history =
     (case prior_library_review_decision e ent history of
        None \<Rightarrow> ret None
      | Some r \<Rightarrow>
          andthen (validate_entity_uri tgt cred (rd_target_uri r)) (\<lambda>ok.
          ret (if ok then Some (reviewed_choice ent r) else None)))"

section \<open>Writing to the library\<close>

text \<open>\<open>xs[:n]\<close> and \<open>xs[n:]\<close>, where a negative bound counts from the end.\<close>

definition slice_point :: "int \<Rightarrow> 'a list \<Rightarrow> nat" where
  "slice_point n xs = (if 0 \<le> n then nat n else length xs - nat (- n))"

definition fail_all :: "string \<Rightarrow> string list \<Rightarrow> string \<Rightarrow> ('w, unit) handler" where
  "fail_all job ids reason = andthen (fail_items ids reason) (\<lambda>_. commit_job_counts job)"

definition library_operation :: "entity_type \<Rightarrow> string" where
  "library_operation e = (if e = E_ALBUM then ''save_album'' else ''follow_artist'')"

definition mark_library_result ::
  "provider_info \<Rightarrow> entity_type \<Rightarrow> string \<Rightarrow> add_item_result \<Rightarrow> ('w, unit) handler"
where
  "mark_library_result info e i r =
     (if ar_already_present r then mark_item i ''skipped'' (Some (library_duplicate_reason info e))
      else if ar_ok r then mark_item i ''written'' None
      else mark_item i ''failed'' (Some (or_str (ar_error r) ''target rejected library item'')))"

definition record_library_result ::
  "'w env \<Rightarrow> string \<Rightarrow> provider_info \<Rightarrow> entity_type \<Rightarrow> string \<times> add_item_result \<Rightarrow> ('w, unit) handler"
where
  "record_library_result env job info e x = (case x of (i, r) \<Rightarrow>
     andthen (get_item i) (\<lambda>row.
     andthen (add_ledger env job (library_operation e)
        (JObj [(''entity_type'', JStr (entity_value e)),
               (''source_entity_id'', opt_str (ji_source_entity_id row)), (''uri'', JStr (ar_uri r))])
        (if ar_ok r then ji_target_entity_id row else None) None
        (if ar_ok r then ''done'' else ''ambiguous'')) (\<lambda>_.
     andthen (mark_library_result info e i r) (\<lambda>_. commit_job_counts job))))"

text \<open>An item the target library already holds is skipped; the others are written.\<close>

definition skip_present ::
  "string \<Rightarrow> provider_info \<Rightarrow> entity_type \<Rightarrow> string list \<Rightarrow> string \<times> bool \<Rightarrow> ('w, string list) handler"
where
  "skip_present job info e kept x = (case x of (i, there) \<Rightarrow>
     andthen (if there then mark_item i ''skipped'' (Some (library_duplicate_reason info e)) else ret ()) (\<lambda>_.
     andthen (commit_job_counts job) (\<lambda>_. ret (if there then kept else kept @ [i]))))"

definition save_library_items ::
  "'w env \<Rightarrow> string \<Rightarrow> provider_info \<Rightarrow> entity_type \<Rightarrow> 'w library_target \<Rightarrow> credential \<Rightarrow> string list \<Rightarrow>
     ('w, unit) handler"
where
  "save_library_items env job info e tgt cred kept =
     andthen (item_uris kept) (\<lambda>uris.
     andthen (attempt (call (target_save tgt cred uris))) (\<lambda>outcome.
     case outcome of
       Inl ex \<Rightarrow> if is_provider_error ex then fail_all job kept (exn_text ex) else throw ex
     | Inr results \<Rightarrow>
         andthen (for_each (zip kept results) (record_library_result env job info e)) (\<lambda>_.
         for_each (drop (length results) kept) (\<lambda>i.
           andthen (mark_item i ''failed'' (Some ''target did not return a result for this library item''))
             (\<lambda>_. commit_job_counts job)))))"

definition write_library_items ::
  "'w env \<Rightarrow> string \<Rightarrow> provider_info \<Rightarrow> entity_type \<Rightarrow> 'w library_target \<Rightarrow> credential \<Rightarrow> string list \<Rightarrow>
     ('w, unit) handler"
where
  "write_library_items env job info e tgt cred ids =
     andthen (item_uris ids) (\<lambda>uris.
     andthen (attempt (call (target_contains tgt cred uris))) (\<lambda>outcome.
     case outcome of
       Inl ex \<Rightarrow> if is_provider_error ex then fail_all job ids (exn_text ex) else throw ex
     | Inr present \<Rightarrow>
         if length present \<noteq> length ids
         then fail_all job ids ''target returned an invalid library contains response''
         else andthen (fold_each (zip ids present) [] (skip_present job info e)) (\<lambda>kept.
              if kept = [] then ret () else save_library_items env job info e tgt cred kept)))"

section \<open>Migrating a library\<close>

definition create_library_items ::
  "'w env \<Rightarrow> string \<Rightarrow> entity_type \<Rightarrow> string list \<Rightarrow> ('w, string list) handler"
where
  "create_library_items env job e entities =
     andthen (fold_each (List.enumerate 0 entities) [] (\<lambda>ids (k, entity).
        andthen (uuid4 env) (\<lambda>i. andthen utcnow (\<lambda>now.
        andthen (edit (\<lambda>d. d\<lparr>db_items := dict_set i (pending_library_item i job e entity (int k) now) (db_items d)\<rparr>))
          (\<lambda>_. ret (ids @ [i])))))) (\<lambda>ids.
     andthen (commit_job_counts job) (\<lambda>_. ret ids))"

definition mark_commit :: "string \<Rightarrow> string \<Rightarrow> string \<Rightarrow> string option \<Rightarrow> ('w, unit) handler" where
  "mark_commit job i status reason = andthen (mark_item i status reason) (\<lambda>_. commit_job_counts job)"

text \<open>
  What the migration knows of a library: the job, the entity type, both sides with their
  credentials, and the reviewed decisions.
\<close>

record 'w library_run =
  lr_job :: string
  lr_type :: entity_type
  lr_source_info :: provider_info
  lr_source :: "'w library_source"
  lr_source_cred :: credential
  lr_target_info :: provider_info
  lr_target :: "'w library_target"
  lr_target_cred :: credential
  lr_threshold :: rat
  lr_history :: "review_decision list"

definition match_entity :: "'w library_run \<Rightarrow> library_entity \<Rightarrow> ('w, entity_match) handler" where
  "match_entity run ent =
     andthen (call (library_review_history_result (lr_type run) ent (lr_target run) (lr_target_cred run)
        (lr_history run))) (\<lambda>reviewed.
     case reviewed of
       Some r \<Rightarrow> ret r
     | None \<Rightarrow> call (resolve_entity (lr_threshold run) (lr_target_info run) (lr_target run)
         (lr_target_cred run) ent))"

definition write_chunk :: "'w env \<Rightarrow> 'w library_run \<Rightarrow> string list \<Rightarrow> ('w, unit) handler" where
  "write_chunk env run ids =
     write_library_items env (lr_job run) (lr_target_info run) (lr_type run) (lr_target run)
       (lr_target_cred run) ids"

definition flush_library :: "'w env \<Rightarrow> 'w library_run \<Rightarrow> string list \<Rightarrow> ('w, string list) handler" where
  "flush_library env run matched =
     (let batch = cap_max_library_batch (inf_capabilities (lr_target_info run));
          n = slice_point batch matched
      in if batch \<le> int (length matched)
         then andthen (write_chunk env run (take n matched)) (\<lambda>_. ret (drop n matched))
         else ret matched)"

definition settle_match ::
  "'w env \<Rightarrow> 'w library_run \<Rightarrow> string list \<Rightarrow> string \<Rightarrow> entity_match \<Rightarrow> ('w, string list) handler"
where
  "settle_match env run matched i r =
     andthen (edit_item i (\<lambda>x. x\<lparr>ji_confidence := Some (lm_confidence r)\<rparr>)) (\<lambda>_.
     case lm_candidate r of
       None \<Rightarrow> andthen (mark_commit (lr_job run) i ''needs_review''
           (Some (or_str (lm_review_reason r) ''no target match found''))) (\<lambda>_. ret matched)
     | Some (entity, uri) \<Rightarrow>
         andthen (edit_item i (\<lambda>x. x\<lparr>ji_target_uri := Some uri, ji_target_entity_id := Some entity\<rparr>)) (\<lambda>_.
         if lm_needs_review r
         then andthen (mark_commit (lr_job run) i ''needs_review''
                (Some (or_str (lm_review_reason r) ''target match requires review''))) (\<lambda>_. ret matched)
         else
           andthen (edit_item i (\<lambda>x. x\<lparr>ji_status := ''matched''\<rparr>)) (\<lambda>_.
           andthen (commit_job_counts (lr_job run)) (\<lambda>_.
           flush_library env run (matched @ [i])))))"

definition fail_on_provider_error ::
  "string \<Rightarrow> string \<Rightarrow> 'a \<Rightarrow> exn \<Rightarrow> ('w, 'a) handler"
where
  "fail_on_provider_error job i kept ex =
     (if is_provider_error ex then andthen (mark_commit job i ''failed'' (Some (exn_text ex))) (\<lambda>_. ret kept)
      else throw ex)"

definition migrate_entity ::
  "'w env \<Rightarrow> 'w library_run \<Rightarrow> string list \<Rightarrow> string \<times> string \<times> bool \<Rightarrow> ('w, string list) handler"
where
  "migrate_entity env run matched x = (case x of (i, entity, present) \<Rightarrow>
     if \<not> present
     then andthen (mark_commit (lr_job run) i ''skipped''
            (Some (source_library_missing_reason (lr_source_info run) (lr_type run)))) (\<lambda>_. ret matched)
     else
       andthen (attempt (call (read_entity (lr_source run) (lr_source_cred run) entity))) (\<lambda>got.
       case got of
         Inl ex \<Rightarrow> fail_on_provider_error (lr_job run) i matched ex
       | Inr ent \<Rightarrow>
           andthen (populate_library_item i (lr_type run) ent) (\<lambda>_.
           andthen (commit_job_counts (lr_job run)) (\<lambda>_.
           andthen (attempt (match_entity run ent)) (\<lambda>found.
           case found of
             Inl ex \<Rightarrow> fail_on_provider_error (lr_job run) i matched ex
           | Inr r \<Rightarrow> settle_match env run matched i r)))))"

definition migrate_library_entities :: "'w env \<Rightarrow> 'w library_run \<Rightarrow> string list \<Rightarrow> ('w, unit) handler" where
  "migrate_library_entities env run entities =
     andthen (create_library_items env (lr_job run) (lr_type run) entities) (\<lambda>ids.
     andthen (attempt (call (source_contains (lr_source run) (lr_source_cred run) entities))) (\<lambda>got.
     case got of
       Inl ex \<Rightarrow> if is_provider_error ex then fail_all (lr_job run) ids (exn_text ex) else throw ex
     | Inr present \<Rightarrow>
         if length present \<noteq> length ids
         then fail_all (lr_job run) ids ''source returned an invalid library membership response''
         else
           andthen (fold_each (zip ids (zip entities present)) [] (migrate_entity env run)) (\<lambda>matched.
           if matched = [] then ret () else write_chunk env run matched)))"

section \<open>Every item of a library migration is settled\<close>

definition settled_statuses :: "string set" where
  "settled_statuses = {''written'', ''skipped'', ''failed'', ''needs_review''}"

lemma fail_all_moves: "fail_all job ids reason s = (Inr u, t) \<Longrightarrow> ''failed'' \<in> X \<Longrightarrow> moves (set ids) X s t"
  unfolding fail_all_def ok_andthen
  by (elim exE conjE) (drule (1) fail_items_moves, drule moves_quiet(1) [where X = X], drule (1) moves_trans, simp)

lemma record_library_result_moves:
  assumes "record_library_result env job info e x s = (Inr u, t)"
  shows "moves {fst x} settled_statuses s t"
proof -
  obtain i r where x: "x = (i, r)" by force
  from assms obtain intent observed y v m0 w where
    l: "add_ledger env job (library_operation e) intent observed None
        (if ar_ok r then ''done'' else ''ambiguous'') s = (Inr y, v)"
    and m: "mark_library_result info e i r v = (Inr m0, w)"
    and c: "commit_job_counts job w = (Inr u, t)"
    unfolding record_library_result_def x prod.case ok_andthen get_item_ok by metis
  from m have "moves {i} settled_statuses v t"
    by (cases "ar_already_present r"; cases "ar_ok r")
      (simp_all add: mark_library_result_def settled_statuses_def moves_mark_commit [OF _ c])
  with moves_trans [OF moves_quiet(2) [OF l] this] show ?thesis by (simp add: x)
qed

lemma save_library_items_moves:
  assumes "save_library_items env job info e tgt cred kept s = (Inr u, t)"
  shows "moves (set kept) settled_statuses s t"
proof -
  from assms obtain uris v outcome w where r: "item_uris kept s = (Inr uris, v)"
    and c: "call (target_save tgt cred uris) v = (outcome, w)"
    and o: "(case outcome of
       Inl ex \<Rightarrow> if is_provider_error ex then fail_all job kept (exn_text ex) else throw ex
     | Inr results \<Rightarrow>
         andthen (for_each (zip kept results) (record_library_result env job info e)) (\<lambda>_.
         for_each (drop (length results) kept) (\<lambda>i.
           andthen (mark_item i ''failed'' (Some ''target did not return a result for this library item''))
             (\<lambda>_. commit_job_counts job)))) w = (Inr u, t)"
    by (auto simp: save_library_items_def ok_simps)
  have "moves (set kept) settled_statuses w t"
  proof (cases outcome)
    case (Inl ex)
    with o show ?thesis by (auto simp: ok_simps settled_statuses_def intro: fail_all_moves split: if_splits)
  next
    case (Inr results)
    with o obtain x where z: "for_each (zip kept results) (record_library_result env job info e) w = (Inr (), x)"
      and d: "for_each (drop (length results) kept) (\<lambda>i.
           andthen (mark_item i ''failed'' (Some ''target did not return a result for this library item''))
             (\<lambda>_. commit_job_counts job)) x = (Inr u, t)"
      by (auto simp: ok_simps)
    have "moves (\<Union>y \<in> set (zip kept results). {fst y}) settled_statuses w x"
      by (rule moves_each [OF z]) (rule record_library_result_moves)
    then have "moves (fst ` set (zip kept results)) settled_statuses w x" by (simp add: UNION_singleton_eq_range)
    from moves_trans [OF this fail_each_moves [OF d]] show ?thesis
      by (simp add: set_zip_rest [of kept results] settled_statuses_def)
  qed
  with moves_trans [OF moves_quiet(3) [OF c] this] item_uris_same [OF r] show ?thesis by simp
qed

lemma skip_present_moves:
  assumes "fold_each xs kept0 (skip_present job info e) s = (Inr kept, t)"
  shows "\<exists>K. K \<union> set kept = fst ` set xs \<union> set kept0 \<and> moves K settled_statuses s t"
  using assms
proof (induction xs arbitrary: kept0 s)
  case Nil
  then show ?case by (auto simp: ok_simps intro: moves_refl)
next
  case (Cons x xs)
  obtain i b where x: "x = (i, b)" by force
  from Cons.prems obtain kept1 u where a: "skip_present job info e kept0 x s = (Inr kept1, u)"
    and r: "fold_each xs kept1 (skip_present job info e) u = (Inr kept, t)"
    by (auto simp: ok_simps)
  from Cons.IH [OF r] obtain K where K: "K \<union> set kept = fst ` set xs \<union> set kept1" and m: "moves K settled_statuses u t"
    by blast
  from a obtain y v z where b: "(if b then mark_item i ''skipped'' (Some (library_duplicate_reason info e)) else ret ()) s = (Inr y, v)"
    and c: "commit_job_counts job v = (Inr z, u)" and k1: "kept1 = (if b then kept0 else kept0 @ [i])"
    unfolding skip_present_def x prod.case ok_andthen ok_ret by metis
  show ?case
  proof (cases b)
    case True
    with b have "moves {i} settled_statuses s u"
      by (auto intro: moves_mark_commit [OF _ c] simp: settled_statuses_def)
    from moves_trans [OF this m] K k1 True show ?thesis by (intro exI [of _ "{i} \<union> K"]) (auto simp: x)
  next
    case False
    with b have "moves {} settled_statuses s u" using moves_quiet(1) [OF c] by (auto simp: ok_simps)
    from moves_trans [OF this m] K k1 False show ?thesis by (intro exI [of _ K]) (auto simp: x)
  qed
qed

lemma write_library_items_moves:
  assumes "write_library_items env job info e tgt cred ids s = (Inr u, t)"
  shows "moves (set ids) settled_statuses s t"
proof -
  from assms obtain uris v outcome w where r: "item_uris ids s = (Inr uris, v)"
    and c: "call (target_contains tgt cred uris) v = (outcome, w)"
    and o: "(case outcome of
       Inl ex \<Rightarrow> if is_provider_error ex then fail_all job ids (exn_text ex) else throw ex
     | Inr present \<Rightarrow>
         if length present \<noteq> length ids
         then fail_all job ids ''target returned an invalid library contains response''
         else andthen (fold_each (zip ids present) [] (skip_present job info e)) (\<lambda>kept.
              if kept = [] then ret () else save_library_items env job info e tgt cred kept)) w = (Inr u, t)"
    unfolding write_library_items_def ok_andthen ok_attempt by - (elim exE conjE, rule that)
  have failing: "fail_all job ids reason w = (Inr u, t) \<Longrightarrow> moves (set ids) settled_statuses w t" for reason
    by (erule fail_all_moves) (simp add: settled_statuses_def)
  have "moves (set ids) settled_statuses w t"
  proof (cases "\<exists>present. outcome = Inr present \<and> length present = length ids")
    case False
    with o show ?thesis by (auto simp: ok_simps intro: failing split: if_splits sum.splits)
  next
    case True
    then obtain present where p: "outcome = Inr present" "length present = length ids" by blast
    with o have "andthen (fold_each (zip ids present) [] (skip_present job info e)) (\<lambda>kept.
          if kept = [] then ret () else save_library_items env job info e tgt cred kept) w = (Inr u, t)" by simp
    then obtain kept x where f: "fold_each (zip ids present) [] (skip_present job info e) w = (Inr kept, x)"
      and k: "(if kept = [] then ret () else save_library_items env job info e tgt cred kept) x = (Inr u, t)"
      unfolding ok_andthen by blast
    have "fst ` set (zip ids present) = set ids" using p(2) by (metis map_fst_zip set_map)
    with skip_present_moves [OF f] obtain K where K: "K \<union> set kept = set ids" "moves K settled_statuses w x"
      by auto
    have "moves (set kept) settled_statuses x t"
      using k by (cases "kept = []") (auto simp: ok_ret intro: moves_refl save_library_items_moves)
    from moves_trans [OF K(2) this] K(1) show ?thesis by simp
  qed
  with moves_trans [OF moves_quiet(3) [OF c] this] item_uris_same [OF r] show ?thesis by simp
qed

text \<open>A step that touches the row of one item only.\<close>

lemma moves_UNIV: "moves K X s t \<Longrightarrow> K \<subseteq> L \<Longrightarrow> moves L UNIV s t"
  unfolding moves_def using status_in_mono [of X _ t UNIV] by blast

lemma edit_item_moves:
  assumes "edit_item i f s = (Inr u, t)"
  shows "moves {i} UNIV s t"
proof -
  from assms have "dict_get (db_items (st_work t)) k = (if k = i
      then map_option (\<lambda>r. if f r = r then r else (f r)\<lparr>ji_updated_at := st_clock s\<rparr>) (dict_get (db_items (st_work s)) i)
      else dict_get (db_items (st_work s)) k)" for k
    by (auto simp: edit_item_def ok_simps)
  then have others: "k \<noteq> i \<Longrightarrow> status_in S k t = status_in S k s" and own: "status_in UNIV i t = status_in UNIV i s"
    for S k by (simp_all add: status_in_def split: option.split)
  show ?thesis
    unfolding moves_def
  proof (intro conjI allI impI ballI)
    fix S k assume "status_in S k s" and S: "k \<in> {i} \<longrightarrow> UNIV \<subseteq> S"
    then show "status_in S k t" using others own by (cases "k = i") (auto simp: top.extremum_unique)
  qed (use own in simp)
qed

lemma mark_commit_moves:
  "mark_commit job i st reason s = (Inr u, t) \<Longrightarrow> st \<in> X \<Longrightarrow> moves {i} X s t"
  by (auto simp: mark_commit_def ok_andthen intro: moves_mark_commit)

text \<open>
  One round of the loop: of the items matched so far and the new one, those of \<open>K\<close> are settled and
  the rest stays in the list; meanwhile only the row of the new item is edited.
\<close>

definition round_ok :: "string \<Rightarrow> string list \<Rightarrow> string list \<Rightarrow> 'w engine \<Rightarrow> 'w engine \<Rightarrow> bool" where
  "round_ok i matched matched' s t \<longleftrightarrow>
     (\<exists>K u. moves {i} UNIV s u \<and> moves K settled_statuses u t \<and> K \<union> set matched' = insert i (set matched))"

lemma round_okI:
  "moves L UNIV s u \<Longrightarrow> L \<subseteq> {i} \<Longrightarrow> moves K settled_statuses u t \<Longrightarrow>
     K \<union> set matched' = insert i (set matched) \<Longrightarrow> round_ok i matched matched' s t"
  unfolding round_ok_def by (blast intro: moves_UNIV)

lemma round_ok_before:
  assumes "moves L UNIV s u" and "L \<subseteq> {i}" and "round_ok i matched matched' u t"
  shows "round_ok i matched matched' s t"
proof -
  from assms(3) obtain K v where "moves {i} UNIV u v" and r: "moves K settled_statuses v t"
    "K \<union> set matched' = insert i (set matched)" unfolding round_ok_def by blast
  with assms(1,2) have "moves {i} UNIV s v" by (metis moves_trans sup.absorb2)
  with r show ?thesis unfolding round_ok_def by blast
qed

lemma round_ok_mark:
  "mark_commit job i st reason s = (Inr u, t) \<Longrightarrow> st \<in> settled_statuses \<Longrightarrow> round_ok i matched matched s t"
  by (rule round_okI [OF moves_refl, where K = "{i}"]) (auto intro: mark_commit_moves)

lemma fail_on_provider_error_round:
  "fail_on_provider_error job i matched ex s = (Inr m, t) \<Longrightarrow> round_ok i matched m s t"
  by (auto simp: fail_on_provider_error_def ok_simps settled_statuses_def intro: round_ok_mark split: if_splits)

lemma flush_library_round:
  assumes "flush_library env run (matched @ [i]) s = (Inr m, t)"
  shows "round_ok i matched m s t"
proof -
  let ?ms = "matched @ [i]"
  let ?n = "slice_point (cap_max_library_batch (inf_capabilities (lr_target_info run))) ?ms"
  have whole: "set (take ?n ?ms) \<union> set (drop ?n ?ms) = insert i (set matched)"
    by (simp only: set_append [symmetric] append_take_drop_id) auto
  from assms consider
      (chunk) "write_chunk env run (take ?n ?ms) s = (Inr (), t)" "m = drop ?n ?ms"
    | (wait) "m = ?ms" "t = s"
    by (auto simp: flush_library_def Let_def ok_simps split: if_splits)
  then show ?thesis
  proof cases
    case chunk
    have "moves (set (take ?n ?ms)) settled_statuses s t"
      by (rule write_library_items_moves [OF chunk(1) [unfolded write_chunk_def]])
    then show ?thesis by (rule round_okI [OF moves_refl empty_subsetI]) (simp only: chunk(2) whole)
  next
    case wait
    show ?thesis unfolding wait by (rule round_okI [OF moves_refl empty_subsetI moves_refl]) simp
  qed
qed

lemma settle_match_round:
  assumes "settle_match env run matched i r s = (Inr m, t)"
  shows "round_ok i matched m s t"
proof -
  let ?job = "lr_job run"
  from assms obtain x u where e: "edit_item i (\<lambda>x. x\<lparr>ji_confidence := Some (lm_confidence r)\<rparr>) s = (Inr x, u)"
    and k: "(case lm_candidate r of
       None \<Rightarrow> andthen (mark_commit ?job i ''needs_review''
           (Some (or_str (lm_review_reason r) ''no target match found''))) (\<lambda>_. ret matched)
     | Some (entity, uri) \<Rightarrow>
         andthen (edit_item i (\<lambda>x. x\<lparr>ji_target_uri := Some uri, ji_target_entity_id := Some entity\<rparr>)) (\<lambda>_.
         if lm_needs_review r
         then andthen (mark_commit ?job i ''needs_review''
                (Some (or_str (lm_review_reason r) ''target match requires review''))) (\<lambda>_. ret matched)
         else
           andthen (edit_item i (\<lambda>x. x\<lparr>ji_status := ''matched''\<rparr>)) (\<lambda>_.
           andthen (commit_job_counts ?job) (\<lambda>_. flush_library env run (matched @ [i]))))) u = (Inr m, t)"
    unfolding settle_match_def ok_andthen by - (elim exE conjE, rule that)
  have review: "andthen (mark_commit ?job i ''needs_review'' reason) (\<lambda>_. ret matched) v = (Inr m, t) \<Longrightarrow>
      round_ok i matched m v t" for reason v
    by (auto simp: ok_simps settled_statuses_def intro: round_ok_mark)
  have "round_ok i matched m u t"
  proof (cases "lm_candidate r")
    case None
    with k review show ?thesis by simp
  next
    case (Some c)
    obtain entity uri where c: "c = (entity, uri)" by force
    let ?rest = "if lm_needs_review r
         then andthen (mark_commit ?job i ''needs_review''
                (Some (or_str (lm_review_reason r) ''target match requires review''))) (\<lambda>_. ret matched)
         else
           andthen (edit_item i (\<lambda>x. x\<lparr>ji_status := ''matched''\<rparr>)) (\<lambda>_.
           andthen (commit_job_counts ?job) (\<lambda>_. flush_library env run (matched @ [i])))"
    from k Some c obtain y v where
      e2: "edit_item i (\<lambda>x. x\<lparr>ji_target_uri := Some uri, ji_target_entity_id := Some entity\<rparr>) u = (Inr y, v)"
      and rest: "?rest v = (Inr m, t)" by (auto simp: ok_andthen)
    have "round_ok i matched m v t"
    proof (cases "lm_needs_review r")
      case True
      with rest review show ?thesis by simp
    next
      case False
      with rest obtain a w b z where e3: "edit_item i (\<lambda>x. x\<lparr>ji_status := ''matched''\<rparr>) v = (Inr a, w)"
        and c3: "commit_job_counts ?job w = (Inr b, z)" and f: "flush_library env run (matched @ [i]) z = (Inr m, t)"
        by (auto simp: ok_andthen)
      have "moves {i} UNIV v z" using moves_trans [OF edit_item_moves [OF e3] moves_quiet(1) [OF c3]] by simp
      from round_ok_before [OF this _ flush_library_round [OF f]] show ?thesis by simp
    qed
    with round_ok_before [OF edit_item_moves [OF e2]] show ?thesis by simp
  qed
  with round_ok_before [OF edit_item_moves [OF e]] show ?thesis by simp
qed

lemma populate_library_item_moves: "populate_library_item i e ent s = (Inr u, t) \<Longrightarrow> moves {i} UNIV s t"
  unfolding populate_library_item_def ok_andthen get_item_ok ok_queries by (auto intro: edit_item_moves)

lemma match_entity_moves:
  assumes "match_entity run ent s = (r, t)"
  shows "moves {} X s t"
proof -
  have "db_items (st_work (snd (match_entity run ent s))) = db_items (st_work s)"
    by (auto simp: match_entity_def run_simps split: sum.splits prod.splits option.splits)
  with assms show ?thesis by (intro moves_same) simp
qed

lemma migrate_entity_round:
  assumes "migrate_entity env run matched (i, entity, present) s = (Inr m, t)"
  shows "round_ok i matched m s t"
proof (cases present)
  case False
  with assms show ?thesis
    by (auto simp: migrate_entity_def ok_simps settled_statuses_def intro: round_ok_mark)
next
  case True
  let ?settle = "\<lambda>found. case found of
      Inl ex \<Rightarrow> fail_on_provider_error (lr_job run) i matched ex | Inr r \<Rightarrow> settle_match env run matched i r"
  from assms True obtain got u where c: "call (read_entity (lr_source run) (lr_source_cred run) entity) s = (got, u)"
    and k: "(case got of
         Inl ex \<Rightarrow> fail_on_provider_error (lr_job run) i matched ex
       | Inr ent \<Rightarrow>
           andthen (populate_library_item i (lr_type run) ent) (\<lambda>_.
           andthen (commit_job_counts (lr_job run)) (\<lambda>_.
           andthen (attempt (match_entity run ent)) ?settle))) u = (Inr m, t)"
    by (simp add: migrate_entity_def ok_andthen ok_attempt) blast
  have "round_ok i matched m u t"
  proof (cases got)
    case (Inl ex)
    with k show ?thesis by (simp add: fail_on_provider_error_round)
  next
    case (Inr ent)
    with k have "andthen (populate_library_item i (lr_type run) ent) (\<lambda>_.
           andthen (commit_job_counts (lr_job run)) (\<lambda>_.
           andthen (attempt (match_entity run ent)) ?settle)) u = (Inr m, t)" by simp
    then obtain x v y w found z where p: "populate_library_item i (lr_type run) ent u = (Inr x, v)"
      and cc: "commit_job_counts (lr_job run) v = (Inr y, w)" and f: "match_entity run ent w = (found, z)"
      and o: "?settle found z = (Inr m, t)"
      unfolding ok_andthen ok_attempt by - (elim exE conjE, rule that)
    have "moves {i} UNIV u z"
      using moves_trans [OF moves_trans [OF populate_library_item_moves [OF p] moves_quiet(1) [OF cc]]
          match_entity_moves [OF f]] by simp
    moreover have "round_ok i matched m z t"
      using o by (cases found) (simp_all add: fail_on_provider_error_round settle_match_round)
    ultimately show ?thesis by (rule round_ok_before [OF _ subset_refl])
  qed
  with round_ok_before [OF moves_quiet(3) [OF c]] show ?thesis by simp
qed

definition in_progress :: "string list \<Rightarrow> string list \<Rightarrow> 'w engine \<Rightarrow> bool" where
  "in_progress ids matched s \<longleftrightarrow> (\<forall>i \<in> set ids. i \<in> set matched \<or> status_in settled_statuses i s)"

lemma in_progress_round:
  assumes r: "round_ok i matched matched' s t" and p: "in_progress ids matched s"
    and there: "\<forall>k \<in> insert i (set ids). status_in UNIV k s"
  shows "in_progress (ids @ [i]) matched' t"
proof -
  from r obtain K u where a: "moves {i} UNIV s u" and b: "moves K settled_statuses u t"
    and K: "K \<union> set matched' = insert i (set matched)" unfolding round_ok_def by blast
  have "k \<in> set matched' \<or> status_in settled_statuses k t" if k: "k \<in> insert i (set ids)" for k
  proof (cases "k \<in> K")
    case True
    have "status_in UNIV k u" using there k by (blast intro: moves_keep [OF a])
    with moves_reach [OF b True] show ?thesis by simp
  next
    case False
    show ?thesis
    proof (cases "k = i \<or> k \<in> set matched")
      case True
      with False K show ?thesis by blast
    next
      case out: False
      with p k have "status_in settled_statuses k s" by (auto simp: in_progress_def)
      with a out have "status_in settled_statuses k u" by (intro moves_keep [OF a]) auto
      then show ?thesis by (auto intro: moves_keep [OF b])
    qed
  qed
  then show ?thesis by (simp add: in_progress_def)
qed

lemma round_ok_there: "round_ok i matched m s t \<Longrightarrow> status_in UNIV k s \<Longrightarrow> status_in UNIV k t"
  unfolding round_ok_def by (elim exE conjE) (drule (1) moves_keep, simp, erule moves_keep, simp_all)

lemma migrate_entities_progress:
  assumes "fold_each xs [] (migrate_entity env run) s = (Inr matched, t)"
    and "\<forall>x \<in> set xs. status_in UNIV (fst x) s"
  shows "in_progress (map fst xs) matched t \<and> (\<forall>x \<in> set xs. status_in UNIV (fst x) t)"
proof -
  have "in_progress (done_ids @ map fst xs) matched t \<and> (\<forall>k \<in> set done_ids \<union> fst ` set xs. status_in UNIV k t)"
    if "fold_each xs m (migrate_entity env run) s = (Inr matched, t)" "in_progress done_ids m s"
      "\<forall>k \<in> set done_ids \<union> fst ` set xs. status_in UNIV k s" for xs m done_ids s
    using that
  proof (induction xs arbitrary: m done_ids s)
    case Nil
    then show ?case by (simp add: ok_simps)
  next
    case (Cons x xs)
    obtain i entity present where x: "x = (i, entity, present)" by (metis prod_cases3)
    from Cons.prems(1) obtain m1 u where r: "migrate_entity env run m (i, entity, present) s = (Inr m1, u)"
      and f: "fold_each xs m1 (migrate_entity env run) u = (Inr matched, t)"
      unfolding x fold_each.simps ok_andthen by - (elim exE conjE, rule that)
    note round = migrate_entity_round [OF r]
    have "in_progress (done_ids @ [i]) m1 u"
      using Cons.prems(3) by (intro in_progress_round [OF round Cons.prems(2)]) (auto simp: x)
    moreover have "\<forall>k \<in> set (done_ids @ [i]) \<union> fst ` set xs. status_in UNIV k u"
      using Cons.prems(3) round_ok_there [OF round] by (auto simp: x)
    ultimately show ?case using Cons.IH [OF f, of "done_ids @ [i]"] by (simp add: x)
  qed
  from this [OF assms(1), of "[]"] assms(2) show ?thesis by (simp add: in_progress_def)
qed

text \<open>The rows a library migration starts with.\<close>

lemma create_library_items_ok:
  assumes "create_library_items env job e entities s = (Inr ids, t)"
  shows "ids = map (env_uuid env) [st_drawn s..<st_drawn s + length entities] \<and>
    (\<forall>i \<in> set ids. status_in UNIV i t)"
proof -
  let ?row = "\<lambda>ids (k, entity).
        andthen (uuid4 env) (\<lambda>i. andthen utcnow (\<lambda>now.
        andthen (edit (\<lambda>d. d\<lparr>db_items := dict_set i (pending_library_item i job e entity (int k) now) (db_items d)\<rparr>))
          (\<lambda>_. ret (ids @ [i]))))"
  from assms obtain u where f: "fold_each (List.enumerate 0 entities) [] ?row s = (Inr ids, u)"
    and c: "commit_job_counts job u = (Inr (), t)"
    by (auto simp: create_library_items_def ok_andthen ok_ret)
  have "ids = map (env_uuid env) [st_drawn s..<st_drawn u] \<and> st_drawn u = st_drawn s + length (List.enumerate 0 entities) \<and>
      (\<forall>i \<in> set ids. status_in UNIV i u)"
  proof (rule fold_each_returns [OF f, where Q = "\<lambda>ys ids u. ids = map (env_uuid env) [st_drawn s..<st_drawn u] \<and>
      st_drawn u = st_drawn s + length ys \<and> (\<forall>i \<in> set ids. status_in UNIV i u)"])
    fix ys :: "(nat \<times> string) list" and x b v b' w
    assume "?row b x v = (Inr b', w)"
      and q: "b = map (env_uuid env) [st_drawn s..<st_drawn v] \<and> st_drawn v = st_drawn s + length ys \<and>
        (\<forall>i \<in> set b. status_in UNIV i v)"
    then have "b' = b @ [env_uuid env (st_drawn v)]" "st_drawn w = Suc (st_drawn v)"
      "\<forall>i. status_in UNIV i w = (i = env_uuid env (st_drawn v) \<or> status_in UNIV i v)"
      by (auto simp: ok_simps status_in_UNIV split: prod.splits if_splits)
    with q show "b' = map (env_uuid env) [st_drawn s..<st_drawn w] \<and> st_drawn w = st_drawn s + length (ys @ [x]) \<and>
        (\<forall>i \<in> set b'. status_in UNIV i w)"
      by simp
  qed simp
  then show ?thesis using moves_keep [OF moves_quiet(1) [OF c]] by simp
qed

text \<open>
  C5. A library migration that returns has settled every album or artist it was asked for: the row
  it made for each one is written, skipped, failed or waits for a review, whatever the two
  providers answered and however the matches fell into batches.
\<close>

theorem library_settles:
  assumes "migrate_library_entities env run entities s = (Inr u, t)" and "k < length entities"
  shows "status_in settled_statuses (env_uuid env (st_drawn s + k)) t"
proof -
  from assms(1) obtain ids v got w where
    c: "create_library_items env (lr_job run) (lr_type run) entities s = (Inr ids, v)"
    and q: "call (source_contains (lr_source run) (lr_source_cred run) entities) v = (got, w)"
    and o: "(case got of
       Inl ex \<Rightarrow> if is_provider_error ex then fail_all (lr_job run) ids (exn_text ex) else throw ex
     | Inr present \<Rightarrow>
         if length present \<noteq> length ids
         then fail_all (lr_job run) ids ''source returned an invalid library membership response''
         else
           andthen (fold_each (zip ids (zip entities present)) [] (migrate_entity env run)) (\<lambda>matched.
           if matched = [] then ret () else write_chunk env run matched)) w = (Inr u, t)"
    unfolding migrate_library_entities_def ok_andthen ok_attempt by - (elim exE conjE, rule that)
  note rows = create_library_items_ok [OF c]
  have there: "\<forall>i \<in> set ids. status_in UNIV i w" using rows moves_keep [OF moves_quiet(3) [OF q]] by blast
  have failing: "fail_all (lr_job run) ids reason w = (Inr u, t) \<Longrightarrow> \<forall>i \<in> set ids. status_in settled_statuses i t" for reason
  proof
    fix i assume f: "fail_all (lr_job run) ids reason w = (Inr u, t)" and i: "i \<in> set ids"
    have "moves (set ids) settled_statuses w t" by (rule fail_all_moves [OF f]) (simp add: settled_statuses_def)
    then show "status_in settled_statuses i t" using i there by (blast intro: moves_reach)
  qed
  have "\<forall>i \<in> set ids. status_in settled_statuses i t"
  proof (cases "\<exists>present. got = Inr present \<and> length present = length ids")
    case False
    show ?thesis
    proof (cases got)
      case (Inl ex)
      with o failing show ?thesis by (cases "is_provider_error ex") (simp_all add: ok_throw)
    next
      case (Inr present)
      with False o failing show ?thesis by simp
    qed
  next
    case True
    then obtain present where p: "got = Inr present" "length present = length ids" by blast
    with o have "andthen (fold_each (zip ids (zip entities present)) [] (migrate_entity env run)) (\<lambda>matched.
           if matched = [] then ret () else write_chunk env run matched) w = (Inr u, t)" by simp
    then obtain matched x where f: "fold_each (zip ids (zip entities present)) [] (migrate_entity env run) w = (Inr matched, x)"
      and m: "(if matched = [] then ret () else write_chunk env run matched) x = (Inr u, t)"
      unfolding ok_andthen by blast
    have z: "map fst (zip ids (zip entities present)) = ids" using rows p(2) by simp
    with there have "\<forall>y \<in> set (zip ids (zip entities present)). status_in UNIV (fst y) w"
      by (metis image_eqI set_map)
    from migrate_entities_progress [OF f this, unfolded z] have pr: "in_progress ids matched x" and "\<forall>i \<in> fst ` set (zip ids (zip entities present)). status_in UNIV i x"
      by blast+
    then have ex: "\<forall>i \<in> set ids. status_in UNIV i x" using z by (metis set_map)
    have mv: "moves (set matched) settled_statuses x t"
    proof (cases "matched = []")
      case True
      with m show ?thesis by (simp add: ok_ret moves_refl)
    next
      case False
      with m have "write_chunk env run matched x = (Inr u, t)" by simp
      then show ?thesis unfolding write_chunk_def by (rule write_library_items_moves)
    qed
    show ?thesis
    proof
      fix i assume "i \<in> set ids"
      with ex have there: "status_in UNIV i x" by blast
      from pr \<open>i \<in> set ids\<close> have "i \<in> set matched \<or> status_in settled_statuses i x"
        by (auto simp: in_progress_def)
      then show "status_in settled_statuses i t"
      proof
        assume "i \<in> set matched"
        then show ?thesis using there by (rule moves_reach [OF mv])
      next
        assume "status_in settled_statuses i x"
        then show ?thesis by (rule moves_keep [OF mv]) simp
      qed
    qed
  qed
  moreover have "env_uuid env (st_drawn s + k) \<in> set ids" using rows assms(2) by auto
  ultimately show ?thesis by blast
qed

definition sample_run :: "fake_world library_run" where
  "sample_run =
     \<lparr>lr_job = ''j1'', lr_type = E_ALBUM, lr_source_info = fake_info, lr_source = Album_Source fake_album_reader,
      lr_source_cred = fake_cred ''fake'', lr_target_info = fake_info, lr_target = Album_Target fake_album_writer,
      lr_target_cred = fake_cred ''fake'', lr_threshold = 4 / 5, lr_history = []\<rparr>"

theorem library_settles_witness:
  "\<exists>t. migrate_library_entities sample_env sample_run [''album-9''] (engine_on (job_db ''written'')) = (Inr (), t) \<and>
     status_in settled_statuses (env_uuid sample_env 0) t"
proof -
  have "\<exists>t. migrate_library_entities sample_env sample_run [''album-9''] (engine_on (job_db ''written'')) = (Inr (), t)"
    by (simp add: migrate_library_entities_def create_library_items_def run_simps engine_on_def commit_job_counts_def
        sample_run_def source_contains_def fake_album_reader_def fake_start_def migrate_entity_def mark_commit_def
        mark_item_def edit_item_def)
  then obtain t where t: "migrate_library_entities sample_env sample_run [''album-9''] (engine_on (job_db ''written'')) = (Inr (), t)"
    by blast
  from library_settles [OF t, of 0] t show ?thesis by (simp add: engine_on_def)
qed

end
