(* ===== verification/Migration_Source.thy ===== *)
theory Migration_Source
  imports Local_Imports Migration_Write
begin

text \<open>
  Where a migration reads from (\<open>app/imports/source.py\<close>): a provider account, an imported
  record or a verified snapshot archive, behind one record of operations.
\<close>

record 'w migration_source =
  src_kind :: string
  src_provider :: string
  src_account_id :: string
  src_display_name :: string
  src_adapter :: "'w adapter option"
  src_credential :: "credential option"
  src_local_playlists :: "(string, playlist) dict"
  src_archive :: "archive option"
  src_snapshot_id :: "string option"

definition can_read_tracks :: "'w migration_source \<Rightarrow> bool" where
  "can_read_tracks src =
     (case src_adapter src of
        None \<Rightarrow> True | Some a \<Rightarrow> can (inf_capabilities (ad_info a)) READ_TRACKS)"

definition unknown_import_playlist :: "string \<Rightarrow> exn" where
  "unknown_import_playlist p =
     LocalImportStateError
       (''Playlist '' @ [char_of (39::nat)] @ p @ [char_of (39::nat)] @
        '' is not part of this local import.'') ''unknown_playlist''"

definition read_source_playlist :: "'w migration_source \<Rightarrow> string \<Rightarrow> ('w, playlist) handler" where
  "read_source_playlist src p =
     (if src_kind src = ''snapshot'' then
        (case src_archive src of
           None \<Rightarrow> throw (SnapshotIntegrityError ''snapshot source archive is not available'')
         | Some arc \<Rightarrow> expect (arc_read arc p))
      else case src_adapter src of
        None \<Rightarrow>
          (case dict_get (src_local_playlists src) p of
             None \<Rightarrow> throw (unknown_import_playlist p) | Some pl \<Rightarrow> ret pl)
      | Some a \<Rightarrow>
          (case src_credential src of
             None \<Rightarrow> throw (RuntimeError (''source credential missing for provider '' @
                       [char_of (39::nat)] @ src_provider src @ [char_of (39::nat)]))
           | Some cred \<Rightarrow> call (ad_read_playlist a cred (new_ref p p))))"

definition source_collection :: "'w migration_source \<Rightarrow> string \<Rightarrow> archive_collection option" where
  "source_collection src p = (case src_archive src of None \<Rightarrow> None | Some arc \<Rightarrow> dict_get (arc_collections arc) p)"

definition migration_description :: "'w migration_source \<Rightarrow> string \<Rightarrow> string" where
  "migration_description src p =
     (case source_collection src p of
        Some c \<Rightarrow>
          ''Restored from a '' @ ac_source_provider c @ '' local snapshot by Open Playlist Engine.''
      | None \<Rightarrow> ''Migrated from '' @ src_display_name src @ '' by Open Playlist Engine.'')"

definition selected_playlists ::
  "'w migration_source \<Rightarrow> string list \<Rightarrow> (string, string list) dict \<Rightarrow> ('w, (string, playlist) dict) handler"
where
  "selected_playlists src ids filters =
     fold_each ids [] (\<lambda>selected p.
       andthen (read_source_playlist src p) (\<lambda>pl.
       let wanted = set (case dict_get filters p of None \<Rightarrow> [] | Some ts \<Rightarrow> ts)
       in ret (dict_set p (pl\<lparr>pl_tracks := filter (\<lambda>t. track_selected t wanted) (pl_tracks pl)\<rparr>) selected)))"

definition open_migration_source ::
  "'w env \<Rightarrow> string \<Rightarrow> string \<Rightarrow> string \<Rightarrow> string option \<Rightarrow> ('w, 'w migration_source) handler"
where
  "open_migration_source env provider account user job =
     (if provider \<in> import_record_providers then
        andthen
          (if truthy job then load_import_for_job env account user (the job)
           else load_preview_import account user) (\<lambda>r.
        andthen (expect (selected_import_playlists r
            (map the (filter truthy (map pl_id (li_playlists r)))) [])) (\<lambda>pls.
        ret \<lparr>src_kind = ''import'', src_provider = provider, src_account_id = account,
             src_display_name = or_str (li_source_label r) ''Local file'',
             src_adapter = None, src_credential = None, src_local_playlists = pls,
             src_archive = None, src_snapshot_id = None\<rparr>))
      else
        andthen (expect (get_adapter (env_registry env) provider)) (\<lambda>a.
        andthen (load_fresh_credential env account a (Some provider) (Some user)) (\<lambda>(cred, _).
        ret \<lparr>src_kind = ''provider'', src_provider = provider, src_account_id = account,
             src_display_name = inf_display_name (ad_info a),
             src_adapter = Some a, src_credential = Some cred, src_local_playlists = [],
             src_archive = None, src_snapshot_id = None\<rparr>)))"

text \<open>The archive of a ready snapshot of the user; its checksum is verified when it is opened.\<close>

definition open_snapshot_source ::
  "'w env \<Rightarrow> string \<Rightarrow> string \<Rightarrow> ('w, 'w migration_source) handler"
where
  "open_snapshot_source env snapshot user =
     andthen (expect (env_open_archive env snapshot user)) (\<lambda>arc.
     ret \<lparr>src_kind = ''snapshot'', src_provider = ''snapshot'',
          src_account_id = ''snapshot:'' @ arc_library_id arc, src_display_name = ''Local snapshot'',
          src_adapter = None, src_credential = None, src_local_playlists = [],
          src_archive = Some arc, src_snapshot_id = Some snapshot\<rparr>)"

section \<open>Imports are complete sources\<close>

lemma select_imports_get:
  "select_imports r filters acc ps = Inr sel \<Longrightarrow>
     dict_get sel p = (if p \<in> set ps
       then map_option (\<lambda>pl. pl\<lparr>pl_tracks := filter (\<lambda>t. track_selected t
              (set (case dict_get filters p of None \<Rightarrow> [] | Some ts \<Rightarrow> ts))) (pl_tracks pl)\<rparr>)
              (dict_get (available_playlists r) p)
       else dict_get acc p)"
proof (induction ps arbitrary: acc)
  case Nil
  then show ?case by simp
next
  case (Cons q qs)
  then obtain pl where q: "dict_get (available_playlists r) q = Some pl"
    by (auto split: option.splits)
  note IH = Cons.IH [OF Cons.prems [unfolded select_imports.simps q option.case Let_def]]
  show ?case using q by (auto simp: IH)
qed

lemma available_keys: "dict_get (available_playlists r) p \<noteq> None \<longleftrightarrow> Some p \<in> set (map pl_id (li_playlists r)) \<and> p \<noteq> []"
proof -
  have "dict_get (fold (\<lambda>p m. if truthy (pl_id p) then dict_set (the (pl_id p)) p m else m) ps m) q \<noteq> None \<longleftrightarrow>
      dict_get m q \<noteq> None \<or> Some q \<in> set (map pl_id ps) \<and> q \<noteq> []" for ps m q
    by (induction ps arbitrary: m) (auto simp: truthy_def split: option.splits)
  from this [of "li_playlists r" "[]" p] show ?thesis by (simp add: available_playlists_def)
qed

text \<open>The playlists an import offers all open: none of its own identifiers is refused.\<close>

lemma select_imports_total:
  "list_all (\<lambda>p. dict_get (available_playlists r) p \<noteq> None) ps \<Longrightarrow> \<exists>sel. select_imports r filters acc ps = Inr sel"
  by (induction ps arbitrary: acc) (auto simp: Let_def)

lemma offered_playlists:
  "\<exists>sel. selected_import_playlists r (map the (filter truthy (map pl_id (li_playlists r)))) [] = Inr sel \<and>
     (\<forall>p. dict_get sel p = dict_get (available_playlists r) p)"
proof -
  let ?ids = "map the (filter truthy (map pl_id (li_playlists r)))"
  have ids: "p \<in> set ?ids \<longleftrightarrow> dict_get (available_playlists r) p \<noteq> None" for p
    unfolding available_keys by (force simp: truthy_def split: option.splits)
  then have "list_all (\<lambda>p. dict_get (available_playlists r) p \<noteq> None) ?ids" by (simp add: list_all_iff)
  from select_imports_total [OF this] obtain sel where s: "select_imports r [] [] ?ids = Inr sel" by blast
  have "dict_get sel p = dict_get (available_playlists r) p" for p
    unfolding select_imports_get [OF s] using ids [of p]
    by (cases "dict_get (available_playlists r) p") (auto simp: track_selected_def)
  with s show ?thesis by (auto simp: selected_import_playlists_def)
qed

end
