(* ===== verification/Sync_Runs.thy ===== *)
theory Sync_Runs
  imports Accounts
begin

text \<open>
  The life of a synchronization run: the transactions of \<open>app/jobs/sync.py\<close> that create, start,
  complete, fail and recover runs, and the classification of the items of a run's job. The
  execution of a run between these transactions is in \<open>Sync_Job\<close>.
\<close>

section \<open>Creating a run\<close>

definition active_runs_of :: "string \<Rightarrow> db \<Rightarrow> sync_run list" where
  "active_runs_of rule d = select_rows (\<lambda>r. run_rule_id r = rule \<and> active_run r) (db_runs d)"

definition new_run :: "string \<Rightarrow> string \<Rightarrow> string \<Rightarrow> string \<Rightarrow> int \<Rightarrow> sync_run" where
  "new_run i rule trigger lease now =
     \<lparr>run_id = i, run_rule_id = rule, run_trigger = trigger, run_status = ''queued'',
      run_lease_token = lease, run_queue_job_id = ''sync-run:'' @ i,
      run_source_snapshot = None, run_target_before = None, run_target_after = None,
      run_added = 0, run_removed = 0, run_reordered = 0, run_error = None,
      run_started_at = None, run_heartbeat_at = None, run_finished_at = None,
      run_created_at = now\<rparr>"

definition create_queued_run ::
  "'w env \<Rightarrow> string \<Rightarrow> string \<Rightarrow> int \<Rightarrow> ('w, sync_run) handler"
where
  "create_queued_run env rule trigger now =
     andthen (query (\<lambda>d. dict_get (db_rules d) rule)) (\<lambda>found.
     case found of
       None \<Rightarrow> throw (KeyError rule)
     | Some r \<Rightarrow>
         andthen (query (active_runs_of rule)) (\<lambda>active.
         if active \<noteq> [] then throw (SyncAlreadyRunning rule)
         else
           andthen (uuid4 env) (\<lambda>i. andthen (uuid4 env) (\<lambda>lease. andthen utcnow (\<lambda>created.
           let run = new_run i (rule_id r) trigger lease created in
           andthen (edit (\<lambda>d. d\<lparr>db_runs := dict_set i run (db_runs d)\<rparr>)) (\<lambda>_.
           andthen (edit_rule rule (\<lambda>r. r\<lparr>rule_status := ''queued'', rule_last_run_at := Some now,
              rule_next_run_at := None, rule_last_error := None\<rparr>)) (\<lambda>_.
           andthen flush (\<lambda>_. ret run))))))))"

section \<open>Reviews\<close>

datatype run_outcome = Run_Outcome (out_status: string) (out_review_count: nat) (out_failed_count: nat)

definition needs_attention :: "job_item \<Rightarrow> bool" where
  "needs_attention i = (ji_status i \<in> {''needs_review'', ''failed''})"

definition unmatched_item :: "job_item \<Rightarrow> bool" where
  "unmatched_item i =
     (ji_status i = ''needs_review'' \<or>
      (ji_status i = ''failed'' \<and> ji_reason i = Some ''no target match found''))"

definition failed_write :: "job_item \<Rightarrow> bool" where
  "failed_write i = (ji_status i = ''failed'' \<and> ji_reason i \<noteq> Some ''no target match found'')"

definition classify_job_items :: "job_item list \<Rightarrow> run_outcome" where
  "classify_job_items items =
     (let review = length (filter unmatched_item items);
          failed = length (filter failed_write items)
      in Run_Outcome
           (if failed \<noteq> 0 then ''partial_failure''
            else if review \<noteq> 0 then ''review_required'' else ''succeeded'') review failed)"

definition review_finalization_ready :: "job_item list \<Rightarrow> bool" where
  "review_finalization_ready items = list_all (\<lambda>i. \<not> needs_attention i) items"

definition checkpoint_review_resolved :: "sync_checkpoint \<Rightarrow> job_item list \<Rightarrow> bool" where
  "checkpoint_review_resolved ck items =
     (let unresolved = filter (\<lambda>i. i \<noteq> []) (ck_unresolved ck);
          by_id = rev (map (\<lambda>i. (ji_id i, i)) items)
      in unresolved \<noteq> [] \<and>
         list_all (\<lambda>i. map_of by_id i \<noteq> None) unresolved \<and>
         review_finalization_ready items \<and>
         list_all (\<lambda>i. case map_of by_id i of None \<Rightarrow> False | Some it \<Rightarrow> \<not> needs_attention it) unresolved)"

definition job_of_run :: "string \<Rightarrow> db \<Rightarrow> migration_job option" where
  "job_of_run run d = find (\<lambda>j. mj_sync_run_id j = Some run) (rows (db_jobs d))"

definition review_ready_for_run :: "string \<Rightarrow> db \<Rightarrow> bool" where
  "review_ready_for_run run d =
     (case (job_of_run run d, dict_get (db_runs d) run) of
        (Some job, Some r) \<Rightarrow>
          (case dict_get (db_checkpoints d) (run_rule_id r) of
             None \<Rightarrow> False
           | Some ck \<Rightarrow> checkpoint_review_resolved ck (job_items (mj_id job) d))
      | _ \<Rightarrow> False)"

definition order_runs :: "sync_run list \<Rightarrow> sync_run list" where
  "order_runs rs = sort_key (\<lambda>r. (run_created_at r, run_id r)) rs"

definition queued_runs :: "db \<Rightarrow> sync_run list" where
  "queued_runs d = order_runs (select_rows (\<lambda>r. run_status r = ''queued'') (db_runs d))"

definition resolved_review_runs :: "db \<Rightarrow> sync_run list" where
  "resolved_review_runs d =
     filter (\<lambda>r. review_ready_for_run (run_id r) d)
       (order_runs (select_rows (\<lambda>r. run_status r = ''review_required'' \<and> job_of_run (run_id r) d \<noteq> None)
         (db_runs d)))"

text \<open>Targets of the tracks a job has settled, by the token its source metadata carries.\<close>

definition item_token :: "job_item \<Rightarrow> string option" where
  "item_token i =
     (case dict_get (ji_source_metadata i) ''metadata'' of
        Some (JObj ms) \<Rightarrow>
          (case map_of ms ''ope_sync_entry_token'' of
             Some (JStr t) \<Rightarrow> if t = [] then None else Some t | _ \<Rightarrow> None)
      | _ \<Rightarrow> None)"

definition note_mapping :: "job_item \<Rightarrow> mappings \<Rightarrow> mappings" where
  "note_mapping i m =
     (case item_token i of
        None \<Rightarrow> m
      | Some t \<Rightarrow>
          if ji_status i \<in> {''written'', ''matched''} \<and> truthy (ji_target_uri i)
          then dict_set t (ji_target_uri i) m
          else if ji_status i = ''skipped'' then dict_set t (ji_target_uri i) m else m)"

definition job_item_mappings :: "job_item list \<Rightarrow> mappings" where
  "job_item_mappings items = fold note_mapping items []"

section \<open>Leases\<close>

definition lease_is_current :: "sync_run \<Rightarrow> string \<Rightarrow> bool" where
  "lease_is_current r lease = (run_status r = ''running'' \<and> run_lease_token r = lease)"

record error_policy =
  pol_status :: string
  pol_pause_rule :: bool
  pol_retry_after_s :: "rat option"

definition sync_error_policy :: "exn \<Rightarrow> error_policy" where
  "sync_error_policy e =
     (case e of
        SyncPartialFailure _ \<Rightarrow>
          \<lparr>pol_status = ''partial_failure'', pol_pause_rule = False, pol_retry_after_s = None\<rparr>
      | RefreshTokenExpired _ \<Rightarrow>
          \<lparr>pol_status = ''reconnect_required'', pol_pause_rule = True, pol_retry_after_s = None\<rparr>
      | AuthExpired _ \<Rightarrow>
          \<lparr>pol_status = ''reconnect_required'', pol_pause_rule = True, pol_retry_after_s = None\<rparr>
      | AccountNotFound _ \<Rightarrow>
          \<lparr>pol_status = ''reconnect_required'', pol_pause_rule = True, pol_retry_after_s = None\<rparr>
      | CredentialNotFound _ \<Rightarrow>
          \<lparr>pol_status = ''reconnect_required'', pol_pause_rule = True, pol_retry_after_s = None\<rparr>
      | RateLimited after _ _ \<Rightarrow>
          \<lparr>pol_status = ''failed'', pol_pause_rule = False, pol_retry_after_s = after\<rparr>
      | _ \<Rightarrow> \<lparr>pol_status = ''failed'', pol_pause_rule = False, pol_retry_after_s = None\<rparr>)"

text \<open>A run always has its rule: the foreign key deletes runs with their rule.\<close>

definition run_and_rule :: "string \<Rightarrow> ('w, sync_run \<times> sync_rule) handler" where
  "run_and_rule run =
     andthen (query (\<lambda>d. dict_get (db_runs d) run)) (\<lambda>found.
     case found of
       None \<Rightarrow> throw (KeyError run)
     | Some r \<Rightarrow> andthen (query (\<lambda>d. dict_get (db_rules d) (run_rule_id r))) (\<lambda>rule.
         case rule of None \<Rightarrow> throw (KeyError (run_rule_id r)) | Some ru \<Rightarrow> ret (r, ru)))"

definition start_run :: "'w env \<Rightarrow> string \<Rightarrow> string \<Rightarrow> ('w, string option) handler" where
  "start_run env run expected =
     andthen utcnow (\<lambda>now. andthen open_session (\<lambda>_.
     andthen (run_and_rule run) (\<lambda>(r, rule).
     if run_status r \<noteq> expected then ret None
     else
       andthen (uuid4 env) (\<lambda>lease.
       andthen (edit_run run (\<lambda>r. r\<lparr>run_status := ''running'', run_lease_token := lease,
          run_started_at := if_none (run_started_at r) (Some now),
          run_heartbeat_at := Some now, run_error := None\<rparr>)) (\<lambda>_.
       andthen (edit_rule (run_rule_id r) (\<lambda>u. u\<lparr>rule_status := ''running'', rule_last_error := None\<rparr>))
         (\<lambda>_.
       andthen commit (\<lambda>_. ret (Some lease))))))))"

definition next_scheduled :: "int \<Rightarrow> sync_rule \<Rightarrow> ('w, rat option) handler" where
  "next_scheduled now rule =
     (if rule_enabled rule
      then andthen (expect (next_run_after (Aware now) (rule_cadence_minutes rule))) (\<lambda>t.
           ret (case t of Aware n \<Rightarrow> Some (of_int n) | Naive n \<Rightarrow> Some (of_int n)))
      else ret None)"

definition record_success ::
  "sync_run \<Rightarrow> sync_rule \<Rightarrow> string \<Rightarrow> int \<Rightarrow> snapshot option \<Rightarrow> snapshot option \<Rightarrow> mappings \<Rightarrow> ('w, unit) handler"
where
  "record_success r rule run now source target m =
     andthen (edit_checkpoint (rule_id rule) (\<lambda>c. c\<lparr>ck_source_snapshot := source,
        ck_target_snapshot := target, ck_mappings := m, ck_unresolved := []\<rparr>)) (\<lambda>_.
     andthen (edit_run run (\<lambda>r. r\<lparr>run_status := ''succeeded'', run_target_after := target,
        run_error := None, run_finished_at := Some now, run_heartbeat_at := Some now\<rparr>)) (\<lambda>_.
     andthen (next_scheduled now rule) (\<lambda>next_at.
     andthen (edit_rule (rule_id rule) (\<lambda>u. u\<lparr>
        rule_status := if rule_enabled rule then ''succeeded'' else ''paused'',
        rule_last_success_at := Some now, rule_last_error := None,
        rule_last_added := run_added r, rule_last_removed := run_removed r,
        rule_last_reordered := run_reordered r, rule_next_run_at := next_at\<rparr>)) (\<lambda>_.
     commit))))"

definition complete_run ::
  "string \<Rightarrow> string \<Rightarrow> snapshot option \<Rightarrow> snapshot option \<Rightarrow> mappings \<Rightarrow> ('w, unit) handler"
where
  "complete_run run lease source target m =
     andthen utcnow (\<lambda>now. andthen open_session (\<lambda>_.
     andthen (run_and_rule run) (\<lambda>(r, rule).
     if \<not> lease_is_current r lease then ret ()
     else
       andthen (get_checkpoint (rule_id rule)) (\<lambda>ck.
       if ck = None then throw (RuntimeError ''sync checkpoint is missing'')
       else record_success r rule run now source target m))))"

definition finish_attention :: "string \<Rightarrow> string \<Rightarrow> string \<Rightarrow> string \<Rightarrow> ('w, unit) handler" where
  "finish_attention run rule lease message =
     andthen (query (\<lambda>d. dict_get (db_runs d) run)) (\<lambda>found.
     case found of
       None \<Rightarrow> ret ()
     | Some r \<Rightarrow>
         if \<not> lease_is_current r lease then ret ()
         else andthen utcnow (\<lambda>now.
           andthen (edit_run run (\<lambda>r. r\<lparr>run_status := ''review_required'', run_error := Some message,
              run_finished_at := Some now, run_heartbeat_at := Some now\<rparr>)) (\<lambda>_.
           andthen (edit_rule rule (\<lambda>u. u\<lparr>rule_status := ''review_required'',
              rule_last_error := Some message, rule_last_added := run_added r,
              rule_last_removed := run_removed r, rule_last_reordered := run_reordered r,
              rule_next_run_at := None\<rparr>)) (\<lambda>_.
           commit))))"

definition error_message :: "exn \<Rightarrow> string" where
  "error_message e = (if exn_text e = [] then exn_class e else exn_text e)"

definition retry_delay :: "'w env \<Rightarrow> rat option \<Rightarrow> rat" where
  "retry_delay env after =
     (case after of
        Some t \<Rightarrow> if t \<noteq> 0 then t else of_int (set_sync_retry_delay_s (env_settings env))
      | None \<Rightarrow> of_int (set_sync_retry_delay_s (env_settings env)))"

definition fail_run :: "'w env \<Rightarrow> string \<Rightarrow> string \<Rightarrow> exn \<Rightarrow> ('w, unit) handler" where
  "fail_run env run lease e =
     (let policy = sync_error_policy e in
      andthen utcnow (\<lambda>now. andthen open_session (\<lambda>_.
      andthen (run_and_rule run) (\<lambda>(r, rule).
      if \<not> lease_is_current r lease then ret ()
      else
        andthen (edit_run run (\<lambda>r. r\<lparr>run_status := pol_status policy,
           run_error := Some (error_message e), run_finished_at := Some now,
           run_heartbeat_at := Some now\<rparr>)) (\<lambda>_.
        andthen (edit_rule (rule_id rule) (\<lambda>u. u\<lparr>rule_status := pol_status policy,
           rule_last_error := Some (error_message e), rule_last_added := run_added r,
           rule_last_removed := run_removed r, rule_last_reordered := run_reordered r,
           rule_enabled := (if pol_pause_rule policy then False else rule_enabled u),
           rule_next_run_at := (if pol_pause_rule policy then None
             else Some (of_int now + retry_delay env (pol_retry_after_s policy)))\<rparr>)) (\<lambda>_.
        commit))))))"

section \<open>Recovering stale runs\<close>

definition last_sign_of_life :: "sync_run \<Rightarrow> int" where
  "last_sign_of_life r =
     (case if_none (run_heartbeat_at r) (run_started_at r) of Some t \<Rightarrow> t | None \<Rightarrow> run_created_at r)"

definition recover_run :: "'w env \<Rightarrow> int \<Rightarrow> sync_run \<Rightarrow> ('w, unit) handler" where
  "recover_run env now r =
     andthen (query (\<lambda>d. case dict_get (db_checkpoints d) (run_rule_id r) of
         None \<Rightarrow> False
       | Some ck \<Rightarrow> ck_unresolved ck \<noteq> [] \<and> review_ready_for_run (run_id r) d)) (\<lambda>resolved.
     andthen (uuid4 env) (\<lambda>lease.
     let message = ''sync worker stopped before the run completed'';
         why = (if resolved then ''review was saved but finalization was interrupted'' else message)
     in andthen (edit_run (run_id r) (\<lambda>r. r\<lparr>
          run_status := if resolved then ''review_required'' else ''failed'',
          run_error := Some why, run_finished_at := Some now, run_lease_token := lease\<rparr>)) (\<lambda>_.
        edit_rule (run_rule_id r) (\<lambda>u. u\<lparr>
          rule_status := if resolved then ''review_required'' else ''failed'',
          rule_last_error := Some why,
          rule_next_run_at := if resolved then None
            else Some (of_int (now + set_sync_retry_delay_s (env_settings env)))\<rparr>))))"

definition recover_stale_runs :: "'w env \<Rightarrow> int \<Rightarrow> ('w, nat) handler" where
  "recover_stale_runs env now =
     andthen (query (\<lambda>d. select_rows active_run (db_runs d))) (\<lambda>runs.
     let cutoff = now - set_sync_stale_run_after_s (env_settings env) in
     andthen (fold_each runs (0 :: nat) (\<lambda>n r.
         if cutoff \<le> last_sign_of_life r then ret n
         else andthen (recover_run env now r) (\<lambda>_. ret (Suc n)))) (\<lambda>recovered.
     andthen (if recovered \<noteq> 0 then commit else ret ()) (\<lambda>_. ret recovered)))"

section \<open>Leases keep stale workers out\<close>

definition lease_held :: "string \<Rightarrow> string \<Rightarrow> db \<Rightarrow> bool" where
  "lease_held run lease d =
     (case dict_get (db_runs d) run of None \<Rightarrow> False | Some r \<Rightarrow> lease_is_current r lease)"

lemma run_and_rule_cases:
  obtains (missing) e where "run_and_rule run s = (Inl e, s)"
  | (found) r rule where "run_and_rule run s = (Inr (r, rule), s)"
      and "dict_get (db_runs (st_work s)) run = Some r"
      and "dict_get (db_rules (st_work s)) (run_rule_id r) = Some rule"
proof (cases "dict_get (db_runs (st_work s)) run")
  case None
  then show ?thesis by (intro missing) (simp add: run_and_rule_def run_simps)
next
  case (Some r)
  then show ?thesis
    by (cases "dict_get (db_rules (st_work s)) (run_rule_id r)")
      (auto intro: missing found simp: run_and_rule_def run_simps)
qed

text \<open>A step that leaves the committed database and the outside world as they are.\<close>

definition leaves_alone :: "('w, 'a) handler \<Rightarrow> 'w engine \<Rightarrow> bool" where
  "leaves_alone m s \<longleftrightarrow> st_db (snd (m s)) = st_db s \<and> st_world (snd (m s)) = st_world s"

lemma complete_run_stale:
  "\<not> lease_held run lease (st_db s) \<Longrightarrow> leaves_alone (complete_run run lease a b m) s"
  by (cases rule: run_and_rule_cases [of run "s\<lparr>st_work := st_db s\<rparr>"])
    (auto simp: complete_run_def run_simps lease_held_def leaves_alone_def)

lemma fail_run_stale:
  "\<not> lease_held run lease (st_db s) \<Longrightarrow> leaves_alone (fail_run env run lease e) s"
  by (cases rule: run_and_rule_cases [of run "s\<lparr>st_work := st_db s\<rparr>"])
    (auto simp: fail_run_def run_simps lease_held_def Let_def leaves_alone_def)

lemma finish_attention_stale:
  "\<not> lease_held run lease (st_work s) \<Longrightarrow> leaves_alone (finish_attention run rule lease msg) s"
  by (simp add: finish_attention_def run_simps lease_held_def leaves_alone_def split: option.splits)

lemma start_run_lease:
  assumes "start_run env run expected s = (Inr (Some lease), t)"
  shows "lease = env_uuid env (st_drawn s) \<and> lease_held run lease (st_db t) \<and>
    st_drawn t = Suc (st_drawn s)"
  using assms
  by (auto simp: start_run_def run_and_rule_def ok_simps lease_held_def lease_is_current_def
      edit_run_def edit_rule_def split: option.splits if_splits)

lemma lease_held_unique: "lease_held run l d \<Longrightarrow> lease_held run l' d \<Longrightarrow> l' = l"
  by (auto simp: lease_held_def lease_is_current_def split: option.splits)

text \<open>A rule with a run, for the concrete runs below.\<close>

definition sample_rule :: sync_rule where
  "sample_rule =
     \<lparr>rule_id = ''r1'', rule_user_id = ''owner'', rule_source_provider = ''fake'',
      rule_source_account_id = ''acc-1'', rule_source_playlist_id = ''pl-1'',
      rule_source_playlist_name = ''Roadtrip'', rule_target_provider = ''fake'',
      rule_target_account_id = ''acc-1'', rule_target_playlist_id = ''new-1'',
      rule_target_playlist_name = ''Copy'', rule_mode = ''add_only'', rule_cadence_minutes = 60,
      rule_timezone = ''UTC'', rule_enabled = True, rule_status = ''idle'',
      rule_last_run_at = None, rule_last_success_at = None, rule_next_run_at = Some 900,
      rule_last_error = None, rule_last_added = 0, rule_last_removed = 0,
      rule_last_reordered = 0, rule_created_at = 0\<rparr>"

definition sample_run :: "string \<Rightarrow> sync_run" where
  "sample_run status = (new_run (str_nat 7) ''r1'' ''manual'' (str_nat 8) 0)\<lparr>run_status := status\<rparr>"

definition sample_checkpoint :: sync_checkpoint where
  "sample_checkpoint = \<lparr>ck_rule_id = ''r1'', ck_source_snapshot = None, ck_target_snapshot = None,
     ck_mappings = [], ck_unresolved = []\<rparr>"

definition sync_db :: "string \<Rightarrow> db" where
  "sync_db status = account_db\<lparr>db_rules := [(''r1'', sample_rule)],
     db_runs := [(str_nat 7, sample_run status)], db_checkpoints := [(''r1'', sample_checkpoint)]\<rparr>"

definition sync_engine :: "string \<Rightarrow> fake_world engine" where
  "sync_engine status = (engine_on (sync_db status))\<lparr>st_drawn := 10\<rparr>"

lemma sync_engine_simps [simp]:
  "st_db (sync_engine status) = sync_db status" "st_work (sync_engine status) = sync_db status"
  "st_drawn (sync_engine status) = 10" "st_clock (sync_engine status) = 1000"
  by (simp_all add: sync_engine_def engine_on_def)

lemma sync_db_simps [simp]:
  "db_rules (sync_db status) = [(''r1'', sample_rule)]"
  "db_runs (sync_db status) = [(str_nat 7, sample_run status)]"
  "db_checkpoints (sync_db status) = [(''r1'', sample_checkpoint)]"
  "db_jobs (sync_db status) = []" "db_accounts (sync_db status) = db_accounts account_db"
  by (simp_all add: sync_db_def account_db_def empty_db_def)

lemma sample_run_simps [simp]:
  "run_id (sample_run status) = str_nat 7" "run_rule_id (sample_run status) = ''r1''"
  "run_status (sample_run status) = status" "run_lease_token (sample_run status) = str_nat 8"
  "run_queue_job_id (sample_run status) = ''sync-run:'' @ str_nat 7"
  by (simp_all add: sample_run_def new_run_def)

lemma sync_lease [simp]: "lease_held (str_nat 7) (str_nat 8) (sync_db ''running'')"
  by (simp add: lease_held_def lease_is_current_def)

lemma sync_keyed [simp]: "keyed rule_id (db_rules (sync_db status))" "keyed run_id (db_runs (sync_db status))"
  by (simp_all add: keyed_def is_dict_def sample_rule_def)

lemma sync_ready:
  "lease_held (str_nat 7) (str_nat 8) (st_db (sync_engine ''running''))"
  "keyed rule_id (db_rules (st_db (sync_engine status)))"
  using sync_keyed by simp_all

lemma sync_db_organizer [simp]: "db_organizer_items (sync_db status) = []"
  by (simp add: sync_db_def)

lemma constraints_ok_jobs_accounts:
  "db_jobs d = [] \<Longrightarrow> db_accounts d = db_accounts account_db \<Longrightarrow> length (db_runs d) \<le> 1 \<Longrightarrow>
     length (db_rules d) \<le> 1 \<Longrightarrow> db_organizer_items d = [] \<Longrightarrow> constraints_ok d"
proof -
  have d: "length xs \<le> 1 \<Longrightarrow> distinct (map f (filter p (map snd xs)))"
    and e: "length xs \<le> 1 \<Longrightarrow> distinct (map f (map snd xs))"
    for f :: "'r \<Rightarrow> 'b" and p and xs :: "(string \<times> 'r) list"
    by (cases xs; simp)+
  assume "db_jobs d = []" "db_accounts d = db_accounts account_db" "length (db_runs d) \<le> 1"
    "length (db_rules d) \<le> 1" "db_organizer_items d = []"
  then show ?thesis
    using constraints_ok_account by (simp add: constraint_defs d e del: map_map)
qed

lemma length_update_row [simp]: "length (update_row i f t) = length t"
  by (simp add: update_row_def)

section \<open>What a finished run leaves behind\<close>

lemma constraint_parts:
  assumes "constraints_ok d"
  shows "one_active_run (db_runs d)" and "one_rule_per_pair (db_rules d)"
  using assms by (simp_all add: constraints_ok_def)

lemma ok_run_and_rule [ok_simps]:
  "run_and_rule run s = (Inr (r, rule), t) \<longleftrightarrow>
     t = s \<and> dict_get (db_runs (st_work s)) run = Some r \<and>
     dict_get (db_rules (st_work s)) (run_rule_id r) = Some rule"
  by (auto simp: run_and_rule_def ok_simps split: option.splits)

lemma keyed_get: "keyed key t \<Longrightarrow> dict_get t k = Some r \<Longrightarrow> key r = k"
  by (auto simp: keyed_def list_all_iff dest: map_of_SomeD)

lemma next_run_after_Inr:
  "next_run_after (Aware now) c = Inr t \<longleftrightarrow> 0 < c \<and> t = Aware (now + c * 60)"
  by (auto simp: next_run_after_def)

text \<open>
  C30. Completing a run under its lease ends it as succeeded, replaces the checkpoint of its rule by what
  the run worked with, clears the unresolved tracks and schedules the rule one cadence ahead, always
  in the future, unless the rule has been paused, which then stays unscheduled. No other run and no
  other rule is touched.
\<close>

theorem complete_run_effect:
  assumes "complete_run run lease source target m s = (Inr (), t)"
    and "lease_held run lease (st_db s)" and "keyed rule_id (db_rules (st_db s))"
  shows "\<exists>r rule rule' ck. dict_get (db_runs (st_db s)) run = Some r \<and>
    dict_get (db_rules (st_db s)) (run_rule_id r) = Some rule \<and>
    dict_get (db_rules (st_db t)) (run_rule_id r) = Some rule' \<and>
    dict_get (db_checkpoints (st_db t)) (run_rule_id r) = Some ck \<and>
    map_option run_status (dict_get (db_runs (st_db t)) run) = Some ''succeeded'' \<and>
    ck_source_snapshot ck = source \<and> ck_target_snapshot ck = target \<and>
    ck_mappings ck = m \<and> ck_unresolved ck = [] \<and>
    rule_enabled rule' = rule_enabled rule \<and> rule_last_error rule' = None \<and>
    rule_last_success_at rule' = Some (st_clock s) \<and>
    (if rule_enabled rule
     then rule_status rule' = ''succeeded'' \<and>
       rule_next_run_at rule' = Some (of_int (st_clock s + rule_cadence_minutes rule * 60)) \<and>
       st_clock s < st_clock s + rule_cadence_minutes rule * 60
     else rule_status rule' = ''paused'' \<and> rule_next_run_at rule' = None) \<and>
    (\<forall>k. k \<noteq> run \<longrightarrow> dict_get (db_runs (st_db t)) k = dict_get (db_runs (st_db s)) k) \<and>
    (\<forall>k. k \<noteq> run_rule_id r \<longrightarrow> dict_get (db_rules (st_db t)) k = dict_get (db_rules (st_db s)) k)"
proof -
  from assms(1,2) obtain r rule where
    r: "dict_get (db_runs (st_db s)) run = Some r" "dict_get (db_rules (st_db s)) (run_rule_id r) = Some rule"
    and more: "dict_get (db_checkpoints (st_db s)) (rule_id rule) \<noteq> None"
    by (auto simp: complete_run_def record_success_def next_scheduled_def ok_simps lease_held_def get_checkpoint_def split: if_splits)
  have k: "rule_id rule = run_rule_id r" using keyed_get [OF assms(3) r(2)] .
  show ?thesis
    using assms(1,2) r k more
    by (auto simp: complete_run_def record_success_def next_scheduled_def ok_simps lease_held_def get_checkpoint_def edit_checkpoint_def
        edit_run_def edit_rule_def active_run_def next_run_after_Inr split: if_splits)
qed

theorem complete_run_effect_witness:
  "\<exists>t rule. complete_run (str_nat 7) (str_nat 8) None None [] (sync_engine ''running'') = (Inr (), t) \<and>
     dict_get (db_rules (st_db t)) ''r1'' = Some rule \<and> rule_next_run_at rule = Some 4600"
proof -
  obtain t where "complete_run (str_nat 7) (str_nat 8) None None [] (sync_engine ''running'') = (Inr (), t)"
    by (simp add: complete_run_def record_success_def next_scheduled_def run_and_rule_def run_simps edit_run_def edit_rule_def edit_checkpoint_def
        get_checkpoint_def lease_is_current_def next_run_after_def sample_rule_def
        constraints_ok_jobs_accounts)
  with complete_run_effect [OF this sync_ready] show ?thesis by (auto simp: sample_rule_def)
qed

text \<open>
  C31. A run that fails under its lease ends with the status of its error; a revoked or missing
  login also disables the rule and takes it off the schedule, any other error leaves the rule as
  enabled as it was and schedules a retry, after the delay the provider asked for or the default.
\<close>

theorem fail_run_effect:
  assumes "fail_run env run lease e s = (Inr (), t)"
    and "lease_held run lease (st_db s)" and "keyed rule_id (db_rules (st_db s))"
  shows "\<exists>r rule rule'. dict_get (db_runs (st_db s)) run = Some r \<and>
    dict_get (db_rules (st_db s)) (run_rule_id r) = Some rule \<and>
    dict_get (db_rules (st_db t)) (run_rule_id r) = Some rule' \<and>
    map_option active_run (dict_get (db_runs (st_db t)) run) = Some False \<and>
    db_checkpoints (st_db t) = db_checkpoints (st_db s) \<and>
    rule_last_error rule' \<noteq> Some [] \<and> rule_last_error rule' \<noteq> None \<and>
    (if is_auth_expired e \<or> (\<exists>m. e = AccountNotFound m \<or> e = CredentialNotFound m)
     then rule_status rule' = ''reconnect_required'' \<and> \<not> rule_enabled rule' \<and> rule_next_run_at rule' = None
     else rule_status rule' \<in> {''failed'', ''partial_failure''} \<and>
       rule_enabled rule' = rule_enabled rule \<and>
       rule_next_run_at rule' = Some (of_int (st_clock s) +
         retry_delay env (case e of RateLimited after _ _ \<Rightarrow> after | _ \<Rightarrow> None)))"
proof -
  from assms(1,2) obtain r rule where
    r: "dict_get (db_runs (st_db s)) run = Some r" "dict_get (db_rules (st_db s)) (run_rule_id r) = Some rule"
    by (auto simp: fail_run_def ok_simps lease_held_def Let_def split: if_splits)
  have k: "rule_id rule = run_rule_id r" using keyed_get [OF assms(3) r(2)] .
  have msg: "error_message e \<noteq> []" by (cases e) (simp_all add: error_message_def exn_class_def exn_text_def)
  have st: "pol_status (sync_error_policy e) \<in> {''failed'', ''partial_failure'', ''reconnect_required''}"
    and pause: "pol_pause_rule (sync_error_policy e) =
      (is_auth_expired e \<or> (\<exists>m. e = AccountNotFound m \<or> e = CredentialNotFound m))"
    and reconnect: "pol_pause_rule (sync_error_policy e) = (pol_status (sync_error_policy e) = ''reconnect_required'')"
    and after: "pol_retry_after_s (sync_error_policy e) = (case e of RateLimited after _ _ \<Rightarrow> after | _ \<Rightarrow> None)"
    by (cases e; simp add: sync_error_policy_def is_auth_expired_def)+
  show ?thesis
    unfolding after [symmetric] pause [symmetric]
    using assms(1,2) r k msg st reconnect
    by (auto simp: fail_run_def ok_simps lease_held_def edit_run_def edit_rule_def active_run_def
        Let_def split: if_splits)
qed

theorem fail_run_effect_witness:
  "\<exists>t rule. fail_run sample_env (str_nat 7) (str_nat 8) (AuthExpired ''x'') (sync_engine ''running'') = (Inr (), t) \<and>
     dict_get (db_rules (st_db t)) ''r1'' = Some rule \<and> \<not> rule_enabled rule"
proof -
  obtain t where "fail_run sample_env (str_nat 7) (str_nat 8) (AuthExpired ''x'') (sync_engine ''running'') = (Inr (), t)"
    by (simp add: fail_run_def run_and_rule_def run_simps edit_run_def edit_rule_def Let_def
        lease_is_current_def sample_rule_def constraints_ok_jobs_accounts)
  with fail_run_effect [OF this sync_ready] show ?thesis by (auto simp: is_auth_expired_def)
qed

text \<open>
  The items of a job let a run succeed exactly when none of them still needs attention, which
  is also when a reviewed run may be finalized; writes that failed take precedence over tracks
  that wait for a decision.
\<close>

lemma classify_job_items_sound:
  "(out_status (classify_job_items items) = ''succeeded'') = review_finalization_ready items \<and>
   (out_status (classify_job_items items) = ''partial_failure'') = list_ex failed_write items \<and>
   out_review_count (classify_job_items items) + out_failed_count (classify_job_items items) =
     length (filter needs_attention items)"
proof -
  have split: "needs_attention i = (unmatched_item i \<or> failed_write i)"
    and disj: "\<not> (unmatched_item i \<and> failed_write i)" for i
    by (auto simp: needs_attention_def unmatched_item_def failed_write_def)
  have "length (filter unmatched_item items) + length (filter failed_write items) =
      length (filter needs_attention items)"
    using disj by (induction items) (auto simp: split)
  then show ?thesis
    by (auto simp: classify_job_items_def Let_def review_finalization_ready_def split
        list_all_iff list_ex_iff filter_empty_conv)
qed

text \<open>
  A run is offered for finalization only when its checkpoint still names unresolved tracks,
  every one of them belongs to the job of the run, and no item of that job needs attention.
\<close>

theorem resolved_review_runs_sound:
  "list_all (\<lambda>r. run_status r = ''review_required'' \<and>
     (\<exists>job ck. job_of_run (run_id r) d = Some job \<and>
        review_finalization_ready (job_items (mj_id job) d) \<and>
        filter (\<lambda>i. i \<noteq> []) (ck_unresolved ck) \<noteq> [] \<and>
        set (filter (\<lambda>i. i \<noteq> []) (ck_unresolved ck)) \<subseteq> ji_id ` set (job_items (mj_id job) d) \<and>
        (\<exists>rr. dict_get (db_runs d) (run_id r) = Some rr \<and>
           dict_get (db_checkpoints d) (run_rule_id rr) = Some ck)))
     (resolved_review_runs d)"
proof -
  have mem: "map_of (rev (map (\<lambda>i. (ji_id i, i)) items)) k \<noteq> None \<longleftrightarrow> k \<in> ji_id ` set items"
    for items :: "job_item list" and k
    by (force simp: map_of_eq_None_iff image_iff)
  have "\<exists>job ck. job_of_run run d = Some job \<and>
        review_finalization_ready (job_items (mj_id job) d) \<and>
        filter (\<lambda>i. i \<noteq> []) (ck_unresolved ck) \<noteq> [] \<and>
        set (filter (\<lambda>i. i \<noteq> []) (ck_unresolved ck)) \<subseteq> ji_id ` set (job_items (mj_id job) d) \<and>
        (\<exists>rr. dict_get (db_runs d) run = Some rr \<and> dict_get (db_checkpoints d) (run_rule_id rr) = Some ck)"
    if ready: "review_ready_for_run run d" for run
  proof -
    from ready obtain job rr ck where
      j: "job_of_run run d = Some job" "dict_get (db_runs d) run = Some rr"
        "dict_get (db_checkpoints d) (run_rule_id rr) = Some ck"
      and res: "checkpoint_review_resolved ck (job_items (mj_id job) d)"
      by (auto simp: review_ready_for_run_def split: option.splits)
    from res have "list_all (\<lambda>i. i \<in> ji_id ` set (job_items (mj_id job) d))
        (filter (\<lambda>i. i \<noteq> []) (ck_unresolved ck))"
      unfolding checkpoint_review_resolved_def Let_def mem by blast
    with res j show ?thesis
      by (auto simp: checkpoint_review_resolved_def Let_def list_all_iff)
  qed
  then show ?thesis
    by (auto simp: resolved_review_runs_def order_runs_def select_rows_def list_all_iff)
qed

section \<open>Recovery\<close>

definition recover_all :: "'w env \<Rightarrow> int \<Rightarrow> int \<Rightarrow> sync_run list \<Rightarrow> nat \<Rightarrow> ('w, nat) handler" where
  "recover_all env now cutoff runs n =
     fold_each runs n (\<lambda>n r. if cutoff \<le> last_sign_of_life r then ret n
       else andthen (recover_run env now r) (\<lambda>_. ret (Suc n)))"

lemma ok_recover_run:
  "recover_run env now r s = (Inr u, t) \<Longrightarrow>
     \<exists>g. db_runs (st_work t) = update_row (run_id r) g (db_runs (st_work s)) \<and>
       (\<forall>x. \<not> active_run (g x)) \<and> (\<forall>x. run_id (g x) = run_id x) \<and> st_db t = st_db s"
  by (fastforce simp: recover_run_def ok_simps Let_def edit_run_def edit_rule_def active_run_def)

definition stale_in :: "int \<Rightarrow> sync_run list \<Rightarrow> string \<Rightarrow> bool" where
  "stale_in cutoff runs k = list_ex (\<lambda>r. run_id r = k \<and> last_sign_of_life r < cutoff) runs"

lemma stale_in_absent: "k \<notin> run_id ` set runs \<Longrightarrow> \<not> stale_in cutoff runs k"
  by (auto simp: stale_in_def list_ex_iff)

lemma recover_all_spec:
  assumes "recover_all env now cutoff runs n s = (Inr m, t)"
    and "distinct (map run_id runs)"
    and "\<And>r. r \<in> set runs \<Longrightarrow> dict_get (db_runs (st_work s)) (run_id r) = Some r"
  shows "st_db t = st_db s \<and> n \<le> m \<and> (m = n \<longrightarrow> st_work t = st_work s) \<and>
    (\<forall>k. if stale_in cutoff runs k
         then map_option active_run (dict_get (db_runs (st_work t)) k) = Some False
         else dict_get (db_runs (st_work t)) k = dict_get (db_runs (st_work s)) k)"
  using assms
proof (induction runs arbitrary: n s)
  case Nil
  then show ?case by (simp add: recover_all_def ok_simps stale_in_def)
next
  case (Cons r runs)
  have get: "dict_get (db_runs (st_work s)) (run_id r) = Some r" by (rule Cons.prems(3)) simp
  have new: "run_id r \<notin> run_id ` set runs" using Cons.prems(2) by simp
  show ?case
  proof (cases "cutoff \<le> last_sign_of_life r")
    case True
    then have "recover_all env now cutoff runs n s = (Inr m, t)"
      using Cons.prems(1) by (simp add: recover_all_def ok_simps)
    moreover have "stale_in cutoff (r # runs) k = stale_in cutoff runs k" for k
      using True by (simp add: stale_in_def)
    ultimately show ?thesis using Cons.IH [of n s] Cons.prems(2,3) by simp
  next
    case False
    then obtain u where u: "recover_run env now r s = (Inr (), u)"
      and rest: "recover_all env now cutoff runs (Suc n) u = (Inr m, t)"
      using Cons.prems(1) by (auto simp: recover_all_def ok_simps)
    from ok_recover_run [OF u] obtain g where
      g: "db_runs (st_work u) = update_row (run_id r) g (db_runs (st_work s))"
        "\<And>x. \<not> active_run (g x)" "st_db u = st_db s" by blast
    have "dict_get (db_runs (st_work u)) (run_id x) = Some x" if "x \<in> set runs" for x
      using Cons.prems(3) [of x] that new g(1) by (metis dict_get_update_row image_eqI list.set_intros(2))
    with Cons.IH [OF rest] Cons.prems(2) have
      ih: "st_db t = st_db u" "Suc n \<le> m"
        "\<And>k. if stale_in cutoff runs k
         then map_option active_run (dict_get (db_runs (st_work t)) k) = Some False
         else dict_get (db_runs (st_work t)) k = dict_get (db_runs (st_work u)) k"
      by auto
    have "if stale_in cutoff (r # runs) k
         then map_option active_run (dict_get (db_runs (st_work t)) k) = Some False
         else dict_get (db_runs (st_work t)) k = dict_get (db_runs (st_work s)) k" for k
    proof (cases "k = run_id r")
      case True
      then show ?thesis
        using ih(3) [of k] stale_in_absent [OF new] False get g(1,2) by (simp add: stale_in_def)
    next
      case False
      then have "stale_in cutoff (r # runs) k = stale_in cutoff runs k"
        by (auto simp: stale_in_def)
      then show ?thesis using ih(3) [of k] False g(1) by simp
    qed
    then show ?thesis using ih(1,2) g(3) by simp
  qed
qed

lemma recover_stale_runs_alt:
  "recover_stale_runs env now =
     andthen (query (\<lambda>d. select_rows active_run (db_runs d))) (\<lambda>runs.
     andthen (recover_all env now (now - set_sync_stale_run_after_s (env_settings env)) runs 0) (\<lambda>recovered.
     andthen (if recovered \<noteq> 0 then commit else ret ()) (\<lambda>_. ret recovered)))"
  by (simp add: recover_stale_runs_def recover_all_def Let_def)

lemma select_rows_keyed:
  assumes "keyed key t"
  shows "distinct (map key (select_rows p t))"
    and "r \<in> set (select_rows p t) \<Longrightarrow> dict_get t (key r) = Some r"
    and "dict_get t k = Some r \<Longrightarrow> p r \<Longrightarrow> r \<in> set (select_rows p t)"
proof -
  have k: "map key (rows t) = map fst t"
    using assms by (auto simp: keyed_def rows_def list_all_iff)
  then have "distinct (map key (rows t))" using assms by (simp add: keyed_def is_dict_def)
  then show "distinct (map key (select_rows p t))" by (simp add: select_rows_def distinct_map_filter)
  show "dict_get t (key r) = Some r" if "r \<in> set (select_rows p t)"
    using that assms by (auto simp: select_rows_def rows_def keyed_def is_dict_def list_all_iff)
  show "r \<in> set (select_rows p t)" if "dict_get t k = Some r" "p r"
    using that dict_get_rows [of t k r] by (simp add: select_rows_def)
qed

text \<open>
  Recovery ends every run that has shown no sign of life since the cutoff, so that its rule can
  run again, and leaves every other run exactly as it was.
\<close>

lemma recover_stale_runs_effect:
  assumes "recover_stale_runs env now s = (Inr n, t)" and "st_work s = st_db s"
    and "keyed run_id (db_runs (st_db s))"
    and "dict_get (db_runs (st_db s)) k = Some r"
  shows "if active_run r \<and> last_sign_of_life r < now - set_sync_stale_run_after_s (env_settings env)
    then map_option active_run (dict_get (db_runs (st_db t)) k) = Some False
    else dict_get (db_runs (st_db t)) k = Some r"
proof -
  let ?c = "now - set_sync_stale_run_after_s (env_settings env)"
  let ?runs = "select_rows active_run (db_runs (st_work s))"
  from assms(1) obtain m u where a: "recover_all env now ?c ?runs 0 s = (Inr m, u)"
    and c: "(if m \<noteq> 0 then commit else ret ()) u = (Inr (), t)"
    by (auto simp: recover_stale_runs_alt ok_simps)
  note sel = select_rows_keyed [where p = active_run, OF assms(3) [folded assms(2)]]
  from recover_all_spec [OF a sel(1) sel(2)]
  have spec: "st_db u = st_db s" "m = 0 \<longrightarrow> st_work u = st_work s"
    "if stale_in ?c ?runs k
     then map_option active_run (dict_get (db_runs (st_work u)) k) = Some False
     else dict_get (db_runs (st_work u)) k = dict_get (db_runs (st_work s)) k"
    by blast+
  have t: "st_db t = st_work u"
    using c spec(1,2) assms(2) by (cases "m = 0") (simp_all add: ok_simps)
  have k: "run_id r = k" using keyed_get [OF assms(3,4)] .
  have "stale_in ?c ?runs k \<longleftrightarrow> active_run r \<and> last_sign_of_life r < ?c"
  proof
    assume "stale_in ?c ?runs k"
    then obtain x where "x \<in> set ?runs" "run_id x = k" "last_sign_of_life x < ?c"
      by (auto simp: stale_in_def list_ex_iff)
    moreover from this have "x = r" using sel(2) [of x] assms(2,4) by simp
    ultimately show "active_run r \<and> last_sign_of_life r < ?c" by (simp add: select_rows_def)
  next
    assume "active_run r \<and> last_sign_of_life r < ?c"
    with sel(3) [of k r] assms(2,4) k show "stale_in ?c ?runs k"
      by (auto simp: stale_in_def list_ex_iff)
  qed
  with spec(3) t assms(2,4) show ?thesis by simp
qed

lemma recover_stale_runs_effect_witness:
  "\<exists>n t. recover_stale_runs sample_env 9000 (sync_engine ''running'') = (Inr n, t) \<and>
     map_option active_run (dict_get (db_runs (st_db t)) (str_nat 7)) = Some False"
proof -
  have life: "last_sign_of_life (sample_run ''running'') = 0"
    by (simp add: last_sign_of_life_def sample_run_def new_run_def)
  obtain n t where "recover_stale_runs sample_env 9000 (sync_engine ''running'') = (Inr n, t)"
    by (simp add: recover_stale_runs_def recover_run_def run_simps select_rows_def rows_def
        active_run_def life sample_env_def sample_settings_def sample_checkpoint_def edit_run_def edit_rule_def Let_def
        constraints_ok_jobs_accounts)
  moreover have "keyed run_id (db_runs (st_db (sync_engine ''running'')))" using sync_keyed by simp
  ultimately show ?thesis
    using recover_stale_runs_effect [of sample_env 9000 "sync_engine ''running''" n t "str_nat 7"
        "sample_run ''running''"]
    by (auto simp: active_run_def life sample_env_def sample_settings_def)
qed

section \<open>Creation\<close>

text \<open>
  Runs are stored under the identifier they were created with, which the queue identifier
  repeats, and no identifier still to be drawn is in use.
\<close>

definition runs_wf :: "'w env \<Rightarrow> nat \<Rightarrow> sync_run table \<Rightarrow> bool" where
  "runs_wf env n t =
     (is_dict t \<and> list_all (\<lambda>(k, r). run_id r = k \<and> run_queue_job_id r = ''sync-run:'' @ k \<and>
        k \<in> env_uuid env ` {..<n}) t)"

lemma new_run_simps [simp]:
  "run_id (new_run i rule trigger lease now) = i"
  "run_rule_id (new_run i rule trigger lease now) = rule"
  "run_status (new_run i rule trigger lease now) = ''queued''"
  "run_queue_job_id (new_run i rule trigger lease now) = ''sync-run:'' @ i"
  by (simp_all add: new_run_def)

lemma runs_wf_fresh: "runs_wf env n t \<Longrightarrow> inj (env_uuid env) \<Longrightarrow> n \<le> m \<Longrightarrow> dict_get t (env_uuid env m) = None"
  by (auto simp: runs_wf_def list_all_iff map_of_eq_None_iff inj_eq)

lemma runs_wf_add:
  assumes "runs_wf env n t" and "inj (env_uuid env)"
  shows "runs_wf env (Suc (Suc n)) (dict_set (env_uuid env n) (new_run (env_uuid env n) rule trigger lease now) t)"
proof -
  have none: "dict_get t (env_uuid env n) = None" using runs_wf_fresh [OF assms] by simp
  then have e: "dict_set (env_uuid env n) r t = t @ [(env_uuid env n, r)]" for r
    by (rule dict_set_new)
  have n0: "env_uuid env n \<notin> fst ` set t"
    using none by (simp add: map_of_eq_None_iff)
  have "env_uuid env ` {..<n} \<subseteq> env_uuid env ` {..<Suc (Suc n)}" by (rule image_mono) auto
  then have "list_all (\<lambda>(k, r). run_id r = k \<and> run_queue_job_id r = ''sync-run:'' @ k \<and>
      k \<in> env_uuid env ` {..<Suc (Suc n)}) t"
    using assms(1) unfolding runs_wf_def list_all_iff by blast
  moreover have "env_uuid env n \<in> env_uuid env ` {..<Suc (Suc n)}" by simp
  ultimately show ?thesis
    using assms(1) n0 by (simp add: runs_wf_def e new_run_def is_dict_def)
qed

lemma queue_ids_distinct:
  assumes "runs_wf env n t"
  shows "distinct (map run_queue_job_id (rows t))"
proof -
  have "map run_queue_job_id (rows t) = map (\<lambda>k. ''sync-run:'' @ k) (map fst t)"
    using assms by (auto simp: runs_wf_def list_all_iff rows_def)
  moreover have "distinct (map (\<lambda>k. ''sync-run:'' @ k) ks) = distinct ks" for ks
    by (induction ks) auto
  moreover have "distinct (map fst t)" using assms by (simp add: runs_wf_def is_dict_def)
  ultimately show ?thesis by metis
qed

lemma create_queued_run_ok:
  assumes wf: "runs_wf env (st_drawn s) (db_runs (st_work s))" and inj: "inj (env_uuid env)"
    and ok: "constraints_ok (st_work s)"
    and rule: "dict_get (db_rules (st_work s)) rule = Some r" "rule_id r = rule"
    and idle: "active_runs_of rule (st_work s) = []"
  obtains run t where "create_queued_run env rule trigger now s = (Inr run, t)"
    and "run = new_run (env_uuid env (st_drawn s)) rule trigger (env_uuid env (Suc (st_drawn s))) (st_clock s)"
    and "st_work t = (st_work s)\<lparr>
      db_runs := dict_set (run_id run) run (db_runs (st_work s)),
      db_rules := update_row rule (\<lambda>r. r\<lparr>rule_status := ''queued'', rule_last_run_at := Some now,
        rule_next_run_at := None, rule_last_error := None\<rparr>) (db_rules (st_work s))\<rparr>"
    and "constraints_ok (st_work t)" and "st_db t = st_db s" and "st_drawn t = Suc (Suc (st_drawn s))"
proof -
  let ?i = "env_uuid env (st_drawn s)"
  let ?run = "new_run ?i rule trigger (env_uuid env (Suc (st_drawn s))) (st_clock s)"
  let ?rules = "update_row rule (\<lambda>r. r\<lparr>rule_status := ''queued'', rule_last_run_at := Some now,
        rule_next_run_at := None, rule_last_error := None\<rparr>) (db_rules (st_work s))"
  let ?d = "(st_work s)\<lparr>db_runs := dict_set ?i ?run (db_runs (st_work s)), db_rules := ?rules\<rparr>"
  have new: "dict_set ?i ?run (db_runs (st_work s)) = db_runs (st_work s) @ [(?i, ?run)]"
    using runs_wf_fresh [OF wf inj order_refl] by (rule dict_set_new)
  have "rule \<notin> run_rule_id ` set (select_rows active_run (db_runs (st_work s)))"
    using idle by (auto simp: active_runs_of_def select_rows_def filter_empty_conv)
  then have "one_active_run (dict_set ?i ?run (db_runs (st_work s)))"
    using ok unfolding new by (auto simp: constraints_ok_def one_active_run_def select_rows_def rows_def
        new_run_def active_run_def)
  moreover have "one_rule_per_pair ?rules"
    unfolding one_rule_per_pair_def
    by (subst map_rows_update) (use ok in \<open>simp_all add: constraints_ok_def one_rule_per_pair_def
        rule_source_def rule_target_def\<close>)
  ultimately have d: "constraints_ok ?d"
    using ok queue_ids_distinct [OF runs_wf_add [OF wf inj, of rule trigger]]
    by (simp add: constraints_ok_def)
  have "create_queued_run env rule trigger now s =
      (Inr ?run, s\<lparr>st_work := ?d, st_drawn := Suc (Suc (st_drawn s))\<rparr>)"
    using rule idle d by (simp add: create_queued_run_def run_simps edit_rule_def Let_def)
  then show ?thesis
    by (rule that [of ?run "s\<lparr>st_work := ?d, st_drawn := Suc (Suc (st_drawn s))\<rparr>"])
      (simp_all add: d)
qed

lemma create_queued_run_busy:
  "dict_get (db_rules (st_work s)) rule = Some r \<Longrightarrow> active_runs_of rule (st_work s) \<noteq> [] \<Longrightarrow>
     create_queued_run env rule trigger now s = (Inl (SyncAlreadyRunning rule), s)"
  by (simp add: create_queued_run_def run_simps)

text \<open>
  A rule never gets a second queued or running run: while one exists, creating another is
  refused without a trace; otherwise exactly one is created, the unique index is never violated,
  and the rule leaves the schedule until the run has ended.
\<close>

lemma create_queued_run_exclusive:
  assumes "runs_wf env (st_drawn s) (db_runs (st_work s))" and "inj (env_uuid env)"
    and "constraints_ok (st_work s)"
    and "dict_get (db_rules (st_work s)) rule = Some r" and "rule_id r = rule"
  shows "if active_runs_of rule (st_work s) \<noteq> []
    then create_queued_run env rule trigger now s = (Inl (SyncAlreadyRunning rule), s)
    else \<exists>run t. create_queued_run env rule trigger now s = (Inr run, t) \<and>
      active_runs_of rule (st_work t) = [run] \<and> run_status run = ''queued'' \<and>
      constraints_ok (st_work t) \<and> runs_wf env (st_drawn t) (db_runs (st_work t)) \<and>
      map_option rule_next_run_at (dict_get (db_rules (st_work t)) rule) = Some None"
proof (cases "active_runs_of rule (st_work s) = []")
  case True
  from create_queued_run_ok [OF assms True, of trigger now] obtain run t where
    c: "create_queued_run env rule trigger now s = (Inr run, t)"
    and run: "run = new_run (env_uuid env (st_drawn s)) rule trigger (env_uuid env (Suc (st_drawn s))) (st_clock s)"
    and w: "st_work t = (st_work s)\<lparr>
      db_runs := dict_set (run_id run) run (db_runs (st_work s)),
      db_rules := update_row rule (\<lambda>r. r\<lparr>rule_status := ''queued'', rule_last_run_at := Some now,
        rule_next_run_at := None, rule_last_error := None\<rparr>) (db_rules (st_work s))\<rparr>"
    and k: "constraints_ok (st_work t)" and n: "st_drawn t = Suc (Suc (st_drawn s))" .
  have i: "run_id run = env_uuid env (st_drawn s)" by (simp add: run new_run_def)
  have new: "dict_set (run_id run) run (db_runs (st_work s)) = db_runs (st_work s) @ [(run_id run, run)]"
    using runs_wf_fresh [OF assms(1,2) order_refl] unfolding i by (rule dict_set_new)
  have "active_runs_of rule (st_work t) = [run]"
    using True unfolding active_runs_of_def select_rows_def w
    by (simp add: new rows_def) (simp add: run new_run_def active_run_def)
  moreover have "runs_wf env (st_drawn t) (db_runs (st_work t))"
    using runs_wf_add [OF assms(1,2), of rule trigger] by (simp add: w n i) (simp add: run)
  ultimately show ?thesis
    using True c k assms(4) by (auto simp: w run new_run_def)
next
  case False
  then show ?thesis using create_queued_run_busy [OF assms(4)] by simp
qed

lemma sync_runs_wf: "runs_wf sample_env 10 (db_runs (sync_db status))"
  by (simp add: runs_wf_def is_dict_def sample_env_def)

lemma create_queued_run_exclusive_witness:
  "create_queued_run sample_env ''r1'' ''manual'' 5 (sync_engine ''queued'') =
     (Inl (SyncAlreadyRunning ''r1''), sync_engine ''queued'')"
proof -
  have "active_runs_of ''r1'' (sync_db ''queued'') \<noteq> []"
    by (simp add: active_runs_of_def select_rows_def rows_def active_run_def)
  moreover have "constraints_ok (sync_db ''queued'')" by (simp add: constraints_ok_jobs_accounts)
  ultimately show ?thesis
    using create_queued_run_exclusive [of sample_env "sync_engine ''queued''" "''r1''" sample_rule "''manual''" 5]
      sync_runs_wf sample_uuid_inj by (simp add: sample_rule_def)
qed

end
