(* ===== verification/Sync_Graph.thy ===== *)
theory Sync_Graph
  imports Database
begin

text \<open>
  The graph of a user's synchronizations: the edges that migrations in progress will add
  (\<open>app/db/sync_graph.py\<close>) and the search for feedback loops of \<open>app/api/syncs.py\<close>. The advisory
  lock of the graph makes a check and the commit that follows it one step, as every handler is
  here.
\<close>

section \<open>Searching a graph\<close>

type_synonym 'n adjacency = "('n, 'n list) dict"

definition successors :: "'n adjacency \<Rightarrow> 'n \<Rightarrow> 'n list" where
  "successors adj p = (case dict_get adj p of None \<Rightarrow> [] | Some qs \<Rightarrow> qs)"

lemma successors_absent: "p \<notin> fst ` set adj \<Longrightarrow> successors adj p = []"
  by (simp add: successors_def map_of_eq_None_iff [THEN iffD2])

text \<open>
  The worklist loop: \<open>pending\<close> is a stack, a set of successors is a list in some order. The
  result does not depend on that order (lemma \<open>reaches_iff\<close>).
\<close>

function reaches :: "'n adjacency \<Rightarrow> 'n \<Rightarrow> 'n list \<Rightarrow> 'n list \<Rightarrow> bool" where
  "reaches adj goal [] visited = False"
| "reaches adj goal (p # pending) visited =
     (if p = goal then True
      else if p \<in> set visited then reaches adj goal pending visited
      else reaches adj goal (successors adj p @ pending) (p # visited))"
  by pat_completeness auto
termination
proof (relation "measures [\<lambda>(adj, goal, pending, visited). card (fst ` set adj - set visited),
      \<lambda>(adj, goal, pending, visited). length pending]", goal_cases)
  case (3 adj goal p pending visited)
  show ?case
  proof (cases "p \<in> fst ` set adj")
    case True
    have "fst ` set adj - set (p # visited) \<subset> fst ` set adj - set visited"
      using True 3 by auto
    then have "card (fst ` set adj - set (p # visited)) < card (fst ` set adj - set visited)"
      by (intro psubset_card_mono) simp
    then show ?thesis by simp
  next
    case False
    then have "fst ` set adj - set (p # visited) = fst ` set adj - set visited" by auto
    then show ?thesis by (simp add: successors_absent [OF False])
  qed
qed simp_all

definition edges :: "'n adjacency \<Rightarrow> ('n \<times> 'n) set" where
  "edges adj = {(p, q). q \<in> set (successors adj p)}"

lemma reaches_sound: "reaches adj goal pending visited \<Longrightarrow> \<exists>p \<in> set pending. (p, goal) \<in> (edges adj)\<^sup>*"
proof (induction adj goal pending visited rule: reaches.induct)
  case (2 adj goal p pending visited)
  show ?case
  proof (cases "p = goal \<or> p \<in> set visited")
    case True
    with 2 show ?thesis by auto
  next
    case False
    with 2 obtain q where q: "q \<in> set (successors adj p @ pending)" "(q, goal) \<in> (edges adj)\<^sup>*"
      by auto
    show ?thesis
    proof (cases "q \<in> set (successors adj p)")
      case True
      then have "(p, q) \<in> edges adj" by (simp add: edges_def)
      with q(2) show ?thesis by (auto intro: converse_rtrancl_into_rtrancl)
    qed (use q in auto)
  qed
qed simp

lemma reaches_closed:
  assumes "\<not> reaches adj goal pending visited" and "goal \<notin> set visited"
    and "\<And>v. v \<in> set visited \<Longrightarrow> set (successors adj v) \<subseteq> set visited \<union> set pending"
  shows "\<exists>C. set visited \<union> set pending \<subseteq> C \<and> goal \<notin> C \<and> (\<forall>v \<in> C. set (successors adj v) \<subseteq> C)"
  using assms
proof (induction adj goal pending visited rule: reaches.induct)
  case (1 adj goal visited)
  show ?case
  proof (intro exI conjI ballI)
    show "set visited \<union> set [] \<subseteq> set visited" by simp
    show "goal \<notin> set visited" by (rule "1.prems"(2))
    show "set (successors adj v) \<subseteq> set visited" if "v \<in> set visited" for v
      using "1.prems"(3) [OF that] by simp
  qed
next
  case (2 adj goal p pending visited)
  from "2.prems"(1) have ne: "p \<noteq> goal" by auto
  show ?case
  proof (cases "p \<in> set visited")
    case True
    have "\<exists>C. set visited \<union> set pending \<subseteq> C \<and> goal \<notin> C \<and> (\<forall>v \<in> C. set (successors adj v) \<subseteq> C)"
    proof (rule "2.IH"(1) [OF ne True])
      show "\<not> reaches adj goal pending visited" using "2.prems"(1) ne True by simp
      show "goal \<notin> set visited" by (rule "2.prems"(2))
      show "set (successors adj v) \<subseteq> set visited \<union> set pending" if "v \<in> set visited" for v
        using "2.prems"(3) [OF that] True by auto
    qed
    then obtain C where "set visited \<union> set pending \<subseteq> C" "goal \<notin> C"
      and C: "\<forall>v \<in> C. set (successors adj v) \<subseteq> C" by blast
    with True have "set visited \<union> set (p # pending) \<subseteq> C \<and> goal \<notin> C" by auto
    with C show ?thesis by blast
  next
    case False
    have "\<exists>C. set (p # visited) \<union> set (successors adj p @ pending) \<subseteq> C \<and> goal \<notin> C \<and>
        (\<forall>v \<in> C. set (successors adj v) \<subseteq> C)"
    proof (rule "2.IH"(2) [OF ne False])
      show "\<not> reaches adj goal (successors adj p @ pending) (p # visited)"
        using "2.prems"(1) ne False by simp
      show "goal \<notin> set (p # visited)" using "2.prems"(2) ne by auto
      show "set (successors adj v) \<subseteq> set (p # visited) \<union> set (successors adj p @ pending)"
        if "v \<in> set (p # visited)" for v
        using "2.prems"(3) [of v] that by auto
    qed
    then obtain C where "set (p # visited) \<union> set (successors adj p @ pending) \<subseteq> C" "goal \<notin> C"
      and C: "\<forall>v \<in> C. set (successors adj v) \<subseteq> C" by blast
    then have "set visited \<union> set (p # pending) \<subseteq> C \<and> goal \<notin> C" by auto
    with C show ?thesis by blast
  qed
qed

lemma closed_rtrancl:
  assumes "(p, q) \<in> (edges adj)\<^sup>*" and "p \<in> C" and "\<forall>v \<in> C. set (successors adj v) \<subseteq> C"
  shows "q \<in> C"
  using assms by (induction rule: rtrancl_induct) (auto simp: edges_def)

lemma reaches_iff: "reaches adj goal pending [] \<longleftrightarrow> (\<exists>p \<in> set pending. (p, goal) \<in> (edges adj)\<^sup>*)"
proof
  assume "\<exists>p \<in> set pending. (p, goal) \<in> (edges adj)\<^sup>*"
  then obtain p where p: "p \<in> set pending" "(p, goal) \<in> (edges adj)\<^sup>*" by blast
  show "reaches adj goal pending []"
  proof (rule ccontr)
    assume "\<not> reaches adj goal pending []"
    then obtain C where "set pending \<subseteq> C" "goal \<notin> C" "\<forall>v \<in> C. set (successors adj v) \<subseteq> C"
      using reaches_closed [of adj goal pending "[]"] by auto
    with closed_rtrancl [OF p(2)] p(1) show False by blast
  qed
qed (rule reaches_sound)

text \<open>Building the adjacency from a list of edges.\<close>

definition adjacency_of :: "('n \<times> 'n) list \<Rightarrow> 'n adjacency" where
  "adjacency_of es = fold (\<lambda>(p, q). dict_append p q) es []"

lemma successors_append: "set (successors (dict_append p q adj) r) =
    (if r = p then insert q (set (successors adj r)) else set (successors adj r))"
  by (auto simp: successors_def dict_get_append split: option.splits)

lemma edges_append: "edges (dict_append p q adj) = insert (p, q) (edges adj)"
  by (auto simp: edges_def successors_append split: if_splits)

lemma edges_adjacency_of: "edges (adjacency_of es) = set es"
proof -
  have "edges (fold (\<lambda>(p, q). dict_append p q) es adj) = edges adj \<union> set es" for adj
    by (induction es arbitrary: adj) (auto simp: edges_append)
  then show ?thesis by (simp add: adjacency_of_def edges_def successors_def)
qed

section \<open>Pending edges\<close>

type_synonym account = "string \<times> string"

record pending_sync =
  ps_source :: endpoint
  ps_target_account :: account

definition pending_sync_of :: "migration_job \<Rightarrow> pending_sync list" where
  "pending_sync_of j =
     (case (sel_continuous_sync (mj_selection j), sel_playlist_ids (mj_selection j)) of
        (Some intent, [p]) \<Rightarrow>
          if mj_status j = ''done'' \<and> si_status intent \<in> {Some ''active'', Some ''failed''} then []
          else [\<lparr>ps_source = (mj_source_provider j, mj_source_account_id j, p),
                 ps_target_account = (mj_target_provider j, mj_target_account_id j)\<rparr>]
      | _ \<Rightarrow> [])"

definition pending_continuous_syncs :: "string \<Rightarrow> db \<Rightarrow> pending_sync list" where
  "pending_continuous_syncs user d =
     concat (map pending_sync_of (select_rows (\<lambda>j. mj_user_id j = user \<and> mj_origin j = ''manual'' \<and>
       mj_status j \<in> {''pending'', ''running'', ''done''}) (db_jobs d)))"

section \<open>Feedback loops\<close>

definition account_of :: "endpoint \<Rightarrow> account" where
  "account_of e = (fst e, fst (snd e))"

definition rules_of :: "string \<Rightarrow> string option \<Rightarrow> db \<Rightarrow> sync_rule list" where
  "rules_of user exclude d =
     select_rows (\<lambda>r. rule_user_id r = user \<and> (\<not> truthy exclude \<or> rule_id r \<noteq> the exclude)) (db_rules d)"

definition playlist_edges :: "sync_rule list \<Rightarrow> (endpoint \<times> endpoint) list" where
  "playlist_edges rs = map (\<lambda>r. (rule_source r, rule_target r)) rs"

definition account_edges :: "sync_rule list \<Rightarrow> (account \<times> account) list" where
  "account_edges rs = map (\<lambda>r. (account_of (rule_source r), account_of (rule_target r))) rs"

definition pending_edges :: "pending_sync list \<Rightarrow> (account \<times> account) list" where
  "pending_edges ps = map (\<lambda>e. (account_of (ps_source e), ps_target_account e)) ps"

definition feedback_error :: exn where
  "feedback_error = HTTPException 409 ''sync rule would create a feedback loop''"

definition pending_back_edge :: "pending_sync list \<Rightarrow> endpoint \<Rightarrow> endpoint \<Rightarrow> bool" where
  "pending_back_edge ps source target =
     list_ex (\<lambda>e. ps_source e = target \<and> ps_target_account e = account_of source) ps"

definition account_loop :: "sync_rule list \<Rightarrow> pending_sync list \<Rightarrow> endpoint \<Rightarrow> endpoint \<Rightarrow> bool" where
  "account_loop rs ps source target =
     reaches (adjacency_of (account_edges rs @ pending_edges ps)) (account_of source) [account_of target] []"

definition playlist_loop :: "sync_rule list \<Rightarrow> endpoint \<Rightarrow> endpoint \<Rightarrow> bool" where
  "playlist_loop rs source target = reaches (adjacency_of (playlist_edges rs)) source [target] []"

definition ensure_no_feedback_loop ::
  "string \<Rightarrow> endpoint \<Rightarrow> endpoint \<Rightarrow> string option \<Rightarrow> ('w, unit) handler"
where
  "ensure_no_feedback_loop user source target exclude =
     andthen (query (pending_continuous_syncs user)) (\<lambda>ps.
     andthen (when_do (pending_back_edge ps source target) (throw feedback_error)) (\<lambda>_.
     andthen (query (rules_of user exclude)) (\<lambda>rs.
     andthen (when_do (account_loop rs ps source target) (throw feedback_error)) (\<lambda>_.
     when_do (playlist_loop rs source target) (throw feedback_error)))))"

section \<open>What the search decides\<close>

text \<open>The accounts between which a user's rules copy.\<close>

definition rule_edge :: "sync_rule \<Rightarrow> account \<times> account" where
  "rule_edge r = (account_of (rule_source r), account_of (rule_target r))"

definition account_graph :: "string \<Rightarrow> sync_rule table \<Rightarrow> (account \<times> account) set" where
  "account_graph user rules = rule_edge ` {r \<in> set (rows rules). rule_user_id r = user}"

lemma set_account_edges: "set (account_edges (rules_of user None d)) = account_graph user (db_rules d)"
  by (simp add: account_edges_def rules_of_def account_graph_def select_rows_def rule_edge_def [abs_def])

lemma account_loop_iff: "account_loop rs ps source target \<longleftrightarrow>
    (account_of target, account_of source) \<in> (set (account_edges rs) \<union> set (pending_edges ps))\<^sup>*"
  by (simp add: account_loop_def reaches_iff edges_adjacency_of)

lemma playlist_loop_iff: "playlist_loop rs source target \<longleftrightarrow> (target, source) \<in> (set (playlist_edges rs))\<^sup>*"
  by (simp add: playlist_loop_def reaches_iff edges_adjacency_of)

lemma no_account_loop:
  "\<not> account_loop (rules_of user None d) ps source target \<Longrightarrow>
     (account_of target, account_of source) \<notin> (account_graph user (db_rules d))\<^sup>*"
  unfolding account_loop_iff set_account_edges by (blast intro: rtrancl_mono [THEN subsetD])

text \<open>A path of playlists is a path of their accounts.\<close>

lemma playlist_path_accounts:
  assumes "(p, q) \<in> (set (playlist_edges rs))\<^sup>*"
  shows "(account_of p, account_of q) \<in> (set (account_edges rs))\<^sup>*"
  using assms
proof (induction rule: rtrancl_induct)
  case (step q r)
  then have "(account_of q, account_of r) \<in> set (account_edges rs)"
    by (auto simp: playlist_edges_def account_edges_def)
  with step.IH show ?case by (rule rtrancl_into_rtrancl)
qed simp

lemma playlist_loop_account_loop: "playlist_loop rs source target \<Longrightarrow> account_loop rs ps source target"
  unfolding playlist_loop_iff account_loop_iff
  by (blast dest: playlist_path_accounts intro: rtrancl_mono [THEN subsetD])

text \<open>
  The second search of the feedback check, over playlists, never finds anything: whatever it
  would refuse the first search, over accounts, has refused already.
\<close>

lemma playlist_search_redundant:
  "ensure_no_feedback_loop user source target exclude =
     andthen (query (pending_continuous_syncs user)) (\<lambda>ps.
     andthen (when_do (pending_back_edge ps source target) (throw feedback_error)) (\<lambda>_.
     andthen (query (rules_of user exclude)) (\<lambda>rs.
     when_do (account_loop rs ps source target) (throw feedback_error))))"
  by (rule ext) (auto simp: ensure_no_feedback_loop_def run_simps dest: playlist_loop_account_loop
      split: sum.splits prod.splits)

text \<open>
  Two playlists of the same account are always refused as a feedback loop, although the check
  of the endpoints forbids only a playlist that is its own target.
\<close>

lemma same_account_refused:
  assumes "account_of source = account_of target"
  shows "ensure_no_feedback_loop user source target exclude s = (Inl feedback_error, s)"
  using assms by (simp add: ensure_no_feedback_loop_def run_simps account_loop_iff)

lemma same_account_refused_witness:
  "\<forall>s :: unit engine.
     ensure_no_feedback_loop ''owner'' (''fake'', ''acc-1'', ''pl-1'') (''fake'', ''acc-1'', ''new-1'') None s =
       (Inl feedback_error, s)"
  by (rule allI, rule same_account_refused) (simp add: account_of_def)

text \<open>How the rule tables that the operations write change the graph.\<close>

lemma account_graph_set:
  "account_graph user (dict_set i r t) \<subseteq>
     account_graph user t \<union> (if rule_user_id r = user then {rule_edge r} else {})"
proof -
  have "set (rows (dict_set i r t)) \<subseteq> insert r (set (rows t))"
    using image_mono [OF set_dict_set, of snd i r t] by (simp add: rows_def)
  then show ?thesis unfolding account_graph_def by (simp split: if_split) blast
qed

lemma account_graph_delete: "account_graph user (delete_rows p t) \<subseteq> account_graph user t"
proof -
  have "set (rows (delete_rows p t)) \<subseteq> set (rows t)"
    unfolding rows_def delete_rows_def set_map by (rule image_mono) (rule filter_is_subset)
  then show ?thesis unfolding account_graph_def by blast
qed

lemma account_graph_update:
  assumes "\<And>r. rule_user_id (f r) = rule_user_id r" and "\<And>r. rule_edge (f r) = rule_edge r"
  shows "account_graph user (update_row i f t) = account_graph user t"
proof -
  let ?e = "\<lambda>r. (rule_user_id r, rule_edge r)"
  have g: "account_graph user t = snd ` {e \<in> ?e ` set (rows t). fst e = user}" for t
    unfolding account_graph_def image_Collect by force
  have "map ?e (rows (update_row i f t)) = map ?e (rows t)"
    by (rule map_rows_update) (simp only: assms)
  then have "?e ` set (rows (update_row i f t)) = ?e ` set (rows t)"
    unfolding set_map [symmetric] by (simp only:)
  then show ?thesis by (simp only: g)
qed

text \<open>A rule whose target does not reach its source closes no cycle.\<close>

lemma acyclic_set:
  assumes "acyclic (account_graph user t)"
    and "rule_user_id r = user \<Longrightarrow> (snd (rule_edge r), fst (rule_edge r)) \<notin> (account_graph user t)\<^sup>*"
  shows "acyclic (account_graph user (dict_set i r t))"
proof (rule acyclic_subset [OF _ account_graph_set])
  show "acyclic (account_graph user t \<union> (if rule_user_id r = user then {rule_edge r} else {}))"
    using assms by (cases "rule_edge r") (simp add: acyclic_insert)
qed

end
