(* ===== verification/Sync_Rules.thy ===== *)
theory Sync_Rules
  imports Sync_Runs Sync_Graph
begin

text \<open>
  Synchronization rules: the controls of \<open>app/api/syncs.py\<close> (create, list, update, pause, resume,
  run, delete) and the pending edges of \<open>app/db/sync_graph.py\<close>. The advisory lock of the graph
  makes a check and the commit that follows it one step, as every handler is here. The last
  section shows that the rules of a user never form a cycle of accounts.
\<close>

section \<open>Checks\<close>

record create_rule =
  cr_migration_job_id :: string
  cr_mode :: sync_mode
  cr_cadence_minutes :: int
  cr_timezone :: string

record update_rule =
  up_mode :: "sync_mode option"
  up_cadence_minutes :: "int option"
  up_timezone :: "string option"

definition mode_of_value :: "string \<Rightarrow> exn + sync_mode" where
  "mode_of_value s =
     (if s = ''add_only'' then Inr ADD_ONLY else if s = ''mirror'' then Inr MIRROR
      else Inl (ValueError (repr_str s @ '' is not a valid SyncMode'')))"

definition validate_schedule :: "'w env \<Rightarrow> int \<Rightarrow> string \<Rightarrow> exn + unit" where
  "validate_schedule env cadence timezone =
     (let lo = set_sync_min_cadence_minutes (env_settings env);
          hi = set_sync_max_cadence_minutes (env_settings env)
      in if \<not> (lo \<le> cadence \<and> cadence \<le> hi)
         then Inl (HTTPException 400
                (''cadence_minutes must be between '' @ str_int lo @ '' and '' @ str_int hi))
         else if \<not> env_zone_known env timezone
         then Inl (HTTPException 400 ''timezone must be a valid IANA name'')
         else Inr ())"

definition ensure_mirror_available :: "'w adapter \<Rightarrow> playlist_kind \<Rightarrow> exn + unit" where
  "ensure_mirror_available a kind =
     (case mirror_unavailable_reason a kind of
        None \<Rightarrow> Inr () | Some reason \<Rightarrow> Inl (HTTPException 400 reason))"

definition snapshot_kind :: "snapshot option \<Rightarrow> playlist_kind" where
  "snapshot_kind s = (case s of None \<Rightarrow> STANDARD | Some sn \<Rightarrow> sn_kind sn)"

definition checkpoint_kind :: "sync_checkpoint option \<Rightarrow> playlist_kind" where
  "checkpoint_kind ck =
     (case ck of None \<Rightarrow> STANDARD | Some c \<Rightarrow> snapshot_kind (ck_source_snapshot c))"

definition ensure_distinct_endpoints :: "endpoint \<Rightarrow> endpoint \<Rightarrow> exn + unit" where
  "ensure_distinct_endpoints source target =
     (if source = target
      then Inl (HTTPException 409 ''a sync source and target cannot be the same playlist'')
      else Inr ())"

definition full_playlist_id :: "migration_job \<Rightarrow> exn + string" where
  "full_playlist_id j =
     (case sel_playlist_ids (mj_selection j) of
        [p] \<Rightarrow>
          (case dict_get (sel_tracks (mj_selection j)) p of
             Some (t # ts) \<Rightarrow>
               Inl (HTTPException 409 ''sync rules require a completed full-playlist migration'')
           | _ \<Rightarrow> Inr p)
      | _ \<Rightarrow> Inl (HTTPException 409 ''sync rules require a completed single-playlist migration''))"

definition created_target :: "string \<Rightarrow> db \<Rightarrow> string option" where
  "created_target job d =
     (case order_desc ol_updated_at (select_rows (\<lambda>l. ol_job_id l = job \<and>
             ol_op l = ''create_playlist'' \<and> ol_observed_target_id l \<noteq> None) (db_ledger d)) of
        [] \<Rightarrow> None | l # _ \<Rightarrow> ol_observed_target_id l)"

definition target_playlist_ids :: "migration_job \<Rightarrow> string \<Rightarrow> job_item list \<Rightarrow> db \<Rightarrow> string list" where
  "target_playlist_ids j p items d =
     (let from_items = remdups (map (\<lambda>i. the (ji_target_playlist_id i))
            (filter (\<lambda>i. truthy (ji_target_playlist_id i)) items))
      in if from_items \<noteq> [] then from_items
         else case dict_get (sel_target_playlist_ids (mj_selection j)) p of
           Some (c # cs) \<Rightarrow> [c # cs]
         | _ \<Rightarrow> (case created_target (mj_id j) d of
               Some (c # cs) \<Rightarrow> [c # cs] | _ \<Rightarrow> []))"

definition single_target :: "string list \<Rightarrow> exn + string" where
  "single_target ids =
     (case ids of
        [t] \<Rightarrow> Inr t
      | _ \<Rightarrow> Inl (HTTPException 409
            ''completed migration does not identify exactly one target playlist''))"

definition settled_targets :: "job_item list \<Rightarrow> (int, string option) dict" where
  "settled_targets items =
     fold (\<lambda>i m. if ji_status i \<in> {''written'', ''skipped''} \<and> dict_get m (ji_position i) = None
            then dict_set (ji_position i) (ji_target_uri i) m else m) items []"

definition initial_mappings :: "snapshot option \<Rightarrow> job_item list \<Rightarrow> mappings" where
  "initial_mappings s items =
     fold (\<lambda>e m. case dict_get (settled_targets items) (en_position e) of
            None \<Rightarrow> m | Some u \<Rightarrow> dict_set (en_token e) u m) (entries s) []"

definition migration_source_snapshot ::
  "'w env \<Rightarrow> string \<Rightarrow> string \<Rightarrow> string \<Rightarrow> job_item list \<Rightarrow> exn + snapshot"
where
  "migration_source_snapshot env p name provider items =
     (case all_some (map (\<lambda>i. env_read_track env (ji_source_metadata i)) items) of
        None \<Rightarrow> Inl (HTTPException 409 ''migration does not contain a reusable source snapshot'')
      | Some ts \<Rightarrow> Inr (build_playlist_snapshot (new_playlist (Some p) name ts) provider))"

definition snapshot_tokens :: "snapshot option \<Rightarrow> string list" where
  "snapshot_tokens s = map en_token (entries s)"

definition unmapped :: "snapshot option \<Rightarrow> mappings \<Rightarrow> string list" where
  "unmapped s m =
     filter (\<lambda>t. case dict_get m t of Some u \<Rightarrow> \<not> truthy u | None \<Rightarrow> True) (snapshot_tokens s)"

definition mirror_incomplete :: exn where
  "mirror_incomplete =
     HTTPException 409 ''mirror requires a target match for every migratable source track''"

definition endpoint_rule :: "string \<Rightarrow> endpoint \<Rightarrow> endpoint \<Rightarrow> db \<Rightarrow> sync_rule option" where
  "endpoint_rule user source target d =
     find (\<lambda>r. rule_user_id r = user \<and> rule_source r = source \<and> rule_target r = target)
       (rows (db_rules d))"

definition ensure_no_unresolved_review :: "string \<Rightarrow> ('w, unit) handler" where
  "ensure_no_unresolved_review rule =
     andthen (get_checkpoint rule) (\<lambda>ck.
       when_do (case ck of None \<Rightarrow> False | Some c \<Rightarrow> ck_unresolved c \<noteq> [])
         (throw (HTTPException 409
            ''resolve the current sync review before starting or resuming the rule'')))"

definition ensure_not_active :: "string \<Rightarrow> ('w, unit) handler" where
  "ensure_not_active rule =
     andthen (query (active_runs_of rule)) (\<lambda>active.
       when_do (active \<noteq> []) (throw (HTTPException 409 ''sync rule is currently running'')))"

definition owned_rule :: "string \<Rightarrow> string \<Rightarrow> ('w, sync_rule) handler" where
  "owned_rule rule user =
     andthen (query (\<lambda>d. dict_get (db_rules d) rule)) (\<lambda>found.
       case found of
         Some r \<Rightarrow> if rule_user_id r = user then ret r else throw (HTTPException 404 ''sync rule not found'')
       | None \<Rightarrow> throw (HTTPException 404 ''sync rule not found''))"

section \<open>Operations\<close>

text \<open>A rule as the API shows it: the fields of the rule, its latest run and that run's job.\<close>

record rule_view =
  rv_rule :: sync_rule
  rv_latest_run :: "sync_run option"
  rv_migration_job_id :: "string option"

definition rule_view_of :: "sync_rule \<Rightarrow> rule_view" where
  "rule_view_of r = \<lparr>rv_rule = r, rv_latest_run = None, rv_migration_job_id = None\<rparr>"

definition latest_run_of :: "string \<Rightarrow> db \<Rightarrow> sync_run option" where
  "latest_run_of rule d =
     (case order_desc (\<lambda>r. (run_created_at r, run_id r))
             (select_rows (\<lambda>r. run_rule_id r = rule) (db_runs d)) of
        [] \<Rightarrow> None | r # _ \<Rightarrow> Some r)"

definition rule_views :: "db \<Rightarrow> sync_rule list \<Rightarrow> rule_view list" where
  "rule_views d rs = map (\<lambda>r.
     let latest = latest_run_of (rule_id r) d
     in \<lparr>rv_rule = r, rv_latest_run = latest,
         rv_migration_job_id = (case latest of None \<Rightarrow> None
           | Some run \<Rightarrow> map_option mj_id (job_of_run (run_id run) d))\<rparr>) rs"

definition list_syncs :: "string \<Rightarrow> db \<Rightarrow> rule_view list" where
  "list_syncs user d =
     rule_views d (order_desc (\<lambda>r. (rule_created_at r, rule_id r))
       (select_rows (\<lambda>r. rule_user_id r = user) (db_rules d)))"

definition view_of_rule :: "string \<Rightarrow> ('w, rule_view) handler" where
  "view_of_rule rule =
     andthen (query (\<lambda>d. (dict_get (db_rules d) rule, d))) (\<lambda>(found, d).
     case found of
       None \<Rightarrow> throw (HTTPException 404 ''sync rule not found'')
     | Some r \<Rightarrow> ret (hd (rule_views d [r])))"

definition get_sync :: "string \<Rightarrow> string \<Rightarrow> ('w, rule_view) handler" where
  "get_sync rule user =
     andthen open_session (\<lambda>_. andthen (owned_rule rule user) (\<lambda>r. view_of_rule (rule_id r)))"

text \<open>Both playlists as they are now, read with the credentials of the user's accounts.\<close>

definition read_endpoints ::
  "'w env \<Rightarrow> string \<Rightarrow> endpoint \<Rightarrow> endpoint \<Rightarrow> sync_mode \<Rightarrow> ('w, playlist \<times> playlist) handler"
where
  "read_endpoints env user source target mode = (case (source, target) of
     ((sprov, sacc, spl), (tprov, tacc, tpl)) \<Rightarrow>
     catching
       (andthen (expect (get_adapter (env_registry env) sprov)) (\<lambda>sa.
        andthen (expect (get_adapter (env_registry env) tprov)) (\<lambda>ta.
        andthen (load_fresh_credential env sacc sa (Some sprov) (Some user)) (\<lambda>(scred, _).
        andthen (load_fresh_credential env tacc ta (Some tprov) (Some user)) (\<lambda>(tcred, _).
        andthen (call (ad_read_playlist sa scred (new_ref spl spl))) (\<lambda>sp.
        andthen (call (ad_read_playlist ta tcred (new_ref tpl tpl))) (\<lambda>tp.
        andthen (if mode = MIRROR then expect (ensure_mirror_available ta (pl_kind sp)) else ret ())
          (\<lambda>_. ret (sp, tp)))))))))
       (\<lambda>e. throw (api_error e)))"

definition rule_exists :: exn where
  "rule_exists = HTTPException 409 ''a sync rule already exists for these playlist endpoints''"

definition new_rule ::
  "string \<Rightarrow> string \<Rightarrow> endpoint \<Rightarrow> string \<Rightarrow> endpoint \<Rightarrow> string \<Rightarrow> create_rule \<Rightarrow> rat option \<Rightarrow> int \<Rightarrow> sync_rule"
where
  "new_rule i user source source_name target target_name body next_at now =
     (case (source, target) of ((sprov, sacc, spl), (tprov, tacc, tpl)) \<Rightarrow>
     \<lparr>rule_id = i, rule_user_id = user, rule_source_provider = sprov,
      rule_source_account_id = sacc, rule_source_playlist_id = spl,
      rule_source_playlist_name = source_name, rule_target_provider = tprov,
      rule_target_account_id = tacc, rule_target_playlist_id = tpl,
      rule_target_playlist_name = target_name, rule_mode = mode_value (cr_mode body),
      rule_cadence_minutes = cr_cadence_minutes body, rule_timezone = cr_timezone body,
      rule_enabled = True, rule_status = ''idle'', rule_last_run_at = None,
      rule_last_success_at = None, rule_next_run_at = next_at, rule_last_error = None,
      rule_last_added = 0, rule_last_removed = 0, rule_last_reordered = 0,
      rule_created_at = now\<rparr>)"

definition next_run_time :: "int \<Rightarrow> int \<Rightarrow> ('w, rat option) handler" where
  "next_run_time now cadence =
     andthen (expect (next_run_after (Aware now) cadence)) (\<lambda>t.
       ret (case t of Aware n \<Rightarrow> Some (of_int n) | Naive n \<Rightarrow> Some (of_int n)))"

definition insert_rule ::
  "string \<Rightarrow> sync_rule \<Rightarrow> sync_checkpoint \<Rightarrow> bool \<Rightarrow> ('w, rule_view) handler"
where
  "insert_rule user r ck allow_existing =
     catching
       (andthen (edit (\<lambda>d. d\<lparr>db_rules := dict_set (rule_id r) r (db_rules d)\<rparr>)) (\<lambda>_.
        andthen flush (\<lambda>_.
        andthen (edit (\<lambda>d. d\<lparr>db_checkpoints := dict_set (rule_id r) ck (db_checkpoints d)\<rparr>)) (\<lambda>_.
        andthen commit (\<lambda>_. ret (rule_view_of r))))))
       (\<lambda>e. case e of
          IntegrityError \<Rightarrow>
            andthen rollback (\<lambda>_.
            andthen (query (endpoint_rule user (rule_source r) (rule_target r))) (\<lambda>existing.
            case existing of
              Some x \<Rightarrow> if allow_existing then ret (rule_view_of x) else throw rule_exists
            | None \<Rightarrow> throw rule_exists))
        | _ \<Rightarrow> throw e)"

definition owned_manual_job :: "string \<Rightarrow> string \<Rightarrow> db \<Rightarrow> migration_job option" where
  "owned_manual_job job user d =
     find (\<lambda>j. mj_id j = job \<and> mj_user_id j = user \<and> mj_origin j = ''manual'') (rows (db_jobs d))"

definition playlist_items :: "string \<Rightarrow> string \<Rightarrow> db \<Rightarrow> job_item list" where
  "playlist_items job p d =
     sort_key (\<lambda>i. (ji_position i, ji_id i))
       (select_rows (\<lambda>i. ji_job_id i = job \<and> ji_source_playlist_id i = Some p) (db_items d))"

text \<open>The second half of \<open>create_sync_rule\<close>: the endpoints are new to the user's rules.\<close>

definition place_rule ::
  "'w env \<Rightarrow> create_rule \<Rightarrow> string \<Rightarrow> bool \<Rightarrow> job_item list \<Rightarrow> endpoint \<Rightarrow> endpoint \<Rightarrow> ('w, rule_view) handler"
where
  "place_rule env body user allow_existing items source target =
     (case (source, target) of ((sprov, sacc, p), (tprov, tacc, t)) \<Rightarrow>
     andthen (ensure_no_feedback_loop user source target None) (\<lambda>_.
     andthen (read_endpoints env user source target (cr_mode body)) (\<lambda>(sp, tp).
     let current = build_playlist_snapshot sp sprov in
     andthen (expect (migration_source_snapshot env p (pl_name sp) sprov items)) (\<lambda>migrated.
     if snapshot_tokens (Some migrated) \<noteq> snapshot_tokens (Some current)
     then throw (HTTPException 409
       ''source playlist changed since the migration; migrate it again first'')
     else
       let m = initial_mappings (Some migrated) items in
       if cr_mode body = MIRROR \<and> unmapped (Some current) m \<noteq> []
       then throw mirror_incomplete
       else
         andthen utcnow (\<lambda>now.
         andthen (next_run_time now (cr_cadence_minutes body)) (\<lambda>next_at.
         andthen (uuid4 env) (\<lambda>i.
         insert_rule user
           (new_rule i user source (pl_name sp) target (pl_name tp) body next_at now)
           \<lparr>ck_rule_id = i, ck_source_snapshot = Some current,
            ck_target_snapshot = Some (build_playlist_snapshot tp tprov),
            ck_mappings = m, ck_unresolved = []\<rparr>
           allow_existing)))))))"

definition create_sync_rule ::
  "'w env \<Rightarrow> create_rule \<Rightarrow> string \<Rightarrow> bool \<Rightarrow> ('w, rule_view) handler"
where
  "create_sync_rule env body user allow_existing =
     andthen (expect (validate_schedule env (cr_cadence_minutes body) (cr_timezone body))) (\<lambda>_.
     andthen (query (owned_manual_job (cr_migration_job_id body) user)) (\<lambda>found.
     case found of
       None \<Rightarrow> throw (HTTPException 404 ''completed migration not found'')
     | Some j \<Rightarrow>
         if mj_status j \<noteq> ''done''
         then throw (HTTPException 409 ''migration must finish before creating a sync'')
         else
           andthen (expect (full_playlist_id j)) (\<lambda>p.
           andthen (query (playlist_items (mj_id j) p)) (\<lambda>items.
           if list_ex needs_attention items
           then throw (HTTPException 409
             ''resolve failed and review-required migration tracks before creating a sync'')
           else
             andthen (query (target_playlist_ids j p items)) (\<lambda>ids.
             andthen (expect (single_target ids)) (\<lambda>t.
             let source = (mj_source_provider j, mj_source_account_id j, p);
                 target = (mj_target_provider j, mj_target_account_id j, t)
             in
             andthen (expect (ensure_distinct_endpoints source target)) (\<lambda>_.
             andthen (query (endpoint_rule user source target)) (\<lambda>existing.
             case existing of
               Some x \<Rightarrow> if allow_existing then ret (rule_view_of x) else throw rule_exists
             | None \<Rightarrow> place_rule env body user allow_existing items source target))))))))"

definition create_sync :: "'w env \<Rightarrow> create_rule \<Rightarrow> string \<Rightarrow> ('w, rule_view) handler" where
  "create_sync env body user =
     andthen open_session (\<lambda>_. create_sync_rule env body user False)"

definition check_mirror_switch :: "'w env \<Rightarrow> sync_rule \<Rightarrow> ('w, unit) handler" where
  "check_mirror_switch env r =
     andthen (expect (get_adapter (env_registry env) (rule_target_provider r))) (\<lambda>ta.
     andthen (get_checkpoint (rule_id r)) (\<lambda>ck.
     andthen (expect (ensure_mirror_available ta (checkpoint_kind ck))) (\<lambda>_.
     case ck of
       None \<Rightarrow> ret ()
     | Some c \<Rightarrow>
         if ck_source_snapshot c = None then throw (TypeError ''NoneType object is not iterable'')
         else when_do (unmapped (ck_source_snapshot c) (ck_mappings c) \<noteq> [])
           (throw mirror_incomplete))))"

definition update_sync ::
  "'w env \<Rightarrow> string \<Rightarrow> update_rule \<Rightarrow> string \<Rightarrow> ('w, rule_view) handler"
where
  "update_sync env rule body user =
     andthen open_session (\<lambda>_.
     andthen (owned_rule rule user) (\<lambda>r.
     andthen (ensure_not_active (rule_id r)) (\<lambda>_.
     let cadence = (case up_cadence_minutes body of
           Some n \<Rightarrow> if n \<noteq> 0 then n else rule_cadence_minutes r | None \<Rightarrow> rule_cadence_minutes r);
         timezone = or_str (up_timezone body) (rule_timezone r)
     in
     andthen (expect (validate_schedule env cadence timezone)) (\<lambda>_.
     andthen (when_do (up_mode body = Some MIRROR) (check_mirror_switch env r)) (\<lambda>_.
     andthen (edit_rule (rule_id r) (\<lambda>u. u\<lparr>
        rule_mode := (case up_mode body of Some m \<Rightarrow> mode_value m | None \<Rightarrow> rule_mode u),
        rule_cadence_minutes := cadence, rule_timezone := timezone\<rparr>)) (\<lambda>_.
     andthen (when_do (rule_enabled r)
        (andthen utcnow (\<lambda>now. andthen (next_run_time now cadence) (\<lambda>next_at.
           edit_rule (rule_id r) (\<lambda>u. u\<lparr>rule_next_run_at := next_at\<rparr>))))) (\<lambda>_.
     andthen commit (\<lambda>_. view_of_rule (rule_id r)))))))))"

definition pause_sync :: "string \<Rightarrow> string \<Rightarrow> ('w, rule_view) handler" where
  "pause_sync rule user =
     andthen open_session (\<lambda>_.
     andthen (owned_rule rule user) (\<lambda>r.
     andthen (get_checkpoint (rule_id r)) (\<lambda>ck.
     andthen (edit_rule (rule_id r) (\<lambda>u. u\<lparr>rule_enabled := False,
        rule_status := (case ck of
            Some c \<Rightarrow> if ck_unresolved c \<noteq> [] then ''review_required'' else ''paused''
          | None \<Rightarrow> ''paused''),
        rule_next_run_at := None\<rparr>)) (\<lambda>_.
     andthen commit (\<lambda>_. view_of_rule (rule_id r))))))"

definition resume_sync :: "'w env \<Rightarrow> string \<Rightarrow> string \<Rightarrow> ('w, rule_view) handler" where
  "resume_sync env rule user =
     andthen open_session (\<lambda>_.
     andthen (owned_rule rule user) (\<lambda>r.
     andthen (ensure_not_active (rule_id r)) (\<lambda>_.
     andthen (ensure_no_unresolved_review (rule_id r)) (\<lambda>_.
     andthen (ensure_no_feedback_loop user (rule_source r) (rule_target r) (Some (rule_id r))) (\<lambda>_.
     andthen (expect (mode_of_value (rule_mode r))) (\<lambda>mode.
     andthen (if mode = MIRROR
        then andthen (get_checkpoint (rule_id r)) (\<lambda>ck.
             andthen (expect (get_adapter (env_registry env) (rule_target_provider r))) (\<lambda>ta.
             expect (ensure_mirror_available ta (checkpoint_kind ck))))
        else ret ()) (\<lambda>_.
     andthen utcnow (\<lambda>now. andthen (next_run_time now (rule_cadence_minutes r)) (\<lambda>next_at.
     andthen (edit_rule (rule_id r) (\<lambda>u. u\<lparr>rule_enabled := True, rule_status := ''idle'',
        rule_last_error := None, rule_next_run_at := next_at\<rparr>)) (\<lambda>_.
     andthen commit (\<lambda>_. view_of_rule (rule_id r))))))))))))"

text \<open>
  When the queue cannot be reached the run is a background task of the request instead: either
  way it is work to be started, an entry of \<open>st_queue\<close>.
\<close>

definition run_sync_now :: "'w env \<Rightarrow> string \<Rightarrow> string \<Rightarrow> ('w, sync_run) handler" where
  "run_sync_now env rule user =
     andthen open_session (\<lambda>_.
     andthen (owned_rule rule user) (\<lambda>r.
     andthen (ensure_no_unresolved_review (rule_id r)) (\<lambda>_.
     andthen utcnow (\<lambda>now.
     andthen (catching
        (andthen (create_queued_run env (rule_id r) ''manual'' now) (\<lambda>run.
         andthen commit (\<lambda>_. ret run)))
        (\<lambda>e. case e of
           SyncAlreadyRunning _ \<Rightarrow> throw (HTTPException 409 ''sync rule is already running'')
         | _ \<Rightarrow> throw e)) (\<lambda>run.
     andthen (enqueue ''run_sync'' (run_id run) (run_queue_job_id run)) (\<lambda>_. ret run))))))"

text \<open>
  Deleting a rule deletes its runs and its checkpoint; the migration jobs of the runs stay as
  history, no longer tied to a run.
\<close>

definition drop_rule :: "string \<Rightarrow> db \<Rightarrow> db" where
  "drop_rule rule d =
     (let gone = map run_id (select_rows (\<lambda>r. run_rule_id r = rule) (db_runs d))
      in d\<lparr>db_rules := delete_rows (\<lambda>r. rule_id r = rule) (db_rules d),
           db_runs := delete_rows (\<lambda>r. run_rule_id r = rule) (db_runs d),
           db_checkpoints := delete_rows (\<lambda>c. ck_rule_id c = rule) (db_checkpoints d),
           db_jobs := map (\<lambda>(k, j). (k, if mj_sync_run_id j \<in> Some ` set gone
             then j\<lparr>mj_sync_run_id := None\<rparr> else j)) (db_jobs d)\<rparr>)"

definition delete_sync :: "string \<Rightarrow> string \<Rightarrow> ('w, unit) handler" where
  "delete_sync rule user =
     andthen open_session (\<lambda>_.
     andthen (owned_rule rule user) (\<lambda>r.
     andthen (ensure_not_active (rule_id r)) (\<lambda>_.
     andthen (edit (drop_rule (rule_id r))) (\<lambda>_. commit))))"

section \<open>The rules of a user never form a cycle\<close>

lemma keeps_checks [keeps_intro]:
  "keeps (part_is f v) (get_checkpoint rule)"
  "keeps (part_is f v) (ensure_no_unresolved_review rule)" "keeps (part_is f v) (ensure_not_active rule)"
  "keeps (part_is f v) (owned_rule rule user)" "keeps (part_is f v) (view_of_rule rule)"
  "keeps (part_is f v) (next_run_time now cadence)" "keeps (part_is f v) (check_mirror_switch env r)"
  "keeps (part_is f v) (ensure_no_feedback_loop user source target exclude)"
  by (auto simp: get_checkpoint_def ensure_no_unresolved_review_def ensure_not_active_def owned_rule_def
      view_of_rule_def next_run_time_def check_mirror_switch_def ensure_no_feedback_loop_def
      split: prod.splits intro!: keeps_intro)

lemma keeps_read_endpoints [keeps_intro]:
  "account_free f \<Longrightarrow> keeps (part_is f v) (read_endpoints env user source target mode)"
  by (auto simp: read_endpoints_def split: prod.splits intro!: keeps_intro)

abbreviation graph_of :: "string \<Rightarrow> db \<Rightarrow> (account \<times> account) set" where
  "graph_of user d \<equiv> account_graph user (db_rules d)"

lemma account_free_rules [simp]: "account_free db_rules" "account_free (graph_of user)"
  by (simp_all add: account_free_def)

lemma keeps_edit_rule:
  assumes "\<And>r. rule_user_id (f r) = rule_user_id r" and "\<And>r. rule_edge (f r) = rule_edge r"
  shows "keeps (part_is (graph_of user) G) (edit_rule i f)"
  unfolding edit_rule_def by (rule keeps_part_edit) (simp add: account_graph_update assms)

lemma keeps_rule_updates:
  "keeps (part_is (graph_of user) G) (update_sync env rule body v)"
  "keeps (part_is (graph_of user) G) (pause_sync rule v)"
  "keeps (part_is (graph_of user) G) (resume_sync env rule v)"
  "keeps (part_is (graph_of user) G) (run_sync_now env rule v)"
  unfolding update_sync_def pause_sync_def resume_sync_def run_sync_now_def create_queued_run_def Let_def
  by (auto intro!: keeps_intro keeps_edit_rule simp: rule_edge_def rule_source_def rule_target_def
      split: exn.splits)

text \<open>What creating and deleting a rule may do to the rules of the database.\<close>

definition rules_grow :: "string \<Rightarrow> sync_rule table \<Rightarrow> 'w engine \<Rightarrow> bool" where
  "rules_grow user rules s \<longleftrightarrow>
     db_rules (st_db s) = rules \<or>
     (\<exists>i r. db_rules (st_db s) = dict_set i r rules \<and> rule_user_id r = user \<and>
       (snd (rule_edge r), fst (rule_edge r)) \<notin> (account_graph user rules)\<^sup>*)"

lemma rules_grow_refl: "part_is db_rules rules s \<Longrightarrow> rules_grow user rules s"
  by (simp add: rules_grow_def part_is_def)

lemma rules_grow_acyclic:
  assumes "rules_grow user rules s" and "acyclic (account_graph u rules)"
  shows "acyclic (graph_of u (st_db s))"
  using assms unfolding rules_grow_def by (metis acyclic_set)

lemma insert_rule_grows:
  assumes "rule_user_id r = user"
    and "(snd (rule_edge r), fst (rule_edge r)) \<notin> (account_graph user rules)\<^sup>*"
  shows "triple (part_is db_rules rules) (insert_rule u r ck allow)
    (\<lambda>_. rules_grow user rules) (\<lambda>_. rules_grow user rules)"
proof (rule tripleI)
  fix s :: "'a engine"
  assume s: "part_is db_rules rules s"
  have "db_rules (st_db (snd (insert_rule u r ck allow s))) \<in> {rules, dict_set (rule_id r) r rules}"
    using s by (simp add: insert_rule_def run_simps part_is_def split: option.split)
  then have "rules_grow user rules (snd (insert_rule u r ck allow s))"
    using assms unfolding rules_grow_def by blast
  then show "case insert_rule u r ck allow s of (Inl e, t) \<Rightarrow> rules_grow user rules t
      | (Inr a, t) \<Rightarrow> rules_grow user rules t"
    by (cases "insert_rule u r ck allow s") (simp split: sum.split)
qed

lemma no_loop_checked:
  "triple (part_is db_rules rules) (ensure_no_feedback_loop user source target None)
     (\<lambda>_ s. part_is db_rules rules s \<and>
       (account_of target, account_of source) \<notin> (account_graph user rules)\<^sup>*)
     (\<lambda>_. part_is db_rules rules)"
  by (rule tripleI)
    (auto simp: ensure_no_feedback_loop_def run_simps part_is_def split: sum.split prod.split dest!: no_account_loop)

lemma rules_grow_ret: "triple (part_is db_rules rules) (ret a) (\<lambda>_. rules_grow user rules) (\<lambda>_. rules_grow user rules)"
  by (rule triple_ret) (rule rules_grow_refl)

lemma rules_grow_throw: "triple (part_is db_rules rules) (throw e) (\<lambda>_. rules_grow user rules) (\<lambda>_. rules_grow user rules)"
  by (rule triple_throw) (rule rules_grow_refl)

lemmas rules_grow_step = part_andthen [OF _ rules_grow_refl]

lemma new_rule_edge:
  "rule_edge (new_rule i user source sname target tname body next_at now) = (account_of source, account_of target)"
  "rule_user_id (new_rule i user source sname target tname body next_at now) = user"
  by (auto simp: new_rule_def rule_edge_def rule_source_def rule_target_def split: prod.split)

lemmas grow_intros = rules_grow_step keeps_part keeps_read_endpoints keeps_checks account_free_rules
  triple_if triple_prod triple_option rules_grow_throw rules_grow_ret

lemma checked_andthen:
  assumes "\<And>a. (account_of target, account_of source) \<notin> (account_graph user rules)\<^sup>* \<Longrightarrow>
    triple (part_is db_rules rules) (k a) (\<lambda>_. rules_grow user rules) (\<lambda>_. rules_grow user rules)"
  shows "triple (part_is db_rules rules) (andthen (ensure_no_feedback_loop user source target None) k)
    (\<lambda>_. rules_grow user rules) (\<lambda>_. rules_grow user rules)"
proof (rule triple_andthen)
  show "triple (part_is db_rules rules) (ensure_no_feedback_loop user source target None)
     (\<lambda>_ s. part_is db_rules rules s \<and>
       (account_of target, account_of source) \<notin> (account_graph user rules)\<^sup>*) (\<lambda>_. rules_grow user rules)"
    by (rule triple_weaken [OF no_loop_checked]) (assumption | erule rules_grow_refl)+
qed (rule triple_fact, rule assms)

lemma place_rule_grows:
  "triple (part_is db_rules rules) (place_rule env body user allow items source target)
     (\<lambda>_. rules_grow user rules) (\<lambda>_. rules_grow user rules)"
  unfolding place_rule_def Let_def
  by (intro triple_prod, rule checked_andthen, intro grow_intros insert_rule_grows)
    (simp_all add: new_rule_edge rules_grow_refl)

lemma create_sync_rule_grows:
  "triple (part_is db_rules rules) (create_sync_rule env body user allow)
     (\<lambda>_. rules_grow user rules) (\<lambda>_. rules_grow user rules)"
  unfolding create_sync_rule_def Let_def by (intro grow_intros place_rule_grows)

lemma create_rule_acyclic:
  assumes "part_is db_rules rules s" and "acyclic (account_graph u rules)"
  shows "acyclic (graph_of u (st_db (snd (create_sync_rule env body user allow s))))"
proof -
  have "rules_grow user rules (snd (create_sync_rule env body user allow s))"
    using create_sync_rule_grows [of rules env body user allow] assms(1)
    unfolding triple_def by (cases "create_sync_rule env body user allow s") (auto split: sum.splits)
  then show ?thesis using assms(2) by (rule rules_grow_acyclic)
qed

lemma delete_sync_graph:
  "graph_of u (st_db (snd (delete_sync rule user s))) \<subseteq> graph_of u (st_db s)"
  using account_graph_delete [of u]
  by (simp add: delete_sync_def owned_rule_def ensure_not_active_def drop_rule_def Let_def run_simps
      split: option.split sum.split prod.split)

text \<open>
  The operations on rules, and any other handler: one that does not change the edges of anyone's
  rules.
\<close>

inductive rule_step :: "'w env \<Rightarrow> 'w engine \<Rightarrow> 'w engine \<Rightarrow> bool" for env where
  step_create: "rule_step env s (snd (create_sync env body user s))"
| step_continue: "db_rules (st_work s) = db_rules (st_db s) \<Longrightarrow>
    rule_step env s (snd (create_sync_rule env body user True s))"
| step_update: "rule_step env s (snd (update_sync env rule change user s))"
| step_pause: "rule_step env s (snd (pause_sync rule user s))"
| step_resume: "rule_step env s (snd (resume_sync env rule user s))"
| step_run: "rule_step env s (snd (run_sync_now env rule user s))"
| step_delete: "rule_step env s (snd (delete_sync rule user s))"
| step_other: "(\<And>u. graph_of u (st_db t) = graph_of u (st_db s)) \<Longrightarrow> rule_step env s t"

definition graphs_acyclic :: "'w engine \<Rightarrow> bool" where
  "graphs_acyclic s \<longleftrightarrow> (\<forall>u. acyclic (graph_of u (st_db s)))"

definition no_rules :: "'w engine \<Rightarrow> bool" where
  "no_rules s \<longleftrightarrow> db_rules (st_db s) = []"

lemma part_after_open: "part_is f (f (st_db s)) (s\<lparr>st_work := st_db s\<rparr>)"
  by (simp add: part_is_def)

lemma opened: "andthen open_session k s = k () (s\<lparr>st_work := st_db s\<rparr>)"
  by (simp add: run_simps)

lemma opened_part:
  assumes "keeps (part_is f (f (st_db s))) (andthen open_session k)"
  shows "f (st_db (snd (andthen open_session k s))) = f (st_db s)"
  using keepsD [OF assms part_after_open] by (simp add: run_simps part_is_def)

lemma rule_updates_graph:
  "graph_of u (st_db (snd (update_sync env rule body v s))) = graph_of u (st_db s)"
  "graph_of u (st_db (snd (pause_sync rule v s))) = graph_of u (st_db s)"
  "graph_of u (st_db (snd (resume_sync env rule v s))) = graph_of u (st_db s)"
  "graph_of u (st_db (snd (run_sync_now env rule v s))) = graph_of u (st_db s)"
  by (simp_all only: update_sync_def pause_sync_def resume_sync_def run_sync_now_def
      opened_part [where f = "graph_of u", OF keeps_rule_updates(1) [unfolded update_sync_def]]
      opened_part [where f = "graph_of u", OF keeps_rule_updates(2) [unfolded pause_sync_def]]
      opened_part [where f = "graph_of u", OF keeps_rule_updates(3) [unfolded resume_sync_def]]
      opened_part [where f = "graph_of u", OF keeps_rule_updates(4) [unfolded run_sync_now_def]])

lemma rule_step_acyclic: "rule_step env s t \<Longrightarrow> graphs_acyclic s \<Longrightarrow> graphs_acyclic t"
proof (induction rule: rule_step.induct)
  case (step_create s body user)
  show ?case
    unfolding graphs_acyclic_def create_sync_def opened
  proof
    fix u
    from step_create have "acyclic (account_graph u (db_rules (st_db s)))" by (simp only: graphs_acyclic_def)
    then show "acyclic (graph_of u (st_db (snd (create_sync_rule env body user False (s\<lparr>st_work := st_db s\<rparr>)))))"
      by (rule create_rule_acyclic [OF part_after_open [of db_rules]])
  qed
next
  case (step_continue s body user)
  then have p: "part_is db_rules (db_rules (st_db s)) s" by (simp add: part_is_def)
  show ?case
    unfolding graphs_acyclic_def
  proof
    fix u
    from step_continue have "acyclic (account_graph u (db_rules (st_db s)))" by (simp only: graphs_acyclic_def)
    then show "acyclic (graph_of u (st_db (snd (create_sync_rule env body user True s))))"
      by (rule create_rule_acyclic [OF p])
  qed
next
  case (step_delete s rule user)
  show ?case
    unfolding graphs_acyclic_def
  proof
    fix u
    from step_delete have "acyclic (graph_of u (st_db s))" by (simp only: graphs_acyclic_def)
    then show "acyclic (graph_of u (st_db (snd (delete_sync rule user s))))"
      by (rule acyclic_subset) (rule delete_sync_graph)
  qed
next
  case (step_other t s)
  show ?case
    unfolding graphs_acyclic_def
  proof
    fix u
    from step_other.prems have "acyclic (graph_of u (st_db s))" by (simp only: graphs_acyclic_def)
    then show "acyclic (graph_of u (st_db t))" by (simp only: step_other.hyps)
  qed
next
  case (step_update s rule change user)
  then show ?case unfolding graphs_acyclic_def by (simp only: rule_updates_graph simp_thms)
next
  case (step_pause s rule user)
  then show ?case unfolding graphs_acyclic_def by (simp only: rule_updates_graph simp_thms)
next
  case (step_resume s rule user)
  then show ?case unfolding graphs_acyclic_def by (simp only: rule_updates_graph simp_thms)
next
  case (step_run s rule user)
  then show ?case unfolding graphs_acyclic_def by (simp only: rule_updates_graph simp_thms)
qed

interpretation rules: invariant_system no_rules "rule_step env" graphs_acyclic for env
proof
  show "graphs_acyclic s" if "no_rules s" for s :: "'a engine"
    using that by (simp add: no_rules_def graphs_acyclic_def account_graph_def rows_def acyclic_def)
qed (rule rule_step_acyclic)

text \<open>
  C9. Whatever rules are created (by a user or after a migration), changed, paused, resumed, run
  or deleted, in any order and by any users: the accounts between which the rules of a user copy
  never form a cycle, so no change can travel back to where it came from.
\<close>

theorem sync_graph_acyclic:
  assumes "reach no_rules (rule_step env) s"
  shows "acyclic (account_graph user (db_rules (st_db s)))"
  using rules.reach_inv [OF assms] by (simp add: graphs_acyclic_def)

theorem sync_graph_acyclic_witness:
  "acyclic (account_graph ''owner'' (db_rules (st_db (snd (delete_sync ''r1'' ''owner'' (engine_on account_db))))))"
proof (rule sync_graph_acyclic)
  have "reach no_rules (rule_step sample_env) (engine_on account_db)"
    by (rule reach_start) (simp add: no_rules_def engine_on_def account_db_def empty_db_def)
  then show "reach no_rules (rule_step sample_env) (snd (delete_sync ''r1'' ''owner'' (engine_on account_db)))"
    by (rule reach_step) (rule step_delete)
qed

end
