(* ===== verification/Continuous_Sync.thy ===== *)
theory Continuous_Sync
  imports Sync_Rules Migration_History
begin

text \<open>
  The rule a migration was asked to end with (\<open>app/jobs/continuous_sync.py\<close>): the intent is
  stored in the selection of the job, together with what became of it.
\<close>

text \<open>
  The body of the request, as its model validates it; the text of a validation error is the
  validation library's.
\<close>

definition continuous_body :: "string \<Rightarrow> sync_intent \<Rightarrow> exn + create_rule" where
  "continuous_body job intent =
     (let mode = or_str (si_mode intent) ''add_only'';
          cadence = (case si_cadence_minutes intent of None \<Rightarrow> 60 | Some n \<Rightarrow> if n = 0 then 60 else n)
      in case mode_of_value mode of
           Inl e \<Rightarrow> Inl (ValueError ''validation error for CreateSyncRule: mode'')
         | Inr m \<Rightarrow>
             if cadence < 1 then Inl (ValueError ''validation error for CreateSyncRule: cadence_minutes'')
             else Inr \<lparr>cr_migration_job_id = job, cr_mode = m, cr_cadence_minutes = cadence,
                       cr_timezone = or_str (si_timezone intent) ''UTC''\<rparr>)"

definition set_intent :: "string \<Rightarrow> selection \<Rightarrow> sync_intent \<Rightarrow> ('w, unit) handler" where
  "set_intent job sel intent =
     andthen (edit_job job (\<lambda>j. j\<lparr>mj_selection := sel\<lparr>sel_continuous_sync := Some intent\<rparr>\<rparr>)) (\<lambda>_. commit)"

definition unresolved_items :: "string \<Rightarrow> db \<Rightarrow> job_item list" where
  "unresolved_items job d = filter (\<lambda>i. ji_status i \<in> {''needs_review'', ''failed''}) (job_items job d)"

text \<open>Whether an active rule is already recorded.\<close>

definition active_intent :: "sync_intent \<Rightarrow> string option" where
  "active_intent intent = (if si_status intent = Some ''active'' then si_sync_rule_id intent else None)"

definition start_continuous_sync ::
  "'w env \<Rightarrow> migration_job \<Rightarrow> sync_intent \<Rightarrow> ('w, string option) handler"
where
  "start_continuous_sync env j intent =
     andthen (expect (continuous_body (mj_id j) intent)) (\<lambda>body.
     andthen (attempt (create_sync_rule env body (mj_user_id j) True)) (\<lambda>made.
     case made of
       Inl (HTTPException code detail) \<Rightarrow>
         andthen (set_intent (mj_id j) (mj_selection j) (intent\<lparr>si_status := Some ''failed'',
           si_sync_rule_id := None, si_error := Some detail\<rparr>)) (\<lambda>_. ret None)
     | Inl e \<Rightarrow> throw e
     | Inr view \<Rightarrow>
         andthen (set_intent (mj_id j) (mj_selection j) (intent\<lparr>si_status := Some ''active'',
           si_sync_rule_id := Some (rule_id (rv_rule view)), si_error := None\<rparr>)) (\<lambda>_.
         ret (Some (rule_id (rv_rule view))))))"

definition ensure_continuous_sync :: "'w env \<Rightarrow> migration_job \<Rightarrow> ('w, string option) handler" where
  "ensure_continuous_sync env j =
     (if mj_origin j \<noteq> ''manual'' \<or> mj_status j \<noteq> ''done'' then ret None
      else case sel_continuous_sync (mj_selection j) of
        None \<Rightarrow> ret None
      | Some intent \<Rightarrow>
          (case active_intent intent of
             Some r \<Rightarrow> ret (Some r)
           | None \<Rightarrow>
               andthen (query (unresolved_items (mj_id j))) (\<lambda>unresolved.
               if unresolved \<noteq> [] then ret None else start_continuous_sync env j intent)))"

section \<open>When a rule is made\<close>

lemma keeps_insert_rule [keeps_intro]:
  assumes "\<And>d rs cs. f (d\<lparr>db_rules := rs\<rparr>) = f d \<and> f (d\<lparr>db_checkpoints := cs\<rparr>) = f d"
  shows "keeps (part_is f v) (insert_rule user r ck allow)"
  using assms by (auto simp: insert_rule_def intro!: keeps_intro split: exn.splits)

lemma keeps_create_sync_rule:
  "keeps (part_is db_jobs v) (create_sync_rule env body user allow)"
  by (auto simp: create_sync_rule_def place_rule_def Let_def account_free_def split: prod.splits
      intro!: keeps_intro keeps_checks keeps_read_endpoints)

lemma keeps_holding_create_sync_rule [keeps_intro]:
  "keeps (holding job p) (create_sync_rule env body user allow)"
proof -
  have "keeps (holding job p) (insert_rule user r ck allow)" for r ck
    by (auto simp: insert_rule_def intro!: keeps_intro split: exn.splits)
  moreover have fresh: "keeps (holding job p) (load_fresh_credential env account ad provider user)" for account ad provider user
    by (auto simp: load_fresh_credential_def load_credential_def save_credential_def refresh_credential_def Let_def
        drop_account_def intro!: keeps_intro split: exn.splits)
  ultimately show ?thesis
    by (auto simp: create_sync_rule_def place_rule_def Let_def read_endpoints_def ensure_no_feedback_loop_def
        next_run_time_def split: prod.splits intro!: keeps_intro)
qed

text \<open>
  C23. A migration ends with a continuous rule only when it may: whatever identifier
  \<open>ensure_continuous_sync\<close> returns was either recorded as active before, or belongs to a rule made
  now, and then the job is a finished manual migration none of whose items failed or waits for a
  review, and its committed row records the rule as active.
\<close>

theorem continuous_sync_guarded:
  assumes "ensure_continuous_sync env j s = (Inr (Some rule), t)"
    and "part_is db_jobs jobs s" and "dict_get jobs (mj_id j) = Some j"
  shows "mj_origin j = ''manual'' \<and> mj_status j = ''done'' \<and>
    (\<exists>intent. sel_continuous_sync (mj_selection j) = Some intent \<and>
      (active_intent intent = Some rule \<or>
       unresolved_items (mj_id j) (st_work s) = [] \<and>
       (\<exists>k new. dict_get (db_jobs (st_db t)) (mj_id j) = Some k \<and> mj_status k = ''done'' \<and>
          sel_continuous_sync (mj_selection k) = Some new \<and> active_intent new = Some rule)))"
proof -
  from assms(1) obtain intent where guard: "mj_origin j = ''manual''" "mj_status j = ''done''"
    and i: "sel_continuous_sync (mj_selection j) = Some intent"
    and k: "(case active_intent intent of
             Some r \<Rightarrow> ret (Some r)
           | None \<Rightarrow>
               andthen (query (unresolved_items (mj_id j))) (\<lambda>unresolved.
               if unresolved \<noteq> [] then ret None else start_continuous_sync env j intent)) s = (Inr (Some rule), t)"
    by (auto simp: ensure_continuous_sync_def ok_ret split: if_splits option.splits)
  show ?thesis
  proof (cases "active_intent intent")
    case (Some r)
    with k i guard show ?thesis by (simp add: ok_ret)
  next
    case None
    with k have none: "unresolved_items (mj_id j) (st_work s) = []"
      and st: "start_continuous_sync env j intent s = (Inr (Some rule), t)"
      by (auto simp: ok_andthen ok_queries ok_ret split: if_splits)
    let ?store = "\<lambda>view. intent\<lparr>si_status := Some ''active'', si_sync_rule_id := Some (rule_id (rv_rule view)), si_error := None\<rparr>"
    from st obtain body made u where m: "create_sync_rule env body (mj_user_id j) True s = (made, u)"
      and o: "(case made of
       Inl (HTTPException code detail) \<Rightarrow>
         andthen (set_intent (mj_id j) (mj_selection j) (intent\<lparr>si_status := Some ''failed'',
           si_sync_rule_id := None, si_error := Some detail\<rparr>)) (\<lambda>_. ret None)
     | Inl e \<Rightarrow> throw e
     | Inr view \<Rightarrow>
         andthen (set_intent (mj_id j) (mj_selection j) (?store view)) (\<lambda>_.
         ret (Some (rule_id (rv_rule view))))) u = (Inr (Some rule), t)"
      unfolding start_continuous_sync_def ok_andthen ok_attempt ok_queries by (elim exE conjE) (rule that, simp_all)
    have jobs: "part_is db_jobs jobs u"
      using keepsD [OF keeps_create_sync_rule assms(2), of env body "mj_user_id j" True] m by simp
    have "\<exists>view. made = Inr view"
      using o by (cases made) (auto simp: ok_andthen ok_ret ok_throw split: exn.splits)
    then obtain view where v: "made = Inr view" by blast
    from o v have r: "rule = rule_id (rv_rule view)"
      and s: "set_intent (mj_id j) (mj_selection j) (?store view) u = (Inr (), t)"
      by (auto simp: ok_andthen ok_ret)
    from s jobs assms(3) have "dict_get (db_jobs (st_db t)) (mj_id j) =
        Some (j\<lparr>mj_selection := (mj_selection j)\<lparr>sel_continuous_sync := Some (?store view)\<rparr>\<rparr>)"
      by (auto simp: set_intent_def edit_job_def ok_simps part_is_def)
    moreover have "active_intent (?store view) = Some rule" by (simp add: active_intent_def r)
    ultimately show ?thesis using guard i none by simp
  qed
qed

theorem continuous_sync_guarded_witness:
  "\<exists>j jobs t. ensure_continuous_sync sample_env j (engine_on (empty_db\<lparr>db_jobs := jobs\<rparr>)) = (Inr (Some ''r1''), t) \<and>
     mj_origin j = ''manual'' \<and> mj_status j = ''done''"
proof -
  define j where "j = (sample_job ''j1'')\<lparr>mj_origin := ''manual'', mj_status := ''done'',
    mj_selection := empty_selection\<lparr>sel_continuous_sync := Some \<lparr>si_status = Some ''active'', si_sync_rule_id = Some ''r1'',
      si_mode = None, si_cadence_minutes = None, si_timezone = None, si_error = None\<rparr>\<rparr>\<rparr>"
  define s where "s = engine_on (empty_db\<lparr>db_jobs := [(mj_id j, j)]\<rparr>)"
  have e: "ensure_continuous_sync sample_env j s = (Inr (Some ''r1''), s)"
    by (simp add: ensure_continuous_sync_def j_def active_intent_def run_simps empty_selection_def)
  have "part_is db_jobs [(mj_id j, j)] s" by (simp add: s_def part_is_def engine_on_def)
  from continuous_sync_guarded [OF e this] e show ?thesis unfolding s_def by auto
qed

end
