(* ===== verification/Migration_Run.thy ===== *)
theory Migration_Run
  imports Migration_Library Migration_Source Continuous_Sync
begin

text \<open>
  A migration from beginning to end (\<open>app/jobs/migration.py\<close>): reading a source playlist,
  matching and writing its tracks, the library part, generated playlists, and the worker entry
  point with its error handling. The job a function is given carries the columns that never
  change while it runs; what changes is read from the session.
\<close>

definition the_job :: "string \<Rightarrow> ('w, migration_job) handler" where
  "the_job i = andthen (get_job i) (\<lambda>found.
     case found of None \<Rightarrow> throw (RuntimeError ''the row of the job is gone'') | Some j \<Rightarrow> ret j)"

definition edit_selection :: "string \<Rightarrow> (selection \<Rightarrow> selection) \<Rightarrow> ('w, unit) handler" where
  "edit_selection job f = edit_job job (\<lambda>j. j\<lparr>mj_selection := f (mj_selection j)\<rparr>)"

text \<open>What the history keeps of a playlist: everything but its tracks.\<close>

definition store_playlist_snapshot :: "string \<Rightarrow> playlist \<Rightarrow> string \<Rightarrow> ('w, unit) handler" where
  "store_playlist_snapshot job pl p =
     (let key = or_else (Some p) (pl_id pl)
      in if \<not> truthy key then throw (ValueError ''Cannot store playlist metadata without a playlist ID'')
         else edit_selection job (\<lambda>sel. sel\<lparr>sel_playlist_metadata :=
           dict_set (the key) (pl\<lparr>pl_tracks := []\<rparr>) (sel_playlist_metadata sel)\<rparr>))"

section \<open>Matching the tracks of a playlist\<close>

text \<open>What a playlist is migrated with.\<close>

record 'w track_run =
  tr_job :: migration_job
  tr_target :: "'w adapter"
  tr_cred :: credential
  tr_playlist :: string
  tr_threshold :: rat
  tr_history :: "review_decision list"
  tr_match_only :: bool

definition flush_chunk ::
  "'w env \<Rightarrow> 'w track_run \<Rightarrow> string list \<times> string set \<Rightarrow> ('w, string list \<times> string set) handler"
where
  "flush_chunk env run state =
     flush_matched_chunk env (tr_job run) (tr_target run) (tr_cred run) (tr_playlist run) False state"

definition low_confidence :: "rat \<Rightarrow> string" where
  "low_confidence c = ''match confidence '' @ fixed2 c @ '' below review threshold''"

definition accept_match ::
  "'w env \<Rightarrow> 'w track_run \<Rightarrow> string list \<times> string set \<Rightarrow> string \<Rightarrow> match_result \<Rightarrow>
     ('w, string list \<times> string set) handler"
where
  "accept_match env run state i r =
     (let job = mj_id (tr_job run) in
      andthen (edit_item i (\<lambda>x. x\<lparr>ji_confidence := Some (mt_confidence r)\<rparr>)) (\<lambda>_.
      case mt_candidate r of
        None \<Rightarrow> andthen (mark_commit job i ''failed'' (Some ''no target match found'')) (\<lambda>_. ret state)
      | Some c \<Rightarrow>
          andthen (edit_item i (\<lambda>x. x\<lparr>ji_target_uri := Some (cand_uri c)\<rparr>)) (\<lambda>_.
          if mt_needs_review r
          then andthen (mark_commit job i ''needs_review''
                 (Some (or_str (mt_review_reason r) (low_confidence (mt_confidence r))))) (\<lambda>_. ret state)
          else
            andthen (edit_item i (\<lambda>x. x\<lparr>ji_status := ''matched''\<rparr>)) (\<lambda>_.
            andthen (commit_job_counts job) (\<lambda>_.
            if tr_match_only run then ret state
            else flush_chunk env run (fst state @ [i], snd state))))))"

definition match_failed ::
  "'w track_run \<Rightarrow> 'a \<Rightarrow> string \<Rightarrow> exn \<Rightarrow> ('w, 'a) handler"
where
  "match_failed run state i e =
     (if \<not> is_provider_error e then throw e
      else andthen (mark_commit (mj_id (tr_job run)) i ''failed'' (Some (exn_text e))) (\<lambda>_.
           if is_sync_stop (tr_job run) e then throw e else ret state))"

definition migrate_track ::
  "'w env \<Rightarrow> 'w track_run \<Rightarrow> string list \<times> string set \<Rightarrow> string \<times> track \<Rightarrow>
     ('w, string list \<times> string set) handler"
where
  "migrate_track env run state x = (case x of (i, t) \<Rightarrow>
     andthen (edit_item i (\<lambda>r. r\<lparr>ji_target_playlist_id := Some (tr_playlist run)\<rparr>)) (\<lambda>_.
     andthen (get_item i) (\<lambda>r.
     if ji_status r \<in> {''written'', ''skipped'', ''needs_review''} then ret state
     else if ji_status r = ''matched'' \<and> truthy (ji_target_uri r)
     then flush_chunk env run (fst state @ [i], snd state)
     else
       andthen (mark_item i ''pending'' None) (\<lambda>_.
       if \<not> is_migratable t
       then andthen (mark_commit (mj_id (tr_job run)) i ''skipped''
              (Some (or_str (trk_unsupported_reason t) ''unsupported playlist item''))) (\<lambda>_. ret state)
       else
         andthen (attempt (call (resolve_track None (tr_threshold run) t (tr_target run) (tr_cred run)))) (\<lambda>found.
         case found of
           Inl e \<Rightarrow> match_failed run state i e
         | Inr m \<Rightarrow> accept_match env run state i
             (apply_review_history_bonus (tr_history run) t m (tr_threshold run)))))))"

section \<open>Migrating the playlists\<close>

text \<open>The source of a migration: a shared snapshot, or something that is opened.\<close>

datatype 'w job_source = Shared shared_snapshot | Opened "'w migration_source"

definition open_job_source :: "'w env \<Rightarrow> migration_job \<Rightarrow> ('w, 'w job_source) handler" where
  "open_job_source env j =
     (case mj_source_snapshot j of
        Some sh \<Rightarrow> ret (Shared sh)
      | None \<Rightarrow>
          andthen
            (if mj_source_kind j = ''snapshot''
             then open_snapshot_source env (or_str (mj_source_snapshot_id j) []) (mj_user_id j)
             else open_migration_source env (mj_source_provider j) (mj_source_account_id j)
                    (mj_user_id j) (Some (mj_id j)))
            (\<lambda>src. ret (Opened src)))"

definition source_kind :: "'w job_source \<Rightarrow> string" where
  "source_kind js = (case js of Shared _ \<Rightarrow> ''shared'' | Opened src \<Rightarrow> src_kind src)"

definition read_job_playlist ::
  "migration_job \<Rightarrow> selection \<Rightarrow> 'w job_source \<Rightarrow> string \<Rightarrow> ('w, playlist) handler"
where
  "read_job_playlist j sel js p = (case js of
      Shared sh \<Rightarrow>
        if p \<noteq> or_str (mj_source_share_id j) (mj_source_account_id j)
        then throw (ValueError ''shared migration playlist does not match its snapshot'')
        else ret (snapshot_to_playlist sh)
    | Opened src \<Rightarrow>
        (case (if src_kind src = ''provider'' then dict_get (sel_playlist_snapshots sel) p else None) of
           Some pl \<Rightarrow> ret pl | None \<Rightarrow> read_source_playlist src p))"

definition target_description :: "'w job_source \<Rightarrow> playlist \<Rightarrow> string \<Rightarrow> string" where
  "target_description js pl p =
     or_str (pl_description pl) (case js of
        Shared _ \<Rightarrow> ''Imported from a shared playlist by Open Playlist Engine.''
      | Opened src \<Rightarrow> migration_description src p)"

text \<open>One playlist; the selection the code holds is passed on with the new target in it.\<close>

definition migrate_playlist ::
  "'w env \<Rightarrow> migration_job \<Rightarrow> 'w job_source \<Rightarrow> 'w adapter \<Rightarrow> credential \<Rightarrow> review_decision list \<Rightarrow>
     selection \<Rightarrow> string \<Rightarrow> ('w, selection) handler"
where
  "migrate_playlist env j js ta cred history sel p =
     (let job = mj_id j; threshold = set_review_confidence_threshold (env_settings env) in
      andthen (read_job_playlist j sel js p) (\<lambda>pl.
      andthen (store_playlist_snapshot job pl p) (\<lambda>_.
      andthen commit (\<lambda>_.
      let wanted = set (case dict_get (sel_tracks sel) p of None \<Rightarrow> [] | Some ts \<Rightarrow> ts);
          tracks = filter (\<lambda>t. track_selected t wanted) (pl_tracks pl) in
      andthen (resolve_target_playlist env j ta cred p (pl_name pl) (target_description js pl p)
          (pl_kind pl) tracks (dict_get (sel_target_playlist_ids sel) p) True) (\<lambda>target.
      andthen (edit_selection job (\<lambda>x. x\<lparr>sel_target_playlist_ids :=
          dict_set p target (sel_target_playlist_ids x)\<rparr>)) (\<lambda>_.
      andthen (the_job job) (\<lambda>j'.
      andthen commit (\<lambda>_.
      andthen (target_playlist_keys ta cred target) (\<lambda>existing.
      andthen commit (\<lambda>_.
      andthen (create_items env j p (pl_name pl) tracks) (\<lambda>pairs.
      let run = \<lparr>tr_job = j, tr_target = ta, tr_cred = cred, tr_playlist = target,
                 tr_threshold = threshold, tr_history = history,
                 tr_match_only = sel_match_only (mj_selection j')\<rparr> in
      andthen (fold_each pairs ([], existing) (migrate_track env run)) (\<lambda>state.
      andthen (flush_all env j ta cred target state) (\<lambda>_.
      ret (mj_selection j'))))))))))))))"

section \<open>The library part\<close>

definition library_source :: "'w job_source \<Rightarrow> ('w, 'w adapter \<times> credential) handler" where
  "library_source js = (case js of
      Shared _ \<Rightarrow> throw (ValueError ''migration source is unavailable for library items'')
    | Opened src \<Rightarrow>
        (case (src_adapter src, src_credential src) of
           (Some a, Some c) \<Rightarrow> ret (a, c)
         | _ \<Rightarrow> throw (ValueError ''migration source is unavailable for library items'')))"

definition library_run_of ::
  "'w env \<Rightarrow> migration_job \<Rightarrow> 'w adapter \<Rightarrow> credential \<Rightarrow> 'w adapter \<Rightarrow> credential \<Rightarrow> entity_type \<Rightarrow>
     'w library_source \<Rightarrow> 'w library_target \<Rightarrow> review_decision list \<Rightarrow> 'w library_run"
where
  "library_run_of env j sa scred ta tcred e src tgt history =
     \<lparr>lr_job = mj_id j, lr_type = e, lr_source_info = ad_info sa, lr_source = src, lr_source_cred = scred,
      lr_target_info = ad_info ta, lr_target = tgt, lr_target_cred = tcred,
      lr_threshold = set_review_confidence_threshold (env_settings env), lr_history = history\<rparr>"

definition migrate_albums ::
  "'w env \<Rightarrow> migration_job \<Rightarrow> 'w adapter \<Rightarrow> credential \<Rightarrow> 'w adapter \<Rightarrow> credential \<Rightarrow> string list \<Rightarrow>
     ('w, unit) handler"
where
  "migrate_albums env j sa scred ta tcred ids =
     andthen (expect (require_saved_album_reader sa)) (\<lambda>src.
     andthen (expect (require_saved_album_writer ta)) (\<lambda>tgt.
     andthen (expect (require_saved_albums_source (ad_info sa) scred)) (\<lambda>_.
     andthen (expect (require_saved_albums_target (ad_info ta) tcred)) (\<lambda>_.
     andthen (previous_reviewed_items j E_ALBUM (set_review_confidence_threshold (env_settings env))) (\<lambda>history.
     migrate_library_entities env (library_run_of env j sa scred ta tcred E_ALBUM src tgt history) ids)))))"

definition migrate_artists ::
  "'w env \<Rightarrow> migration_job \<Rightarrow> 'w adapter \<Rightarrow> credential \<Rightarrow> 'w adapter \<Rightarrow> credential \<Rightarrow> string list \<Rightarrow>
     ('w, unit) handler"
where
  "migrate_artists env j sa scred ta tcred ids =
     andthen (expect (require_followed_artist_reader sa)) (\<lambda>src.
     andthen (expect (require_followed_artist_writer ta)) (\<lambda>tgt.
     andthen (expect (require_followed_artists_source (ad_info sa) scred)) (\<lambda>_.
     andthen (expect (require_followed_artists_target (ad_info ta) tcred)) (\<lambda>_.
     andthen (previous_reviewed_items j E_ARTIST (set_review_confidence_threshold (env_settings env))) (\<lambda>history.
     migrate_library_entities env (library_run_of env j sa scred ta tcred E_ARTIST src tgt history) ids)))))"

definition migrate_libraries ::
  "'w env \<Rightarrow> migration_job \<Rightarrow> 'w job_source \<Rightarrow> 'w adapter \<Rightarrow> credential \<Rightarrow> string list \<Rightarrow> string list \<Rightarrow>
     ('w, unit) handler"
where
  "migrate_libraries env j js ta tcred albums artists =
     when_do (albums \<noteq> [] \<or> artists \<noteq> [])
       (andthen (library_source js) (\<lambda>(sa, scred).
        andthen (when_do (albums \<noteq> []) (migrate_albums env j sa scred ta tcred albums)) (\<lambda>_.
        when_do (artists \<noteq> []) (migrate_artists env j sa scred ta tcred artists))))"

section \<open>Generated playlists\<close>

definition generated_item_track :: "'w env \<Rightarrow> string \<Rightarrow> job_item \<Rightarrow> track" where
  "generated_item_track env target_provider i =
     (let m = ji_source_metadata i;
          t = (case env_read_track env m of
                 Some t \<Rightarrow> t
               | None \<Rightarrow> (new_track (ji_title i) (ji_artist i))\<lparr>
                   trk_id := none_if_empty (meta_str m ''provider_track_id'' None),
                   trk_album := ji_album i, trk_duration_s := ji_duration_s i,
                   trk_release_year := ji_release_year i, trk_explicit := ji_explicit i,
                   trk_isrc := ji_isrc i\<rparr>)
      in t\<lparr>trk_position := Some (ji_position i),
           trk_provider_uris := (if truthy (ji_target_uri i)
             then [(target_provider, the (ji_target_uri i))] else [])\<rparr>)"

text \<open>The checks of the confirmed draft: its name, its tracks, and that nothing waits for a review.\<close>

definition check_generated :: "selection \<Rightarrow> exn + generated_playlist \<times> string" where
  "check_generated sel =
     (case sel_generated_playlist sel of
        None \<Rightarrow> Inl (ValueError ''generated migration is missing its playlist snapshot'')
      | Some g \<Rightarrow>
          (case gen_name g of
             None \<Rightarrow> Inl (ValueError ''generated migration has no playlist name'')
           | Some n \<Rightarrow>
               if strip n = [] then Inl (ValueError ''generated migration has no playlist name'')
               else Inr (g, n)))"

definition generated_items :: "string \<Rightarrow> db \<Rightarrow> job_item list" where
  "generated_items job d =
     sort_key ji_position (filter (\<lambda>i. ji_entity_type i = E_TRACK) (job_items job d))"

definition check_generated_items :: "job_item list \<Rightarrow> exn + unit" where
  "check_generated_items items =
     (if items = [] then Inl (ValueError ''generated migration has no confirmed tracks'')
      else if list_ex (\<lambda>i. ji_status i \<in> {''pending'', ''needs_review''} \<or> \<not> truthy (ji_target_uri i)) items
      then Inl (ValueError ''generated migration contains unreviewed tracks'')
      else Inr ())"

definition known_target :: "job_item list \<Rightarrow> string option" where
  "known_target items = map_option (\<lambda>i. the (ji_target_playlist_id i))
     (find (\<lambda>i. truthy (ji_target_playlist_id i)) items)"

definition generated_target ::
  "'w env \<Rightarrow> migration_job \<Rightarrow> 'w adapter \<Rightarrow> credential \<Rightarrow> string \<Rightarrow> string \<Rightarrow> string option \<Rightarrow> track list \<Rightarrow>
     string option \<Rightarrow> ('w, string) handler"
where
  "generated_target env j ta cred p name description tracks known =
     andthen (case known of None \<Rightarrow> ret False | Some t \<Rightarrow> target_playlist_exists ta cred t) (\<lambda>there.
     case (known, there) of
       (Some t, True) \<Rightarrow> ret t
     | _ \<Rightarrow> resolve_target_playlist env j ta cred p name
         (or_str description ''Generated by Open Playlist Engine.'') STANDARD tracks None False)"

text \<open>The end of a job: its summary, its terminal status, and whatever else changes in its row.\<close>

definition ended_row ::
  "int \<Rightarrow> string \<Rightarrow> int \<Rightarrow> job_summary \<Rightarrow> (migration_job \<Rightarrow> migration_job) \<Rightarrow> migration_job \<Rightarrow> exn + migration_job"
where
  "ended_row now status days summary f j =
     (case mark_job_terminal now status days (j\<lparr>mj_result_summary := Some summary\<rparr>) of
        Inl e \<Rightarrow> Inl e | Inr k \<Rightarrow> Inr (f k))"

definition end_job :: "'w env \<Rightarrow> string \<Rightarrow> string \<Rightarrow> (migration_job \<Rightarrow> migration_job) \<Rightarrow> ('w, unit) handler" where
  "end_job env job status f =
     andthen (the_job job) (\<lambda>j.
     andthen (collect_job_result_summary j) (\<lambda>summary.
     andthen utcnow (\<lambda>now.
     let finish = ended_row now status (set_migration_history_retention_days (env_settings env)) summary f in
     andthen (expect (finish j)) (\<lambda>_.
     edit_job job (\<lambda>x. case finish x of Inl e \<Rightarrow> x | Inr k \<Rightarrow> k)))))"

text \<open>Everything a generated migration does before it ends.\<close>

definition write_generated :: "'w env \<Rightarrow> migration_job \<Rightarrow> 'w adapter \<Rightarrow> credential \<Rightarrow> ('w, unit) handler" where
  "write_generated env j ta cred =
     (let job = mj_id j in
      andthen (the_job job) (\<lambda>row.
      andthen (expect (check_generated (mj_selection row))) (\<lambda>(g, name).
      let p = or_str (gen_draft_id g) (mj_source_account_id j) in
      andthen (query (generated_items job)) (\<lambda>items.
      andthen (expect (check_generated_items items)) (\<lambda>_.
      let tracks = map (generated_item_track env (mj_target_provider j)) items in
      andthen (store_playlist_snapshot job
         ((new_playlist (Some p) name tracks)\<lparr>pl_description := gen_description g\<rparr>) p) (\<lambda>_.
      andthen commit (\<lambda>_.
      andthen (generated_target env j ta cred p name (gen_description g) tracks (known_target items)) (\<lambda>target.
      andthen (for_each items (\<lambda>i. edit_item (ji_id i) (\<lambda>r. r\<lparr>ji_target_playlist_id := Some target\<rparr>))) (\<lambda>_.
      andthen commit (\<lambda>_.
      andthen (target_playlist_keys ta cred target) (\<lambda>existing.
      andthen (fold_each (chunks (write_chunk_size ta)
          (map ji_id (filter (\<lambda>i. ji_status i = ''matched'') items))) existing
          (\<lambda>known c. write_matched_items env j ta cred target c known)) (\<lambda>_.
      commit_job_counts job))))))))))))"

definition run_generated :: "'w env \<Rightarrow> migration_job \<Rightarrow> 'w adapter \<Rightarrow> credential \<Rightarrow> ('w, unit) handler" where
  "run_generated env j ta cred =
     andthen (write_generated env j ta cred) (\<lambda>_.
     andthen (end_job env (mj_id j) ''done'' (\<lambda>x. x)) (\<lambda>_. commit))"

section \<open>The whole migration\<close>

definition library_refused :: "string \<Rightarrow> exn" where
  "library_refused kind = ValueError (kind @ '' migrations support playlist tracks only'')"

text \<open>The reviewed history: none for shared playlists and imports.\<close>

definition job_history :: "'w env \<Rightarrow> migration_job \<Rightarrow> 'w job_source \<Rightarrow> ('w, review_decision list) handler" where
  "job_history env j js =
     (if source_kind js \<in> {''shared'', ''import''} then ret []
      else previous_reviewed_items j E_TRACK (set_review_confidence_threshold (env_settings env)))"

text \<open>Everything a migration of a selection does before it ends.\<close>

definition migrate_selected :: "'w env \<Rightarrow> migration_job \<Rightarrow> 'w adapter \<Rightarrow> credential \<Rightarrow> ('w, unit) handler" where
  "migrate_selected env j ta cred =
     (let job = mj_id j in
      andthen (open_job_source env j) (\<lambda>js.
      andthen (the_job job) (\<lambda>row.
      let sel = mj_selection row; ps = sel_playlist_ids sel;
          albums = sel_saved_album_ids sel; artists = sel_followed_artist_ids sel in
      if source_kind js \<noteq> ''provider'' \<and> (albums \<noteq> [] \<or> artists \<noteq> [])
      then throw (library_refused (source_kind js))
      else if ps = [] \<and> albums = [] \<and> artists = []
      then throw (ValueError ''migration has no selected items'')
      else
        andthen (job_history env j js) (\<lambda>history.
        andthen (fold_each ps sel (migrate_playlist env j js ta cred history)) (\<lambda>_.
        andthen (migrate_libraries env j js ta cred albums artists) (\<lambda>_.
        commit_job_counts job))))))"

definition run_selected :: "'w env \<Rightarrow> migration_job \<Rightarrow> 'w adapter \<Rightarrow> credential \<Rightarrow> ('w, unit) handler" where
  "run_selected env j ta cred =
     (let job = mj_id j in
      andthen (migrate_selected env j ta cred) (\<lambda>_.
      andthen (end_job env job ''done'' (\<lambda>x. x)) (\<lambda>_.
      andthen (when_do (mj_source_provider j \<in> import_record_providers)
         (delete_import_for_job (mj_source_account_id j) job)) (\<lambda>_.
      andthen commit (\<lambda>_.
      andthen (the_job job) (\<lambda>finished.
      andthen (ensure_continuous_sync env finished) (\<lambda>_. ret ())))))))"

definition run_job :: "'w env \<Rightarrow> migration_job \<Rightarrow> ('w, unit) handler" where
  "run_job env j =
     andthen utcnow (\<lambda>now.
     andthen (edit_job (mj_id j) (mark_job_started now)) (\<lambda>_.
     andthen commit (\<lambda>_.
     andthen (expect (get_adapter (env_registry env) (mj_target_provider j))) (\<lambda>ta.
     andthen (load_fresh_credential env (mj_target_account_id j) ta (Some (mj_target_provider j))
        (Some (mj_user_id j))) (\<lambda>(cred, _).
     if mj_source_kind j = ''generated'' then run_generated env j ta cred
     else run_selected env j ta cred)))))"

definition mark_job_failed :: "'w env \<Rightarrow> string \<Rightarrow> string \<Rightarrow> ('w, unit) handler" where
  "mark_job_failed env job err =
     andthen (get_job job) (\<lambda>found.
     case found of
       None \<Rightarrow> ret ()
     | Some j \<Rightarrow>
         andthen (end_job env job ''failed'' (\<lambda>x. x\<lparr>mj_error := Some err\<rparr>)) (\<lambda>_.
         andthen (when_do (mj_source_provider j \<in> import_record_providers)
            (mark_import_failed env (mj_source_account_id j) job)) (\<lambda>_. commit)))"

definition run_migration :: "'w env \<Rightarrow> string \<Rightarrow> bool \<Rightarrow> ('w, unit) handler" where
  "run_migration env job propagate =
     andthen open_session (\<lambda>_.
     andthen (get_job job) (\<lambda>found.
     case found of
       None \<Rightarrow> ret ()
     | Some j \<Rightarrow>
         catching (run_job env j) (\<lambda>e.
           andthen rollback (\<lambda>_.
           if e = CancelledError
           then andthen (mark_job_failed env job ''migration cancelled or timed out'') (\<lambda>_. throw e)
           else andthen (mark_job_failed env job (exn_text e)) (\<lambda>_. when_do propagate (throw e))))))"

section \<open>A migration always ends\<close>

text \<open>While a migration runs its row stays, in the session and as committed.\<close>

abbreviation present :: "string \<Rightarrow> 'w engine \<Rightarrow> bool" where
  "present job \<equiv> holding job (\<lambda>_. True)"

lemma present_iff:
  "present job s \<longleftrightarrow> constraints_ok (st_db s) \<and> dict_get (db_jobs (st_db s)) job \<noteq> None \<and>
     dict_get (db_jobs (st_work s)) job \<noteq> None"
  by (auto simp: holding_def option.pred_set)

interpretation present: worker_frame "present job" for job
  by unfold_locales (simp_all add: present_iff quiet_def)

context worker_frame
begin

lemma frame_items [keeps_intro]:
  "keeps I (get_item i)" "keeps I (edit_item i f)" "keeps I (mark_item i st reason)"
  "keeps I (commit_job_counts job)" "keeps I (mark_commit job i st reason)"
  "keeps I (add_ledger env job op intent obs pos state)" "keeps I (item_uris ids)"
  "keeps I (fail_items ids text)" "keeps I (the_job job)" "keeps I (edit_selection job g)"
  by (auto simp: with_counts_def get_item_def edit_item_def mark_item_def commit_job_counts_def mark_commit_def add_ledger_def
      item_uris_def fail_items_def the_job_def get_job_def edit_selection_def intro!: keeps_intro)

lemma frame_fresh_credential [keeps_intro]:
  "keeps I (load_fresh_credential env account ad provider user)"
  by (auto simp: load_fresh_credential_def load_credential_def save_credential_def refresh_credential_def Let_def
      drop_account_def intro!: keeps_intro split: exn.splits)

lemma frame_target_reads [keeps_intro]:
  "keeps I (target_playlist_exists ta cred t)" "keeps I (target_playlist_keys ta cred t)"
  "keeps I (unless_missing (call m))"
  by (auto simp: target_playlist_exists_def target_playlist_keys_def unless_missing_def read_target_def intro!: keeps_intro)

lemma frame_reusable [keeps_intro]: "keeps I (reusable_playlist ta cred ts rs)"
  by (induction rs) (auto intro!: keeps_intro)

lemma frame_resolve [keeps_intro]:
  "keeps I (resolve_target_playlist env j ta cred p name d kind ts forced reuse)"
  by (auto simp: resolve_target_playlist_def previous_target_playlist_id_def create_target_def intro!: keeps_intro)

lemma frame_write_batch [keeps_intro]:
  "keeps I (skip_duplicate_items job ids existing)"
  "keeps I (record_result env job p existing x)"
  "keeps I (settle_outcome env j p kept existing outcome)"
  by (auto simp: skip_duplicate_items_def record_result_def settle_outcome_def intro!: keeps_intro)

lemma frame_write_items [keeps_intro]: "keeps I (write_matched_items env j ta cred p ids existing)"
  by (auto simp: write_matched_items_def intro!: keeps_intro)

lemma frame_flush [keeps_intro]: "keeps I (flush_matched_chunk env j ta cred p force state)"
  by (auto simp: flush_matched_chunk_def Let_def intro!: keeps_intro)

lemma frame_flush_rounds: "keeps I (flush_rounds n env j ta cred p state)"
  by (induction n arbitrary: state) (auto intro!: keeps_intro)

lemma frame_flush_all [keeps_intro]: "keeps I (flush_all env j ta cred p state)"
  by (simp add: flush_all_def frame_flush_rounds)

lemma frame_create_items [keeps_intro]: "keeps I (create_items env j p name ts)"
  by (auto simp: create_items_def Let_def intro!: keeps_intro)

lemma frame_migrate_track [keeps_intro]: "keeps I (migrate_track env run state x)"
  by (auto simp: migrate_track_def match_failed_def accept_match_def flush_chunk_def Let_def intro!: keeps_intro)

lemma frame_sources [keeps_intro]:
  "keeps I (read_source_playlist src p)" "keeps I (open_snapshot_source env i user)"
  "keeps I (open_migration_source env provider account user job)"
  by (auto simp: read_source_playlist_def open_snapshot_source_def open_migration_source_def load_import_for_job_def
      load_preview_import_def owned_import_def update_import_def drop_import_def intro!: keeps_intro)

lemma frame_migrate_playlist [keeps_intro]: "keeps I (migrate_playlist env j js ta cred history sel p)"
  by (auto simp: migrate_playlist_def read_job_playlist_def store_playlist_snapshot_def Let_def
      intro!: keeps_intro split: job_source.split)

lemma frame_library_parts [keeps_intro]:
  "keeps I (populate_library_item i e ent)" "keeps I (fail_all job ids text)"
  "keeps I (record_library_result env job info e x)" "keeps I (skip_present job info e kept y)"
  "keeps I (match_entity run ent)" "keeps I (fail_on_provider_error job i m ex)"
  "keeps I (create_library_items env job e entities)"
  by (auto simp: populate_library_item_def fail_all_def record_library_result_def mark_library_result_def
      skip_present_def match_entity_def fail_on_provider_error_def create_library_items_def intro!: keeps_intro)

lemma frame_write_library [keeps_intro]: "keeps I (write_library_items env job info e tgt cred ids)"
  by (auto simp: write_library_items_def save_library_items_def intro!: keeps_intro)

lemma frame_migrate_library [keeps_intro]: "keeps I (migrate_library_entities env run entities)"
  by (auto simp: migrate_library_entities_def migrate_entity_def settle_match_def flush_library_def write_chunk_def
      Let_def intro!: keeps_intro)

lemma frame_migrate_libraries [keeps_intro]: "keeps I (migrate_libraries env j js ta cred albums artists)"
  by (auto simp: migrate_libraries_def library_source_def migrate_albums_def migrate_artists_def
      previous_reviewed_items_def intro!: keeps_intro split: job_source.split)

lemma frame_end_job [keeps_intro]: "keeps I (end_job env job status f)"
  by (auto simp: end_job_def collect_job_result_summary_def Let_def intro!: keeps_intro)

lemma frame_write_generated: "keeps I (write_generated env j ta cred)"
  by (auto simp: write_generated_def generated_target_def store_playlist_snapshot_def Let_def
      intro!: keeps_intro split: bool.split)

lemma frame_migrate_selected: "keeps I (migrate_selected env j ta cred)"
  by (auto simp: migrate_selected_def open_job_source_def job_history_def previous_reviewed_items_def Let_def
      intro!: keeps_intro)

lemma frame_create_sync_rule [keeps_intro]: "keeps I (create_sync_rule env body user allow)"
proof -
  have "keeps I (insert_rule user r ck allow)" for r ck
    by (auto simp: insert_rule_def intro!: keeps_intro split: exn.splits)
  then show ?thesis
    by (auto simp: create_sync_rule_def place_rule_def Let_def read_endpoints_def ensure_no_feedback_loop_def
        next_run_time_def split: prod.splits intro!: keeps_intro)
qed

lemma frame_continuous [keeps_intro]: "keeps I (ensure_continuous_sync env j)"
  by (auto simp: ensure_continuous_sync_def start_continuous_sync_def set_intent_def intro!: keeps_intro split: exn.splits)

lemma frame_imports [keeps_intro]:
  "keeps I (delete_import_for_job i job)" "keeps I (mark_import_failed env i job)"
  by (auto simp: delete_import_for_job_def mark_import_failed_def drop_import_def update_import_def intro!: keeps_intro)

lemma frame_run_job [keeps_intro]: "keeps I (run_job env j)"
  by (auto simp: run_job_def run_selected_def run_generated_def Let_def
      intro!: keeps_intro frame_write_generated frame_migrate_selected)

text \<open>Whatever happens in it, a whole migration keeps what its session and its quiet edits keep.\<close>

lemma frame_run_migration: "keeps I (run_migration env job propagate)"
  by (auto simp: run_migration_def mark_job_failed_def get_job_def intro!: keeps_intro)

end

text \<open>A finished row: a terminal status, the time it was reached, and the error of a failure.\<close>

definition is_ended :: "migration_job \<Rightarrow> bool" where
  "is_ended j \<longleftrightarrow> mj_status j \<in> terminal_job_statuses \<and> mj_completed_at j \<noteq> None \<and>
     (mj_status j = ''failed'' \<longrightarrow> mj_error j \<noteq> None)"

abbreviation ended :: "string \<Rightarrow> 'w engine \<Rightarrow> bool" where
  "ended job \<equiv> holding job is_ended"

text \<open>The row has ended as the session sees it.\<close>

definition ending :: "string \<Rightarrow> 'w engine \<Rightarrow> bool" where
  "ending job s \<longleftrightarrow> present job s \<and> pred_option is_ended (dict_get (db_jobs (st_work s)) job)"

lemma keeps_ending_edit: "(\<And>d. db_jobs (g d) = db_jobs d) \<Longrightarrow> keeps (ending job) (edit g)"
  by (auto intro!: keepsI simp: run_simps ending_def holding_def)

lemma keeps_ending:
  "keeps (ending job) flush" "keeps (ending job) (query g)" "keeps (ending job) utcnow"
  by (auto intro!: keepsI simp: run_simps ending_def holding_def)

lemma ended_row_ends:
  "ended_row now ''done'' days summary (\<lambda>x. x) j = Inr k \<Longrightarrow> is_ended k"
  "ended_row now ''failed'' days summary (\<lambda>x. x\<lparr>mj_error := Some e\<rparr>) j = Inr k \<Longrightarrow> is_ended k"
  by (auto simp: ended_row_def mark_job_terminal_def terminal_job_statuses_def is_ended_def)

lemma end_job_ending:
  assumes "\<And>now days summary j k. ended_row now status days summary f j = Inr k \<Longrightarrow> is_ended k"
  shows "triple (present job) (end_job env job status f) (\<lambda>_. ending job) (\<lambda>_. present job)"
proof (rule tripleI)
  fix s :: "'a engine"
  assume s: "present job s"
  then obtain j where j: "dict_get (db_jobs (st_work s)) job = Some j" by (auto simp: holding_def)
  let ?days = "set_migration_history_retention_days (env_settings env)"
  let ?sum = "job_result_summary j (job_items (mj_id j) (st_work s))"
  let ?row = "ended_row (st_clock s) status ?days ?sum f"
  have run: "end_job env job status f s = (case ?row j of Inl e \<Rightarrow> (Inl e, s) | Inr k \<Rightarrow>
      edit_job job (\<lambda>x. case ?row x of Inl e \<Rightarrow> x | Inr k \<Rightarrow> k) s)"
    by (simp add: end_job_def the_job_def get_job_def collect_job_result_summary_def run_simps j Let_def split: sum.split)
  show "case end_job env job status f s of (Inl e, t) \<Rightarrow> present job t | (Inr a, t) \<Rightarrow> ending job t"
  proof (cases "?row j")
    case (Inl e)
    with s run show ?thesis by simp
  next
    case (Inr k)
    with assms have "is_ended k" by blast
    with s run Inr j show ?thesis by (simp add: edit_job_def run_simps ending_def holding_def)
  qed
qed

lemma commit_ended: "triple (ending job) commit (\<lambda>_. ended job) (\<lambda>_. present job)"
  by (rule tripleI) (auto simp: run_simps ending_def holding_def)

lemma keeps_ended_continuous: "keeps (ended job) (ensure_continuous_sync env j)"
proof -
  have p: "is_ended k \<Longrightarrow> is_ended (k\<lparr>mj_selection := sel\<rparr>)" for k sel by (simp add: is_ended_def)
  show ?thesis
    by (auto simp: ensure_continuous_sync_def start_continuous_sync_def set_intent_def p
        intro!: keeps_intro split: exn.splits)
qed

lemma ended_present: "ended job s \<Longrightarrow> present job s"
  by (auto simp: holding_def option.pred_set)

lemma keeps_then:
  "keeps I m \<Longrightarrow> (\<And>a. triple I (k a) Q (\<lambda>_. I)) \<Longrightarrow> triple I (andthen m k) Q (\<lambda>_. I)"
  unfolding keeps_def by (rule triple_andthen)

text \<open>The tail of both ways to run a job: it ends the row, commits it, and goes on from there.\<close>

lemma end_and_commit:
  assumes "keeps (ending job) m" and "\<And>a. keeps (ended job) (k a)"
  shows "triple (present job) (andthen (end_job env job ''done'' (\<lambda>x. x)) (\<lambda>_. andthen m (\<lambda>_. andthen commit k)))
     (\<lambda>_. ended job) (\<lambda>_. present job)"
proof (rule triple_andthen [OF end_job_ending], erule ended_row_ends)
  show "triple (ending job) (andthen m (\<lambda>_. andthen commit k)) (\<lambda>_. ended job) (\<lambda>_. present job)"
  proof (rule triple_andthen)
    show "triple (ending job) m (\<lambda>_. ending job) (\<lambda>_. present job)"
      using assms(1) unfolding keeps_def by (rule triple_weaken) (simp_all add: ending_def)
  next
    show "triple (ending job) (andthen commit k) (\<lambda>_. ended job) (\<lambda>_. present job)"
    proof (rule triple_andthen [OF commit_ended])
      show "triple (ended job) (k a) (\<lambda>_. ended job) (\<lambda>_. present job)" for a
        using assms(2) [of a] unfolding keeps_def by (rule triple_weaken) (auto intro: ended_present)
    qed
  qed
qed

lemma run_selected_ended:
  "triple (present (mj_id j)) (run_selected env j ta cred) (\<lambda>_. ended (mj_id j)) (\<lambda>_. present (mj_id j))"
  unfolding run_selected_def Let_def
proof (intro keeps_then [OF present.frame_migrate_selected] end_and_commit)
  show "keeps (ending (mj_id j)) (when_do (mj_source_provider j \<in> import_record_providers)
         (delete_import_for_job (mj_source_account_id j) (mj_id j)))"
    by (auto simp: delete_import_for_job_def drop_import_def intro!: keeps_when_do keeps_andthen keeps_option
        keeps_ret keeps_ending keeps_ending_edit)
next
  show "keeps (ended (mj_id j)) (andthen (the_job (mj_id j)) (\<lambda>finished.
      andthen (ensure_continuous_sync env finished) (\<lambda>_. ret ())))"
    by (auto simp: the_job_def get_job_def intro!: keeps_intro keeps_ended_continuous)
qed

lemma run_generated_ended:
  "triple (present (mj_id j)) (run_generated env j ta cred) (\<lambda>_. ended (mj_id j)) (\<lambda>_. present (mj_id j))"
  unfolding run_generated_def
  by (intro keeps_then [OF present.frame_write_generated] triple_andthen [OF end_job_ending commit_ended]) (erule ended_row_ends)

lemma run_job_ended:
  "triple (present (mj_id j)) (run_job env j) (\<lambda>_. ended (mj_id j)) (\<lambda>_. present (mj_id j))"
  unfolding run_job_def
  by (intro keeps_then triple_prod triple_if run_selected_ended run_generated_ended) (auto intro!: keeps_intro)

text \<open>Recording a failure cannot fail itself.\<close>

definition settled_session :: "string \<Rightarrow> 'w engine \<Rightarrow> bool" where
  "settled_session job s \<longleftrightarrow> present job s \<and> constraints_ok (st_work s)"

lemma constraints_jobs:
  "(\<And>j. mj_sync_run_id (f j) = mj_sync_run_id j) \<Longrightarrow>
     constraints_ok (d\<lparr>db_jobs := update_row i f (db_jobs d)\<rparr>) = constraints_ok d"
  unfolding constraints_ok_def
  by (simp add: map_select_update [of mj_sync_run_id f "\<lambda>r. r \<noteq> None", simplified])

lemma ended_row_keeps:
  "(\<And>x. mj_sync_run_id (f x) = mj_sync_run_id x) \<Longrightarrow> ended_row now status days summary f j = Inr k \<Longrightarrow>
     mj_sync_run_id k = mj_sync_run_id j"
  by (auto simp: ended_row_def mark_job_terminal_def split: if_splits)

lemma when_import_failed:
  fixes t :: "'w engine"
  assumes "constraints_ok (st_work t)"
  shows "\<exists>d. when_do c (mark_import_failed env i job) t = (Inr (), t\<lparr>st_work := (st_work t)\<lparr>db_imports := d\<rparr>\<rparr>)"
proof -
  have ok: "constraints_ok ((st_work t)\<lparr>db_imports := d\<rparr>)" for d using assms by (simp add: constraints_ok_def)
  have same: "t = t\<lparr>st_work := (st_work t)\<lparr>db_imports := db_imports (st_work t)\<rparr>\<rparr>" by simp
  show ?thesis
  proof (cases "c \<and> import_of_job i job (st_work t) \<noteq> None")
    case True
    then obtain x where "import_of_job i job (st_work t) = Some x" c by auto
    then show ?thesis by (simp add: mark_import_failed_def update_import_def run_simps ok) blast
  next
    case False
    then have "when_do c (mark_import_failed env i job) t = (Inr (), t)"
      by (auto simp: mark_import_failed_def run_simps)
    with same show ?thesis by metis
  qed
qed

lemma mark_job_failed_ends:
  assumes "settled_session job s"
  shows "\<exists>t. mark_job_failed env job err s = (Inr (), t) \<and> ended job t"
proof -
  let ?f = "\<lambda>x. x\<lparr>mj_error := Some err\<rparr>"
  from assms obtain j where j: "dict_get (db_jobs (st_work s)) job = Some j" by (auto simp: settled_session_def holding_def)
  let ?row = "ended_row (st_clock s) ''failed'' (set_migration_history_retention_days (env_settings env))
      (job_result_summary j (job_items (mj_id j) (st_work s))) ?f"
  obtain k where k: "?row j = Inr k"
    by (auto simp: ended_row_def mark_job_terminal_def terminal_job_statuses_def)
  let ?g = "\<lambda>x. case ?row x of Inl e \<Rightarrow> x | Inr k \<Rightarrow> k"
  let ?t = "s\<lparr>st_work := (st_work s)\<lparr>db_jobs := update_row job ?g (db_jobs (st_work s))\<rparr>\<rparr>"
  have e: "end_job env job ''failed'' ?f s = (Inr (), ?t)"
    by (simp add: end_job_def the_job_def get_job_def collect_job_result_summary_def run_simps j k Let_def edit_job_def)
  have "mj_sync_run_id (?g x) = mj_sync_run_id x" for x
  proof (cases "?row x")
    case (Inr y)
    have "mj_sync_run_id y = mj_sync_run_id x" by (rule ended_row_keeps [OF _ Inr]) simp
    with Inr show ?thesis by simp
  qed simp
  then have ok: "constraints_ok (st_work ?t)" using assms by (simp add: constraints_jobs settled_session_def)
  have en: "ending job ?t"
    using assms j k ended_row_ends(2) [OF k] by (simp add: settled_session_def ending_def holding_def)
  let ?m = "when_do (mj_source_provider j \<in> import_record_providers)
            (mark_import_failed env (mj_source_account_id j) job) :: ('a, unit) handler"
  have "\<exists>d. ?m ?t = (Inr (), ?t\<lparr>st_work := (st_work ?t)\<lparr>db_imports := d\<rparr>\<rparr>)"
    by (rule when_import_failed [OF ok])
  then obtain d where m: "?m ?t = (Inr (), ?t\<lparr>st_work := (st_work ?t)\<lparr>db_imports := d\<rparr>\<rparr>)" ..
  let ?u = "?t\<lparr>st_work := (st_work ?t)\<lparr>db_imports := d\<rparr>\<rparr>"
  have c: "constraints_ok (st_work ?u)" using ok by (simp add: constraints_ok_def)
  have "mark_job_failed env job err s = (Inr (), ?u\<lparr>st_db := st_work ?u\<rparr>)"
    unfolding mark_job_failed_def run_andthen get_job_def
    using e m c by (simp add: run_simps j)
  moreover have "ended job (?u\<lparr>st_db := st_work ?u\<rparr>)"
    using c en by (simp add: ending_def holding_def)
  ultimately show ?thesis by blast
qed

text \<open>
  C1. No migration is left running: when the worker returns, for whatever reason and whatever the
  provider, the import or the synchronization rule did, the committed row of the job has a
  terminal status and the time it was reached, and a failed one says why; and the worker raises
  only when it was cancelled (or asked to pass errors on).
\<close>

theorem migration_ends:
  assumes "run_migration env job False s = (r, t)" and "constraints_ok (st_db s)"
    and "dict_get (db_jobs (st_db s)) job = Some j" and "mj_id j = job"
  shows "(r = Inr () \<or> r = Inl CancelledError) \<and>
    (\<exists>k. dict_get (db_jobs (st_db t)) job = Some k \<and> is_ended k)"
proof -
  let ?s = "s\<lparr>st_work := st_db s\<rparr>"
  have p: "present (mj_id j) ?s" using assms by (simp add: holding_def)
  have run: "run_migration env job False s = catching (run_job env j) (\<lambda>e.
           andthen rollback (\<lambda>_.
           if e = CancelledError
           then andthen (mark_job_failed env job ''migration cancelled or timed out'') (\<lambda>_. throw e)
           else andthen (mark_job_failed env job (exn_text e)) (\<lambda>_. when_do False (throw e)))) ?s"
    using assms(3) by (simp add: run_migration_def get_job_def run_simps)
  have finish: "ended job t \<Longrightarrow> \<exists>k. dict_get (db_jobs (st_db t)) job = Some k \<and> is_ended k"
    by (auto simp: holding_def)
  obtain out u where o: "run_job env j ?s = (out, u)" by force
  show ?thesis
  proof (cases out)
    case (Inr x)
    with o triple_returnD [OF run_job_ended p] have "ended job u" by (simp add: assms(4))
    with Inr o run assms(1) finish show ?thesis by (simp add: run_simps)
  next
    case (Inl e)
    with o triple_raiseD [OF run_job_ended p] have "present job u" by (simp add: assms(4))
    then have st: "settled_session job (u\<lparr>st_work := st_db u\<rparr>)" by (simp add: settled_session_def holding_def)
    show ?thesis
    proof (cases "e = CancelledError")
      case True
      from mark_job_failed_ends [OF st, of env "''migration cancelled or timed out''"] Inl o run assms(1) True finish
      show ?thesis by (auto simp: run_simps)
    next
      case False
      from mark_job_failed_ends [OF st, of env "exn_text e"] Inl o run assms(1) False finish
      show ?thesis by (auto simp: run_simps)
    qed
  qed
qed

theorem migration_ends_witness:
  "\<exists>r t k. run_migration sample_env ''j1'' False (engine_on (job_db ''matched'')) = (r, t) \<and>
     (r = Inr () \<or> r = Inl CancelledError) \<and> dict_get (db_jobs (st_db t)) ''j1'' = Some k \<and> is_ended k"
proof -
  obtain r t where r: "run_migration sample_env ''j1'' False (engine_on (job_db ''matched'')) = (r, t)" by force
  have "constraints_ok (st_db (engine_on (job_db ''matched'')))"
    "dict_get (db_jobs (st_db (engine_on (job_db ''matched'')))) ''j1'' = Some (sample_job ''j1'')"
    "mj_id (sample_job ''j1'') = ''j1''"
    by (simp_all add: engine_on_def, simp_all add: job_db_def sample_job_def)
  from migration_ends [OF r this] r show ?thesis by blast
qed

end
