(* ===== verification/Sync_Job.thy ===== *)
theory Sync_Job
  imports Migration_Run "HOL-Library.Option_ord"
begin

text \<open>
  The execution of a synchronization run (\<open>app/jobs/sync.py\<close>): the migration of what the source
  gained, the ordered replacement of the target in mirror mode with its ledger and its rollback,
  the completion of a reviewed run, and the scheduler. The transactions that start, complete and
  fail a run are in \<open>Sync_Runs\<close>. The queue is the list of work handed to it; the row locks of
  the scheduler make its reading and queueing of rules one step.
\<close>

section \<open>The migration of a run\<close>

definition tokened_track :: "entry \<Rightarrow> track" where
  "tokened_track e =
     (en_track e)\<lparr>trk_metadata :=
       dict_set ''ope_sync_entry_token'' (JStr (en_token e)) (trk_metadata (en_track e))\<rparr>"

definition selected_entries :: "snapshot \<Rightarrow> int list \<Rightarrow> entry list" where
  "selected_entries sn added = filter (\<lambda>e. en_position e \<in> set added) (sn_tracks sn)"

definition sync_migration_job ::
  "string \<Rightarrow> int \<Rightarrow> sync_run \<Rightarrow> sync_rule \<Rightarrow> playlist \<Rightarrow> snapshot \<Rightarrow> int list \<Rightarrow> bool \<Rightarrow> migration_job"
where
  "sync_migration_job i now run rule pl sn added match_only =
     (let tracks = map tokened_track (selected_entries sn added); p = rule_source_playlist_id rule in
      \<lparr>mj_id = i, mj_user_id = rule_user_id rule, mj_source_kind = ''provider'',
       mj_source_provider = rule_source_provider rule, mj_target_provider = rule_target_provider rule,
       mj_source_account_id = rule_source_account_id rule, mj_source_snapshot_id = None,
       mj_target_account_id = rule_target_account_id rule, mj_source_share_id = None,
       mj_source_snapshot = None,
       mj_selection = empty_selection\<lparr>sel_playlist_ids := [p],
         sel_playlist_snapshots := [(p, pl\<lparr>pl_tracks := tracks\<rparr>)],
         sel_target_playlist_ids := [(p, rule_target_playlist_id rule)],
         sel_match_only := match_only\<rparr>,
       mj_status = if tracks = [] then ''done'' else ''pending'', mj_total = 0, mj_done = 0,
       mj_failed = 0, mj_error = None, mj_origin = ''sync'', mj_sync_run_id = Some (run_id run),
       mj_result_summary = None, mj_created_at = now, mj_started_at = None, mj_completed_at = None,
       mj_details_expires_at = None, mj_details_purged_at = None, mj_warnings = []\<rparr>)"

section \<open>Reading both sides\<close>

text \<open>What the run carries from one database session to the next.\<close>

record 'w sync_work =
  sw_mode :: sync_mode
  sw_target :: "'w adapter"
  sw_target_cred :: credential
  sw_source_snapshot :: "snapshot option"
  sw_target_before :: snapshot
  sw_added :: "int list"
  sw_mappings :: mappings
  sw_job :: string

definition read_side ::
  "'w adapter \<Rightarrow> credential \<Rightarrow> string \<Rightarrow> string \<Rightarrow> ('w, playlist) handler"
where
  "read_side a cred p name = call (ad_read_playlist a cred (new_ref p name))"

definition check_mirror_kind :: "'w adapter \<Rightarrow> sync_mode \<Rightarrow> snapshot option \<Rightarrow> exn + unit" where
  "check_mirror_kind ta mode source =
     (if mode \<noteq> MIRROR then Inr ()
      else case mirror_unavailable_reason ta (case source of None \<Rightarrow> STANDARD | Some sn \<Rightarrow> sn_kind sn) of
             None \<Rightarrow> Inr () | Some reason \<Rightarrow> Inl (ProviderError reason))"

definition record_reading ::
  "snapshot \<Rightarrow> snapshot \<Rightarrow> sync_diff \<Rightarrow> int \<Rightarrow> sync_run \<Rightarrow> sync_run"
where
  "record_reading source target diff now r =
     r\<lparr>run_source_snapshot := Some source, run_target_before := Some target,
       run_added := int (length (df_added_positions diff)), run_removed := int (df_removed_count diff),
       run_reordered := int (df_reordered_count diff), run_heartbeat_at := Some now\<rparr>"

definition plan_sync :: "'w env \<Rightarrow> string \<Rightarrow> ('w, 'w sync_work) handler" where
  "plan_sync env run =
     andthen open_session (\<lambda>_.
     andthen (run_and_rule run) (\<lambda>(r, rule).
     andthen (get_checkpoint (rule_id rule)) (\<lambda>found.
     case found of
       None \<Rightarrow> throw (RuntimeError ''sync checkpoint is missing'')
     | Some ck \<Rightarrow>
         andthen (expect (get_adapter (env_registry env) (rule_source_provider rule))) (\<lambda>sa.
         andthen (expect (get_adapter (env_registry env) (rule_target_provider rule))) (\<lambda>ta.
         andthen (expect (mode_of_value (rule_mode rule))) (\<lambda>mode.
         andthen (expect (check_mirror_kind ta mode (ck_source_snapshot ck))) (\<lambda>_.
         andthen (load_fresh_credential env (rule_source_account_id rule) sa
            (Some (rule_source_provider rule)) (Some (rule_user_id rule))) (\<lambda>(scred, _).
         andthen (load_fresh_credential env (rule_target_account_id rule) ta
            (Some (rule_target_provider rule)) (Some (rule_user_id rule))) (\<lambda>(tcred, _).
         andthen (read_side sa scred (rule_source_playlist_id rule) (rule_source_playlist_name rule)) (\<lambda>sp.
         andthen (read_side ta tcred (rule_target_playlist_id rule) (rule_target_playlist_name rule)) (\<lambda>tp.
         let source = build_playlist_snapshot sp (rule_source_provider rule);
             target = build_playlist_snapshot tp (rule_target_provider rule)
         in
         andthen (expect (diff_snapshots (ck_source_snapshot ck) (Some source))) (\<lambda>diff.
         andthen utcnow (\<lambda>now.
         andthen (edit_run run (record_reading source target diff now)) (\<lambda>_.
         andthen (uuid4 env) (\<lambda>job.
         andthen (edit (\<lambda>d. d\<lparr>db_jobs := dict_set job
            (sync_migration_job job now r rule sp source (df_added_positions diff) (mode = MIRROR))
            (db_jobs d)\<rparr>)) (\<lambda>_.
         andthen commit (\<lambda>_.
         ret \<lparr>sw_mode = mode, sw_target = ta, sw_target_cred = tcred, sw_source_snapshot = Some source,
              sw_target_before = target, sw_added = df_added_positions diff,
              sw_mappings = carry_target_mappings (ck_source_snapshot ck) (Some source) (ck_mappings ck),
              sw_job = job\<rparr>)))))))))))))))))"

section \<open>After the migration\<close>

definition ordered_items :: "string \<Rightarrow> db \<Rightarrow> job_item list" where
  "ordered_items job d = sort_key (\<lambda>i. (ji_position i, ji_id i)) (job_items job d)"

definition partial_failure :: "nat \<Rightarrow> exn" where
  "partial_failure n = SyncPartialFailure (str_nat n @ '' track writes failed; retry is scheduled'')"

definition review_message :: "nat \<Rightarrow> string" where
  "review_message n = str_nat n @ '' tracks require review''"

text \<open>The checkpoint of a run that waits for a review.\<close>

definition park_review ::
  "string \<Rightarrow> sync_run \<Rightarrow> sync_rule \<Rightarrow> string \<Rightarrow> mappings \<Rightarrow> job_item list \<Rightarrow> nat \<Rightarrow> ('w, unit) handler"
where
  "park_review run r rule lease m items n =
     andthen (edit_checkpoint (rule_id rule) (\<lambda>c. c\<lparr>ck_source_snapshot := run_source_snapshot r,
        ck_target_snapshot := run_target_before r, ck_mappings := m,
        ck_unresolved := map ji_id (filter needs_attention items)\<rparr>)) (\<lambda>_.
     finish_attention run (rule_id rule) lease (review_message n))"

text \<open>
  The mappings once the migration is over, and the rule; nothing when the run ended waiting for a
  review.
\<close>

definition settle_items ::
  "string \<Rightarrow> sync_run \<Rightarrow> sync_rule \<Rightarrow> string \<Rightarrow> mappings \<Rightarrow> job_item list \<Rightarrow>
     ('w, (sync_rule \<times> mappings) option) handler"
where
  "settle_items run r rule lease carried items =
     (let outcome = classify_job_items items; m = dict_update carried (job_item_mappings items) in
      if out_status outcome = ''partial_failure'' then throw (partial_failure (out_failed_count outcome))
      else if out_status outcome = ''review_required''
      then andthen (park_review run r rule lease m items (out_review_count outcome)) (\<lambda>_. ret None)
      else andthen commit (\<lambda>_. ret (Some (rule, m))))"

definition settle_sync ::
  "string \<Rightarrow> string \<Rightarrow> 'w sync_work \<Rightarrow> ('w, (sync_rule \<times> mappings) option) handler"
where
  "settle_sync run lease w =
     andthen open_session (\<lambda>_.
     andthen (run_and_rule run) (\<lambda>(r, rule).
     andthen (get_checkpoint (rule_id rule)) (\<lambda>ck.
     andthen (query (job_of_run run)) (\<lambda>found.
     case found of
       None \<Rightarrow> throw (RuntimeError ''sync state disappeared during execution'')
     | Some job \<Rightarrow>
         if ck = None then throw (RuntimeError ''sync state disappeared during execution'')
         else
           andthen (when_do (sw_added w = []) (edit_job (mj_id job) (\<lambda>j. j\<lparr>mj_status := ''done''\<rparr>))) (\<lambda>_.
           andthen (query (ordered_items (mj_id job))) (\<lambda>items.
           settle_items run r rule lease (sw_mappings w) items))))))"

section \<open>Mirroring\<close>

definition missing_tokens :: "entry list \<Rightarrow> mappings \<Rightarrow> string list" where
  "missing_tokens es m = filter (\<lambda>t. dict_get m t = None) (map en_token es)"

text \<open>The target of a track: none when the track is not mapped, or known to have no match.\<close>

definition mapped_uri :: "mappings \<Rightarrow> entry \<Rightarrow> string option" where
  "mapped_uri m e = (case dict_get m (en_token e) of Some (Some u) \<Rightarrow> Some u | _ \<Rightarrow> None)"

definition desired_uris :: "entry list \<Rightarrow> mappings \<Rightarrow> string list" where
  "desired_uris es m = List.map_filter (mapped_uri m) es"

definition replace_intent :: "string \<Rightarrow> string list \<Rightarrow> string list \<Rightarrow> json" where
  "replace_intent p desired previous =
     JObj [(''playlist_id'', JStr p), (''uris'', JList (map JStr desired)),
           (''previous_uris'', JList (map JStr previous))]"

definition mark_ledger :: "string \<Rightarrow> string \<Rightarrow> ('w, unit) handler" where
  "mark_ledger i state =
     andthen (query (\<lambda>d. dict_get (db_ledger d) i)) (\<lambda>found.
     case found of
       None \<Rightarrow> ret ()
     | Some _ \<Rightarrow>
         andthen utcnow (\<lambda>now.
         andthen (edit (\<lambda>d. d\<lparr>db_ledger :=
           update_row i (\<lambda>l. l\<lparr>ol_state := state, ol_updated_at := now\<rparr>) (db_ledger d)\<rparr>)) (\<lambda>_.
         commit)))"

definition stops_sync :: "exn \<Rightarrow> bool" where
  "stops_sync e = (is_auth_expired e \<or> is_rate_limited e)"

text \<open>After a failed replacement the previous sequence is written back, when it was read in full.\<close>

definition restore_target :: "(string list \<Rightarrow> ('w, exn, unit) proc) \<Rightarrow> snapshot \<Rightarrow> ('w, bool) handler" where
  "restore_target replace before =
     (let previous = target_uri_sequence (Some before) in
      if length previous = length (sn_tracks before)
      then andthen (attempt (call (replace previous))) (\<lambda>got.
           case got of
             Inr _ \<Rightarrow> ret True
           | Inl e \<Rightarrow> if is_provider_error e then ret False else throw e)
      else ret False)"

definition replace_failed ::
  "(string list \<Rightarrow> ('w, exn, unit) proc) \<Rightarrow> snapshot \<Rightarrow> string \<Rightarrow> exn \<Rightarrow> ('w, 'a) handler"
where
  "replace_failed replace before ledger e =
     andthen (mark_ledger ledger ''ambiguous'') (\<lambda>_.
     andthen (restore_target replace before) (\<lambda>restored.
     if stops_sync e then throw e
     else throw (ProviderError (exn_text e @ ''; '' @
       (if restored then ''target restored'' else ''target may be partially replaced'')))))"

definition check_replaced ::
  "'w adapter \<Rightarrow> credential \<Rightarrow> sync_rule \<Rightarrow> string \<Rightarrow> string list \<Rightarrow> ('w, snapshot) handler"
where
  "check_replaced ta cred rule ledger desired =
     andthen (mark_ledger ledger ''done'') (\<lambda>_.
     andthen (read_side ta cred (rule_target_playlist_id rule) (rule_target_playlist_name rule)) (\<lambda>final.
     let sn = build_playlist_snapshot final (rule_target_provider rule) in
     if target_uri_sequence (Some sn) \<noteq> desired
     then andthen (mark_ledger ledger ''ambiguous'') (\<lambda>_.
          throw (ProviderError ''target playlist did not match the requested mirror order''))
     else ret sn))"

definition replace_target ::
  "'w env \<Rightarrow> 'w adapter \<Rightarrow> credential \<Rightarrow> (string list \<Rightarrow> ('w, exn, unit) proc) \<Rightarrow> sync_rule \<Rightarrow> string \<Rightarrow>
     snapshot \<Rightarrow> string list \<Rightarrow> ('w, snapshot) handler"
where
  "replace_target env ta cred replace rule job before desired =
     andthen (add_ledger env job ''replace_playlist_tracks''
        (replace_intent (rule_target_playlist_id rule) desired (target_uri_sequence (Some before)))
        (Some (rule_target_playlist_id rule)) None ''intended'') (\<lambda>ledger.
     andthen commit (\<lambda>_.
     andthen (attempt (call (replace desired))) (\<lambda>got.
     case got of
       Inl e \<Rightarrow> if is_provider_error e then replace_failed replace before ledger e else throw e
     | Inr _ \<Rightarrow> check_replaced ta cred rule ledger desired)))"

definition apply_mirror ::
  "'w env \<Rightarrow> string \<Rightarrow> string \<Rightarrow> 'w adapter \<Rightarrow> credential \<Rightarrow> snapshot \<Rightarrow> mappings \<Rightarrow> string \<Rightarrow>
     ('w, snapshot) handler"
where
  "apply_mirror env run lease ta cred before m job =
     (case (mirror_unavailable_reason ta STANDARD, ad_replace_tracks ta) of
        (Some reason, _) \<Rightarrow> throw (ProviderError reason)
      | (None, None) \<Rightarrow> throw (ProviderError ''target cannot mirror playlists'')
      | (None, Some replace) \<Rightarrow>
          andthen open_session (\<lambda>_.
          andthen (run_and_rule run) (\<lambda>(r, rule).
          if \<not> lease_is_current r lease then throw (RuntimeError ''sync lease expired before mirror write'')
          else
            let es = entries (run_source_snapshot r); gone = missing_tokens es m; desired = desired_uris es m in
            if gone \<noteq> []
            then throw (RuntimeError (''sync is missing '' @ str_nat (length gone) @ '' target track mappings''))
            else if target_uri_sequence (Some before) = desired then ret before
            else replace_target env ta cred (replace cred (rule_target_playlist_id rule)) rule job before desired)))"

section \<open>Running and finalizing\<close>

definition finish_sync ::
  "'w env \<Rightarrow> string \<Rightarrow> string \<Rightarrow> 'w sync_work \<Rightarrow> sync_rule \<Rightarrow> mappings \<Rightarrow> ('w, unit) handler"
where
  "finish_sync env run lease w rule m =
     andthen
       (if sw_mode w = MIRROR
        then apply_mirror env run lease (sw_target w) (sw_target_cred w) (sw_target_before w) m (sw_job w)
        else andthen (read_side (sw_target w) (sw_target_cred w) (rule_target_playlist_id rule)
               (rule_target_playlist_name rule)) (\<lambda>tp.
             ret (build_playlist_snapshot tp (rule_target_provider rule)))) (\<lambda>after.
     complete_run run lease (sw_source_snapshot w) (Some after) m)"

definition execute_sync :: "'w env \<Rightarrow> string \<Rightarrow> string \<Rightarrow> ('w, unit) handler" where
  "execute_sync env run lease =
     andthen (plan_sync env run) (\<lambda>w.
     andthen (when_do (sw_added w \<noteq> []) (run_migration env (sw_job w) True)) (\<lambda>_.
     andthen (settle_sync run lease w) (\<lambda>settled.
     case settled of
       None \<Rightarrow> ret ()
     | Some (rule, m) \<Rightarrow> finish_sync env run lease w rule m)))"

definition plan_finalize :: "'w env \<Rightarrow> string \<Rightarrow> ('w, 'w sync_work) handler" where
  "plan_finalize env run =
     andthen open_session (\<lambda>_.
     andthen (run_and_rule run) (\<lambda>(r, rule).
     andthen (get_checkpoint (rule_id rule)) (\<lambda>ck.
     andthen (query (job_of_run run)) (\<lambda>found.
     case (ck, found) of
       (Some c, Some job) \<Rightarrow>
         andthen (query (ordered_items (mj_id job))) (\<lambda>items.
         if \<not> checkpoint_review_resolved c items
         then throw (RuntimeError ''sync review still has unresolved tracks'')
         else
           let m = dict_update (ck_mappings c) (job_item_mappings items) in
           andthen (edit_checkpoint (rule_id rule) (\<lambda>c. c\<lparr>ck_mappings := m, ck_unresolved := []\<rparr>)) (\<lambda>_.
           andthen commit (\<lambda>_.
           andthen (expect (get_adapter (env_registry env) (rule_target_provider rule))) (\<lambda>ta.
           andthen (load_fresh_credential env (rule_target_account_id rule) ta
              (Some (rule_target_provider rule)) (Some (rule_user_id rule))) (\<lambda>(tcred, _).
           andthen (read_side ta tcred (rule_target_playlist_id rule) (rule_target_playlist_name rule)) (\<lambda>tp.
           andthen (expect (mode_of_value (rule_mode rule))) (\<lambda>mode.
           ret \<lparr>sw_mode = mode, sw_target = ta, sw_target_cred = tcred,
                sw_source_snapshot = if_none (run_source_snapshot r) (ck_source_snapshot c),
                sw_target_before = build_playlist_snapshot tp (rule_target_provider rule),
                sw_added = [], sw_mappings = m, sw_job = mj_id job\<rparr>)))))))
     | _ \<Rightarrow> throw (RuntimeError ''sync review state is missing'')))))"

definition finalize_reviewed_run :: "'w env \<Rightarrow> string \<Rightarrow> string \<Rightarrow> ('w, unit) handler" where
  "finalize_reviewed_run env run lease =
     andthen (plan_finalize env run) (\<lambda>w.
     andthen
       (if sw_mode w = MIRROR
        then apply_mirror env run lease (sw_target w) (sw_target_cred w) (sw_target_before w)
               (sw_mappings w) (sw_job w)
        else ret (sw_target_before w)) (\<lambda>after.
     complete_run run lease (sw_source_snapshot w) (Some after) (sw_mappings w)))"

definition run_sync :: "'w env \<Rightarrow> string \<Rightarrow> ('w, unit) handler" where
  "run_sync env run =
     andthen (start_run env run ''queued'') (\<lambda>started.
     case started of
       None \<Rightarrow> ret ()
     | Some lease \<Rightarrow>
         catching (execute_sync env run lease) (\<lambda>e.
           if e = CancelledError
           then andthen (fail_run env run lease (RuntimeError ''sync cancelled or timed out'')) (\<lambda>_. throw e)
           else fail_run env run lease e))"

definition finalize_sync_review :: "'w env \<Rightarrow> string \<Rightarrow> ('w, unit) handler" where
  "finalize_sync_review env run =
     andthen (start_run env run ''review_required'') (\<lambda>started.
     case started of
       None \<Rightarrow> ret ()
     | Some lease \<Rightarrow>
         catching (finalize_reviewed_run env run lease) (\<lambda>e.
           if e = CancelledError then throw e else fail_run env run lease e))"

section \<open>The scheduler\<close>

text \<open>The context of a worker has the connection to the queue, or not.\<close>

definition enqueue_runs :: "bool \<Rightarrow> sync_run list \<Rightarrow> ('w, unit) handler" where
  "enqueue_runs redis runs =
     (if \<not> redis then throw (RuntimeError ''ARQ worker context is missing Redis'')
      else for_each runs (\<lambda>r. enqueue ''run_sync'' (run_id r) (run_queue_job_id r)))"

definition enqueue_review_finalizers :: "bool \<Rightarrow> sync_run list \<Rightarrow> ('w, unit) handler" where
  "enqueue_review_finalizers redis runs =
     (if \<not> redis then throw (RuntimeError ''ARQ worker context is missing Redis'')
      else for_each runs (\<lambda>r. enqueue ''finalize_sync_review'' (run_id r) (''sync-review:'' @ run_id r)))"

definition rule_due :: "int \<Rightarrow> sync_rule \<Rightarrow> bool" where
  "rule_due now r =
     (rule_enabled r \<and> (case rule_next_run_at r of None \<Rightarrow> False | Some t \<Rightarrow> t \<le> of_int now) \<and>
      rule_status r \<notin> {''review_required'', ''reconnect_required''})"

definition due_rules :: "'w env \<Rightarrow> int \<Rightarrow> db \<Rightarrow> sync_rule list" where
  "due_rules env now d =
     take (set_sync_scheduler_batch_size (env_settings env))
       (sort_key (\<lambda>r. (rule_next_run_at r, rule_id r)) (select_rows (rule_due now) (db_rules d)))"

definition queue_due :: "'w env \<Rightarrow> int \<Rightarrow> sync_run list \<Rightarrow> sync_rule \<Rightarrow> ('w, sync_run list) handler" where
  "queue_due env now created r =
     andthen (attempt (create_queued_run env (rule_id r) ''scheduled'' now)) (\<lambda>got.
     case got of
       Inr run \<Rightarrow> ret (created @ [run])
     | Inl (SyncAlreadyRunning i) \<Rightarrow> ret created
     | Inl e \<Rightarrow> throw e)"

definition schedule_syncs :: "'w env \<Rightarrow> bool \<Rightarrow> ('w, unit) handler" where
  "schedule_syncs env redis =
     andthen utcnow (\<lambda>now.
     andthen open_session (\<lambda>_.
     andthen (recover_stale_runs env now) (\<lambda>_.
     andthen open_session (\<lambda>_.
     andthen (query queued_runs) (\<lambda>queued.
     andthen (enqueue_runs redis queued) (\<lambda>_.
     andthen open_session (\<lambda>_.
     andthen (query resolved_review_runs) (\<lambda>reviewed.
     andthen (enqueue_review_finalizers redis reviewed) (\<lambda>_.
     andthen open_session (\<lambda>_.
     andthen (query (due_rules env now)) (\<lambda>rules.
     andthen (fold_each rules [] (queue_due env now)) (\<lambda>created.
     andthen commit (\<lambda>_.
     enqueue_runs redis created)))))))))))))"

end
