(* ===== verification/Sync_Life.thy ===== *)
theory Sync_Life
  imports Sync_Job
begin

text \<open>
  The correctness of a synchronization run: a run that was started always ends, whatever happens
  in between, and a mirror run that returns leaves the target as the source asks.
\<close>

section \<open>What a run in progress keeps\<close>

text \<open>The life of the runs as committed: for each one its rule, its status and its lease.\<close>

definition run_view :: "db \<Rightarrow> (string, string \<times> string \<times> string) dict" where
  "run_view d = map (\<lambda>(k, r). (k, (run_rule_id r, run_status r, run_lease_token r))) (db_runs d)"

definition set_status :: "string \<Rightarrow> string \<Rightarrow> (string, string \<times> string \<times> string) dict \<Rightarrow>
    (string, string \<times> string \<times> string) dict" where
  "set_status i st = update_row i (\<lambda>(rule, _, lease). (rule, st, lease))"

lemma run_view_get:
  "dict_get (run_view d) k = map_option (\<lambda>r. (run_rule_id r, run_status r, run_lease_token r)) (dict_get (db_runs d) k)"
  unfolding run_view_def by (subst map_of_map) simp

lemma run_view_other: "db_runs d = db_runs e \<Longrightarrow> run_view d = run_view e"
  by (simp add: run_view_def)

lemma run_view_same:
  assumes "\<And>r. run_rule_id (f r) = run_rule_id r \<and> run_status (f r) = run_status r \<and> run_lease_token (f r) = run_lease_token r"
  shows "run_view (d\<lparr>db_runs := update_row i f (db_runs d)\<rparr>) = run_view d"
  using assms by (auto simp: run_view_def update_row_def)

lemma run_view_status:
  assumes "\<And>r. run_rule_id (f r) = run_rule_id r \<and> run_status (f r) = st \<and> run_lease_token (f r) = run_lease_token r"
  shows "run_view (d\<lparr>db_runs := update_row i f (db_runs d)\<rparr>) = set_status i st (run_view d)"
  using assms by (auto simp: run_view_def update_row_def set_status_def)

text \<open>
  While a worker holds a run nothing but its own transactions changes the life of a run, and the
  rule stays; \<open>on_record\<close> says the same of what is committed.
\<close>

definition on_record :: "(string, string \<times> string \<times> string) dict \<Rightarrow> string \<Rightarrow> 'w engine \<Rightarrow> bool" where
  "on_record v rule s \<longleftrightarrow> constraints_ok (st_db s) \<and> run_view (st_db s) = v \<and> dict_get (db_rules (st_db s)) rule \<noteq> None"

definition working :: "(string, string \<times> string \<times> string) dict \<Rightarrow> string \<Rightarrow> 'w engine \<Rightarrow> bool" where
  "working v rule s \<longleftrightarrow> on_record v rule s \<and> run_view (st_work s) = v \<and> dict_get (db_rules (st_work s)) rule \<noteq> None"

interpretation working: worker_frame "working v rule" for v rule
proof
  fix s :: "'a engine" and g
  assume "working v rule s" and "quiet g"
  moreover from this(2) have "run_view (g (st_work s)) = run_view (st_work s)" by (simp add: quiet_def run_view_def)
  ultimately show "working v rule (s\<lparr>st_work := g (st_work s)\<rparr>)" by (simp add: working_def on_record_def quiet_def)
qed (simp_all add: working_def on_record_def)

lemma working_run_edit [keeps_intro]:
  "(\<And>r. run_rule_id (f r) = run_rule_id r \<and> run_status (f r) = run_status r \<and> run_lease_token (f r) = run_lease_token r) \<Longrightarrow>
     keeps (working v rule) (edit_run i f)"
  by (auto intro!: keepsI simp: edit_run_def run_simps working_def on_record_def run_view_same)

lemma working_reads [keeps_intro]:
  "keeps (working v rule) (run_and_rule run)" "keeps (working v rule) (get_checkpoint i)"
  "keeps (working v rule) (edit_checkpoint i f)" "keeps (working v rule) (read_side a cred p name)"
  "keeps (working v rule) (mark_ledger i state)"
  by (auto simp: run_and_rule_def get_checkpoint_def edit_checkpoint_def read_side_def mark_ledger_def intro!: keeps_intro)

lemma working_record [keeps_intro]: "keeps (working v rule) (edit_run i (record_reading a b diff now))"
  by (rule working_run_edit) (simp add: record_reading_def)

lemma working_plan: "keeps (working v rule) (plan_sync env run)"
  unfolding plan_sync_def Let_def by (auto intro!: keeps_intro)

lemma working_mirror: "keeps (working v rule) (apply_mirror env run lease ta cred before m job)"
  unfolding apply_mirror_def replace_target_def check_replaced_def replace_failed_def restore_target_def Let_def
  by (auto intro!: keeps_intro)

lemma working_plan_finalize: "keeps (working v rule) (plan_finalize env run)"
  unfolding plan_finalize_def Let_def by (auto intro!: keeps_intro)

section \<open>How a run ends\<close>

definition settled_statuses :: "string set" where
  "settled_statuses = {''succeeded'', ''review_required'', ''failed'', ''partial_failure'', ''reconnect_required''}"

definition run_ended :: "(string, string \<times> string \<times> string) dict \<Rightarrow> string \<Rightarrow> 'w engine \<Rightarrow> bool" where
  "run_ended v run s \<longleftrightarrow> (\<exists>st \<in> settled_statuses. run_view (st_db s) = set_status run st v)"

lemma working_on_record: "working v rule s \<Longrightarrow> on_record v rule s"
  by (simp add: working_def)

text \<open>Between the edit that settles the row of a run and the commit.\<close>

definition settling :: "(string, string \<times> string \<times> string) dict \<Rightarrow> string \<Rightarrow> string \<Rightarrow> 'w engine \<Rightarrow> bool" where
  "settling v run rule s \<longleftrightarrow> on_record v rule s \<and> (\<exists>st \<in> settled_statuses. run_view (st_work s) = set_status run st v)"

lemma settling_edits [keeps_intro]:
  "(\<And>d. db_runs (g d) = db_runs d) \<Longrightarrow> keeps (settling v run rule) (edit g)"
  "keeps (settling v run rule) utcnow" "keeps (settling v run rule) (expect r)"
  "keeps (settling v run rule) (edit_rule i f)" "keeps (settling v run rule) (edit_checkpoint j h)"
  by (auto intro!: keepsI simp: run_simps settling_def on_record_def run_view_def edit_rule_def edit_checkpoint_def)

lemma settle_row:
  assumes "\<And>r. run_rule_id (f r) = run_rule_id r \<and> run_status (f r) = st \<and> run_lease_token (f r) = run_lease_token r"
    and "st \<in> settled_statuses"
  shows "triple (working v rule) (edit_run run f) (\<lambda>_. settling v run rule) (\<lambda>_. on_record v rule)"
  using assms(2) run_view_status [of f st, OF assms(1)]
  by (intro tripleI) (auto simp: edit_run_def run_simps working_def settling_def on_record_def)

lemma settled_commit: "triple (settling v run rule) commit (\<lambda>_. run_ended v run) (\<lambda>_. on_record v rule)"
  by (rule tripleI) (auto simp: run_simps settling_def on_record_def run_ended_def)

lemma weaken_raise:
  "keeps I m \<Longrightarrow> (\<And>s. I s \<Longrightarrow> E s) \<Longrightarrow> (\<And>a. triple I (k a) Q (\<lambda>_. E)) \<Longrightarrow> triple I (andthen m k) Q (\<lambda>_. E)"
  unfolding keeps_def by (rule triple_andthen [where R = "\<lambda>_. I"]) (auto elim: triple_weaken)

lemma working_then:
  "keeps (working v rule) m \<Longrightarrow> (\<And>a. triple (working v rule) (k a) Q (\<lambda>_. on_record v rule)) \<Longrightarrow>
     triple (working v rule) (andthen m k) Q (\<lambda>_. on_record v rule)"
  by (rule weaken_raise) (simp_all add: working_def)

lemma settling_then:
  "keeps (settling v run rule) m \<Longrightarrow> (\<And>a. triple (settling v run rule) (k a) Q (\<lambda>_. on_record v rule)) \<Longrightarrow>
     triple (settling v run rule) (andthen m k) Q (\<lambda>_. on_record v rule)"
  by (rule weaken_raise) (simp_all add: settling_def)

lemma settling_finish:
  "keeps (settling v run rule) m \<Longrightarrow> triple (settling v run rule) (andthen m (\<lambda>_. commit)) (\<lambda>_. run_ended v run) (\<lambda>_. on_record v rule)"
  by (erule settling_then) (rule settled_commit)

lemmas settle_then = triple_andthen [OF settle_row]

text \<open>The worker sees its own row: the one it started.\<close>

lemma working_run:
  assumes "working v rule s" and "map_of v run = Some (rule, st, lease)"
  obtains r u where "run_and_rule run s = (Inr (r, u), s)" and "dict_get (db_runs (st_work s)) run = Some r"
    and "run_status r = st" and "run_lease_token r = lease" and "run_rule_id r = rule"
proof -
  from assms obtain r where r: "dict_get (db_runs (st_work s)) run = Some r"
    "run_status r = st" "run_lease_token r = lease" "run_rule_id r = rule"
    by (auto simp: working_def run_view_get)
  moreover from assms(1) obtain u where "dict_get (db_rules (st_work s)) rule = Some u" by (auto simp: working_def)
  ultimately show thesis by (intro that) (simp_all add: run_and_rule_def run_simps)
qed

lemma own_run:
  assumes "map_of v run = Some (rule, st, lease)"
    and "\<And>r u. run_status r = st \<Longrightarrow> run_lease_token r = lease \<Longrightarrow> run_rule_id r = rule \<Longrightarrow> triple (working v rule) (k (r, u)) Q E"
  shows "triple (working v rule) (andthen (run_and_rule run) k) Q E"
proof (rule tripleI)
  fix s :: "'a engine"
  assume w: "working v rule s"
  from working_run [OF w assms(1)] obtain r u where r: "run_and_rule run s = (Inr (r, u), s)"
    "run_status r = st" "run_lease_token r = lease" "run_rule_id r = rule" by metis
  from assms(2) [OF r(2-4), of u] w have "case k (r, u) s of (Inl e, t) \<Rightarrow> E e t | (Inr a, t) \<Rightarrow> Q a t"
    by (simp add: triple_def)
  then show "case andthen (run_and_rule run) k s of (Inl e, t) \<Rightarrow> E e t | (Inr a, t) \<Rightarrow> Q a t"
    by (simp add: run_simps r(1))
qed

lemma record_success_ends:
  "triple (working v rule) (record_success r u run now a b m) (\<lambda>_. run_ended v run) (\<lambda>_. on_record v rule)"
  unfolding record_success_def next_scheduled_def
  by (rule working_then [OF working_reads(3)], rule settle_then [where st = "''succeeded''"])
    (simp, simp add: settled_statuses_def, rule settling_then, intro keeps_intro, rule settling_finish, intro keeps_intro)

lemma complete_run_ends:
  assumes "map_of v run = Some (rule, ''running'', lease)"
  shows "triple (working v rule) (complete_run run lease a b m) (\<lambda>_. run_ended v run) (\<lambda>_. on_record v rule)"
  unfolding complete_run_def
  by (rule working_then [OF working.frame_session(6)], rule working_then [OF working.frame_session(1)],
      rule own_run [OF assms])
    (auto simp: lease_is_current_def intro!: working_then [OF working_reads(2)] triple_throw working_on_record record_success_ends)

lemma finish_attention_ends:
  assumes "map_of v run = Some (rule, ''running'', lease)"
  shows "triple (working v rule) (finish_attention run i lease msg) (\<lambda>_. run_ended v run) (\<lambda>_. on_record v rule)"
proof -
  let ?found = "\<lambda>x. \<exists>r. x = Some r \<and> lease_is_current r lease"
  have "triple (working v rule) (query (\<lambda>d. dict_get (db_runs d) run)) (\<lambda>x s. working v rule s \<and> ?found x) (\<lambda>_. on_record v rule)"
    using assms by (intro tripleI) (auto simp: run_simps working_def run_view_get lease_is_current_def)
  then show ?thesis
    unfolding finish_attention_def
  proof (rule triple_andthen, intro triple_fact)
    fix x
    assume "?found x"
    then obtain r where r: "x = Some r" "lease_is_current r lease" by blast
    show "triple (working v rule) (case x of None \<Rightarrow> ret () | Some r \<Rightarrow> if \<not> lease_is_current r lease then ret ()
         else andthen utcnow (\<lambda>now.
           andthen (edit_run run (\<lambda>r. r\<lparr>run_status := ''review_required'', run_error := Some msg,
              run_finished_at := Some now, run_heartbeat_at := Some now\<rparr>)) (\<lambda>_.
           andthen (edit_rule i (\<lambda>u. u\<lparr>rule_status := ''review_required'',
              rule_last_error := Some msg, rule_last_added := run_added r,
              rule_last_removed := run_removed r, rule_last_reordered := run_reordered r,
              rule_next_run_at := None\<rparr>)) (\<lambda>_. commit))))
       (\<lambda>_. run_ended v run) (\<lambda>_. on_record v rule)"
      by (simp add: r, rule working_then [OF working.frame_session(6)], rule settle_then [where st = "''review_required''"])
        (simp, simp add: settled_statuses_def, rule settling_finish, intro keeps_intro)
  qed
qed

lemma settle_items_ends:
  assumes "map_of v run = Some (rule, ''running'', lease)"
  shows "triple (working v rule) (settle_items run r u lease m items)
    (\<lambda>res s. case res of None \<Rightarrow> run_ended v run s | Some _ \<Rightarrow> working v rule s) (\<lambda>_. on_record v rule)"
  unfolding settle_items_def park_review_def Let_def
proof (rule triple_if, rule triple_throw, erule working_on_record, rule triple_if)
  let ?Q = "\<lambda>res s. case res of None \<Rightarrow> run_ended v run s | Some _ \<Rightarrow> working v rule s"
  show "triple (working v rule) (andthen (andthen (edit_checkpoint i f) (\<lambda>_. finish_attention run j lease msg)) (\<lambda>_. ret None))
      ?Q (\<lambda>_. on_record v rule)" for i f j msg
    by (rule triple_andthen [where R = "\<lambda>_. run_ended v run"], rule working_then [OF working_reads(3)])
      (auto intro!: finish_attention_ends [OF assms] triple_ret)
  show "triple (working v rule) (andthen commit (\<lambda>_. ret (Some x))) ?Q (\<lambda>_. on_record v rule)" for x
    by (rule working_then [OF working.frame_session(4)]) (simp add: triple_ret)
qed

lemma settle_sync_ends:
  assumes "map_of v run = Some (rule, ''running'', lease)"
  shows "triple (working v rule) (settle_sync run lease w)
    (\<lambda>res s. case res of None \<Rightarrow> run_ended v run s | Some _ \<Rightarrow> working v rule s) (\<lambda>_. on_record v rule)"
  unfolding settle_sync_def
  by (intro working_then keeps_intro triple_prod triple_option triple_if triple_throw settle_items_ends [OF assms])
    (simp_all add: working_on_record)

lemma finish_sync_ends:
  assumes "map_of v run = Some (rule, ''running'', lease)"
  shows "triple (working v rule) (finish_sync env run lease w u m) (\<lambda>_. run_ended v run) (\<lambda>_. on_record v rule)"
  unfolding finish_sync_def
  by (rule working_then) (auto intro!: complete_run_ends [OF assms] working_mirror keeps_intro)

lemma execute_sync_ends:
  assumes "map_of v run = Some (rule, ''running'', lease)"
  shows "triple (working v rule) (execute_sync env run lease) (\<lambda>_. run_ended v run) (\<lambda>_. on_record v rule)"
  unfolding execute_sync_def
proof (rule working_then [OF working_plan], rule working_then)
  show "keeps (working v rule) (when_do (sw_added w \<noteq> []) (run_migration env (sw_job w) True))" for w :: "'a sync_work"
    by (intro keeps_when_do working.frame_run_migration)
  show "triple (working v rule) (andthen (settle_sync run lease w) (\<lambda>settled. case settled of None \<Rightarrow> ret ()
     | Some (rule, m) \<Rightarrow> finish_sync env run lease w rule m)) (\<lambda>_. run_ended v run) (\<lambda>_. on_record v rule)" for w :: "'a sync_work"
    by (rule triple_andthen [OF settle_sync_ends [OF assms]])
      (auto intro!: triple_ret finish_sync_ends [OF assms] split: option.split)
qed

lemma finalize_ends:
  assumes "map_of v run = Some (rule, ''running'', lease)"
  shows "triple (working v rule) (finalize_reviewed_run env run lease) (\<lambda>_. run_ended v run) (\<lambda>_. on_record v rule)"
  unfolding finalize_reviewed_run_def
  by (intro working_then [OF working_plan_finalize] working_then complete_run_ends [OF assms]) 
    (auto intro!: working_mirror keeps_intro)

section \<open>A run always ends\<close>

lemma select_rows_simps [simp]:
  "select_rows p [] = []"
  "select_rows p ((k, r) # t) = (if p r then r # select_rows p t else select_rows p t)"
  by (simp_all add: select_rows_def rows_def)

lemma update_row_Cons [simp]: "update_row i f ((k, r) # t) = (k, if k = i then f r else r) # update_row i f t"
  by (simp add: update_row_def)

lemma selected_update_subset:
  assumes "\<And>r. g (f r) = g r" and "\<And>r. (i, r) \<in> set t \<Longrightarrow> p (f r) \<Longrightarrow> p r"
  shows "g ` set (select_rows p (update_row i f t)) \<subseteq> g ` set (select_rows p t)"
  using assms(2)
proof (induction t)
  case (Cons x t)
  obtain k r where x: "x = (k, r)" by force
  have "g ` set (select_rows p (update_row i f t)) \<subseteq> g ` set (select_rows p t)"
    by (rule Cons.IH) (simp add: Cons.prems)
  moreover have "k = i \<Longrightarrow> p (f r) \<Longrightarrow> p r" using Cons.prems [of r] x by simp
  ultimately show ?case by (cases "k = i"; cases "p (f r)"; cases "p r") (simp_all add: x assms(1) subset_insertI2)
qed simp

lemma distinct_filter_update:
  assumes "distinct (map g (select_rows p t))" and "\<And>r. g (f r) = g r" and "\<And>r. (i, r) \<in> set t \<Longrightarrow> p (f r) \<Longrightarrow> p r"
  shows "distinct (map g (select_rows p (update_row i f t)))"
  using assms(1,3)
proof (induction t)
  case (Cons x t)
  obtain k r where x: "x = (k, r)" by force
  have sub: "g ` set (select_rows p (update_row i f t)) \<subseteq> g ` set (select_rows p t)"
    using Cons.prems(2) by (intro selected_update_subset assms(2)) simp
  have d: "distinct (map g (select_rows p (update_row i f t)))"
  proof (rule Cons.IH)
    show "distinct (map g (select_rows p t))" using Cons.prems(1) by (simp add: x split: if_splits)
    show "p r'" if "(i, r') \<in> set t" "p (f r')" for r' by (rule Cons.prems(2)) (simp_all add: that)
  qed
  have new: "p r \<Longrightarrow> g r \<notin> g ` set (select_rows p t)" using Cons.prems(1) by (simp add: x)
  have "k = i \<Longrightarrow> p (f r) \<Longrightarrow> p r" using Cons.prems(2) [of r] x by simp
  moreover have "p r \<Longrightarrow> g r \<notin> g ` set (select_rows p (update_row i f t))"
    using new sub by (meson subsetD)
  ultimately show ?case using d by (cases "k = i"; cases "p (f r)"; cases "p r") (simp_all add: x assms(2))
qed simp

text \<open>A transaction on one run and its rule that ends a run, or starts an active one, breaks no constraint.\<close>

lemma constraints_run_edit:
  assumes "constraints_ok d"
    and "\<And>r. run_rule_id (f r) = run_rule_id r \<and> run_queue_job_id (f r) = run_queue_job_id r"
    and "\<And>r. (i, r) \<in> set (db_runs d) \<Longrightarrow> active_run (f r) \<Longrightarrow> active_run r"
    and "\<And>u. rule_user_id (h u) = rule_user_id u \<and> rule_source (h u) = rule_source u \<and> rule_target (h u) = rule_target u"
  shows "constraints_ok (d\<lparr>db_runs := update_row i f (db_runs d), db_rules := update_row j h (db_rules d)\<rparr>)"
proof -
  have "one_active_run (update_row i f (db_runs d))"
    using assms(1-3) unfolding one_active_run_def constraints_ok_def by (intro distinct_filter_update) auto
  moreover have "map run_queue_job_id (rows (update_row i f (db_runs d))) = map run_queue_job_id (rows (db_runs d))"
    using assms(2) by (intro map_rows_update) simp
  moreover have "one_rule_per_pair (update_row j h (db_rules d)) = one_rule_per_pair (db_rules d)"
    unfolding one_rule_per_pair_def using assms(4) by (subst map_rows_update) simp_all
  ultimately show ?thesis using assms(1) by (simp add: constraints_ok_def)
qed

lemma policy_settles: "pol_status (sync_error_policy e) \<in> settled_statuses"
  by (cases e) (simp_all add: sync_error_policy_def settled_statuses_def)

lemma settled_inactive: "st \<in> settled_statuses \<Longrightarrow> st \<notin> {''queued'', ''running''}"
  by (auto simp: settled_statuses_def)

text \<open>Recording the failure of a run cannot fail itself.\<close>

lemma fail_run_ends:
  assumes "on_record v rule s" and "map_of v run = Some (rule, ''running'', lease)"
  shows "\<exists>t. fail_run env run lease e s = (Inr (), t) \<and> run_ended v run t"
proof -
  let ?s = "s\<lparr>st_work := st_db s\<rparr>" and ?p = "sync_error_policy e"
  have w: "working v rule ?s" using assms(1) by (simp add: working_def on_record_def)
  obtain r u where r: "run_and_rule run ?s = (Inr (r, u), ?s)" "run_status r = ''running''" "run_lease_token r = lease"
    by (rule working_run [OF w assms(2)])
  let ?f = "\<lambda>r. r\<lparr>run_status := pol_status ?p,
           run_error := Some (error_message e), run_finished_at := Some (st_clock s), run_heartbeat_at := Some (st_clock s)\<rparr>"
  let ?h = "\<lambda>u. u\<lparr>rule_status := pol_status ?p,
           rule_last_error := Some (error_message e), rule_last_added := run_added r,
           rule_last_removed := run_removed r, rule_last_reordered := run_reordered r,
           rule_enabled := (if pol_pause_rule ?p then False else rule_enabled u),
           rule_next_run_at := (if pol_pause_rule ?p then None
             else Some (of_int (st_clock s) + retry_delay env (pol_retry_after_s ?p)))\<rparr>"
  let ?d = "(st_db s)\<lparr>db_runs := update_row run ?f (db_runs (st_db s)), db_rules := update_row (rule_id u) ?h (db_rules (st_db s))\<rparr>"
  have ok: "constraints_ok ?d"
    using assms(1) settled_inactive [OF policy_settles, of e]
    by (intro constraints_run_edit) (simp_all add: on_record_def active_run_def rule_source_def rule_target_def)
  then have "fail_run env run lease e s = (Inr (), s\<lparr>st_work := ?d, st_db := ?d\<rparr>)"
    using r by (simp add: fail_run_def lease_is_current_def edit_run_def edit_rule_def run_simps Let_def)
  moreover have "run_view ?d = set_status run (pol_status ?p) v"
    using run_view_status [of ?f "pol_status ?p" run "st_db s"] assms(1) by (simp add: on_record_def run_view_def)
  then have "run_ended v run (s\<lparr>st_work := ?d, st_db := ?d\<rparr>)"
    using policy_settles [of e] by (auto simp: run_ended_def)
  ultimately show ?thesis by blast
qed

text \<open>A worker starts: the run is its own from then on, or the transaction broke a constraint.\<close>

definition taken_over :: "string \<Rightarrow> string \<Rightarrow> (string, string \<times> string \<times> string) dict \<Rightarrow> (string, string \<times> string \<times> string) dict" where
  "taken_over run lease = update_row run (\<lambda>(rule, _, _). (rule, ''running'', lease))"

lemma start_run_takes:
  assumes "constraints_ok (st_db s)" and "dict_get (db_runs (st_db s)) run = Some r"
    and "run_status r = expected" and "dict_get (db_rules (st_db s)) (run_rule_id r) \<noteq> None"
  obtains (refused) t where "start_run env run expected s = (Inl IntegrityError, t)" and "st_db t = st_db s"
      and "\<not> (is_dict (db_runs (st_db s)) \<and> active_run r)"
  | (started) t lease v where "start_run env run expected s = (Inr (Some lease), t)"
      and "v = taken_over run lease (run_view (st_db s))" and "working v (run_rule_id r) t"
      and "map_of v run = Some (run_rule_id r, ''running'', lease)"
proof -
  from assms(4) obtain u where u: "dict_get (db_rules (st_db s)) (run_rule_id r) = Some u" by auto
  let ?lease = "env_uuid env (st_drawn s)" and ?now = "st_clock s"
  let ?f = "\<lambda>r. r\<lparr>run_status := ''running'', run_lease_token := ?lease, run_started_at := if_none (run_started_at r) (Some ?now),
          run_heartbeat_at := Some ?now, run_error := None\<rparr>"
  let ?h = "\<lambda>u. u\<lparr>rule_status := ''running'', rule_last_error := None\<rparr>"
  let ?d = "(st_db s)\<lparr>db_runs := update_row run ?f (db_runs (st_db s)), db_rules := update_row (run_rule_id r) ?h (db_rules (st_db s))\<rparr>"
  let ?v = "taken_over run ?lease (run_view (st_db s))"
  have run: "start_run env run expected s =
      (if constraints_ok ?d then (Inr (Some ?lease), s\<lparr>st_work := ?d, st_drawn := Suc (st_drawn s), st_db := ?d\<rparr>)
       else (Inl IntegrityError, s\<lparr>st_work := ?d, st_drawn := Suc (st_drawn s)\<rparr>))"
    using assms(2,3) u by (simp add: start_run_def run_and_rule_def edit_run_def edit_rule_def run_simps)
  show thesis
  proof (cases "constraints_ok ?d")
    case True
    have view: "run_view ?d = ?v" by (auto simp: run_view_def taken_over_def update_row_def)
    have "map_of ?v run = Some (run_rule_id r, ''running'', ?lease)"
      using assms(2) by (simp add: taken_over_def run_view_get)
    moreover have "working ?v (run_rule_id r) (s\<lparr>st_work := ?d, st_drawn := Suc (st_drawn s), st_db := ?d\<rparr>)"
      using True view u by (simp add: working_def on_record_def)
    ultimately show thesis using started run True by simp
  next
    case False
    have "\<not> (is_dict (db_runs (st_db s)) \<and> active_run r)"
    proof
      assume a: "is_dict (db_runs (st_db s)) \<and> active_run r"
      have "constraints_ok ?d"
      proof (rule constraints_run_edit [OF assms(1)])
        show "active_run r'" if "(run, r') \<in> set (db_runs (st_db s))" for r'
          using that a assms(2) by (simp add: dict_get_mem)
      qed (simp_all add: rule_source_def rule_target_def)
      with False show False ..
    qed
    with refused run False show thesis by simp
  qed
qed

lemma ended_view:
  assumes "run_ended (taken_over run lease v) run t" and "dict_get v run = Some (rule, st, l)"
  shows "\<exists>st \<in> settled_statuses. dict_get (run_view (st_db t)) run = Some (rule, st, lease)"
    and "i \<noteq> run \<Longrightarrow> dict_get (run_view (st_db t)) i = dict_get v i"
  using assms by (auto simp: run_ended_def set_status_def taken_over_def)

lemma run_sync_run:
  "start_run env run ''queued'' s = (Inr (Some lease), u) \<Longrightarrow> run_sync env run s =
     catching (execute_sync env run lease) (\<lambda>e.
           if e = CancelledError
           then andthen (fail_run env run lease (RuntimeError ''sync cancelled or timed out'')) (\<lambda>_. throw e)
           else fail_run env run lease e) u"
  by (simp add: run_sync_def run_simps)

text \<open>
  C2. A synchronization never hangs: once a queued run was given to a worker, then whatever the
  providers, the migration and the database did, the committed row of the run is no longer active
  when the worker is done. It succeeded, waits for a review or for a new authorization, or failed;
  no other run changed its status or its lease; and only a cancellation is passed on as an error.
\<close>

theorem sync_run_ends:
  assumes "run_sync env run s = (out, t)"
    and "constraints_ok (st_db s)" and "is_dict (db_runs (st_db s))"
    and "dict_get (db_runs (st_db s)) run = Some r" and "run_status r = ''queued''"
    and "dict_get (db_rules (st_db s)) (run_rule_id r) \<noteq> None"
  shows "(out = Inr () \<or> out = Inl CancelledError) \<and>
    (\<exists>k. dict_get (db_runs (st_db t)) run = Some k \<and> run_status k \<in> settled_statuses \<and> run_rule_id k = run_rule_id r) \<and>
    (\<forall>i. i \<noteq> run \<longrightarrow> dict_get (run_view (st_db t)) i = dict_get (run_view (st_db s)) i)"
  using assms(2,4-6)
proof (cases rule: start_run_takes [where env = env])
  case (refused u)
  then show ?thesis using assms(3,5) by (simp add: active_run_def)
next
  case (started u lease v)
  note run = run_sync_run [OF started(1)]
  have finish: ?thesis if "run_ended v run t" "out = Inr () \<or> out = Inl CancelledError"
    using that ended_view [of run lease "run_view (st_db s)" t "run_rule_id r" "run_status r" "run_lease_token r"] started(2) assms(4)
    by (fastforce simp: run_view_get)
  obtain res w where o: "execute_sync env run lease u = (res, w)" by force
  note ends = execute_sync_ends [OF started(4), of env]
  show ?thesis
  proof (cases res)
    case (Inr x)
    with triple_returnD [OF ends started(3)] o have "run_ended v run w" by simp
    with finish Inr o run assms(1) show ?thesis by (simp add: run_simps)
  next
    case (Inl e)
    with triple_raiseD [OF ends started(3)] o have w: "on_record v (run_rule_id r) w" by simp
    show ?thesis
    proof (cases "e = CancelledError")
      case True
      obtain t' where f: "fail_run env run lease (RuntimeError ''sync cancelled or timed out'') w = (Inr (), t')" "run_ended v run t'"
        using fail_run_ends [OF w started(4)] by blast
      with True Inl o run assms(1) have "out = Inl CancelledError \<and> t = t'" by (simp add: run_simps)
      with f(2) show ?thesis by (intro finish) simp_all
    next
      case False
      obtain t' where f: "fail_run env run lease e w = (Inr (), t')" "run_ended v run t'"
        using fail_run_ends [OF w started(4)] by blast
      with False Inl o run assms(1) have "out = Inr () \<and> t = t'" by (simp add: run_simps)
      with f(2) show ?thesis by (intro finish) simp_all
    qed
  qed
qed

theorem sync_run_ends_witness:
  "\<exists>out t k. run_sync sample_env (str_nat 7) (sync_engine ''queued'') = (out, t) \<and>
     (out = Inr () \<or> out = Inl CancelledError) \<and> dict_get (db_runs (st_db t)) (str_nat 7) = Some k \<and>
     run_status k \<in> settled_statuses"
proof -
  obtain out t where o: "run_sync sample_env (str_nat 7) (sync_engine ''queued'') = (out, t)" by force
  have "constraints_ok (st_db (sync_engine ''queued''))" "is_dict (db_runs (st_db (sync_engine ''queued'')))"
    "dict_get (db_runs (st_db (sync_engine ''queued''))) (str_nat 7) = Some (sample_run ''queued'')"
    "run_status (sample_run ''queued'') = ''queued''"
    "dict_get (db_rules (st_db (sync_engine ''queued''))) (run_rule_id (sample_run ''queued'')) \<noteq> None"
    by (simp_all add: is_dict_def constraints_ok_jobs_accounts)
  from sync_run_ends [OF o this] o show ?thesis by blast
qed

text \<open>
  The end of a review is different: a cancelled finalization leaves the run \<open>running\<close>, until the
  scheduler finds it stale. Otherwise it ends as a run does, or it never started because another run
  of the rule is active.
\<close>

lemma finalization_ends:
  assumes "finalize_sync_review env run s = (out, t)" and "constraints_ok (st_db s)"
    and "dict_get (db_runs (st_db s)) run = Some r" and "run_status r = ''review_required''"
    and "dict_get (db_rules (st_db s)) (run_rule_id r) \<noteq> None"
  obtains "out = Inl IntegrityError" and "st_db t = st_db s"
  | k where "out = Inl CancelledError" and "dict_get (db_runs (st_db t)) run = Some k" and "run_status k = ''running''"
  | k where "out = Inr ()" and "dict_get (db_runs (st_db t)) run = Some k" and "run_status k \<in> settled_statuses"
  using assms(2,3,4,5)
proof (cases rule: start_run_takes [where env = env])
  case (refused u)
  with assms(1) that(1) show ?thesis by (simp add: finalize_sync_review_def run_simps)
next
  case (started u lease v)
  have run: "finalize_sync_review env run s = catching (finalize_reviewed_run env run lease) (\<lambda>e.
      if e = CancelledError then throw e else fail_run env run lease e) u"
    by (simp add: finalize_sync_review_def run_simps started(1))
  obtain res w where o: "finalize_reviewed_run env run lease u = (res, w)" by force
  note ends = finalize_ends [OF started(4), of env]
  have finish: "\<exists>k. dict_get (db_runs (st_db t')) run = Some k \<and> run_status k \<in> settled_statuses" if "run_ended v run t'" for t'
    using ended_view(1) [of run lease "run_view (st_db s)" t' "run_rule_id r" "run_status r" "run_lease_token r"] that started(2) assms(3)
    by (auto simp: run_view_get)
  show ?thesis
  proof (cases res)
    case (Inr x)
    with triple_returnD [OF ends started(3)] o have "run_ended v run w" by simp
    with finish Inr o run assms(1) that(3) show ?thesis by (auto simp: run_simps)
  next
    case (Inl e)
    with triple_raiseD [OF ends started(3)] o have w: "on_record v (run_rule_id r) w" by simp
    show ?thesis
    proof (cases "e = CancelledError")
      case True
      with w started(4) have "\<exists>k. dict_get (db_runs (st_db w)) run = Some k \<and> run_status k = ''running''"
        by (auto simp: on_record_def run_view_get)
      with True Inl o run assms(1) that(2) show ?thesis by (auto simp: run_simps)
    next
      case False
      obtain t' where f: "fail_run env run lease e w = (Inr (), t')" "run_ended v run t'"
        using fail_run_ends [OF w started(4)] by blast
      with False Inl o run assms(1) finish [OF f(2)] that(3) show ?thesis by (auto simp: run_simps)
    qed
  qed
qed

section \<open>A mirror matches\<close>

lemma mark_ledger_ok: "mark_ledger i state s = (Inr x, t) \<Longrightarrow> st_world t = st_world s \<and> db_runs (st_db t) = db_runs (st_work s) \<or>
    st_world t = st_world s \<and> t = s"
  by (auto simp: mark_ledger_def ok_simps split: option.splits)

lemma check_replaced_ok:
  assumes "check_replaced ta cred rule ledger desired s = (Inr sn, t)"
  shows "target_uri_sequence (Some sn) = desired \<and>
    (\<exists>pl. ad_read_playlist ta cred (new_ref (rule_target_playlist_id rule) (rule_target_playlist_name rule)) (st_world s) =
       (Inr pl, st_world t) \<and> sn = build_playlist_snapshot pl (rule_target_provider rule))"
  using assms unfolding check_replaced_def read_side_def Let_def
  by (auto simp: ok_simps dest!: mark_ledger_ok split: if_splits)

lemma replace_target_ok:
  assumes "replace_target env ta cred replace rule job before desired s = (Inr sn, t)"
  obtains w pl where "replace desired (st_world s) = (Inr (), w)"
    and "ad_read_playlist ta cred (new_ref (rule_target_playlist_id rule) (rule_target_playlist_name rule)) w = (Inr pl, st_world t)"
    and "sn = build_playlist_snapshot pl (rule_target_provider rule)" and "target_uri_sequence (Some sn) = desired"
proof -
  have failed: "\<not> replace_failed replace before l e u = (Inr sn, t)" for l e u
    by (auto simp: replace_failed_def ok_simps)
  from assms obtain l u v got w where add: "add_ledger env job ''replace_playlist_tracks''
        (replace_intent (rule_target_playlist_id rule) desired (target_uri_sequence (Some before)))
        (Some (rule_target_playlist_id rule)) None ''intended'' s = (Inr l, u)"
    and c: "commit u = (Inr (), v)" and got: "attempt (call (replace desired)) v = (Inr got, w)"
    and k: "(case got of Inl e \<Rightarrow> if is_provider_error e then replace_failed replace before l e else throw e
       | Inr _ \<Rightarrow> check_replaced ta cred rule l desired) w = (Inr sn, t)"
    unfolding replace_target_def ok_andthen by auto
  from add c have same: "st_world v = st_world s" by (auto simp: add_ledger_def ok_simps)
  show thesis
  proof (cases got)
    case (Inl e)
    with k show ?thesis using failed by (simp add: ok_simps split: if_splits)
  next
    case (Inr x)
    with got same have "replace desired (st_world s) = (Inr (), st_world w)" by (auto simp: ok_simps)
    moreover from k Inr have "check_replaced ta cred rule l desired w = (Inr sn, t)" by simp
    note check_replaced_ok [OF this]
    ultimately show ?thesis using that by blast
  qed
qed

text \<open>
  C7. A mirror that returns has made the target what the source asks: the worker still held the run,
  every track of the source was mapped or known to have no match, and the target, as it was read
  last, is the sequence of the mapped tracks in the order of the source. Either it was so already,
  and nothing was touched, or it was replaced as a whole and read again afterwards.
\<close>

theorem mirror_matches:
  assumes "apply_mirror env run lease ta cred before m job s = (Inr sn, t)"
  shows "\<exists>r rule. dict_get (db_runs (st_db s)) run = Some r \<and> lease_is_current r lease \<and>
    dict_get (db_rules (st_db s)) (run_rule_id r) = Some rule \<and>
    (\<forall>e \<in> set (entries (run_source_snapshot r)). dict_get m (en_token e) \<noteq> None) \<and>
    target_uri_sequence (Some sn) = desired_uris (entries (run_source_snapshot r)) m \<and>
    (sn = before \<and> st_world t = st_world s \<and> st_db t = st_db s \<or>
     (\<exists>replace pl w. ad_replace_tracks ta = Some replace \<and>
        replace cred (rule_target_playlist_id rule) (desired_uris (entries (run_source_snapshot r)) m) (st_world s) = (Inr (), w) \<and>
        ad_read_playlist ta cred (new_ref (rule_target_playlist_id rule) (rule_target_playlist_name rule)) w = (Inr pl, st_world t) \<and>
        sn = build_playlist_snapshot pl (rule_target_provider rule)))"
proof -
  let ?s = "s\<lparr>st_work := st_db s\<rparr>"
  from assms obtain replace where rep: "ad_replace_tracks ta = Some replace" and av: "mirror_unavailable_reason ta STANDARD = None"
    by (auto simp: apply_mirror_def ok_simps split: option.splits)
  from assms obtain r rule where rr: "run_and_rule run ?s = (Inr (r, rule), ?s)"
      "dict_get (db_runs (st_db s)) run = Some r" "dict_get (db_rules (st_db s)) (run_rule_id r) = Some rule"
    by (cases rule: run_and_rule_cases [of run ?s]) (auto simp: apply_mirror_def rep av run_simps)
  let ?es = "entries (run_source_snapshot r)" and ?d = "desired_uris (entries (run_source_snapshot r)) m"
  from assms rep av rr have cur: "lease_is_current r lease" and none: "missing_tokens ?es m = []"
    and fin: "(if target_uri_sequence (Some before) = ?d then ret before
      else replace_target env ta cred (replace cred (rule_target_playlist_id rule)) rule job before ?d) ?s = (Inr sn, t)"
    by (auto simp: apply_mirror_def run_simps ok_simps Let_def split: if_splits)
  have mapped: "\<forall>e \<in> set ?es. dict_get m (en_token e) \<noteq> None"
    using none by (auto simp: missing_tokens_def filter_empty_conv)
  show ?thesis
  proof (cases "target_uri_sequence (Some before) = ?d")
    case True
    with fin have "sn = before \<and> t = ?s" by (simp add: ok_simps)
    with True mapped cur rr show ?thesis by auto
  next
    case False
    with fin have "replace_target env ta cred (replace cred (rule_target_playlist_id rule)) rule job before ?d ?s = (Inr sn, t)" by simp
    then show ?thesis
      by (rule replace_target_ok) (use rep rr cur mapped in auto)
  qed
qed


text \<open>A mirror target over the reference adapter, which can be made to fail on a replacement.\<close>

definition mirror_target :: "bool \<Rightarrow> fake_world adapter" where
  "mirror_target works = fake_adapter\<lparr>
     ad_info := fake_info\<lparr>inf_capabilities := new_capabilities [REMOVE_TRACKS, REORDER]\<rparr>,
     ad_read_playlist := (\<lambda>cred ref. ret (new_playlist (Some (ref_id ref)) (ref_name ref)
       [sample_track\<lparr>trk_provider_uris := [(''fake'', ''u1'')]\<rparr>])),
     ad_replace_tracks := Some (\<lambda>cred p uris. if works \<or> uris = [] then ret () else throw (RateLimited None ''slow down'' 1))\<rparr>"

definition mirror_entry :: entry where
  "mirror_entry = \<lparr>en_token = ''t#0'', en_identity = ''t'', en_occurrence = 0, en_index = 0, en_position = 0,
     en_provider_uri = None, en_track = sample_track\<rparr>"

definition snapshot_of :: "entry list \<Rightarrow> snapshot" where
  "snapshot_of es = \<lparr>sn_playlist_id = None, sn_name = [], sn_kind = STANDARD, sn_provider = ''fake'',
     sn_provider_snapshot_id = None, sn_unsupported_count = 0, sn_tracks = es, sn_fingerprint = []\<rparr>"

lemma apply_mirror_stale:
  assumes "\<not> lease_held run lease (st_db s)"
  shows "leaves_alone (apply_mirror env run lease ta cred before m job) s \<and>
    isl (fst (apply_mirror env run lease ta cred before m job s))"
  using assms
  by (cases rule: run_and_rule_cases [of run "s\<lparr>st_work := st_db s\<rparr>"])
    (auto simp: apply_mirror_def run_simps lease_held_def leaves_alone_def split: option.splits)

text \<open>
  C8. A worker that takes over a run shuts out whoever held an older lease. From then on, in every
  state in which the row of the run has the new lease or is no longer running, four operations do
  nothing for a worker with an older lease: completing the run, failing it, parking it for review and
  mirroring the target each leave the committed database and the providers as they are, and the
  mirror is refused with an error. (The commits of the planning and of the settling of items, and the
  migration a run starts, carry no such check in the code, and nothing is said of them.)
\<close>

theorem stale_worker_locked_out:
  assumes "start_run env run expected s = (Inr (Some lease), t)" and "inj (env_uuid env)"
    and "old = env_uuid env n" and "n < st_drawn s"
    and "case dict_get (db_runs (st_db u)) run of None \<Rightarrow> True
      | Some r \<Rightarrow> run_lease_token r = lease \<or> run_status r \<noteq> ''running''"
  shows "lease_held run lease (st_db t) \<and>
    leaves_alone (complete_run run old a b m) u \<and> leaves_alone (fail_run env run old e) u \<and>
    leaves_alone (finish_attention run rule old msg) (u\<lparr>st_work := st_db u\<rparr>) \<and>
    leaves_alone (apply_mirror env run old ta cred before m job) u \<and>
    isl (fst (apply_mirror env run old ta cred before m job u))"
proof -
  note l = start_run_lease [OF assms(1)]
  have "old \<noteq> lease" using l assms(2-4) by (auto simp: inj_eq)
  then have no: "\<not> lease_held run old (st_db u)"
    using assms(5) by (auto simp: lease_held_def lease_is_current_def split: option.splits)
  then show ?thesis
    using l complete_run_stale [OF no] fail_run_stale [OF no] apply_mirror_stale [OF no]
      finish_attention_stale [of run old "u\<lparr>st_work := st_db u\<rparr>"]
    by auto
qed

theorem stale_worker_locked_out_witness:
  "\<exists>t. start_run sample_env (str_nat 7) ''queued'' (sync_engine ''queued'') = (Inr (Some (str_nat 10)), t) \<and>
     leaves_alone (complete_run (str_nat 7) (str_nat 8) None None []) t \<and>
     isl (fst (apply_mirror sample_env (str_nat 7) (str_nat 8) fake_adapter (fake_cred ''fake'') (snapshot_of []) [] ''j1'' t))"
proof -
  obtain t where t: "start_run sample_env (str_nat 7) ''queued'' (sync_engine ''queued'') =
      (Inr (Some (str_nat 10)), t)"
    by (simp add: start_run_def run_and_rule_def run_simps edit_run_def edit_rule_def
        sample_env_def constraints_ok_jobs_accounts)
  from start_run_lease [OF t] have "case dict_get (db_runs (st_db t)) (str_nat 7) of None \<Rightarrow> True
      | Some r \<Rightarrow> run_lease_token r = str_nat 10 \<or> run_status r \<noteq> ''running''"
    by (auto simp: lease_held_def lease_is_current_def split: option.splits)
  from stale_worker_locked_out [OF t sample_uuid_inj _ _ this, of "str_nat 8" 8] t show ?thesis
    by (simp add: sample_env_def)
qed

definition mirror_run :: sync_run where
  "mirror_run = (sample_run ''running'')\<lparr>run_source_snapshot := Some (snapshot_of [mirror_entry])\<rparr>"

definition mirror_engine :: "fake_world engine" where
  "mirror_engine = engine_on ((sync_db ''running'')\<lparr>db_runs := [(str_nat 7, mirror_run)]\<rparr>)"

lemma mirror_engine_facts:
  "dict_get (db_runs (st_db mirror_engine)) (str_nat 7) = Some mirror_run"
  "lease_is_current mirror_run (str_nat 8)"
  "dict_get (db_rules (st_db mirror_engine)) (run_rule_id mirror_run) = Some sample_rule"
  "entries (run_source_snapshot mirror_run) = [mirror_entry]"
  by (simp_all add: mirror_engine_def engine_on_def mirror_run_def lease_is_current_def entries_def snapshot_of_def)

lemma mirror_engine_ok: "constraints_ok (st_db mirror_engine)"
  by (simp add: mirror_engine_def engine_on_def constraint_defs mirror_run_def active_run_def sync_db_def account_db_def
      empty_db_def sample_account_def)

lemma desired_mirror: "desired_uris [mirror_entry] [(''t#0'', Some ''u1'')] = [''u1'']"
  by (simp add: desired_uris_def List.map_filter_def mapped_uri_def mirror_entry_def)

lemma mirror_target_facts:
  "mirror_unavailable_reason (mirror_target works) STANDARD = None"
  by (simp add: mirror_target_def mirror_unavailable_reason_def can_def new_capabilities_def)


theorem mirror_matches_witness:
  "\<exists>sn t r. apply_mirror sample_env (str_nat 7) (str_nat 8) (mirror_target True) (fake_cred ''fake'') (snapshot_of [])
      [(''t#0'', Some ''u1'')] ''j1'' mirror_engine = (Inr sn, t) \<and>
     dict_get (db_runs (st_db mirror_engine)) (str_nat 7) = Some r \<and>
     target_uri_sequence (Some sn) = desired_uris (entries (run_source_snapshot r)) [(''t#0'', Some ''u1'')]"
proof -
  let ?m = "[(''t#0'', Some ''u1'')] :: mappings"
  have after: "target_uri_sequence (Some (build_playlist_snapshot (new_playlist i n
       [sample_track\<lparr>trk_provider_uris := [(''fake'', ''u1'')]\<rparr>]) ''fake'')) = [''u1'']" for i n
    by (simp add: target_uri_sequence_def entries_def build_playlist_snapshot_def new_playlist_def sample_track_def
        new_track_def is_migratable_def Let_def)
  have none: "missing_tokens [mirror_entry] ?m = []" by (simp add: missing_tokens_def mirror_entry_def)
  have before: "target_uri_sequence (Some (snapshot_of [])) = []"
    by (simp add: snapshot_of_def target_uri_sequence_def entries_def)
  have "rule_target_provider sample_rule = ''fake''" by (simp add: sample_rule_def)
  note facts = mirror_engine_facts mirror_engine_ok this none before after desired_mirror
  have rep: "ad_replace_tracks (mirror_target True) = Some (\<lambda>cred p uris. ret ())"
    and rd: "ad_read_playlist (mirror_target True) = (\<lambda>cred ref. ret (new_playlist (Some (ref_id ref)) (ref_name ref)
       [sample_track\<lparr>trk_provider_uris := [(''fake'', ''u1'')]\<rparr>]))"
    by (simp_all add: mirror_target_def)
  obtain sn t where o: "apply_mirror sample_env (str_nat 7) (str_nat 8) (mirror_target True) (fake_cred ''fake'') (snapshot_of [])
      ?m ''j1'' mirror_engine = (Inr sn, t)"
    by (simp add: apply_mirror_def mirror_target_facts rep run_and_rule_def run_simps facts replace_target_def add_ledger_def
        check_replaced_def mark_ledger_def read_side_def rd Let_def)
  from mirror_matches [OF o] mirror_engine_facts(1) o show ?thesis by force
qed

section \<open>The scheduler forgets no run\<close>

definition on_queue :: "sync_run \<Rightarrow> 'w engine \<Rightarrow> bool" where
  "on_queue r s \<longleftrightarrow> (''run_sync'', run_id r, run_queue_job_id r) \<in> set (st_queue s)"

text \<open>Every queued run of the session is on the queue, or is one of those the scheduler just created.\<close>

definition covered :: "sync_run list \<Rightarrow> 'w engine \<Rightarrow> bool" where
  "covered created s \<longleftrightarrow>
     (\<forall>r \<in> set (rows (db_runs (st_work s))). run_status r = ''queued'' \<longrightarrow> on_queue r s \<or> r \<in> set created)"

lemma enqueue_each:
  "for_each rs (\<lambda>r. enqueue f (g r) (h r)) s = (Inr (), s\<lparr>st_queue := st_queue s @ map (\<lambda>r. (f, g r, h r)) rs\<rparr>)"
  by (induction rs arbitrary: s) (simp_all add: run_simps)

lemma rows_dict_set: "set (rows (dict_set i x t)) \<subseteq> insert x (set (rows t))"
  using set_dict_set [of i x t] by (force simp: rows_def)

lemma create_queued_run_rows:
  assumes "create_queued_run env rule trigger now s = (out, t)"
  shows "st_queue t = st_queue s \<and> (case out of
      Inr r \<Rightarrow> set (rows (db_runs (st_work t))) \<subseteq> insert r (set (rows (db_runs (st_work s))))
    | Inl (SyncAlreadyRunning i) \<Rightarrow> st_work t = st_work s | Inl e \<Rightarrow> True)"
proof (cases "dict_get (db_rules (st_work s)) rule")
  case None
  with assms show ?thesis by (auto simp: create_queued_run_def run_simps)
next
  case (Some r)
  show ?thesis
  proof (cases "active_runs_of rule (st_work s) = []")
    case True
    let ?run = "new_run (env_uuid env (st_drawn s)) (rule_id r) trigger (env_uuid env (Suc (st_drawn s))) (st_clock s)"
    from True Some assms have "(out = Inr ?run \<or> out = Inl IntegrityError) \<and> st_queue t = st_queue s \<and>
        db_runs (st_work t) = dict_set (env_uuid env (st_drawn s)) ?run (db_runs (st_work s))"
      by (auto simp: create_queued_run_def run_simps edit_rule_def Let_def split: if_splits)
    then show ?thesis using rows_dict_set [of "env_uuid env (st_drawn s)" ?run "db_runs (st_work s)"] by auto
  next
    case False
    with Some assms show ?thesis by (auto simp: create_queued_run_def run_simps)
  qed
qed

lemma queue_due_covered:
  assumes "queue_due env now created rule s = (Inr created', t)" and "covered created s"
  shows "covered created' t"
proof -
  obtain got u where got: "create_queued_run env (rule_id rule) ''scheduled'' now s = (got, u)" by force
  note rows = create_queued_run_rows [OF got]
  show ?thesis
  proof (cases got)
    case (Inr r)
    with assms(1) got have "created' = created @ [r]" "u = t" by (auto simp: queue_due_def run_simps)
    with Inr rows assms(2) show ?thesis by (auto simp: covered_def on_queue_def)
  next
    case (Inl e)
    with assms(1) got obtain i where e: "e = SyncAlreadyRunning i" by (cases e) (simp_all add: queue_due_def run_simps)
    with Inl assms(1) got have "created' = created" "u = t" by (simp_all add: queue_due_def run_simps)
    with Inl e rows assms(2) show ?thesis by (simp add: covered_def on_queue_def)
  qed
qed

lemma queue_all_covered:
  "fold_each rules created (queue_due env now) s = (Inr created', t) \<Longrightarrow> covered created s \<Longrightarrow> covered created' t"
proof (induction rules arbitrary: created s)
  case (Cons r rules)
  from Cons.prems(1) obtain c u where "queue_due env now created r s = (Inr c, u)" "fold_each rules c (queue_due env now) u = (Inr created', t)"
    by (auto simp: ok_simps)
  with Cons.IH Cons.prems(2) queue_due_covered show ?case by blast
qed (simp add: ok_simps)

text \<open>
  C28. When the scheduler has run, every run that is queued in the database has been handed to the
  queue: those it found, also the ones a lost worker left behind, and those it made for the rules
  that are due.
\<close>

theorem scheduler_forgets_none:
  assumes "schedule_syncs env redis s = (Inr (), t)"
  shows "\<forall>r \<in> set (rows (db_runs (st_db t))). run_status r = ''queued'' \<longrightarrow>
     (''run_sync'', run_id r, run_queue_job_id r) \<in> set (st_queue t)"
proof -
  from assms have redis: redis by (cases redis) (auto simp: schedule_syncs_def enqueue_runs_def ok_simps)
  let ?q = "\<lambda>d. map (\<lambda>r. (''run_sync'', run_id r, run_queue_job_id r)) (queued_runs d)"
  let ?f = "\<lambda>d. map (\<lambda>r. (''finalize_sync_review'', run_id r, ''sync-review:'' @ run_id r)) (resolved_review_runs d)"
  from assms obtain n u0 where rec: "recover_stale_runs env (st_clock s) (s\<lparr>st_work := st_db s\<rparr>) = (Inr n, u0)"
    by (auto simp: schedule_syncs_def ok_simps)
  define u where "u = u0\<lparr>st_queue := (st_queue u0 @ ?q (st_db u0)) @ ?f (st_db u0), st_work := st_db u0\<rparr>"
  from assms rec redis obtain created v where
      fold: "fold_each (due_rules env (st_clock s) (st_work u)) [] (queue_due env (st_clock s)) u = (Inr created, v)"
    and fin: "t = v\<lparr>st_db := st_work v, st_queue := st_queue v @ map (\<lambda>r. (''run_sync'', run_id r, run_queue_job_id r)) created\<rparr>"
  proof -
    obtain got v where f: "fold_each (due_rules env (st_clock s) (st_work u)) [] (queue_due env (st_clock s)) u = (got, v)" by force
    from assms rec redis f show thesis
      by (cases got; cases "constraints_ok (st_work v)")
        (auto intro!: that simp: schedule_syncs_def enqueue_runs_def enqueue_review_finalizers_def enqueue_each run_simps u_def)
  qed
  have cov: "covered [] u"
    by (auto simp: u_def covered_def on_queue_def queued_runs_def order_runs_def select_rows_def)
  from queue_all_covered [OF fold cov] fin show ?thesis by (auto simp: covered_def on_queue_def)
qed

theorem scheduler_forgets_none_witness:
  "\<exists>t. schedule_syncs sample_env True (sync_engine ''queued'') = (Inr (), t) \<and>
     (\<forall>r \<in> set (rows (db_runs (st_db t))). run_status r = ''queued'' \<longrightarrow>
       (''run_sync'', run_id r, run_queue_job_id r) \<in> set (st_queue t))"
proof -
  let ?s = "sync_engine ''queued''"
  have runs: "select_rows p [(str_nat 7, sample_run ''queued'')] = (if p (sample_run ''queued'') then [sample_run ''queued''] else [])" for p
    by simp
  have rec: "recover_stale_runs sample_env 1000 (?s\<lparr>st_work := sync_db ''queued''\<rparr>) = (Inr 0, ?s\<lparr>st_work := sync_db ''queued''\<rparr>)"
    by (simp add: recover_stale_runs_def run_simps active_run_def last_sign_of_life_def sample_run_def new_run_def
        sample_env_def sample_settings_def)
  have due: "due_rules sample_env 1000 (sync_db ''queued'') = [sample_rule]"
    by (simp add: due_rules_def rule_due_def sample_rule_def sample_env_def sample_settings_def)
  have active: "active_runs_of ''r1'' (sync_db ''queued'') \<noteq> []"
    by (simp add: active_runs_of_def active_run_def)
  have rule: "dict_get (db_rules (sync_db ''queued'')) ''r1'' = Some sample_rule" "rule_id sample_rule = ''r1''"
    by (simp_all add: sample_rule_def)
  have ok: "constraints_ok (sync_db ''queued'')" by (simp add: constraints_ok_jobs_accounts)
  obtain t where "schedule_syncs sample_env True ?s = (Inr (), t)"
    by (simp add: schedule_syncs_def run_simps rec enqueue_runs_def enqueue_review_finalizers_def enqueue_each due
        queue_due_def create_queued_run_busy active rule ok)
  with scheduler_forgets_none [OF this] show ?thesis by blast
qed

end
