(* ===== verification/Organizer.thy ===== *)
theory Organizer
  imports Database Matching Fake_Provider
begin

text \<open>
  The library organizer: which clean-up a provider allows (\<open>app/core/organizer.py\<close>) and the
  preflight that resolves a selection of playlists and songs into concrete, confirmable items
  (\<open>app/core/organizer_service.py\<close>). A ratio is an exact rational.
\<close>

section \<open>Intents, actions and selections\<close>

datatype organizer_intent = INTENT_REMOVE | INTENT_DELETE | INTENT_REMOVE_TRACKS

datatype organizer_action = DO_UNFOLLOW_PLAYLIST | DO_DELETE_PLAYLIST | DO_REMOVE_TRACKS

fun action_value :: "organizer_action \<Rightarrow> string" where
  "action_value DO_UNFOLLOW_PLAYLIST = ''unfollow_playlist''"
| "action_value DO_DELETE_PLAYLIST = ''delete_playlist''"
| "action_value DO_REMOVE_TRACKS = ''remove_tracks''"

definition action_of_value :: "string \<Rightarrow> exn + organizer_action" where
  "action_of_value s =
     (case find (\<lambda>a. action_value a = s) [DO_UNFOLLOW_PLAYLIST, DO_DELETE_PLAYLIST, DO_REMOVE_TRACKS] of
        Some a \<Rightarrow> Inr a
      | None \<Rightarrow> Inl (ValueError (repr_str s @ '' is not a valid OrganizerAction'')))"

record playlist_action_selection =
  pas_playlist_id :: string
  pas_intent :: organizer_intent

record track_selection =
  ts_position :: int
  ts_source_item_id :: "string option"

record playlist_track_selection =
  pts_playlist_id :: string
  pts_tracks :: "track_selection list"

record organizer_selection =
  os_playlist_actions :: "playlist_action_selection list"
  os_track_removals :: "playlist_track_selection list"

record resolved_item =
  ri_playlist :: playlist_ref
  ri_action :: organizer_action
  ri_destructive :: bool
  ri_recovery :: string
  ri_selected_track_count :: nat
  ri_request :: organizer_request

record unsupported_item =
  ui_playlist_id :: string
  ui_playlist_name :: string
  ui_intent :: organizer_intent
  ui_reason :: string

record organizer_resolution =
  rs_items :: "resolved_item list"
  rs_unsupported :: "unsupported_item list"
  rs_confirmation_phrase :: "string option"

definition resolve_playlist_action ::
  "organizer_intent \<Rightarrow> capability_descriptor \<Rightarrow> playlist_ref \<Rightarrow> organizer_action option"
where
  "resolve_playlist_action intent caps p =
     (if ref_kind p = LIKED_TRACKS then None
      else case intent of
        INTENT_REMOVE \<Rightarrow> if can caps UNFOLLOW_PLAYLIST then Some DO_UNFOLLOW_PLAYLIST else None
      | INTENT_DELETE \<Rightarrow>
          if can caps DELETE_PLAYLIST \<and> ref_is_owned p = Some True then Some DO_DELETE_PLAYLIST else None
      | INTENT_REMOVE_TRACKS \<Rightarrow>
          if can caps REMOVE_TRACKS \<and> (ref_is_owned p = Some True \<or> ref_collaborative p = Some True)
          then Some DO_REMOVE_TRACKS else None)"

definition plural :: "nat \<Rightarrow> string \<Rightarrow> string" where
  "plural n noun = (if n = 1 then noun else noun @ ''S'')"

definition confirmation_phrase :: "nat \<Rightarrow> nat \<Rightarrow> string option" where
  "confirmation_phrase deletes removed =
     (let parts =
        (if deletes \<noteq> 0 then [''DELETE '' @ str_nat deletes @ '' '' @ plural deletes ''PLAYLIST''] else []) @
        (if removed \<noteq> 0 then [''REMOVE '' @ str_nat removed @ '' '' @ plural removed ''SONG''] else [])
      in none_if_empty (join '' AND '' parts))"

section \<open>Names and sequences\<close>

text \<open>The compatibility decomposition of a Latin-1 character without what is not ASCII.\<close>

definition ascii_fold :: "char \<Rightarrow> string" where
  "ascii_fold c =
     (let n = of_char c :: nat in
      if n < 128 then [c]
      else if n \<in> {160, 168, 175, 180, 184} then '' ''
      else if n = 178 then ''2'' else if n = 179 then ''3'' else if n = 185 then ''1''
      else if n = 188 then ''14'' else if n = 189 then ''12'' else if n = 190 then ''34''
      else if n = 170 then ''a'' else if n = 186 then ''o''
      else if 192 \<le> n \<and> n \<le> 197 then ''A'' else if n = 199 then ''C''
      else if 200 \<le> n \<and> n \<le> 203 then ''E'' else if 204 \<le> n \<and> n \<le> 207 then ''I''
      else if n = 209 then ''N'' else if 210 \<le> n \<and> n \<le> 214 then ''O''
      else if 217 \<le> n \<and> n \<le> 220 then ''U'' else if n = 221 then ''Y''
      else if 224 \<le> n \<and> n \<le> 229 then ''a'' else if n = 231 then ''c''
      else if 232 \<le> n \<and> n \<le> 235 then ''e'' else if 236 \<le> n \<and> n \<le> 239 then ''i''
      else if n = 241 then ''n'' else if 242 \<le> n \<and> n \<le> 246 then ''o''
      else if 249 \<le> n \<and> n \<le> 252 then ''u'' else if n = 253 \<or> n = 255 then ''y''
      else [])"

definition normalize_playlist_name :: "string \<Rightarrow> string" where
  "normalize_playlist_name s = tidy (casefold (concat (map ascii_fold s)))"

definition track_token :: "track \<Rightarrow> string" where
  "track_token t =
     (let uris = filter (\<lambda>u. u \<noteq> []) (map snd (sort_members (trk_provider_uris t))) in
      if uris \<noteq> [] then ''uri:'' @ hd uris
      else if truthy (trk_id t) then ''id:'' @ the (trk_id t)
      else ''meta:'' @ join ''|''
        [normalize_playlist_name (trk_title t), normalize_playlist_name (trk_artist t),
         normalize_playlist_name (or_str (trk_album t) []),
         (case trk_duration_s t of None \<Rightarrow> [] | Some n \<Rightarrow> if n = 0 then [] else str_int n)])"

definition playlist_sequence_hash :: "track list \<Rightarrow> string" where
  "playlist_sequence_hash ts = sha256_hex (dumps False (JList (map (\<lambda>t. JStr (track_token t)) ts)))"

section \<open>Duplicates\<close>

record duplicate_candidate =
  dup_playlist_ids :: "string \<times> string"
  dup_playlist_names :: "string \<times> string"
  dup_normalized_name :: string
  dup_overlap_count :: nat
  dup_overlap_ratio :: rat
  dup_reasons :: "string list"

text \<open>Whether the owners agree, and what to say when one of them is not known.\<close>

definition owners_agree :: "bool \<Rightarrow> playlist \<Rightarrow> playlist \<Rightarrow> bool" where
  "owners_agree unknown l r =
     (if truthy (pl_owner_id l) \<and> truthy (pl_owner_id r) then pl_owner_id l = pl_owner_id r
      else if truthy (pl_owner_name l) \<and> truthy (pl_owner_name r)
      then normalize_playlist_name (the (pl_owner_name l)) = normalize_playlist_name (the (pl_owner_name r))
      else unknown)"

definition owners_compatible :: "playlist \<Rightarrow> playlist \<Rightarrow> bool" where
  "owners_compatible = owners_agree True"

definition same_known_owner :: "playlist \<Rightarrow> playlist \<Rightarrow> bool" where
  "same_known_owner = owners_agree False"

definition token_set :: "playlist \<Rightarrow> string list" where
  "token_set p = remdups (map track_token (pl_tracks p))"

definition compare_playlists :: "string \<Rightarrow> playlist \<Rightarrow> playlist \<Rightarrow> duplicate_candidate option" where
  "compare_playlists name l r =
     (let ls = token_set l; rs = token_set r; n = length (filter (\<lambda>t. t \<in> set rs) ls);
          ratio = of_nat n / of_nat (min (length ls) (length rs))
      in if \<not> owners_compatible l r \<or> ls = [] \<or> rs = [] \<or> ratio < 1 / 2 then None
         else Some \<lparr>dup_playlist_ids = (or_str (pl_id l) [], or_str (pl_id r) []),
                dup_playlist_names = (pl_name l, pl_name r), dup_normalized_name = name,
                dup_overlap_count = n, dup_overlap_ratio = round4 ratio,
                dup_reasons = [''normalized name''] @ (if same_known_owner l r then [''same owner''] else []) @
                  [str_nat n @ '' overlapping tracks'']\<rparr>)"

fun group_candidates :: "string \<Rightarrow> playlist list \<Rightarrow> duplicate_candidate list" where
  "group_candidates name [] = []"
| "group_candidates name (l # rest) =
     List.map_filter (compare_playlists name l) rest @ group_candidates name rest"

definition group_by_name :: "('p \<Rightarrow> string) \<Rightarrow> 'p list \<Rightarrow> (string, 'p list) dict" where
  "group_by_name name ps = fold (\<lambda>p d. dict_append (normalize_playlist_name (name p)) p d) ps []"

definition detect_duplicate_candidates :: "playlist list \<Rightarrow> duplicate_candidate list" where
  "detect_duplicate_candidates ps =
     concat (map (\<lambda>(name, group). if name = [] \<or> length group < 2 then [] else group_candidates name group)
       (group_by_name pl_name (filter (\<lambda>p. truthy (pl_id p)) ps)))"

definition find_duplicate_candidates ::
  "'w adapter \<Rightarrow> credential \<Rightarrow> ('w, exn, duplicate_candidate list) proc"
where
  "find_duplicate_candidates a cred =
     andthen (collect (ad_iter_playlists a cred)) (\<lambda>refs.
     let names = group_by_name ref_name (filter (\<lambda>r. normalize_playlist_name (ref_name r) \<noteq> []) refs);
         chosen = concat (map (\<lambda>(n, g). if 1 < length g then g else []) names)
     in andthen (fold_each chosen [] (\<lambda>ps r.
          andthen (ad_read_playlist a cred r) (\<lambda>p. ret (ps @ [p])))) (\<lambda>details.
        ret (detect_duplicate_candidates details)))"

section \<open>Preflight\<close>

definition duplicated :: "'a list \<Rightarrow> bool" where
  "duplicated xs = (\<not> distinct xs)"

definition validate_selection :: "organizer_selection \<Rightarrow> exn + unit" where
  "validate_selection sel =
     (let acts = map pas_playlist_id (os_playlist_actions sel);
          rems = map pts_playlist_id (os_track_removals sel);
          both = filter (\<lambda>i. i \<in> set rems) acts
      in if acts = [] \<and> rems = [] then Inl (ValueError ''Select at least one playlist or song'')
         else if duplicated acts then Inl (ValueError ''A playlist can only have one playlist-level action'')
         else if duplicated rems then Inl (ValueError ''A playlist can only have one song-removal selection'')
         else if both \<noteq> []
         then Inl (ValueError (''Playlist '' @ [char_of (39::nat)] @ hd (sort both) @ [char_of (39::nat)] @
                '' cannot be removed and edited in the same job''))
         else Inr ())"

definition require_ref :: "(string, playlist_ref) dict \<Rightarrow> string \<Rightarrow> exn + playlist_ref" where
  "require_ref refs i =
     (case dict_get refs i of
        Some r \<Rightarrow> Inr r
      | None \<Rightarrow> Inl (ValueError (''Playlist '' @ [char_of (39::nat)] @ i @ [char_of (39::nat)] @
          '' is no longer in this account'')))"

text \<open>The bookkeeping of a listing (migration progress) is not carried over; the rest is refreshed.\<close>

definition ref_from_detail :: "playlist \<Rightarrow> playlist_ref \<Rightarrow> playlist_ref" where
  "ref_from_detail p r = (new_ref (or_str (pl_id p) (ref_id r)) (if pl_name p = [] then ref_name r else pl_name p))
     \<lparr>ref_track_count := Some (int (length (pl_tracks p))),
      ref_owner_id := or_else (pl_owner_id p) (ref_owner_id r),
      ref_owner_name := or_else (pl_owner_name p) (ref_owner_name r),
      ref_is_owned := if_none (pl_is_owned p) (ref_is_owned r),
      ref_is_followed := if_none (pl_is_followed p) (ref_is_followed r),
      ref_collaborative := if_none (pl_collaborative p) (ref_collaborative r),
      ref_snapshot_id := or_else (pl_snapshot_id p) (ref_snapshot_id r),
      ref_tracks_href := ref_tracks_href r,
      ref_created_at := if_none (pl_created_at p) (ref_created_at r),
      ref_updated_at := if_none (pl_updated_at p) (ref_updated_at r),
      ref_kind := pl_kind p\<rparr>"

definition song_error :: "int \<Rightarrow> string \<Rightarrow> exn + 'a" where
  "song_error pos what = Inl (ValueError (''Song position '' @ str_int pos @ what))"

text \<open>Positions are looked up in a dictionary of the tracks: the last track of a position counts.\<close>

definition track_at :: "playlist \<Rightarrow> int \<Rightarrow> track option" where
  "track_at p pos = find (\<lambda>t. trk_position t = Some pos) (rev (pl_tracks p))"

definition select_track :: "string \<Rightarrow> playlist \<Rightarrow> track_selection \<Rightarrow> exn + track_removal" where
  "select_track provider p s =
     (case track_at p (ts_position s) of
        None \<Rightarrow> song_error (ts_position s) '' is no longer in the playlist''
      | Some t \<Rightarrow>
          if truthy (ts_source_item_id s) \<and> ts_source_item_id s \<noteq> trk_source_item_id t
          then song_error (ts_position s) '' changed; refresh the playlist before retrying''
          else if \<not> truthy (dict_get (trk_provider_uris t) provider)
          then song_error (ts_position s) ('' has no '' @ provider @ '' item identifier'')
          else if provider = ''ytmusic'' \<and>
              \<not> (case dict_get (trk_metadata t) ''ytmusic_set_video_id'' of None \<Rightarrow> False | Some v \<Rightarrow> json_truthy v)
          then song_error (ts_position s) '' lacks a YouTube Music setVideoId''
          else Inr \<lparr>rm_source_item_id = trk_source_item_id t,
                 rm_provider_uri = the (dict_get (trk_provider_uris t) provider), rm_position = ts_position s\<rparr>)"

fun select_tracks :: "string \<Rightarrow> playlist \<Rightarrow> int list \<Rightarrow> track_selection list \<Rightarrow> exn + track_removal list" where
  "select_tracks provider p seen [] = Inr []"
| "select_tracks provider p seen (s # ss) =
     (if ts_position s \<in> set seen then song_error (ts_position s) '' was selected more than once''
      else case select_track provider p s of
        Inl e \<Rightarrow> Inl e
      | Inr r \<Rightarrow>
          (case select_tracks provider p (ts_position s # seen) ss of Inl e \<Rightarrow> Inl e | Inr rs \<Rightarrow> Inr (r # rs)))"

definition selected_tracks :: "string \<Rightarrow> playlist \<Rightarrow> track_selection list \<Rightarrow> exn + track_removal list" where
  "selected_tracks provider p ss =
     (case select_tracks provider p [] ss of
        Inl e \<Rightarrow> Inl e
      | Inr [] \<Rightarrow> Inl (ValueError (''Select at least one song from '' @ [char_of (39::nat)] @ pl_name p @ [char_of (39::nat)]))
      | Inr rs \<Rightarrow> Inr rs)"

definition unsupported_reason :: "provider_info \<Rightarrow> organizer_intent \<Rightarrow> playlist_ref \<Rightarrow> string" where
  "unsupported_reason i intent p =
     (let name = inf_display_name i; caps = inf_capabilities i in
      case intent of
        INTENT_REMOVE \<Rightarrow>
          if can caps DELETE_PLAYLIST
          then name @ '' has no verified safe remove operation; permanent deletion must be selected explicitly''
          else name @ '' cannot remove playlists through its current API''
      | INTENT_DELETE \<Rightarrow>
          if \<not> can caps DELETE_PLAYLIST then name @ '' does not support permanent playlist deletion''
          else name @ '' playlist ownership could not be confirmed''
      | INTENT_REMOVE_TRACKS \<Rightarrow>
          if \<not> can caps REMOVE_TRACKS then name @ '' does not support exact song removal''
          else if ref_collaborative p \<noteq> Some True then name @ '' playlist ownership could not be confirmed''
          else name @ '' cannot remove the selected songs'')"

definition recovery_text :: "provider_info \<Rightarrow> organizer_action \<Rightarrow> string" where
  "recovery_text i act =
     (let name = inf_display_name i in
      case act of
        DO_UNFOLLOW_PLAYLIST \<Rightarrow> ''Removes the playlist from your '' @ name @
          '' library without deleting its provider-side contents. You can follow it again if it remains available.''
      | DO_DELETE_PLAYLIST \<Rightarrow> ''Permanently deletes the owned playlist from '' @ name @
          ''. Open Playlist Engine cannot restore it.''
      | DO_REMOVE_TRACKS \<Rightarrow> ''Removes only the selected playlist entries from '' @ name @
          ''. Re-add them manually if you need to recover them.'')"

text \<open>What preflight carries: the playlists read so far, the items and what is not supported.\<close>

record preflight_state =
  pf_details :: "(string, playlist) dict"
  pf_items :: "resolved_item list"
  pf_unsupported :: "unsupported_item list"

definition read_detail ::
  "'w adapter \<Rightarrow> credential \<Rightarrow> playlist_ref \<Rightarrow> preflight_state \<Rightarrow> ('w, exn, playlist \<times> preflight_state) proc"
where
  "read_detail a cred r pf =
     (case dict_get (pf_details pf) (ref_id r) of
        Some p \<Rightarrow> ret (p, pf)
      | None \<Rightarrow> andthen (ad_read_playlist a cred r) (\<lambda>p.
          ret (p, pf\<lparr>pf_details := dict_set (ref_id r) p (pf_details pf)\<rparr>)))"

definition refuse :: "'w adapter \<Rightarrow> playlist_ref \<Rightarrow> organizer_intent \<Rightarrow> playlist_ref \<Rightarrow> preflight_state \<Rightarrow> preflight_state" where
  "refuse a r intent resolved pf = pf\<lparr>pf_unsupported := pf_unsupported pf @
     [\<lparr>ui_playlist_id = ref_id r, ui_playlist_name = ref_name r, ui_intent = intent,
       ui_reason = unsupported_reason (ad_info a) intent resolved\<rparr>]\<rparr>"

definition whole_request :: "playlist_ref \<Rightarrow> organizer_request" where
  "whole_request r = \<lparr>orq_playlist = r, orq_tracks = [], orq_baseline_hash = None, orq_expected_hash = None\<rparr>"

definition resolve_action ::
  "'w adapter \<Rightarrow> credential \<Rightarrow> (string, playlist_ref) dict \<Rightarrow> preflight_state \<Rightarrow> playlist_action_selection \<Rightarrow>
     ('w, exn, preflight_state) proc"
where
  "resolve_action a cred refs pf sel =
     (case require_ref refs (pas_playlist_id sel) of
        Inl e \<Rightarrow> throw e
      | Inr r \<Rightarrow>
          andthen
            (if pas_intent sel = INTENT_DELETE \<and> ref_is_owned r \<noteq> Some True
             then andthen (read_detail a cred r pf) (\<lambda>(p, pf). ret (ref_from_detail p r, pf))
             else ret (r, pf)) (\<lambda>(resolved, pf).
          case resolve_playlist_action (pas_intent sel) (inf_capabilities (ad_info a)) resolved of
            None \<Rightarrow> ret (refuse a r (pas_intent sel) resolved pf)
          | Some act \<Rightarrow> ret (pf\<lparr>pf_items := pf_items pf @
              [\<lparr>ri_playlist = resolved, ri_action = act, ri_destructive = (act = DO_DELETE_PLAYLIST),
                ri_recovery = recovery_text (ad_info a) act, ri_selected_track_count = 0,
                ri_request = whole_request resolved\<rparr>]\<rparr>)))"

definition too_many_songs :: "provider_info \<Rightarrow> exn" where
  "too_many_songs i = ValueError (inf_display_name i @ '' can remove at most '' @
     str_int (cap_max_remove_batch (inf_capabilities i)) @ '' selected songs per job'')"

text \<open>Only Spotify removals are guarded by the sequence of the playlist before and after them.\<close>

definition removal_request ::
  "'w adapter \<Rightarrow> playlist_ref \<Rightarrow> playlist \<Rightarrow> track_removal list \<Rightarrow> exn + organizer_request"
where
  "removal_request a resolved p removals =
     (let req = (whole_request resolved)\<lparr>orq_tracks := removals\<rparr> in
      if inf_name (ad_info a) \<noteq> ''spotify'' then Inr req
      else if \<not> truthy (ref_snapshot_id resolved)
      then Inl (ValueError ''Spotify track removal requires a current playlist snapshot'')
      else
        let left = filter (\<lambda>t. trk_position t \<notin> Some ` set (map rm_position removals)) (pl_tracks p)
        in Inr (req\<lparr>orq_baseline_hash := Some (playlist_sequence_hash (pl_tracks p)),
                   orq_expected_hash := Some (playlist_sequence_hash left)\<rparr>))"

definition resolve_removal ::
  "'w adapter \<Rightarrow> credential \<Rightarrow> (string, playlist_ref) dict \<Rightarrow> preflight_state \<Rightarrow> playlist_track_selection \<Rightarrow>
     ('w, exn, preflight_state) proc"
where
  "resolve_removal a cred refs pf sel =
     (case require_ref refs (pts_playlist_id sel) of
        Inl e \<Rightarrow> throw e
      | Inr r \<Rightarrow>
          andthen (read_detail a cred r pf) (\<lambda>(p, pf).
          let resolved = ref_from_detail p r in
          case resolve_playlist_action INTENT_REMOVE_TRACKS (inf_capabilities (ad_info a)) resolved of
            None \<Rightarrow> ret (refuse a r INTENT_REMOVE_TRACKS resolved pf)
          | Some act \<Rightarrow>
              (case selected_tracks (inf_name (ad_info a)) p (pts_tracks sel) of
                 Inl e \<Rightarrow> throw e
               | Inr removals \<Rightarrow>
                   if cap_max_remove_batch (inf_capabilities (ad_info a)) < int (length removals)
                   then throw (too_many_songs (ad_info a))
                   else (case removal_request a resolved p removals of
                     Inl e \<Rightarrow> throw e
                   | Inr req \<Rightarrow> ret (pf\<lparr>pf_items := pf_items pf @
                       [\<lparr>ri_playlist = resolved, ri_action = DO_REMOVE_TRACKS, ri_destructive = True,
                         ri_recovery = recovery_text (ad_info a) DO_REMOVE_TRACKS,
                         ri_selected_track_count = length removals, ri_request = req\<rparr>]\<rparr>)))))"

definition resolve_organizer_selection ::
  "'w adapter \<Rightarrow> credential \<Rightarrow> organizer_selection \<Rightarrow> ('w, exn, organizer_resolution) proc"
where
  "resolve_organizer_selection a cred sel =
     (case validate_selection sel of
        Inl e \<Rightarrow> throw e
      | Inr _ \<Rightarrow>
          andthen (collect (ad_iter_playlists a cred)) (\<lambda>listed.
          let refs = fold (\<lambda>r. dict_set (ref_id r) r) listed [];
              start = \<lparr>pf_details = [], pf_items = [], pf_unsupported = []\<rparr>
          in
          andthen (fold_each (os_playlist_actions sel) start (resolve_action a cred refs)) (\<lambda>pf.
          andthen (fold_each (os_track_removals sel) pf (resolve_removal a cred refs)) (\<lambda>pf.
          let items = pf_items pf in
          ret \<lparr>rs_items = items, rs_unsupported = pf_unsupported pf,
               rs_confirmation_phrase = confirmation_phrase
                 (length (filter (\<lambda>i. ri_action i = DO_DELETE_PLAYLIST) items))
                 (sum_list (map ri_selected_track_count items))\<rparr>))))"

section \<open>What a preflight promises\<close>

text \<open>What a selection asks for: intents on playlists, and the positions of songs to remove.\<close>

type_synonym organizer_wish = "organizer_intent \<times> string \<times> int list"

definition wishes_of :: "organizer_selection \<Rightarrow> organizer_wish list" where
  "wishes_of sel = map (\<lambda>s. (pas_intent s, pas_playlist_id s, [])) (os_playlist_actions sel) @
     map (\<lambda>s. (INTENT_REMOVE_TRACKS, pts_playlist_id s, map ts_position (pts_tracks s))) (os_track_removals sel)"

text \<open>
  What a provider allows: never anything on the liked tracks; to unfollow where it can, to delete only
  what the account owns, to remove songs only from what it owns or edits together with others.
\<close>

fun action_for :: "organizer_intent \<Rightarrow> organizer_action" where
  "action_for INTENT_REMOVE = DO_UNFOLLOW_PLAYLIST"
| "action_for INTENT_DELETE = DO_DELETE_PLAYLIST"
| "action_for INTENT_REMOVE_TRACKS = DO_REMOVE_TRACKS"

fun allowed :: "organizer_intent \<Rightarrow> capability_descriptor \<Rightarrow> playlist_ref \<Rightarrow> bool" where
  "allowed INTENT_REMOVE caps r \<longleftrightarrow> ref_kind r \<noteq> LIKED_TRACKS \<and> can caps UNFOLLOW_PLAYLIST"
| "allowed INTENT_DELETE caps r \<longleftrightarrow> ref_kind r \<noteq> LIKED_TRACKS \<and> can caps DELETE_PLAYLIST \<and> ref_is_owned r = Some True"
| "allowed INTENT_REMOVE_TRACKS caps r \<longleftrightarrow> ref_kind r \<noteq> LIKED_TRACKS \<and> can caps REMOVE_TRACKS \<and>
     (ref_is_owned r = Some True \<or> ref_collaborative r = Some True)"

lemma resolved_action:
  "resolve_playlist_action intent caps r = (if allowed intent caps r then Some (action_for intent) else None)"
  by (cases intent) (simp_all add: resolve_playlist_action_def)

text \<open>The playlist i as the provider showed it: in its list, or with the details it gave for the one listed.\<close>

definition shown_as :: "'w adapter \<Rightarrow> credential \<Rightarrow> playlist_ref list \<Rightarrow> string \<Rightarrow> playlist_ref \<Rightarrow> bool" where
  "shown_as a cred listed i r \<longleftrightarrow>
     (\<exists>l \<in> set listed. ref_id l = i \<and>
        (r = l \<or> (\<exists>p u v. ad_read_playlist a cred l u = (Inr p, v) \<and> r = ref_from_detail p l)))"

text \<open>
  What a preflight answers to a wish: an item that carries out this wish on this playlist, with the
  songs at the wanted positions, allowed on the playlist as it was shown, and marked as destructive
  when it deletes or removes songs; or a refusal that names the playlist and the wish, because it is not
  allowed on the playlist as it was shown.
\<close>

definition answers ::
  "capability_descriptor \<Rightarrow> (string \<Rightarrow> playlist_ref \<Rightarrow> bool) \<Rightarrow> organizer_wish \<Rightarrow> unsupported_item + resolved_item \<Rightarrow> bool"
where
  "answers caps shown = (\<lambda>(intent, i, positions) out.
     case out of
       Inl u \<Rightarrow> ui_playlist_id u = i \<and> ui_intent u = intent \<and> (\<exists>r. shown i r \<and> \<not> allowed intent caps r)
     | Inr x \<Rightarrow> ri_action x = action_for intent \<and> shown i (ri_playlist x) \<and> allowed intent caps (ri_playlist x) \<and>
         orq_playlist (ri_request x) = ri_playlist x \<and> map rm_position (orq_tracks (ri_request x)) = positions \<and>
         ri_selected_track_count x = length positions \<and>
         (ri_destructive x \<longleftrightarrow> intent = INTENT_DELETE \<or> positions \<noteq> []))"

definition items_of :: "('u + 'i) list \<Rightarrow> 'i list" where
  "items_of outs = concat (map (case_sum (\<lambda>_. []) (\<lambda>x. [x])) outs)"

definition refusals_of :: "('u + 'i) list \<Rightarrow> 'u list" where
  "refusals_of outs = concat (map (case_sum (\<lambda>x. [x]) (\<lambda>_. [])) outs)"

lemma outcomes_append [simp]:
  "items_of (outs @ [Inr x]) = items_of outs @ [x]" "items_of (outs @ [Inl u]) = items_of outs"
  "refusals_of (outs @ [Inr x]) = refusals_of outs" "refusals_of (outs @ [Inl u]) = refusals_of outs @ [u]"
  by (simp_all add: items_of_def refusals_of_def)

text \<open>The listed playlists by their identifier; of two with the same one the last.\<close>

abbreviation refs_of :: "playlist_ref list \<Rightarrow> (string, playlist_ref) dict" where
  "refs_of listed \<equiv> fold (\<lambda>r. dict_set (ref_id r) r) listed []"

lemma refs_of_listed: "dict_get (refs_of listed) i = Some r \<Longrightarrow> r \<in> set listed \<and> ref_id r = i"
proof (induction listed rule: rev_induct)
  case (snoc x listed)
  then show ?case by (auto split: if_splits)
qed simp

text \<open>A preflight under way: it has answered some wishes, and the details it keeps were given to it.\<close>

definition details_read :: "'w adapter \<Rightarrow> credential \<Rightarrow> playlist_ref list \<Rightarrow> preflight_state \<Rightarrow> bool" where
  "details_read a cred listed pf \<longleftrightarrow>
     (\<forall>i r p. dict_get (refs_of listed) i = Some r \<longrightarrow> dict_get (pf_details pf) i = Some p \<longrightarrow>
        (\<exists>u v. ad_read_playlist a cred r u = (Inr p, v)))"

definition preflight_sound ::
  "'w adapter \<Rightarrow> credential \<Rightarrow> playlist_ref list \<Rightarrow> organizer_wish list \<Rightarrow> preflight_state \<Rightarrow> bool"
where
  "preflight_sound a cred listed wishes pf \<longleftrightarrow> details_read a cred listed pf \<and>
     (\<exists>outs. list_all2 (answers (inf_capabilities (ad_info a)) (shown_as a cred listed)) wishes outs \<and>
        pf_items pf = items_of outs \<and> pf_unsupported pf = refusals_of outs)"

lemma preflight_sound_answer:
  assumes "preflight_sound a cred listed wishes pf"
    and "answers (inf_capabilities (ad_info a)) (shown_as a cred listed) wish out"
    and "pf_details pf' = pf_details pf" and "pf_items pf' = pf_items pf @ items_of [out]"
    and "pf_unsupported pf' = pf_unsupported pf @ refusals_of [out]"
  shows "preflight_sound a cred listed (wishes @ [wish]) pf'"
proof -
  from assms(1) obtain outs where "list_all2 (answers (inf_capabilities (ad_info a)) (shown_as a cred listed)) wishes outs"
    "pf_items pf = items_of outs" "pf_unsupported pf = refusals_of outs"
    by (auto simp: preflight_sound_def)
  with assms show ?thesis
    unfolding preflight_sound_def
    by (intro conjI exI [of _ "outs @ [out]"])
      (auto simp: items_of_def refusals_of_def details_read_def intro!: list_all2_appendI)
qed

lemma read_detail_sound:
  assumes "read_detail a cred r pf w = (Inr (p, pf'), w')" and "preflight_sound a cred listed wishes pf"
    and "dict_get (refs_of listed) i = Some r"
  shows "preflight_sound a cred listed wishes pf' \<and> shown_as a cred listed i (ref_from_detail p r)"
proof -
  have r: "r \<in> set listed" "ref_id r = i" using refs_of_listed [OF assms(3)] by simp_all
  have "preflight_sound a cred listed wishes pf' \<and> (\<exists>u v. ad_read_playlist a cred r u = (Inr p, v))"
  proof (cases "dict_get (pf_details pf) (ref_id r)")
    case None
    with assms(1) have rd: "ad_read_playlist a cred r w = (Inr p, w')" and pf': "pf' = pf\<lparr>pf_details := dict_set (ref_id r) p (pf_details pf)\<rparr>"
      by (auto simp: read_detail_def ok_simps)
    have "details_read a cred listed pf'"
      using assms(2,3) rd r(2) by (auto simp: pf' preflight_sound_def details_read_def)
    with assms(2) rd show ?thesis by (auto simp: pf' preflight_sound_def)
  next
    case (Some q)
    with assms(1) have "p = q" "pf' = pf" by (simp_all add: read_detail_def ok_simps)
    with Some assms(2,3) r(2) show ?thesis by (auto simp: preflight_sound_def details_read_def)
  qed
  with r show ?thesis by (auto simp: shown_as_def)
qed

lemma listed_shown: "dict_get (refs_of listed) i = Some r \<Longrightarrow> shown_as a cred listed i r"
  using refs_of_listed [of listed i r] by (auto simp: shown_as_def)

lemma require_ref_ok: "require_ref refs i = Inr r \<longleftrightarrow> dict_get refs i = Some r"
  by (simp add: require_ref_def split: option.split)

lemma resolve_action_sound:
  assumes "resolve_action a cred (refs_of listed) pf sel w = (Inr pf', w')" and "preflight_sound a cred listed wishes pf"
  shows "preflight_sound a cred listed (wishes @ [(pas_intent sel, pas_playlist_id sel, [])]) pf'"
proof -
  let ?caps = "inf_capabilities (ad_info a)"
  from assms(1) obtain r resolved pf1 w1 where ref: "dict_get (refs_of listed) (pas_playlist_id sel) = Some r"
    and rd: "(if pas_intent sel = INTENT_DELETE \<and> ref_is_owned r \<noteq> Some True
             then andthen (read_detail a cred r pf) (\<lambda>(p, pf). ret (ref_from_detail p r, pf))
             else ret (r, pf)) w = (Inr (resolved, pf1), w1)"
    and k: "(case resolve_playlist_action (pas_intent sel) ?caps resolved of
            None \<Rightarrow> ret (refuse a r (pas_intent sel) resolved pf1)
          | Some act \<Rightarrow> ret (pf1\<lparr>pf_items := pf_items pf1 @
              [\<lparr>ri_playlist = resolved, ri_action = act, ri_destructive = (act = DO_DELETE_PLAYLIST),
                ri_recovery = recovery_text (ad_info a) act, ri_selected_track_count = 0,
                ri_request = whole_request resolved\<rparr>]\<rparr>)) w1 = (Inr pf' :: exn + preflight_state, w')"
    by (auto simp: resolve_action_def ok_andthen ok_throw require_ref_ok split: sum.splits)
  have pf1: "preflight_sound a cred listed wishes pf1 \<and> shown_as a cred listed (pas_playlist_id sel) resolved"
    using rd read_detail_sound [OF _ assms(2) ref] assms(2) listed_shown [OF ref]
    by (auto simp: ok_simps split: if_splits)
  have id: "ref_id r = pas_playlist_id sel" using refs_of_listed [OF ref] by simp
  show ?thesis
  proof (cases "allowed (pas_intent sel) ?caps resolved")
    case False
    let ?u = "\<lparr>ui_playlist_id = ref_id r, ui_playlist_name = ref_name r, ui_intent = pas_intent sel,
       ui_reason = unsupported_reason (ad_info a) (pas_intent sel) resolved\<rparr>"
    from False k have pf': "pf' = refuse a r (pas_intent sel) resolved pf1" by (simp add: resolved_action ok_simps)
    have "answers ?caps (shown_as a cred listed) (pas_intent sel, pas_playlist_id sel, []) (Inl ?u)"
      using pf1 False id by (auto simp: answers_def)
    with pf1 show ?thesis
      by (intro preflight_sound_answer [of _ _ _ _ pf1]) (auto simp: pf' refuse_def items_of_def refusals_of_def)
  next
    case True
    let ?x = "\<lparr>ri_playlist = resolved, ri_action = action_for (pas_intent sel),
       ri_destructive = (action_for (pas_intent sel) = DO_DELETE_PLAYLIST),
       ri_recovery = recovery_text (ad_info a) (action_for (pas_intent sel)), ri_selected_track_count = 0,
       ri_request = whole_request resolved\<rparr>"
    from True k have pf': "pf' = pf1\<lparr>pf_items := pf_items pf1 @ [?x]\<rparr>" by (simp add: resolved_action ok_simps)
    have "answers ?caps (shown_as a cred listed) (pas_intent sel, pas_playlist_id sel, []) (Inr ?x)"
      using pf1 True by (cases "pas_intent sel") (simp_all add: answers_def whole_request_def)
    with pf1 show ?thesis
      by (intro preflight_sound_answer [of _ _ _ _ pf1]) (auto simp: pf' items_of_def refusals_of_def)
  qed
qed

lemma removal_request_fields:
  "removal_request a resolved p removals = Inr req \<Longrightarrow> orq_playlist req = resolved \<and> orq_tracks req = removals"
  by (auto simp: removal_request_def whole_request_def Let_def split: if_splits)

lemma select_track_position: "select_track provider p s = Inr r \<Longrightarrow> rm_position r = ts_position s"
  by (auto simp: select_track_def song_error_def split: option.splits if_splits)

lemma select_tracks_positions: "select_tracks provider p seen ss = Inr rs \<Longrightarrow> map rm_position rs = map ts_position ss"
proof (induction provider p seen ss arbitrary: rs rule: select_tracks.induct)
  case (2 provider p seen s ss)
  then show ?case by (auto simp: song_error_def select_track_position split: if_splits sum.splits)
qed simp

lemma selected_tracks_positions:
  "selected_tracks provider p ss = Inr rs \<Longrightarrow> map rm_position rs = map ts_position ss \<and> rs \<noteq> []"
  by (auto simp: selected_tracks_def select_tracks_positions split: sum.splits list.splits)

lemma resolve_removal_sound:
  assumes "resolve_removal a cred (refs_of listed) pf sel w = (Inr pf', w')" and "preflight_sound a cred listed wishes pf"
  shows "preflight_sound a cred listed (wishes @ [(INTENT_REMOVE_TRACKS, pts_playlist_id sel, map ts_position (pts_tracks sel))]) pf'"
proof -
  let ?caps = "inf_capabilities (ad_info a)" and ?wish = "(INTENT_REMOVE_TRACKS, pts_playlist_id sel, map ts_position (pts_tracks sel))"
  from assms(1) obtain r p pf1 w1 where ref: "dict_get (refs_of listed) (pts_playlist_id sel) = Some r"
    and rd: "read_detail a cred r pf w = (Inr (p, pf1), w1)"
    and k: "(let resolved = ref_from_detail p r in
          case resolve_playlist_action INTENT_REMOVE_TRACKS ?caps resolved of
            None \<Rightarrow> ret (refuse a r INTENT_REMOVE_TRACKS resolved pf1)
          | Some act \<Rightarrow>
              (case selected_tracks (inf_name (ad_info a)) p (pts_tracks sel) of
                 Inl e \<Rightarrow> throw e
               | Inr removals \<Rightarrow>
                   if cap_max_remove_batch ?caps < int (length removals)
                   then throw (too_many_songs (ad_info a))
                   else (case removal_request a resolved p removals of
                     Inl e \<Rightarrow> throw e
                   | Inr req \<Rightarrow> ret (pf1\<lparr>pf_items := pf_items pf1 @
                       [\<lparr>ri_playlist = resolved, ri_action = DO_REMOVE_TRACKS, ri_destructive = True,
                         ri_recovery = recovery_text (ad_info a) DO_REMOVE_TRACKS,
                         ri_selected_track_count = length removals, ri_request = req\<rparr>]\<rparr>)))) w1 = (Inr pf', w')"
    by (auto simp: resolve_removal_def ok_andthen ok_throw require_ref_ok split: sum.splits)
  let ?resolved = "ref_from_detail p r"
  have pf1: "preflight_sound a cred listed wishes pf1" and shown: "shown_as a cred listed (pts_playlist_id sel) ?resolved"
    using read_detail_sound [OF rd assms(2) ref] by simp_all
  have id: "ref_id r = pts_playlist_id sel" using refs_of_listed [OF ref] by simp
  show ?thesis
  proof (cases "allowed INTENT_REMOVE_TRACKS ?caps ?resolved")
    case False
    let ?u = "\<lparr>ui_playlist_id = ref_id r, ui_playlist_name = ref_name r, ui_intent = INTENT_REMOVE_TRACKS,
       ui_reason = unsupported_reason (ad_info a) INTENT_REMOVE_TRACKS ?resolved\<rparr>"
    from False k have pf': "pf' = refuse a r INTENT_REMOVE_TRACKS ?resolved pf1"
      by (simp add: resolved_action ok_simps Let_def del: allowed.simps)
    have "answers ?caps (shown_as a cred listed) ?wish (Inl ?u)"
      using shown False id by (auto simp: answers_def simp del: allowed.simps)
    with pf1 show ?thesis
      by (intro preflight_sound_answer [of _ _ _ _ pf1]) (auto simp: pf' refuse_def items_of_def refusals_of_def)
  next
    case True
    with k obtain removals req where t: "selected_tracks (inf_name (ad_info a)) p (pts_tracks sel) = Inr removals"
      and q: "removal_request a ?resolved p removals = Inr req"
      and pf': "pf' = pf1\<lparr>pf_items := pf_items pf1 @ [\<lparr>ri_playlist = ?resolved, ri_action = DO_REMOVE_TRACKS, ri_destructive = True,
                 ri_recovery = recovery_text (ad_info a) DO_REMOVE_TRACKS,
                 ri_selected_track_count = length removals, ri_request = req\<rparr>]\<rparr>"
      by (auto simp: resolved_action ok_simps Let_def simp del: allowed.simps split: sum.splits if_splits)
    have n: "map rm_position removals = map ts_position (pts_tracks sel)" "removals \<noteq> []"
      using selected_tracks_positions [OF t] by simp_all
    then have "length removals = length (pts_tracks sel)" "pts_tracks sel \<noteq> []" using map_eq_imp_length_eq by fastforce+
    with n True shown removal_request_fields [OF q]
    have "answers ?caps (shown_as a cred listed) ?wish (Inr \<lparr>ri_playlist = ?resolved, ri_action = DO_REMOVE_TRACKS, ri_destructive = True,
                 ri_recovery = recovery_text (ad_info a) DO_REMOVE_TRACKS,
                 ri_selected_track_count = length removals, ri_request = req\<rparr>)"
      by (simp add: answers_def del: allowed.simps)
    with pf1 show ?thesis
      by (intro preflight_sound_answer [of _ _ _ _ pf1]) (auto simp: pf' items_of_def refusals_of_def)
  qed
qed

lemma fold_sound:
  assumes "\<And>wishes pf x w pf' w'. f pf x w = (Inr pf', w') \<Longrightarrow> preflight_sound a cred listed wishes pf \<Longrightarrow>
      preflight_sound a cred listed (wishes @ [g x]) pf'"
  shows "fold_each xs pf f w = (Inr pf', w') \<Longrightarrow> preflight_sound a cred listed wishes pf \<Longrightarrow>
    preflight_sound a cred listed (wishes @ map g xs) pf'"
proof (induction xs arbitrary: pf wishes w)
  case (Cons x xs)
  from Cons.prems(1) obtain pf1 w1 where "f pf x w = (Inr pf1, w1)" "fold_each xs pf1 f w1 = (Inr pf', w')"
    by (auto simp: ok_simps)
  with Cons.IH [OF this(2) assms [OF this(1) Cons.prems(2)]] show ?case by simp
qed (simp add: ok_simps)

lemma phrase_none: "confirmation_phrase d r = None \<longleftrightarrow> d = 0 \<and> r = 0"
  by (simp add: confirmation_phrase_def none_if_empty_def)

lemma resolution_answers:
  assumes "resolve_organizer_selection a cred sel w = (Inr res, w')"
  shows "\<exists>listed v outs. collect (ad_iter_playlists a cred) w = (Inr listed, v) \<and>
    list_all2 (answers (inf_capabilities (ad_info a)) (shown_as a cred listed)) (wishes_of sel) outs \<and>
    rs_items res = items_of outs \<and> rs_unsupported res = refusals_of outs \<and>
    rs_confirmation_phrase res = confirmation_phrase
      (length (filter (\<lambda>i. ri_action i = DO_DELETE_PLAYLIST) (rs_items res))) (sum_list (map ri_selected_track_count (rs_items res)))"
proof -
  let ?start = "\<lparr>pf_details = [], pf_items = [], pf_unsupported = []\<rparr>"
  from assms obtain listed pf1 pf2 u v x where li: "collect (ad_iter_playlists a cred) w = (Inr listed, u)"
    and f1: "fold_each (os_playlist_actions sel) ?start (resolve_action a cred (refs_of listed)) u = (Inr pf1, v)"
    and f2: "fold_each (os_track_removals sel) pf1 (resolve_removal a cred (refs_of listed)) v = (Inr pf2, x)"
    and res: "res = \<lparr>rs_items = pf_items pf2, rs_unsupported = pf_unsupported pf2,
               rs_confirmation_phrase = confirmation_phrase
                 (length (filter (\<lambda>i. ri_action i = DO_DELETE_PLAYLIST) (pf_items pf2)))
                 (sum_list (map ri_selected_track_count (pf_items pf2)))\<rparr>"
    unfolding resolve_organizer_selection_def by (auto simp: ok_simps Let_def split: sum.splits)
  have start: "preflight_sound a cred listed [] ?start"
    by (auto simp: preflight_sound_def details_read_def items_of_def refusals_of_def)
  from fold_sound [OF resolve_action_sound f1 start]
  have "preflight_sound a cred listed ([] @ map (\<lambda>s. (pas_intent s, pas_playlist_id s, [])) (os_playlist_actions sel)) pf1" .
  from fold_sound [OF resolve_removal_sound f2 this]
  have "preflight_sound a cred listed (wishes_of sel) pf2" by (simp add: wishes_of_def)
  with li res show ?thesis by (auto simp: preflight_sound_def)
qed

text \<open>A phrase has to be confirmed exactly when something would be destroyed.\<close>

lemma resolution_sound:
  assumes "resolve_organizer_selection a cred sel w = (Inr res, w')"
  shows "rs_confirmation_phrase res \<noteq> None \<longleftrightarrow> list_ex ri_destructive (rs_items res)"
proof -
  have "list_ex ri_destructive (items_of outs) \<longleftrightarrow> \<not> (filter (\<lambda>i. ri_action i = DO_DELETE_PLAYLIST) (items_of outs) = [] \<and>
      sum_list (map ri_selected_track_count (items_of outs)) = 0)" if "list_all2 (answers caps shown) wishes outs"
    for caps shown wishes and outs :: "(unsupported_item + resolved_item) list"
    using that
  proof (induction rule: list_all2_induct)
    case (Cons wish wishes out outs)
    obtain intent i ps where "wish = (intent, i, ps)" by (cases wish)
    with Cons show ?case
      by (cases out; cases intent) (auto simp: answers_def items_of_def)
  qed (simp add: items_of_def)
  note destroys = this
  from resolution_answers [OF assms] obtain outs :: "(unsupported_item + resolved_item) list" and listed where
      "list_all2 (answers (inf_capabilities (ad_info a)) (shown_as a cred listed)) (wishes_of sel) outs"
    and i: "rs_items res = items_of outs" and p: "rs_confirmation_phrase res = confirmation_phrase
      (length (filter (\<lambda>i. ri_action i = DO_DELETE_PLAYLIST) (rs_items res))) (sum_list (map ri_selected_track_count (rs_items res)))"
    by blast
  from destroys [OF this(1)] show ?thesis unfolding p phrase_none i by simp
qed

text \<open>
  C26. A preflight answers every wish of the selection, in order, each by one item or one refusal, and
  has no other. An item carries out its wish: the action, the playlist and the positions are those asked
  for, and the provider allows it on the playlist as it was shown for this preflight, in its list or
  in its details: deleting asks for ownership, removing songs for ownership or collaboration, and
  nothing is done to liked tracks. A wish is refused only when the provider does not allow it. The phrase to
  confirm is missing exactly when no playlist would be deleted and no song removed.
\<close>

theorem preflight_confirms:
  assumes "resolve_organizer_selection a cred sel w = (Inr res, w')"
  shows "(\<exists>listed v outs. collect (ad_iter_playlists a cred) w = (Inr listed, v) \<and>
      list_all2 (answers (inf_capabilities (ad_info a)) (shown_as a cred listed)) (wishes_of sel) outs \<and>
      rs_items res = items_of outs \<and> rs_unsupported res = refusals_of outs) \<and>
    (rs_confirmation_phrase res \<noteq> None \<longleftrightarrow> list_ex ri_destructive (rs_items res))"
  using resolution_answers [OF assms] resolution_sound [OF assms] by blast

definition own_playlist :: playlist where
  "own_playlist = (new_playlist (Some ''pl-1'') ''Mine''
     [(fake_track ''Song One'' ''Artist One'' ''US0000000001'' 0)\<lparr>trk_provider_uris := [(''fake'', ''fake:1'')]\<rparr>])
     \<lparr>pl_is_owned := Some True\<rparr>"

definition removing_adapter :: "fake_world adapter" where
  "removing_adapter = fake_adapter\<lparr>ad_info := fake_info\<lparr>inf_capabilities :=
     (new_capabilities [READ_PLAYLISTS, REMOVE_TRACKS])\<lparr>cap_max_remove_batch := 10\<rparr>\<rparr>\<rparr>"

definition own_selection :: organizer_selection where
  "own_selection = \<lparr>os_playlist_actions = [], os_track_removals =
     [\<lparr>pts_playlist_id = ''pl-1'', pts_tracks = [\<lparr>ts_position = 0, ts_source_item_id = None\<rparr>]\<rparr>]\<rparr>"

definition own_world :: fake_world where
  "own_world = fake_start\<lparr>fw_library := [(''pl-1'', own_playlist)]\<rparr>"

lemma own_removal:
  "\<exists>res i. resolve_organizer_selection removing_adapter cred own_selection own_world = (Inr res, own_world) \<and>
     rs_items res = [i] \<and> rs_unsupported res = [] \<and> rs_confirmation_phrase res = Some ''REMOVE 1 SONG''"
proof -
  have p: "pl_tracks own_playlist = [(fake_track ''Song One'' ''Artist One'' ''US0000000001'' 0)\<lparr>trk_provider_uris := [(''fake'', ''fake:1'')]\<rparr>]"
    "pl_is_owned own_playlist = Some True" "pl_id own_playlist = Some ''pl-1''" "pl_name own_playlist = ''Mine''" "pl_kind own_playlist = STANDARD"
    by (simp_all add: own_playlist_def new_playlist_def)
  have "selected_tracks ''fake'' own_playlist [\<lparr>ts_position = 0, ts_source_item_id = None\<rparr>] =
      Inr [\<lparr>rm_source_item_id = None, rm_provider_uri = ''fake:1'', rm_position = 0\<rparr>]"
    by (simp add: selected_tracks_def select_track_def track_at_def p fake_track_def new_track_def)
  moreover have "inf_name (ad_info removing_adapter) = ''fake''" "cap_max_remove_batch (inf_capabilities (ad_info removing_adapter)) = 10"
    "can (inf_capabilities (ad_info removing_adapter)) REMOVE_TRACKS"
    by (simp_all add: removing_adapter_def fake_info_def can_def new_capabilities_def)
  moreover have "ad_iter_playlists removing_adapter cred own_world = (([(new_ref ''pl-1'' ''Mine'')\<lparr>ref_track_count := Some 1\<rparr>], None), own_world)"
    "ad_read_playlist removing_adapter cred ((new_ref ''pl-1'' ''Mine'')\<lparr>ref_track_count := Some 1\<rparr>) own_world = (Inr own_playlist, own_world)"
    by (simp_all add: own_world_def removing_adapter_def fake_adapter_def fake_iter_playlists_def fake_read_playlist_def run_simps p new_ref_def)
  moreover have "str_nat (Suc 0) = ''1''" by code_simp
  ultimately show ?thesis
    by (simp add: resolve_organizer_selection_def validate_selection_def collect_def run_simps require_ref_def own_selection_def
        resolve_removal_def read_detail_def resolve_playlist_action_def ref_from_detail_def p removal_request_def
        new_ref_def confirmation_phrase_def plural_def duplicated_def Let_def none_if_empty_def)
qed

theorem preflight_confirms_witness:
  "\<exists>res w. resolve_organizer_selection removing_adapter (fake_cred ''fake'') own_selection own_world = (Inr res, w) \<and>
   length (rs_items res) + length (rs_unsupported res) = 1 \<and> rs_confirmation_phrase res = Some ''REMOVE 1 SONG'' \<and>
   (rs_confirmation_phrase res \<noteq> None \<longleftrightarrow> list_ex ri_destructive (rs_items res))"
proof -
  obtain res i where r: "resolve_organizer_selection removing_adapter (fake_cred ''fake'') own_selection own_world = (Inr res, own_world)"
    and "rs_items res = [i]" "rs_unsupported res = []" "rs_confirmation_phrase res = Some ''REMOVE 1 SONG''"
    using own_removal by blast
  with preflight_confirms [OF r] show ?thesis by auto
qed

end
