(* ===== verification/Organizer_Job.thy ===== *)
theory Organizer_Job
  imports Organizer Accounts Sample_World
begin

text \<open>
  The organizer worker (\<open>app/jobs/organizer.py\<close>): each confirmed item is checked against the
  provider again and carried out under the rate limiter, with retries. Waiting for tokens takes the
  next turns at the limiter, what other callers do to it in between included; when there are none
  left the worker was cancelled. Sleeping before a retry touches nothing.
\<close>

section \<open>Waiting\<close>

fun token_rounds :: "string \<Rightarrow> rat \<Rightarrow> turn list \<Rightarrow> limiter \<Rightarrow> (exn + unit) \<times> limiter \<times> turn list" where
  "token_rounds key cost [] l = (if dict_get l key = None then Inr () else Inl CancelledError, l, [])"
| "token_rounds key cost ((others, now) # later) l =
     (case dict_get (others l) key of
        None \<Rightarrow> (Inr (), others l, later)
      | Some b \<Rightarrow>
          (case take_tokens cost now b of
             (None, b') \<Rightarrow> (Inr (), dict_set key b' (others l), later)
           | (Some wait, b') \<Rightarrow> token_rounds key cost later (dict_set key b' (others l))))"

definition wait_for_tokens :: "string \<Rightarrow> rat \<Rightarrow> ('w, unit) handler" where
  "wait_for_tokens key cost = (\<lambda>s. case token_rounds key cost (st_readings s) (st_limiter s) of
     (r, l, later) \<Rightarrow> (r, s\<lparr>st_limiter := l, st_readings := later\<rparr>))"

definition configure_limit :: "string \<Rightarrow> rat \<Rightarrow> rat \<Rightarrow> ('w, unit) handler" where
  "configure_limit key capacity refill = (\<lambda>s.
     if dict_get (st_limiter s) key \<noteq> None then (Inr (), s)
     else case st_readings s of
       [] \<Rightarrow> (Inl CancelledError, s)
     | (others, now) # later \<Rightarrow>
         (Inr (), s\<lparr>st_limiter := ensure_configured key capacity refill now (st_limiter s), st_readings := later\<rparr>))"

definition sleep :: "rat \<Rightarrow> ('w, unit) handler" where
  "sleep d = (\<lambda>s. if st_readings s = [] then (Inl CancelledError, s) else (Inr (), s))"

text \<open>The loop is the one of \<open>acquire\<close>.\<close>

lemma token_rounds_acquire:
  "token_rounds key cost ts l = (Inr (), l', later) \<Longrightarrow> 
     acquire key cost ts l = Some l' \<or> ts = [] \<and> dict_get l key = None"
proof (induction key cost ts l rule: token_rounds.induct)
  case (2 key cost others now later' l)
  then show ?case by (fastforce split: option.splits prod.splits)
qed (simp split: if_splits)

section \<open>Carrying out an item\<close>

definition already :: "string \<Rightarrow> (string, json) dict" where
  "already what = [(what, JBool True)]"

definition mutation_members :: "mutation_result \<Rightarrow> (string, json) dict" where
  "mutation_members r = [(''ok'', JBool (mr_ok r)), (''already_absent'', JBool (mr_already_absent r))]"

definition removal_json :: "remove_item_result \<Rightarrow> json" where
  "removal_json r = JObj [(''source_item_id'', opt_str (rr_source_item_id r)), (''provider_uri'', JStr (rr_provider_uri r)),
     (''position'', JInt (rr_position r)), (''ok'', JBool (rr_ok r)), (''error'', opt_str (rr_error r))]"

definition removal_members :: "remove_tracks_result \<Rightarrow> (string, json) dict" where
  "removal_members r = [(''items'', JList (map removal_json (rt_items r))), (''snapshot_id'', opt_str (rt_snapshot_id r))]"

definition unless_absent :: "('w, exn, 'a) proc \<Rightarrow> ('a \<Rightarrow> ('w, exn, (string, json) dict) proc) \<Rightarrow>
    ('w, exn, (string, json) dict) proc" where
  "unless_absent m k = andthen (attempt m) (\<lambda>got.
     case got of
       Inr x \<Rightarrow> k x
     | Inl e \<Rightarrow> if is_not_found e then ret (already ''already_absent'') else throw e)"

definition listed_ref :: "'w adapter \<Rightarrow> credential \<Rightarrow> string \<Rightarrow> ('w, exn, playlist_ref option) proc" where
  "listed_ref a cred i = (\<lambda>w. case ad_iter_playlists a cred w of
     ((refs, stop), w') \<Rightarrow>
       (case find (\<lambda>r. ref_id r = i) refs of
          Some r \<Rightarrow> (Inr (Some r), w')
        | None \<Rightarrow> (case stop of None \<Rightarrow> (Inr None, w') | Some e \<Rightarrow> (Inl e, w'))))"

definition current_ref :: "playlist \<Rightarrow> playlist_ref \<Rightarrow> playlist_ref" where
  "current_ref p r = r
     \<lparr>ref_id := or_str (pl_id p) (ref_id r), ref_name := (if pl_name p = [] then ref_name r else pl_name p),
      ref_track_count := Some (int (length (pl_tracks p))),
      ref_owner_id := or_else (pl_owner_id p) (ref_owner_id r),
      ref_owner_name := or_else (pl_owner_name p) (ref_owner_name r),
      ref_is_owned := if_none (pl_is_owned p) (ref_is_owned r),
      ref_is_followed := if_none (pl_is_followed p) (ref_is_followed r),
      ref_collaborative := if_none (pl_collaborative p) (ref_collaborative r),
      ref_snapshot_id := or_else (pl_snapshot_id p) (ref_snapshot_id r),
      ref_created_at := if_none (pl_created_at p) (ref_created_at r),
      ref_updated_at := if_none (pl_updated_at p) (ref_updated_at r),
      ref_kind := pl_kind p\<rparr>"

definition track_outcome :: "remove_tracks_result \<Rightarrow> exn + (string, json) dict" where
  "track_outcome r =
     (case filter (\<lambda>i. \<not> rr_ok i) (rt_items r) of
        [] \<Rightarrow> Inr (removal_members r)
      | i # _ \<Rightarrow> Inl (ItemExecutionError (or_str (rr_error i) ''provider rejected a selected song removal'')
          (removal_members r) False))"

definition confirm_owner :: "'w adapter \<Rightarrow> credential \<Rightarrow> playlist_ref \<Rightarrow> ('w, exn, playlist_ref) proc" where
  "confirm_owner a cred r =
     (if ref_is_owned r = Some True then ret r
      else andthen (ad_read_playlist a cred r) (\<lambda>p. ret (current_ref p r)))"

definition delete_item :: "'w adapter \<Rightarrow> credential \<Rightarrow> playlist_ref \<Rightarrow> ('w, exn, (string, json) dict) proc" where
  "delete_item a cred r =
     andthen (listed_ref a cred (ref_id r)) (\<lambda>found.
     case found of
       None \<Rightarrow> ret (already ''already_absent'')
     | Some listed \<Rightarrow>
         andthen (confirm_owner a cred listed) (\<lambda>current.
         if ref_is_owned current \<noteq> Some True
         then throw (AccessDenied (inf_display_name (ad_info a) @ '' playlist ownership is no longer confirmed''))
         else unless_absent (ad_delete_playlist a cred current) (\<lambda>res. ret (mutation_members res))))"

definition stale_preflight :: exn where
  "stale_preflight = ItemExecutionError
     ''Spotify playlist changed after preflight; refresh and create a new organizer job'' [] False"

text \<open>What is left to remove: nothing (with the outcome), or these entries.\<close>

definition pending_removals ::
  "string \<Rightarrow> organizer_request \<Rightarrow> playlist \<Rightarrow> playlist_ref \<Rightarrow> exn + (string, json) dict + track_removal list"
where
  "pending_removals provider req p current =
     (if provider = ''spotify'' then
        (if Some (playlist_sequence_hash (pl_tracks p)) = orq_expected_hash req then Inr (Inl (already ''already_applied''))
         else if Some (playlist_sequence_hash (pl_tracks p)) \<noteq> orq_baseline_hash req \<or>
             ref_snapshot_id current \<noteq> ref_snapshot_id (orq_playlist req)
         then Inl stale_preflight else Inr (Inr (orq_tracks req)))
      else if provider = ''ytmusic'' then
        (let ids = filter truthy (map trk_source_item_id (pl_tracks p));
             left = filter (\<lambda>x. rm_source_item_id x \<in> set ids) (orq_tracks req)
         in if left = [] then Inr (Inl (already ''already_applied'')) else Inr (Inr left))
      else Inr (Inr (orq_tracks req)))"

definition remove_item ::
  "'w adapter \<Rightarrow> credential \<Rightarrow> organizer_request \<Rightarrow> ('w, exn, (string, json) dict) proc"
where
  "remove_item a cred req =
     unless_absent (ad_read_playlist a cred (orq_playlist req)) (\<lambda>p.
     let current = current_ref p (orq_playlist req) in
     case pending_removals (inf_name (ad_info a)) req p current of
       Inl e \<Rightarrow> throw e
     | Inr (Inl done_already) \<Rightarrow> ret done_already
     | Inr (Inr removals) \<Rightarrow>
         andthen (ad_remove_tracks a cred current removals) (\<lambda>res.
         case track_outcome res of Inl e \<Rightarrow> throw e | Inr ms \<Rightarrow> ret ms))"

definition execute_item ::
  "'w adapter \<Rightarrow> credential \<Rightarrow> organizer_item \<Rightarrow> ('w, exn, (string, json) dict) proc"
where
  "execute_item a cred i =
     (let r = orq_playlist (oi_request i) in
      case action_of_value (oi_action i) of
        Inl e \<Rightarrow> throw e
      | Inr DO_UNFOLLOW_PLAYLIST \<Rightarrow>
          unless_absent (ad_unfollow_playlist a cred r) (\<lambda>res. ret (mutation_members res))
      | Inr DO_DELETE_PLAYLIST \<Rightarrow> delete_item a cred r
      | Inr DO_REMOVE_TRACKS \<Rightarrow> remove_item a cred (oi_request i))"

section \<open>The worker\<close>

definition edit_organizer_job :: "string \<Rightarrow> (organizer_job \<Rightarrow> organizer_job) \<Rightarrow> ('w, unit) handler" where
  "edit_organizer_job i f = edit (\<lambda>d. d\<lparr>db_organizer_jobs := update_row i f (db_organizer_jobs d)\<rparr>)"

definition edit_organizer_item :: "string \<Rightarrow> (organizer_item \<Rightarrow> organizer_item) \<Rightarrow> ('w, unit) handler" where
  "edit_organizer_item i f = edit (\<lambda>d. d\<lparr>db_organizer_items := update_row i f (db_organizer_items d)\<rparr>)"

definition organizer_items :: "string \<Rightarrow> db \<Rightarrow> organizer_item list" where
  "organizer_items job d = select_rows (\<lambda>i. oi_job_id i = job) (db_organizer_items d)"

definition items_for_execution :: "string \<Rightarrow> db \<Rightarrow> organizer_item list" where
  "items_for_execution job d =
     sort_key (\<lambda>i. (oi_created_at i, oi_id i))
       (filter (\<lambda>i. oi_status i \<notin> {''succeeded'', ''skipped'', ''failed''}) (organizer_items job d))"

definition count_status :: "string set \<Rightarrow> organizer_item list \<Rightarrow> int" where
  "count_status S items = int (length (filter (\<lambda>i. oi_status i \<in> S) items))"

definition organizer_counts :: "string \<Rightarrow> db \<Rightarrow> organizer_job \<Rightarrow> organizer_job" where
  "organizer_counts job d j =
     (let items = organizer_items job d in
      j\<lparr>oj_total := int (length items), oj_done := count_status {''succeeded'', ''skipped''} items,
        oj_failed := count_status {''failed''} items\<rparr>)"

definition commit_counts :: "string \<Rightarrow> ('w, unit) handler" where
  "commit_counts job =
     andthen flush (\<lambda>_.
     andthen (query (organizer_counts job)) (\<lambda>f.
     andthen (edit_organizer_job job f) (\<lambda>_. commit)))"

definition fail_item :: "string \<Rightarrow> string \<Rightarrow> string \<Rightarrow> bool \<Rightarrow> ('w, unit) handler" where
  "fail_item job i err retryable =
     andthen (edit_organizer_item i (\<lambda>x. x\<lparr>oi_status := ''failed'', oi_retryable := retryable, oi_error := Some err\<rparr>))
       (\<lambda>_. commit_counts job)"

definition succeed_item :: "string \<Rightarrow> string \<Rightarrow> (string, json) dict \<Rightarrow> ('w, unit) handler" where
  "succeed_item job i res =
     andthen (edit_organizer_item i (\<lambda>x. x\<lparr>oi_status := ''succeeded'', oi_retryable := False, oi_error := None,
        oi_result := res\<rparr>)) (\<lambda>_. commit_counts job)"

definition retry_delay_s :: "settings \<Rightarrow> nat \<Rightarrow> rat option \<Rightarrow> rat" where
  "retry_delay_s st n after =
     (case after of
        Some d \<Rightarrow> if d \<noteq> 0 then d else min (2 ^ n) (set_organizer_retry_max_delay_s st)
      | None \<Rightarrow> min (2 ^ n) (set_organizer_retry_max_delay_s st))"

text \<open>What follows an exception: another attempt, or the failure of the item.\<close>

definition settle_error ::
  "settings \<Rightarrow> string \<Rightarrow> string \<Rightarrow> nat \<Rightarrow> exn \<Rightarrow> ('w, bool) handler \<Rightarrow> ('w, bool) handler"
where
  "settle_error st job i n e again =
     (let failed = (\<lambda>retryable. andthen (fail_item job i (exn_text e) retryable) (\<lambda>_. ret False)) in
      case e of
        RateLimited after m k \<Rightarrow>
          (let delay = retry_delay_s st n after in
           if n + 1 < set_organizer_retry_attempts st \<and> delay \<le> set_organizer_retry_max_delay_s st
           then andthen (sleep delay) (\<lambda>_. again) else failed True)
      | AccessDenied m \<Rightarrow> failed True
      | ItemExecutionError m payload retryable \<Rightarrow>
          andthen (edit_organizer_item i (\<lambda>x. x\<lparr>oi_result := payload\<rparr>)) (\<lambda>_. failed retryable)
      | _ \<Rightarrow> if is_auth_expired e then failed True else if is_provider_error e then failed False else throw e)"

fun try_item ::
  "settings \<Rightarrow> string \<Rightarrow> 'w adapter \<Rightarrow> credential \<Rightarrow> string \<Rightarrow> organizer_item \<Rightarrow> nat \<Rightarrow> nat \<Rightarrow> ('w, bool) handler"
where
  "try_item st job a cred key i 0 n = ret False"
| "try_item st job a cred key i (Suc left) n =
     andthen (edit_organizer_item (oi_id i) (\<lambda>x. x\<lparr>oi_attempts := oi_attempts x + 1\<rparr>)) (\<lambda>_.
     andthen commit (\<lambda>_.
     andthen (attempt (andthen
        (wait_for_tokens key (of_int (max 1 (cap_write_quota_cost (inf_capabilities (ad_info a))))))
        (\<lambda>_. call (execute_item a cred i)))) (\<lambda>got.
     case got of
       Inr res \<Rightarrow> andthen (succeed_item job (oi_id i) res) (\<lambda>_. ret True)
     | Inl e \<Rightarrow> settle_error st job (oi_id i) n e (try_item st job a cred key i left (Suc n)))))"

definition run_item ::
  "'w env \<Rightarrow> string \<Rightarrow> 'w adapter \<Rightarrow> credential \<Rightarrow> string \<Rightarrow> bool \<Rightarrow> organizer_item \<Rightarrow> ('w, bool) handler"
where
  "run_item env job a cred key had i =
     andthen (edit_organizer_item (oi_id i) (\<lambda>x. x\<lparr>oi_status := ''running'', oi_error := None\<rparr>)) (\<lambda>_.
     andthen commit (\<lambda>_.
     andthen (try_item (env_settings env) job a cred key i (set_organizer_retry_attempts (env_settings env)) 0)
       (\<lambda>ok. ret (had \<or> ok))))"

definition finish_organizer :: "string \<Rightarrow> ('w, unit) handler" where
  "finish_organizer job =
     andthen (commit_counts job) (\<lambda>_.
     andthen (edit_organizer_job job (\<lambda>j. j\<lparr>oj_status := if oj_failed j \<noteq> 0 then ''partial'' else ''done''\<rparr>)) (\<lambda>_.
     commit))"

definition organizer_work :: "'w env \<Rightarrow> organizer_job \<Rightarrow> 'w adapter \<Rightarrow> credential \<Rightarrow> ('w, unit) handler" where
  "organizer_work env j a cred =
     (let job = oj_id j; key = oj_provider j @ '':'' @ oj_account_id j; st = env_settings env in
      andthen (configure_limit key (set_organizer_rate_limit_capacity st) (set_organizer_rate_limit_refill_per_s st)) (\<lambda>_.
      andthen (edit_organizer_job job (\<lambda>j. j\<lparr>oj_status := ''running'', oj_error := None\<rparr>)) (\<lambda>_.
      andthen commit (\<lambda>_.
      andthen (query (items_for_execution job)) (\<lambda>items.
      andthen (fold_each items False (run_item env job a cred key)) (\<lambda>had_success.
      andthen (when_do had_success (invalidate_playlist_cache (oj_user_id j) (oj_provider j) (oj_account_id j))) (\<lambda>_.
      finish_organizer job)))))))"

definition organizer_run :: "'w env \<Rightarrow> organizer_job \<Rightarrow> ('w, unit) handler" where
  "organizer_run env j =
     andthen (expect (get_adapter (env_registry env) (oj_provider j))) (\<lambda>a.
     andthen (load_fresh_credential env (oj_account_id j) a (Some (oj_provider j)) None) (\<lambda>(cred, _).
     organizer_work env j a cred))"

definition mark_organizer_failed :: "string \<Rightarrow> string \<Rightarrow> ('w, unit) handler" where
  "mark_organizer_failed job err =
     andthen (query (\<lambda>d. dict_get (db_organizer_jobs d) job)) (\<lambda>found.
     case found of
       None \<Rightarrow> ret ()
     | Some _ \<Rightarrow>
         andthen (edit_organizer_job job (\<lambda>j. j\<lparr>oj_status := ''failed'', oj_error := Some err\<rparr>)) (\<lambda>_. commit))"

definition run_organizer :: "'w env \<Rightarrow> string \<Rightarrow> ('w, unit) handler" where
  "run_organizer env job =
     andthen open_session (\<lambda>_.
     andthen (query (\<lambda>d. dict_get (db_organizer_jobs d) job)) (\<lambda>found.
     case found of
       None \<Rightarrow> ret ()
     | Some j \<Rightarrow>
         catching (organizer_run env j) (\<lambda>e.
           andthen rollback (\<lambda>_.
           if e = CancelledError
           then andthen (mark_organizer_failed job ''organizer cancelled or timed out'') (\<lambda>_. throw e)
           else mark_organizer_failed job (exn_text e)))))"

section \<open>Only what may be removed is removed\<close>

text \<open>
  The provider vouches for the playlist r in the world u: asked in the world w for the playlists of the
  account, it lists the one with the identifier i and says that the account owns it, or, if the
  list does not say so, its details, asked for next, do.
\<close>

definition vouched :: "'w adapter \<Rightarrow> credential \<Rightarrow> string \<Rightarrow> 'w \<Rightarrow> playlist_ref \<Rightarrow> 'w \<Rightarrow> bool" where
  "vouched a cred i w r u \<longleftrightarrow>
     (case ad_iter_playlists a cred w of ((refs, stop), w') \<Rightarrow>
        (case find (\<lambda>r. ref_id r = i) refs of
           None \<Rightarrow> False
         | Some listed \<Rightarrow>
             if ref_is_owned listed = Some True then r = listed \<and> u = w'
             else (case ad_read_playlist a cred listed w' of
                 (Inl e, _) \<Rightarrow> False
               | (Inr p, v) \<Rightarrow> pl_is_owned p = Some True \<and> r = current_ref p listed \<and> u = v)))"

lemma current_ref_owned:
  "ref_is_owned (current_ref p l) = Some True \<longleftrightarrow>
     pl_is_owned p = Some True \<or> pl_is_owned p = None \<and> ref_is_owned l = Some True"
  by (simp add: current_ref_def if_none_def split: option.split)

lemma vouched_owned:
  assumes "vouched a cred i w r u"
  shows "ref_is_owned r = Some True"
proof -
  obtain refs stop w' where it: "ad_iter_playlists a cred w = ((refs, stop), w')" by (metis surj_pair)
  with assms obtain listed where f: "find (\<lambda>r. ref_id r = i) refs = Some listed"
    by (cases "find (\<lambda>r. ref_id r = i) refs") (simp_all add: vouched_def)
  obtain answer v where "ad_read_playlist a cred listed w' = (answer, v)" by force
  with assms it f show ?thesis
    by (cases answer) (auto simp: vouched_def current_ref_owned split: if_splits)
qed

lemma confirmed_vouched:
  assumes "listed_ref a cred i w = (Inr (Some listed), w')" and "confirm_owner a cred listed w' = (Inr r, u)"
    and "ref_is_owned r = Some True"
  shows "vouched a cred i w r u"
proof -
  obtain refs stop where l: "ad_iter_playlists a cred w = ((refs, stop), w')" "find (\<lambda>r. ref_id r = i) refs = Some listed"
    using assms(1) by (auto simp: listed_ref_def split: prod.splits option.splits)
  show ?thesis
  proof (cases "ref_is_owned listed = Some True")
    case True
    with assms(2) l show ?thesis by (simp add: vouched_def confirm_owner_def run_simps)
  next
    case False
    with assms(2) obtain p where "ad_read_playlist a cred listed w' = (Inr p, u)" "r = current_ref p listed"
      by (auto simp: confirm_owner_def ok_andthen ok_ret)
    with assms(3) l False show ?thesis by (simp add: vouched_def current_ref_owned)
  qed
qed

lemma delete_item_vouched:
  assumes "\<And>r u. vouched a cred (ref_id req) w r u \<Longrightarrow> del cred r u = ad_delete_playlist a cred r u"
  shows "delete_item (a\<lparr>ad_delete_playlist := del\<rparr>) cred req w = delete_item a cred req w"
proof -
  have l: "listed_ref (a\<lparr>ad_delete_playlist := del\<rparr>) cred = listed_ref a cred"
    and c: "confirm_owner (a\<lparr>ad_delete_playlist := del\<rparr>) cred = confirm_owner a cred"
    by (rule ext, simp add: listed_ref_def confirm_owner_def)+
  obtain found w' where f: "listed_ref a cred (ref_id req) w = (found, w')" by force
  show ?thesis
  proof (cases "\<exists>listed. found = Inr (Some listed)")
    case False
    then consider e where "found = Inl e" | "found = Inr None" by (cases found) auto
    then show ?thesis by cases (simp_all add: delete_item_def l f run_simps)
  next
    case True
    then obtain listed where f: "listed_ref a cred (ref_id req) w = (Inr (Some listed), w')" using f by blast
    obtain res v where co: "confirm_owner a cred listed w' = (res, v)" by force
    show ?thesis
    proof (cases "\<exists>r. res = Inr r \<and> ref_is_owned r = Some True")
      case True
      then obtain r where r: "res = Inr r" "ref_is_owned r = Some True" by blast
      from confirmed_vouched [OF f co [unfolded r(1)] r(2)] assms have "del cred r v = ad_delete_playlist a cred r v" by blast
      with r co f show ?thesis by (simp add: delete_item_def l c run_simps unless_absent_def)
    next
      case False
      with co f show ?thesis by (cases res) (simp_all add: delete_item_def l c run_simps)
    qed
  qed
qed

text \<open>
  C20. The worker deletes a playlist only for an item that asks for it, and only when the provider,
  asked again just before, lists the playlist of the item and says that the account owns it; it is
  this answer that it deletes by, not what the item has stored. Whatever the deletion of anything
  else, or at any other moment, did instead, carrying out the item would be the same.
\<close>

theorem deletes_only_owned:
  assumes "\<And>r u. action_of_value (oi_action i) = Inr DO_DELETE_PLAYLIST \<Longrightarrow>
      vouched a cred (ref_id (orq_playlist (oi_request i))) w r u \<Longrightarrow> del cred r u = ad_delete_playlist a cred r u"
  shows "execute_item (a\<lparr>ad_delete_playlist := del\<rparr>) cred i w = execute_item a cred i w"
proof -
  have parts: "ad_remove_tracks (a\<lparr>ad_delete_playlist := del\<rparr>) = ad_remove_tracks a"
    "ad_read_playlist (a\<lparr>ad_delete_playlist := del\<rparr>) = ad_read_playlist a" "ad_info (a\<lparr>ad_delete_playlist := del\<rparr>) = ad_info a"
    by simp_all
  have "remove_item (a\<lparr>ad_delete_playlist := del\<rparr>) = remove_item a"
    by (intro ext) (unfold remove_item_def parts, rule refl)
  then show ?thesis
    using delete_item_vouched [of a cred "orq_playlist (oi_request i)" w del] assms
    by (cases "action_of_value (oi_action i)"; cases "projr (action_of_value (oi_action i))") (simp_all add: execute_item_def)
qed

text \<open>
  C29. Songs are removed from a Spotify playlist only while it is what the preflight saw: if its
  sequence of tracks or its snapshot changed meanwhile, nothing happens after it was read.
\<close>

theorem spotify_removal_guarded:
  assumes "inf_name (ad_info a) = ''spotify''" and "ad_read_playlist a cred (orq_playlist req) w = (Inr p, w')"
    and "Some (playlist_sequence_hash (pl_tracks p)) \<noteq> orq_baseline_hash req \<or>
      ref_snapshot_id (current_ref p (orq_playlist req)) \<noteq> ref_snapshot_id (orq_playlist req)"
  shows "\<exists>r. remove_item a cred req w = (r, w') \<and> (r = Inr (already ''already_applied'') \<or> r = Inl stale_preflight) \<and>
    (r = Inr (already ''already_applied'') \<longleftrightarrow> Some (playlist_sequence_hash (pl_tracks p)) = orq_expected_hash req)"
  using assms by (auto simp: remove_item_def unless_absent_def pending_removals_def run_simps already_def stale_preflight_def Let_def)

section \<open>A job settles its items\<close>

text \<open>Steps that change only one item, never its identity; and steps that settle the items of a set.\<close>

definition item_edits :: "(string \<Rightarrow> organizer_item \<Rightarrow> organizer_item) \<Rightarrow> 'w engine \<Rightarrow> 'w engine \<Rightarrow> bool" where
  "item_edits f s t \<longleftrightarrow>
     db_organizer_items (st_work t) = map (\<lambda>(k, x). (k, f k x)) (db_organizer_items (st_work s)) \<and>
     (\<forall>k x. oi_id (f k x) = oi_id x \<and> oi_job_id (f k x) = oi_job_id x)"

definition touches :: "string \<Rightarrow> 'w engine \<Rightarrow> 'w engine \<Rightarrow> bool" where
  "touches i s t \<longleftrightarrow> (\<exists>f. item_edits f s t \<and> (\<forall>k x. k \<noteq> i \<longrightarrow> f k x = x))"

definition settles :: "string set \<Rightarrow> 'w engine \<Rightarrow> 'w engine \<Rightarrow> bool" where
  "settles K s t \<longleftrightarrow> (\<exists>f. item_edits f s t \<and> (\<forall>k x. k \<notin> K \<longrightarrow> f k x = x) \<and>
     (\<forall>k x. k \<in> K \<longrightarrow> oi_status (f k x) \<in> {''succeeded'', ''failed''}))"

lemma item_edits_trans: "item_edits f s t \<Longrightarrow> item_edits g t u \<Longrightarrow> item_edits (\<lambda>k x. g k (f k x)) s u"
  by (auto simp: item_edits_def)

lemma item_edits_same: "db_organizer_items (st_work t) = db_organizer_items (st_work s) \<Longrightarrow> item_edits (\<lambda>k x. x) s t"
  by (simp add: item_edits_def)

lemma touches_same: "db_organizer_items (st_work t) = db_organizer_items (st_work s) \<Longrightarrow> touches i s t"
  unfolding touches_def using item_edits_same by blast

lemma settles_same: "db_organizer_items (st_work t) = db_organizer_items (st_work s) \<Longrightarrow> settles {} s t"
  unfolding settles_def using item_edits_same by blast

lemma touches_trans:
  assumes "touches i s t" and "touches i t u"
  shows "touches i s u"
proof -
  from assms obtain f g where "item_edits f s t" "\<forall>k x. k \<noteq> i \<longrightarrow> f k x = x" "item_edits g t u" "\<forall>k x. k \<noteq> i \<longrightarrow> g k x = x"
    unfolding touches_def by blast
  with item_edits_trans [of f s t g u] show ?thesis
    unfolding touches_def by (intro exI [of _ "\<lambda>k x. g k (f k x)"]) simp
qed

lemma touches_settles:
  assumes "touches i s t" and "settles {i} t u"
  shows "settles {i} s u"
proof -
  from assms obtain f g where "item_edits f s t" "\<forall>k x. k \<noteq> i \<longrightarrow> f k x = x" "item_edits g t u" "\<forall>k x. k \<notin> {i} \<longrightarrow> g k x = x"
      "\<forall>k x. k \<in> {i} \<longrightarrow> oi_status (g k x) \<in> {''succeeded'', ''failed''}"
    unfolding touches_def settles_def by blast
  with item_edits_trans [of f s t g u] show ?thesis
    unfolding settles_def by (intro exI [of _ "\<lambda>k x. g k (f k x)"]) simp
qed

lemma settles_trans:
  assumes "settles K s t" and "settles L t u"
  shows "settles (K \<union> L) s u"
proof -
  from assms obtain f g where f: "item_edits f s t" "\<forall>k x. k \<notin> K \<longrightarrow> f k x = x"
      "\<forall>k x. k \<in> K \<longrightarrow> oi_status (f k x) \<in> {''succeeded'', ''failed''}"
    and g: "item_edits g t u" "\<forall>k x. k \<notin> L \<longrightarrow> g k x = x" "\<forall>k x. k \<in> L \<longrightarrow> oi_status (g k x) \<in> {''succeeded'', ''failed''}"
    unfolding settles_def by blast
  have "oi_status (g k (f k x)) \<in> {''succeeded'', ''failed''}" if "k \<in> K \<union> L" for k x
    using that f(3) g(2,3) by (cases "k \<in> L") simp_all
  moreover have "g k (f k x) = x" if "k \<notin> K \<union> L" for k x using that f(2) g(2) by simp
  ultimately show ?thesis unfolding settles_def using item_edits_trans [OF f(1) g(1)] by blast
qed

lemma edit_item_touches:
  "edit_organizer_item i g s = (Inr u, t) \<Longrightarrow> (\<And>x. oi_id (g x) = oi_id x \<and> oi_job_id (g x) = oi_job_id x) \<Longrightarrow> touches i s t"
  unfolding touches_def item_edits_def edit_organizer_item_def
  by (intro exI [of _ "\<lambda>k x. if k = i then g x else x"]) (auto simp: ok_simps update_row_def)

lemma edit_item_settles:
  "edit_organizer_item i g s = (Inr u, t) \<Longrightarrow> (\<And>x. oi_id (g x) = oi_id x \<and> oi_job_id (g x) = oi_job_id x) \<Longrightarrow>
     (\<And>x. oi_status (g x) \<in> {''succeeded'', ''failed''}) \<Longrightarrow> settles {i} s t"
  unfolding settles_def item_edits_def edit_organizer_item_def
  by (intro exI [of _ "\<lambda>k x. if k = i then g x else x"]) (auto simp: ok_simps update_row_def)

lemma commit_counts_items:
  "commit_counts job s = (Inr u, t) \<Longrightarrow> db_organizer_items (st_work t) = db_organizer_items (st_work s) \<and>
     st_db t = st_work t \<and> db_organizer_jobs (st_work t) = update_row job (organizer_counts job (st_work s)) (db_organizer_jobs (st_work s))"
  by (auto simp: commit_counts_def edit_organizer_job_def ok_simps)

lemma end_item_settles:
  "fail_item job i err retryable s = (Inr u, t) \<Longrightarrow> settles {i} s t"
  "succeed_item job i res s = (Inr u, t) \<Longrightarrow> settles {i} s t"
  unfolding fail_item_def succeed_item_def ok_andthen
  by (elim exE conjE, drule edit_item_settles, simp, simp, drule commit_counts_items,
      elim conjE, drule settles_same, drule (1) settles_trans, simp)+

lemma wait_items: "wait_for_tokens key cost s = (r, t) \<Longrightarrow> st_work t = st_work s"
  by (auto simp: wait_for_tokens_def split: prod.splits)

lemma execute_items:
  "attempt (andthen (wait_for_tokens key cost) (\<lambda>_. call m)) s = (Inr got, t) \<Longrightarrow> st_work t = st_work s"
  by (auto simp: ok_simps run_andthen call_def dest: wait_items split: prod.splits sum.splits)

lemma settle_error_settles:
  assumes "settle_error st job i n e again s = (Inr ok, t)"
    and "\<And>u. n + 1 < set_organizer_retry_attempts st \<Longrightarrow> again u = (Inr ok, t) \<Longrightarrow> st_work u = st_work s \<Longrightarrow> settles {i} u t"
  shows "settles {i} s t"
proof -
  have failed: "settles {i} u t" if "andthen (fail_item job i msg retryable) (\<lambda>_. ret False) u = (Inr ok, t)" for msg retryable u
    using that by (auto simp: ok_simps dest: end_item_settles)
  have retried: "settles {i} s t" if "andthen (sleep d) (\<lambda>_. again) s = (Inr ok, t)" "n + 1 < set_organizer_retry_attempts st" for d
  proof -
    from that(1) obtain u where "sleep d s = (Inr (), u)" "again u = (Inr ok, t)" unfolding ok_andthen by auto
    moreover from this(1) have "u = s" by (simp add: sleep_def split: if_splits)
    ultimately show ?thesis using assms(2) that(2) by simp
  qed
  have payload: "settles {i} s t"
    if "andthen (edit_organizer_item i (\<lambda>x. x\<lparr>oi_result := p\<rparr>)) (\<lambda>_. andthen (fail_item job i msg retryable) (\<lambda>_. ret False)) s = (Inr ok, t)"
    for p msg retryable
  proof -
    from that obtain u where e: "edit_organizer_item i (\<lambda>x. x\<lparr>oi_result := p\<rparr>) s = (Inr (), u)"
      "andthen (fail_item job i msg retryable) (\<lambda>_. ret False) u = (Inr ok, t)" unfolding ok_andthen by auto
    have "touches i s u" by (rule edit_item_touches [OF e(1)]) simp
    then show ?thesis using failed [OF e(2)] by (rule touches_settles)
  qed
  from assms(1) show ?thesis
    by (cases e) (auto simp: settle_error_def Let_def ok_throw intro: failed retried payload split: if_splits)
qed

lemma try_item_settles:
  "try_item st job a cred key i left n s = (Inr ok, t) \<Longrightarrow> left + n = set_organizer_retry_attempts st \<Longrightarrow> 0 < left \<Longrightarrow>
     settles {oi_id i} s t"
proof (induction left arbitrary: n s)
  case (Suc left)
  from Suc.prems(1) obtain u v got w where e: "edit_organizer_item (oi_id i) (\<lambda>x. x\<lparr>oi_attempts := oi_attempts x + 1\<rparr>) s = (Inr (), u)"
    and c: "commit u = (Inr (), v)"
    and x: "attempt (andthen (wait_for_tokens key (of_int (max 1 (cap_write_quota_cost (inf_capabilities (ad_info a))))))
        (\<lambda>_. call (execute_item a cred i))) v = (Inr got, w)"
    and k: "(case got of
       Inr res \<Rightarrow> andthen (succeed_item job (oi_id i) res) (\<lambda>_. ret True)
     | Inl e \<Rightarrow> settle_error st job (oi_id i) n e (try_item st job a cred key i left (Suc n))) w = (Inr ok, t)"
    unfolding try_item.simps ok_andthen by auto
  have "touches (oi_id i) s u" by (rule edit_item_touches [OF e]) simp
  moreover have "touches (oi_id i) u w"
    using c execute_items [OF x] by (intro touches_same) (auto simp: ok_simps)
  ultimately have sw: "touches (oi_id i) s w" by (rule touches_trans)
  have "settles {oi_id i} w t"
  proof (cases got)
    case (Inr res)
    with k show ?thesis by (auto simp: ok_simps dest: end_item_settles)
  next
    case (Inl e)
    with k have "settle_error st job (oi_id i) n e (try_item st job a cred key i left (Suc n)) w = (Inr ok, t)" by simp
    then show ?thesis
    proof (rule settle_error_settles)
      fix y
      assume "n + 1 < set_organizer_retry_attempts st" "try_item st job a cred key i left (Suc n) y = (Inr ok, t)"
      with Suc.prems(2) show "settles {oi_id i} y t" by (intro Suc.IH [of "Suc n"]) simp_all
    qed
  qed
  with sw show ?case by (rule touches_settles)
qed simp

lemma run_item_settles:
  assumes "run_item env job a cred key had i s = (Inr ok, t)" and "0 < set_organizer_retry_attempts (env_settings env)"
  shows "settles {oi_id i} s t"
proof -
  from assms(1) obtain u v r where e: "edit_organizer_item (oi_id i) (\<lambda>x. x\<lparr>oi_status := ''running'', oi_error := None\<rparr>) s = (Inr (), u)"
    and c: "commit u = (Inr (), v)"
    and x: "try_item (env_settings env) job a cred key i (set_organizer_retry_attempts (env_settings env)) 0 v = (Inr r, t)"
    unfolding run_item_def ok_andthen ok_ret by auto
  have "touches (oi_id i) s u" by (rule edit_item_touches [OF e]) simp
  moreover have "touches (oi_id i) u v" using c by (intro touches_same) (simp add: ok_simps)
  moreover have "settles {oi_id i} v t" using x by (rule try_item_settles) (simp_all add: assms(2))
  ultimately show ?thesis by (meson touches_trans touches_settles)
qed

lemma run_items_settle:
  "fold_each items had (run_item env job a cred key) s = (Inr ok, t) \<Longrightarrow> 0 < set_organizer_retry_attempts (env_settings env) \<Longrightarrow>
     settles (oi_id ` set items) s t"
proof (induction items arbitrary: had s)
  case Nil
  then show ?case by (auto simp: ok_simps intro: settles_same)
next
  case (Cons x items)
  from Cons.prems(1) obtain c u where "run_item env job a cred key had x s = (Inr c, u)"
      and rest: "fold_each items c (run_item env job a cred key) u = (Inr ok, t)"
    unfolding fold_each.simps ok_andthen by blast
  with run_item_settles Cons.prems(2) have "settles {oi_id x} s u" by blast
  from settles_trans [OF this Cons.IH [OF rest Cons.prems(2)]] show ?case by simp
qed

text \<open>The row of the job stays.\<close>

lemma constraints_organizer [simp]:
  "constraints_ok (d\<lparr>db_organizer_jobs := a\<rparr>) = constraints_ok d"
  "constraints_ok (d\<lparr>db_cached_tracks := x, db_cached_refs := y\<rparr>) = constraints_ok d"
  by (simp_all add: constraints_ok_def)

lemma constraints_organizer_item [simp]:
  "(\<And>x. organizer_key (f x) = organizer_key x) \<Longrightarrow>
     constraints_ok (d\<lparr>db_organizer_items := update_row i f (db_organizer_items d)\<rparr>) = constraints_ok d"
  by (simp add: constraints_ok_def map_rows_update)

lemma constraints_one_item [simp]:
  "length (db_organizer_items d) \<le> 1 \<Longrightarrow> length b \<le> 1 \<Longrightarrow> constraints_ok (d\<lparr>db_organizer_items := b\<rparr>) = constraints_ok d"
  by (cases b; cases "db_organizer_items d") (simp_all add: constraints_ok_def rows_def)

definition has_row :: "string \<Rightarrow> 'w engine \<Rightarrow> bool" where
  "has_row job s \<longleftrightarrow> constraints_ok (st_db s) \<and> dict_get (db_organizer_jobs (st_db s)) job \<noteq> None \<and> dict_get (db_organizer_jobs (st_work s)) job \<noteq> None"

lemma has_row_session [keeps_intro]:
  "keeps (has_row job) open_session" "keeps (has_row job) flush" "keeps (has_row job) commit" "keeps (has_row job) (query g)"
  "keeps (has_row job) utcnow" "keeps (has_row job) (uuid4 env)" "keeps (has_row job) (call m)" "keeps (has_row job) (expect r)"
  "keeps (has_row job) (edit_organizer_item i f)" "keeps (has_row job) (edit_organizer_job i h)"
  by (auto intro!: keepsI simp: run_simps has_row_def edit_organizer_item_def edit_organizer_job_def)

lemma has_row_edit [keeps_intro]: "(\<And>d. db_organizer_jobs (f d) = db_organizer_jobs d) \<Longrightarrow> keeps (has_row job) (edit f)"
  by (auto intro!: keepsI simp: run_simps has_row_def)

lemma has_row_waits [keeps_intro]:
  "keeps (has_row job) (wait_for_tokens key cost)" "keeps (has_row job) (sleep d)" "keeps (has_row job) (configure_limit key c r)"
  by (auto intro!: keepsI simp: wait_for_tokens_def sleep_def configure_limit_def has_row_def split: prod.splits list.splits)

lemma has_row_settle: "keeps (has_row k) m \<Longrightarrow> keeps (has_row k) (settle_error st job i n e m)"
  by (cases e) (auto simp: settle_error_def Let_def fail_item_def commit_counts_def intro!: keeps_intro)

lemma has_row_try [keeps_intro]: "keeps (has_row k) (try_item st job a cred key i left n)"
  by (induction left arbitrary: n) (auto simp: succeed_item_def commit_counts_def intro!: keeps_intro has_row_settle)

lemma has_row_parts [keeps_intro]:
  "keeps (has_row k) (run_item env job a cred key had i)"
  "keeps (has_row k) (invalidate_playlist_cache user provider account)"
  by (auto simp: run_item_def invalidate_playlist_cache_def intro!: keeps_intro)

lemma has_row_credential [keeps_intro]: "keeps (has_row k) (load_fresh_credential env account ad provider user)"
  by (auto simp: load_fresh_credential_def load_credential_def save_credential_def refresh_credential_def Let_def
      drop_account_def intro!: keeps_intro split: exn.splits)

text \<open>What the worker does before the first item leaves the items alone.\<close>

lemma configure_limit_items: "configure_limit key c r s = (Inr u, t) \<Longrightarrow> st_work t = st_work s \<and> st_db t = st_db s"
  by (auto simp: configure_limit_def split: if_splits list.splits)

lemma prefix_items:
  assumes "load_fresh_credential env account a provider user s = (Inr x, t)"
    and "part_is db_organizer_items v s"
  shows "part_is db_organizer_items v t"
  using keepsD [OF keeps_load_fresh_credential [of db_organizer_items v env account a provider user] assms(2)] assms(1)
  by (simp add: account_free_def)

definition settled_job :: "string \<Rightarrow> db \<Rightarrow> organizer_job \<Rightarrow> bool" where
  "settled_job job d j \<longleftrightarrow>
     (\<forall>i \<in> set (organizer_items job d). oi_status i \<in> {''succeeded'', ''skipped'', ''failed''}) \<and>
     oj_total j = int (length (organizer_items job d)) \<and>
     oj_done j = count_status {''succeeded'', ''skipped''} (organizer_items job d) \<and>
     oj_failed j = count_status {''failed''} (organizer_items job d) \<and> oj_total j = oj_done j + oj_failed j \<and>
     oj_status j = (if list_ex (\<lambda>i. oi_status i = ''failed'') (organizer_items job d) then ''partial'' else ''done'')"

lemma settled_counts:
  assumes "\<forall>i \<in> set is. oi_status i \<in> {''succeeded'', ''skipped'', ''failed''}"
  shows "int (length is) = count_status {''succeeded'', ''skipped''} is + count_status {''failed''} is"
    and "count_status {''failed''} is \<noteq> 0 \<longleftrightarrow> list_ex (\<lambda>i. oi_status i = ''failed'') is"
  using assms by (induction "is") (auto simp: count_status_def)

lemma finish_organizer_settled:
  assumes "finish_organizer job s = (Inr u, t)" and "dict_get (db_organizer_jobs (st_work s)) job \<noteq> None"
    and "\<forall>i \<in> set (organizer_items job (st_work s)). oi_status i \<in> {''succeeded'', ''skipped'', ''failed''}"
  shows "\<exists>j. dict_get (db_organizer_jobs (st_db t)) job = Some j \<and> settled_job job (st_db t) j"
proof -
  from assms(1) obtain x where c: "commit_counts job s = (Inr (), x)"
    and t: "t = x\<lparr>st_work := (st_work x)\<lparr>db_organizer_jobs := update_row job
        (\<lambda>j. j\<lparr>oj_status := if oj_failed j \<noteq> 0 then ''partial'' else ''done''\<rparr>) (db_organizer_jobs (st_work x))\<rparr>,
      st_db := (st_work x)\<lparr>db_organizer_jobs := update_row job
        (\<lambda>j. j\<lparr>oj_status := if oj_failed j \<noteq> 0 then ''partial'' else ''done''\<rparr>) (db_organizer_jobs (st_work x))\<rparr>\<rparr>"
    by (auto simp: finish_organizer_def ok_simps edit_organizer_job_def)
  from commit_counts_items [OF c] have same: "organizer_items job (st_db t) = organizer_items job (st_work s)"
    and jobs: "db_organizer_jobs (st_work x) = update_row job (organizer_counts job (st_work s)) (db_organizer_jobs (st_work s))"
    by (simp_all add: t organizer_items_def)
  from assms(2) obtain j where j: "dict_get (db_organizer_jobs (st_work s)) job = Some j" by auto
  let ?k = "organizer_counts job (st_work s) j"
  have "dict_get (db_organizer_jobs (st_db t)) job = Some (?k\<lparr>oj_status := if oj_failed ?k \<noteq> 0 then ''partial'' else ''done''\<rparr>)"
    by (simp add: t jobs j)
  moreover have "settled_job job (st_db t) (?k\<lparr>oj_status := if oj_failed ?k \<noteq> 0 then ''partial'' else ''done''\<rparr>)"
    unfolding settled_job_def same using assms(3) settled_counts [OF assms(3)] by (simp add: organizer_counts_def Let_def)
  ultimately show ?thesis by blast
qed

lemma settled_items:
  assumes "settles (oi_id ` set (items_for_execution job (st_work s))) s t"
    and "table_ok oi_id (\<lambda>_. True) (db_organizer_items (st_work s))"
  shows "\<forall>i \<in> set (organizer_items job (st_work t)). oi_status i \<in> {''succeeded'', ''skipped'', ''failed''}"
proof
  fix y
  assume y: "y \<in> set (organizer_items job (st_work t))"
  let ?K = "oi_id ` set (items_for_execution job (st_work s))"
  from assms(1) obtain f where f: "item_edits f s t" "\<forall>k x. k \<notin> ?K \<longrightarrow> f k x = x"
      "\<forall>k x. k \<in> ?K \<longrightarrow> oi_status (f k x) \<in> {''succeeded'', ''failed''}"
    unfolding settles_def by blast
  from y f(1) obtain k x where x: "(k, x) \<in> set (db_organizer_items (st_work s))" "y = f k x" "oi_job_id x = job"
    by (auto simp: organizer_items_def select_rows_def rows_def item_edits_def)
  from assms(2) x(1) have k: "oi_id x = k" by (auto simp: table_ok_def)
  show "oi_status y \<in> {''succeeded'', ''skipped'', ''failed''}"
  proof (cases "k \<in> ?K")
    case True
    with f(3) x(2) show ?thesis by fastforce
  next
    case False
    have "x \<in> set (organizer_items job (st_work s))"
      using x by (force simp: organizer_items_def select_rows_def rows_def)
    with False k have "oi_status x \<in> {''succeeded'', ''skipped'', ''failed''}"
      by (auto simp: items_for_execution_def)
    with f(2) False x(2) show ?thesis by simp
  qed
qed

lemma organizer_run_settles:
  assumes "organizer_run env j s = (Inr u, t)" and "oj_id j = job" and "has_row job s"
    and "table_ok oi_id (\<lambda>_. True) v" and "part_is db_organizer_items v s"
    and "0 < set_organizer_retry_attempts (env_settings env)"
  shows "\<exists>k. dict_get (db_organizer_jobs (st_db t)) job = Some k \<and> settled_job job (st_db t) k"
proof -
  let ?key = "oj_provider j @ '':'' @ oj_account_id j" and ?st = "env_settings env"
  from assms(1) obtain a cred p w where
      l: "load_fresh_credential env (oj_account_id j) a (Some (oj_provider j)) None s = (Inr (cred, p), w)"
    and rest: "organizer_work env j a cred w = (Inr u, t)"
    by (auto simp: organizer_run_def ok_simps)
  from rest obtain b c d had e f where
      cf: "configure_limit ?key (set_organizer_rate_limit_capacity ?st) (set_organizer_rate_limit_refill_per_s ?st) w = (Inr (), b)"
    and ed: "edit_organizer_job job (\<lambda>j. j\<lparr>oj_status := ''running'', oj_error := None\<rparr>) b = (Inr (), c)"
    and cm: "commit c = (Inr (), d)"
    and run: "fold_each (items_for_execution job (st_work d)) False (run_item env job a cred ?key) d = (Inr had, e)"
    and inv: "when_do had (invalidate_playlist_cache (oj_user_id j) (oj_provider j) (oj_account_id j)) e = (Inr (), f)"
    and fin: "finish_organizer job f = (Inr u, t)"
    unfolding organizer_work_def Let_def ok_andthen assms(2)
    by (auto simp: ok_queries)
  have "part_is db_organizer_items v w" using prefix_items [OF l assms(5)] .
  with configure_limit_items [OF cf] have "part_is db_organizer_items v b" by (simp add: part_is_def)
  with ed cm have d: "db_organizer_items (st_work d) = v" by (auto simp: part_is_def edit_organizer_job_def ok_simps)
  have "has_row job w" using keepsD [OF has_row_credential assms(3)] l by (metis snd_conv)
  then have "has_row job b" using keepsD [OF has_row_waits(3)] cf by (metis snd_conv)
  then have "has_row job d" using ed cm by (auto simp: has_row_def edit_organizer_job_def ok_simps)
  moreover have "keeps (has_row job) (fold_each (items_for_execution job (st_work d)) False (run_item env job a cred ?key))"
    by (intro keeps_intro)
  ultimately have "has_row job e" using run keepsD by (metis snd_conv)
  moreover have "db_organizer_items (st_work f) = db_organizer_items (st_work e) \<and> db_organizer_jobs (st_work f) = db_organizer_jobs (st_work e)"
    using inv by (auto simp: ok_simps invalidate_playlist_cache_def split: if_splits)
  ultimately have row: "dict_get (db_organizer_jobs (st_work f)) job \<noteq> None"
    and same: "organizer_items job (st_work f) = organizer_items job (st_work e)" by (simp_all add: has_row_def organizer_items_def)
  have "settles (oi_id ` set (items_for_execution job (st_work d))) d e" by (rule run_items_settle [OF run assms(6)])
  then have "\<forall>i \<in> set (organizer_items job (st_work f)). oi_status i \<in> {''succeeded'', ''skipped'', ''failed''}"
    unfolding same by (rule settled_items) (simp add: d assms(4))
  with finish_organizer_settled [OF fin row] show ?thesis by blast
qed

text \<open>
  C25. However an organizer job ends, it has dealt with every one of its items: each one succeeded,
  was skipped or failed, the counts of the job add up to them, and its status tells whether any
  failed; or the job as a whole failed and says why. Only a cancellation is passed on as an error.
  It takes at least one attempt per item: with none configured the items would stay \<open>running\<close> in a
  job reported as done.
\<close>

theorem organizer_settles:
  assumes "run_organizer env job s = (out, t)" and "constraints_ok (st_db s)"
    and "dict_get (db_organizer_jobs (st_db s)) job = Some j" and "oj_id j = job"
    and "table_ok oi_id (\<lambda>_. True) (db_organizer_items (st_db s))"
    and "0 < set_organizer_retry_attempts (env_settings env)"
  shows "(out = Inr () \<or> out = Inl CancelledError) \<and> (\<exists>k. dict_get (db_organizer_jobs (st_db t)) job = Some k \<and>
    (settled_job job (st_db t) k \<or> oj_status k = ''failed'' \<and> oj_error k \<noteq> None))"
proof -
  let ?s = "s\<lparr>st_work := st_db s\<rparr>"
  have row: "has_row job ?s" and part: "part_is db_organizer_items (db_organizer_items (st_db s)) ?s"
    using assms(2,3) by (simp_all add: has_row_def part_is_def)
  obtain got u where run: "organizer_run env j ?s = (got, u)" by force
  show ?thesis
  proof (cases got)
    case (Inr x)
    with run assms(1,3) have "t = u" "out = Inr ()" by (simp_all add: run_organizer_def run_simps)
    with organizer_run_settles [OF run [unfolded Inr] assms(4) row assms(5) part assms(6)] show ?thesis by blast
  next
    case (Inl e)
    have "keeps (has_row job) (organizer_run env j)"
      by (auto simp: organizer_run_def organizer_work_def finish_organizer_def commit_counts_def Let_def intro!: keeps_intro)
    from keepsD [OF this row] run have "has_row job u" by simp
    then obtain k where k: "dict_get (db_organizer_jobs (st_db u)) job = Some k" and ok: "constraints_ok (st_db u)"
      by (auto simp: has_row_def)
    let ?msg = "if e = CancelledError then ''organizer cancelled or timed out'' else exn_text e"
    obtain w where w: "mark_organizer_failed job ?msg (u\<lparr>st_work := st_db u\<rparr>) = (Inr (), w)"
      "dict_get (db_organizer_jobs (st_db w)) job = Some (k\<lparr>oj_status := ''failed'', oj_error := Some ?msg\<rparr>)"
      using k ok by (simp add: mark_organizer_failed_def run_simps edit_organizer_job_def)
    with run Inl assms(1,3) have "(out = Inr () \<or> out = Inl CancelledError) \<and> t = w"
      by (cases "e = CancelledError") (simp_all add: run_organizer_def run_simps)
    with w(2) show ?thesis by simp
  qed
qed

definition sample_organizer_job :: organizer_job where
  "sample_organizer_job = \<lparr>oj_id = ''o1'', oj_user_id = ''owner'', oj_provider = ''fake'', oj_account_id = ''acc-1'',
     oj_status = ''pending'', oj_total = 1, oj_done = 0, oj_failed = 0, oj_error = None, oj_created_at = 0\<rparr>"

definition sample_organizer_item :: "organizer_action \<Rightarrow> organizer_item" where
  "sample_organizer_item act = \<lparr>oi_id = ''i1'', oi_job_id = ''o1'', oi_playlist_id = ''pl-1'', oi_playlist_name = ''Roadtrip'',
     oi_action = action_value act, oi_destructive = False, oi_ownership = ''owned'', oi_collaborative = None,
     oi_request = whole_request (new_ref ''pl-1'' ''Roadtrip''), oi_result = [], oi_status = ''pending'', oi_attempts = 0,
     oi_retryable = True, oi_error = None, oi_created_at = 0\<rparr>"

definition organizer_db :: db where
  "organizer_db = account_db\<lparr>db_organizer_jobs := [(''o1'', sample_organizer_job)],
     db_organizer_items := [(''i1'', sample_organizer_item DO_UNFOLLOW_PLAYLIST)]\<rparr>"

lemma organizer_credential:
  "load_fresh_credential sample_env ''acc-1'' fake_adapter (Some ''fake'') None (engine_on organizer_db) =
     (Inr (runtime_credential sample_account sample_credential, sample_account), engine_on organizer_db)"
  by (simp add: load_fresh_credential_def load_credential_def run_simps engine_on_def organizer_db_def account_db_def
      empty_db_def sample_account_def sample_credential_def rows_def newest_credential_def
      order_desc_def select_rows_def runtime_credential_def fake_cred_def expires_soon_def Let_def)

theorem deletes_only_owned_witness:
  "execute_item (fake_adapter\<lparr>ad_delete_playlist := (\<lambda>cred r. if ref_is_owned r = Some True then fake_drop_playlist cred r
     else throw (NotFound []))\<rparr>) (fake_cred ''fake'') (sample_organizer_item DO_DELETE_PLAYLIST) fake_start =
   execute_item fake_adapter (fake_cred ''fake'') (sample_organizer_item DO_DELETE_PLAYLIST) fake_start"
  by (rule deletes_only_owned) (simp add: fake_adapter_def vouched_owned [unfolded fake_adapter_def])

theorem organizer_settles_witness:
  "\<exists>t k. run_organizer sample_env ''o1'' (engine_on organizer_db) = (Inr (), t) \<and>
     dict_get (db_organizer_jobs (st_db t)) ''o1'' = Some k \<and>
     (settled_job ''o1'' (st_db t) k \<or> oj_status k = ''failed'' \<and> oj_error k \<noteq> None)"
proof -
  let ?s = "engine_on organizer_db"
  have db: "st_db ?s = organizer_db" "st_work ?s = organizer_db" "?s\<lparr>st_work := organizer_db\<rparr> = ?s" by (simp_all add: engine_on_def)
  have job: "dict_get (db_organizer_jobs organizer_db) ''o1'' = Some sample_organizer_job" "oj_id sample_organizer_job = ''o1''"
    and a: "get_adapter (env_registry sample_env) ''fake'' = Inr fake_adapter"
    and tab: "table_ok oi_id (\<lambda>_. True) (db_organizer_items organizer_db)"
    and n: "0 < set_organizer_retry_attempts (env_settings sample_env)"
    by (simp_all add: organizer_db_def sample_organizer_job_def sample_env_def get_adapter_def table_ok_def is_dict_def
        sample_organizer_item_def sample_settings_def)
  have items: "items_for_execution ''o1'' (organizer_db\<lparr>db_organizer_jobs := x\<rparr>) = [sample_organizer_item DO_UNFOLLOW_PLAYLIST]" for x
    by (simp add: items_for_execution_def organizer_items_def organizer_db_def select_rows_def rows_def sample_organizer_item_def)
  have exec: "execute_item fake_adapter cred (sample_organizer_item DO_UNFOLLOW_PLAYLIST) w =
      (Inr (mutation_members \<lparr>mr_ok = True, mr_already_absent = False\<rparr>), snd (fake_drop_playlist cred (new_ref ''pl-1'' ''Roadtrip'') w))" for cred w
    by (simp add: execute_item_def sample_organizer_item_def action_of_value_def unless_absent_def run_simps fake_adapter_def
        fake_drop_playlist_def whole_request_def)
  have wait: "wait_for_tokens ''fake:acc-1'' 1 u = (Inr (), u\<lparr>st_limiter := [(''fake:acc-1'', b)], st_readings := later\<rparr>)"
    if "st_limiter u = [(''fake:acc-1'', full_bucket 5 1 0)]" "st_readings u = (id, 1) # later" "b = snd (take_tokens 1 1 (full_bucket 5 1 0))"
    for u :: "fake_world engine" and later b
    using that by (simp add: wait_for_tokens_def take_tokens_def full_bucket_def refilled_def)
  obtain t where "run_organizer sample_env ''o1'' ?s = (Inr (), t)"
  proof -
    let ?key = "''fake:acc-1''" and ?cred = "runtime_credential sample_account sample_credential"
    have key: "oj_provider sample_organizer_job @ '':'' @ oj_account_id sample_organizer_job = ?key"
      "oj_provider sample_organizer_job = ''fake''" "oj_account_id sample_organizer_job = ''acc-1''"
      by (simp_all add: sample_organizer_job_def)
    have st: "set_organizer_rate_limit_capacity (env_settings sample_env) = 5" "set_organizer_rate_limit_refill_per_s (env_settings sample_env) = 1"
      "set_organizer_retry_attempts (env_settings sample_env) = Suc (Suc (Suc 0))"
      by (simp_all add: sample_env_def sample_settings_def)
    have conf: "configure_limit ?key 5 1 ?s = (Inr (), ?s\<lparr>st_limiter := [(?key, full_bucket 5 1 0)], st_readings := map (Pair id) [1, 2, 3, 4]\<rparr>)"
      by (simp add: configure_limit_def engine_on_def ensure_configured_def configure_def)
    have cost: "of_int (max 1 (cap_write_quota_cost (inf_capabilities (ad_info fake_adapter)))) = (1 :: rat)"
      by (simp add: fake_adapter_def fake_info_def new_capabilities_def)
    have id: "oi_id (sample_organizer_item DO_UNFOLLOW_PLAYLIST) = ''i1''" by (simp add: sample_organizer_item_def)
    have ok: "constraints_ok organizer_db" by (simp add: organizer_db_def)
    have one: "length (db_organizer_items organizer_db) = Suc 0" "length (update_row i f t) = length t" for i f and t :: "organizer_item table"
      by (simp_all add: organizer_db_def update_row_def)
    have "\<exists>t. organizer_work sample_env sample_organizer_job fake_adapter ?cred ?s = (Inr (), t)"
      by (simp add: organizer_work_def run_simps job conf key st edit_organizer_job_def items db ok run_item_def edit_organizer_item_def
          id wait cost exec succeed_item_def commit_counts_def invalidate_playlist_cache_def finish_organizer_def Let_def one)
    then show ?thesis using that
      by (auto simp: run_organizer_def organizer_run_def run_simps db job key a organizer_credential)
  qed
  from organizer_settles [OF this, unfolded db, OF _ job tab n] this show ?thesis by (simp add: organizer_db_def)
qed

theorem spotify_removal_guarded_witness:
  "\<exists>r. remove_item (fake_adapter\<lparr>ad_info := fake_info\<lparr>inf_name := ''spotify''\<rparr>\<rparr>) (fake_cred ''spotify'')
     (whole_request (new_ref ''pl-1'' ''Roadtrip'')) fake_start = (r, fake_start) \<and>
     (r = Inr (already ''already_applied'') \<or> r = Inl stale_preflight)"
proof -
  let ?a = "fake_adapter\<lparr>ad_info := fake_info\<lparr>inf_name := ''spotify''\<rparr>\<rparr>" and ?req = "whole_request (new_ref ''pl-1'' ''Roadtrip'')"
  obtain p where "ad_read_playlist ?a (fake_cred ''spotify'') (orq_playlist ?req) fake_start = (Inr p, fake_start)"
    by (simp add: fake_adapter_def fake_read_playlist_def run_simps fake_start_def fake_library_def whole_request_def new_ref_def)
  from spotify_removal_guarded [OF _ this] show ?thesis by (auto simp: whole_request_def)
qed

end
