(* ===== verification/Organizer_Api.thy ===== *)
theory Organizer_Api
  imports Organizer_Job
begin

text \<open>
  The endpoints of the library organizer (\<open>app/api/organizer.py\<close>): preflight, the analysis of
  duplicates, the creation of a confirmed job, its retry and its views. The listing of playlists
  reads the playlist cache, which is not modelled; what it shows of a playlist is \<open>playlist_view\<close>.
  The stored request of a job and the times of its updates, which nothing reads, are left out.
\<close>

section \<open>Requests and errors\<close>

record organizer_body =
  ob_provider :: string
  ob_account_id :: string
  ob_selection :: organizer_selection
  ob_confirmation :: "string option"

text \<open>The exceptions the endpoints turn into HTTP errors; anything else passes.\<close>

definition organizer_failure :: "exn \<Rightarrow> bool" where
  "organizer_failure e =
     (case e of
        KeyError _ \<Rightarrow> True | AccountNotFound _ \<Rightarrow> True | CredentialNotFound _ \<Rightarrow> True | ValueError _ \<Rightarrow> True
      | _ \<Rightarrow> is_provider_error e)"

definition organizer_error :: "exn \<Rightarrow> exn" where
  "organizer_error e =
     (case e of
        HTTPException _ _ \<Rightarrow> e
      | HTTPProblem _ _ \<Rightarrow> e
      | ValueError _ \<Rightarrow> HTTPException 400 (exn_text e)
      | _ \<Rightarrow> (case api_error e of
               HTTPException code d \<Rightarrow> HTTPException code d
             | _ \<Rightarrow> HTTPException 500 ''Organizer request failed''))"

definition guarded :: "('w, 'a) handler \<Rightarrow> ('w, 'a) handler" where
  "guarded m = catching m (\<lambda>e. throw (if organizer_failure e then organizer_error e else e))"

definition resolve_body :: "'w env \<Rightarrow> organizer_body \<Rightarrow> ('w, organizer_resolution) handler" where
  "resolve_body env body =
     andthen (expect (get_adapter (env_registry env) (ob_provider body))) (\<lambda>a.
     andthen (load_fresh_credential env (ob_account_id body) a (Some (ob_provider body)) None) (\<lambda>(cred, _).
     call (resolve_organizer_selection a cred (ob_selection body))))"

section \<open>Views\<close>

definition ownership :: "playlist_ref \<Rightarrow> string" where
  "ownership r =
     (if ref_is_owned r = Some True then ''owned''
      else if ref_collaborative r = Some True then ''collaborative''
      else if ref_is_followed r = Some True \<or> ref_is_owned r = Some False then ''followed''
      else ''unknown'')"

record playlist_view =
  pv_playlist :: playlist_ref
  pv_ownership :: string
  pv_available_intents :: "organizer_intent list"
  pv_requires_ownership_check :: bool
  pv_notes :: "string list"

definition playlist_view :: "'w adapter \<Rightarrow> playlist_ref \<Rightarrow> playlist_view" where
  "playlist_view a r =
     (let caps = inf_capabilities (ad_info a); std = ref_kind r = STANDARD;
          del = std \<and> can caps DELETE_PLAYLIST \<and> ref_is_owned r \<noteq> Some False;
          rem = std \<and> can caps REMOVE_TRACKS \<and>
            (ref_is_owned r = Some True \<or> ref_collaborative r = Some True \<or> ref_is_owned r = None);
          intents = (if std \<and> can caps UNFOLLOW_PLAYLIST then [INTENT_REMOVE] else []) @
            (if del then [INTENT_DELETE] else []) @ (if rem then [INTENT_REMOVE_TRACKS] else []);
          check = (del \<or> rem) \<and> ref_is_owned r = None
      in \<lparr>pv_playlist = r, pv_ownership = ownership r, pv_available_intents = intents,
          pv_requires_ownership_check = check,
          pv_notes = (if check then [''Ownership will be verified during preflight.''] else []) @
            (if intents = [] then [inf_display_name (ad_info a) @ '' exposes no safe organizer action here.''] else [])\<rparr>)"

record preflight_item =
  pi_playlist_id :: string
  pi_playlist_name :: string
  pi_action :: organizer_action
  pi_destructive :: bool
  pi_ownership :: string
  pi_collaborative :: "bool option"
  pi_selected_track_count :: nat
  pi_recovery :: string

record preflight_group =
  pg_action :: organizer_action
  pg_label :: string
  pg_destructive :: bool
  pg_recovery :: string
  pg_items :: "preflight_item list"

record preflight_view =
  pf_code :: string
  pf_groups :: "preflight_group list"
  pf_unsupported_items :: "unsupported_item list"
  pf_confirmation_required :: bool
  pf_confirmation_phrase :: "string option"
  pf_total_playlists :: nat
  pf_total_tracks :: nat

fun action_label :: "organizer_action \<Rightarrow> string" where
  "action_label DO_UNFOLLOW_PLAYLIST = ''Remove from library''"
| "action_label DO_DELETE_PLAYLIST = ''Delete permanently''"
| "action_label DO_REMOVE_TRACKS = ''Remove selected songs''"

definition preflight_item_of :: "resolved_item \<Rightarrow> preflight_item" where
  "preflight_item_of i =
     \<lparr>pi_playlist_id = ref_id (ri_playlist i), pi_playlist_name = ref_name (ri_playlist i),
      pi_action = ri_action i, pi_destructive = ri_destructive i, pi_ownership = ownership (ri_playlist i),
      pi_collaborative = ref_collaborative (ri_playlist i),
      pi_selected_track_count = ri_selected_track_count i, pi_recovery = ri_recovery i\<rparr>"

definition by_action :: "resolved_item list \<Rightarrow> (organizer_action, resolved_item list) dict" where
  "by_action items = fold (\<lambda>i. dict_append (ri_action i) i) items []"

definition preflight_view_of :: "organizer_resolution \<Rightarrow> preflight_view" where
  "preflight_view_of res =
     \<lparr>pf_code = ''organizer_preflight'',
      pf_groups = map (\<lambda>(act, items).
        \<lparr>pg_action = act, pg_label = action_label act, pg_destructive = ri_destructive (hd items),
         pg_recovery = ri_recovery (hd items), pg_items = map preflight_item_of items\<rparr>) (by_action (rs_items res)),
      pf_unsupported_items = rs_unsupported res,
      pf_confirmation_required = (rs_confirmation_phrase res \<noteq> None),
      pf_confirmation_phrase = rs_confirmation_phrase res,
      pf_total_playlists = length (rs_items res) + length (rs_unsupported res),
      pf_total_tracks = sum_list (map ri_selected_track_count (rs_items res))\<rparr>"

fun intent_value :: "organizer_intent \<Rightarrow> string" where
  "intent_value INTENT_REMOVE = ''remove''"
| "intent_value INTENT_DELETE = ''delete''"
| "intent_value INTENT_REMOVE_TRACKS = ''remove_tracks''"

definition preflight_item_json :: "preflight_item \<Rightarrow> json" where
  "preflight_item_json i = JObj
     [(''playlist_id'', JStr (pi_playlist_id i)), (''playlist_name'', JStr (pi_playlist_name i)),
      (''action'', JStr (action_value (pi_action i))), (''destructive'', JBool (pi_destructive i)),
      (''ownership'', JStr (pi_ownership i)), (''collaborative'', opt_bool (pi_collaborative i)),
      (''selected_track_count'', JInt (int (pi_selected_track_count i))), (''recovery'', JStr (pi_recovery i))]"

definition preflight_group_json :: "preflight_group \<Rightarrow> json" where
  "preflight_group_json g = JObj
     [(''action'', JStr (action_value (pg_action g))), (''label'', JStr (pg_label g)),
      (''destructive'', JBool (pg_destructive g)), (''recovery'', JStr (pg_recovery g)),
      (''items'', JList (map preflight_item_json (pg_items g)))]"

definition unsupported_json :: "unsupported_item \<Rightarrow> json" where
  "unsupported_json u = JObj
     [(''playlist_id'', JStr (ui_playlist_id u)), (''playlist_name'', JStr (ui_playlist_name u)),
      (''intent'', JStr (intent_value (ui_intent u))), (''reason'', JStr (ui_reason u))]"

definition preflight_json :: "preflight_view \<Rightarrow> json" where
  "preflight_json v = JObj
     [(''code'', JStr (pf_code v)), (''groups'', JList (map preflight_group_json (pf_groups v))),
      (''unsupported'', JList (map unsupported_json (pf_unsupported_items v))),
      (''confirmation_required'', JBool (pf_confirmation_required v)),
      (''confirmation_phrase'', opt_str (pf_confirmation_phrase v)),
      (''total_playlists'', JInt (int (pf_total_playlists v))), (''total_tracks'', JInt (int (pf_total_tracks v)))]"

section \<open>Endpoints\<close>

definition preflight_organizer :: "'w env \<Rightarrow> organizer_body \<Rightarrow> ('w, preflight_view) handler" where
  "preflight_organizer env body =
     andthen open_session (\<lambda>_.
     guarded (andthen (resolve_body env body) (\<lambda>res. andthen commit (\<lambda>_. ret (preflight_view_of res)))))"

definition analyze_duplicates :: "'w env \<Rightarrow> organizer_body \<Rightarrow> ('w, duplicate_candidate list) handler" where
  "analyze_duplicates env body =
     andthen open_session (\<lambda>_.
     guarded
       (andthen (expect (get_adapter (env_registry env) (ob_provider body))) (\<lambda>a.
        andthen (load_fresh_credential env (ob_account_id body) a (Some (ob_provider body)) None) (\<lambda>(cred, _).
        andthen (call (find_duplicate_candidates a cred)) (\<lambda>found.
        andthen commit (\<lambda>_. ret found))))))"

definition validate_job_request :: "organizer_resolution \<Rightarrow> string option \<Rightarrow> exn + unit" where
  "validate_job_request res confirmation =
     (let view = preflight_view_of res in
      if rs_unsupported res \<noteq> [] then Inl (HTTPProblem 409 (preflight_json view))
      else if rs_items res = [] then Inl (HTTPException 400 ''No supported organizer actions were selected'')
      else if truthy (rs_confirmation_phrase res) \<and>
          Some (strip (or_str confirmation [])) \<noteq> rs_confirmation_phrase res
      then Inl (HTTPProblem 409 (preflight_json (view\<lparr>pf_code := ''organizer_confirmation_required''\<rparr>)))
      else Inr ())"

definition new_organizer_item :: "string \<Rightarrow> string \<Rightarrow> int \<Rightarrow> resolved_item \<Rightarrow> organizer_item" where
  "new_organizer_item i job now r =
     \<lparr>oi_id = i, oi_job_id = job, oi_playlist_id = ref_id (ri_playlist r), oi_playlist_name = ref_name (ri_playlist r),
      oi_action = action_value (ri_action r), oi_destructive = ri_destructive r, oi_ownership = ownership (ri_playlist r),
      oi_collaborative = ref_collaborative (ri_playlist r), oi_request = ri_request r, oi_result = [],
      oi_status = ''pending'', oi_attempts = 0, oi_retryable = True, oi_error = None, oi_created_at = now\<rparr>"

definition add_organizer_item :: "'w env \<Rightarrow> string \<Rightarrow> organizer_item list \<Rightarrow> resolved_item \<Rightarrow> ('w, organizer_item list) handler" where
  "add_organizer_item env job items r =
     andthen (uuid4 env) (\<lambda>i. andthen utcnow (\<lambda>now.
     let item = new_organizer_item i job now r in
     andthen (edit (\<lambda>d. d\<lparr>db_organizer_items := dict_set i item (db_organizer_items d)\<rparr>)) (\<lambda>_.
     ret (items @ [item]))))"

definition new_organizer_job :: "string \<Rightarrow> string \<Rightarrow> int \<Rightarrow> organizer_body \<Rightarrow> nat \<Rightarrow> organizer_job" where
  "new_organizer_job i user now body n =
     \<lparr>oj_id = i, oj_user_id = user, oj_provider = ob_provider body, oj_account_id = ob_account_id body,
      oj_status = ''pending'', oj_total = int n, oj_done = 0, oj_failed = 0, oj_error = None, oj_created_at = now\<rparr>"

definition create_organizer_job ::
  "'w env \<Rightarrow> organizer_body \<Rightarrow> string \<Rightarrow> ('w, organizer_job \<times> organizer_item list) handler"
where
  "create_organizer_job env body user =
     andthen open_session (\<lambda>_.
     andthen (guarded (resolve_body env body)) (\<lambda>res.
     andthen (expect (validate_job_request res (ob_confirmation body))) (\<lambda>_.
     andthen (uuid4 env) (\<lambda>i. andthen utcnow (\<lambda>now.
     let j = new_organizer_job i user now body (length (rs_items res)) in
     andthen (edit (\<lambda>d. d\<lparr>db_organizer_jobs := dict_set i j (db_organizer_jobs d)\<rparr>)) (\<lambda>_.
     andthen flush (\<lambda>_.
     andthen (fold_each (rs_items res) [] (add_organizer_item env i)) (\<lambda>items.
     andthen commit (\<lambda>_.
     andthen (start_work ''run_organizer'' i) (\<lambda>_.
     ret (j, items)))))))))))"

definition ordered_organizer_items :: "string \<Rightarrow> db \<Rightarrow> organizer_item list" where
  "ordered_organizer_items job d = sort_key (\<lambda>i. (oi_created_at i, oi_id i)) (organizer_items job d)"

definition owned_organizer_job :: "string \<Rightarrow> string \<Rightarrow> ('w, organizer_job) handler" where
  "owned_organizer_job job user =
     andthen (query (\<lambda>d. dict_get (db_organizer_jobs d) job)) (\<lambda>found.
     case found of
       Some j \<Rightarrow> if oj_user_id j = user then ret j else throw (HTTPException 404 ''organizer job not found'')
     | None \<Rightarrow> throw (HTTPException 404 ''organizer job not found''))"

definition get_organizer_job :: "string \<Rightarrow> string \<Rightarrow> ('w, organizer_job \<times> organizer_item list) handler" where
  "get_organizer_job job user =
     andthen open_session (\<lambda>_. andthen (owned_organizer_job job user) (\<lambda>j.
     andthen (query (ordered_organizer_items (oj_id j))) (\<lambda>items. ret (j, items))))"

definition list_organizer_jobs :: "string \<Rightarrow> db \<Rightarrow> (organizer_job \<times> organizer_item list) list" where
  "list_organizer_jobs user d =
     map (\<lambda>j. (j, ordered_organizer_items (oj_id j) d))
       (take 20 (order_desc (\<lambda>j. (oj_created_at j, oj_id j)) (select_rows (\<lambda>j. oj_user_id j = user) (db_organizer_jobs d))))"

definition retryable_failure :: "organizer_item \<Rightarrow> bool" where
  "retryable_failure i = (oi_status i = ''failed'' \<and> oi_retryable i)"

definition retry_organizer_job ::
  "string \<Rightarrow> string \<Rightarrow> ('w, organizer_job \<times> organizer_item list) handler"
where
  "retry_organizer_job job user =
     andthen open_session (\<lambda>_. andthen (owned_organizer_job job user) (\<lambda>j.
     andthen (query (ordered_organizer_items (oj_id j))) (\<lambda>items.
     if filter retryable_failure items = [] then throw (HTTPException 400 ''organizer job has no retryable failures'')
     else
       andthen (for_each (filter retryable_failure items) (\<lambda>i.
         edit_organizer_item (oi_id i) (\<lambda>x. x\<lparr>oi_status := ''pending'', oi_error := None\<rparr>))) (\<lambda>_.
       andthen (edit_organizer_job (oj_id j) (\<lambda>x. x\<lparr>oj_status := ''pending'', oj_error := None, oj_failed := 0\<rparr>)) (\<lambda>_.
       andthen commit (\<lambda>_.
       andthen (start_work ''run_organizer'' (oj_id j)) (\<lambda>_.
       andthen (query (\<lambda>d. (the (dict_get (db_organizer_jobs d) (oj_id j)), ordered_organizer_items (oj_id j) d))) ret)))))))"

section \<open>A job is what was confirmed\<close>

text \<open>
  Resolving a selection leaves the tables of the organizer alone, and identifiers are drawn in order.
\<close>

definition untouched :: "organizer_job table \<Rightarrow> organizer_item table \<Rightarrow> nat \<Rightarrow> 'w engine \<Rightarrow> bool" where
  "untouched js is n s \<longleftrightarrow> n \<le> st_drawn s \<and> part_is db_organizer_jobs js s \<and> part_is db_organizer_items is s"

lemma untouched_session [keeps_intro]:
  "keeps (untouched js is n) open_session" "keeps (untouched js is n) flush" "keeps (untouched js is n) commit"
  "keeps (untouched js is n) (query g)" "keeps (untouched js is n) utcnow" "keeps (untouched js is n) (uuid4 env)"
  "keeps (untouched js is n) (call m)" "keeps (untouched js is n) (expect r)"
  by (auto intro!: keepsI simp: run_simps untouched_def part_is_def)

lemma untouched_edit [keeps_intro]:
  "(\<And>d. db_organizer_jobs (f d) = db_organizer_jobs d) \<Longrightarrow> (\<And>d. db_organizer_items (f d) = db_organizer_items d) \<Longrightarrow>
     keeps (untouched js is n) (edit f)"
  by (auto intro!: keepsI simp: run_simps untouched_def part_is_def)

lemma untouched_resolve [keeps_intro]: "keeps (untouched js is n) (resolve_body env body)"
  by (auto simp: resolve_body_def load_fresh_credential_def load_credential_def save_credential_def refresh_credential_def
      Let_def drop_account_def intro!: keeps_intro split: exn.splits)

lemma untouched_guarded [keeps_intro]: "keeps (untouched js is n) m \<Longrightarrow> keeps (untouched js is n) (guarded m)"
  by (auto simp: guarded_def intro!: keeps_intro)

text \<open>The rows of a new job.\<close>

definition new_items :: "'w env \<Rightarrow> string \<Rightarrow> int \<Rightarrow> nat \<Rightarrow> resolved_item list \<Rightarrow> organizer_item list" where
  "new_items env job now n rs = map (\<lambda>(k, r). new_organizer_item (env_uuid env (n + k)) job now r) (enumerate 0 rs)"

lemma new_items_Cons:
  "new_items env job now n (r # rs) = new_organizer_item (env_uuid env n) job now r # new_items env job now (Suc n) rs"
  by (simp add: new_items_def enumerate_Suc_eq case_prod_beta comp_def)

lemma new_items_ids: "map oi_id (new_items env job now n rs) = map (env_uuid env) [n..<n + length rs]"
proof (induction rs arbitrary: n)
  case (Cons r rs)
  then show ?case by (simp add: new_items_Cons new_organizer_item_def upt_conv_Cons del: upt_Suc)
qed (simp add: new_items_def)

lemma new_items_image:
  "map (\<lambda>i. (oi_job_id i, oi_status i, oi_action i, oi_destructive i, oi_request i)) (new_items env job now n rs) =
     map (\<lambda>r. (job, ''pending'', action_value (ri_action r), ri_destructive r, ri_request r)) rs"
  by (induction rs arbitrary: n) (simp_all add: new_items_Cons new_organizer_item_def, simp add: new_items_def)

text \<open>Adding rows under fresh identifiers appends them.\<close>

lemma add_items_run:
  "inj (env_uuid env) \<Longrightarrow> (\<And>k. st_drawn s \<le> k \<Longrightarrow> dict_get (db_organizer_items (st_work s)) (env_uuid env k) = None) \<Longrightarrow>
   fold_each rs items (add_organizer_item env job) s =
     (Inr (items @ new_items env job (st_clock s) (st_drawn s) rs),
      s\<lparr>st_drawn := st_drawn s + length rs, st_work := (st_work s)\<lparr>db_organizer_items :=
        db_organizer_items (st_work s) @ map (\<lambda>i. (oi_id i, i)) (new_items env job (st_clock s) (st_drawn s) rs)\<rparr>\<rparr>)"
proof (induction rs arbitrary: s items)
  case Nil
  then show ?case by (simp add: run_simps new_items_def)
next
  case (Cons r rs)
  let ?i = "new_organizer_item (env_uuid env (st_drawn s)) job (st_clock s) r"
  let ?s = "s\<lparr>st_drawn := Suc (st_drawn s), st_work := (st_work s)\<lparr>db_organizer_items :=
     db_organizer_items (st_work s) @ [(env_uuid env (st_drawn s), ?i)]\<rparr>\<rparr>"
  have new: "dict_get (db_organizer_items (st_work s)) (env_uuid env (st_drawn s)) = None" using Cons.prems(2) by simp
  have "dict_get (db_organizer_items (st_work ?s)) (env_uuid env k) = None" if "st_drawn ?s \<le> k" for k
    using that Cons.prems(2) [of k] inj_eq [OF Cons.prems(1), of k "st_drawn s"]
    by (simp add: map_of_append map_add_def split: option.split)
  note IH = Cons.IH [OF Cons.prems(1) this, of "items @ [?i]"]
  have "oi_id ?i = env_uuid env (st_drawn s)" by (simp add: new_organizer_item_def)
  then show ?case
    using IH by (simp add: run_simps add_organizer_item_def Let_def dict_set_new [OF new] new_items_Cons)
qed

lemma guarded_Inr: "guarded m s = (Inr x, t) \<longleftrightarrow> m s = (Inr x, t)"
  by (simp add: guarded_def catching_def throw_def split: prod.split sum.split)

lemma validated:
  "validate_job_request res c = Inr () \<longleftrightarrow> rs_unsupported res = [] \<and> rs_items res \<noteq> [] \<and>
     (truthy (rs_confirmation_phrase res) \<longrightarrow> rs_confirmation_phrase res = Some (strip (or_str c [])))"
  by (auto simp: validate_job_request_def Let_def)

lemma phrase_nonempty: "confirmation_phrase d r \<noteq> Some []"
  by (auto simp: confirmation_phrase_def none_if_empty_def Let_def split: if_splits)

lemma phrase_truthy: "truthy (confirmation_phrase d r) \<longleftrightarrow> confirmation_phrase d r \<noteq> None"
  using phrase_nonempty [of d r] by (cases "confirmation_phrase d r") (auto simp: truthy_def)

lemma resolution_phrase:
  assumes "resolve_organizer_selection a cred sel w = (Inr res, w')"
  shows "truthy (rs_confirmation_phrase res) \<longleftrightarrow> rs_confirmation_phrase res \<noteq> None"
proof -
  from assms obtain d r where "rs_confirmation_phrase res = confirmation_phrase d r"
    unfolding resolve_organizer_selection_def by (auto simp: ok_simps Let_def split: sum.splits)
  then show ?thesis by (simp only: phrase_truthy)
qed

text \<open>
  C19. A job of the organizer is created only for a selection that was resolved without anything being
  unsupported, and only with the exact phrase when it destroys something. Its rows are then exactly
  the items of that resolution, all pending, and the job has been handed to the queue. A request
  that is refused, or that fails, leaves no trace in the tables of the organizer.
\<close>

theorem organizer_job_confirmed:
  assumes "create_organizer_job env body user s = (out, t)" and "inj (env_uuid env)"
    and "\<And>k. st_drawn s \<le> k \<Longrightarrow> dict_get (db_organizer_jobs (st_db s)) (env_uuid env k) = None \<and>
      dict_get (db_organizer_items (st_db s)) (env_uuid env k) = None"
  shows "case out of
      Inl e \<Rightarrow> db_organizer_jobs (st_db t) = db_organizer_jobs (st_db s) \<and> db_organizer_items (st_db t) = db_organizer_items (st_db s)
    | Inr (j, items) \<Rightarrow>
        (\<exists>a cred w w' res. get_adapter (env_registry env) (ob_provider body) = Inr a \<and>
           resolve_organizer_selection a cred (ob_selection body) w = (Inr res, w') \<and> rs_unsupported res = [] \<and>
           (list_ex ri_destructive (rs_items res) \<longrightarrow> rs_confirmation_phrase res = Some (strip (or_str (ob_confirmation body) []))) \<and>
           map (\<lambda>i. (oi_job_id i, oi_status i, oi_action i, oi_destructive i, oi_request i)) items =
             map (\<lambda>r. (oj_id j, ''pending'', action_value (ri_action r), ri_destructive r, ri_request r)) (rs_items res)) \<and>
        oj_user_id j = user \<and> oj_status j = ''pending'' \<and>
        db_organizer_jobs (st_db t) = db_organizer_jobs (st_db s) @ [(oj_id j, j)] \<and>
        db_organizer_items (st_db t) = db_organizer_items (st_db s) @ map (\<lambda>i. (oi_id i, i)) items \<and>
        (''run_organizer'', oj_id j, []) \<in> set (st_queue t)"
proof -
  let ?js = "db_organizer_jobs (st_db s)" and ?is = "db_organizer_items (st_db s)" and ?s = "s\<lparr>st_work := st_db s\<rparr>"
  have s: "untouched ?js ?is (st_drawn s) ?s" by (simp add: untouched_def part_is_def)
  obtain got u where g: "guarded (resolve_body env body) ?s = (got, u)" by force
  have u: "untouched ?js ?is (st_drawn s) u" using keepsD [OF untouched_guarded [OF untouched_resolve] s] g by (metis snd_conv)
  show ?thesis
  proof (cases got)
    case (Inl e)
    with g u assms(1) show ?thesis by (auto simp: create_organizer_job_def run_simps untouched_def part_is_def)
  next
    case (Inr res)
    from g [unfolded Inr guarded_Inr] obtain a cred w w' where a: "get_adapter (env_registry env) (ob_provider body) = Inr a"
      and r: "resolve_organizer_selection a cred (ob_selection body) w = (Inr res, w')"
      unfolding resolve_body_def by (auto simp: ok_simps)
    let ?i = "env_uuid env (st_drawn u)" and ?n = "Suc (st_drawn u)"
    let ?j = "new_organizer_job ?i user (st_clock u) body (length (rs_items res))"
    let ?items = "new_items env ?i (st_clock u) ?n (rs_items res)"
    show ?thesis
    proof (cases "validate_job_request res (ob_confirmation body)")
      case (Inl e)
      with g Inr u assms(1) show ?thesis by (auto simp: create_organizer_job_def run_simps untouched_def part_is_def)
    next
      case ok: (Inr v)
      have new: "dict_get ?js ?i = None" "\<And>k. ?n \<le> k \<Longrightarrow> dict_get ?is (env_uuid env k) = None"
        using u assms(3) by (simp_all add: untouched_def)
      have w: "db_organizer_jobs (st_work u) = ?js" "db_organizer_items (st_work u) = ?is"
        "db_organizer_jobs (st_db u) = ?js" "db_organizer_items (st_db u) = ?is"
        using u by (simp_all add: untouched_def part_is_def)
      let ?u = "u\<lparr>st_drawn := ?n, st_work := (st_work u)\<lparr>db_organizer_jobs := ?js @ [(?i, ?j)]\<rparr>\<rparr>"
      have fold: "fold_each (rs_items res) [] (add_organizer_item env ?i) ?u = (Inr ?items,
          ?u\<lparr>st_drawn := ?n + length (rs_items res), st_work := (st_work ?u)\<lparr>db_organizer_items := ?is @ map (\<lambda>i. (oi_id i, i)) ?items\<rparr>\<rparr>)"
        using add_items_run [OF assms(2), of ?u "rs_items res" "[]" ?i] new(2) by (simp add: w)
      have run: "create_organizer_job env body user s =
          (if \<not> constraints_ok (st_work ?u) then (Inl IntegrityError, ?u)
           else if \<not> constraints_ok ((st_work ?u)\<lparr>db_organizer_items := ?is @ map (\<lambda>i. (oi_id i, i)) ?items\<rparr>)
           then (Inl IntegrityError, ?u\<lparr>st_drawn := ?n + length (rs_items res), st_work := (st_work ?u)\<lparr>db_organizer_items := ?is @ map (\<lambda>i. (oi_id i, i)) ?items\<rparr>\<rparr>)
           else (Inr (?j, ?items), u\<lparr>st_drawn := ?n + length (rs_items res),
             st_work := (st_work ?u)\<lparr>db_organizer_items := ?is @ map (\<lambda>i. (oi_id i, i)) ?items\<rparr>,
             st_db := (st_work ?u)\<lparr>db_organizer_items := ?is @ map (\<lambda>i. (oi_id i, i)) ?items\<rparr>,
             st_queue := st_queue u @ [(''run_organizer'', ?i, [])]\<rparr>))"
        using g Inr ok fold by (simp add: create_organizer_job_def run_simps start_work_def Let_def w dict_set_new [OF new(1)])
      from ok have "validate_job_request res (ob_confirmation body) = Inr ()" by simp
      then have v: "rs_unsupported res = []"
        "truthy (rs_confirmation_phrase res) \<longrightarrow> rs_confirmation_phrase res = Some (strip (or_str (ob_confirmation body) []))"
        unfolding validated by simp_all
      have "list_ex ri_destructive (rs_items res) \<longrightarrow> truthy (rs_confirmation_phrase res)"
        using resolution_sound [OF r] resolution_phrase [OF r] by simp
      with v a r new_items_image [of env ?i "st_clock u" ?n "rs_items res"] show ?thesis
        using run assms(1) w by (auto simp: new_organizer_job_def split: if_splits)
    qed
  qed
qed

definition organizer_env :: "fake_world env" where
  "organizer_env = sample_env\<lparr>env_registry := [(''fake'', removing_adapter)]\<rparr>"

definition organizer_engine :: "fake_world engine" where
  "organizer_engine = (engine_on account_db)\<lparr>st_world := own_world\<rparr>"

theorem organizer_job_confirmed_witness:
  "\<exists>j items t. create_organizer_job organizer_env
       \<lparr>ob_provider = ''fake'', ob_account_id = ''acc-1'', ob_selection = own_selection, ob_confirmation = Some '' REMOVE 1 SONG ''\<rparr>
       ''owner'' organizer_engine = (Inr (j, items), t) \<and>
     length items = 1 \<and> db_organizer_items (st_db t) = map (\<lambda>i. (oi_id i, i)) items"
proof -
  let ?body = "\<lparr>ob_provider = ''fake'', ob_account_id = ''acc-1'', ob_selection = own_selection, ob_confirmation = Some '' REMOVE 1 SONG ''\<rparr>"
  obtain res i where r: "resolve_organizer_selection removing_adapter (runtime_credential sample_account sample_credential)
        own_selection own_world = (Inr res, own_world)"
    and res: "rs_items res = [i]" "rs_unsupported res = []" "rs_confirmation_phrase res = Some ''REMOVE 1 SONG''"
    using own_removal by blast
  have inj: "inj (env_uuid organizer_env)" by (simp add: organizer_env_def sample_env_def inj_def)
  have c: "load_fresh_credential organizer_env ''acc-1'' removing_adapter (Some ''fake'') None organizer_engine =
     (Inr (runtime_credential sample_account sample_credential, sample_account), organizer_engine)"
    by (simp add: load_fresh_credential_def load_credential_def run_simps organizer_engine_def engine_on_def account_db_def
        empty_db_def sample_account_def sample_credential_def rows_def newest_credential_def
        order_desc_def select_rows_def runtime_credential_def fake_cred_def expires_soon_def Let_def)
  have e: "organizer_engine\<lparr>st_work := st_db organizer_engine\<rparr> = organizer_engine" "st_world organizer_engine = own_world"
    "st_drawn organizer_engine = 0" "st_work organizer_engine = account_db" "db_organizer_jobs account_db = []"
    "organizer_engine\<lparr>st_world := own_world\<rparr> = organizer_engine"
    by (simp_all add: organizer_engine_def engine_on_def account_db_def empty_db_def)
  have g: "get_adapter (env_registry organizer_env) ''fake'' = Inr removing_adapter"
    by (simp add: organizer_env_def get_adapter_def)
  have "resolve_body organizer_env ?body organizer_engine = (Inr res, organizer_engine)"
    using r e by (simp add: resolve_body_def run_simps c g)
  moreover have "validate_job_request res (Some '' REMOVE 1 SONG '') = Inr ()"
  proof -
    have "strip '' REMOVE 1 SONG '' = ''REMOVE 1 SONG''" by code_simp
    then show ?thesis unfolding validated using res by simp
  qed
  ultimately obtain j items t where run: "create_organizer_job organizer_env ?body ''owner'' organizer_engine = (Inr (j, items), t)"
    and n: "length items = 1"
    by (simp add: create_organizer_job_def run_simps e guarded_def res start_work_def add_organizer_item_def Let_def)
  from organizer_job_confirmed [OF run inj] n show ?thesis
    using run by (simp add: organizer_engine_def engine_on_def account_db_def empty_db_def)
qed

end
