(* ===== verification/Migration_Start.thy ===== *)
theory Migration_Start
  imports Migration_Source Migration_Library Sync_Rules
begin

text \<open>
  How a migration begins (\<open>app/api/migrations.py\<close>): the request and its validation, the search for
  feedback loops of the synchronization it may end with, the preflight with its warnings, and the
  creation of the job. The lock of the synchronization graph makes the second search and the
  commit that follows it one step, as every handler is here.
\<close>

section \<open>The request\<close>

record continuous_intent =
  ci_mode :: sync_mode
  ci_cadence_minutes :: int
  ci_timezone :: string

record create_migration_body =
  cm_source_provider :: "string option"
  cm_target_provider :: string
  cm_source_account_id :: "string option"
  cm_source_snapshot_id :: "string option"
  cm_target_account_id :: string
  cm_playlist_ids :: "string list"
  cm_tracks :: "(string, string list) dict"
  cm_saved_album_ids :: "string list"
  cm_followed_artist_ids :: "string list"
  cm_continuous_sync :: "continuous_intent option"
  cm_acknowledge_warnings :: bool

definition validate_intent :: "'w env \<Rightarrow> continuous_intent \<Rightarrow> exn + unit" where
  "validate_intent env i =
     (let lo = set_sync_min_cadence_minutes (env_settings env); hi = set_sync_max_cadence_minutes (env_settings env)
      in if ci_cadence_minutes i < 1 then Inl (ValueError ''cadence_minutes must be at least 1'')
         else if \<not> (lo \<le> ci_cadence_minutes i \<and> ci_cadence_minutes i \<le> hi)
         then Inl (ValueError (''cadence_minutes must be between '' @ str_int lo @ '' and '' @ str_int hi))
         else if \<not> env_zone_known env (ci_timezone i) then Inl (ValueError ''timezone must be a valid IANA name'')
         else Inr ())"

definition validate_source :: "create_migration_body \<Rightarrow> exn + unit" where
  "validate_source b =
     (let live = truthy (cm_source_provider b) \<and> truthy (cm_source_account_id b);
          partial_live = (truthy (cm_source_provider b) \<noteq> truthy (cm_source_account_id b));
          snapshot = truthy (cm_source_snapshot_id b)
      in if partial_live \<or> live = snapshot
         then Inl (ValueError ''provide either source_provider/source_account_id or source_snapshot_id'')
         else if cm_continuous_sync b \<noteq> None \<and>
             (\<not> live \<or> length (cm_playlist_ids b) \<noteq> 1 \<or> list_ex (\<lambda>(p, ts). ts \<noteq> []) (cm_tracks b) \<or>
              cm_saved_album_ids b \<noteq> [] \<or> cm_followed_artist_ids b \<noteq> [])
         then Inl (ValueError ''continuous sync requires one full provider playlist'')
         else Inr ())"

definition has_items :: "create_migration_body \<Rightarrow> bool" where
  "has_items b = (cm_playlist_ids b \<noteq> [] \<or> cm_saved_album_ids b \<noteq> [] \<or> cm_followed_artist_ids b \<noteq> [])"

definition validate_request :: "'w env \<Rightarrow> create_migration_body \<Rightarrow> exn + unit" where
  "validate_request env b =
     (case (case cm_continuous_sync b of None \<Rightarrow> Inr () | Some i \<Rightarrow> validate_intent env i) of
        Inl e \<Rightarrow> Inl e | Inr _ \<Rightarrow> validate_source b)"

text \<open>The selection as it is stored.\<close>

definition stored_intent :: "continuous_intent \<Rightarrow> sync_intent" where
  "stored_intent i =
     \<lparr>si_status = None, si_sync_rule_id = None, si_mode = Some (mode_value (ci_mode i)),
      si_cadence_minutes = Some (ci_cadence_minutes i), si_timezone = Some (ci_timezone i), si_error = None\<rparr>"

definition stored_selection :: "create_migration_body \<Rightarrow> selection" where
  "stored_selection b = empty_selection\<lparr>sel_playlist_ids := cm_playlist_ids b, sel_tracks := cm_tracks b,
     sel_saved_album_ids := cm_saved_album_ids b, sel_followed_artist_ids := cm_followed_artist_ids b,
     sel_continuous_sync := map_option stored_intent (cm_continuous_sync b)\<rparr>"

section \<open>Errors\<close>

definition import_problem :: "string \<Rightarrow> string \<Rightarrow> json" where
  "import_problem code message = JObj [(''code'', JStr code), (''message'', JStr message)]"

definition local_import_http_error :: "exn \<Rightarrow> exn" where
  "local_import_http_error e =
     (case e of
        LocalImportNotFound _ \<Rightarrow> HTTPException 404 ''Local import not found''
      | LocalImportExpired _ \<Rightarrow>
          HTTPProblem 410 (import_problem ''import_expired'' ''This local import expired. Upload the file again.'')
      | LocalImportStateError m code \<Rightarrow>
          HTTPProblem (if code = ''import_queued'' then 409 else 400) (import_problem code m)
      | _ \<Rightarrow> e)"

definition is_import_error :: "exn \<Rightarrow> bool" where
  "is_import_error e = (case e of LocalImportNotFound _ \<Rightarrow> True | LocalImportExpired _ \<Rightarrow> True
     | LocalImportStateError _ _ \<Rightarrow> True | _ \<Rightarrow> False)"

definition start_error :: "exn \<Rightarrow> exn" where
  "start_error e =
     (case e of
        SnapshotIntegrityError _ \<Rightarrow> HTTPException 400 (exn_text e)
      | _ \<Rightarrow> if is_import_error e then local_import_http_error e else api_error e)"

section \<open>Feedback loops of a continuous migration\<close>

definition continuous_loop :: exn where
  "continuous_loop = HTTPException 409 ''continuous sync would create a feedback loop''"

definition setup_pending :: exn where
  "setup_pending = HTTPException 409 ''continuous sync setup is already pending for this target account''"

definition continuous_source :: "create_migration_body \<Rightarrow> endpoint" where
  "continuous_source b = (or_str (cm_source_provider b) [], or_str (cm_source_account_id b) [], hd (cm_playlist_ids b))"

definition continuous_target :: "create_migration_body \<Rightarrow> account" where
  "continuous_target b = (cm_target_provider b, cm_target_account_id b)"

definition intent_account_loop :: "sync_rule list \<Rightarrow> pending_sync list \<Rightarrow> endpoint \<Rightarrow> account \<Rightarrow> bool" where
  "intent_account_loop rs ps source target =
     reaches (adjacency_of (account_edges rs @ pending_edges ps)) (account_of source) [target] []"

definition intent_playlist_loop :: "sync_rule list \<Rightarrow> endpoint \<Rightarrow> account \<Rightarrow> bool" where
  "intent_playlist_loop rs source target =
     (let adj = adjacency_of (playlist_edges rs)
      in reaches adj source (filter (\<lambda>e. account_of e = target) (map fst adj)) [])"

definition ensure_no_continuous_sync_feedback :: "create_migration_body \<Rightarrow> string \<Rightarrow> ('w, unit) handler" where
  "ensure_no_continuous_sync_feedback b user =
     (if cm_continuous_sync b = None then ret ()
      else
        andthen (query (rules_of user None)) (\<lambda>rs.
        andthen (query (pending_continuous_syncs user)) (\<lambda>ps.
        let source = continuous_source b; target = continuous_target b in
        andthen (when_do (list_ex (\<lambda>e. ps_source e = source \<and> ps_target_account e = target) ps) (throw setup_pending)) (\<lambda>_.
        andthen (when_do (intent_account_loop rs ps source target) (throw continuous_loop)) (\<lambda>_.
        when_do (intent_playlist_loop rs source target) (throw continuous_loop))))))"

section \<open>Preflight\<close>

definition unsupported_by :: "'w adapter \<Rightarrow> string \<Rightarrow> exn" where
  "unsupported_by a act = Unsupported (inf_display_name (ad_info a) @ '' cannot '' @ act)"

definition album_reader_of :: "'w adapter \<Rightarrow> exn + 'w album_reader" where
  "album_reader_of a = (case ad_album_reader a of None \<Rightarrow> Inl (unsupported_by a ''read saved albums'') | Some r \<Rightarrow> Inr r)"

definition album_writer_of :: "'w adapter \<Rightarrow> exn + 'w album_writer" where
  "album_writer_of a = (case ad_album_writer a of None \<Rightarrow> Inl (unsupported_by a ''write saved albums'') | Some r \<Rightarrow> Inr r)"

definition artist_reader_of :: "'w adapter \<Rightarrow> exn + 'w artist_reader" where
  "artist_reader_of a = (case ad_artist_reader a of
     None \<Rightarrow> Inl (unsupported_by a ''read followed or favorite artists'') | Some r \<Rightarrow> Inr r)"

definition artist_writer_of :: "'w adapter \<Rightarrow> exn + 'w artist_writer" where
  "artist_writer_of a = (case ad_artist_writer a of
     None \<Rightarrow> Inl (unsupported_by a ''write followed or favorite artists'') | Some r \<Rightarrow> Inr r)"

definition read_each_present ::
  "(string \<Rightarrow> ('w, exn, 'a) proc) \<Rightarrow> string \<Rightarrow> (string \<times> bool) list \<Rightarrow> ('w, exn, unit) proc"
where
  "read_each_present rd gone pairs =
     for_each pairs (\<lambda>(i, present).
       if \<not> present then throw (NotFound (gone @ i)) else andthen (rd i) (\<lambda>_. ret ()))"

definition validate_selected_albums :: "'w adapter \<Rightarrow> credential \<Rightarrow> string list \<Rightarrow> ('w, exn, unit) proc" where
  "validate_selected_albums a cred ids =
     (case album_reader_of a of Inl e \<Rightarrow> throw e | Inr r \<Rightarrow>
     (case require_saved_albums_source (ad_info a) cred of Inl e \<Rightarrow> throw e | Inr _ \<Rightarrow>
        andthen (alr_contains r cred ids) (\<lambda>present.
        if length present \<noteq> length ids then throw (ProviderError ''source returned an invalid saved-album membership response'')
        else read_each_present (alr_read r cred) ''saved album is no longer in the source library: '' (zip ids present))))"

definition validate_selected_artists :: "'w adapter \<Rightarrow> credential \<Rightarrow> string list \<Rightarrow> ('w, exn, unit) proc" where
  "validate_selected_artists a cred ids =
     (case artist_reader_of a of Inl e \<Rightarrow> throw e | Inr r \<Rightarrow>
     (case require_followed_artists_source (ad_info a) cred of Inl e \<Rightarrow> throw e | Inr _ \<Rightarrow>
        andthen (arr_contains r cred ids) (\<lambda>present.
        if length present \<noteq> length ids then throw (ProviderError ''source returned an invalid artist membership response'')
        else read_each_present (arr_read r cred) ''artist is no longer in the source library: '' (zip ids present))))"

definition validate_selected_library_entities ::
  "'w adapter \<Rightarrow> credential \<Rightarrow> create_migration_body \<Rightarrow> ('w, exn, unit) proc"
where
  "validate_selected_library_entities a cred b =
     andthen (when_do (cm_saved_album_ids b \<noteq> []) (validate_selected_albums a cred (cm_saved_album_ids b))) (\<lambda>_.
     when_do (cm_followed_artist_ids b \<noteq> []) (validate_selected_artists a cred (cm_followed_artist_ids b)))"

definition validate_target_capabilities ::
  "'w adapter \<Rightarrow> credential \<Rightarrow> (string, playlist) dict \<Rightarrow> create_migration_body \<Rightarrow> exn + unit"
where
  "validate_target_capabilities ta cred selected b =
     (let kinds = map (\<lambda>(p, pl). pl_kind pl) selected; caps = inf_capabilities (ad_info ta);
          check = (\<lambda>need r. if need then (case r of Inl e \<Rightarrow> Inl e | Inr _ \<Rightarrow> Inr ()) else Inr ())
      in if STANDARD \<in> set kinds \<and> \<not> (can caps CREATE_PLAYLIST \<and> can caps ADD_TRACKS)
         then Inl (HTTPException 400 (inf_display_name (ad_info ta) @ '' cannot write playlists''))
         else case check (LIKED_TRACKS \<in> set kinds)
             (case require_liked_tracks_target (ad_info ta) cred of Inl e \<Rightarrow> Inl e | Inr _ \<Rightarrow> Inr ()) of
           Inl e \<Rightarrow> Inl e
         | Inr _ \<Rightarrow>
             (case check (cm_saved_album_ids b \<noteq> [])
                 (case album_writer_of ta of Inl e \<Rightarrow> Inl e | Inr _ \<Rightarrow> require_saved_albums_target (ad_info ta) cred) of
                Inl e \<Rightarrow> Inl e
              | Inr _ \<Rightarrow>
                  check (cm_followed_artist_ids b \<noteq> [])
                    (case artist_writer_of ta of Inl e \<Rightarrow> Inl e | Inr _ \<Rightarrow> require_followed_artists_target (ad_info ta) cred)))"

type_synonym warning = "string \<times> string"

record selection_summary =
  sms_playlists :: nat
  sms_tracks :: nat
  sms_saved_albums :: nat
  sms_followed_artists :: nat

definition partial_warnings :: "'w migration_source \<Rightarrow> string list \<Rightarrow> warning list" where
  "partial_warnings src ids =
     (if src_kind src \<noteq> ''snapshot'' then []
      else concat (map (\<lambda>p. case source_collection src p of
          Some c \<Rightarrow> if ac_complete c then [] else
            [(''partial_snapshot_collection'', [quote] @ ac_name c @ [quote] @ '' was only partially captured: '' @
              (case ac_error c of None \<Rightarrow> ''None'' | Some e \<Rightarrow> e) @ ''.'')]
        | None \<Rightarrow> []) ids))"

definition tracks_migrated_today :: "int \<Rightarrow> string \<Rightarrow> string \<Rightarrow> string \<Rightarrow> db \<Rightarrow> nat" where
  "tracks_migrated_today now user provider account d =
     (let today = now - now mod 86400;
          counted = (\<lambda>j. mj_user_id j = user \<and> mj_target_provider j = provider \<and> mj_target_account_id j = account \<and>
            today \<le> mj_created_at j)
      in length (select_rows (\<lambda>i. ji_entity_type i = E_TRACK \<and>
           (case dict_get (db_jobs d) (ji_job_id i) of None \<Rightarrow> False | Some j \<Rightarrow> counted j)) (db_items d)))"

definition job_wait_remaining :: "int \<Rightarrow> int \<Rightarrow> string \<Rightarrow> string \<Rightarrow> string \<Rightarrow> db \<Rightarrow> int" where
  "job_wait_remaining now gap user provider account d =
     (case order_desc mj_created_at (select_rows (\<lambda>j. mj_user_id j = user \<and> mj_target_provider j = provider \<and>
            mj_target_account_id j = account) (db_jobs d)) of
        [] \<Rightarrow> 0 | j # _ \<Rightarrow> max 0 (gap - (now - mj_created_at j)))"

text \<open>The warnings that depend on sizes and times only.\<close>

definition limit_warnings :: "settings \<Rightarrow> nat \<Rightarrow> nat \<Rightarrow> nat \<Rightarrow> nat \<Rightarrow> int \<Rightarrow> warning list" where
  "limit_warnings st playlists tracks unsupported migrated_today wait =
     (if int playlists > set_migration_safe_max_playlists_per_job st
      then [(''playlist_count'', ''Safe default is 1 playlist per job. Start a single playlist unless you accept the extra account-risk.'')] else []) @
     (if int tracks > set_migration_safe_max_tracks_per_job st
      then [(''track_count'', ''Safe default is '' @ str_int (set_migration_safe_max_tracks_per_job st) @
        '' tracks per job; this job has '' @ str_nat tracks @ ''.'')] else []) @
     (if unsupported \<noteq> 0
      then [(''unsupported_items'', str_nat unsupported @
        '' selected local or malformed playlist entries cannot be matched and will be skipped.'')] else []) @
     (if int (migrated_today + tracks) > set_migration_safe_daily_tracks st
      then [(''daily_limit'', ''Safe default is '' @ str_int (set_migration_safe_daily_tracks st) @
        '' tracks/day; today would reach '' @ str_nat (migrated_today + tracks) @ ''.'')] else []) @
     (if wait > 0
      then [(''job_spacing'', ''Safe default is waiting at least '' @ str_int (set_migration_safe_min_job_gap_s st div 60) @
        '' minutes between jobs; wait about '' @ str_int wait @ '' seconds.'')] else [])"

fun name_clash :: "'w adapter \<Rightarrow> credential \<Rightarrow> playlist \<Rightarrow> playlist_ref list \<Rightarrow> ('w, bool) handler" where
  "name_clash ta cred pl [] = ret False"
| "name_clash ta cred pl (r # rs) =
     andthen (unless_missing (call (ad_read_playlist ta cred r))) (\<lambda>found.
     case found of
       None \<Rightarrow> name_clash ta cred pl rs
     | Some t \<Rightarrow>
         if pl_tracks t \<noteq> [] \<and> \<not> has_track_overlap (pl_tracks pl) (pl_tracks t) then ret True
         else name_clash ta cred pl rs)"

definition same_name_warnings :: "'w adapter \<Rightarrow> credential \<Rightarrow> (string, playlist) dict \<Rightarrow> ('w, warning list) handler" where
  "same_name_warnings ta cred selected =
     andthen (call (collect (ad_iter_playlists ta cred))) (\<lambda>refs.
     fold_each (filter (\<lambda>(p, pl). pl_kind pl \<noteq> LIKED_TRACKS) selected) [] (\<lambda>ws (p, pl).
       andthen (name_clash ta cred pl (filter (\<lambda>r. ref_kind r = STANDARD \<and> same_name (pl_name pl) r) refs)) (\<lambda>clash.
       ret (ws @ (if clash then [(''same_name_different_tracks'', ''Target already has a playlist named '' @ [quote] @
         pl_name pl @ [quote] @ '' with different songs.'')] else [])))))"

definition artist_semantics_warnings :: "'w adapter \<Rightarrow> 'w adapter \<Rightarrow> string list \<Rightarrow> warning list" where
  "artist_semantics_warnings sa ta ids =
     (if ids = [] then []
      else case (inf_artist_semantics (ad_info sa), inf_artist_semantics (ad_info ta)) of
        (Some a, Some b) \<Rightarrow>
          if a = b then []
          else [(''artist_semantics'', inf_display_name (ad_info sa) @ '' '' @ semantics_value a @ '' artists will become '' @
            inf_display_name (ad_info ta) @ '' '' @ semantics_value b @ '' artists.'')]
      | _ \<Rightarrow> [])"

definition check_intent ::
  "'w env \<Rightarrow> 'w adapter \<Rightarrow> (string, playlist) dict \<Rightarrow> create_migration_body \<Rightarrow> exn + unit"
where
  "check_intent env ta selected b =
     (case cm_continuous_sync b of
        None \<Rightarrow> Inr ()
      | Some i \<Rightarrow>
          (case validate_schedule env (ci_cadence_minutes i) (ci_timezone i) of
             Inl e \<Rightarrow> Inl e
           | Inr _ \<Rightarrow>
               if ci_mode i = MIRROR
               then (case dict_get selected (hd (cm_playlist_ids b)) of
                       None \<Rightarrow> Inl (KeyError (hd (cm_playlist_ids b)))
                     | Some pl \<Rightarrow> ensure_mirror_available ta (pl_kind pl))
               else Inr ()))"

definition preflight ::
  "'w env \<Rightarrow> create_migration_body \<Rightarrow> 'w migration_source \<Rightarrow> string \<Rightarrow> ('w, warning list \<times> selection_summary) handler"
where
  "preflight env b src user =
     (let st = env_settings env; tp = cm_target_provider b; tacc = cm_target_account_id b in
      andthen (expect (get_adapter (env_registry env) tp)) (\<lambda>ta.
      andthen (load_fresh_credential env tacc ta (Some tp) (Some user)) (\<lambda>(cred, _).
      andthen (selected_playlists src (cm_playlist_ids b) (cm_tracks b)) (\<lambda>selected.
      andthen (if src_kind src = ''provider''
        then (case (src_adapter src, src_credential src) of
                (Some sa, Some scred) \<Rightarrow> call (validate_selected_library_entities sa scred b)
              | _ \<Rightarrow> throw (ValueError ''provider migration source is unavailable''))
        else ret ()) (\<lambda>_.
      andthen (expect (validate_target_capabilities ta cred selected b)) (\<lambda>_.
      andthen (expect (check_intent env ta selected b)) (\<lambda>_.
      let tracks = concat (map (\<lambda>(p, pl). pl_tracks pl) selected) in
      andthen utcnow (\<lambda>now.
      andthen (query (tracks_migrated_today now user tp tacc)) (\<lambda>today.
      andthen (query (job_wait_remaining now (set_migration_safe_min_job_gap_s st) user tp tacc)) (\<lambda>wait.
      andthen (same_name_warnings ta cred selected) (\<lambda>clashes.
      ret (partial_warnings src (cm_playlist_ids b) @
           limit_warnings st (length (cm_playlist_ids b)) (length tracks)
             (length (filter (\<lambda>t. \<not> is_migratable t) tracks)) today wait @
           clashes @
           (case src_adapter src of None \<Rightarrow> [] | Some sa \<Rightarrow> artist_semantics_warnings sa ta (cm_followed_artist_ids b)),
           \<lparr>sms_playlists = length (cm_playlist_ids b), sms_tracks = length tracks,
            sms_saved_albums = length (cm_saved_album_ids b),
            sms_followed_artists = length (cm_followed_artist_ids b)\<rparr>))))))))))))"

record 'w validated_preflight =
  vp_source :: "'w migration_source"
  vp_warnings :: "warning list"
  vp_summary :: selection_summary

definition open_source :: "'w env \<Rightarrow> create_migration_body \<Rightarrow> string \<Rightarrow> ('w, 'w migration_source) handler" where
  "open_source env b user =
     (let library = cm_saved_album_ids b \<noteq> [] \<or> cm_followed_artist_ids b \<noteq> [] in
      if truthy (cm_source_snapshot_id b)
      then if library then throw (HTTPException 400 ''Snapshot sources support playlist tracks only'')
           else open_snapshot_source env (the (cm_source_snapshot_id b)) user
      else
        let provider = or_str (cm_source_provider b) []; account = or_str (cm_source_account_id b) [] in
        if provider \<in> import_record_providers \<and> library
        then throw (HTTPException 400 ''Import sources support playlist tracks only'')
        else open_migration_source env provider account user None)"

definition validated_preflight ::
  "'w env \<Rightarrow> create_migration_body \<Rightarrow> string \<Rightarrow> ('w, 'w validated_preflight) handler"
where
  "validated_preflight env b user =
     andthen (expect (get_adapter (env_registry env) (cm_target_provider b))) (\<lambda>_.
     andthen (load_credential (cm_target_account_id b) (Some (cm_target_provider b)) (Some user)) (\<lambda>_.
     andthen (open_source env b user) (\<lambda>src.
     if cm_playlist_ids b \<noteq> [] \<and> \<not> can_read_tracks src
     then throw (HTTPException 400 (src_display_name src @ '' cannot read tracks''))
     else
       andthen (preflight env b src user) (\<lambda>(warnings, summary).
       ret \<lparr>vp_source = src, vp_warnings = warnings, vp_summary = summary\<rparr>))))"

section \<open>The endpoints\<close>

definition warning_json :: "warning \<Rightarrow> json" where
  "warning_json w = import_problem (fst w) (snd w)"

definition warnings_view :: "'w validated_preflight \<Rightarrow> json" where
  "warnings_view p = JObj
     [(''code'', JStr ''migration_warnings''),
      (''message'', JStr ''Review and acknowledge migration warnings before starting.''),
      (''warnings'', JList (map warning_json (vp_warnings p))),
      (''summary'', JObj
        [(''playlists'', JInt (int (sms_playlists (vp_summary p)))), (''tracks'', JInt (int (sms_tracks (vp_summary p)))),
         (''saved_albums'', JInt (int (sms_saved_albums (vp_summary p)))),
         (''followed_artists'', JInt (int (sms_followed_artists (vp_summary p))))])]"

definition nothing_selected :: exn where
  "nothing_selected = HTTPException 400 ''Select at least one item to migrate''"

definition preflight_migration :: "'w env \<Rightarrow> create_migration_body \<Rightarrow> string \<Rightarrow> ('w, json) handler" where
  "preflight_migration env b user =
     andthen open_session (\<lambda>_.
     if \<not> has_items b then throw nothing_selected
     else
       andthen (ensure_no_continuous_sync_feedback b user) (\<lambda>_.
       catching (andthen (validated_preflight env b user) (\<lambda>p. andthen commit (\<lambda>_. ret (warnings_view p))))
         (\<lambda>e. throw (start_error e))))"

definition new_migration_job ::
  "string \<Rightarrow> int \<Rightarrow> string \<Rightarrow> create_migration_body \<Rightarrow> 'w validated_preflight \<Rightarrow> migration_job"
where
  "new_migration_job i now user b p =
     \<lparr>mj_id = i, mj_user_id = user, mj_source_kind = src_kind (vp_source p),
      mj_source_provider = src_provider (vp_source p), mj_target_provider = cm_target_provider b,
      mj_source_account_id = src_account_id (vp_source p), mj_source_snapshot_id = src_snapshot_id (vp_source p),
      mj_target_account_id = cm_target_account_id b, mj_source_share_id = None, mj_source_snapshot = None,
      mj_selection = stored_selection b, mj_status = ''pending'', mj_total = 0, mj_done = 0, mj_failed = 0,
      mj_error = None, mj_origin = ''manual'', mj_sync_run_id = None, mj_result_summary = None,
      mj_created_at = now, mj_started_at = None, mj_completed_at = None, mj_details_expires_at = None,
      mj_details_purged_at = None, mj_warnings = vp_warnings p\<rparr>"

definition claim_import :: "'w env \<Rightarrow> 'w migration_source \<Rightarrow> string \<Rightarrow> string \<Rightarrow> ('w, unit) handler" where
  "claim_import env src user job =
     (if src_kind src = ''import''
      then catching (andthen (queue_import env (src_account_id src) user job) (\<lambda>_. ret ()))
        (\<lambda>e. if is_import_error e then andthen rollback (\<lambda>_. throw (local_import_http_error e)) else throw e)
      else ret ())"

definition add_migration ::
  "'w env \<Rightarrow> create_migration_body \<Rightarrow> string \<Rightarrow> 'w validated_preflight \<Rightarrow> ('w, migration_job) handler"
where
  "add_migration env b user p =
     andthen (uuid4 env) (\<lambda>i. andthen utcnow (\<lambda>now.
     let j = new_migration_job i now user b p in
     andthen (edit (\<lambda>d. d\<lparr>db_jobs := dict_set i j (db_jobs d)\<rparr>)) (\<lambda>_.
     andthen flush (\<lambda>_.
     andthen (claim_import env (vp_source p) user i) (\<lambda>_.
     andthen commit (\<lambda>_.
     andthen (start_work ''run_migration'' i) (\<lambda>_. ret j)))))))"

definition create_migration :: "'w env \<Rightarrow> create_migration_body \<Rightarrow> string \<Rightarrow> ('w, migration_job) handler" where
  "create_migration env b user =
     andthen open_session (\<lambda>_.
     if \<not> has_items b then throw nothing_selected
     else
       andthen (ensure_no_continuous_sync_feedback b user) (\<lambda>_.
       andthen (catching (validated_preflight env b user) (\<lambda>e. throw (start_error e))) (\<lambda>p.
       if vp_warnings p \<noteq> [] \<and> \<not> cm_acknowledge_warnings b
       then andthen commit (\<lambda>_. throw (HTTPProblem 409 (warnings_view p)))
       else
         andthen (ensure_no_continuous_sync_feedback b user) (\<lambda>_. add_migration env b user p))))"

section \<open>What starting leaves alone\<close>

definition starting :: "migration_job table \<Rightarrow> sync_rule table \<Rightarrow> nat \<Rightarrow> (string \<times> string \<times> string) list \<Rightarrow> 'w engine \<Rightarrow> bool" where
  "starting js rs n q s \<longleftrightarrow> part_is db_jobs js s \<and> part_is db_rules rs s \<and> n \<le> st_drawn s \<and> st_queue s = q"

lemma starting_session [keeps_intro]:
  "keeps (starting js rs n q) open_session" "keeps (starting js rs n q) rollback" "keeps (starting js rs n q) flush"
  "keeps (starting js rs n q) commit" "keeps (starting js rs n q) (query g)" "keeps (starting js rs n q) utcnow"
  "keeps (starting js rs n q) (uuid4 env)" "keeps (starting js rs n q) (call m)" "keeps (starting js rs n q) (expect r)"
  by (auto intro!: keepsI simp: run_simps starting_def part_is_def)

lemma starting_edit [keeps_intro]:
  "(\<And>d. db_jobs (f d) = db_jobs d) \<Longrightarrow> (\<And>d. db_rules (f d) = db_rules d) \<Longrightarrow> keeps (starting js rs n q) (edit f)"
  by (auto intro!: keepsI simp: run_simps starting_def part_is_def)

lemma starting_credential [keeps_intro]:
  "keeps (starting js rs n q) (load_credential account provider u)"
  "keeps (starting js rs n q) (load_fresh_credential env account ad provider u)"
  by (auto simp: load_fresh_credential_def load_credential_def save_credential_def refresh_credential_def Let_def
      drop_account_def intro!: keeps_intro split: exn.splits)

lemma starting_feedback [keeps_intro]: "keeps (starting js rs n q) (ensure_no_continuous_sync_feedback b user)"
  by (auto simp: ensure_no_continuous_sync_feedback_def Let_def intro!: keeps_intro)

lemma starting_name_clash [keeps_intro]: "keeps (starting js rs n q) (name_clash ta cred pl refs)"
  by (induction refs) (auto simp: unless_missing_def intro!: keeps_intro split: option.splits sum.splits)

lemma starting_source [keeps_intro]: "keeps (starting js rs n q) (open_source env b user)"
  by (auto simp: open_source_def open_migration_source_def open_snapshot_source_def load_preview_import_def
      load_import_for_job_def update_import_def owned_import_def drop_import_def Let_def intro!: keeps_intro split: option.splits)

lemma starting_preflight [keeps_intro]: "keeps (starting js rs n q) (validated_preflight env b user)"
  by (auto simp: validated_preflight_def preflight_def selected_playlists_def read_source_playlist_def same_name_warnings_def
      Let_def intro!: keeps_intro split: option.splits)

section \<open>What a created job is\<close>

lemma claim_import_frame: "keeps (\<lambda>s. st_db s = d \<and> st_queue s = q) (claim_import env src user job)"
proof -
  have "keeps (\<lambda>s. st_db s = d \<and> st_queue s = q) (edit f)" "keeps (\<lambda>s. st_db s = d \<and> st_queue s = q) (query g)"
    "keeps (\<lambda>s. st_db s = d \<and> st_queue s = q) flush" "keeps (\<lambda>s. st_db s = d \<and> st_queue s = q) utcnow"
    "keeps (\<lambda>s. st_db s = d \<and> st_queue s = q) rollback" for f and g :: "db \<Rightarrow> 'b"
    by (auto intro!: keepsI simp: run_simps)
  then show ?thesis
    by (auto simp: claim_import_def queue_import_def update_import_def owned_import_def intro!: keeps_intro split: option.splits)
qed

lemma claim_import_ok:
  assumes "claim_import env src user job s = (Inr (), t)"
  shows "db_jobs (st_work t) = db_jobs (st_work s) \<and> db_rules (st_work t) = db_rules (st_work s) \<and>
    (src_kind src = ''import'' \<longrightarrow> (\<exists>r. dict_get (db_imports (st_work t)) (src_account_id src) = Some r \<and>
       li_status r = ''queued'' \<and> li_queued_job_id r = Some job))"
  using assms
  by (auto simp: claim_import_def queue_import_def update_import_def owned_import_def owned_def drop_import_def ok_simps
      split: if_splits option.splits)

text \<open>A job that says what was requested.\<close>

definition requested_job :: "string \<Rightarrow> create_migration_body \<Rightarrow> 'w validated_preflight \<Rightarrow> migration_job \<Rightarrow> bool" where
  "requested_job user b p j \<longleftrightarrow>
     mj_user_id j = user \<and> mj_status j = ''pending'' \<and> mj_origin j = ''manual'' \<and> mj_selection j = stored_selection b \<and>
     mj_warnings j = vp_warnings p \<and> mj_source_kind j = src_kind (vp_source p) \<and>
     mj_source_provider j = src_provider (vp_source p) \<and> mj_source_account_id j = src_account_id (vp_source p) \<and>
     mj_source_snapshot_id j = src_snapshot_id (vp_source p) \<and>
     mj_target_provider j = cm_target_provider b \<and> mj_target_account_id j = cm_target_account_id b \<and>
     mj_total j = 0 \<and> mj_done j = 0 \<and> mj_failed j = 0 \<and> mj_error j = None"

lemma new_job_requested [simp]: "requested_job user b p (new_migration_job i now user b p)"
  by (simp add: requested_job_def new_migration_job_def)

definition created_migration ::
  "'w env \<Rightarrow> create_migration_body \<Rightarrow> string \<Rightarrow> migration_job table \<Rightarrow> sync_rule table \<Rightarrow>
     (string \<times> string \<times> string) list \<Rightarrow> 'w validated_preflight \<Rightarrow> exn + migration_job \<Rightarrow> 'w engine \<Rightarrow> bool"
where
  "created_migration env b user js rs q p out t \<longleftrightarrow>
     (case out of
        Inl e \<Rightarrow> db_jobs (st_db t) = js \<and> st_queue t = q
      | Inr j \<Rightarrow> db_jobs (st_db t) = js @ [(mj_id j, j)] \<and> st_queue t = q @ [(''run_migration'', mj_id j, [])] \<and>
          db_rules (st_db t) = rs \<and> requested_job user b p j \<and>
          (mj_source_kind j = ''import'' \<longrightarrow> (\<exists>r. dict_get (db_imports (st_db t)) (mj_source_account_id j) = Some r \<and>
             li_status r = ''queued'' \<and> li_queued_job_id r = Some (mj_id j))))"

lemma new_migration_job_fields [simp]:
  "mj_id (new_migration_job i now user b p) = i" "mj_source_kind (new_migration_job i now user b p) = src_kind (vp_source p)"
  "mj_source_account_id (new_migration_job i now user b p) = src_account_id (vp_source p)"
  by (simp_all add: new_migration_job_def)

lemma add_migration_created:
  assumes "add_migration env b user p s = (out, t)" and "starting js rs n q s"
    and "\<And>k. n \<le> k \<Longrightarrow> dict_get js (env_uuid env k) = None"
  shows "created_migration env b user js rs q p out t"
proof -
  let ?i = "env_uuid env (st_drawn s)"
  let ?j = "new_migration_job ?i (st_clock s) user b p"
  let ?s = "s\<lparr>st_drawn := Suc (st_drawn s), st_work := (st_work s)\<lparr>db_jobs := js @ [(?i, ?j)]\<rparr>\<rparr>"
  have s: "db_jobs (st_work s) = js" "db_jobs (st_db s) = js" "st_queue s = q" "n \<le> st_drawn s" "db_rules (st_work s) = rs"
    using assms(2) by (simp_all add: starting_def part_is_def)
  have new: "dict_set ?i ?j js = js @ [(?i, ?j)]" using assms(3) s(4) by (simp add: dict_set_new)
  obtain r u where c: "claim_import env (vp_source p) user ?i ?s = (r, u)" by force
  have u: "st_db u = st_db s" "st_queue u = q"
    using keepsD [OF claim_import_frame, of ?s "st_db s" q env "vp_source p" user ?i] c s(3) by simp_all
  show ?thesis
  proof (cases "constraints_ok (st_work ?s) \<and> r = Inr () \<and> constraints_ok (st_work u)")
    case True
    with c have "claim_import env (vp_source p) user ?i ?s = (Inr (), u)" by simp
    from claim_import_ok [OF this] True c assms(1) u s show ?thesis
      by (auto simp: add_migration_def run_simps Let_def new start_work_def created_migration_def)
  next
    case False
    with c assms(1) u s show ?thesis
      by (cases r) (auto simp: add_migration_def run_simps Let_def new start_work_def created_migration_def split: if_splits)
  qed
qed

text \<open>The row of a job, in terms of the request alone.\<close>

definition asks_to_continue :: "continuous_intent option \<Rightarrow> sync_intent option \<Rightarrow> bool" where
  "asks_to_continue asked stored \<longleftrightarrow>
     (case (asked, stored) of
        (None, None) \<Rightarrow> True
      | (Some i, Some c) \<Rightarrow> si_mode c = Some (mode_value (ci_mode i)) \<and> si_cadence_minutes c = Some (ci_cadence_minutes i) \<and>
          si_timezone c = Some (ci_timezone i) \<and> si_status c = None \<and> si_sync_rule_id c = None \<and> si_error c = None
      | _ \<Rightarrow> False)"

definition job_asked_for :: "'w env \<Rightarrow> string \<Rightarrow> create_migration_body \<Rightarrow> migration_job \<Rightarrow> bool" where
  "job_asked_for env user b j \<longleftrightarrow>
     mj_user_id j = user \<and> mj_status j = ''pending'' \<and> mj_origin j = ''manual'' \<and>
     mj_total j = 0 \<and> mj_done j = 0 \<and> mj_failed j = 0 \<and> mj_error j = None \<and>
     mj_target_provider j = cm_target_provider b \<and> mj_target_account_id j = cm_target_account_id b \<and>
     sel_playlist_ids (mj_selection j) = cm_playlist_ids b \<and> sel_tracks (mj_selection j) = cm_tracks b \<and>
     sel_saved_album_ids (mj_selection j) = cm_saved_album_ids b \<and>
     sel_followed_artist_ids (mj_selection j) = cm_followed_artist_ids b \<and>
     asks_to_continue (cm_continuous_sync b) (sel_continuous_sync (mj_selection j)) \<and>
     (if truthy (cm_source_snapshot_id b)
      then mj_source_kind j = ''snapshot'' \<and> mj_source_provider j = ''snapshot'' \<and>
        mj_source_snapshot_id j = cm_source_snapshot_id b \<and>
        (\<exists>arc. env_open_archive env (the (cm_source_snapshot_id b)) user = Inr arc \<and>
           mj_source_account_id j = ''snapshot:'' @ arc_library_id arc)
      else mj_source_kind j = (if mj_source_provider j \<in> import_record_providers then ''import'' else ''provider'') \<and>
        mj_source_provider j = or_str (cm_source_provider b) [] \<and>
        mj_source_account_id j = or_str (cm_source_account_id b) [] \<and> mj_source_snapshot_id j = None)"

lemma opened_source:
  assumes "open_source env b user s = (Inr src, t)"
  shows "if truthy (cm_source_snapshot_id b)
    then src_kind src = ''snapshot'' \<and> src_provider src = ''snapshot'' \<and> src_snapshot_id src = cm_source_snapshot_id b \<and>
      (\<exists>arc. env_open_archive env (the (cm_source_snapshot_id b)) user = Inr arc \<and>
         src_account_id src = ''snapshot:'' @ arc_library_id arc)
    else src_kind src = (if src_provider src \<in> import_record_providers then ''import'' else ''provider'') \<and>
      src_provider src = or_str (cm_source_provider b) [] \<and>
      src_account_id src = or_str (cm_source_account_id b) [] \<and> src_snapshot_id src = None"
proof (cases "truthy (cm_source_snapshot_id b)")
  case True
  then obtain i where "cm_source_snapshot_id b = Some i" by (cases "cm_source_snapshot_id b") (simp_all add: truthy_def)
  with True assms show ?thesis by (auto simp: open_source_def open_snapshot_source_def ok_simps split: if_splits)
next
  case False
  with assms show ?thesis by (auto simp: open_source_def open_migration_source_def Let_def ok_simps split: if_splits)
qed

lemma validated_preflight_source:
  "validated_preflight env b user s = (Inr p, t) \<Longrightarrow> \<exists>u. open_source env b user s = (Inr (vp_source p), u)"
  by (auto simp: validated_preflight_def load_credential_def ok_simps split: if_splits option.splits)

lemma stored_request:
  "sel_playlist_ids (stored_selection b) = cm_playlist_ids b" "sel_tracks (stored_selection b) = cm_tracks b"
  "sel_saved_album_ids (stored_selection b) = cm_saved_album_ids b"
  "sel_followed_artist_ids (stored_selection b) = cm_followed_artist_ids b"
  "asks_to_continue (cm_continuous_sync b) (sel_continuous_sync (stored_selection b))"
  by (simp_all add: stored_selection_def asks_to_continue_def stored_intent_def empty_selection_def split: option.split)

lemma requested_job_asked_for:
  assumes "requested_job user b p j" and "validated_preflight env b user s = (Inr p, t)"
  shows "job_asked_for env user b j"
proof -
  from validated_preflight_source [OF assms(2)] obtain u where "open_source env b user s = (Inr (vp_source p), u)" by blast
  from opened_source [OF this] assms(1) show ?thesis
    by (auto simp: requested_job_def job_asked_for_def stored_request split: if_splits)
qed

lemma feedback_reads: "ensure_no_continuous_sync_feedback b user s = (r, t) \<Longrightarrow> t = s"
  by (auto simp: ensure_no_continuous_sync_feedback_def Let_def run_simps split: if_splits)

text \<open>
  C3. A migration is started only with its warnings acknowledged: when \<open>create_migration\<close> returns a
  job, the preflight of this request, run on the state the request found, raised exactly the warnings
  stored with it, and the user had acknowledged them, unless there were none. The job is pending, for
  this user, with the target, the source, the selection and the continuous synchronization of the
  request and nothing else; it is the only new job, it has claimed its import when it has one, and
  it alone has been handed to the queue. A request that is refused creates no job and starts nothing.
\<close>

theorem migration_start_confirmed:
  assumes "create_migration env b user s = (out, t)"
    and "\<And>k. st_drawn s \<le> k \<Longrightarrow> dict_get (db_jobs (st_db s)) (env_uuid env k) = None"
  shows "case out of
      Inl e \<Rightarrow> db_jobs (st_db t) = db_jobs (st_db s) \<and> st_queue t = st_queue s
    | Inr j \<Rightarrow>
        (\<exists>p v. validated_preflight env b user (s\<lparr>st_work := st_db s\<rparr>) = (Inr p, v) \<and> mj_warnings j = vp_warnings p) \<and>
        (mj_warnings j = [] \<or> cm_acknowledge_warnings b) \<and> has_items b \<and> job_asked_for env user b j \<and>
        db_jobs (st_db t) = db_jobs (st_db s) @ [(mj_id j, j)] \<and>
        st_queue t = st_queue s @ [(''run_migration'', mj_id j, [])] \<and>
        (mj_source_kind j = ''import'' \<longrightarrow> (\<exists>r. dict_get (db_imports (st_db t)) (mj_source_account_id j) = Some r \<and>
           li_status r = ''queued'' \<and> li_queued_job_id r = Some (mj_id j)))"
proof -
  let ?js = "db_jobs (st_db s)" and ?rs = "db_rules (st_db s)" and ?s = "s\<lparr>st_work := st_db s\<rparr>"
  note start = starting_def part_is_def
  have s: "starting ?js ?rs (st_drawn s) (st_queue s) ?s" by (simp add: start)
  have frame: "starting ?js ?rs (st_drawn s) (st_queue s) (snd (m u))"
    if "keeps (starting ?js ?rs (st_drawn s) (st_queue s)) m" "starting ?js ?rs (st_drawn s) (st_queue s) u" for m u
    using that by (rule keepsD)
  show ?thesis
  proof (cases "has_items b")
    case False
    with assms(1) show ?thesis by (auto simp: create_migration_def run_simps)
  next
    case items: True
    obtain r1 s1 where e1: "ensure_no_continuous_sync_feedback b user ?s = (r1, s1)" by force
    obtain r2 s2 where e2: "validated_preflight env b user s1 = (r2, s2)" by force
    obtain r3 s3 where e3: "ensure_no_continuous_sync_feedback b user s2 = (r3, s3)" by force
    have same: "s1 = ?s" using feedback_reads [OF e1] .
    have s1: "starting ?js ?rs (st_drawn s) (st_queue s) s1" using frame [OF starting_feedback s, of b user] e1 by simp
    have s2: "starting ?js ?rs (st_drawn s) (st_queue s) s2" using frame [OF starting_preflight s1, of env b user] e2 by simp
    have s3: "starting ?js ?rs (st_drawn s) (st_queue s) s3" using frame [OF starting_feedback s2, of b user] e3 by simp
    show ?thesis
    proof (cases "r1 = Inr () \<and> r3 = Inr () \<and> (\<exists>p. r2 = Inr p \<and> (vp_warnings p = [] \<or> cm_acknowledge_warnings b))")
      case True
      then obtain p where p: "r1 = Inr ()" "r3 = Inr ()" "r2 = Inr p" "vp_warnings p = [] \<or> cm_acknowledge_warnings b" by blast
      with assms(1) items e1 e2 e3 have "add_migration env b user p s3 = (out, t)"
        by (auto simp: create_migration_def run_simps)
      from add_migration_created [OF this s3 assms(2)] have c: "created_migration env b user ?js ?rs (st_queue s) p out t" .
      have pre: "validated_preflight env b user ?s = (Inr p, s2)" using e2 p same by simp
      show ?thesis
      proof (cases out)
        case (Inr j)
        with c have j: "requested_job user b p j" by (simp add: created_migration_def)
        then have "mj_warnings j = vp_warnings p" by (simp add: requested_job_def)
        with c Inr p(4) items pre requested_job_asked_for [OF j pre] show ?thesis by (simp add: created_migration_def)
      qed (use c in \<open>simp add: created_migration_def\<close>)
    next
      case False
      with assms(1) items e1 e2 e3 s1 s2 s3 show ?thesis
        by (auto simp: create_migration_def run_simps start split: sum.splits if_splits)
    qed
  qed
qed

section \<open>Feedback loops\<close>

lemma intent_account_loop_iff: "intent_account_loop rs ps source target \<longleftrightarrow>
    (target, account_of source) \<in> (set (account_edges rs) \<union> set (pending_edges ps))\<^sup>*"
  by (simp add: intent_account_loop_def reaches_iff edges_adjacency_of)

lemma intent_playlist_loop_account_loop:
  "intent_playlist_loop rs source target \<Longrightarrow> intent_account_loop rs ps source target"
  unfolding intent_playlist_loop_def intent_account_loop_iff Let_def reaches_iff edges_adjacency_of
  by (fastforce dest: playlist_path_accounts intro: rtrancl_mono [THEN subsetD])

text \<open>The accounts between which the user's rules copy, or will once their migrations are done.\<close>

definition copy_graph :: "string \<Rightarrow> db \<Rightarrow> (account \<times> account) set" where
  "copy_graph user d = account_graph user (db_rules d) \<union> set (pending_edges (pending_continuous_syncs user d))"

lemma feedback_ok:
  assumes "ensure_no_continuous_sync_feedback b user s = (Inr (), t)"
  shows "t = s \<and> (cm_continuous_sync b \<noteq> None \<longrightarrow>
    (continuous_target b, account_of (continuous_source b)) \<notin> (copy_graph user (st_work s))\<^sup>*)"
  using assms by (auto simp: ensure_no_continuous_sync_feedback_def Let_def ok_simps intent_account_loop_iff copy_graph_def
      set_account_edges split: if_splits)

lemma copy_graph_cong: "db_rules d = db_rules e \<Longrightarrow> db_jobs d = db_jobs e \<Longrightarrow> copy_graph user d = copy_graph user e"
  by (simp add: copy_graph_def pending_continuous_syncs_def)

lemma copy_graph_added:
  assumes "db_rules e = db_rules d" and "db_jobs e = db_jobs d @ [(i, j)]" and "mj_user_id j = user"
    and "mj_origin j = ''manual''" and "mj_status j = ''pending''"
  shows "copy_graph user e = copy_graph user d \<union> set (pending_edges (pending_sync_of j))"
  using assms by (simp add: copy_graph_def pending_continuous_syncs_def select_rows_def rows_def pending_edges_def Un_assoc)

lemma open_source_live:
  assumes "open_source env b user s = (Inr src, t)" and "\<not> truthy (cm_source_snapshot_id b)"
  shows "src_provider src = or_str (cm_source_provider b) [] \<and> src_account_id src = or_str (cm_source_account_id b) []"
  using assms by (auto simp: open_source_def open_migration_source_def Let_def ok_simps split: if_splits)

text \<open>
  C10. Starting a migration that is to end in a synchronization never closes a cycle: if the accounts
  between which the user's rules and pending synchronizations copy form no cycle, they form none
  after \<open>create_migration\<close> has accepted the request, the edge of the new job included.
\<close>

theorem migration_start_acyclic:
  assumes "create_migration env b user s = (Inr j, t)" and "validate_source b = Inr ()"
    and "\<And>k. st_drawn s \<le> k \<Longrightarrow> dict_get (db_jobs (st_db s)) (env_uuid env k) = None"
    and "acyclic (copy_graph user (st_db s))"
  shows "acyclic (copy_graph user (st_db t))"
proof -
  let ?js = "db_jobs (st_db s)" and ?rs = "db_rules (st_db s)" and ?s = "s\<lparr>st_work := st_db s\<rparr>"
  note start = starting_def part_is_def
  have s: "starting ?js ?rs (st_drawn s) (st_queue s) ?s" by (simp add: start)
  from assms(1) obtain p s1 s2 s3 where e1: "ensure_no_continuous_sync_feedback b user ?s = (Inr (), s1)"
    and e2: "validated_preflight env b user s1 = (Inr p, s2)"
    and e3: "ensure_no_continuous_sync_feedback b user s2 = (Inr (), s3)" and e4: "add_migration env b user p s3 = (Inr j, t)"
    by (auto simp: create_migration_def ok_simps split: if_splits)
  have s1: "s1 = ?s" and s3: "s3 = s2" using feedback_ok [OF e1] feedback_ok [OF e3] by simp_all
  have s2: "starting ?js ?rs (st_drawn s) (st_queue s) s2"
    using keepsD [OF starting_preflight s, of env b user] e2 s1 by simp
  from add_migration_created [OF e4 s2 [folded s3] assms(3)]
  have c: "requested_job user b p j" "db_rules (st_db t) = ?rs" "db_jobs (st_db t) = ?js @ [(mj_id j, j)]"
    by (simp_all add: created_migration_def)
  have g: "copy_graph user (st_db t) = copy_graph user (st_db s) \<union> set (pending_edges (pending_sync_of j))"
    by (rule copy_graph_added) (use c in \<open>simp_all add: requested_job_def\<close>)
  have w: "copy_graph user (st_work s2) = copy_graph user (st_db s)"
    by (rule copy_graph_cong) (use s2 in \<open>simp_all add: start\<close>)
  show ?thesis
  proof (cases "cm_continuous_sync b")
    case None
    with c(1) have "pending_sync_of j = []" by (simp add: requested_job_def pending_sync_of_def stored_selection_def empty_selection_def)
    with g assms(4) show ?thesis by (simp add: pending_edges_def)
  next
    case (Some i)
    with assms(2) have live: "\<not> truthy (cm_source_snapshot_id b)" and one: "\<exists>q. cm_playlist_ids b = [q]"
      by (auto simp: validate_source_def Let_def length_Suc_conv split: if_splits)
    from validated_preflight_source [OF e2] open_source_live live
    have "src_provider (vp_source p) = or_str (cm_source_provider b) []" "src_account_id (vp_source p) = or_str (cm_source_account_id b) []"
      by blast+
    with c(1) Some one have "set (pending_edges (pending_sync_of j)) = {(account_of (continuous_source b), continuous_target b)}"
      by (auto simp: requested_job_def pending_sync_of_def stored_selection_def pending_edges_def
          continuous_source_def continuous_target_def account_of_def stored_intent_def)
    moreover have "(continuous_target b, account_of (continuous_source b)) \<notin> (copy_graph user (st_db s))\<^sup>*"
      using feedback_ok [OF e3] Some w by simp
    ultimately show ?thesis using g assms(4) by (simp add: acyclic_insert)
  qed
qed

section \<open>A concrete start\<close>

definition second_account :: provider_account where
  "second_account = sample_account\<lparr>pa_id := ''acc-2'', pa_provider_user_id := Some ''other''\<rparr>"

definition second_credential :: stored_credential where
  "second_credential = sample_credential\<lparr>sc_id := ''c-2'', sc_account_id := ''acc-2''\<rparr>"

definition start_engine :: "fake_world engine" where
  "start_engine = engine_on (empty_db\<lparr>db_accounts := [(''acc-1'', sample_account), (''acc-2'', second_account)],
     db_credentials := [(''c-1'', sample_credential), (''c-2'', second_credential)]\<rparr>)"

definition start_body :: create_migration_body where
  "start_body =
     \<lparr>cm_source_provider = Some ''fake'', cm_target_provider = ''fake'', cm_source_account_id = Some ''acc-1'',
      cm_source_snapshot_id = None, cm_target_account_id = ''acc-2'', cm_playlist_ids = [''pl-1''], cm_tracks = [],
      cm_saved_album_ids = [], cm_followed_artist_ids = [],
      cm_continuous_sync = Some \<lparr>ci_mode = ADD_ONLY, ci_cadence_minutes = 60, ci_timezone = ''UTC''\<rparr>,
      cm_acknowledge_warnings = True\<rparr>"

lemma clash_total: "\<exists>x. name_clash fake_adapter c pl refs s = (Inr x, s)"
proof (induction refs)
  case (Cons r refs)
  show ?case
  proof (cases "dict_get (fw_library (st_world s)) (ref_id r)")
    case None
    with Cons show ?thesis
      by (simp add: run_simps unless_missing_def fake_adapter_def fake_read_playlist_def is_not_found_def)
  next
    case (Some t)
    with Cons show ?thesis
      by (auto simp: run_simps unless_missing_def fake_adapter_def fake_read_playlist_def)
  qed
qed (auto simp: run_simps)

lemma fold_total:
  "(\<And>b x. \<exists>c. f b x s = (Inr c, s)) \<Longrightarrow> \<exists>c. fold_each xs b f s = (Inr c, s)"
proof (induction xs arbitrary: b)
  case (Cons x xs)
  obtain c where "f b x s = (Inr c, s)" using Cons.prems by blast
  with Cons.IH [OF Cons.prems, of c] show ?case by (simp add: run_simps)
qed (simp add: run_simps)

lemma same_name_total: "\<exists>ws. same_name_warnings fake_adapter c selected s = (Inr ws, s)"
proof -
  have "\<exists>ws. fold_each xs [] (\<lambda>ws (p, pl). andthen (name_clash fake_adapter c pl (g pl)) (\<lambda>clash. ret (ws @ h clash pl))) s = (Inr ws, s)"
    for xs :: "(string \<times> playlist) list" and g and h :: "bool \<Rightarrow> playlist \<Rightarrow> warning list"
  proof (rule fold_total)
    fix b :: "warning list" and x :: "string \<times> playlist"
    show "\<exists>c'. (case x of (p, pl) \<Rightarrow> andthen (name_clash fake_adapter c pl (g pl)) (\<lambda>clash. ret (b @ h clash pl))) s = (Inr c', s)"
      using clash_total [of c "snd x" "g (snd x)" s] by (cases x) (auto simp: run_simps)
  qed
  then show ?thesis
    by (simp add: same_name_warnings_def run_simps collect_def fake_adapter_def fake_iter_playlists_def)
qed

lemma start_credentials:
  assumes "st_work s = st_db start_engine"
  shows "load_credential ''acc-2'' (Some ''fake'') (Some ''owner'') s = (Inr (runtime_credential second_account second_credential, second_account), s)"
    and "load_fresh_credential env ''acc-1'' ad (Some ''fake'') (Some ''owner'') s = (Inr (runtime_credential sample_account sample_credential, sample_account), s)"
    and "load_fresh_credential env ''acc-2'' ad (Some ''fake'') (Some ''owner'') s = (Inr (runtime_credential second_account second_credential, second_account), s)"
  using assms
  by (simp_all add: start_engine_def engine_on_def load_fresh_credential_def load_credential_def run_simps
      sample_account_def sample_credential_def second_account_def second_credential_def rows_def newest_credential_def
      order_desc_def select_rows_def runtime_credential_def fake_cred_def expires_soon_def Let_def)

lemma start_preflight: "\<exists>p. validated_preflight sample_env start_body ''owner'' start_engine = (Inr p, start_engine)"
proof -
  have w: "st_work start_engine = st_db start_engine" "st_world start_engine = fake_start" by (simp_all add: start_engine_def engine_on_def)
  note cred = start_credentials [OF w(1)]
  have ga: "get_adapter (env_registry sample_env) ''fake'' = Inr fake_adapter" by (simp add: sample_env_def get_adapter_def)
  have caps: "can (inf_capabilities (ad_info fake_adapter)) c \<longleftrightarrow>
      c \<in> {READ_PLAYLISTS, READ_TRACKS, READ_SAVED_ALBUMS, WRITE_SAVED_ALBUMS, READ_FOLLOWED_ARTISTS, WRITE_FOLLOWED_ARTISTS,
        CREATE_PLAYLIST, ADD_TRACKS}" for c
    by (auto simp: fake_adapter_def fake_info_def can_def new_capabilities_def)
  obtain pl where pl: "fake_read_playlist c (new_ref ''pl-1'' ''pl-1'') fake_start = (Inr pl, fake_start)" "pl_kind pl = STANDARD" for c
    by (auto simp: fake_read_playlist_def run_simps fake_start_def fake_library_def new_ref_def new_playlist_def)
  let ?sel = "[(''pl-1'', pl\<lparr>pl_tracks := filter (\<lambda>t. track_selected t {}) (pl_tracks pl)\<rparr>)]"
  obtain ws where ws: "same_name_warnings fake_adapter (runtime_credential second_account second_credential) ?sel start_engine = (Inr ws, start_engine)"
    using same_name_total by blast
  have rd: "ad_read_playlist fake_adapter c r = fake_read_playlist c r" for c r by (simp add: fake_adapter_def)
  have eng: "start_engine\<lparr>st_world := fake_start\<rparr> = start_engine" by (simp add: start_engine_def engine_on_def)
  have src: "open_source sample_env start_body ''owner'' start_engine = (Inr
      \<lparr>src_kind = ''provider'', src_provider = ''fake'', src_account_id = ''acc-1'', src_display_name = inf_display_name (ad_info fake_adapter),
       src_adapter = Some fake_adapter, src_credential = Some (runtime_credential sample_account sample_credential),
       src_local_playlists = [], src_archive = None, src_snapshot_id = None\<rparr>, start_engine)"
    by (simp add: open_source_def start_body_def open_migration_source_def import_record_providers_def run_simps ga cred truthy_def Let_def)
  have body: "cm_target_provider start_body = ''fake''" "cm_target_account_id start_body = ''acc-2''" "cm_playlist_ids start_body = [''pl-1'']"
    "cm_tracks start_body = []" "cm_saved_album_ids start_body = []" "cm_followed_artist_ids start_body = []"
    by (simp_all add: start_body_def)
  have sel: "selected_playlists \<lparr>src_kind = ''provider'', src_provider = ''fake'', src_account_id = ''acc-1'', src_display_name = n,
       src_adapter = Some fake_adapter, src_credential = Some (runtime_credential sample_account sample_credential),
       src_local_playlists = [], src_archive = None, src_snapshot_id = None\<rparr> [''pl-1''] [] start_engine = (Inr ?sel, start_engine)" for n
    by (simp add: selected_playlists_def read_source_playlist_def run_simps rd w pl eng Let_def)
  have int: "check_intent sample_env fake_adapter ?sel start_body = Inr ()"
    by (simp add: check_intent_def validate_schedule_def sample_env_def sample_settings_def start_body_def)
  show ?thesis
    by (simp add: validated_preflight_def run_simps src body ga cred can_read_tracks_def caps preflight_def Let_def
        sel validate_selected_library_entities_def validate_target_capabilities_def int ws pl(2) w(2) eng)
qed

lemma start_db: "db_jobs (st_db start_engine) = []" "db_rules (st_db start_engine) = []" "start_engine\<lparr>st_work := st_db start_engine\<rparr> = start_engine"
  "st_queue start_engine = []" "copy_graph ''owner'' (st_db start_engine) = {}"
  by (simp_all add: start_engine_def engine_on_def empty_db_def copy_graph_def account_graph_def rows_def
      pending_continuous_syncs_def select_rows_def pending_edges_def)

lemma start_creates: "\<exists>j t. create_migration sample_env start_body ''owner'' start_engine = (Inr j, t)"
proof -
  obtain p where p: "validated_preflight sample_env start_body ''owner'' start_engine = (Inr p, start_engine)" using start_preflight by blast
  have d: "rules_of ''owner'' None (st_work start_engine) = []" "pending_continuous_syncs ''owner'' (st_work start_engine) = []"
    by (simp_all add: start_engine_def engine_on_def empty_db_def rules_of_def pending_continuous_syncs_def select_rows_def rows_def)
  have f: "ensure_no_continuous_sync_feedback start_body ''owner'' start_engine = (Inr (), start_engine)"
    by (simp add: ensure_no_continuous_sync_feedback_def run_simps d intent_account_loop_def intent_playlist_loop_def Let_def
        adjacency_of_def account_edges_def pending_edges_def playlist_edges_def start_body_def continuous_source_def
        continuous_target_def account_of_def successors_def)
  from validated_preflight_source [OF p] obtain u where "open_source sample_env start_body ''owner'' start_engine = (Inr (vp_source p), u)" by blast
  then have kind: "src_kind (vp_source p) = ''provider''"
    by (auto simp: open_source_def start_body_def open_migration_source_def Let_def import_record_providers_def ok_simps truthy_def)
  have cs: "constraints_ok (st_db start_engine\<lparr>db_jobs := [(i, new_migration_job i n user b p)]\<rparr>)" for i n user b
    by (simp add: start_engine_def engine_on_def constraint_defs empty_db_def sample_account_def second_account_def new_migration_job_def)
  have w: "st_work start_engine = st_db start_engine" by (simp add: start_engine_def engine_on_def)
  have hb: "has_items start_body" "cm_acknowledge_warnings start_body" by (simp_all add: has_items_def start_body_def)
  obtain j t where add: "add_migration sample_env start_body ''owner'' p start_engine = (Inr j, t)"
    by (simp add: add_migration_def claim_import_def kind run_simps Let_def w cs start_work_def start_db)
  show ?thesis
    by (simp add: create_migration_def run_simps start_db f p add hb)
qed

theorem migration_start_confirmed_witness:
  "\<exists>j t. create_migration sample_env start_body ''owner'' start_engine = (Inr j, t) \<and>
     mj_status j = ''pending'' \<and> db_jobs (st_db t) = [(mj_id j, j)] \<and> st_queue t = [(''run_migration'', mj_id j, [])]"
proof -
  obtain j t where c: "create_migration sample_env start_body ''owner'' start_engine = (Inr j, t)" using start_creates by blast
  from migration_start_confirmed [OF c] c start_db show ?thesis
    by (auto simp: job_asked_for_def requested_job_def)
qed

theorem migration_start_acyclic_witness:
  "\<exists>j t. create_migration sample_env start_body ''owner'' start_engine = (Inr j, t) \<and> acyclic (copy_graph ''owner'' (st_db t))"
proof -
  obtain j t where c: "create_migration sample_env start_body ''owner'' start_engine = (Inr j, t)" using start_creates by blast
  have "validate_source start_body = Inr ()" by (simp add: validate_source_def start_body_def truthy_def Let_def)
  from migration_start_acyclic [OF c this] c start_db show ?thesis by (auto simp: acyclic_def)
qed

end
