(* ===== verification/Job_Views.thy ===== *)
theory Job_Views
  imports Migration_History Local_Imports Sync_Rules
begin

text \<open>
  What the API shows of migrations (\<open>app/api/migrations.py\<close>): counts by status, labels, the list,
  the statistics of one migration and of all of them, and the filtered items. Counts are the record
  \<open>status_count\<close>, the counters of Python are dictionaries from statuses to numbers.
\<close>

section \<open>Counts\<close>

definition counter :: "string list \<Rightarrow> (string, int) dict" where
  "counter xs = fold (\<lambda>s m. dict_set s (count_of m s + 1) m) xs []"

definition counts_with :: "(string \<Rightarrow> int) \<Rightarrow> (string, int) dict \<Rightarrow> int \<Rightarrow> int \<Rightarrow> status_count" where
  "counts_with known other tot extra =
     \<lparr>stc_total = tot, stc_pending = known ''pending'' + extra, stc_matched = known ''matched'',
      stc_needs_review = known ''needs_review'', stc_written = known ''written'', stc_skipped = known ''skipped'',
      stc_failed = known ''failed'', stc_other = other\<rparr>"

definition view_counts :: "(string, int) dict \<Rightarrow> int \<Rightarrow> status_count" where
  "view_counts statuses hint =
     (let known = count_of statuses; other = filter (\<lambda>(s, n). s \<notin> set known_statuses \<and> 0 < n) statuses;
          observed = sum_list (map known known_statuses) + sum_list (map snd other)
      in counts_with known other (max hint observed) (if observed < hint then hint - observed else 0))"

definition counts_from_items :: "job_item list \<Rightarrow> int \<Rightarrow> status_count" where
  "counts_from_items items hint = view_counts (counter (map ji_status items)) hint"

text \<open>The counts of one known status, by its name.\<close>

definition known_count :: "status_count \<Rightarrow> string \<Rightarrow> int" where
  "known_count c s =
     (if s = ''pending'' then stc_pending c else if s = ''matched'' then stc_matched c
      else if s = ''needs_review'' then stc_needs_review c else if s = ''written'' then stc_written c
      else if s = ''skipped'' then stc_skipped c else if s = ''failed'' then stc_failed c else 0)"

definition merge_counts :: "(string, int) dict \<Rightarrow> (string, int) dict \<Rightarrow> (string, int) dict" where
  "merge_counts m n = fold (\<lambda>(s, k) m. dict_set s (count_of m s + k) m) n m"

definition sum_status_counts :: "status_count list \<Rightarrow> status_count" where
  "sum_status_counts cs =
     counts_with (\<lambda>s. sum_list (map (\<lambda>c. known_count c s) cs)) (fold (\<lambda>c m. merge_counts m (stc_other c)) cs [])
       (sum_list (map stc_total cs)) 0"

text \<open>The counts a summary stored, or none.\<close>

definition counts_from_history :: "status_count option \<Rightarrow> int \<Rightarrow> status_count" where
  "counts_from_history v hint =
     (case v of
        None \<Rightarrow> view_counts [] hint
      | Some c \<Rightarrow>
          let other = filter (\<lambda>(s, n). 0 < n) (stc_other c);
              observed = sum_list (map (known_count c) known_statuses) + sum_list (map snd other)
          in counts_with (known_count c) other (max (stc_total c) (max hint observed))
               (if observed < hint then hint - observed else 0))"

section \<open>Selections, names and labels\<close>

definition nonblank :: "string list \<Rightarrow> string list" where
  "nonblank xs = filter (\<lambda>x. strip x \<noteq> []) xs"

definition selected_playlist_ids :: "migration_job \<Rightarrow> string list" where
  "selected_playlist_ids j = nonblank (sel_playlist_ids (mj_selection j))"

definition selected_album_ids :: "migration_job \<Rightarrow> string list" where
  "selected_album_ids j = nonblank (sel_saved_album_ids (mj_selection j))"

definition selected_artist_ids :: "migration_job \<Rightarrow> string list" where
  "selected_artist_ids j = nonblank (sel_followed_artist_ids (mj_selection j))"

record selection_view =
  slv_playlists :: nat
  slv_tracks :: nat
  slv_saved_albums :: nat
  slv_followed_artists :: nat

definition selection_view_of :: "migration_job \<Rightarrow> selection_view" where
  "selection_view_of j =
     \<lparr>slv_playlists = length (selected_playlist_ids j),
      slv_tracks = sum_list (map (\<lambda>(p, ts). length ts) (sel_tracks (mj_selection j))),
      slv_saved_albums = length (selected_album_ids j), slv_followed_artists = length (selected_artist_ids j)\<rparr>"

definition append_unique :: "string list \<Rightarrow> string option \<Rightarrow> string list" where
  "append_unique vs v = (if truthy v \<and> the v \<notin> set vs then vs @ [the v] else vs)"

definition plural_of :: "nat \<Rightarrow> string \<Rightarrow> string" where
  "plural_of n noun = str_nat n @ '' '' @ noun @ (if n \<noteq> 1 then ''s'' else [])"

definition migration_label :: "migration_job \<Rightarrow> string list \<Rightarrow> string" where
  "migration_label j names =
     (let albums = length (selected_album_ids j); artists = length (selected_artist_ids j);
          library = (if albums \<noteq> 0 then [plural_of albums ''saved album''] else []) @
            (if artists \<noteq> 0 then [plural_of artists ''artist''] else []);
          with = (\<lambda>label. join '', '' (label # library)); n = length (selected_playlist_ids j)
      in case names of
           [a] \<Rightarrow> with a
         | [a, b] \<Rightarrow> with (a @ '', '' @ b)
         | a # b # c # rest \<Rightarrow> with (a @ '', '' @ b @ '' + '' @ str_nat (length names - 2) @ '' more'')
         | [] \<Rightarrow>
             if n = 1 then with ''1 playlist''
             else if n > 1 then with (str_nat n @ '' playlists'')
             else if library \<noteq> [] then join '', '' library
             else ''Preparing migration'')"

text \<open>
  The names of the playlists of a job: those of its items, else those in the manifest of its
  snapshot, else those cached for its source account. \<open>manifests\<close> gives the collections with an
  identifier and a name in the stored manifest of a user's snapshot.
\<close>

definition cached_name :: "string \<Rightarrow> migration_job \<Rightarrow> db \<Rightarrow> string \<Rightarrow> string option" where
  "cached_name user j d p =
     map_option (\<lambda>c. ref_name (cpr_ref c)) (find (\<lambda>c. cpr_user_id c = user \<and> cpr_provider c = mj_source_provider j \<and>
       cpr_account_id c = mj_source_account_id j \<and> ref_id (cpr_ref c) = p) (rows (db_cached_refs d)))"

definition playlist_names ::
  "(string \<Rightarrow> string \<Rightarrow> (string, string) dict) \<Rightarrow> string \<Rightarrow> migration_job \<Rightarrow> db \<Rightarrow> string list"
where
  "playlist_names manifests user j d =
     (let mine = playlist_rows (job_items (mj_id j) d);
          ids = sort (remdups (map (\<lambda>i. the (ji_source_playlist_id i)) mine));
          uniques = (\<lambda>vs. foldl append_unique [] vs);
          named = uniques (map (\<lambda>p. max_text (map ji_source_playlist_name
            (filter (\<lambda>i. ji_source_playlist_id i = Some p) mine))) ids);
          captured = (if truthy (mj_source_snapshot_id j)
            then uniques (map (dict_get (manifests (the (mj_source_snapshot_id j)) user)) (selected_playlist_ids j)) else []);
          wanted = (if selected_playlist_ids j \<noteq> [] then selected_playlist_ids j else uniques (map Some ids))
      in if named \<noteq> [] then named else if captured \<noteq> [] then captured
         else uniques (map (cached_name user j d) wanted))"

section \<open>One job\<close>

record job_view =
  jv_id :: string
  jv_status :: string
  jv_source_kind :: string
  jv_source_provider :: string
  jv_source_snapshot_id :: "string option"
  jv_target_provider :: string
  jv_total :: int
  jv_done :: int
  jv_failed :: int
  jv_error :: "string option"
  jv_origin :: string
  jv_sync_run_id :: "string option"
  jv_match_only :: bool

definition job_view_of :: "migration_job \<Rightarrow> job_view" where
  "job_view_of j =
     \<lparr>jv_id = mj_id j, jv_status = mj_status j, jv_source_kind = mj_source_kind j,
      jv_source_provider = mj_source_provider j, jv_source_snapshot_id = mj_source_snapshot_id j,
      jv_target_provider = mj_target_provider j, jv_total = mj_total j, jv_done = mj_done j, jv_failed = mj_failed j,
      jv_error = mj_error j, jv_origin = mj_origin j, jv_sync_run_id = mj_sync_run_id j,
      jv_match_only = sel_match_only (mj_selection j)\<rparr>"

record account_view =
  av_id :: string
  av_display_name :: "string option"
  av_connected :: bool

definition account_view_of :: "string \<Rightarrow> string \<Rightarrow> string \<Rightarrow> db \<Rightarrow> account_view" where
  "account_view_of account provider user d =
     (let found = (case dict_get (db_accounts d) account of
            None \<Rightarrow> None | Some a \<Rightarrow> if pa_user_id a = user \<and> pa_provider a = provider then Some a else None)
      in \<lparr>av_id = account, av_display_name = (case found of None \<Rightarrow> None | Some a \<Rightarrow> pa_display_name a),
          av_connected = (found \<noteq> None)\<rparr>)"

record playlist_stats =
  pst_source_playlist_id :: string
  pst_source_playlist_name :: "string option"
  pst_target_playlist_id :: "string option"
  pst_counts :: status_count

definition playlist_stats_of :: "playlist_summary \<Rightarrow> playlist_stats" where
  "playlist_stats_of p =
     \<lparr>pst_source_playlist_id = psm_source_playlist_id p,
      pst_source_playlist_name = (if truthy (psm_source_playlist_name p) then psm_source_playlist_name p else None),
      pst_target_playlist_id = (if truthy (psm_target_playlist_id p) then psm_target_playlist_id p else None),
      pst_counts = counts_from_history (Some (psm_counts p)) 0\<rparr>"

definition selected_only :: "string \<Rightarrow> string option \<Rightarrow> playlist_stats" where
  "selected_only p name =
     \<lparr>pst_source_playlist_id = p, pst_source_playlist_name = name, pst_target_playlist_id = None,
      pst_counts = view_counts [] 0\<rparr>"

definition stats_key :: "playlist_stats \<Rightarrow> string" where
  "stats_key p = or_str (pst_source_playlist_name p) (pst_source_playlist_id p)"

definition playlist_stats_from_summary :: "migration_job \<Rightarrow> job_summary option \<Rightarrow> string list \<Rightarrow> playlist_stats list" where
  "playlist_stats_from_summary j summary names =
     (let known = map playlist_stats_of (filter (\<lambda>p. psm_source_playlist_id p \<noteq> [])
            (case summary of None \<Rightarrow> [] | Some s \<Rightarrow> jsm_playlists s));
          selected = fold (\<lambda>(k, p) ps. if p \<in> set (map pst_source_playlist_id ps) then ps
            else ps @ [selected_only p (if k < length names then Some (names ! k) else None)])
            (enumerate 0 (selected_playlist_ids j)) known
      in sort_key stats_key selected)"

definition selection_hint :: "migration_job \<Rightarrow> entity_type \<Rightarrow> int" where
  "selection_hint j e = (case e of E_TRACK \<Rightarrow> 0 | E_ALBUM \<Rightarrow> int (length (selected_album_ids j))
     | E_ARTIST \<Rightarrow> int (length (selected_artist_ids j)))"

definition entity_counts_from_summary :: "migration_job \<Rightarrow> job_summary option \<Rightarrow> (string, status_count) dict" where
  "entity_counts_from_summary j summary =
     map (\<lambda>e. (entity_value e, counts_from_history
       (case summary of None \<Rightarrow> None | Some s \<Rightarrow> dict_get (jsm_entity_counts s) (entity_value e)) (selection_hint j e)))
       [E_TRACK, E_ALBUM, E_ARTIST]"

definition job_duration_s :: "int \<Rightarrow> migration_job \<Rightarrow> int option" where
  "job_duration_s now j =
     (case mj_started_at j of None \<Rightarrow> None | Some b \<Rightarrow>
        Some (max 0 ((case mj_completed_at j of None \<Rightarrow> now | Some e \<Rightarrow> e) - b)))"

definition entity_total :: "(string, status_count) dict \<Rightarrow> entity_type \<Rightarrow> int" where
  "entity_total cs e = (case dict_get cs (entity_value e) of None \<Rightarrow> 0 | Some c \<Rightarrow> stc_total c)"

record migration_stats =
  ms_label :: string
  ms_playlist_names :: "string list"
  ms_outcome :: string
  ms_source_account :: account_view
  ms_target_account :: account_view
  ms_duration_s :: "int option"
  ms_counts :: status_count
  ms_playlist_count :: int
  ms_saved_album_count :: int
  ms_followed_artist_count :: int
  ms_entity_counts :: "(string, status_count) dict"
  ms_playlists :: "playlist_stats list"
  ms_empty :: bool
  ms_message :: "string option"
  ms_detail_available :: bool
  ms_detail_expires_at :: "int option"

text \<open>What the view adds to the row of the job itself, whose columns it repeats.\<close>

definition stats_from_summary ::
  "int \<Rightarrow> int \<Rightarrow> migration_job \<Rightarrow> job_summary option \<Rightarrow> string list \<Rightarrow> account_view \<Rightarrow> account_view \<Rightarrow> migration_stats"
where
  "stats_from_summary now retention j summary names source target =
     (let counts = counts_from_history (map_option jsm_counts summary) (mj_total j);
          playlists = playlist_stats_from_summary j summary names;
          entities = entity_counts_from_summary j summary;
          available = details_available now retention j; empty = stc_total counts = 0
      in \<lparr>ms_label = migration_label j names, ms_playlist_names = names,
          ms_outcome = migration_outcome (mj_status j) counts, ms_source_account = source, ms_target_account = target,
          ms_duration_s = job_duration_s now j, ms_counts = counts,
          ms_playlist_count = int (max (length playlists) (length (selected_playlist_ids j))),
          ms_saved_album_count = max (entity_total entities E_ALBUM) (int (length (selected_album_ids j))),
          ms_followed_artist_count = max (entity_total entities E_ARTIST) (int (length (selected_artist_ids j))),
          ms_entity_counts = entities, ms_playlists = playlists, ms_empty = empty,
          ms_message = (if \<not> available then Some ''Item-level migration detail is no longer retained.''
            else if empty then Some ''No migration items were recorded for this migration yet.'' else None),
          ms_detail_available = available, ms_detail_expires_at = effective_details_expires_at retention j\<rparr>)"

definition current_summary :: "migration_job \<Rightarrow> db \<Rightarrow> job_summary option" where
  "current_summary j d =
     (if mj_details_purged_at j \<noteq> None then mj_result_summary j else Some (job_result_summary j (job_items (mj_id j) d)))"

definition initialize_details_expiry :: "int \<Rightarrow> migration_job \<Rightarrow> migration_job" where
  "initialize_details_expiry retention j =
     (if mj_details_expires_at j \<noteq> None \<or> retention \<le> 0 then j
      else j\<lparr>mj_details_expires_at := effective_details_expires_at retention j\<rparr>)"

definition set_expiry :: "'w env \<Rightarrow> migration_job \<Rightarrow> ('w, migration_job) handler" where
  "set_expiry env j =
     (let k = initialize_details_expiry (set_migration_history_retention_days (env_settings env)) j in
      if k = j then ret j
      else andthen (edit_job (mj_id j) (\<lambda>_. k)) (\<lambda>_. andthen commit (\<lambda>_. ret k)))"

text \<open>\<open>isoformat\<close> of a time in UTC.\<close>

definition civil_date :: "int \<Rightarrow> date" where
  "civil_date days =
     (let z = days + 719468; era = z div 146097; doe = z mod 146097;
          yoe = (doe - doe div 1460 + doe div 36524 - doe div 146096) div 365;
          doy = doe - (365 * yoe + yoe div 4 - yoe div 100); mp = (5 * doy + 2) div 153;
          m = (if mp < 10 then mp + 3 else mp - 9)
      in Date (yoe + era * 400 + (if m \<le> 2 then 1 else 0)) m (doy - (153 * mp + 2) div 5 + 1))"

definition iso_text :: "int \<Rightarrow> string" where
  "iso_text t =
     (let s = t mod 86400 in date_text (civil_date (t div 86400)) @ ''T'' @ two_digits (s div 3600) @ '':'' @
        two_digits (s mod 3600 div 60) @ '':'' @ two_digits (s mod 60) @ ''+00:00'')"

definition owned_job :: "string \<Rightarrow> string \<Rightarrow> ('w, migration_job) handler" where
  "owned_job job user =
     andthen (get_job job) (\<lambda>found.
     case found of
       Some j \<Rightarrow> if mj_user_id j = user then ret j else throw (HTTPException 404 ''migration job not found'')
     | None \<Rightarrow> throw (HTTPException 404 ''migration job not found''))"

definition require_details_available :: "'w env \<Rightarrow> migration_job \<Rightarrow> ('w, unit) handler" where
  "require_details_available env j =
     (let days = set_migration_history_retention_days (env_settings env) in
      andthen utcnow (\<lambda>now.
      if details_available now days j then ret ()
      else throw (HTTPException 410
        (case effective_details_expires_at days j of
           Some t \<Rightarrow> ''migration item detail expired at '' @ iso_text t
         | None \<Rightarrow> ''migration item detail is no longer retained''))))"

definition get_migration :: "string \<Rightarrow> string \<Rightarrow> ('w, job_view) handler" where
  "get_migration job user = andthen open_session (\<lambda>_. andthen (owned_job job user) (\<lambda>j. ret (job_view_of j)))"

definition get_migration_stats ::
  "'w env \<Rightarrow> (string \<Rightarrow> string \<Rightarrow> (string, string) dict) \<Rightarrow> string \<Rightarrow> string \<Rightarrow> ('w, migration_stats) handler"
where
  "get_migration_stats env manifests job user =
     andthen open_session (\<lambda>_.
     andthen (owned_job job user) (\<lambda>j0.
     andthen (set_expiry env j0) (\<lambda>j.
     andthen utcnow (\<lambda>now.
     query (\<lambda>d. stats_from_summary now (set_migration_history_retention_days (env_settings env)) j (current_summary j d)
       (playlist_names manifests user j d)
       (account_view_of (mj_source_account_id j) (mj_source_provider j) user d)
       (account_view_of (mj_target_account_id j) (mj_target_provider j) user d))))))"

text \<open>The statistics from the items themselves, the reference the tests compare with.\<close>

definition rows_name :: "job_item list \<Rightarrow> string option" where
  "rows_name items = (case filter (\<lambda>i. truthy (ji_source_playlist_name i)) items of [] \<Rightarrow> None | i # _ \<Rightarrow> ji_source_playlist_name i)"

definition group_items :: "job_item list \<Rightarrow> (string, job_item list) dict" where
  "group_items items = fold (\<lambda>i. dict_append (the (ji_source_playlist_id i)) i) (playlist_rows items) []"

definition playlist_stats_of_items :: "job_item list \<Rightarrow> playlist_stats list" where
  "playlist_stats_of_items items =
     map (\<lambda>(p, rs). \<lparr>pst_source_playlist_id = p, pst_source_playlist_name = rows_name rs,
        pst_target_playlist_id = (case filter (\<lambda>i. truthy (ji_target_playlist_id i)) rs of [] \<Rightarrow> None | i # _ \<Rightarrow> ji_target_playlist_id i),
        pst_counts = counts_from_items rs 0\<rparr>)
       (sort_key (\<lambda>(p, rs). or_str (rows_name rs) p) (group_items items))"

definition entity_counts_of_items :: "job_item list \<Rightarrow> (string, status_count) dict" where
  "entity_counts_of_items items =
     map (\<lambda>e. (entity_value e, counts_from_items (filter (\<lambda>i. ji_entity_type i = e) items) 0)) [E_TRACK, E_ALBUM, E_ARTIST]"

section \<open>Lists of migrations\<close>

record migration_option =
  mo_id :: string
  mo_label :: string
  mo_playlist_names :: "string list"
  mo_status :: string
  mo_source_provider :: string
  mo_target_provider :: string
  mo_created_at :: int
  mo_outcome :: string
  mo_detail_available :: bool
  mo_detail_expires_at :: "int option"
  mo_selection_summary :: selection_view

definition migration_option_of :: "int \<Rightarrow> int \<Rightarrow> migration_job \<Rightarrow> string list \<Rightarrow> status_count \<Rightarrow> migration_option" where
  "migration_option_of now retention j names counts =
     \<lparr>mo_id = mj_id j, mo_label = migration_label j names, mo_playlist_names = names, mo_status = mj_status j,
      mo_source_provider = mj_source_provider j, mo_target_provider = mj_target_provider j, mo_created_at = mj_created_at j,
      mo_outcome = migration_outcome (mj_status j) counts, mo_detail_available = details_available now retention j,
      mo_detail_expires_at = effective_details_expires_at retention j, mo_selection_summary = selection_view_of j\<rparr>"

text \<open>\<open>_migration_filter_conditions\<close> with the order of the list.\<close>

definition migrations_of :: "string \<Rightarrow> string option \<Rightarrow> string option \<Rightarrow> db \<Rightarrow> migration_job list" where
  "migrations_of user source target d =
     order_desc (\<lambda>j. (mj_created_at j, mj_id j)) (select_rows (\<lambda>j. mj_user_id j = user \<and> mj_origin j = ''manual'' \<and>
       (\<not> truthy source \<or> Some (mj_source_provider j) = source) \<and>
       (\<not> truthy target \<or> Some (mj_target_provider j) = target)) (db_jobs d))"

text \<open>What the items of a job say, or, when they are gone, its summary.\<close>

definition live_counts :: "string \<Rightarrow> db \<Rightarrow> (string, int) dict" where
  "live_counts job d = counter (map ji_status (job_items job d))"

definition option_counts :: "migration_job \<Rightarrow> db \<Rightarrow> status_count" where
  "option_counts j d =
     (if live_counts (mj_id j) d \<noteq> [] then view_counts (live_counts (mj_id j) d) (mj_total j)
      else counts_from_history (Some (summary_counts j)) (mj_total j))"

definition list_migrations ::
  "'w env \<Rightarrow> (string \<Rightarrow> string \<Rightarrow> (string, string) dict) \<Rightarrow> string \<Rightarrow> ('w, migration_option list) handler"
where
  "list_migrations env manifests user =
     (let days = set_migration_history_retention_days (env_settings env) in
      andthen open_session (\<lambda>_.
      andthen (query (migrations_of user None None)) (\<lambda>js.
      let ks = map (initialize_details_expiry days) js in
      andthen (if ks = js then ret ()
        else andthen (for_each ks (\<lambda>k. edit_job (mj_id k) (\<lambda>_. k))) (\<lambda>_. commit)) (\<lambda>_.
      andthen utcnow (\<lambda>now.
      query (\<lambda>d. map (\<lambda>j. migration_option_of now days j (playlist_names manifests user j d) (option_counts j d)) ks))))))"

record aggregate_stats =
  ag_total_migrations :: nat
  ag_total_playlists :: nat
  ag_total_saved_albums :: int
  ag_total_followed_artists :: int
  ag_entity_counts :: "(string, status_count) dict"
  ag_counts :: status_count
  ag_empty :: bool
  ag_message :: "string option"

text \<open>The counters the aggregate collects for a job, from its items or from its summary.\<close>

definition saved_counter :: "status_count \<Rightarrow> (string, int) dict" where
  "saved_counter c = fold (\<lambda>(s, n). dict_set s n) (stc_other c) (map (\<lambda>s. (s, known_count c s)) known_statuses)"

definition job_counter :: "migration_job \<Rightarrow> db \<Rightarrow> (string, int) dict" where
  "job_counter j d =
     (if job_items (mj_id j) d \<noteq> [] then live_counts (mj_id j) d else saved_counter (summary_counts j))"

definition job_entity_counter :: "migration_job \<Rightarrow> entity_type \<Rightarrow> db \<Rightarrow> (string, int) dict" where
  "job_entity_counter j e d =
     (if job_items (mj_id j) d \<noteq> [] then counter (map ji_status (filter (\<lambda>i. ji_entity_type i = e) (job_items (mj_id j) d)))
      else case dict_get (summary_entity_counts j) (entity_value e) of None \<Rightarrow> [] | Some c \<Rightarrow> saved_counter c)"

definition job_playlist_keys :: "migration_job \<Rightarrow> db \<Rightarrow> (string \<times> string) list" where
  "job_playlist_keys j d =
     map (Pair (mj_id j))
       ((if job_items (mj_id j) d \<noteq> []
         then map (\<lambda>i. the (ji_source_playlist_id i)) (filter (\<lambda>i. ji_entity_type i = E_TRACK \<and> truthy (ji_source_playlist_id i))
           (job_items (mj_id j) d))
         else filter (\<lambda>p. p \<noteq> []) (map psm_source_playlist_id (summary_playlists j))) @
        selected_playlist_ids j)"

definition aggregate_migration_stats :: "string \<Rightarrow> string option \<Rightarrow> string option \<Rightarrow> db \<Rightarrow> aggregate_stats" where
  "aggregate_migration_stats user source target d =
     (let js = migrations_of user source target d;
          counts = sum_status_counts (map (\<lambda>j. view_counts (job_counter j d) (mj_total j)) js);
          entities = map (\<lambda>e. (entity_value e, sum_status_counts (map (\<lambda>j.
            view_counts (job_entity_counter j e d) (selection_hint j e)) js))) [E_TRACK, E_ALBUM, E_ARTIST]
      in \<lparr>ag_total_migrations = length js, ag_total_playlists = length (remdups (concat (map (\<lambda>j. job_playlist_keys j d) js))),
          ag_total_saved_albums = entity_total entities E_ALBUM, ag_total_followed_artists = entity_total entities E_ARTIST,
          ag_entity_counts = entities, ag_counts = counts, ag_empty = (stc_total counts = 0),
          ag_message = (if js = [] then Some ''No migrations match these filters.''
            else if stc_total counts = 0
            then Some ''Migrations match these filters, but no track items were recorded yet.'' else None)\<rparr>)"

definition get_aggregate_migration_stats :: "string \<Rightarrow> string option \<Rightarrow> string option \<Rightarrow> ('w, aggregate_stats) handler" where
  "get_aggregate_migration_stats user source target =
     andthen open_session (\<lambda>_. query (aggregate_migration_stats user source target))"

section \<open>Items\<close>

text \<open>The validated query: the confidences are between 0 and 1, the page sizes in their ranges.\<close>

record item_query =
  iq_filters :: item_filters
  iq_limit :: "nat option"
  iq_offset :: nat

definition validate_item_filters :: "item_filters \<Rightarrow> exn + item_filters" where
  "validate_item_filters f =
     (let statuses = filter (\<lambda>s. s \<noteq> []) (map strip (fi_statuses f)) in
      if (case (fi_min_confidence f, fi_max_confidence f) of (Some lo, Some hi) \<Rightarrow> hi < lo | _ \<Rightarrow> False)
      then Inl (HTTPException 400 ''min_confidence cannot be greater than max_confidence'')
      else if length statuses > 20 \<or> list_ex (\<lambda>s. length s > 50) statuses
      then Inl (HTTPException 400 ''status filters are invalid'')
      else Inr (f\<lparr>fi_statuses := statuses\<rparr>))"

text \<open>
  The order of \<open>migration_items_stmt\<close>: absent texts come last, and texts compare by their characters.
\<close>

definition nulls_last :: "string option \<Rightarrow> bool \<times> string" where
  "nulls_last v = (v = None, case v of None \<Rightarrow> [] | Some s \<Rightarrow> s)"

definition item_order ::
  "job_item \<Rightarrow> string \<times> (bool \<times> string) \<times> (bool \<times> string) \<times> (bool \<times> string) \<times> int \<times> string"
where
  "item_order i = (entity_value (ji_entity_type i), nulls_last (ji_source_playlist_name i), nulls_last (ji_source_playlist_id i),
     nulls_last (ji_source_entity_name i), ji_position i, ji_id i)"

definition page :: "nat option \<Rightarrow> nat \<Rightarrow> 'a list \<Rightarrow> 'a list" where
  "page limit offset xs = (case limit of None \<Rightarrow> xs | Some n \<Rightarrow> take n (drop offset xs))"

definition get_migration_items ::
  "'w env \<Rightarrow> string \<Rightarrow> string \<Rightarrow> item_query \<Rightarrow> ('w, int \<times> job_item list) handler"
where
  "get_migration_items env job user q =
     andthen open_session (\<lambda>_.
     andthen (owned_job job user) (\<lambda>j.
     andthen (require_details_available env j) (\<lambda>_.
     andthen (expect (validate_item_filters (iq_filters q))) (\<lambda>f.
     query (\<lambda>d. (migration_item_count job user f d,
       page (iq_limit q) (iq_offset q) (sort_key item_order (migration_items job user f d))))))))"

section \<open>Counting twice\<close>

text \<open>
  The API counts items one by one, the database groups them by status. Both give the same counts:
  equal numbers for the known statuses, and equal dictionaries for the others.
\<close>

definition same_counts :: "status_count \<Rightarrow> status_count \<Rightarrow> bool" where
  "same_counts c e \<longleftrightarrow> stc_total c = stc_total e \<and> (\<forall>s. known_count c s = known_count e s) \<and>
     (\<forall>s. dict_get (stc_other c) s = dict_get (stc_other e) s)"

lemma known_counts_with:
  "known_count (counts_with k o' n x) s = (if s \<in> set known_statuses then k s + (if s = ''pending'' then x else 0) else 0)"
  by (simp add: known_count_def counts_with_def known_statuses_def)

lemma counts_with_fields [simp]: "stc_total (counts_with k o' n x) = n" "stc_other (counts_with k o' n x) = o'"
  by (simp_all add: counts_with_def)

text \<open>What a dictionary of counts adds up to, by the counts alone.\<close>

definition observed_count :: "(string \<Rightarrow> int) \<Rightarrow> int" where
  "observed_count f = sum_list (map f known_statuses) + (\<Sum>s | s \<notin> set known_statuses \<and> 0 < f s. f s)"

lemma count_of_set: "count_of (dict_set k n m) s = (if s = k then n else count_of m s)"
  by (simp add: count_of_def)

lemma sum_other:
  assumes "is_dict m"
  shows "sum_list (map snd (filter (\<lambda>(s, n). s \<notin> set known_statuses \<and> 0 < n) m)) =
    (\<Sum>s | s \<notin> set known_statuses \<and> 0 < count_of m s. count_of m s)"
proof -
  let ?f = "filter (\<lambda>(s, n). s \<notin> set known_statuses \<and> 0 < n) m"
  have d: "distinct (map fst ?f)" using assms by (simp add: is_dict_def distinct_map_filter)
  have mem: "(s, n) \<in> set m \<Longrightarrow> count_of m s = n" for s n
    using assms by (simp add: count_of_def dict_get_mem)
  have keys: "set (map fst ?f) = {s. s \<notin> set known_statuses \<and> 0 < count_of m s}"
  proof (intro set_eqI iffI)
    fix s assume "s \<in> {s. s \<notin> set known_statuses \<and> 0 < count_of m s}"
    then have s: "s \<notin> set known_statuses" "0 < count_of m s" by simp_all
    then obtain n where "dict_get m s = Some n" by (cases "dict_get m s") (simp_all add: count_of_def)
    with assms have "(s, n) \<in> set m" by (simp add: dict_get_mem)
    with s mem [OF this] show "s \<in> set (map fst ?f)" by force
  qed (auto dest: mem)
  have "map snd ?f = map (count_of m) (map fst ?f)" using mem by auto
  then show ?thesis unfolding keys [symmetric] by (simp only: sum_list_distinct_conv_sum_set [OF d])
qed

lemma get_other:
  assumes "is_dict m"
  shows "dict_get (filter (\<lambda>(s, n). s \<notin> set known_statuses \<and> 0 < n) m) s =
    (if s \<notin> set known_statuses \<and> 0 < count_of m s then Some (count_of m s) else None)"
proof -
  let ?f = "filter (\<lambda>(s, n). s \<notin> set known_statuses \<and> 0 < n) m"
  have f: "is_dict ?f" using assms by (simp add: is_dict_def distinct_map_filter)
  have iff: "dict_get ?f s = Some n \<longleftrightarrow> dict_get m s = Some n \<and> s \<notin> set known_statuses \<and> 0 < n" for n
    unfolding dict_get_mem [OF f, symmetric] dict_get_mem [OF assms, symmetric] by simp
  show ?thesis
  proof (cases "s \<notin> set known_statuses \<and> 0 < count_of m s")
    case True
    then obtain n where "dict_get m s = Some n" by (cases "dict_get m s") (simp_all add: count_of_def)
    moreover from this have "count_of m s = n" by (simp add: count_of_def)
    ultimately show ?thesis using True iff [of n] by simp
  next
    case False
    then have "dict_get ?f s \<noteq> Some n" for n using iff [of n] by (auto simp: count_of_def)
    with False show ?thesis by (simp only: if_False) (metis option.exhaust)
  qed
qed

lemma view_counts_facts:
  assumes "is_dict m"
  shows "stc_total (view_counts m h) = max h (observed_count (count_of m))"
    and "known_count (view_counts m h) s = (if s \<in> set known_statuses
      then count_of m s + (if s = ''pending'' then max 0 (h - observed_count (count_of m)) else 0) else 0)"
    and "dict_get (stc_other (view_counts m h)) s =
      (if s \<notin> set known_statuses \<and> 0 < count_of m s then Some (count_of m s) else None)"
    and "is_dict (stc_other (view_counts m h))"
  using assms sum_other [OF assms] get_other [OF assms, of s]
  by (simp_all add: view_counts_def Let_def known_counts_with observed_count_def is_dict_def distinct_map_filter)

lemma view_counts_cong:
  "is_dict m \<Longrightarrow> is_dict m' \<Longrightarrow> count_of m = count_of m' \<Longrightarrow> same_counts (view_counts m h) (view_counts m' h)"
  by (simp add: same_counts_def view_counts_facts)

lemma counter_facts:
  "is_dict (counter xs)" "count_of (counter xs) s = int (count_list xs s)"
proof -
  let ?step = "fold (\<lambda>s m. dict_set s (count_of m s + 1) m)"
  have "is_dict m \<Longrightarrow> is_dict (?step xs m) \<and> count_of (?step xs m) s = count_of m s + int (count_list xs s)" for m
    by (induction xs arbitrary: m) (auto simp: count_of_set)
  from this [of "[]"] show "is_dict (counter xs)" "count_of (counter xs) s = int (count_list xs s)"
    by (simp_all add: counter_def count_of_def)
qed

lemma status_rows_count: "count_of (status_rows items) s = int (count_list (map ji_status items) s)"
proof -
  have "dict_get (map (\<lambda>s. (s, f s)) ss) s = (if s \<in> set ss then Some (f s) else None)" for f :: "string \<Rightarrow> int" and ss
    by (induction ss) auto
  moreover have "count_list (map ji_status items) s = length (filter (\<lambda>i. ji_status i = s) items)"
    by (induction items) auto
  moreover have "s \<notin> ji_status ` set items \<Longrightarrow> filter (\<lambda>i. ji_status i = s) items = []"
    by (auto simp: filter_empty_conv)
  ultimately show ?thesis by (auto simp: count_of_def status_rows_def)
qed

lemma status_counts_view: "status_counts rs h = view_counts (raw_counts rs) h"
  by (simp add: status_counts_def view_counts_def counts_with_def other_counts_def Let_def)

lemma counts_from_items_same: "same_counts (counts_from_items items h) (status_counts (status_rows items) h)"
  unfolding counts_from_items_def status_counts_view raw_counts_distinct [OF status_rows_props(1)]
  by (rule view_counts_cong) (auto simp: counter_facts status_rows_props(1) status_rows_count)

lemma same_counts_sym: "same_counts c e \<Longrightarrow> same_counts e c"
  by (simp add: same_counts_def)

lemma same_counts_trans: "same_counts c e \<Longrightarrow> same_counts e f \<Longrightarrow> same_counts c f"
  by (simp add: same_counts_def)

lemma saved_counter_facts:
  assumes "is_dict (stc_other c)"
  shows "is_dict (saved_counter c)"
    and "count_of (saved_counter c) s = (case dict_get (stc_other c) s of Some n \<Rightarrow> n | None \<Rightarrow> known_count c s)"
proof -
  have fold: "is_dict acc \<Longrightarrow> is_dict (fold (\<lambda>(s, n). dict_set s n) other acc)" for other acc :: "(string, int) dict"
    by (induction other arbitrary: acc) auto
  have get: "is_dict other \<Longrightarrow> dict_get (fold (\<lambda>(s, n). dict_set s n) other acc) s =
      (case dict_get other s of None \<Rightarrow> dict_get acc s | v \<Rightarrow> v)" for other acc :: "(string, int) dict"
  proof (induction other arbitrary: acc)
    case (Cons x other)
    obtain k n where x: "x = (k, n)" by force
    with Cons.prems have "is_dict other" "dict_get other k = None" by (auto simp: is_dict_def map_of_eq_None_iff)
    with Cons.IH [of "dict_set k n acc"] show ?case by (auto simp: x split: option.splits)
  qed simp
  let ?base = "map (\<lambda>s. (s, known_count c s)) known_statuses"
  have base: "is_dict ?base" by (simp add: is_dict_def known_statuses_def)
  have "dict_get ?base s = (if s \<in> set known_statuses then Some (known_count c s) else None)"
    by (auto simp: known_statuses_def)
  moreover have "s \<notin> set known_statuses \<Longrightarrow> known_count c s = 0" by (simp add: known_count_def known_statuses_def)
  ultimately show "count_of (saved_counter c) s = (case dict_get (stc_other c) s of Some n \<Rightarrow> n | None \<Rightarrow> known_count c s)"
    using get [OF assms, of ?base] by (auto simp: saved_counter_def count_of_def split: option.splits)
  show "is_dict (saved_counter c)" unfolding saved_counter_def by (rule fold [OF base])
qed

lemma sum_pending:
  "sum_list (map (\<lambda>s. f s + (if s = ''pending'' then x else 0)) known_statuses) = sum_list (map f known_statuses) + (x :: int)"
  by (simp add: known_statuses_def)

lemma saved_counter_view:
  assumes "is_dict m"
  shows "same_counts (view_counts (saved_counter (view_counts m h)) h) (view_counts m h)"
proof -
  let ?v = "view_counts m h" and ?f = "count_of m"
  let ?g = "count_of (saved_counter ?v)" and ?x = "max 0 (h - observed_count (count_of m))"
  have d: "is_dict (stc_other ?v)" by (rule view_counts_facts(4) [OF assms])
  have g: "?g s = (if s \<in> set known_statuses then ?f s + (if s = ''pending'' then ?x else 0) else max 0 (?f s))" for s
    unfolding saved_counter_facts(2) [OF d] view_counts_facts(3) [OF assms] by (simp add: view_counts_facts(2) [OF assms])
  have others: "{s. s \<notin> set known_statuses \<and> 0 < ?g s} = {s. s \<notin> set known_statuses \<and> 0 < ?f s}" by (auto simp: g)
  have "sum_list (map ?g known_statuses) = sum_list (map (\<lambda>s. ?f s + (if s = ''pending'' then ?x else 0)) known_statuses)"
    by (rule arg_cong [where f = sum_list]) (simp add: g)
  then have obs: "observed_count ?g = observed_count ?f + ?x"
    unfolding observed_count_def others by (simp add: sum_pending g)
  show ?thesis
    unfolding same_counts_def view_counts_facts(1-3) [OF assms] view_counts_facts(1-3) [OF saved_counter_facts(1) [OF d]] obs
    by (auto simp: g)
qed

lemma known_sum: "sum_list (map (known_count (counts_with k o' n x)) known_statuses) = sum_list (map k known_statuses) + x"
  by (simp add: known_counts_with known_statuses_def)

lemma counts_from_history_view: "counts_from_history (Some (view_counts m h)) h = view_counts m h"
proof -
  let ?other = "filter (\<lambda>(s, n). s \<notin> set known_statuses \<and> 0 < n) m"
  let ?x = "if sum_list (map (count_of m) known_statuses) + sum_list (map snd ?other) < h
    then h - (sum_list (map (count_of m) known_statuses) + sum_list (map snd ?other)) else 0"
  have "filter (\<lambda>(s, n). 0 < n) ?other = ?other" by (induction m) auto
  moreover have "counts_with (known_count (counts_with k o' n x)) o' n' 0 = counts_with k o' n' x" for k o' n n' x
    by (simp add: counts_with_def known_count_def)
  ultimately show ?thesis
    by (auto simp: counts_from_history_def view_counts_def Let_def known_sum max_def)
qed

text \<open>
  C12. The three ways the program counts a migration agree: counting its items one by one, reading
  the summary that was stored for it (the view of one migration), and adding up the stored summary
  (the view over all migrations) give the same numbers for every status, known or not, whatever
  the number of tracks the migration announced.
\<close>

theorem counts_agree:
  "let stored = status_counts (status_rows items) h
   in same_counts (counts_from_items items h) (counts_from_history (Some stored) h) \<and>
      same_counts (counts_from_items items h) (view_counts (saved_counter stored) h)"
  using counts_from_items_same [of items h] saved_counter_view [OF status_rows_props(1), of items h]
    same_counts_trans same_counts_sym
  unfolding Let_def status_counts_view raw_counts_distinct [OF status_rows_props(1)] counts_from_history_view
  by blast

section \<open>Views are balanced\<close>

text \<open>The parts of a view, with the statuses the program does not know, add up to its total.\<close>

definition balanced :: "status_count \<Rightarrow> bool" where
  "balanced c \<longleftrightarrow> stc_total c = stc_pending c + stc_matched c + stc_needs_review c + stc_written c + stc_skipped c +
     stc_failed c + sum_list (map snd (stc_other c))"

lemma balanced_parts: "balanced c \<longleftrightarrow> stc_total c = sum_list (map (known_count c) known_statuses) + sum_list (map snd (stc_other c))"
  by (simp add: balanced_def known_count_def known_statuses_def add.assoc)

lemma view_counts_balanced [simp]: "balanced (view_counts m h)"
  by (simp add: balanced_def view_counts_def counts_with_def known_statuses_def Let_def)

lemma sum_set_count: "is_dict m \<Longrightarrow> sum_list (map snd (dict_set s n m)) = sum_list (map snd m) - count_of m s + n"
  by (induction m) (auto simp: count_of_def is_dict_def map_of_eq_None_iff dest: weak_map_of_SomeI)

lemma merge_counts_facts:
  "is_dict m \<Longrightarrow> is_dict (merge_counts m n) \<and>
     sum_list (map snd (merge_counts m n)) = sum_list (map snd m) + sum_list (map snd n)"
  unfolding merge_counts_def by (induction n arbitrary: m) (auto simp: sum_set_count)

lemma sum_status_counts_balanced:
  assumes "\<forall>c \<in> set cs. balanced c"
  shows "balanced (sum_status_counts cs)"
proof -
  have "is_dict m \<Longrightarrow> sum_list (map snd (fold (\<lambda>c m. merge_counts m (stc_other c)) cs m)) =
      sum_list (map snd m) + sum_list (map (\<lambda>c. sum_list (map snd (stc_other c))) cs)" for m
    by (induction cs arbitrary: m) (auto simp: merge_counts_facts)
  from this [of "[]"]
  have other: "sum_list (map snd (stc_other (sum_status_counts cs))) = sum_list (map (\<lambda>c. sum_list (map snd (stc_other c))) cs)"
    by (simp add: sum_status_counts_def)
  have "sum_list (map stc_total cs) = sum_list (map (\<lambda>c. sum_list (map (known_count c) known_statuses)) cs) +
      sum_list (map (\<lambda>c. sum_list (map snd (stc_other c))) cs)"
    using assms by (induction cs) (auto simp: balanced_parts)
  moreover have "sum_list (map (\<lambda>c. sum_list (map (known_count c) known_statuses)) cs) =
      sum_list (map (\<lambda>s. sum_list (map (\<lambda>c. known_count c s) cs)) known_statuses)"
    by (simp add: known_statuses_def sum_list_addf)
  ultimately show ?thesis
    unfolding balanced_parts other by (simp add: sum_status_counts_def known_sum)
qed

text \<open>
  C39. The statistics over all migrations are balanced, for tracks, albums and artists and
  altogether: the parts add up to the total, whether a migration still has its items or only a
  stored summary, and whatever that summary says.
\<close>

theorem aggregate_is_balanced:
  "let a = aggregate_migration_stats user source target d
   in balanced (ag_counts a) \<and> list_all (\<lambda>(e, c). balanced c) (ag_entity_counts a)"
proof -
  have "balanced (sum_status_counts (map (\<lambda>j. view_counts (f j) (g j)) js))" for f g and js :: "migration_job list"
    by (rule sum_status_counts_balanced) auto
  then show ?thesis by (simp add: aggregate_migration_stats_def Let_def)
qed

end
