(* ===== verification/Reviews.thy ===== *)
theory Reviews
  imports Migration_Start Continuous_Sync Job_Views
begin

text \<open>
  The review of migrated items (\<open>app/api/migrations.py\<close>): a user approves or skips what the worker
  left for review or could not write. Approving writes one track, album or artist to the target,
  records the decision for later migrations, and finalizes the synchronization that waited for it.
  An item as the API shows it is its row.
\<close>

section \<open>Requests\<close>

datatype review_action = APPROVE | SKIP

record review_body =
  rb_action :: review_action
  rb_target_uri :: "string option"

fun review_value :: "review_action \<Rightarrow> string" where
  "review_value APPROVE = ''approve''"
| "review_value SKIP = ''skip''"

text \<open>What a review turns into an HTTP error. That an account is gone is not among it.\<close>

definition review_error :: "exn \<Rightarrow> exn" where
  "review_error e = (case e of AccountNotFound _ \<Rightarrow> e | CredentialNotFound _ \<Rightarrow> e | _ \<Rightarrow> api_error e)"

section \<open>The identifier in a URI\<close>

text \<open>
  \<open>urlparse\<close> as far as the path: the scheme, the host and what follows the path are cut off. A host
  in brackets, which the library may reject, does not occur.
\<close>

definition scheme_char :: "char \<Rightarrow> bool" where
  "scheme_char c = (c \<in> set ''abcdefghijklmnopqrstuvwxyzABCDEFGHIJKLMNOPQRSTUVWXYZ0123456789+-.'')"

definition split_scheme :: "string \<Rightarrow> string \<times> string" where
  "split_scheme v =
     (let s = takeWhile (\<lambda>c. c \<noteq> CHR '':'') v in
      if length s < length v \<and> s \<noteq> [] \<and> hd s \<in> set ''abcdefghijklmnopqrstuvwxyzABCDEFGHIJKLMNOPQRSTUVWXYZ'' \<and>
         list_all scheme_char s
      then (lower s, drop (Suc (length s)) v) else ([], v))"

definition uses_params :: "string list" where
  "uses_params = [[], ''ftp'', ''hdl'', ''prospero'', ''http'', ''https'', ''shttp'', ''rtsp'', ''rtsps'', ''sip'', ''sips'',
     ''mms'', ''sftp'', ''tel'']"

definition cut_params :: "string \<Rightarrow> string" where
  "cut_params p =
     (let seg = after_last (CHR ''/'') p
      in take (length p - length seg) p @ takeWhile (\<lambda>c. c \<noteq> CHR '';'') seg)"

definition url_path :: "string \<Rightarrow> string" where
  "url_path v =
     (case split_scheme v of (sch, r) \<Rightarrow>
        let r' = (if starts_with ''//'' r then dropWhile (\<lambda>c. c \<notin> set ''/?#'') (drop 2 r) else r);
            p = takeWhile (\<lambda>c. c \<noteq> CHR ''?'') (takeWhile (\<lambda>c. c \<noteq> CHR ''#'') r')
        in if sch \<in> set uses_params then cut_params p else p)"

fun segment_after :: "string list \<Rightarrow> string list \<Rightarrow> string option" where
  "segment_after [] parts = None"
| "segment_after (t # ts) parts =
     (case dropWhile (\<lambda>p. p \<noteq> t) parts of _ # x # _ \<Rightarrow> Some x | _ \<Rightarrow> segment_after ts parts)"

definition provider_entity_id :: "string \<Rightarrow> string" where
  "provider_entity_id uri =
     (let v = strip uri in
      if contains '':'' v \<and> \<not> contains ''://'' v
      then (let x = after_last (CHR '':'') v in if x = [] then v else x)
      else case segment_after [''track'', ''album'', ''artist''] (filter (\<lambda>p. p \<noteq> []) (split_on (CHR ''/'') (url_path v))) of
             Some x \<Rightarrow> x | None \<Rightarrow> v)"

section \<open>Recording a decision\<close>

definition optional_string :: "json option \<Rightarrow> string option" where
  "optional_string v =
     (case v of None \<Rightarrow> None | Some JNull \<Rightarrow> None | Some w \<Rightarrow> none_if_empty (py_str w))"

definition review_decision_of ::
  "string \<Rightarrow> int \<Rightarrow> migration_job \<Rightarrow> job_item \<Rightarrow> string \<Rightarrow> review_decision"
where
  "review_decision_of i now j row uri =
     \<lparr>rd_id = i, rd_job_id = mj_id j, rd_user_id = mj_user_id j, rd_source_provider = mj_source_provider j,
      rd_target_provider = mj_target_provider j, rd_source_account_id = mj_source_account_id j,
      rd_target_account_id = mj_target_account_id j, rd_entity_type = ji_entity_type row,
      rd_source_entity_id = or_else (ji_source_entity_id row) (optional_string (dict_get (ji_source_metadata row) ''id'')),
      rd_source_entity_name = or_else (ji_source_entity_name row) (Some (ji_title row)),
      rd_target_entity_id = or_else (ji_target_entity_id row) (Some (provider_entity_id uri)),
      rd_title = ji_title row, rd_artist = ji_artist row, rd_album = ji_album row,
      rd_duration_s = ji_duration_s row, rd_isrc = ji_isrc row, rd_source_metadata = ji_source_metadata row,
      rd_target_uri = uri, rd_confidence = (case ji_confidence row of None \<Rightarrow> 0 | Some c \<Rightarrow> c),
      rd_status = ji_status row, rd_action = ''approve'', rd_created_at = now\<rparr>"

definition add_decision :: "'w env \<Rightarrow> migration_job \<Rightarrow> string \<Rightarrow> string \<Rightarrow> ('w, unit) handler" where
  "add_decision env j item uri =
     andthen (get_item item) (\<lambda>row.
     andthen (uuid4 env) (\<lambda>i. andthen utcnow (\<lambda>now.
     edit (\<lambda>d. d\<lparr>db_decisions := dict_set i (review_decision_of i now j row uri) (db_decisions d)\<rparr>))))"

text \<open>The item is given its outcome, its counts are committed, and it is shown.\<close>

definition close_review :: "'w env \<Rightarrow> migration_job \<Rightarrow> string \<Rightarrow> (job_item \<Rightarrow> job_item) \<Rightarrow> string option \<Rightarrow> ('w, job_item) handler" where
  "close_review env j item f decided =
     andthen (edit_item item f) (\<lambda>_.
     andthen (case decided of None \<Rightarrow> ret () | Some uri \<Rightarrow> add_decision env j item uri) (\<lambda>_.
     andthen (commit_job_counts (mj_id j)) (\<lambda>_. get_item item)))"

section \<open>Approving a track\<close>

text \<open>
  Asking the target: the review is over when only a match was wanted or the target has the track,
  otherwise the track was added with these results.
\<close>

definition ask_target ::
  "'w env \<Rightarrow> migration_job \<Rightarrow> job_item \<Rightarrow> string \<Rightarrow> ('w, job_item + add_item_result list) handler"
where
  "ask_target env j row uri =
     catching
       (andthen (expect (get_adapter (env_registry env) (mj_target_provider j))) (\<lambda>ta.
        andthen (load_fresh_credential env (mj_target_account_id j) ta (Some (mj_target_provider j))
           (Some (mj_user_id j))) (\<lambda>(cred, _).
        andthen (call (ad_validate_uri ta cred uri)) (\<lambda>valid.
        if \<not> valid then throw (HTTPException 400 ''target_uri is not valid for target provider'')
        else if sel_match_only (mj_selection j)
        then andthen (close_review env j (ji_id row) (\<lambda>r. r\<lparr>ji_target_uri := Some uri, ji_status := ''matched'',
               ji_reason := None\<rparr>) None) (\<lambda>view. ret (Inl view))
        else
          andthen (target_playlist_keys ta cred (the (ji_target_playlist_id row))) (\<lambda>existing.
          if item_target_keys (row\<lparr>ji_target_uri := Some uri\<rparr>) \<inter> existing \<noteq> {}
          then andthen (close_review env j (ji_id row) (\<lambda>r. r\<lparr>ji_target_uri := Some uri, ji_status := ''skipped'',
                 ji_reason := Some ''duplicate already exists in target playlist''\<rparr>) (Some uri)) (\<lambda>view. ret (Inl view))
          else andthen (call (ad_add_tracks ta cred (the (ji_target_playlist_id row)) [uri])) (\<lambda>results.
            ret (Inr results)))))))
       (\<lambda>e. throw (review_error e))"

definition first_result :: "add_item_result list \<Rightarrow> add_item_result option" where
  "first_result rs = (case rs of [] \<Rightarrow> None | r # _ \<Rightarrow> Some r)"

definition result_ok :: "add_item_result option \<Rightarrow> bool" where
  "result_ok r = (case r of None \<Rightarrow> False | Some x \<Rightarrow> ar_ok x)"

definition review_track ::
  "'w env \<Rightarrow> migration_job \<Rightarrow> job_item \<Rightarrow> string \<Rightarrow> ('w, job_item) handler"
where
  "review_track env j row uri =
     (if \<not> truthy (ji_target_playlist_id row)
      then throw (HTTPException 400 ''target playlist is missing for this item'')
      else
        andthen (ask_target env j row uri) (\<lambda>asked.
        case asked of
          Inl view \<Rightarrow> ret view
        | Inr results \<Rightarrow>
            let r = first_result results; p = the (ji_target_playlist_id row) in
            andthen (add_ledger env (mj_id j) ''review_add_track''
              (JObj [(''playlist_id'', JStr p), (''uri'', JStr uri)]) (if result_ok r then Some p else None)
              (case r of None \<Rightarrow> None | Some x \<Rightarrow> ar_position x) (if result_ok r then ''done'' else ''ambiguous'')) (\<lambda>_.
            if result_ok r
            then close_review env j (ji_id row) (\<lambda>i. i\<lparr>ji_target_uri := Some uri, ji_status := ''written'',
              ji_reason := None\<rparr>) (Some uri)
            else close_review env j (ji_id row) (\<lambda>i. i\<lparr>ji_target_uri := Some uri, ji_status := ''failed'',
              ji_reason := Some (or_str (case r of None \<Rightarrow> None | Some x \<Rightarrow> ar_error x) ''target rejected reviewed track'')\<rparr>) None)))"

section \<open>Approving an album or an artist\<close>

definition present_reason :: "entity_type \<Rightarrow> string" where
  "present_reason e = (if e = E_ALBUM then ''album already saved in target library'' else ''artist already exists in target library'')"

definition review_library_target :: "'w adapter \<Rightarrow> credential \<Rightarrow> entity_type \<Rightarrow> exn + 'w library_target" where
  "review_library_target ta cred e =
     (if e = E_ALBUM
      then (case album_writer_of ta of
              Inl x \<Rightarrow> Inl x
            | Inr w \<Rightarrow> (case require_saved_albums_target (ad_info ta) cred of Inl x \<Rightarrow> Inl x | Inr _ \<Rightarrow> Inr (Album_Target w)))
      else (case artist_writer_of ta of
              Inl x \<Rightarrow> Inl x
            | Inr w \<Rightarrow> (case require_followed_artists_target (ad_info ta) cred of Inl x \<Rightarrow> Inl x | Inr _ \<Rightarrow> Inr (Artist_Target w))))"

definition ask_library ::
  "'w env \<Rightarrow> migration_job \<Rightarrow> job_item \<Rightarrow> string \<Rightarrow> ('w, job_item + add_item_result list) handler"
where
  "ask_library env j row uri =
     catching
       (andthen (expect (get_adapter (env_registry env) (mj_target_provider j))) (\<lambda>ta.
        andthen (load_fresh_credential env (mj_target_account_id j) ta (Some (mj_target_provider j)) None) (\<lambda>(cred, _).
        andthen (expect (review_library_target ta cred (ji_entity_type row))) (\<lambda>tgt.
        andthen (call (validate_entity_uri tgt cred uri)) (\<lambda>valid.
        andthen (call (target_contains tgt cred [uri])) (\<lambda>present.
        if \<not> valid then throw (HTTPException 400 ''target_uri is not valid for target provider and entity type'')
        else if present = [True]
        then andthen (close_review env j (ji_id row) (\<lambda>r. r\<lparr>ji_target_uri := Some uri,
               ji_target_entity_id := Some (provider_entity_id uri), ji_status := ''skipped'',
               ji_reason := Some (present_reason (ji_entity_type row))\<rparr>) (Some uri)) (\<lambda>view. ret (Inl view))
        else if present \<noteq> [False]
        then throw (ProviderError ''target returned an invalid library contains response'')
        else andthen (call (target_save tgt cred [uri])) (\<lambda>results. ret (Inr results))))))))
       (\<lambda>e. throw (review_error e))"

definition review_operation :: "entity_type \<Rightarrow> string" where
  "review_operation e = (if e = E_ALBUM then ''review_save_album'' else ''review_follow_artist'')"

definition apply_library_review ::
  "'w env \<Rightarrow> migration_job \<Rightarrow> job_item \<Rightarrow> string \<Rightarrow> ('w, job_item) handler"
where
  "apply_library_review env j row uri =
     andthen (ask_library env j row uri) (\<lambda>asked.
     case asked of
       Inl view \<Rightarrow> ret view
     | Inr results \<Rightarrow>
         let r = first_result results; e = ji_entity_type row; found = provider_entity_id uri;
             outcome = (case r of
                 Some x \<Rightarrow> if ar_already_present x then (''skipped'', Some (present_reason e))
                   else if ar_ok x then (''written'', None)
                   else (''failed'', Some (or_str (ar_error x) ''target rejected reviewed library item''))
               | None \<Rightarrow> (''failed'', Some ''target rejected reviewed library item''))
         in
         andthen (add_ledger env (mj_id j) (review_operation e)
           (JObj [(''entity_type'', JStr (entity_value e)), (''uri'', JStr uri)])
           (if result_ok r then Some found else None) None (if result_ok r then ''done'' else ''ambiguous'')) (\<lambda>_.
         close_review env j (ji_id row) (\<lambda>i. i\<lparr>ji_target_uri := Some uri, ji_target_entity_id := Some found,
           ji_status := fst outcome, ji_reason := snd outcome\<rparr>)
           (if fst outcome \<in> {''written'', ''skipped''} then Some uri else None)))"

section \<open>Reviewing\<close>

definition begin_review :: "string \<Rightarrow> review_action \<Rightarrow> job_item \<Rightarrow> ('w, unit) handler" where
  "begin_review item act row =
     andthen utcnow (\<lambda>now.
     edit_item item (\<lambda>r. r\<lparr>ji_review_action := Some (review_value act), ji_review_original_status := Some (ji_status row),
       ji_review_original_reason := ji_reason row, ji_reviewed_at := Some now\<rparr>))"

definition skip_review :: "'w env \<Rightarrow> migration_job \<Rightarrow> string \<Rightarrow> ('w, job_item) handler" where
  "skip_review env j item =
     (if mj_origin j = ''sync'' \<and> sel_match_only (mj_selection j)
      then throw (HTTPException 400 ''mirror sync tracks cannot be skipped; provide a valid target URI'')
      else close_review env j item (\<lambda>r. r\<lparr>ji_target_uri := None, ji_target_entity_id := None, ji_status := ''skipped'',
        ji_reason := Some ''skipped during review''\<rparr>) None)"

definition apply_review :: "'w env \<Rightarrow> migration_job \<Rightarrow> string \<Rightarrow> review_body \<Rightarrow> ('w, job_item) handler" where
  "apply_review env j item body =
     andthen (get_item item) (\<lambda>row.
     if ji_status row \<notin> {''needs_review'', ''failed''}
     then throw (HTTPException 400 (''item is already '' @ ji_status row))
     else
       andthen (begin_review item (rb_action body) row) (\<lambda>_.
       case rb_action body of
         SKIP \<Rightarrow> skip_review env j item
       | APPROVE \<Rightarrow>
           (let uri = strip (or_str (or_else (rb_target_uri body) (ji_target_uri row)) []) in
            if uri = [] then throw (HTTPException 400 ''target_uri is required to approve a match'')
            else if ji_entity_type row \<noteq> E_TRACK then apply_library_review env j row uri
            else review_track env j row uri)))"

definition maybe_finalize_sync_review :: "'w env \<Rightarrow> migration_job \<Rightarrow> ('w, unit) handler" where
  "maybe_finalize_sync_review env j =
     (if mj_origin j \<notin> {''manual'', ''sync''} then ret ()
      else
        andthen (query (job_items (mj_id j))) (\<lambda>items.
        if \<not> review_finalization_ready items then ret ()
        else if mj_origin j = ''manual'' then andthen (ensure_continuous_sync env j) (\<lambda>_. ret ())
        else if \<not> truthy (mj_sync_run_id j) then ret ()
        else enqueue ''finalize_sync_review'' (the (mj_sync_run_id j)) (''sync-review:'' @ the (mj_sync_run_id j))))"

definition missing_item :: "string \<Rightarrow> exn" where
  "missing_item i = HTTPException 404 (''migration item not found: '' @ i)"

definition review_migration_item ::
  "'w env \<Rightarrow> string \<Rightarrow> string \<Rightarrow> review_body \<Rightarrow> string \<Rightarrow> ('w, job_item) handler"
where
  "review_migration_item env job item body user =
     andthen open_session (\<lambda>_.
     andthen (owned_job job user) (\<lambda>j.
     andthen (require_details_available env j) (\<lambda>_.
     andthen (query (\<lambda>d. dict_get (db_items d) item)) (\<lambda>found.
     if (case found of None \<Rightarrow> True | Some r \<Rightarrow> ji_job_id r \<noteq> job) then throw (HTTPException 404 ''migration item not found'')
     else
       andthen (apply_review env j item body) (\<lambda>view.
       andthen (maybe_finalize_sync_review env j) (\<lambda>_. ret view))))))"

definition review_migration_items ::
  "'w env \<Rightarrow> string \<Rightarrow> review_action \<Rightarrow> string list \<Rightarrow> string \<Rightarrow> ('w, job_item list) handler"
where
  "review_migration_items env job act ids user =
     andthen open_session (\<lambda>_.
     andthen (owned_job job user) (\<lambda>j.
     andthen (require_details_available env j) (\<lambda>_.
     if ids = [] then throw (HTTPException 400 ''Select at least one migration item'')
     else
       andthen (query (\<lambda>d. filter (\<lambda>r. ji_id r \<in> set ids) (job_items job d))) (\<lambda>items.
       case filter (\<lambda>i. i \<notin> ji_id ` set items) ids of
         i # _ \<Rightarrow> throw (missing_item i)
       | [] \<Rightarrow>
           andthen (fold_each (map ji_id items) [] (\<lambda>views i.
             andthen (get_item i) (\<lambda>row.
             andthen (apply_review env j i \<lparr>rb_action = act, rb_target_uri = ji_target_uri row\<rparr>) (\<lambda>view.
             ret (views @ [view]))))) (\<lambda>views.
           andthen (maybe_finalize_sync_review env j) (\<lambda>_. ret views))))))"

section \<open>What the session shows\<close>

text \<open>A part of the view of the session, whatever is committed meanwhile.\<close>

definition in_view :: "(db \<Rightarrow> 'v) \<Rightarrow> 'v \<Rightarrow> 'w engine \<Rightarrow> bool" where
  "in_view f v s \<longleftrightarrow> f (st_work s) = v"

lemma in_view_session [keeps_intro]:
  "keeps (in_view f v) flush" "keeps (in_view f v) commit" "keeps (in_view f v) (query g)" "keeps (in_view f v) utcnow"
  "keeps (in_view f v) (uuid4 env)" "keeps (in_view f v) (call m)" "keeps (in_view f v) (expect r)"
  by (auto intro!: keepsI simp: run_simps in_view_def)

lemma in_view_edit [keeps_intro]: "(\<And>d. f (g d) = f d) \<Longrightarrow> keeps (in_view f v) (edit g)"
  by (auto intro!: keepsI simp: run_simps in_view_def)

lemma in_view_credential [keeps_intro]:
  "account_free f \<Longrightarrow> keeps (in_view f v) (load_fresh_credential env account ad provider user)"
  by (auto simp: load_fresh_credential_def load_credential_def save_credential_def refresh_credential_def
      Let_def drop_account_def account_free_def intro!: keeps_intro split: exn.splits)

lemma in_view_target [keeps_intro]:
  "keeps (in_view f v) (target_playlist_keys ta cred p)" "keeps (in_view f v) (get_item i)"
  by (auto simp: target_playlist_keys_def unless_missing_def read_target_def get_item_def intro!: keeps_intro)

lemma account_free_items [simp]: "account_free db_items"
  by (simp add: account_free_def)

text \<open>A row with an edit, stamped with its time unless nothing changes.\<close>

definition stamped :: "int \<Rightarrow> (job_item \<Rightarrow> job_item) \<Rightarrow> job_item \<Rightarrow> job_item" where
  "stamped now f r = (if f r = r then r else (f r)\<lparr>ji_updated_at := now\<rparr>)"

lemma stamped_fields [simp]:
  "ji_status (stamped n f r) = ji_status (f r)" "ji_review_action (stamped n f r) = ji_review_action (f r)"
  "ji_review_original_status (stamped n f r) = ji_review_original_status (f r)" "ji_title (stamped n f r) = ji_title (f r)"
  "ji_target_uri (stamped n f r) = ji_target_uri (f r)" "ji_job_id (stamped n f r) = ji_job_id (f r)"
  by (simp_all add: stamped_def)

lemma edit_item_rows:
  "edit_item i f s = (Inr u, t) \<Longrightarrow>
     db_items (st_work t) = update_row i (stamped (st_clock s) f) (db_items (st_work s)) \<and>
     db_decisions (st_work t) = db_decisions (st_work s)"
  by (auto simp: edit_item_def ok_simps stamped_def [abs_def])

text \<open>A review that is closed: the item has its outcome, and both are committed.\<close>

definition closed :: "migration_job \<Rightarrow> string \<Rightarrow> (job_item \<Rightarrow> job_item) \<Rightarrow> string option \<Rightarrow> job_item table \<Rightarrow> job_item \<Rightarrow> 'w engine \<Rightarrow> bool" where
  "closed j item f decided before view t \<longleftrightarrow>
     st_db t = st_work t \<and>
     (\<forall>k. k \<noteq> item \<longrightarrow> dict_get (db_items (st_work t)) k = dict_get before k) \<and>
     dict_get (db_items (st_work t)) item = Some view \<and>
     (\<exists>r now. dict_get before item = Some r \<and> view = stamped now f r) \<and>
     (\<forall>uri. decided = Some uri \<longrightarrow> (\<exists>d \<in> set (rows (db_decisions (st_db t))). rd_job_id d = mj_id j \<and>
        rd_user_id d = mj_user_id j \<and> rd_target_uri d = uri \<and> rd_status d = ji_status view \<and> rd_title d = ji_title view))"

lemma dict_set_row: "r \<in> set (rows (dict_set i r t))"
  by (rule dict_get_rows [of _ i]) simp

lemma close_review_closed:
  assumes "close_review env j item f decided s = (Inr view, t)"
  shows "closed j item f decided (db_items (st_work s)) view t"
proof -
  from assms obtain u v where e: "edit_item item f s = (Inr (), u)"
    and d: "(case decided of None \<Rightarrow> ret () | Some uri \<Rightarrow> add_decision env j item uri) u = (Inr (), v)"
    and c: "commit_job_counts (mj_id j) v = (Inr (), t)" and view: "dict_get (db_items (st_work t)) item = Some view"
    by (auto simp: close_review_def ok_simps)
  have items: "db_items (st_work v) = db_items (st_work u)"
    using d by (auto simp: add_decision_def ok_simps split: option.splits)
  have t: "st_db t = st_work t" "db_items (st_work t) = db_items (st_work v)" "db_decisions (st_db t) = db_decisions (st_work v)"
    using c by (auto simp: commit_job_counts_def with_counts_def ok_simps)
  have "\<exists>d \<in> set (rows (db_decisions (st_work v))). rd_job_id d = mj_id j \<and> rd_user_id d = mj_user_id j \<and>
      rd_target_uri d = uri \<and> rd_status d = ji_status view \<and> rd_title d = ji_title view" if "decided = Some uri" for uri
  proof -
    from d that items view t obtain i n where
      "db_decisions (st_work v) = dict_set i (review_decision_of i n j view uri) (db_decisions (st_work u))"
      by (auto simp: add_decision_def ok_simps)
    then show ?thesis
      by (intro bexI [of _ "review_decision_of i n j view uri"]) (simp_all add: dict_set_row, simp_all add: review_decision_of_def)
  qed
  with view show ?thesis
    using edit_item_rows [OF e] items t by (auto simp: closed_def)
qed

text \<open>The outcomes of a review: a new status, what was reviewed is remembered, and what was written is decided.\<close>

definition outcome_edit :: "(job_item \<Rightarrow> job_item) \<Rightarrow> string option \<Rightarrow> bool" where
  "outcome_edit f decided \<longleftrightarrow>
     (\<forall>r. ji_status (f r) \<in> {''matched'', ''written'', ''skipped'', ''failed''} \<and>
        ji_review_action (f r) = ji_review_action r \<and> ji_review_original_status (f r) = ji_review_original_status r \<and>
        ji_job_id (f r) = ji_job_id r \<and> (ji_status (f r) = ''written'' \<longrightarrow> decided \<noteq> None \<and> decided = ji_target_uri (f r)))"

definition ended :: "migration_job \<Rightarrow> string \<Rightarrow> job_item table \<Rightarrow> job_item \<Rightarrow> 'w engine \<Rightarrow> bool" where
  "ended j item before view t \<longleftrightarrow> (\<exists>f decided. outcome_edit f decided \<and> closed j item f decided before view t)"

lemma close_review_ended:
  "close_review env j item f decided s = (Inr view, t) \<Longrightarrow> outcome_edit f decided \<Longrightarrow> db_items (st_work s) = v \<Longrightarrow>
     ended j item v view t"
  unfolding ended_def using close_review_closed by blast

lemma ask_end:
  assumes "keeps (in_view db_items v) m" and "m s = (Inr x, u)" and "db_items (st_work s) = v"
  shows "db_items (st_work u) = v"
  using keepsD [OF assms(1), of s] assms(2,3) by (simp add: in_view_def)

lemma catch_again: "catching m (\<lambda>e. throw (h e)) s = (Inr x, t) \<longleftrightarrow> m s = (Inr x, t)"
  by (simp add: catching_def throw_def split: prod.split sum.split)

lemma credential_items:
  "load_fresh_credential env acc ta p u s = (Inr x, t) \<Longrightarrow> db_items (st_work t) = db_items (st_work s)"
  by (erule ask_end [OF in_view_credential, rotated]) simp_all

lemma target_keys_items:
  "target_playlist_keys ta cred p s = (Inr x, t) \<Longrightarrow> db_items (st_work t) = db_items (st_work s)"
  by (erule ask_end [OF in_view_target(1)]) simp

lemmas asked_items = credential_items target_keys_items

lemma ask_target_ended:
  assumes "ask_target env j row uri s = (Inr asked, t)" and v: "db_items (st_work s) = v"
  shows "case asked of Inl view \<Rightarrow> ended j (ji_id row) v view t | Inr rs \<Rightarrow> db_items (st_work t) = v"
  using assms unfolding ask_target_def catch_again
  by (auto simp: ok_simps outcome_edit_def intro!: close_review_ended dest!: asked_items split: if_splits)

lemma review_track_ended:
  assumes "review_track env j row uri s = (Inr view, t)" and v: "db_items (st_work s) = v"
  shows "ended j (ji_id row) v view t"
proof -
  from assms(1) obtain asked u where a: "ask_target env j row uri s = (Inr asked, u)"
    and k: "(case asked of
          Inl view \<Rightarrow> ret view
        | Inr results \<Rightarrow>
            let r = first_result results; p = the (ji_target_playlist_id row) in
            andthen (add_ledger env (mj_id j) ''review_add_track''
              (JObj [(''playlist_id'', JStr p), (''uri'', JStr uri)]) (if result_ok r then Some p else None)
              (case r of None \<Rightarrow> None | Some x \<Rightarrow> ar_position x) (if result_ok r then ''done'' else ''ambiguous'')) (\<lambda>_.
            if result_ok r
            then close_review env j (ji_id row) (\<lambda>i. i\<lparr>ji_target_uri := Some uri, ji_status := ''written'',
              ji_reason := None\<rparr>) (Some uri)
            else close_review env j (ji_id row) (\<lambda>i. i\<lparr>ji_target_uri := Some uri, ji_status := ''failed'',
              ji_reason := Some (or_str (case r of None \<Rightarrow> None | Some x \<Rightarrow> ar_error x) ''target rejected reviewed track'')\<rparr>) None)) u =
        (Inr view, t)"
    unfolding review_track_def by (auto simp: ok_andthen ok_throw split: if_splits)
  show ?thesis
  proof (cases asked)
    case (Inl x)
    with k ask_target_ended [OF a v] show ?thesis by (simp add: ok_ret)
  next
    case (Inr results)
    with ask_target_ended [OF a v] have "db_items (st_work u) = v" by simp
    with k Inr show ?thesis
      by (auto simp: Let_def ok_andthen outcome_edit_def intro!: close_review_ended dest: add_ledger_items split: if_splits)
  qed
qed

lemma ask_library_ended:
  assumes "ask_library env j row uri s = (Inr asked, t)" and v: "db_items (st_work s) = v"
  shows "case asked of Inl view \<Rightarrow> ended j (ji_id row) v view t | Inr rs \<Rightarrow> db_items (st_work t) = v"
  using assms unfolding ask_library_def catch_again
  by (auto simp: ok_simps outcome_edit_def intro!: close_review_ended dest!: asked_items split: if_splits)

lemma library_review_ended:
  assumes "apply_library_review env j row uri s = (Inr view, t)" and v: "db_items (st_work s) = v"
  shows "ended j (ji_id row) v view t"
proof -
  from assms(1) obtain asked u where a: "ask_library env j row uri s = (Inr asked, u)"
    unfolding apply_library_review_def by (auto simp: ok_andthen)
  show ?thesis
  proof (cases asked)
    case (Inl x)
    with assms(1) a ask_library_ended [OF a v] show ?thesis by (auto simp: apply_library_review_def ok_andthen ok_ret)
  next
    case (Inr results)
    with ask_library_ended [OF a v] have "db_items (st_work u) = v" by simp
    with assms(1) a Inr show ?thesis
      by (auto simp: apply_library_review_def Let_def ok_andthen outcome_edit_def split: option.splits if_splits
          intro!: close_review_ended dest: add_ledger_items)
  qed
qed

definition begun :: "review_action \<Rightarrow> int \<Rightarrow> job_item \<Rightarrow> job_item \<Rightarrow> job_item" where
  "begun act now row = (\<lambda>r. r\<lparr>ji_review_action := Some (review_value act), ji_review_original_status := Some (ji_status row),
     ji_review_original_reason := ji_reason row, ji_reviewed_at := Some now\<rparr>)"

lemma begin_review_rows:
  "begin_review item act row s = (Inr (), t) \<Longrightarrow>
     db_items (st_work t) = update_row item (stamped (st_clock s) (begun act (st_clock s) row)) (db_items (st_work s))"
  by (auto simp: begin_review_def ok_andthen ok_queries begun_def dest!: edit_item_rows)

lemma apply_review_ended:
  assumes "apply_review env j item body s = (Inr view, t)" and "table_ok ji_id (\<lambda>_. True) (db_items (st_work s))"
  shows "\<exists>row now. dict_get (db_items (st_work s)) item = Some row \<and> ji_status row \<in> {''needs_review'', ''failed''} \<and>
    ended j item (update_row item (stamped now (begun (rb_action body) now row)) (db_items (st_work s))) view t"
proof -
  from assms(1) obtain row u where row: "dict_get (db_items (st_work s)) item = Some row"
    and st: "ji_status row \<in> {''needs_review'', ''failed''}" and b: "begin_review item (rb_action body) row s = (Inr (), u)"
    and k: "(case rb_action body of
         SKIP \<Rightarrow> skip_review env j item
       | APPROVE \<Rightarrow>
           (let uri = strip (or_str (or_else (rb_target_uri body) (ji_target_uri row)) []) in
            if uri = [] then throw (HTTPException 400 ''target_uri is required to approve a match'')
            else if ji_entity_type row \<noteq> E_TRACK then apply_library_review env j row uri
            else review_track env j row uri)) u = (Inr view, t)"
    unfolding apply_review_def get_item_def by (auto simp: ok_simps split: if_splits option.splits)
  have id: "ji_id row = item" using table_ok_get [OF assms(2) row] by simp
  let ?v = "update_row item (stamped (st_clock s) (begun (rb_action body) (st_clock s) row)) (db_items (st_work s))"
  have v: "db_items (st_work u) = ?v"
    using begin_review_rows [OF b] .
  have "ended j item ?v view t"
  proof (cases "rb_action body")
    case SKIP
    with k v show ?thesis
      by (auto simp: skip_review_def ok_throw outcome_edit_def intro!: close_review_ended split: if_splits)
  next
    case APPROVE
    with k show ?thesis
      using review_track_ended [OF _ v, of env j row] library_review_ended [OF _ v, of env j row]
      by (auto simp: Let_def ok_throw id split: if_splits)
  qed
  with row st show ?thesis by blast
qed

text \<open>What a review did to the session's view, in one statement.\<close>

lemma apply_review_settled:
  assumes "apply_review env j item body s = (Inr view, t)" and "table_ok ji_id (\<lambda>_. True) (db_items (st_work s))"
  shows "st_db t = st_work t \<and> (\<exists>row. dict_get (db_items (st_work s)) item = Some row \<and>
      ji_status row \<in> {''needs_review'', ''failed''} \<and> ji_review_original_status view = Some (ji_status row)) \<and>
    dict_get (db_items (st_work t)) item = Some view \<and>
    ji_status view \<in> {''matched'', ''written'', ''skipped'', ''failed''} \<and>
    ji_review_action view = Some (review_value (rb_action body)) \<and>
    (\<forall>k. k \<noteq> item \<longrightarrow> dict_get (db_items (st_work t)) k = dict_get (db_items (st_work s)) k) \<and>
    (ji_status view = ''written'' \<longrightarrow> (\<exists>d \<in> set (rows (db_decisions (st_work t))). rd_job_id d = mj_id j \<and>
       rd_user_id d = mj_user_id j \<and> Some (rd_target_uri d) = ji_target_uri view \<and> rd_status d = ''written''))"
proof -
  from apply_review_ended [OF assms] obtain row now f decided where row: "dict_get (db_items (st_work s)) item = Some row"
    "ji_status row \<in> {''needs_review'', ''failed''}" and o: "outcome_edit f decided"
    and c: "closed j item f decided (update_row item (stamped now (begun (rb_action body) now row)) (db_items (st_work s))) view t"
    unfolding ended_def by blast
  from c row obtain n where v: "view = stamped n f (stamped now (begun (rb_action body) now row) row)"
    by (auto simp: closed_def)
  have view: "ji_status view \<in> {''matched'', ''written'', ''skipped'', ''failed''}"
    "ji_review_action view = Some (review_value (rb_action body))" "ji_review_original_status view = Some (ji_status row)"
    "ji_status view = ''written'' \<Longrightarrow> decided \<noteq> None \<and> decided = ji_target_uri view"
    using o unfolding v outcome_edit_def by (simp_all, simp_all add: begun_def)
  have dec: "\<exists>d \<in> set (rows (db_decisions (st_work t))). rd_job_id d = mj_id j \<and> rd_user_id d = mj_user_id j \<and>
      Some (rd_target_uri d) = ji_target_uri view \<and> rd_status d = ''written''" if w: "ji_status view = ''written''"
  proof -
    from view(4) [OF w] obtain uri where u: "decided = Some uri" "ji_target_uri view = Some uri" by auto
    with c obtain d where "d \<in> set (rows (db_decisions (st_db t)))" "rd_job_id d = mj_id j" "rd_user_id d = mj_user_id j"
      "rd_target_uri d = uri" "rd_status d = ji_status view" unfolding closed_def by blast
    with u w c show ?thesis by (intro bexI [of _ d]) (simp_all add: closed_def)
  qed
  have c': "st_db t = st_work t" "dict_get (db_items (st_work t)) item = Some view"
    "\<forall>k. k \<noteq> item \<longrightarrow> dict_get (db_items (st_work t)) k = dict_get (db_items (st_work s)) k"
    using c by (simp_all add: closed_def)
  show ?thesis using row view(1-3) dec c' by blast
qed

section \<open>What is queued meanwhile\<close>

definition queue_is :: "(string \<times> string \<times> string) list \<Rightarrow> 'w engine \<Rightarrow> bool" where
  "queue_is q s \<longleftrightarrow> st_queue s = q"

lemma queue_is_session [keeps_intro]:
  "keeps (queue_is q) open_session" "keeps (queue_is q) rollback" "keeps (queue_is q) flush" "keeps (queue_is q) commit"
  "keeps (queue_is q) (query g)" "keeps (queue_is q) utcnow" "keeps (queue_is q) (uuid4 env)" "keeps (queue_is q) (call m)"
  "keeps (queue_is q) (expect r)" "keeps (queue_is q) (edit h)"
  by (auto intro!: keepsI simp: run_simps queue_is_def)

lemma queue_is_credential [keeps_intro]: "keeps (queue_is q) (load_fresh_credential env account ad provider user)"
  by (auto simp: load_fresh_credential_def load_credential_def save_credential_def refresh_credential_def
      Let_def drop_account_def intro!: keeps_intro split: exn.splits)

lemma queue_is_close [keeps_intro]: "keeps (queue_is q) (close_review env j item f decided)"
  by (auto simp: close_review_def add_decision_def edit_item_def get_item_def commit_job_counts_def with_counts_def
      intro!: keeps_intro split: option.splits)

lemma queue_is_asking [keeps_intro]:
  "keeps (queue_is q) (target_playlist_keys ta cred p)" "keeps (queue_is q) (add_ledger env job op intent obs pos st)"
  by (auto simp: target_playlist_keys_def unless_missing_def read_target_def add_ledger_def intro!: keeps_intro)

lemma queue_is_review: "keeps (queue_is q) (apply_review env j item body)"
  by (auto simp: apply_review_def begin_review_def skip_review_def review_track_def apply_library_review_def
      ask_target_def ask_library_def edit_item_def get_item_def Let_def
      intro!: keeps_intro split: review_action.splits sum.splits)

section \<open>What a review settles\<close>

definition reviewed :: "db \<Rightarrow> job_item table \<times> review_decision table" where
  "reviewed d = (db_items d, db_decisions d)"

lemma reviewed_finalize: "keeps (part_is reviewed v) (maybe_finalize_sync_review env j)"
  by (auto simp: maybe_finalize_sync_review_def ensure_continuous_sync_def start_continuous_sync_def set_intent_def
      edit_job_def create_sync_rule_def place_rule_def Let_def reviewed_def account_free_def
      split: prod.splits option.splits sum.splits exn.splits intro!: keeps_intro keeps_checks keeps_read_endpoints)

text \<open>
  C22. A review that succeeds settles one item, of a job of the user, that was waiting for it: the
  committed row is the one shown, it is matched, written, skipped or failed, it remembers the action
  and the status it had, no other item changed, and what was written is recorded as a decision with
  the URI the item was given.
\<close>

theorem review_settles:
  assumes "review_migration_item env job item body user s = (Inr view, t)"
    and "table_ok ji_id (\<lambda>_. True) (db_items (st_db s))"
  shows "\<exists>j row. dict_get (db_jobs (st_db s)) job = Some j \<and> mj_user_id j = user \<and>
    dict_get (db_items (st_db s)) item = Some row \<and> ji_job_id row = job \<and> ji_status row \<in> {''needs_review'', ''failed''} \<and>
    dict_get (db_items (st_db t)) item = Some view \<and>
    ji_status view \<in> {''matched'', ''written'', ''skipped'', ''failed''} \<and>
    ji_review_action view = Some (review_value (rb_action body)) \<and>
    ji_review_original_status view = Some (ji_status row) \<and>
    (\<forall>k. k \<noteq> item \<longrightarrow> dict_get (db_items (st_db t)) k = dict_get (db_items (st_db s)) k) \<and>
    (ji_status view = ''written'' \<longrightarrow> (\<exists>d \<in> set (rows (db_decisions (st_db t))). rd_job_id d = mj_id j \<and>
       rd_user_id d = user \<and> Some (rd_target_uri d) = ji_target_uri view \<and> rd_status d = ''written''))"
proof -
  let ?s = "s\<lparr>st_work := st_db s\<rparr>"
  from assms(1) obtain j row u where j: "dict_get (db_jobs (st_db s)) job = Some j" "mj_user_id j = user"
    and row: "dict_get (db_items (st_db s)) item = Some row" "ji_job_id row = job"
    and ap: "apply_review env j item body ?s = (Inr view, u)"
    and fin: "maybe_finalize_sync_review env j u = (Inr (), t)"
    by (auto simp: review_migration_item_def owned_job_def get_job_def require_details_available_def Let_def ok_simps
        split: if_splits option.splits)
  from apply_review_settled [OF ap] assms(2) have st: "st_db u = st_work u"
    "ji_status row \<in> {''needs_review'', ''failed''}" "ji_review_original_status view = Some (ji_status row)"
    and rest: "dict_get (db_items (st_work u)) item = Some view"
      "ji_status view \<in> {''matched'', ''written'', ''skipped'', ''failed''}"
      "ji_review_action view = Some (review_value (rb_action body))"
      "\<forall>k. k \<noteq> item \<longrightarrow> dict_get (db_items (st_work u)) k = dict_get (db_items (st_db s)) k"
      "ji_status view = ''written'' \<longrightarrow> (\<exists>d \<in> set (rows (db_decisions (st_work u))). rd_job_id d = mj_id j \<and>
         rd_user_id d = user \<and> Some (rd_target_uri d) = ji_target_uri view \<and> rd_status d = ''written'')"
    using row(1) j(2) by auto
  then have "part_is reviewed (reviewed (st_work u)) u" by (simp add: part_is_def)
  from keepsD [OF reviewed_finalize this, of env j] fin
  have "db_items (st_db t) = db_items (st_work u)" "db_decisions (st_db t) = db_decisions (st_work u)"
    by (auto simp: part_is_def reviewed_def)
  with j row st(2,3) rest show ?thesis by (intro exI [of _ j] exI [of _ row]) (auto simp only: conj_assoc)
qed

definition reviewed_job :: migration_job where
  "reviewed_job = (sample_job ''j1'')\<lparr>mj_origin := ''sync'', mj_status := ''done'', mj_sync_run_id := Some ''run-1''\<rparr>"

definition review_engine :: "fake_world engine" where
  "review_engine = (engine_on (account_db\<lparr>db_jobs := [(''j1'', reviewed_job)],
     db_items := [(''t1'', (sample_item ''needs_review'')\<lparr>ji_target_playlist_id := Some ''new-1''\<rparr>)]\<rparr>))
     \<lparr>st_world := fake_start\<lparr>fw_created := [(''new-1'', [])]\<rparr>\<rparr>"

definition approve_body :: review_body where
  "approve_body = \<lparr>rb_action = APPROVE, rb_target_uri = None\<rparr>"

lemma review_credential:
  "db_accounts (st_work s) = [(''acc-1'', sample_account)] \<Longrightarrow> db_credentials (st_work s) = [(''c-1'', sample_credential)] \<Longrightarrow>
     load_fresh_credential env ''acc-1'' ad (Some ''fake'') (Some ''owner'') s =
     (Inr (runtime_credential sample_account sample_credential, sample_account), s)"
  by (simp add: load_fresh_credential_def load_credential_def run_simps
      sample_account_def sample_credential_def rows_def newest_credential_def
      order_desc_def select_rows_def runtime_credential_def fake_cred_def expires_soon_def Let_def)

lemma with_counts_items [simp]: "db_items (with_counts job d) = db_items d"
  by (simp add: with_counts_def)

lemma close_review_runs:
  assumes "constraints_ok (st_work s)" and "dict_get (db_items (st_work s)) item = Some row"
  shows "\<exists>t. close_review env j item f decided s = (Inr (stamped (st_clock s) f row), t)"
  using assms by (cases decided) (simp_all add: close_review_def edit_item_def add_decision_def get_item_def
    commit_job_counts_def run_simps stamped_def [abs_def])

lemma review_engine_run:
  "\<exists>view t. review_migration_item sample_env ''j1'' ''t1'' approve_body ''owner'' review_engine = (Inr view, t) \<and>
     ji_status view = ''written''"
proof -
  let ?e = review_engine
  have db: "st_work ?e = st_db ?e" "?e\<lparr>st_work := st_db ?e\<rparr> = ?e" by (simp_all add: review_engine_def engine_on_def)
  have job: "dict_get (db_jobs (st_db ?e)) ''j1'' = Some reviewed_job" by (simp add: review_engine_def engine_on_def)
  have av: "details_available (st_clock ?e) (set_migration_history_retention_days (env_settings sample_env)) reviewed_job"
    by (simp add: details_available_def effective_details_expires_at_def reviewed_job_def sample_job_def sample_env_def
        sample_settings_def review_engine_def engine_on_def)
  have acc: "db_accounts (st_db ?e) = [(''acc-1'', sample_account)]" "db_credentials (st_db ?e) = [(''c-1'', sample_credential)]"
    by (simp_all add: review_engine_def engine_on_def account_db_def)
  let ?r = "(sample_item ''needs_review'')\<lparr>ji_target_playlist_id := Some ''new-1''\<rparr>"
  let ?r1 = "stamped (st_clock ?e) (begun APPROVE (st_clock ?e) ?r) ?r"
  let ?e1 = "?e\<lparr>st_work := (st_db ?e)\<lparr>db_items := [(''t1'', ?r1)]\<rparr>\<rparr>"
  have it: "dict_get (db_items (st_db ?e)) ''t1'' = Some ?r" and its: "db_items (st_db ?e) = [(''t1'', ?r)]"
    by (simp_all add: review_engine_def engine_on_def)
  have r: "ji_status ?r = ''needs_review''" "ji_job_id ?r = ''j1''" "ji_target_uri ?r = Some ''fake:track:One''"
    "ji_id ?r = ''t1''" "ji_entity_type ?r = E_TRACK" "ji_target_playlist_id ?r = Some ''new-1''" by (simp_all add: sample_item_def new_item_def)
  have b: "begin_review ''t1'' APPROVE ?r ?e = (Inr (), ?e1)"
    by (simp add: begin_review_def begun_def edit_item_def run_simps db its stamped_def [abs_def] update_row_def)
  have ga: "get_adapter (env_registry sample_env) ''fake'' = Inr fake_adapter"
    and val: "ad_validate_uri fake_adapter c ''fake:track:One'' w = (Inr True, w)" for c w
    by (simp_all add: sample_env_def get_adapter_def fake_adapter_def starts_with_def run_simps)
  have j: "mj_target_provider reviewed_job = ''fake''" "mj_target_account_id reviewed_job = ''acc-1''"
    "mj_user_id reviewed_job = ''owner''" "\<not> sel_match_only (mj_selection reviewed_job)" "mj_id reviewed_job = ''j1''"
    "mj_origin reviewed_job = ''sync''" "mj_sync_run_id reviewed_job = Some ''run-1''"
    by (simp_all add: reviewed_job_def sample_job_def empty_selection_def)
  have w: "st_world ?e = fake_start\<lparr>fw_created := [(''new-1'', [])]\<rparr>" by (simp add: review_engine_def)
  have keys: "target_playlist_keys fake_adapter c ''new-1'' ?e1 = (Inr {}, ?e1)" for c
    by (simp add: target_playlist_keys_def unless_missing_def read_target_def fake_adapter_def fake_read_playlist_def run_simps
        w fake_start_def fake_library_def new_ref_def is_not_found_def)
  have add: "ad_add_tracks fake_adapter c ''new-1'' [u] (st_world ?e) =
      (Inr (added_results 0 [u]), fake_start\<lparr>fw_created := [(''new-1'', [u])]\<rparr>)" for c u
    by (simp add: fake_adapter_def fake_add_tracks_def w)
  let ?e2 = "?e1\<lparr>st_world := fake_start\<lparr>fw_created := [(''new-1'', [''fake:track:One''])]\<rparr>\<rparr>"
  have a: "ask_target sample_env reviewed_job ?r ''fake:track:One'' ?e1 = (Inr (Inr (added_results 0 [''fake:track:One''])), ?e2)"
    by (simp add: ask_target_def catching_def run_simps j ga review_credential acc val keys r db add)
  have st: "strip ''fake:track:One'' = ''fake:track:One''" by code_simp
  have cs: "constraints_ok (st_db ?e)" by (simp add: review_engine_def engine_on_def constraint_defs account_db_def empty_db_def
      sample_account_def reviewed_job_def sample_job_def)
  obtain e3 k where l: "add_ledger sample_env ''j1'' ''review_add_track''
        (JObj [(''playlist_id'', JStr ''new-1''), (''uri'', JStr ''fake:track:One'')]) (Some ''new-1'') (Some 0) ''done'' ?e2 = (Inr k, e3)"
      and e3: "constraints_ok (st_work e3)" "dict_get (db_items (st_work e3)) ''t1'' = Some ?r1" "st_clock e3 = st_clock ?e"
    by (auto simp: add_ledger_def run_simps cs)
  let ?f = "\<lambda>i. i\<lparr>ji_target_uri := Some ''fake:track:One'', ji_status := ''written'', ji_reason := None\<rparr>"
  obtain u where u: "close_review sample_env reviewed_job ''t1'' ?f (Some ''fake:track:One'') e3 =
      (Inr (stamped (st_clock ?e) ?f ?r1), u)"
    using close_review_runs [OF e3(1,2), of sample_env reviewed_job ?f "Some ''fake:track:One''"] e3(3) by auto
  have ap: "apply_review sample_env reviewed_job ''t1'' approve_body ?e = (Inr (stamped (st_clock ?e) ?f ?r1), u)"
    by (simp add: apply_review_def run_simps approve_body_def get_item_def db it r b Let_def st review_track_def a j added_results_def first_result_def result_ok_def l u)
  have "\<exists>v. maybe_finalize_sync_review sample_env reviewed_job u = (Inr (), v)"
    by (cases "review_finalization_ready (job_items ''j1'' (st_work u))")
      (simp_all add: maybe_finalize_sync_review_def j run_simps truthy_def)
  then obtain v where "maybe_finalize_sync_review sample_env reviewed_job u = (Inr (), v)" by blast
  with ap have "review_migration_item sample_env ''j1'' ''t1'' approve_body ''owner'' ?e = (Inr (stamped (st_clock ?e) ?f ?r1), v)"
    by (simp add: review_migration_item_def owned_job_def get_job_def run_simps db job j require_details_available_def Let_def av it r)
  then show ?thesis by auto
qed

lemma review_engine_tables:
  "table_ok ji_id (\<lambda>_. True) (db_items (st_db review_engine))" "table_ok mj_id (\<lambda>_. True) (db_jobs (st_db review_engine))"
  "dict_get (db_jobs (st_db review_engine)) ''j1'' = Some reviewed_job"
  by (simp_all add: review_engine_def engine_on_def table_ok_def is_dict_def sample_item_def new_item_def reviewed_job_def sample_job_def)

theorem review_settles_witness:
  "\<exists>view t. review_migration_item sample_env ''j1'' ''t1'' approve_body ''owner'' review_engine = (Inr view, t) \<and>
     dict_get (db_items (st_db t)) ''t1'' = Some view \<and> ji_status view = ''written'' \<and>
     ji_review_original_status view = Some ''needs_review''"
proof -
  from review_engine_run obtain view t where r: "review_migration_item sample_env ''j1'' ''t1'' approve_body ''owner'' review_engine = (Inr view, t)"
    and w: "ji_status view = ''written''" by blast
  have "dict_get (db_items (st_db review_engine)) ''t1'' = Some ((sample_item ''needs_review'')\<lparr>ji_target_playlist_id := Some ''new-1''\<rparr>)"
    by (simp add: review_engine_def engine_on_def)
  with review_settles [OF r review_engine_tables(1)] r w show ?thesis by (auto simp: sample_item_def)
qed

text \<open>
  C27. The synchronization that waited for reviews goes on exactly when the last one is done: after a
  review of an item of a sync job, its finalization is queued, once and for the run of the job, if
  and only if no committed item of the job needs attention any more; nothing else is queued.
\<close>

theorem review_finalizes:
  assumes "review_migration_item env job item body user s = (Inr view, t)"
    and "table_ok ji_id (\<lambda>_. True) (db_items (st_db s))" and "table_ok mj_id (\<lambda>_. True) (db_jobs (st_db s))"
    and "dict_get (db_jobs (st_db s)) job = Some j" and "mj_origin j = ''sync''" and "mj_sync_run_id j = Some run" and "run \<noteq> []"
  shows "st_queue t = st_queue s @
    (if list_ex needs_attention (job_items job (st_db t)) then [] else [(''finalize_sync_review'', run, ''sync-review:'' @ run)])"
proof -
  let ?s = "s\<lparr>st_work := st_db s\<rparr>"
  have id: "mj_id j = job" using table_ok_get [OF assms(3,4)] by simp
  from assms(1,4) obtain u where ap: "apply_review env j item body ?s = (Inr view, u)"
    and fin: "maybe_finalize_sync_review env j u = (Inr (), t)"
    by (auto simp: review_migration_item_def owned_job_def get_job_def require_details_available_def Let_def ok_simps
        split: if_splits option.splits)
  have q: "st_queue u = st_queue s"
    using keepsD [OF queue_is_review, of "st_queue s" ?s env j item body] ap by (simp add: queue_is_def)
  have w: "st_db u = st_work u" using apply_review_settled [OF ap] assms(2) by simp
  from fin assms(5-7) id have "t = (if list_ex needs_attention (job_items job (st_db u)) then u
      else u\<lparr>st_queue := st_queue u @ [(''finalize_sync_review'', run, ''sync-review:'' @ run)]\<rparr>)"
    by (auto simp: maybe_finalize_sync_review_def review_finalization_ready_def run_simps truthy_def w list_all_iff list_ex_iff
        split: if_splits)
  then show ?thesis by (simp add: q)
qed

theorem review_finalizes_witness:
  "\<exists>view t. review_migration_item sample_env ''j1'' ''t1'' approve_body ''owner'' review_engine = (Inr view, t) \<and>
     st_queue t = (if list_ex needs_attention (job_items ''j1'' (st_db t)) then []
       else [(''finalize_sync_review'', ''run-1'', ''sync-review:run-1'')])"
proof -
  from review_engine_run obtain view t where r: "review_migration_item sample_env ''j1'' ''t1'' approve_body ''owner'' review_engine = (Inr view, t)"
    by blast
  have j: "mj_origin reviewed_job = ''sync''" "mj_sync_run_id reviewed_job = Some ''run-1''" "''run-1'' \<noteq> []"
    by (simp_all add: reviewed_job_def)
  have "st_queue review_engine = []" by (simp add: review_engine_def engine_on_def)
  with review_finalizes [OF r review_engine_tables j] r show ?thesis by auto
qed

end
