(* ===== verification/History_Cleanup.thy ===== *)
theory History_Cleanup
  imports Job_Views Migration_Write
begin

text \<open>
  The scheduled cleanup of migration history (\<open>app/jobs/history_cleanup.py\<close>): finished jobs get a
  deadline for their items, and when it has passed the items and the ledger of the job are deleted
  and a summary of them stays. Rows that another worker holds locked are skipped by the database;
  here one worker runs.
\<close>

section \<open>The job\<close>

definition review_pending :: "migration_job \<Rightarrow> db \<Rightarrow> bool" where
  "review_pending j d =
     (case mj_sync_run_id j of None \<Rightarrow> False
      | Some r \<Rightarrow> (case dict_get (db_runs d) r of None \<Rightarrow> False | Some run \<Rightarrow> run_status run = ''review_required''))"

definition missing_deadlines :: "nat \<Rightarrow> db \<Rightarrow> migration_job list" where
  "missing_deadlines batch d =
     take batch (sort_key (\<lambda>j. (mj_created_at j, mj_id j)) (select_rows (\<lambda>j. mj_status j \<in> terminal_job_statuses \<and>
       mj_details_expires_at j = None \<and> mj_details_purged_at j = None \<and> \<not> review_pending j d) (db_jobs d)))"

definition expired_jobs :: "nat \<Rightarrow> int \<Rightarrow> db \<Rightarrow> migration_job list" where
  "expired_jobs batch now d =
     take batch (sort_key (\<lambda>j. (the (mj_details_expires_at j), mj_id j)) (select_rows (\<lambda>j.
       (case mj_details_expires_at j of None \<Rightarrow> False | Some t \<Rightarrow> t \<le> now) \<and>
       mj_details_purged_at j = None \<and> \<not> review_pending j d) (db_jobs d)))"

definition set_deadline :: "int \<Rightarrow> migration_job \<Rightarrow> ('w, unit) handler" where
  "set_deadline days j =
     edit_job (mj_id j) (\<lambda>k. k\<lparr>mj_details_expires_at :=
       Some ((case mj_completed_at k of Some t \<Rightarrow> t | None \<Rightarrow> mj_created_at k) + days * 86400)\<rparr>)"

text \<open>A continuous synchronization that still waits for the review of this job will not start.\<close>

definition expired_intent :: "selection \<Rightarrow> selection" where
  "expired_intent sel =
     (case sel_continuous_sync sel of
        None \<Rightarrow> sel
      | Some i \<Rightarrow>
          if si_status i \<in> {Some ''active'', Some ''failed''} then sel
          else sel\<lparr>sel_continuous_sync := Some (i\<lparr>si_status := Some ''failed'', si_sync_rule_id := None,
            si_error := Some ''migration review expired''\<rparr>)\<rparr>)"

definition expire_continuous_sync_review :: "migration_job \<Rightarrow> ('w, unit) handler" where
  "expire_continuous_sync_review j =
     when_do (expired_intent (mj_selection j) \<noteq> mj_selection j)
       (andthen (edit_job (mj_id j) (\<lambda>k. k\<lparr>mj_selection := expired_intent (mj_selection j)\<rparr>)) (\<lambda>_. flush))"

definition purge_job :: "int \<Rightarrow> migration_job \<Rightarrow> ('w, unit) handler" where
  "purge_job now j =
     andthen (expire_continuous_sync_review j) (\<lambda>_.
     andthen (collect_job_result_summary j) (\<lambda>summary.
     andthen (edit_job (mj_id j) (\<lambda>k. k\<lparr>mj_result_summary := Some summary\<rparr>)) (\<lambda>_.
     andthen (edit (\<lambda>d. d\<lparr>db_ledger := delete_rows (\<lambda>l. ol_job_id l = mj_id j) (db_ledger d)\<rparr>)) (\<lambda>_.
     andthen (edit (\<lambda>d. d\<lparr>db_items := delete_rows (\<lambda>i. ji_job_id i = mj_id j) (db_items d)\<rparr>)) (\<lambda>_.
     edit_job (mj_id j) (\<lambda>k. k\<lparr>mj_details_purged_at := Some now\<rparr>))))))"

definition cleanup_expired_migration_details :: "'w env \<Rightarrow> ('w, nat) handler" where
  "cleanup_expired_migration_details env =
     (let days = set_migration_history_retention_days (env_settings env);
          batch = set_migration_history_cleanup_batch_size (env_settings env)
      in if days \<le> 0 then ret 0
         else
           andthen utcnow (\<lambda>now.
           andthen open_session (\<lambda>_.
           andthen (query (missing_deadlines batch)) (\<lambda>missing.
           andthen (for_each missing (set_deadline days)) (\<lambda>_.
           andthen (when_do (missing \<noteq> []) commit) (\<lambda>_.
           andthen (query (expired_jobs batch now)) (\<lambda>expired.
           andthen (for_each expired (purge_job now)) (\<lambda>_.
           andthen (when_do (expired \<noteq> []) commit) (\<lambda>_. ret (length expired))))))))))"

section \<open>What a step does to the jobs\<close>

text \<open>
  From one database to the next every job keeps its row, what its statistics are made of, and its
  items, unless it is purged: then it had none of the reasons to stay, and nothing of it is left
  but the summary.
\<close>

definition job_ledger :: "string \<Rightarrow> db \<Rightarrow> operation_ledger list" where
  "job_ledger j d = select_rows (\<lambda>l. ol_job_id l = j) (db_ledger d)"

definition job_kept :: "int \<Rightarrow> migration_job \<Rightarrow> db \<Rightarrow> migration_job \<Rightarrow> db \<Rightarrow> bool" where
  "job_kept now j d k e \<longleftrightarrow>
     current_summary k e = current_summary j d \<and> mj_id k = mj_id j \<and> mj_total k = mj_total j \<and>
     mj_status k = mj_status j \<and> mj_sync_run_id k = mj_sync_run_id j \<and>
     (mj_details_expires_at j \<noteq> None \<longrightarrow> mj_details_expires_at k = mj_details_expires_at j) \<and>
     (mj_details_purged_at k = mj_details_purged_at j \<and> job_items (mj_id j) e = job_items (mj_id j) d \<and>
        job_ledger (mj_id j) e = job_ledger (mj_id j) d \<or>
      mj_details_purged_at j = None \<and> mj_details_purged_at k = Some now \<and> \<not> review_pending j d \<and>
      (\<exists>t. mj_details_expires_at k = Some t \<and> t \<le> now) \<and> job_items (mj_id j) e = [] \<and> job_ledger (mj_id j) e = [])"

definition all_kept :: "int \<Rightarrow> db \<Rightarrow> db \<Rightarrow> bool" where
  "all_kept now d e \<longleftrightarrow> db_runs e = db_runs d \<and>
     (\<forall>i j. dict_get (db_jobs d) i = Some j \<longrightarrow> (\<exists>k. dict_get (db_jobs e) i = Some k \<and> job_kept now j d k e))"

lemma review_pending_cong: "mj_sync_run_id k = mj_sync_run_id j \<Longrightarrow> db_runs e = db_runs d \<Longrightarrow> review_pending k e = review_pending j d"
  by (simp add: review_pending_def split: option.split)

lemma job_kept_refl: "job_kept now j d j d"
  by (simp add: job_kept_def)

lemma job_kept_trans:
  assumes "job_kept now j d k e" and "job_kept now k e l f" and "db_runs e = db_runs d"
  shows "job_kept now j d l f"
  using assms review_pending_cong [of k j e d] unfolding job_kept_def by (elim conjE) (elim disjE; auto)

lemma all_kept_refl: "all_kept now d d"
  by (auto simp: all_kept_def job_kept_refl)

lemma all_kept_trans: "all_kept now d e \<Longrightarrow> all_kept now e f \<Longrightarrow> all_kept now d f"
  unfolding all_kept_def by (metis job_kept_trans)

lemma items_deleted:
  "job_items i (d\<lparr>db_jobs := js, db_ledger := l, db_items := delete_rows (\<lambda>r. ji_job_id r = m) (db_items d)\<rparr>) =
     (if i = m then [] else job_items i d)"
  by (induction "db_items d") (auto simp: job_items_def select_rows_def rows_def delete_rows_def filter_map comp_def case_prod_unfold
      intro!: arg_cong [where f = "map snd"] filter_cong)

lemma ledger_deleted:
  "job_ledger i (d\<lparr>db_jobs := js, db_ledger := delete_rows (\<lambda>r. ol_job_id r = m) (db_ledger d), db_items := l\<rparr>) =
     (if i = m then [] else job_ledger i d)"
  by (auto simp: job_ledger_def select_rows_def rows_def delete_rows_def filter_map comp_def case_prod_unfold
      intro!: arg_cong [where f = "map snd"] filter_cong)

text \<open>Rows are distinct, so a step on one job leaves those yet to come as they were read.\<close>

definition as_read :: "migration_job list \<Rightarrow> db \<Rightarrow> bool" where
  "as_read js d \<longleftrightarrow> distinct (map mj_id js) \<and> (\<forall>j \<in> set js. dict_get (db_jobs d) (mj_id j) = Some j)"

definition step_on :: "int \<Rightarrow> migration_job \<Rightarrow> db \<Rightarrow> db \<Rightarrow> bool" where
  "step_on now j d e \<longleftrightarrow> all_kept now d e \<and> (\<forall>i. i \<noteq> mj_id j \<longrightarrow> dict_get (db_jobs e) i = dict_get (db_jobs d) i) \<and>
     table_ok mj_id (\<lambda>_. True) (db_jobs e)"

lemma steps_kept:
  assumes "\<And>j s t. j \<in> set js \<Longrightarrow> table_ok mj_id (\<lambda>_. True) (db_jobs (st_work s)) \<Longrightarrow> dict_get (db_jobs (st_work s)) (mj_id j) = Some j \<Longrightarrow> db_runs (st_work s) = rs \<Longrightarrow>
      f j s = (Inr (), t) \<Longrightarrow> step_on now j (st_work s) (st_work t) \<and> st_db t = st_db s"
    and "for_each js f s = (Inr (), t)" and "as_read js (st_work s)" and "db_runs (st_work s) = rs"
    and "table_ok mj_id (\<lambda>_. True) (db_jobs (st_work s))"
  shows "all_kept now (st_work s) (st_work t) \<and> table_ok mj_id (\<lambda>_. True) (db_jobs (st_work t)) \<and> st_db t = st_db s"
  using assms
proof (induction js arbitrary: s)
  case Nil
  then show ?case by (simp add: ok_ret all_kept_refl)
next
  case (Cons j js)
  from Cons.prems(2) obtain u where f: "f j s = (Inr (), u)" and r: "for_each js f u = (Inr (), t)"
    by (auto simp: ok_andthen)
  from Cons.prems(1) [OF _ _ _ _ f] Cons.prems(3-5)
  have u: "step_on now j (st_work s) (st_work u)" "st_db u = st_db s" by (auto simp: as_read_def)
  have "mj_id ja \<noteq> mj_id j" if "ja \<in> set js" for ja using that Cons.prems(3) by (force simp: as_read_def)
  then have "as_read js (st_work u)" using u(1) Cons.prems(3) by (auto simp: as_read_def step_on_def)
  moreover have "db_runs (st_work u) = rs" "table_ok mj_id (\<lambda>_. True) (db_jobs (st_work u))"
    using u(1) Cons.prems(3-5) by (auto simp: step_on_def all_kept_def)
  moreover have "step_on now ja (st_work s') (st_work t') \<and> st_db t' = st_db s'"
    if "ja \<in> set js" "table_ok mj_id (\<lambda>_. True) (db_jobs (st_work s'))" "dict_get (db_jobs (st_work s')) (mj_id ja) = Some ja" "db_runs (st_work s') = rs" "f ja s' = (Inr (), t')"
    for ja s' t' using Cons.prems(1) [of ja s' t'] that by simp
  ultimately have "all_kept now (st_work u) (st_work t) \<and> table_ok mj_id (\<lambda>_. True) (db_jobs (st_work t)) \<and> st_db t = st_db u"
    using Cons.IH [OF _ r] by blast
  moreover have "all_kept now (st_work s) (st_work u)" using u(1) by (simp add: step_on_def)
  ultimately show ?case using u(2) by (metis all_kept_trans)
qed

lemma deadline_step:
  assumes "table_ok mj_id (\<lambda>_. True) (db_jobs (st_work s))" and "dict_get (db_jobs (st_work s)) (mj_id j) = Some j" and "mj_details_expires_at j = None"
    and "set_deadline days j s = (Inr (), t)"
  shows "step_on now j (st_work s) (st_work t) \<and> st_db t = st_db s"
proof -
  have t: "t = s\<lparr>st_work := (st_work s)\<lparr>db_jobs := update_row (mj_id j) (\<lambda>k. k\<lparr>mj_details_expires_at :=
      Some ((case mj_completed_at k of Some t \<Rightarrow> t | None \<Rightarrow> mj_created_at k) + days * 86400)\<rparr>) (db_jobs (st_work s))\<rparr>\<rparr>"
    using assms(4) by (simp add: set_deadline_def edit_job_def ok_simps)
  have "all_kept now (st_work s) (st_work t)"
    unfolding all_kept_def
    using assms(2,3) by (auto simp: t job_kept_def current_summary_def job_items_def job_ledger_def job_result_summary_def)
  then show ?thesis using assms(1) by (auto simp: t step_on_def intro: table_ok_update)
qed

lemma expire_review_ok:
  "expire_continuous_sync_review j s = (Inr (), t) \<longleftrightarrow>
     (if expired_intent (mj_selection j) = mj_selection j then t = s
      else t = s\<lparr>st_work := (st_work s)\<lparr>db_jobs := update_row (mj_id j) (\<lambda>k. k\<lparr>mj_selection := expired_intent (mj_selection j)\<rparr>)
             (db_jobs (st_work s))\<rparr>\<rparr> \<and> constraints_ok (st_work t))"
  by (auto simp: expire_continuous_sync_review_def edit_job_def ok_simps when_do_def)

lemma job_items_jobs: "job_items i (d\<lparr>db_jobs := js\<rparr>) = job_items i d"
  by (simp add: job_items_def)

lemma purge_step:
  assumes "table_ok mj_id (\<lambda>_. True) (db_jobs (st_work s))" and "dict_get (db_jobs (st_work s)) (mj_id j) = Some j" and "mj_details_purged_at j = None"
    and "mj_details_expires_at j = Some u" and "u \<le> now" and "\<not> review_pending j (st_work s)"
    and "purge_job now j s = (Inr (), t)"
  shows "step_on now j (st_work s) (st_work t) \<and> st_db t = st_db s"
proof -
  let ?d = "st_work s" and ?i = "mj_id j" and ?sel = "expired_intent (mj_selection j)"
  let ?sum = "job_result_summary j (job_items ?i ?d)"
  from assms(7) obtain v where v: "expire_continuous_sync_review j s = (Inr (), v)"
    and t: "t = v\<lparr>st_work := (st_work v)\<lparr>db_jobs := update_row ?i (\<lambda>k. k\<lparr>mj_details_purged_at := Some now\<rparr>)
        (update_row ?i (\<lambda>k. k\<lparr>mj_result_summary := Some (job_result_summary j (job_items ?i (st_work v)))\<rparr>) (db_jobs (st_work v))),
      db_ledger := delete_rows (\<lambda>l. ol_job_id l = ?i) (db_ledger (st_work v)),
      db_items := delete_rows (\<lambda>i. ji_job_id i = ?i) (db_items (st_work v))\<rparr>\<rparr>"
    by (auto simp: purge_job_def collect_job_result_summary_def edit_job_def ok_simps)
  define js where "js = db_jobs (st_work v)"
  have w: "v = s\<lparr>st_work := ?d\<lparr>db_jobs := js\<rparr>\<rparr>"
    "\<And>i. dict_get js i = (if i = ?i then Some (j\<lparr>mj_selection := ?sel\<rparr>) else dict_get (db_jobs ?d) i)"
    "table_ok mj_id (\<lambda>_. True) js"
    using v assms(1,2) by (auto simp: expire_review_ok js_def if_splits intro: table_ok_update split: if_splits)
  let ?k = "j\<lparr>mj_selection := ?sel, mj_result_summary := Some ?sum, mj_details_purged_at := Some now\<rparr>"
  have get: "dict_get (db_jobs (st_work t)) i = (if i = ?i then Some ?k else dict_get (db_jobs ?d) i)" for i
    by (cases "i = ?i") (simp_all add: t w(1,2) job_items_jobs)
  have items: "job_items i (st_work t) = (if i = ?i then [] else job_items i ?d)"
    and ledger: "job_ledger i (st_work t) = (if i = ?i then [] else job_ledger i ?d)"
    and runs: "db_runs (st_work t) = db_runs ?d" and db: "st_db t = st_db s" for i
    using items_deleted ledger_deleted by (simp_all add: t w(1))
  have kept: "job_kept now k ?d (if i = ?i then ?k else k) (st_work t)" if k: "dict_get (db_jobs ?d) i = Some k" for i k
  proof -
    have "mj_id k = i" using table_ok_get [OF assms(1) k] by simp
    show ?thesis
    proof (cases "i = ?i")
      case True
      with k assms(2) have "k = j" by simp
      with True assms(3-6) show ?thesis by (simp add: job_kept_def current_summary_def items ledger)
    next
      case False
      with \<open>mj_id k = i\<close> show ?thesis by (auto simp: job_kept_def current_summary_def items ledger)
    qed
  qed
  have "\<exists>l. dict_get (db_jobs (st_work t)) i = Some l \<and> job_kept now k ?d l (st_work t)"
    if k: "dict_get (db_jobs ?d) i = Some k" for i k
    using kept [OF k] k get [of i] by (intro exI [of _ "if i = ?i then ?k else k"]) simp
  then have "all_kept now ?d (st_work t)" by (simp add: all_kept_def runs)
  moreover have "table_ok mj_id (\<lambda>_. True) (db_jobs (st_work t))" using w(3) by (auto simp: t w(1) intro!: table_ok_update)
  ultimately show ?thesis by (simp add: step_on_def get db)
qed

lemma selected_jobs:
  assumes "table_ok mj_id (\<lambda>_. True) (db_jobs d)"
  shows "as_read (take n (sort_key f (select_rows p (db_jobs d)))) d"
    and "j \<in> set (take n (sort_key f (select_rows p (db_jobs d)))) \<Longrightarrow> p j"
proof -
  have "mset (map mj_id (sort_key f xs)) = mset (map mj_id xs)" for xs by (metis mset_map mset_sort)
  moreover have "distinct (map mj_id (rows (db_jobs d)))"
  proof -
    have "map mj_id (rows (db_jobs d)) = map fst (db_jobs d)"
      using assms by (auto simp: table_ok_def rows_def)
    with assms show ?thesis by (simp add: table_ok_def is_dict_def)
  qed
  ultimately have "distinct (map mj_id (sort_key f (select_rows p (db_jobs d))))"
    by (metis mset_eq_imp_distinct_iff select_rows_def distinct_map_filter)
  then have "distinct (map mj_id (take n (sort_key f (select_rows p (db_jobs d)))))"
    by (simp add: take_map [symmetric])
  then show "as_read (take n (sort_key f (select_rows p (db_jobs d)))) d"
    using assms by (auto simp: as_read_def select_rows_def dest!: in_set_takeD table_ok_row)
  show "j \<in> set (take n (sort_key f (select_rows p (db_jobs d)))) \<Longrightarrow> p j"
    by (auto simp: select_rows_def dest!: in_set_takeD)
qed

section \<open>Statistics outlive the items\<close>

text \<open>
  C11. The cleanup never changes what the statistics of a migration show: for every job the summary
  they are made of is the same before and after, whether the cleanup deleted its items, gave it a
  deadline or left it alone. It deletes the items and the ledger only of jobs whose deadline has passed
  and that no review waits for; every other job keeps its items and its ledger, and no run of a
  synchronization rule changes.
\<close>

theorem cleanup_keeps_statistics:
  assumes "cleanup_expired_migration_details env s = (Inr n, t)"
    and "table_ok mj_id (\<lambda>_. True) (db_jobs (st_db s))" and "dict_get (db_jobs (st_db s)) i = Some j"
  shows "\<exists>k. dict_get (db_jobs (st_db t)) i = Some k \<and>
    current_summary k (st_db t) = current_summary j (st_db s) \<and> mj_total k = mj_total j \<and>
    mj_status k = mj_status j \<and> db_runs (st_db t) = db_runs (st_db s) \<and>
    (job_items i (st_db t) = job_items i (st_db s) \<and> job_ledger i (st_db t) = job_ledger i (st_db s) \<or>
     \<not> review_pending j (st_db s) \<and> (\<exists>u. mj_details_expires_at k = Some u \<and> u \<le> st_clock s) \<and>
     mj_details_purged_at k = Some (st_clock s) \<and> job_items i (st_db t) = [] \<and> job_ledger i (st_db t) = [])"
proof -
  let ?days = "set_migration_history_retention_days (env_settings env)" and ?now = "st_clock s"
  let ?n = "set_migration_history_cleanup_batch_size (env_settings env)"
  have all: "all_kept ?now (st_db s) (st_db t)"
  proof (cases "?days \<le> 0")
    case True
    with assms(1) show ?thesis by (simp add: cleanup_expired_migration_details_def ok_ret all_kept_refl)
  next
    case False
    let ?o = "s\<lparr>st_work := st_db s\<rparr>" and ?missing = "missing_deadlines ?n (st_db s)"
    from assms(1) False obtain v w x where m: "for_each ?missing (set_deadline ?days) ?o = (Inr (), v)"
      and c: "when_do (?missing \<noteq> []) commit v = (Inr (), w)"
      and p: "for_each (expired_jobs ?n ?now (st_work w)) (purge_job ?now) w = (Inr (), x)"
      and e: "when_do (expired_jobs ?n ?now (st_work w) \<noteq> []) commit x = (Inr (), t)"
      by (auto simp: cleanup_expired_migration_details_def Let_def ok_simps)
    have first: "all_kept ?now (st_work ?o) (st_work v) \<and> table_ok mj_id (\<lambda>_. True) (db_jobs (st_work v)) \<and> st_db v = st_db ?o"
    proof (rule steps_kept [OF _ m])
      fix j s' t'
      assume j: "j \<in> set ?missing" and a: "table_ok mj_id (\<lambda>_. True) (db_jobs (st_work s'))"
        "dict_get (db_jobs (st_work s')) (mj_id j) = Some j" "set_deadline ?days j s' = (Inr (), t')"
      have "mj_details_expires_at j = None" using selected_jobs(2) [OF assms(2) j [unfolded missing_deadlines_def]] by simp
      with a show "step_on ?now j (st_work s') (st_work t') \<and> st_db t' = st_db s'" using deadline_step by blast
    qed (use assms(2) in \<open>simp_all add: missing_deadlines_def selected_jobs(1)\<close>)
    have w: "st_work w = st_work v \<and> all_kept ?now (st_db s) (st_db w) \<and> st_db w = st_work w"
    proof (cases "?missing = []")
      case True
      with m c show ?thesis by (auto simp: when_do_def ok_ret all_kept_refl)
    next
      case False
      with c first show ?thesis by (auto simp: when_do_def ok_session)
    qed
    then have ok: "table_ok mj_id (\<lambda>_. True) (db_jobs (st_work w))" using first by simp
    have second: "all_kept ?now (st_work w) (st_work x) \<and> table_ok mj_id (\<lambda>_. True) (db_jobs (st_work x)) \<and> st_db x = st_db w"
    proof (rule steps_kept [OF _ p])
      fix j s' t'
      assume j: "j \<in> set (expired_jobs ?n ?now (st_work w))" and a: "table_ok mj_id (\<lambda>_. True) (db_jobs (st_work s'))"
        "dict_get (db_jobs (st_work s')) (mj_id j) = Some j" and r: "db_runs (st_work s') = db_runs (st_work w)"
        and f: "purge_job ?now j s' = (Inr (), t')"
      from selected_jobs(2) [OF ok j [unfolded expired_jobs_def]] obtain u
        where u: "mj_details_expires_at j = Some u" "u \<le> ?now" "mj_details_purged_at j = None" "\<not> review_pending j (st_work w)"
        by (auto split: option.splits)
      have "\<not> review_pending j (st_work s')" using u(4) review_pending_cong [OF refl r] by simp
      with purge_step [OF a u(3,1,2) _ f] show "step_on ?now j (st_work s') (st_work t') \<and> st_db t' = st_db s'" by blast
    qed (use ok in \<open>simp_all add: expired_jobs_def selected_jobs(1)\<close>)
    have "st_db t = (if expired_jobs ?n ?now (st_work w) = [] then st_db w else st_work x)"
      using e p by (auto simp: when_do_def ok_ret ok_session)
    with w second show ?thesis by (auto intro: all_kept_trans)
  qed
  then obtain k where "dict_get (db_jobs (st_db t)) i = Some k" "job_kept ?now j (st_db s) k (st_db t)"
    using assms(3) by (auto simp: all_kept_def)
  moreover have "mj_id j = i" using table_ok_get [OF assms(2,3)] by simp
  ultimately show ?thesis using all by (auto simp: job_kept_def all_kept_def)
qed

definition old_job :: migration_job where
  "old_job = (sample_job ''j1'')\<lparr>mj_status := ''done'', mj_completed_at := Some 0, mj_details_expires_at := Some 900\<rparr>"

definition cleanup_db :: db where
  "cleanup_db = empty_db\<lparr>db_jobs := [(''j1'', old_job)], db_items := [(''t1'', sample_item ''written'')]\<rparr>"

theorem cleanup_keeps_statistics_witness:
  "\<exists>t k. cleanup_expired_migration_details sample_env (engine_on cleanup_db) = (Inr 1, t) \<and>
     dict_get (db_jobs (st_db t)) ''j1'' = Some k \<and> job_items ''j1'' (st_db t) = [] \<and>
     current_summary k (st_db t) = Some (job_result_summary old_job [sample_item ''written''])"
proof -
  let ?s = "engine_on cleanup_db"
  have st: "st_db ?s = cleanup_db" "st_work ?s = cleanup_db" "st_clock ?s = 1000" by (simp_all add: engine_on_def)
  have same: "?s\<lparr>st_work := cleanup_db\<rparr> = ?s" by (simp add: engine_on_def)
  have env: "set_migration_history_retention_days (env_settings sample_env) = 90"
    "set_migration_history_cleanup_batch_size (env_settings sample_env) = 100" by (simp_all add: sample_env_def sample_settings_def)
  have job: "mj_id old_job = ''j1''" "mj_details_expires_at old_job = Some 900" "mj_details_purged_at old_job = None"
    "mj_sync_run_id old_job = None" "mj_selection old_job = empty_selection"
    by (simp_all add: old_job_def sample_job_def)
  have db: "db_jobs cleanup_db = [(''j1'', old_job)]" by (simp add: cleanup_db_def)
  have items: "job_items ''j1'' cleanup_db = [sample_item ''written'']"
    by (simp add: job_items_def select_rows_def rows_def cleanup_db_def sample_item_def new_item_def)
  have pend: "review_pending old_job cleanup_db = False" by (simp add: review_pending_def job)
  have "missing_deadlines 100 cleanup_db = []"
    by (simp add: missing_deadlines_def select_rows_def rows_def db job)
  moreover have "expired_jobs 100 1000 cleanup_db = [old_job]"
    by (simp add: expired_jobs_def select_rows_def rows_def db job pend)
  moreover obtain t where p: "purge_job 1000 old_job ?s = (Inr (), t)" "st_clock t = 1000" "constraints_ok (st_work t)"
    "job_items ''j1'' (st_work t) = []"
  proof -
    have i: "expired_intent (mj_selection old_job) = mj_selection old_job" by (simp add: expired_intent_def job empty_selection_def)
    show ?thesis
      by (rule that, simp add: purge_job_def expire_continuous_sync_review_def when_do_def i collect_job_result_summary_def edit_job_def run_simps)
        (simp_all add: st constraint_defs cleanup_db_def empty_db_def update_row_def job
          job_items_def delete_rows_def sample_item_def new_item_def)
  qed
  ultimately have run: "cleanup_expired_migration_details sample_env ?s = (Inr 1, t\<lparr>st_db := st_work t\<rparr>)"
    using st by (simp add: cleanup_expired_migration_details_def Let_def env run_simps when_do_def same)
  have tab: "table_ok mj_id (\<lambda>_. True) (db_jobs (st_db ?s))" by (simp add: st db table_ok_def is_dict_def job)
  have "dict_get (db_jobs (st_db ?s)) ''j1'' = Some old_job" by (simp add: st db)
  from cleanup_keeps_statistics [OF run tab this] obtain k where
    "dict_get (db_jobs (st_work t)) ''j1'' = Some k" "current_summary k (st_work t) = current_summary old_job cleanup_db"
    by (auto simp: st)
  then show ?thesis using run p(4) by (intro exI [of _ "t\<lparr>st_db := st_work t\<rparr>"] exI [of _ k]) (simp add: current_summary_def job items)
qed

end
