(* ===== verification/Py_Parse.thy ===== *)
theory Py_Parse
  imports Matching
begin

text \<open>
  What the readers of playlist files use of Python's library: numerals, lines, the parts of a URL
  and the rows of a CSV text. Characters beyond the first 256 are outside the model, so the two
  long dashes the program also splits at never occur.
\<close>

section \<open>Numerals\<close>

text \<open>\<open>int(s)\<close>: white space around, a sign, digits that single underscores may separate.\<close>

definition digit_groups :: "string \<Rightarrow> nat option" where
  "digit_groups s =
     (if list_all all_digits (split_on (CHR ''_'') s) then Some (read_nat (filter (\<lambda>c. c \<noteq> CHR ''_'') s)) else None)"

definition signed :: "(string \<Rightarrow> 'a option) \<Rightarrow> ('a \<Rightarrow> 'a) \<Rightarrow> string \<Rightarrow> 'a option" where
  "signed read negate s =
     (case s of [] \<Rightarrow> read s
      | c # t \<Rightarrow> if c = CHR ''-'' then map_option negate (read t) else if c = CHR ''+'' then read t else read s)"

definition py_int :: "string \<Rightarrow> int option" where
  "py_int s = signed (\<lambda>t. map_option int (digit_groups t)) uminus (strip s)"

text \<open>\<open>float(s)\<close>. Finite values are exact; those a double cannot hold are infinite.\<close>

datatype py_number = Finite rat | Infinite bool | Not_A_Number

definition too_large :: "rat \<Rightarrow> bool" where
  "too_large q \<longleftrightarrow> 2 ^ 1024 - 2 ^ 970 \<le> \<bar>q\<bar>"

definition decimal_point :: "string \<Rightarrow> rat option" where
  "decimal_point s =
     (case partition_on ''.'' s of
        None \<Rightarrow> map_option of_nat (digit_groups s)
      | Some (a, b) \<Rightarrow>
          if a = [] \<and> b = [] then None
          else case (if a = [] then Some 0 else digit_groups a, if b = [] then Some 0 else digit_groups b) of
                 (Some m, Some n) \<Rightarrow> Some (of_nat m + of_nat n / 10 ^ length (filter (\<lambda>c. c \<noteq> CHR ''_'') b))
               | _ \<Rightarrow> None)"

definition scaled :: "rat \<Rightarrow> int \<Rightarrow> rat" where
  "scaled q e = (if 0 \<le> e then q * 10 ^ nat e else q / 10 ^ nat (- e))"

definition decimal_text :: "string \<Rightarrow> rat option" where
  "decimal_text s =
     (case partition_on ''e'' s of
        None \<Rightarrow> decimal_point s
      | Some (m, e) \<Rightarrow>
          (case (decimal_point m, signed (\<lambda>t. map_option int (digit_groups t)) uminus e) of
             (Some q, Some n) \<Rightarrow> Some (scaled q n) | _ \<Rightarrow> None))"

definition negated :: "py_number \<Rightarrow> py_number" where
  "negated n = (case n of Finite q \<Rightarrow> Finite (- q) | Infinite b \<Rightarrow> Infinite (\<not> b) | Not_A_Number \<Rightarrow> Not_A_Number)"

definition py_float :: "string \<Rightarrow> py_number option" where
  "py_float s =
     signed (\<lambda>t. if t \<in> {''inf'', ''infinity''} then Some (Infinite False)
        else if t = ''nan'' then Some Not_A_Number
        else map_option (\<lambda>q. if too_large q then Infinite False else Finite q) (decimal_text t)) negated (lower (strip s))"

section \<open>Lines\<close>

definition return :: char where
  "return = CHR 0x0D"

definition line_feed :: char where
  "line_feed = CHR 0x0A"

definition tab :: char where
  "tab = CHR 0x09"

text \<open>A line feed after a carriage return belongs to the same line end.\<close>

fun merge_ends :: "bool \<Rightarrow> string \<Rightarrow> string" where
  "merge_ends after [] = []"
| "merge_ends after (c # s) =
     (if after \<and> c = line_feed then merge_ends False s else c # merge_ends (c = return) s)"

fun lines_at :: "(char \<Rightarrow> bool) \<Rightarrow> string \<Rightarrow> string \<Rightarrow> string list" where
  "lines_at p cur [] = (if cur = [] then [] else [cur])"
| "lines_at p cur (c # s) = (if p c then cur # lines_at p [] s else lines_at p (cur @ [c]) s)"

definition is_line_end :: "char \<Rightarrow> bool" where
  "is_line_end c \<longleftrightarrow> c = line_feed \<or> c = return"

text \<open>
  Iterating over a text file with universal newlines, the ends of the lines removed; \<open>splitlines\<close>
  also ends a line at the other line boundaries.
\<close>

definition text_lines :: "string \<Rightarrow> string list" where
  "text_lines s = lines_at is_line_end [] (merge_ends False s)"

definition line_boundary :: "char \<Rightarrow> bool" where
  "line_boundary c = (let n = ord c in (10 \<le> n \<and> n \<le> 13) \<or> (28 \<le> n \<and> n \<le> 30) \<or> n = 133)"

definition splitlines :: "string \<Rightarrow> string list" where
  "splitlines s = lines_at line_boundary [] (merge_ends False s)"

text \<open>\<open>s.rsplit(d, 1)[0]\<close>.\<close>

definition before_last :: "char \<Rightarrow> string \<Rightarrow> string" where
  "before_last d s = (if d \<in> set s then rev (tl (dropWhile (\<lambda>c. c \<noteq> d) (rev s))) else s)"

text \<open>A JSON text that keeps the characters beyond ASCII.\<close>

definition plain_json_string :: "string \<Rightarrow> string" where
  "plain_json_string s = CHR 0x22 # concat (map (\<lambda>c. if 126 < ord c then [c] else escape_char c) s) @ [CHR 0x22]"

section \<open>URLs\<close>

text \<open>
  \<open>urlparse\<close>: the scheme and the path of a URL. A host in brackets has to be an address; \<open>ip\<close>
  says which texts are.
\<close>

definition is_letter :: "char \<Rightarrow> bool" where
  "is_letter c = (let n = ord c in (65 \<le> n \<and> n \<le> 90) \<or> (97 \<le> n \<and> n \<le> 122))"

definition url_scheme_char :: "char \<Rightarrow> bool" where
  "url_scheme_char c = (is_letter c \<or> is_digit c \<or> c = CHR ''+'' \<or> c = CHR ''-'' \<or> c = CHR ''.'')"

definition url_scheme :: "string \<Rightarrow> string \<times> string" where
  "url_scheme u =
     (case partition_on '':'' u of
        None \<Rightarrow> ([], u)
      | Some (a, b) \<Rightarrow> if a \<noteq> [] \<and> is_letter (hd a) \<and> list_all url_scheme_char a then (lower a, b) else ([], u))"

definition split_params :: "string \<Rightarrow> string" where
  "split_params p =
     (let tail = after_last (CHR ''/'') p; front = take (length p - length tail) p
      in front @ before_first '';'' tail)"

definition schemes_with_params :: "string set" where
  "schemes_with_params = {[], ''ftp'', ''hdl'', ''prospero'', ''http'', ''imap'', ''https'', ''shttp'', ''rtsp'', ''rtsps'',
     ''rtspu'', ''sip'', ''sips'', ''mms'', ''sftp'', ''tel''}"

definition urlparse :: "(string \<Rightarrow> bool) \<Rightarrow> string \<Rightarrow> string + string \<times> string" where
  "urlparse ip raw =
     (let u = filter (\<lambda>c. c \<notin> {tab, return, line_feed}) (lstrip_by (\<lambda>c. ord c \<le> (32::nat)) raw);
          (scheme, rest) = url_scheme u;
          located = starts_with ''//'' rest;
          body = (if located then drop 2 rest else rest);
          netloc = (if located then takeWhile (\<lambda>c. c \<notin> set ''/?#'') body else []);
          path = before_first ''?'' (before_first ''#'' (drop (length netloc) body));
          open_bracket = CHR ''['' \<in> set netloc; close_bracket = CHR '']'' \<in> set netloc
      in if open_bracket \<noteq> close_bracket then Inl ''Invalid IPv6 URL''
         else if open_bracket \<and>
           \<not> ip (before_first '']'' (case partition_on ''['' netloc of None \<Rightarrow> [] | Some (a, b) \<Rightarrow> b))
         then Inl ''Invalid IPv6 URL''
         else Inr (scheme, if scheme \<in> schemes_with_params then split_params path else path))"

text \<open>\<open>PurePath(p).name\<close> and \<open>suffix\<close>.\<close>

definition path_name :: "string \<Rightarrow> string" where
  "path_name p = (case filter (\<lambda>s. s \<noteq> [] \<and> s \<noteq> ''.'') (split_on (CHR ''/'') p) of [] \<Rightarrow> [] | ps \<Rightarrow> last ps)"

definition path_suffix :: "string \<Rightarrow> string" where
  "path_suffix p =
     (let n = path_name p; tail = after_last (CHR ''.'') n
      in if CHR ''.'' \<in> set n \<and> Suc (length tail) < length n \<and> tail \<noteq> [] then CHR ''.'' # tail else [])"

section \<open>CSV\<close>

record csv_dialect =
  cd_delimiter :: char
  cd_quote :: char
  cd_doublequote :: bool
  cd_skip_space :: bool

definition excel :: csv_dialect where
  "excel = \<lparr>cd_delimiter = CHR '','', cd_quote = CHR 0x22, cd_doublequote = True, cd_skip_space = False\<rparr>"

text \<open>
  The reader of the \<open>csv\<close> module: at the start of a record, at the start of a field, in a plain
  field, in a quoted one, after a quote in a quoted one. A record that holds nothing but its line
  end is empty. The module limits the size of a field.
\<close>

datatype csv_state = Record_Start | After_Return | Field_Start | In_Field | In_Quotes | Quote_In_Quotes

definition field_limit :: nat where
  "field_limit = 131072"

text \<open>A line end ends a record; a line feed right after a carriage return is part of it.\<close>

definition after_end :: "char \<Rightarrow> csv_state" where
  "after_end c = (if c = return then After_Return else Record_Start)"

fun csv_scan :: "csv_dialect \<Rightarrow> csv_state \<Rightarrow> string \<Rightarrow> string list \<Rightarrow> string \<Rightarrow> string list list" where
  "csv_scan d st cell row [] =
     (if st = Record_Start \<or> st = After_Return then [] else [row @ [cell]])"
| "csv_scan d st cell row (c # s) =
     (let end_field = (row @ [cell]) # csv_scan d (after_end c) [] [] s;
          next_field = csv_scan d Field_Start [] (row @ [cell]) s;
          keep = (\<lambda>m. csv_scan d m (cell @ [c]) row s)
      in case st of
           In_Quotes \<Rightarrow>
             if c = cd_quote d then csv_scan d (if cd_doublequote d then Quote_In_Quotes else In_Field) cell row s
             else keep In_Quotes
         | In_Field \<Rightarrow>
             if is_line_end c then end_field else if c = cd_delimiter d then next_field else keep In_Field
         | Quote_In_Quotes \<Rightarrow>
             if c = cd_quote d then keep In_Quotes
             else if c = cd_delimiter d then next_field
             else if is_line_end c then end_field else keep In_Field
         | _ \<Rightarrow>
             if st = After_Return \<and> c = line_feed then csv_scan d Record_Start [] [] s
             else if is_line_end c
             then if st = Field_Start then end_field else [] # csv_scan d (after_end c) [] [] s
             else if c = cd_quote d then csv_scan d In_Quotes [] row s
             else if c = CHR '' '' \<and> cd_skip_space d then csv_scan d Field_Start [] row s
             else if c = cd_delimiter d then next_field
             else keep In_Field)"

definition csv_records :: "csv_dialect \<Rightarrow> string \<Rightarrow> string list list option" where
  "csv_records d s =
     (let rs = csv_scan d Record_Start [] [] s
      in if list_all (list_all (\<lambda>f. length f \<le> field_limit)) rs then Some rs else None)"

end
