(* ===== verification/File_Context.thy ===== *)
theory File_Context
  imports Py_Parse Models
begin

text \<open>
  What the parsers of playlist files share (\<open>app/imports/parsers.py\<close>, \<open>models.py\<close>): the context
  with its counts, limits and issues, the track a mapping of fields describes, and the result.
  Numbers in documents are integers.
\<close>

section \<open>Formats, limits, errors\<close>

datatype import_format = F_TXT | F_CSV | F_M3U | F_M3U8 | F_PLS | F_WPL | F_XSPF | F_XML | F_JSON

fun format_value :: "import_format \<Rightarrow> string" where
  "format_value F_TXT = ''txt''"
| "format_value F_CSV = ''csv''"
| "format_value F_M3U = ''m3u''"
| "format_value F_M3U8 = ''m3u8''"
| "format_value F_PLS = ''pls''"
| "format_value F_WPL = ''wpl''"
| "format_value F_XSPF = ''xspf''"
| "format_value F_XML = ''xml''"
| "format_value F_JSON = ''json''"

record import_limits =
  il_max_upload_bytes :: nat
  il_max_playlists :: nat
  il_max_tracks :: nat
  il_max_issues :: nat

datatype severity = Warning_Issue | Error_Issue

record import_issue =
  iss_severity :: severity
  iss_code :: string
  iss_message :: string
  iss_line_or_item :: "nat option"
  iss_playlist_name :: "string option"
  iss_raw_excerpt :: "string option"

text \<open>
  \<open>PlaylistImportError\<close> and its subclass for limits, with a code and a message, and the errors of
  the library that a parser meets.
\<close>

datatype import_error =
    Playlist_Import_Error string string
  | Import_Limit_Exceeded string string
  | Unicode_Error
  | Csv_Error string
  | Invalid_Value string
  | Overflow_Error string

text \<open>
  The readers the parsers are run with: decoding bytes in an encoding, strictly or with
  replacements, the CSV sniffer, the XML and JSON readers, and the parts of Python whose text
  depends on more than the model has: \<open>str\<close> of a list or an object, percent decoding and the
  recognition of IP addresses. An XML reader reports the tags of elements as they start, until it
  ends or stops at an error. A JSON reader reports prefix, event and value in the same way.
\<close>

datatype xml = Element (xml_tag: string) (xml_attributes: "(string, string) dict") (xml_text: "string option")
  (xml_children: "xml list")

record readers =
  rd_decode :: "string \<Rightarrow> string \<Rightarrow> string option"
  rd_probe :: "string \<Rightarrow> string \<Rightarrow> string"
  rd_sniff :: "string \<Rightarrow> csv_dialect option"
  rd_xml_starts :: "string \<Rightarrow> string list"
  rd_xml :: "string \<Rightarrow> xml option"
  rd_json_events :: "string \<Rightarrow> (string \<times> string \<times> json) list \<times> bool"
  rd_json :: "string \<Rightarrow> (nat \<times> nat) + json"
  rd_str :: "json \<Rightarrow> string"
  rd_unquote :: "string \<Rightarrow> string"
  rd_ip :: "string \<Rightarrow> bool"

section \<open>Text helpers\<close>

text \<open>\<open>_clean\<close>: the text of a value without white space around it.\<close>

definition text_str :: "readers \<Rightarrow> json \<Rightarrow> string" where
  "text_str rd v =
     (case v of JNull \<Rightarrow> ''None'' | JBool b \<Rightarrow> if b then ''True'' else ''False'' | JInt i \<Rightarrow> str_int i | JStr s \<Rightarrow> s
      | _ \<Rightarrow> rd_str rd v)"

definition clean :: "readers \<Rightarrow> json \<Rightarrow> string" where
  "clean rd v = (if v = JNull then [] else strip (text_str rd v))"

text \<open>\<open>str.split()\<close>: the words between runs of white space.\<close>

fun words_from :: "string \<Rightarrow> string \<Rightarrow> string list" where
  "words_from w [] = (if w = [] then [] else [w])"
| "words_from w (c # s) =
     (if is_space c then (if w = [] then [] else [w]) @ words_from [] s else words_from (w @ [c]) s)"

definition excerpt :: "string option \<Rightarrow> string option" where
  "excerpt v = (if truthy v then Some (take 160 (join '' '' (words_from [] (the v)))) else None)"

definition default_playlist_name :: "string \<Rightarrow> string" where
  "default_playlist_name filename =
     (let stem = strip (before_last (CHR ''.'') filename) in if stem = [] then ''Imported playlist'' else stem)"

definition normalize_key :: "string \<Rightarrow> string" where
  "normalize_key v = strip_by (\<lambda>c. c = CHR ''_'') (noise_sub ''_'' (lower (strip v)))"

definition normalize_mapping :: "(string, json) dict \<Rightarrow> (string, json) dict" where
  "normalize_mapping m = fold (\<lambda>(k, v). dict_set (normalize_key k) v) m []"

definition title_aliases :: "string list" where
  "title_aliases = [''title'', ''track'', ''track_title'', ''tracktitle'', ''song'', ''song_title'', ''name'']"

definition artist_aliases :: "string list" where
  "artist_aliases = [''artist'', ''artists'', ''artist_name'', ''track_artist'', ''trackartist'', ''creator'', ''performer'']"

definition album_aliases :: "string list" where
  "album_aliases = [''album'', ''album_name'', ''album_title'', ''albumtitle'', ''release'']"

definition duration_aliases :: "string list" where
  "duration_aliases = [''duration_s'', ''duration_seconds'', ''duration'', ''length'', ''duration_ms'', ''length_ms'']"

definition isrc_aliases :: "string list" where
  "isrc_aliases = [''isrc'', ''recording_isrc'']"

definition uri_aliases :: "string list" where
  "uri_aliases = [''uri'', ''url'', ''location'', ''src'', ''path'', ''file'', ''provider_uri'', ''track_uri'', ''link'']"

definition playlist_aliases :: "string list" where
  "playlist_aliases = [''playlist'', ''playlist_name'', ''playlistname'', ''list'']"

definition id_aliases :: "string list" where
  "id_aliases = [''id'', ''track_id'', ''trackid'', ''identifier'']"

fun first_with_key :: "(string, json) dict \<Rightarrow> string list \<Rightarrow> string \<times> json" where
  "first_with_key m [] = ([], JNull)"
| "first_with_key m (a # as) =
     (case dict_get m (normalize_key a) of
        Some v \<Rightarrow> if v \<noteq> JNull \<and> v \<noteq> JStr [] then (normalize_key a, v) else first_with_key m as
      | None \<Rightarrow> first_with_key m as)"

definition first_of :: "(string, json) dict \<Rightarrow> string list \<Rightarrow> json" where
  "first_of m as = snd (first_with_key m as)"

text \<open>\<open>_parse_duration\<close>.\<close>

definition clock_text :: "string \<Rightarrow> int option" where
  "clock_text t =
     (let parts = map py_int (split_on (CHR '':'') t)
      in if list_ex (\<lambda>p. p = None) parts then None
         else case map the parts of
                [m, s] \<Rightarrow> Some (m * 60 + s) | [h, m, s] \<Rightarrow> Some (h * 3600 + m * 60 + s) | _ \<Rightarrow> None)"

definition number_of :: "readers \<Rightarrow> json \<Rightarrow> py_number option" where
  "number_of rd v = (if clean rd v = [] then None else py_float (clean rd v))"

text \<open>\<open>float\<close> of an integer: one that rounds beyond the largest float raises \<open>OverflowError\<close>.\<close>

definition float_of_int :: "int \<Rightarrow> import_error + py_number" where
  "float_of_int i = (if too_large (of_int i) then Inl (Overflow_Error ''int too large to convert to float'') else Inr (Finite (of_int i)))"

definition rounded_seconds :: "bool \<Rightarrow> py_number \<Rightarrow> int option" where
  "rounded_seconds milliseconds n =
     (case n of
        Finite q \<Rightarrow>
          if q < 0 then None
          else let r = (if milliseconds then q / 1000 else q) in if 2147483647 < r then None else Some (round_half_even r)
      | _ \<Rightarrow> None)"

definition parse_duration :: "readers \<Rightarrow> json \<Rightarrow> bool \<Rightarrow> import_error + int option" where
  "parse_duration rd v milliseconds =
     (case v of
        JNull \<Rightarrow> Inr None
      | JBool b \<Rightarrow> Inr None
      | JInt i \<Rightarrow> (case float_of_int i of Inl e \<Rightarrow> Inl e | Inr n \<Rightarrow> Inr (rounded_seconds milliseconds n))
      | _ \<Rightarrow>
          if CHR '':'' \<in> set (clean rd v) then Inr (clock_text (clean rd v))
          else (case number_of rd v of None \<Rightarrow> Inr None | Some n \<Rightarrow> Inr (rounded_seconds milliseconds n)))"

definition split_artist_title :: "string \<Rightarrow> string option \<times> string option" where
  "split_artist_title v =
     (let cleaned = strip v in
      if cleaned = [] then (None, None)
      else case partition_on '' - '' cleaned of
             Some (a, t) \<Rightarrow> if strip a \<noteq> [] \<and> strip t \<noteq> [] then (Some (strip a), Some (strip t)) else (None, Some cleaned)
           | None \<Rightarrow> (None, Some cleaned))"

definition provider_for_uri :: "string \<Rightarrow> string option" where
  "provider_for_uri uri =
     (let l = lower uri in
      if uri = [] then None
      else if starts_with ''spotify:'' l \<or> contains ''open.spotify.com/'' l then Some ''spotify''
      else if contains ''music.youtube.com/'' l \<or> contains ''youtube.com/watch'' l \<or> starts_with ''ytmusic:'' l
      then Some ''ytmusic''
      else if contains ''music.apple.com/'' l \<or> starts_with ''applemusic:'' l then Some ''applemusic''
      else if contains ''tidal.com/'' l \<or> starts_with ''tidal:'' l then Some ''tidal''
      else None)"

definition drive_path :: "string \<Rightarrow> bool" where
  "drive_path v =
     (case v of a # b # c # rest \<Rightarrow> is_letter a \<and> b = CHR '':'' \<and> (c = CHR 0x5C \<or> c = CHR ''/'') | _ \<Rightarrow> False)"

definition path_start :: "string \<Rightarrow> bool" where
  "path_start v = list_ex (\<lambda>p. starts_with p v) [''/'', [CHR 0x5C], ''./'', ''../'', ''~/'']"

definition audio_endings :: "string list" where
  "audio_endings = [''.mp3'', ''.m4a'', ''.flac'', ''.wav'', ''.ogg'', ''.aac'']"

definition looks_like_location :: "string \<Rightarrow> bool" where
  "looks_like_location v =
     (contains ''://'' v \<or> CHR '':'' \<in> set v \<or> path_start v \<or> drive_path v \<or>
      list_ex (\<lambda>e. ends_with e (lower v)) audio_endings)"

definition looks_like_local_location :: "readers \<Rightarrow> string \<Rightarrow> import_error + bool" where
  "looks_like_local_location rd v =
     (if v = [] \<or> provider_for_uri v \<noteq> None then Inr False
      else case urlparse (rd_ip rd) v of
             Inl m \<Rightarrow> Inl (Invalid_Value m)
           | Inr (scheme, p) \<Rightarrow>
               if lower scheme \<in> {''http'', ''https''} then Inr False
               else Inr (starts_with ''file:'' (lower v) \<or> path_start v \<or> drive_path v \<or>
                 CHR ''/'' \<in> set v \<or> CHR 0x5C \<in> set v \<or>
                 list_ex (\<lambda>e. ends_with e (before_first ''?'' (lower v))) (audio_endings @ [''.wma''])))"

definition location_title :: "readers \<Rightarrow> string \<Rightarrow> import_error + string option" where
  "location_title rd uri =
     (if uri = [] then Inr None
      else case urlparse (rd_ip rd) uri of
             Inl m \<Rightarrow> Inl (Invalid_Value m)
           | Inr (scheme, p) \<Rightarrow>
               let path = replace_char (CHR 0x5C) ''/'' (rd_unquote rd (if p = [] then uri else p)); n = path_name path;
                   t = strip (replace_char (CHR ''_'') '' '' (before_last (CHR ''.'') n))
               in Inr (if n = [] \<or> t = [] then None else Some t))"

text \<open>An ISRC: two letters, three letters or digits, seven digits, once other characters are removed.\<close>

definition alnum :: "char \<Rightarrow> bool" where
  "alnum c = (is_letter c \<or> is_digit c)"

definition upper_letter :: "char \<Rightarrow> bool" where
  "upper_letter c = (let n = ord c in 65 \<le> n \<and> n \<le> 90)"

definition squeezed_isrc :: "string \<Rightarrow> string" where
  "squeezed_isrc v = upper (filter alnum v)"

definition starts_like_isrc :: "string \<Rightarrow> bool" where
  "starts_like_isrc s =
     (length s = 12 \<and> list_all upper_letter (take 2 s) \<and>
      list_all (\<lambda>c. upper_letter c \<or> is_digit c) (take 3 (drop 2 s)) \<and> list_all is_digit (drop 5 s))"

definition is_isrc :: "string \<Rightarrow> bool" where
  "is_isrc v = starts_like_isrc (squeezed_isrc v)"

section \<open>The context\<close>

record parse_context =
  pc_format :: import_format
  pc_filename :: string
  pc_file_size :: nat
  pc_limits :: import_limits
  pc_encoding :: "string option"
  pc_playlists :: "playlist list"
  pc_issues :: "import_issue list"
  pc_track_count :: nat
  pc_malformed_count :: nat
  pc_unsupported_count :: nat
  pc_duplicate_count :: nat
  pc_parsed_tracks :: nat
  pc_parsed_playlists :: nat
  pc_overflow_reported :: bool

type_synonym 'a parse = "(parse_context, import_error, 'a) proc"

definition new_context :: "import_format \<Rightarrow> string \<Rightarrow> nat \<Rightarrow> import_limits \<Rightarrow> parse_context" where
  "new_context f filename bytes limits =
     \<lparr>pc_format = f, pc_filename = filename, pc_file_size = bytes, pc_limits = limits, pc_encoding = None,
      pc_playlists = [], pc_issues = [], pc_track_count = 0, pc_malformed_count = 0, pc_unsupported_count = 0,
      pc_duplicate_count = 0, pc_parsed_tracks = 0, pc_parsed_playlists = 0, pc_overflow_reported = False\<rparr>"

definition issue_overflow :: "import_limits \<Rightarrow> import_issue" where
  "issue_overflow l =
     \<lparr>iss_severity = Warning_Issue, iss_code = ''issue_limit'',
      iss_message = ''Only the first '' @ str_nat (il_max_issues l) @ '' parse issues are shown. '' @
        ''Additional malformed or lossy entries were counted but omitted.'',
      iss_line_or_item = None, iss_playlist_name = None, iss_raw_excerpt = None\<rparr>"

definition add_issue :: "import_issue \<Rightarrow> unit parse" where
  "add_issue i =
     writes (\<lambda>c.
       if length (pc_issues c) < il_max_issues (pc_limits c)
       then c\<lparr>pc_issues := pc_issues c @ [i\<lparr>iss_raw_excerpt := excerpt (iss_raw_excerpt i)\<rparr>]\<rparr>
       else if pc_overflow_reported c then c
       else c\<lparr>pc_overflow_reported := True, pc_issues := pc_issues c @ [issue_overflow (pc_limits c)]\<rparr>)"

definition issue_at ::
  "severity \<Rightarrow> string \<Rightarrow> string \<Rightarrow> nat option \<Rightarrow> string option \<Rightarrow> string option \<Rightarrow> import_issue"
where
  "issue_at sev code message place name raw =
     \<lparr>iss_severity = sev, iss_code = code, iss_message = message, iss_line_or_item = place, iss_playlist_name = name,
      iss_raw_excerpt = raw\<rparr>"

definition malformed :: "string \<Rightarrow> string \<Rightarrow> nat option \<Rightarrow> string option \<Rightarrow> string option \<Rightarrow> unit parse" where
  "malformed code message place name raw =
     andthen (writes (\<lambda>c. c\<lparr>pc_malformed_count := pc_malformed_count c + 1\<rparr>)) (\<lambda>_.
     add_issue (issue_at Error_Issue code message place name raw))"

definition playlist_limit :: "import_limits \<Rightarrow> import_error" where
  "playlist_limit l = Import_Limit_Exceeded ''playlist_limit''
     (''Playlist limit exceeded; this import allows at most '' @ str_nat (il_max_playlists l) @ '' playlists.'')"

definition track_limit :: "import_limits \<Rightarrow> import_error" where
  "track_limit l = Import_Limit_Exceeded ''track_limit''
     (''Track limit exceeded; this import allows at most '' @ str_nat (il_max_tracks l) @ '' tracks.'')"

definition reserve_playlist :: "unit parse" where
  "reserve_playlist =
     andthen (reads (\<lambda>c. c)) (\<lambda>c.
     if il_max_playlists (pc_limits c) \<le> pc_parsed_playlists c then throw (playlist_limit (pc_limits c))
     else writes (\<lambda>c. c\<lparr>pc_parsed_playlists := pc_parsed_playlists c + 1\<rparr>))"

definition reserve_track :: "unit parse" where
  "reserve_track =
     andthen (reads (\<lambda>c. c)) (\<lambda>c.
     if il_max_tracks (pc_limits c) \<le> pc_parsed_tracks c then throw (track_limit (pc_limits c))
     else writes (\<lambda>c. c\<lparr>pc_parsed_tracks := pc_parsed_tracks c + 1\<rparr>))"

definition add_playlist :: "string \<Rightarrow> track list \<Rightarrow> unit parse" where
  "add_playlist name ts =
     andthen reserve_playlist (\<lambda>_.
     if ts = []
     then malformed ''empty_playlist'' ''A playlist contained no usable or reportable track entries.'' None (Some (strip name)) None
     else
       andthen (reads (\<lambda>c. c)) (\<lambda>c.
       if il_max_tracks (pc_limits c) < pc_track_count c + length ts then throw (track_limit (pc_limits c))
       else
         let n = (if strip name = [] then default_playlist_name (pc_filename c) else strip name)
         in writes (\<lambda>c. c\<lparr>pc_playlists := pc_playlists c @ [new_playlist None n ts],
              pc_track_count := pc_track_count c + length ts,
              pc_unsupported_count := pc_unsupported_count c + length (filter (\<lambda>t. \<not> is_migratable t) ts)\<rparr>)))"

section \<open>The track of a mapping\<close>

text \<open>The title and the artist; a title of the form \<open>artist - title\<close> gives both.\<close>

definition named_pair :: "readers \<Rightarrow> (string, json) dict \<Rightarrow> string \<times> string" where
  "named_pair rd m =
     (let title = clean rd (first_of m title_aliases); artist = clean rd (first_of m artist_aliases)
      in if title \<noteq> [] \<and> artist = []
         then (case split_artist_title title of (Some a, Some t) \<Rightarrow> (t, a) | _ \<Rightarrow> (title, artist))
         else (title, artist))"

definition mapped_isrc :: "readers \<Rightarrow> (string, json) dict \<Rightarrow> string option" where
  "mapped_isrc rd m =
     (let raw = clean rd (first_of m isrc_aliases); i = clean rd (first_of m id_aliases);
          v = (if raw = [] \<and> i \<noteq> [] \<and> is_isrc i then i else raw)
      in Some (if v = [] then v else squeezed_isrc v))"

definition local_reason :: string where
  "local_reason = ''Local audio-file entries are not uploaded or migrated.''"

definition incomplete_reason :: string where
  "incomplete_reason = ''Track metadata is incomplete; both title and artist are required for matching.''"

definition serializable :: "json \<Rightarrow> bool" where
  "serializable v = (case v of JBool b \<Rightarrow> True | JInt i \<Rightarrow> True | JStr s \<Rightarrow> True | _ \<Rightarrow> False)"

definition track_metadata ::
  "readers \<Rightarrow> import_format \<Rightarrow> nat \<Rightarrow> (string, json) dict \<Rightarrow> string \<Rightarrow> (string, json) dict"
where
  "track_metadata rd f place m uri =
     (let fields = filter (\<lambda>(k, v). serializable v) m; i = clean rd (first_of m id_aliases)
      in [(''import_format'', JStr (format_value f)), (''import_location'', JInt (int place))] @
         (if fields = [] then [] else [(''import_fields'', JObj fields)]) @
         (if uri = [] then [] else [(''source_uri'', JStr uri)]) @
         (if i = [] then [] else [(''original_id'', JStr i)]))"

definition check_duration :: "readers \<Rightarrow> (string, json) dict \<Rightarrow> nat \<Rightarrow> string \<Rightarrow> string option \<Rightarrow> int option parse" where
  "check_duration rd m place name raw =
     (let (key, v) = first_with_key m duration_aliases
      in andthen (\<lambda>c. (parse_duration rd v (ends_with ''_ms'' key), c)) (\<lambda>d.
         andthen (when_do (v \<noteq> JNull \<and> d = None) (malformed ''invalid_duration''
           (''Duration value '' @ [CHR 0x27] @ text_str rd v @ [CHR 0x27] @ '' is invalid and was ignored.'') (Some place) (Some name) raw))
         (\<lambda>_. ret d)))"

definition report_track ::
  "bool \<Rightarrow> string list \<Rightarrow> nat \<Rightarrow> string \<Rightarrow> string option \<Rightarrow> unit parse"
where
  "report_track is_local missing place name raw =
     andthen (when_do is_local (add_issue (issue_at Warning_Issue ''unsupported_local_file'' local_reason (Some place)
       (Some name) raw))) (\<lambda>_.
     when_do (missing \<noteq> []) (malformed (''missing_'' @ join ''_and_'' missing)
       (''Track entry is missing '' @ join '', '' missing @ ''.'') (Some place) (Some name) raw))"

definition track_from_mapping ::
  "readers \<Rightarrow> (string, json) dict \<Rightarrow> nat \<Rightarrow> string \<Rightarrow> string option \<Rightarrow> track parse"
where
  "track_from_mapping rd mapping place name raw =
     andthen reserve_track (\<lambda>_.
     let m = normalize_mapping mapping; (title, artist) = named_pair rd m; uri = clean rd (first_of m uri_aliases);
         missing = (if title = [] then [''title''] else []) @ (if artist = [] then [''artist''] else [])
     in andthen (check_duration rd m place name raw) (\<lambda>duration.
        andthen (\<lambda>c. (looks_like_local_location rd uri, c)) (\<lambda>is_local.
        andthen (report_track is_local missing place name raw) (\<lambda>_.
        andthen (\<lambda>c. (if title = [] then location_title rd uri else Inr None, c)) (\<lambda>located.
        andthen (reads pc_format) (\<lambda>f.
        ret ((new_track (if title \<noteq> [] then title else or_str located ''Unknown track'')
              (if artist \<noteq> [] then artist else ''Unknown artist''))
            \<lparr>trk_album := Some (clean rd (first_of m album_aliases)), trk_duration_s := duration,
             trk_isrc := mapped_isrc rd m,
             trk_provider_uris := (case provider_for_uri uri of None \<Rightarrow> [] | Some p \<Rightarrow> [(p, uri)]),
             trk_metadata := track_metadata rd f place m uri,
             trk_media_type := (if is_local then LOCAL_FILE else if missing \<noteq> [] then UNKNOWN else TRACK),
             trk_is_local := is_local,
             trk_unsupported_reason := (if is_local then Some local_reason
               else if missing \<noteq> [] then Some incomplete_reason else None)\<rparr>)))))))"

section \<open>The result\<close>

definition duplicate_signature :: "readers \<Rightarrow> track \<Rightarrow> string option" where
  "duplicate_signature rd t =
     (let title = lower (strip (trk_title t)); artist = lower (strip (trk_artist t))
      in if truthy (trk_isrc t) then Some (''isrc:'' @ upper (the (trk_isrc t)))
         else if trk_provider_uris t \<noteq> []
         then Some (''uri:'' @ join ''|'' (map (\<lambda>(k, v). k @ '':'' @ lower v) (sort_members (trk_provider_uris t))))
         else if title \<noteq> [] \<and> artist \<noteq> []
         then Some (''song:'' @ title @ ''|'' @ artist @ ''|'' @
           lower (case trk_album t of None \<Rightarrow> [] | Some a \<Rightarrow> strip a) @ ''|'' @
           (case trk_duration_s t of None \<Rightarrow> [] | Some d \<Rightarrow> if d = 0 then [] else str_int d))
         else case dict_get (trk_metadata t) ''source_uri'' of
                Some v \<Rightarrow> if json_truthy v then Some (''source:'' @ lower (text_str rd v)) else None
              | None \<Rightarrow> None)"

text \<open>A track and its place in its playlist; a repeated one is marked, and stays where it is.\<close>

definition place_track ::
  "readers \<Rightarrow> string \<Rightarrow> string \<Rightarrow> (string, nat) dict \<times> track list \<Rightarrow> nat \<times> track \<Rightarrow> ((string, nat) dict \<times> track list) parse"
where
  "place_track rd playlist name = (\<lambda>(seen, ts) (k, t).
     let sig = duplicate_signature rd t; i = playlist @ '':'' @ str_nat k;
         found = (case sig of None \<Rightarrow> None | Some g \<Rightarrow> dict_get seen g);
         placed = t\<lparr>trk_id := Some i, trk_source_item_id := Some i, trk_position := Some (int k)\<rparr>
     in case found of
          Some first \<Rightarrow>
            andthen (writes (\<lambda>c. c\<lparr>pc_duplicate_count := pc_duplicate_count c + 1\<rparr>)) (\<lambda>_.
            andthen (add_issue (issue_at Warning_Issue ''duplicate_track''
              (''Duplicate of track '' @ str_nat (Suc first) @ ''; ordering was preserved.'') (Some (Suc k)) (Some name) None)) (\<lambda>_.
            ret (seen, ts @ [placed\<lparr>trk_metadata := dict_set ''import_duplicate_of_position'' (JInt (int first)) (trk_metadata t)\<rparr>])))
        | None \<Rightarrow> ret (case sig of None \<Rightarrow> seen | Some g \<Rightarrow> dict_set g k seen, ts @ [placed]))"

definition finalize_playlist :: "readers \<Rightarrow> (nat \<Rightarrow> string) \<Rightarrow> playlist list \<Rightarrow> nat \<times> playlist \<Rightarrow> playlist list parse" where
  "finalize_playlist rd uuid ready = (\<lambda>(n, p).
     let i = ''local:'' @ uuid n in
     andthen (fold_each (List.enumerate 0 (pl_tracks p)) ([], []) (place_track rd i (pl_name p))) (\<lambda>(seen, ts).
     ret (ready @ [p\<lparr>pl_id := Some i, pl_tracks := ts\<rparr>])))"

record import_parse_result =
  ipr_detected_format :: import_format
  ipr_encoding :: "string option"
  ipr_file_size :: nat
  ipr_playlists :: "playlist list"
  ipr_issues :: "import_issue list"
  ipr_playlist_count :: nat
  ipr_track_count :: nat
  ipr_duplicate_count :: nat
  ipr_malformed_count :: nat
  ipr_unsupported_count :: nat

definition empty_import :: import_error where
  "empty_import = Playlist_Import_Error ''empty_import'' ''The file contains no playlist tracks that can be previewed.''"

definition context_result :: "readers \<Rightarrow> (nat \<Rightarrow> string) \<Rightarrow> import_parse_result parse" where
  "context_result rd uuid =
     andthen (reads (\<lambda>c. c)) (\<lambda>c.
     if pc_playlists c = [] \<or> pc_track_count c = 0 then throw empty_import
     else
       andthen (fold_each (List.enumerate 0 (pc_playlists c)) [] (finalize_playlist rd uuid)) (\<lambda>ps.
       reads (\<lambda>c. \<lparr>ipr_detected_format = pc_format c, ipr_encoding = pc_encoding c, ipr_file_size = pc_file_size c,
         ipr_playlists = ps, ipr_issues = pc_issues c, ipr_playlist_count = length ps, ipr_track_count = pc_track_count c,
         ipr_duplicate_count = pc_duplicate_count c, ipr_malformed_count = pc_malformed_count c,
         ipr_unsupported_count = pc_unsupported_count c\<rparr>)))"

end
