(* ===== verification/File_Parsers.thy ===== *)
theory File_Parsers
  imports File_Context Local_Imports
begin

text \<open>
  The parsers of playlist files and the choice between them (\<open>app/imports/parsers.py\<close>,
  \<open>app/imports/registry.py\<close>). A file is its bytes, one character each; it is decoded as a whole.
\<close>

section \<open>Encodings\<close>

definition bom_utf8 :: string where
  "bom_utf8 = [CHR 0xEF, CHR 0xBB, CHR 0xBF]"

definition bom_utf16 :: "string list" where
  "bom_utf16 = [[CHR 0xFF, CHR 0xFE], [CHR 0xFE, CHR 0xFF]]"

definition bom_utf32 :: "string list" where
  "bom_utf32 = [[CHR 0xFF, CHR 0xFE, CHR 0x00, CHR 0x00], [CHR 0x00, CHR 0x00, CHR 0xFE, CHR 0xFF]]"

definition detect_text_encoding :: "readers \<Rightarrow> import_format \<Rightarrow> string \<Rightarrow> import_error + string" where
  "detect_text_encoding rd f bytes =
     (if starts_with bom_utf8 bytes then Inr ''utf-8-sig''
      else if list_ex (\<lambda>b. starts_with b bytes) bom_utf32 then Inr ''utf-32''
      else if list_ex (\<lambda>b. starts_with b bytes) bom_utf16 then Inr ''utf-16''
      else if rd_decode rd ''utf-8'' bytes \<noteq> None then Inr ''utf-8''
      else if f = F_M3U8 then Inl (Playlist_Import_Error ''invalid_encoding'' ''M3U8 files must use UTF-8 encoding.'')
      else Inr ''cp1252'')"

definition lift :: "import_error + 'a \<Rightarrow> 'a parse" where
  "lift r = (\<lambda>c. (r, c))"

definition set_encoding :: "readers \<Rightarrow> string \<Rightarrow> string parse" where
  "set_encoding rd bytes =
     andthen (reads pc_format) (\<lambda>f.
     andthen (lift (detect_text_encoding rd f bytes)) (\<lambda>e.
     andthen (writes (\<lambda>c. c\<lparr>pc_encoding := Some e\<rparr>)) (\<lambda>_. ret e)))"

definition read_text :: "readers \<Rightarrow> string \<Rightarrow> string parse" where
  "read_text rd bytes =
     andthen (set_encoding rd bytes) (\<lambda>e.
     lift (case rd_decode rd e bytes of None \<Rightarrow> Inl Unicode_Error | Some t \<Rightarrow> Inr t))"

section \<open>Text formats\<close>

type_synonym groups = "(string, track list) dict"

definition add_groups :: "groups \<Rightarrow> unit parse" where
  "add_groups gs = for_each gs (\<lambda>(name, ts). add_playlist name ts)"

text \<open>\<open>#PLAYLIST:name\<close>.\<close>

definition named_line :: "string \<Rightarrow> string \<Rightarrow> string" where
  "named_line line current =
     (let n = strip (case partition_on '':'' line of None \<Rightarrow> [] | Some (a, b) \<Rightarrow> b) in if n = [] then current else n)"

definition tab_keys :: "string list" where
  "tab_keys = [''title'', ''artist'', ''album'', ''duration'', ''isrc'', ''uri'', ''playlist'']"

definition txt_mapping :: "string \<Rightarrow> (string, json) dict" where
  "txt_mapping line =
     (if tab \<in> set line then zip tab_keys (map (\<lambda>v. JStr (strip v)) (split_on tab line))
      else if looks_like_location line then [(''uri'', JStr line)]
      else case split_artist_title line of
             (artist, title) \<Rightarrow> [(''title'', JStr (or_str title line)), (''artist'', opt_str artist)])"

definition txt_line ::
  "readers \<Rightarrow> groups \<times> string \<Rightarrow> nat \<times> string \<Rightarrow> (groups \<times> string) parse"
where
  "txt_line rd = (\<lambda>(gs, current) (n, raw).
     let line = strip raw in
     if line = [] then ret (gs, current)
     else if starts_with ''#PLAYLIST:'' (upper line) then ret (gs, named_line line current)
     else if starts_with ''#'' line then ret (gs, current)
     else
       let m = txt_mapping line;
           p = (if tab \<in> set line then (case dict_get m ''playlist'' of Some v \<Rightarrow> clean rd v | None \<Rightarrow> []) else []);
           name = (if p = [] then current else p)
       in andthen (track_from_mapping rd m n name (Some line)) (\<lambda>t. ret (dict_append name t gs, name)))"

definition parse_txt :: "readers \<Rightarrow> string \<Rightarrow> unit parse" where
  "parse_txt rd bytes =
     andthen (reads pc_filename) (\<lambda>filename.
     andthen (read_text rd bytes) (\<lambda>text.
     andthen (fold_each (List.enumerate 1 (text_lines text)) ([], default_playlist_name filename) (txt_line rd)) (\<lambda>(gs, _).
     add_groups gs)))"

text \<open>
  \<open>csv.DictReader\<close>: the cells of a row under the headers, absent ones \<open>None\<close>, the rest under no
  key. Rows without cells are skipped.
\<close>

definition csv_row_of :: "string list \<Rightarrow> string list \<Rightarrow> (string, json) dict \<times> json option" where
  "csv_row_of headers row =
     (fold (\<lambda>(k, v). dict_set k v)
        (zip headers (map JStr row @ replicate (length headers - length row) JNull)) [],
      if length row \<le> length headers then None else Some (JList (map JStr (drop (length headers) row))))"

definition missing_columns :: import_error where
  "missing_columns = Playlist_Import_Error ''missing_columns''
     ''CSV must include a title column. See the documented canonical CSV schema.''"

definition csv_excerpt :: "readers \<Rightarrow> (string, json) dict \<Rightarrow> json option \<Rightarrow> string" where
  "csv_excerpt rd row rest =
     join '' | '' (map (\<lambda>v. if json_truthy v then text_str rd v else [])
       (map snd row @ (case rest of None \<Rightarrow> [] | Some v \<Rightarrow> [v])))"

definition csv_line :: "readers \<Rightarrow> string \<Rightarrow> string list \<Rightarrow> groups \<Rightarrow> nat \<times> string list \<Rightarrow> groups parse" where
  "csv_line rd filename headers gs = (\<lambda>(n, cells).
     let (row, rest) = csv_row_of headers cells; p = clean rd (first_of (normalize_mapping row) playlist_aliases);
         name = (if p = [] then default_playlist_name filename else p)
     in andthen (track_from_mapping rd row n name (Some (csv_excerpt rd row rest))) (\<lambda>t. ret (dict_append name t gs)))"

definition parse_csv :: "readers \<Rightarrow> string \<Rightarrow> unit parse" where
  "parse_csv rd bytes =
     andthen (reads pc_filename) (\<lambda>filename.
     andthen (read_text rd bytes) (\<lambda>text.
     let dialect = (case rd_sniff rd (take 8192 text) of Some d \<Rightarrow> d | None \<Rightarrow> excel) in
     case csv_records dialect text of
       None \<Rightarrow> throw (Csv_Error ''field larger than field limit (131072)'')
     | Some records \<Rightarrow>
         let headers = (case records of [] \<Rightarrow> [] | r # rs \<Rightarrow> r) in
         if \<not> list_ex (\<lambda>h. h \<noteq> [] \<and> normalize_key h \<in> set (map normalize_key title_aliases)) headers
         then throw missing_columns
         else
           andthen (fold_each (List.enumerate 2 (filter (\<lambda>r. r \<noteq> []) (tl records))) [] (csv_line rd filename headers))
             add_groups))"

section \<open>M3U and PLS\<close>

text \<open>Between lines: the groups, the current name, and the metadata that waits for its location.\<close>

type_synonym m3u_state = "groups \<times> string \<times> ((string, json) dict \<times> nat) option"

definition extinf_mapping :: "string \<Rightarrow> (string, json) dict \<times> bool" where
  "extinf_mapping line =
     (let payload = (case partition_on '':'' line of None \<Rightarrow> [] | Some (a, b) \<Rightarrow> b) in
      case partition_on '','' payload of
        None \<Rightarrow> ([(''duration'', JStr payload)], False)
      | Some (d, display) \<Rightarrow>
          (case split_artist_title display of
             (artist, title) \<Rightarrow>
               ([(''duration'', JStr d), (''title'', JStr (or_str title display)), (''artist'', opt_str artist)], True)))"

definition m3u_line :: "readers \<Rightarrow> m3u_state \<Rightarrow> nat \<times> string \<Rightarrow> m3u_state parse" where
  "m3u_line rd = (\<lambda>(gs, current, pending) (n, raw).
     let line = strip raw in
     if line = [] then ret (gs, current, pending)
     else if starts_with ''#PLAYLIST:'' (upper line) then ret (gs, named_line line current, pending)
     else if starts_with ''#EXTINF:'' (upper line)
     then
       let (m, complete) = extinf_mapping line in
       andthen (when_do (\<not> complete) (malformed ''invalid_extinf''
         ''M3U EXTINF metadata must contain a comma before the display title.'' (Some n) (Some current) (Some line))) (\<lambda>_.
       ret (gs, current, Some (m, n)))
     else if starts_with ''#'' line then ret (gs, current, pending)
     else
       andthen (track_from_mapping rd ((case pending of None \<Rightarrow> [] | Some (m, k) \<Rightarrow> m) @ [(''uri'', JStr line)]) n current
         (Some line)) (\<lambda>t.
       ret (dict_append current t gs, current, None)))"

definition parse_m3u :: "readers \<Rightarrow> string \<Rightarrow> unit parse" where
  "parse_m3u rd bytes =
     andthen (reads pc_filename) (\<lambda>filename.
     andthen (read_text rd bytes) (\<lambda>text.
     andthen (fold_each (List.enumerate 1 (text_lines text)) ([], default_playlist_name filename, None) (m3u_line rd))
       (\<lambda>(gs, current, pending).
     andthen (case pending of
         None \<Rightarrow> ret ()
       | Some (m, n) \<Rightarrow> malformed ''missing_location'' ''M3U metadata was not followed by a track location.'' (Some n)
           (Some current) None) (\<lambda>_.
     add_groups gs))))"

type_synonym pls_state = "(nat, (string, string) dict) dict \<times> string \<times> int option"

definition pls_entry :: "string \<Rightarrow> (string \<times> nat) option" where
  "pls_entry key =
     (case find (\<lambda>w. starts_with w key \<and> all_digits (drop (length w) key)) [''file'', ''title'', ''length''] of
        None \<Rightarrow> None | Some w \<Rightarrow> Some (w, read_nat (drop (length w) key)))"

definition pls_line :: "pls_state \<Rightarrow> nat \<times> string \<Rightarrow> pls_state parse" where
  "pls_line = (\<lambda>(entries, name, expected) (n, raw).
     let line = strip raw in
     if line = [] \<or> starts_with '';'' line \<or> starts_with ''#'' line \<or> starts_with ''['' line
     then ret (entries, name, expected)
     else case partition_on ''='' line of
       None \<Rightarrow>
         andthen (malformed ''invalid_pls_line'' ''PLS entries must use key=value syntax.'' (Some n) (Some name) (Some line))
           (\<lambda>_. ret (entries, name, expected))
     | Some (k, v) \<Rightarrow>
         let key = normalize_key k in
         if key = ''numberofentries'' then ret (entries, name, py_int v)
         else if key = ''title'' then ret (entries, if strip v = [] then name else strip v, expected)
         else case pls_entry key of
                None \<Rightarrow> ret (entries, name, expected)
              | Some (w, i) \<Rightarrow>
                  ret (dict_set i (dict_set w (strip v) (case dict_get entries i of None \<Rightarrow> [] | Some e \<Rightarrow> e)) entries,
                       name, expected))"

definition pls_track :: "readers \<Rightarrow> string \<Rightarrow> track list \<Rightarrow> nat \<times> (string, string) dict \<Rightarrow> track list parse" where
  "pls_track rd name ts = (\<lambda>(i, e).
     let display = dict_get e ''title''; (artist, title) = split_artist_title (or_str display []);
         m = [(''uri'', opt_str (dict_get e ''file'')), (''title'', opt_str (or_else title display)),
              (''artist'', opt_str artist), (''duration'', opt_str (dict_get e ''length''))]
     in andthen (track_from_mapping rd m i name (or_else display (dict_get e ''file''))) (\<lambda>t. ret (ts @ [t])))"

definition parse_pls :: "readers \<Rightarrow> string \<Rightarrow> unit parse" where
  "parse_pls rd bytes =
     andthen (reads pc_filename) (\<lambda>filename.
     andthen (read_text rd bytes) (\<lambda>text.
     andthen (fold_each (List.enumerate 1 (text_lines text)) ([], default_playlist_name filename, None) pls_line)
       (\<lambda>(entries, name, expected).
     andthen (fold_each (sort_key fst entries) [] (pls_track rd name)) (\<lambda>ts.
     andthen (when_do (expected \<noteq> None \<and> expected \<noteq> Some (int (length entries)))
       (add_issue (issue_at Warning_Issue ''entry_count_mismatch''
         (''PLS declares '' @ str_int (the expected) @ '' entries but contains '' @ str_nat (length entries) @ ''.'')
         None (Some name) None))) (\<lambda>_.
     add_playlist name ts)))))"

section \<open>XML\<close>

definition local_name :: "string \<Rightarrow> string" where
  "local_name tag = lower (after_last (CHR ''}'') tag)"

fun xml_iter :: "xml \<Rightarrow> xml list" where
  "xml_iter (Element t as x es) = Element t as x es # concat (map xml_iter es)"

definition elements_named :: "xml \<Rightarrow> string \<Rightarrow> xml list" where
  "elements_named e name = filter (\<lambda>x. local_name (xml_tag x) = name) (xml_iter e)"

definition clean_text :: "xml \<Rightarrow> string" where
  "clean_text e = (case xml_text e of None \<Rightarrow> [] | Some t \<Rightarrow> strip t)"

definition first_text :: "xml list \<Rightarrow> string" where
  "first_text es = (case filter (\<lambda>t. t \<noteq> []) (map clean_text es) of [] \<Rightarrow> [] | t # ts \<Rightarrow> t)"

definition first_element_text :: "xml \<Rightarrow> string \<Rightarrow> string" where
  "first_element_text e name = first_text (elements_named e name)"

definition direct_child_text :: "xml \<Rightarrow> string \<Rightarrow> string" where
  "direct_child_text e name = first_text (filter (\<lambda>x. local_name (xml_tag x) = name) (xml_children e))"

definition invalid_xml :: import_error where
  "invalid_xml = Playlist_Import_Error ''invalid_document''
     ''XML could not be parsed. Check that tags are balanced and the document is valid.''"

definition reject_unsafe_xml :: "string \<Rightarrow> import_error + unit" where
  "reject_unsafe_xml bytes =
     (let probe = map (\<lambda>c. if ord c < (128::nat) then hd (upper_char c) else c) bytes in
      if contains ''<!DOCTYPE'' probe \<or> contains ''<!ENTITY'' probe
      then Inl (Playlist_Import_Error ''unsafe_xml'' ''XML document type and entity declarations are not allowed.'')
      else Inr ())"

text \<open>The elements of a document are counted as they start, before it is read into a tree.\<close>

fun count_xml :: "import_limits \<Rightarrow> nat \<times> nat \<times> nat \<Rightarrow> string list \<Rightarrow> import_error + unit" where
  "count_xml l counts [] = Inr ()"
| "count_xml l (elements, playlists, tracks) (tag # tags) =
     (let limit = max 1000 (il_max_tracks l * 20); name = local_name tag;
          p = (if name = ''playlist'' then Suc playlists else playlists);
          t = (if name = ''track'' \<or> name = ''media'' then Suc tracks else tracks)
      in if il_max_playlists l < p \<and> name = ''playlist'' then Inl (playlist_limit l)
         else if il_max_tracks l < t \<and> (name = ''track'' \<or> name = ''media'') then Inl (track_limit l)
         else if limit < Suc elements
         then Inl (Import_Limit_Exceeded ''xml_element_limit''
           (''XML element limit exceeded; at most '' @ str_nat limit @ '' elements are allowed.''))
         else count_xml l (Suc elements, p, t) tags)"

definition xml_encoding :: "string \<Rightarrow> string" where
  "xml_encoding head =
     (if starts_with bom_utf8 head then ''utf-8-sig''
      else if list_ex (\<lambda>b. starts_with b head) bom_utf16 then ''utf-16''
      else let quotes = {CHR 0x22, CHR 0x27};
               declared = (\<lambda>k. let rest = drop (k + 10) head; name = takeWhile (\<lambda>c. c \<notin> quotes) rest in
                 if rest \<noteq> [] \<and> starts_with ''encoding='' (lower (take 9 (drop k head))) \<and> head ! (k + 9) \<in> quotes \<and>
                    name \<noteq> [] \<and> length name < length rest
                 then Some name else None)
           in case List.map_filter declared [0..<length head] of [] \<Rightarrow> ''utf-8'' | n # ns \<Rightarrow> lower n)"

definition parse_xml_root :: "readers \<Rightarrow> string \<Rightarrow> xml parse" where
  "parse_xml_root rd bytes =
     andthen (lift (reject_unsafe_xml bytes)) (\<lambda>_.
     andthen (reads pc_limits) (\<lambda>l.
     andthen (lift (count_xml l (0, 0, 0) (rd_xml_starts rd bytes))) (\<lambda>_.
     andthen (writes (\<lambda>c. c\<lparr>pc_encoding := Some (xml_encoding (take 256 bytes))\<rparr>)) (\<lambda>_.
     lift (case rd_xml rd bytes of None \<Rightarrow> Inl invalid_xml | Some e \<Rightarrow> Inr e)))))"

text \<open>The tracks of the elements of a playlist, each given by its mapping and what is shown of it.\<close>

definition element_tracks ::
  "readers \<Rightarrow> string \<Rightarrow> ((string, json) dict \<times> string option) list \<Rightarrow> track list parse"
where
  "element_tracks rd name ms =
     fold_each (List.enumerate 1 ms) [] (\<lambda>ts (n, m, raw). andthen (track_from_mapping rd m n name raw) (\<lambda>t. ret (ts @ [t])))"

definition field_text :: "json option \<Rightarrow> string option" where
  "field_text v = (case v of Some (JStr s) \<Rightarrow> Some s | _ \<Rightarrow> None)"

text \<open>\<open>m["duration_ms"] = m.pop("duration", None)\<close>.\<close>

definition rename_duration :: "(string, json) dict \<Rightarrow> (string, json) dict" where
  "rename_duration m =
     dict_set ''duration_ms'' (case dict_get m ''duration'' of None \<Rightarrow> JNull | Some v \<Rightarrow> v)
       (filter (\<lambda>(k, v). k \<noteq> ''duration'') m)"

definition wpl_mapping :: "xml \<Rightarrow> (string, json) dict \<times> string option" where
  "wpl_mapping e =
     (let m = rename_duration (map (\<lambda>(k, v). (k, JStr v)) (xml_attributes e)) in (m, field_text (dict_get m ''src'')))"

definition parse_wpl :: "readers \<Rightarrow> string \<Rightarrow> unit parse" where
  "parse_wpl rd bytes =
     andthen (parse_xml_root rd bytes) (\<lambda>root.
     andthen (reads pc_filename) (\<lambda>filename.
     let t = first_element_text root ''title''; name = (if t = [] then default_playlist_name filename else t) in
     andthen (element_tracks rd name (map wpl_mapping (elements_named root ''media''))) (\<lambda>ts. add_playlist name ts)))"

definition xspf_mapping :: "xml \<Rightarrow> (string, json) dict \<times> string option" where
  "xspf_mapping e =
     (let m = rename_duration (fold (\<lambda>x. dict_set (local_name (xml_tag x)) (JStr (clean_text x))) (xml_children e) []);
          i = strip (or_str (field_text (dict_get m ''identifier'')) []);
          full = (if i \<noteq> [] \<and> is_isrc i then dict_set ''isrc'' (JStr i) m else m)
      in (full, field_text (dict_get full ''location'')))"

definition parse_xspf :: "readers \<Rightarrow> string \<Rightarrow> unit parse" where
  "parse_xspf rd bytes =
     andthen (parse_xml_root rd bytes) (\<lambda>root.
     andthen (reads pc_filename) (\<lambda>filename.
     let t = direct_child_text root ''title''; name = (if t = [] then default_playlist_name filename else t) in
     andthen (element_tracks rd name (map xspf_mapping (elements_named root ''track''))) (\<lambda>ts. add_playlist name ts)))"

definition xml_mapping :: "xml \<Rightarrow> (string, json) dict \<times> string option" where
  "xml_mapping e =
     (let m = fold (\<lambda>x m. let k = local_name (xml_tag x) in
            if xml_children x = [] \<and> dict_get m k = None then dict_set k (JStr (clean_text x)) m else m)
            (xml_children e) (map (\<lambda>(k, v). (k, JStr v)) (xml_attributes e))
      in (m, Some (or_str (or_else (field_text (dict_get m ''uri'')) (field_text (dict_get m ''location''))) [])))"

definition xml_playlist :: "readers \<Rightarrow> nat \<times> xml \<Rightarrow> unit parse" where
  "xml_playlist rd = (\<lambda>(n, e).
     andthen (reads pc_filename) (\<lambda>filename.
     let given = [strip (case dict_get (xml_attributes e) ''name'' of None \<Rightarrow> [] | Some v \<Rightarrow> v), direct_child_text e ''name'',
           direct_child_text e ''title'', default_playlist_name filename @ '' '' @ str_nat n];
         name = hd (filter (\<lambda>t. t \<noteq> []) given)
     in andthen (element_tracks rd name (map xml_mapping (elements_named e ''track''))) (\<lambda>ts. add_playlist name ts)))"

definition parse_xml :: "readers \<Rightarrow> string \<Rightarrow> unit parse" where
  "parse_xml rd bytes =
     andthen (parse_xml_root rd bytes) (\<lambda>root.
     let found = (if local_name (xml_tag root) = ''playlist'' then [root] else elements_named root ''playlist'')
     in for_each (List.enumerate 1 (if found = [] then [root] else found)) (xml_playlist rd))"

section \<open>JSON\<close>

text \<open>
  The limits of a JSON document are checked on the events of its reader: the playlists and tracks
  seen, the items of a top-level array, and whether those turned out to be playlists.
\<close>

record json_counts =
  jc_playlists :: nat
  jc_tracks :: int
  jc_top_items :: nat
  jc_top_playlists :: bool

definition count_playlist :: "import_limits \<Rightarrow> json_counts \<Rightarrow> import_error + json_counts" where
  "count_playlist l k =
     (let m = k\<lparr>jc_playlists := Suc (jc_playlists k)\<rparr>
      in if il_max_playlists l < jc_playlists m then Inl (playlist_limit l) else Inr m)"

definition count_track :: "import_limits \<Rightarrow> json_counts \<Rightarrow> import_error + json_counts" where
  "count_track l k =
     (let m = k\<lparr>jc_tracks := jc_tracks k + 1\<rparr>
      in if int (il_max_tracks l) < jc_tracks m then Inl (track_limit l) else Inr m)"

primrec count_playlists :: "import_limits \<Rightarrow> nat \<Rightarrow> json_counts \<Rightarrow> import_error + json_counts" where
  "count_playlists l 0 k = Inr k"
| "count_playlists l (Suc n) k = (case count_playlist l k of Inl e \<Rightarrow> Inl e | Inr m \<Rightarrow> count_playlists l n m)"

definition value_events :: "string set" where
  "value_events = {''start_map'', ''start_array'', ''string'', ''number'', ''boolean'', ''null''}"

definition is_track_item :: "string \<Rightarrow> bool" where
  "is_track_item prefix =
     (prefix = ''tracks.item'' \<or> prefix = ''items.item'' \<or> ends_with ''.tracks.item'' prefix \<or> ends_with ''.items.item'' prefix)"

definition names_tracks :: "json \<Rightarrow> bool" where
  "names_tracks v = (v = JStr ''tracks'' \<or> v = JStr ''items'')"

definition json_event ::
  "import_limits \<Rightarrow> string \<times> string \<times> json \<Rightarrow> json_counts \<Rightarrow> import_error + json_counts"
where
  "json_event l = (\<lambda>(prefix, event, v) k.
     if is_track_item prefix \<and> event \<in> value_events then count_track l k
     else if prefix = ''playlists.item'' \<and> event \<in> value_events then count_playlist l k
     else if prefix = ''playlist'' \<and> event = ''start_map'' then count_playlist l k
     else if prefix = [] \<and> event = ''map_key'' \<and> names_tracks v
     then if jc_playlists k = 0 then count_playlist l k else Inr k
     else if prefix = ''item'' \<and> event = ''start_map''
     then let m = k\<lparr>jc_top_items := Suc (jc_top_items k)\<rparr>
          in if jc_top_playlists m then count_playlist l m else count_track l m
     else if prefix = ''item'' \<and> event = ''map_key'' \<and> names_tracks v \<and> \<not> jc_top_playlists k
     then count_playlists l (jc_top_items k)
            (k\<lparr>jc_top_playlists := True, jc_tracks := jc_tracks k - int (jc_top_items k)\<rparr>)
     else if prefix = ''item'' \<and> event \<in> {''string'', ''number'', ''boolean'', ''null''} then count_track l k
     else Inr k)"

fun count_json ::
  "import_limits \<Rightarrow> json_counts \<Rightarrow> (string \<times> string \<times> json) list \<Rightarrow> import_error + json_counts"
where
  "count_json l k [] = Inr k"
| "count_json l k (e # es) = (case json_event l e k of Inl x \<Rightarrow> Inl x | Inr m \<Rightarrow> count_json l m es)"

definition invalid_json :: import_error where
  "invalid_json = Playlist_Import_Error ''invalid_document'' ''JSON could not be parsed. Check the document syntax and encoding.''"

definition validate_json_limits :: "readers \<Rightarrow> string \<Rightarrow> unit parse" where
  "validate_json_limits rd bytes =
     andthen (set_encoding rd bytes) (\<lambda>e.
     andthen (reads pc_limits) (\<lambda>l.
     lift (case rd_decode rd e bytes of
         None \<Rightarrow> Inl invalid_json
       | Some text \<Rightarrow>
           (case count_json l \<lparr>jc_playlists = 0, jc_tracks = 0, jc_top_items = 0, jc_top_playlists = False\<rparr>
              (fst (rd_json_events rd text)) of
              Inl x \<Rightarrow> Inl x | Inr k \<Rightarrow> if snd (rd_json_events rd text) then Inr () else Inl invalid_json))))"

text \<open>The playlists of a document: their names and their raw tracks.\<close>

definition has_tracks :: "json \<Rightarrow> bool" where
  "has_tracks v = (case v of JObj ms \<Rightarrow> list_ex (\<lambda>(k, x). k = ''tracks'' \<or> k = ''items'') ms | _ \<Rightarrow> False)"

definition get_or :: "json \<Rightarrow> string \<Rightarrow> json \<Rightarrow> json" where
  "get_or v k d = (case json_get v k of None \<Rightarrow> d | Some x \<Rightarrow> x)"

definition json_playlist :: "readers \<Rightarrow> string \<Rightarrow> nat \<times> json \<Rightarrow> string \<times> json list" where
  "json_playlist rd default_name = (\<lambda>(index, raw).
     case raw of
       JObj ms \<Rightarrow>
         (let n = clean rd (first_of (normalize_mapping ms) (playlist_aliases @ [''name'', ''title'']));
              listed = get_or raw ''tracks'' (get_or raw ''items'' (JList []));
              ts = (case listed of JObj xs \<Rightarrow> get_or listed ''items'' (get_or listed ''tracks'' (JList [])) | _ \<Rightarrow> listed)
          in (if n \<noteq> [] then n else if index = 0 then default_name else default_name @ '' '' @ str_nat (Suc index),
              case ts of JList xs \<Rightarrow> xs | _ \<Rightarrow> [ts]))
     | _ \<Rightarrow> (default_name @ '' '' @ str_nat (Suc index), [raw]))"

definition json_playlists :: "readers \<Rightarrow> json \<Rightarrow> string \<Rightarrow> import_error + (string \<times> json list) list" where
  "json_playlists rd payload filename =
     (let name = default_playlist_name filename;
          bad = Playlist_Import_Error ''invalid_document''
            ''JSON must contain a playlist object, a playlists array, or a track array.''
      in case payload of
           JObj ms \<Rightarrow>
             (case json_get payload ''playlists'' of
                Some (JList ps) \<Rightarrow> Inr (map (json_playlist rd name) (List.enumerate 0 ps))
              | _ \<Rightarrow>
                  if has_tracks payload then Inr [json_playlist rd name (0, payload)]
                  else (case json_get payload ''playlist'' of
                          Some (JObj xs) \<Rightarrow> Inr [json_playlist rd name (0, JObj xs)] | _ \<Rightarrow> Inl bad))
         | JList vs \<Rightarrow>
             if list_ex has_tracks vs then Inr (map (json_playlist rd name) (List.enumerate 0 vs)) else Inr [(name, vs)]
         | _ \<Rightarrow> Inl bad)"

text \<open>\<open>json.dumps\<close> with its default separators and without ASCII escapes.\<close>

fun plain_dumps :: "json \<Rightarrow> string" where
  "plain_dumps JNull = ''null''"
| "plain_dumps (JBool b) = (if b then ''true'' else ''false'')"
| "plain_dumps (JInt i) = str_int i"
| "plain_dumps (JStr s) = plain_json_string s"
| "plain_dumps (JList vs) = ''['' @ join '', '' (map plain_dumps vs) @ '']''"
| "plain_dumps (JObj ms) = ''{'' @ join '', '' (map (\<lambda>(k, v). plain_json_string k @ '': '' @ plain_dumps v) ms) @ ''}''"

definition json_mapping :: "readers \<Rightarrow> json \<Rightarrow> (string, json) dict \<times> string option" where
  "json_mapping rd raw =
     ((case raw of
         JObj ms \<Rightarrow> (case dict_get ms ''track'' of Some (JObj xs) \<Rightarrow> xs | _ \<Rightarrow> ms)
       | _ \<Rightarrow> [(''title'', JStr (text_str rd raw))]),
      Some (take 160 (plain_dumps raw)))"

definition parse_json :: "readers \<Rightarrow> string \<Rightarrow> unit parse" where
  "parse_json rd bytes =
     andthen (validate_json_limits rd bytes) (\<lambda>_.
     andthen (read_text rd bytes) (\<lambda>text.
     andthen (reads pc_filename) (\<lambda>filename.
     andthen (lift (case rd_json rd text of
         Inl (line, column) \<Rightarrow> Inl (Playlist_Import_Error ''invalid_document''
           (''JSON could not be parsed at line '' @ str_nat line @ '', column '' @ str_nat column @ ''.''))
       | Inr payload \<Rightarrow> json_playlists rd payload filename)) (\<lambda>ps.
     for_each (List.enumerate 1 ps) (\<lambda>(n, name, raws).
       andthen (element_tracks rd name (map (json_mapping rd) raws)) (\<lambda>ts.
       add_playlist (if name = [] then default_playlist_name filename @ '' '' @ str_nat n else name) ts))))))"

section \<open>The choice of a parser\<close>

fun parser_of :: "import_format \<Rightarrow> readers \<Rightarrow> string \<Rightarrow> unit parse" where
  "parser_of F_TXT = parse_txt"
| "parser_of F_CSV = parse_csv"
| "parser_of F_M3U = parse_m3u"
| "parser_of F_M3U8 = parse_m3u"
| "parser_of F_PLS = parse_pls"
| "parser_of F_WPL = parse_wpl"
| "parser_of F_XSPF = parse_xspf"
| "parser_of F_XML = parse_xml"
| "parser_of F_JSON = parse_json"

definition all_formats :: "import_format list" where
  "all_formats = [F_TXT, F_CSV, F_M3U, F_M3U8, F_PLS, F_WPL, F_XSPF, F_XML, F_JSON]"

definition format_from_filename :: "string \<Rightarrow> import_format option" where
  "format_from_filename filename = find (\<lambda>f. ''.'' @ format_value f = lower (path_suffix filename)) all_formats"

definition decode_probe :: "readers \<Rightarrow> string \<Rightarrow> string" where
  "decode_probe rd head =
     rd_probe rd
       (if starts_with bom_utf8 head then ''utf-8-sig''
        else if list_ex (\<lambda>b. starts_with b head) bom_utf16 then ''utf-16''
        else if list_ex (\<lambda>b. starts_with b head) bom_utf32 then ''utf-32''
        else ''utf-8'') head"

definition looks_like_csv_header :: "string \<Rightarrow> bool" where
  "looks_like_csv_header v =
     (let line = (case splitlines v of [] \<Rightarrow> [] | l # ls \<Rightarrow> lower l)
      in list_ex (\<lambda>d. d \<in> set line) [CHR '','', CHR '';'', tab, CHR ''|''] \<and>
         list_ex (\<lambda>n. contains n line) [''title'', ''track'', ''song''])"

definition detect_format :: "readers \<Rightarrow> string \<Rightarrow> string \<Rightarrow> import_error + import_format \<times> import_format option" where
  "detect_format rd bytes filename =
     (let extension = format_from_filename filename;
          probe = lstrip_by is_space (decode_probe rd (take 65536 bytes)); l = lower probe;
          detected =
            (if (starts_with ''{'' l \<or> starts_with ''['' l) \<and> \<not> starts_with ''[playlist]'' l then Some F_JSON
             else if starts_with ''[playlist]'' l then Some F_PLS
             else if starts_with ''#extm3u'' l then Some (if extension = Some F_M3U8 then F_M3U8 else F_M3U)
             else if starts_with ''<'' l
             then if contains ''xspf.org/ns/'' l then Some F_XSPF
                  else if contains ''<smil'' l then Some F_WPL
                  else if extension = Some F_WPL \<or> extension = Some F_XSPF then extension else Some F_XML
             else if extension = Some F_CSV \<or> looks_like_csv_header probe then Some F_CSV
             else extension)
      in case detected of
           None \<Rightarrow> Inl (Playlist_Import_Error ''unsupported_format''
             (''Unsupported playlist format. Supported formats: '' @ join '', '' (map format_value all_formats) @ ''.''))
         | Some f \<Rightarrow> Inr (f, extension))"

definition extension_mismatch :: "import_format \<Rightarrow> import_format \<Rightarrow> import_issue" where
  "extension_mismatch e f = issue_at Warning_Issue ''extension_mismatch''
     (''File extension suggests '' @ format_value e @ '', but content was detected as '' @ format_value f @
      ''. The detected content format was used.'') None None None"

text \<open>Errors of the library that the registry turns into errors of an import; others pass.\<close>

definition import_failure :: "import_error \<Rightarrow> import_error" where
  "import_failure e =
     (case e of
        Unicode_Error \<Rightarrow> Playlist_Import_Error ''invalid_encoding'' ''The file encoding is invalid or truncated.''
      | Csv_Error m \<Rightarrow> Playlist_Import_Error ''invalid_document'' (''CSV could not be parsed: '' @ m @ ''.'')
      | _ \<Rightarrow> e)"

definition parse_playlist_file ::
  "readers \<Rightarrow> (nat \<Rightarrow> string) \<Rightarrow> import_limits \<Rightarrow> string \<Rightarrow> string \<Rightarrow> import_error + import_parse_result"
where
  "parse_playlist_file rd uuid limits filename bytes =
     (let name = sanitize_filename filename in
      if il_max_upload_bytes limits < length bytes
      then Inl (Import_Limit_Exceeded ''upload_size_limit'' (''Upload is '' @ str_nat (length bytes) @
        '' bytes; the configured limit is '' @ str_nat (il_max_upload_bytes limits) @ '' bytes.''))
      else if bytes = [] then Inl empty_import
      else case detect_format rd bytes name of
        Inl e \<Rightarrow> Inl e
      | Inr (f, extension) \<Rightarrow>
          fst (andthen (case extension of
                 None \<Rightarrow> ret ()
               | Some e \<Rightarrow> when_do (e \<noteq> f) (add_issue (extension_mismatch e f))) (\<lambda>_.
               andthen (catching (parser_of f rd bytes) (\<lambda>e. throw (import_failure e))) (\<lambda>_.
               context_result rd uuid)) (new_context f name (length bytes) limits)))"

end
