(* ===== verification/File_Limits.thy ===== *)
theory File_Limits
  imports File_Parsers
begin

text \<open>
  What a parsed file may hold: every parser keeps the counts of its context true and within the
  limits, and the result numbers its playlists and tracks.
\<close>

section \<open>The invariant of the context\<close>

definition context_ok :: "import_limits \<Rightarrow> parse_context \<Rightarrow> bool" where
  "context_ok l c \<longleftrightarrow> pc_limits c = l \<and>
     length (pc_playlists c) \<le> pc_parsed_playlists c \<and> pc_parsed_playlists c \<le> il_max_playlists l \<and>
     pc_track_count c = sum_list (map (\<lambda>p. length (pl_tracks p)) (pc_playlists c)) \<and>
     pc_track_count c \<le> il_max_tracks l \<and>
     pc_unsupported_count c = sum_list (map (\<lambda>p. length (filter (\<lambda>t. \<not> is_migratable t) (pl_tracks p))) (pc_playlists c)) \<and>
     length (pc_issues c) \<le> il_max_issues l + (if pc_overflow_reported c then 1 else 0) \<and>
     list_all (\<lambda>p. pl_name p \<noteq> [] \<and> pl_tracks p \<noteq> []) (pc_playlists c)"

lemma default_playlist_name: "default_playlist_name f \<noteq> []"
  by (simp add: default_playlist_name_def Let_def)

lemma keeps_lift [keeps_intro]: "keeps I (lift r)"
  by (auto intro!: keepsI simp: lift_def)

lemma keeps_pure [keeps_intro]: "keeps I (\<lambda>c. (r, c))"
  by (auto intro!: keepsI)

lemma keeps_add_issue [keeps_intro]: "keeps (context_ok l) (add_issue i)"
  by (auto simp: add_issue_def context_ok_def intro!: keeps_writes)

lemma keeps_malformed [keeps_intro]: "keeps (context_ok l) (malformed code message place name raw)"
  by (auto simp: malformed_def context_ok_def intro!: keeps_intro keeps_writes)

lemma keeps_reserve_track [keeps_intro]: "keeps (context_ok l) reserve_track"
  by (auto simp: reserve_track_def context_ok_def intro!: keeps_intro keeps_writes)

lemma keeps_add_playlist [keeps_intro]: "keeps (context_ok l) (add_playlist name ts)"
proof (rule keepsI)
  fix c assume c: "context_ok l c"
  then have l: "pc_limits c = l" by (simp add: context_ok_def)
  let ?r = "c\<lparr>pc_parsed_playlists := pc_parsed_playlists c + 1\<rparr>"
  show "context_ok l (snd (add_playlist name ts c))"
  proof (cases "il_max_playlists l \<le> pc_parsed_playlists c")
    case True
    then show ?thesis using c l by (simp add: add_playlist_def reserve_playlist_def run_simps)
  next
    case False
    with c have r: "context_ok l ?r" "length (pc_playlists c) < pc_parsed_playlists ?r" by (simp_all add: context_ok_def)
    show ?thesis
    proof (cases "ts = []")
      case True
      with False l keepsD [OF keeps_malformed r(1)] show ?thesis
        by (simp add: add_playlist_def reserve_playlist_def run_simps)
    next
      case nonempty: False
      with False l r show ?thesis
        by (simp add: add_playlist_def reserve_playlist_def run_simps Let_def)
          (simp add: context_ok_def new_playlist_def default_playlist_name)
    qed
  qed
qed

lemma keeps_track [keeps_intro]: "keeps (context_ok l) (track_from_mapping rd m place name raw)"
  by (auto simp: track_from_mapping_def check_duration_def report_track_def Let_def split: prod.splits intro!: keeps_intro)

lemma keeps_set_encoding [keeps_intro]: "keeps (context_ok l) (set_encoding rd bytes)"
  by (auto simp: set_encoding_def context_ok_def intro!: keeps_intro keeps_writes)

lemma keeps_read_text [keeps_intro]: "keeps (context_ok l) (read_text rd bytes)"
  by (auto simp: read_text_def intro!: keeps_intro)

lemma keeps_add_groups [keeps_intro]: "keeps (context_ok l) (add_groups gs)"
  by (auto simp: add_groups_def intro!: keeps_intro)

lemma keeps_element_tracks [keeps_intro]: "keeps (context_ok l) (element_tracks rd name ms)"
  by (auto simp: element_tracks_def intro!: keeps_intro)

lemma keeps_xml_root [keeps_intro]: "keeps (context_ok l) (parse_xml_root rd bytes)"
  by (auto simp: parse_xml_root_def context_ok_def intro!: keeps_intro keeps_writes)

lemma keeps_parse_txt: "keeps (context_ok l) (parse_txt rd bytes)"
  by (auto simp: parse_txt_def txt_line_def Let_def intro!: keeps_intro)

lemma keeps_parse_csv: "keeps (context_ok l) (parse_csv rd bytes)"
  by (auto simp: parse_csv_def csv_line_def Let_def split: prod.splits option.splits intro!: keeps_intro)

lemma keeps_parse_m3u: "keeps (context_ok l) (parse_m3u rd bytes)"
  by (auto simp: parse_m3u_def m3u_line_def Let_def split: prod.splits intro!: keeps_intro)

lemma keeps_parse_pls: "keeps (context_ok l) (parse_pls rd bytes)"
  by (auto simp: parse_pls_def pls_line_def pls_track_def Let_def split: prod.splits intro!: keeps_intro)

lemma keeps_parse_wpl: "keeps (context_ok l) (parse_wpl rd bytes)"
  by (auto simp: parse_wpl_def Let_def intro!: keeps_intro)

lemma keeps_parse_xspf: "keeps (context_ok l) (parse_xspf rd bytes)"
  by (auto simp: parse_xspf_def Let_def intro!: keeps_intro)

lemma keeps_parse_xml: "keeps (context_ok l) (parse_xml rd bytes)"
  by (auto simp: parse_xml_def xml_playlist_def Let_def intro!: keeps_intro)

lemma keeps_parse_json: "keeps (context_ok l) (parse_json rd bytes)"
  by (auto simp: parse_json_def validate_json_limits_def Let_def intro!: keeps_intro)

lemmas keeps_parsers = keeps_parse_txt keeps_parse_csv keeps_parse_m3u keeps_parse_pls keeps_parse_wpl
  keeps_parse_xspf keeps_parse_xml keeps_parse_json

lemma keeps_parser_of [keeps_intro]: "keeps (context_ok l) (parser_of f rd bytes)"
  by (cases f) (auto intro: keeps_parsers)

section \<open>The result\<close>

text \<open>Placing tracks and playlists touches neither the playlists of the context nor their counts.\<close>

definition settled :: "parse_context \<Rightarrow> parse_context \<Rightarrow> bool" where
  "settled c d \<longleftrightarrow> pc_limits d = pc_limits c \<and> pc_playlists d = pc_playlists c \<and> pc_track_count d = pc_track_count c \<and>
     pc_unsupported_count d = pc_unsupported_count c \<and>
     (length (pc_issues c) \<le> il_max_issues (pc_limits c) + (if pc_overflow_reported c then 1 else 0) \<longrightarrow>
      length (pc_issues d) \<le> il_max_issues (pc_limits c) + (if pc_overflow_reported d then 1 else 0))"

lemma settled_refl: "settled c c"
  by (simp add: settled_def)

lemma settled_trans: "settled c d \<Longrightarrow> settled d e \<Longrightarrow> settled c e"
  by (auto simp: settled_def)

lemma settled_issue: "settled c d \<Longrightarrow> settled c (snd (add_issue i d))"
  by (auto simp: settled_def add_issue_def run_simps)

text \<open>The tracks of a result: numbered in order, with the identifier of their playlist.\<close>

definition placed :: "string \<Rightarrow> track list \<Rightarrow> track list \<Rightarrow> bool" where
  "placed i ts us \<longleftrightarrow> length us \<le> length ts \<and> (\<forall>k < length us. trk_position (us ! k) = Some (int k) \<and>
     trk_id (us ! k) = Some (i @ '':'' @ str_nat k) \<and> trk_source_item_id (us ! k) = Some (i @ '':'' @ str_nat k) \<and>
     trk_title (us ! k) = trk_title (ts ! k) \<and> trk_artist (us ! k) = trk_artist (ts ! k) \<and>
     trk_duration_s (us ! k) = trk_duration_s (ts ! k) \<and> trk_provider_uris (us ! k) = trk_provider_uris (ts ! k) \<and>
     is_migratable (us ! k) = is_migratable (ts ! k))"

lemma placed_snoc:
  assumes "placed i ts us" and "length us < length ts" and "ts ! length us = t"
    and "trk_position u = Some (int (length us))" "trk_id u = Some (i @ '':'' @ str_nat (length us))"
    "trk_source_item_id u = Some (i @ '':'' @ str_nat (length us))" "trk_title u = trk_title t" "trk_artist u = trk_artist t"
    "trk_duration_s u = trk_duration_s t" "trk_provider_uris u = trk_provider_uris t" "is_migratable u = is_migratable t"
  shows "placed i ts (us @ [u])"
  using assms by (auto simp: placed_def nth_append less_Suc_eq)

lemma place_track_run:
  assumes "place_track rd i name (seen, us) (length us, t) c = (r, d)" and "placed i ts us" and "length us < length ts"
    and "ts ! length us = t"
  shows "settled c d \<and> (\<exists>seen' u. r = Inr (seen', us @ [u]) \<and> placed i ts (us @ [u]))"
proof -
  let ?i = "i @ '':'' @ str_nat (length us)"
  let ?u = "t\<lparr>trk_id := Some ?i, trk_source_item_id := Some ?i, trk_position := Some (int (length us))\<rparr>"
  have p: "placed i ts (us @ [?u])" "\<And>m. placed i ts (us @ [?u\<lparr>trk_metadata := m\<rparr>])"
    using assms(2-4) by (auto intro!: placed_snoc simp: is_migratable_def)
  have s: "settled c (c\<lparr>pc_duplicate_count := n\<rparr>)" for n by (simp add: settled_def)
  have a: "andthen (add_issue x) k e = k () (snd (add_issue x e))" for x e and k :: "unit \<Rightarrow> 'b parse"
    by (simp add: add_issue_def run_simps)
  define found where "found = (case duplicate_signature rd t of None \<Rightarrow> None | Some g \<Rightarrow> dict_get seen g)"
  show ?thesis
  proof (cases found)
    case None
    with assms(1) p(1) show ?thesis by (auto simp: place_track_def Let_def run_ret settled_refl found_def [symmetric])
  next
    case (Some first)
    from assms(1) Some p(2) settled_issue [OF s] show ?thesis
      by (auto simp: place_track_def Let_def found_def [symmetric] run_andthen [of "writes f" for f] run_writes a run_ret)
  qed
qed

lemma place_tracks_run:
  assumes "fold_each (List.enumerate (length us) ts2) (seen, us) (place_track rd i name) c = (r, d)" and "placed i ts us"
    and "ts = take (length us) ts @ ts2" and "length us \<le> length ts"
  shows "settled c d \<and> (\<exists>seen' vs. r = Inr (seen', vs) \<and> placed i ts vs \<and> length vs = length ts)"
  using assms
proof (induction ts2 arbitrary: us seen c)
  case Nil
  then have "length us = length ts" by (metis append_Nil2 length_take min.absorb2)
  with Nil show ?case by (auto simp: run_simps settled_refl)
next
  case (Cons t ts2)
  have lt: "length us < length ts" "ts ! length us = t"
    using Cons.prems(3,4) by (metis append_eq_conv_conj length_take min.absorb2 list.discI take_all_iff not_less append_Nil2
        nth_append_length)+
  obtain r1 c1 where p: "place_track rd i name (seen, us) (length us, t) c = (r1, c1)" by force
  from place_track_run [OF p Cons.prems(2) lt] obtain seen' u
    where u: "settled c c1" "r1 = Inr (seen', us @ [u])" "placed i ts (us @ [u])" by blast
  have "fold_each (List.enumerate (length (us @ [u])) ts2) (seen', us @ [u]) (place_track rd i name) c1 = (r, d)"
    using Cons.prems(1) p u(2) by (simp add: run_simps)
  moreover have "ts = take (length (us @ [u])) ts @ ts2"
    using Cons.prems(3) lt by (simp add: take_Suc_conv_app_nth)
  ultimately have "settled c1 d \<and> (\<exists>seen' vs. r = Inr (seen', vs) \<and> placed i ts vs \<and> length vs = length ts)"
    using Cons.IH [of "us @ [u]" seen' c1] u(3) lt(1) by simp
  with u(1) show ?case using settled_trans by blast
qed

definition finalized :: "string \<Rightarrow> playlist \<Rightarrow> playlist \<Rightarrow> bool" where
  "finalized i p q \<longleftrightarrow> pl_id q = Some i \<and> pl_name q = pl_name p \<and> placed i (pl_tracks p) (pl_tracks q) \<and>
     length (pl_tracks q) = length (pl_tracks p)"

lemma finalize_run:
  assumes "finalize_playlist rd uuid ready (n, p) c = (r, d)"
  shows "settled c d \<and> (\<exists>q. r = Inr (ready @ [q]) \<and> finalized (''local:'' @ uuid n) p q)"
proof -
  let ?i = "''local:'' @ uuid n"
  obtain r1 d1 where f: "fold_each (List.enumerate 0 (pl_tracks p)) ([], []) (place_track rd ?i (pl_name p)) c = (r1, d1)"
    by force
  have "settled c d1 \<and> (\<exists>seen' vs. r1 = Inr (seen', vs) \<and> placed ?i (pl_tracks p) vs \<and> length vs = length (pl_tracks p))"
    by (rule place_tracks_run [where us = "[]" and ?ts2.0 = "pl_tracks p"]) (use f in \<open>simp_all add: placed_def\<close>)
  then show ?thesis using assms f by (auto simp: finalize_playlist_def Let_def run_simps finalized_def)
qed

lemma finalize_all:
  assumes "fold_each (List.enumerate n ps) ready (finalize_playlist rd uuid) c = (r, d)"
  shows "settled c d \<and> (\<exists>qs. r = Inr (ready @ qs) \<and> length qs = length ps \<and>
    (\<forall>k < length ps. finalized (''local:'' @ uuid (n + k)) (ps ! k) (qs ! k)))"
  using assms
proof (induction ps arbitrary: n ready c)
  case Nil
  then show ?case by (auto simp: run_simps settled_refl)
next
  case (Cons p ps)
  obtain r1 c1 where f: "finalize_playlist rd uuid ready (n, p) c = (r1, c1)" by force
  from finalize_run [OF f] obtain q where q: "settled c c1" "r1 = Inr (ready @ [q])" "finalized (''local:'' @ uuid n) p q"
    by blast
  with Cons.prems f have "fold_each (List.enumerate (Suc n) ps) (ready @ [q]) (finalize_playlist rd uuid) c1 = (r, d)"
    by (simp add: run_simps)
  from Cons.IH [OF this] obtain qs where qs: "settled c1 d" "r = Inr ((ready @ [q]) @ qs)" "length qs = length ps"
    "\<forall>k < length ps. finalized (''local:'' @ uuid (Suc n + k)) (ps ! k) (qs ! k)" by blast
  have "settled c d" using q(1) qs(1) by (rule settled_trans)
  moreover have "\<forall>k < length (p # ps). finalized (''local:'' @ uuid (n + k)) ((p # ps) ! k) ((q # qs) ! k)"
    using q(3) qs(4) by (auto simp: nth_Cons split: nat.splits)
  ultimately show ?case using qs(2,3) by (intro conjI exI [of _ "q # qs"]) simp_all
qed

text \<open>The counts of a result, in terms of its playlists.\<close>

definition import_result_ok :: "(nat \<Rightarrow> string) \<Rightarrow> import_limits \<Rightarrow> import_parse_result \<Rightarrow> bool" where
  "import_result_ok uuid l r \<longleftrightarrow>
     (let ps = ipr_playlists r in
      0 < length ps \<and> length ps \<le> il_max_playlists l \<and> ipr_playlist_count r = length ps \<and>
      ipr_track_count r = sum_list (map (\<lambda>p. length (pl_tracks p)) ps) \<and> ipr_track_count r \<le> il_max_tracks l \<and>
      ipr_unsupported_count r = sum_list (map (\<lambda>p. length (filter (\<lambda>t. \<not> is_migratable t) (pl_tracks p))) ps) \<and>
      length (ipr_issues r) \<le> Suc (il_max_issues l) \<and>
      (\<forall>n < length ps. pl_id (ps ! n) = Some (''local:'' @ uuid n) \<and> pl_name (ps ! n) \<noteq> [] \<and> pl_tracks (ps ! n) \<noteq> [] \<and>
         (\<forall>k < length (pl_tracks (ps ! n)). trk_position (pl_tracks (ps ! n) ! k) = Some (int k) \<and>
            trk_id (pl_tracks (ps ! n) ! k) = Some (''local:'' @ uuid n @ '':'' @ str_nat k))))"

lemma filter_count_eq:
  "length xs = length ys \<Longrightarrow> (\<And>k. k < length xs \<Longrightarrow> p (xs ! k) = p (ys ! k)) \<Longrightarrow>
     length (filter p xs) = length (filter p ys)"
  by (simp add: length_filter_conv_card) (metis (mono_tags, lifting))

lemma sums_eq: "length xs = length ys \<Longrightarrow> (\<And>k. k < length xs \<Longrightarrow> f (xs ! k) = g (ys ! k)) \<Longrightarrow>
     sum_list (map f xs) = sum_list (map g ys)"
  by (rule arg_cong [where f = sum_list]) (simp add: list_eq_iff_nth_eq)

lemma context_result_ok:
  assumes "context_result rd uuid c = (Inr r, d)" and "context_ok l c"
  shows "import_result_ok uuid l r"
proof -
  from assms(1) obtain ps where f: "fold_each (List.enumerate 0 (pc_playlists c)) [] (finalize_playlist rd uuid) c = (Inr ps, d)"
    and some: "pc_playlists c \<noteq> []" and r: "ipr_playlists r = ps" "ipr_issues r = pc_issues d"
    "ipr_playlist_count r = length ps" "ipr_track_count r = pc_track_count d" "ipr_unsupported_count r = pc_unsupported_count d"
    by (auto simp: context_result_def ok_simps split: if_splits)
  let ?qs = "pc_playlists c"
  from finalize_all [OF f] have s: "settled c d" and len: "length ps = length ?qs"
    and fin: "\<And>k. k < length ?qs \<Longrightarrow> finalized (''local:'' @ uuid k) (?qs ! k) (ps ! k)" by auto
  have names: "pl_name (?qs ! k) \<noteq> [] \<and> pl_tracks (?qs ! k) \<noteq> []" if "k < length ?qs" for k
    using assms(2) that by (auto simp: context_ok_def list_all_length)
  have counts: "sum_list (map (\<lambda>p. length (pl_tracks p)) ps) = sum_list (map (\<lambda>p. length (pl_tracks p)) ?qs)"
    by (rule sums_eq) (use len fin in \<open>simp_all add: finalized_def\<close>)
  have "length (filter (\<lambda>t. \<not> is_migratable t) (pl_tracks (ps ! k))) = length (filter (\<lambda>t. \<not> is_migratable t) (pl_tracks (?qs ! k)))"
    if "k < length ?qs" for k
    by (rule filter_count_eq) (use fin [OF that] in \<open>simp_all add: finalized_def placed_def\<close>)
  then have unsupported: "sum_list (map (\<lambda>p. length (filter (\<lambda>t. \<not> is_migratable t) (pl_tracks p))) ps) =
      sum_list (map (\<lambda>p. length (filter (\<lambda>t. \<not> is_migratable t) (pl_tracks p))) ?qs)"
    by (intro sums_eq) (simp_all add: len)
  have "pl_tracks (ps ! k) \<noteq> []" if "k < length ?qs" for k
    using fin [OF that] names [OF that] by (auto simp: finalized_def)
  then show ?thesis
    using s assms(2) some len fin names counts unsupported
    by (auto simp: import_result_ok_def Let_def r settled_def context_ok_def finalized_def placed_def split: if_splits)
qed

lemma three_steps:
  assumes "fst (andthen f (\<lambda>_ :: unit. andthen g (\<lambda>_ :: unit. h)) s) = Inr r"
  shows "\<exists>t u d. f s = (Inr (), t) \<and> g t = (Inr (), u) \<and> h u = (Inr r, d)"
proof -
  obtain x d where e: "andthen f (\<lambda>_. andthen g (\<lambda>_. h)) s = (x, d)" by force
  with assms have "andthen f (\<lambda>_. andthen g (\<lambda>_. h)) s = (Inr r, d)" by simp
  then show ?thesis by (auto simp: ok_andthen)
qed

text \<open>
  C15. A file that is accepted for import stays within the limits, whatever its format and its
  content: at least one and at most the allowed playlists, none of them empty or unnamed, at most
  the allowed tracks, at most one issue more than allowed (the one that says so), and counts that
  are those of the playlists; playlists and tracks are numbered from zero in the order of the file.
\<close>

theorem parsed_within_limits:
  assumes "parse_playlist_file rd uuid l filename bytes = Inr r"
  shows "import_result_ok uuid l r"
proof -
  from assms obtain f extension where
    run: "fst (andthen (case extension of
                 None \<Rightarrow> ret ()
               | Some e \<Rightarrow> when_do (e \<noteq> f) (add_issue (extension_mismatch e f))) (\<lambda>_.
               andthen (catching (parser_of f rd bytes) (\<lambda>e. throw (import_failure e))) (\<lambda>_.
               context_result rd uuid)) (new_context f (sanitize_filename filename) (length bytes) l)) = Inr r"
    by (auto simp: parse_playlist_file_def Let_def split: if_splits sum.splits prod.splits)
  let ?c = "new_context f (sanitize_filename filename) (length bytes) l"
  let ?first = "case extension of None \<Rightarrow> ret () | Some e \<Rightarrow> when_do (e \<noteq> f) (add_issue (extension_mismatch e f))"
  let ?parse = "catching (parser_of f rd bytes) (\<lambda>e. throw (import_failure e))"
  from three_steps [OF run] obtain c1 c2 d where c1: "?first ?c = (Inr (), c1)" and c2: "?parse c1 = (Inr (), c2)"
    and r: "context_result rd uuid c2 = (Inr r, d)" by blast
  have "context_ok l ?c" by (simp add: context_ok_def new_context_def)
  moreover have "keeps (context_ok l) ?first" by (auto intro!: keeps_intro)
  ultimately have "context_ok l c1" using keepsD [of "context_ok l" ?first ?c] c1 by simp
  moreover have "keeps (context_ok l) ?parse" by (auto intro!: keeps_intro)
  ultimately have "context_ok l c2" using keepsD [of "context_ok l" ?parse c1] c2 by simp
  with r show ?thesis by (rule context_result_ok)
qed

definition plain_readers :: readers where
  "plain_readers =
     \<lparr>rd_decode = (\<lambda>e s. Some s), rd_probe = (\<lambda>e s. s), rd_sniff = (\<lambda>s. None), rd_xml_starts = (\<lambda>s. []),
      rd_xml = (\<lambda>s. None), rd_json_events = (\<lambda>s. ([], False)), rd_json = (\<lambda>s. Inl (1, 1)), rd_str = (\<lambda>v. []),
      rd_unquote = (\<lambda>s. s), rd_ip = (\<lambda>s. False)\<rparr>"

definition sample_limits :: import_limits where
  "sample_limits = \<lparr>il_max_upload_bytes = 10, il_max_playlists = 2, il_max_tracks = 3, il_max_issues = 2\<rparr>"

lemma sample_format: "detect_format plain_readers ''A - B'' ''a.txt'' = Inr (F_TXT, Some F_TXT)"
proof -
  have n: "format_from_filename ''a.txt'' = Some F_TXT" by code_simp
  have t: "take 65536 ''A - B'' = ''A - B''" by simp
  have p: "lstrip_by is_space (decode_probe plain_readers ''A - B'') = ''A - B''" by code_simp
  have l: "lower ''A - B'' = ''a - b''" by code_simp
  have c: "looks_like_csv_header ''A - B'' = False" by code_simp
  show ?thesis by (simp add: detect_format_def n t p l c starts_with_def)
qed

theorem parsed_within_limits_witness:
  "\<exists>r. parse_playlist_file plain_readers str_nat sample_limits ''a.txt'' ''A - B'' = Inr r \<and>
     import_result_ok str_nat sample_limits r"
proof -
  let ?parsed = "fst (andthen (catching (parser_of F_TXT plain_readers ''A - B'') (\<lambda>e. throw (import_failure e)))
    (\<lambda>_. context_result plain_readers str_nat) (new_context F_TXT ''a.txt'' 5 sample_limits))"
  have "\<not> isl ?parsed" by code_simp
  then obtain r where r: "?parsed = Inr r" by (cases ?parsed) auto
  have name: "sanitize_filename ''a.txt'' = ''a.txt''" by code_simp
  have limit: "il_max_upload_bytes sample_limits = 10" by (simp add: sample_limits_def)
  have none: "andthen (ret ()) k s = k () s" for k :: "unit \<Rightarrow> import_parse_result parse" and s by (simp add: run_simps)
  have "parse_playlist_file plain_readers str_nat sample_limits ''a.txt'' ''A - B'' = Inr r"
    using r by (simp add: parse_playlist_file_def name sample_format when_do_def none limit eval_nat_numeral)
  with parsed_within_limits show ?thesis by blast
qed

end
