(* ===== verification/Export_Formats.thy ===== *)
theory Export_Formats
  imports Py_Parse Track_Keys Sharing
begin

text \<open>
  The files an export writes (\<open>app/exports/serializers.py\<close>, \<open>app/exports/service.py\<close>): CSV and TXT
  tables, M3U8, XSPF, the JSON bundle, the names of the files, and the archive of several playlists
  with its manifest. Compression and temporary files are left out; an archive is the list of its
  members.
\<close>

section \<open>Formats\<close>

datatype export_format = X_CSV | X_TXT | X_M3U8 | X_XSPF | X_JSON

fun export_value :: "export_format \<Rightarrow> string" where
  "export_value X_CSV = ''csv''"
| "export_value X_TXT = ''txt''"
| "export_value X_M3U8 = ''m3u8''"
| "export_value X_XSPF = ''xspf''"
| "export_value X_JSON = ''json''"

fun media_type_of :: "export_format \<Rightarrow> string" where
  "media_type_of X_CSV = ''text/csv; charset=utf-8''"
| "media_type_of X_TXT = ''text/plain; charset=utf-8''"
| "media_type_of X_M3U8 = ''application/vnd.apple.mpegurl; charset=utf-8''"
| "media_type_of X_XSPF = ''application/xspf+xml; charset=utf-8''"
| "media_type_of X_JSON = ''application/vnd.open-playlist+json; charset=utf-8''"

record export_warning =
  xw_code :: string
  xw_message :: string
  xw_playlist_id :: "string option"

section \<open>Names of files\<close>

text \<open>
  \<open>normalize("NFKD", c).encode("ascii", "ignore")\<close> of one character.
\<close>

definition ascii_form :: "char \<Rightarrow> string" where
  "ascii_form c =
     (let n = ord c in
      if n < 128 then [c]
      else if n \<in> {160, 168, 175, 180, 184} then '' ''
      else if n = 170 \<or> (224 \<le> n \<and> n \<le> 229) then ''a''
      else if n = 178 then ''2'' else if n = 179 then ''3'' else if n = 185 then ''1''
      else if n = 186 \<or> (242 \<le> n \<and> n \<le> 246) then ''o''
      else if n = 188 then ''14'' else if n = 189 then ''12'' else if n = 190 then ''34''
      else if 192 \<le> n \<and> n \<le> 197 then ''A'' else if n = 199 then ''C''
      else if 200 \<le> n \<and> n \<le> 203 then ''E'' else if 204 \<le> n \<and> n \<le> 207 then ''I''
      else if n = 209 then ''N'' else if 210 \<le> n \<and> n \<le> 214 then ''O''
      else if 217 \<le> n \<and> n \<le> 220 then ''U'' else if n = 221 then ''Y''
      else if n = 231 then ''c'' else if 232 \<le> n \<and> n \<le> 235 then ''e''
      else if 236 \<le> n \<and> n \<le> 239 then ''i'' else if n = 241 then ''n''
      else if 249 \<le> n \<and> n \<le> 252 then ''u'' else if n = 253 \<or> n = 255 then ''y''
      else [])"

definition name_char :: "char \<Rightarrow> bool" where
  "name_char c = (is_letter c \<or> is_digit c \<or> c = CHR ''_'' \<or> c = CHR ''-'')"

text \<open>A maximal run of characters replaced by one dash.\<close>

fun dash_runs :: "(char \<Rightarrow> bool) \<Rightarrow> bool \<Rightarrow> string \<Rightarrow> string" where
  "dash_runs p inside [] = []"
| "dash_runs p inside (c # s) =
     (if p c then (if inside then [] else [CHR ''-'']) @ dash_runs p True s else c # dash_runs p False s)"

definition is_dash :: "char \<Rightarrow> bool" where
  "is_dash c = (c = CHR ''-'')"

definition filename_base :: "string \<Rightarrow> string" where
  "filename_base v =
     strip_by is_dash (dash_runs (\<lambda>c. c = CHR ''-'' \<or> c = CHR ''_'') False
       (dash_runs (\<lambda>c. \<not> name_char c) False (concat (map ascii_form v))))"

definition windows_reserved :: "string list" where
  "windows_reserved = [''CON'', ''PRN'', ''AUX'', ''NUL''] @ map (\<lambda>n. ''COM'' @ str_nat n) [1..<10] @
     map (\<lambda>n. ''LPT'' @ str_nat n) [1..<10]"

definition or_text :: "string \<Rightarrow> string \<Rightarrow> string" where
  "or_text s d = (if s = [] then d else s)"

definition export_filename :: "string \<Rightarrow> string \<Rightarrow> nat \<Rightarrow> string" where
  "export_filename v fallback max_length =
     (let fallback_base = or_text (filename_base fallback) ''playlist'';
          base = or_text (filename_base v) fallback_base;
          unreserved = (if upper base \<in> set windows_reserved then ''playlist-'' @ base else base);
          cut = rstrip_by is_dash (take max_length unreserved)
      in or_text cut (or_text (take max_length fallback_base) ''playlist''))"

text \<open>
  \<open>FilenameAllocator\<close>: the names given so far, case folded. The loop tries numbers until a name
  is free; \<open>fuel\<close> bounds the tries.
\<close>

definition numbered_name :: "string \<Rightarrow> string \<Rightarrow> nat \<Rightarrow> string" where
  "numbered_name base extension n =
     (let suffix = CHR ''-'' # str_nat n; trimmed = rstrip_by is_dash (take (96 - length suffix) base)
      in or_text trimmed ''playlist'' @ suffix @ ''.'' @ extension)"

fun free_name :: "string list \<Rightarrow> string \<Rightarrow> string \<Rightarrow> nat \<Rightarrow> nat \<Rightarrow> string option" where
  "free_name used base extension 0 n = None"
| "free_name used base extension (Suc fuel) n =
     (let c = numbered_name base extension n
      in if casefold c \<in> set used then free_name used base extension fuel (Suc n) else Some c)"

definition allocate :: "string list \<Rightarrow> string \<Rightarrow> string \<Rightarrow> string \<Rightarrow> (string \<times> string list) option" where
  "allocate used v extension fallback =
     (let base = export_filename v fallback 96; plain = base @ ''.'' @ extension
      in map_option (\<lambda>c. (c, casefold c # used))
           (if casefold plain \<notin> set used then Some plain else free_name used base extension (Suc (length used)) 2))"

text \<open>
  \<open>FilenameAllocator.allocate\<close> refuses an extension that is not made of small letters and digits;
  \<open>allocate\<close> is what it does with the others, and None is the search that has no end.
\<close>

definition safe_extension :: "string \<Rightarrow> bool" where
  "safe_extension e = (e \<noteq> [] \<and> list_all is_lower_alnum e)"

definition allocate_name :: "string list \<Rightarrow> string \<Rightarrow> string \<Rightarrow> string \<Rightarrow> exn + (string \<times> string list)" where
  "allocate_name used v extension fallback =
     (if \<not> safe_extension extension then Inl (ValueError (''unsafe filename extension: '' @ repr_str extension))
      else case allocate used v extension fallback of
        None \<Rightarrow> Inl (RuntimeError ''no free name'')
      | Some r \<Rightarrow> Inr r)"

section \<open>Values\<close>

definition source_uri :: "track \<Rightarrow> string \<Rightarrow> string option" where
  "source_uri t provider =
     (if truthy (dict_get (trk_provider_uris t) provider) then dict_get (trk_provider_uris t) provider
      else map_option snd (find (\<lambda>(p, u). u \<noteq> []) (sort_members (trk_provider_uris t))))"

definition portable_location :: "track \<Rightarrow> string \<Rightarrow> string option" where
  "portable_location t provider =
     (case source_uri t provider of
        None \<Rightarrow> None
      | Some u \<Rightarrow>
          if u = [] then None
          else if starts_with ''spotify:track:'' u then Some (''https://open.spotify.com/track/'' @ after_last (CHR '':'') u)
          else if starts_with ''tidal:track:'' u then Some (''https://tidal.com/browse/track/'' @ after_last (CHR '':'') u)
          else Some u)"

definition formula_safe :: "string \<Rightarrow> string" where
  "formula_safe v =
     (let s = lstrip_by (\<lambda>c. c \<in> {CHR '' '', tab, return, line_feed}) v
      in if (v \<noteq> [] \<and> (hd v = tab \<or> hd v = return)) \<or> (s \<noteq> [] \<and> hd s \<in> {CHR ''='', CHR ''+'', CHR ''-'', CHR ''@''})
         then CHR 0x27 # v else v)"

fun replace_text :: "string \<Rightarrow> string \<Rightarrow> nat \<Rightarrow> string \<Rightarrow> string" where
  "replace_text p r 0 s = s"
| "replace_text p r (Suc n) s = (case partition_on p s of None \<Rightarrow> s | Some (a, b) \<Rightarrow> a @ r @ replace_text p r n b)"

text \<open>Times are ISO texts; every replacement shortens what is left.\<close>

definition iso :: "string option \<Rightarrow> string" where
  "iso v = (case v of None \<Rightarrow> [] | Some s \<Rightarrow> replace_text ''+00:00'' ''Z'' (length s) s)"

definition one_line :: "string option \<Rightarrow> string" where
  "one_line v = map (\<lambda>c. if is_line_end c then CHR '' '' else c) (or_str v [])"

section \<open>Tables\<close>

definition tabular_columns :: "string list" where
  "tabular_columns = [''schema_version'', ''playlist_id'', ''playlist_name'', ''playlist_description'', ''playlist_kind'',
     ''playlist_owner_id'', ''playlist_artwork_uri'', ''playlist_created_at'', ''playlist_updated_at'', ''order'',
     ''source_position'', ''track_id'', ''source_item_id'', ''title'', ''artist'', ''album'', ''duration_seconds'', ''isrc'',
     ''source_uri'', ''artwork_uri'', ''added_at'', ''media_type'', ''unsupported_reason'']"

text \<open>A cell is a text, made safe for a spreadsheet, or a number.\<close>

definition text_of :: "string option \<Rightarrow> string" where
  "text_of v = formula_safe (or_str v [])"

definition number_text :: "int option \<Rightarrow> string" where
  "number_text v = (case v of None \<Rightarrow> [] | Some n \<Rightarrow> str_int n)"

definition playlist_cells :: "playlist \<Rightarrow> string list" where
  "playlist_cells p = [''1'', text_of (pl_id p), text_of (Some (pl_name p)), text_of (pl_description p),
     text_of (Some (kind_value (pl_kind p))), text_of (pl_owner_id p), text_of (pl_photo p),
     formula_safe (iso (pl_created_at p)), formula_safe (iso (pl_updated_at p))]"

definition track_cells :: "string \<Rightarrow> nat \<Rightarrow> track \<Rightarrow> string list" where
  "track_cells provider order t =
     [str_nat order, number_text (trk_position t), text_of (trk_id t), text_of (trk_source_item_id t),
      text_of (Some (trk_title t)), text_of (Some (trk_artist t)), text_of (trk_album t), number_text (trk_duration_s t),
      text_of (trk_isrc t), text_of (source_uri t provider), text_of (trk_artwork_uri t),
      formula_safe (iso (trk_added_at t)), text_of (Some (media_value (trk_media_type t))),
      text_of (trk_unsupported_reason t)]"

definition tabular_rows :: "playlist \<Rightarrow> string \<Rightarrow> string list list" where
  "tabular_rows p provider =
     (if pl_tracks p = [] then [playlist_cells p @ replicate 14 []]
      else map (\<lambda>(n, t). playlist_cells p @ track_cells provider n t) (List.enumerate 1 (pl_tracks p)))"

definition delimited_cell :: "char \<Rightarrow> string \<Rightarrow> string" where
  "delimited_cell d s =
     (if list_ex (\<lambda>c. c = d \<or> c = quote \<or> is_line_end c) s
      then quote # concat (map (\<lambda>c. if c = quote then [quote, quote] else [c]) s) @ [quote] else s)"

definition delimited_row :: "char \<Rightarrow> string list \<Rightarrow> string" where
  "delimited_row d cells = join [d] (map (delimited_cell d) cells) @ [line_feed]"

text \<open>The content after the byte order mark of the CSV form.\<close>

definition write_tabular :: "char \<Rightarrow> playlist \<Rightarrow> string \<Rightarrow> string" where
  "write_tabular d p provider = delimited_row d tabular_columns @ concat (map (delimited_row d) (tabular_rows p provider))"

section \<open>M3U8\<close>

definition label_edge :: "char \<Rightarrow> bool" where
  "label_edge c = (c = CHR '' '' \<or> c = CHR ''-'')"

definition if_text :: "string option \<Rightarrow> (string \<Rightarrow> string) \<Rightarrow> string list" where
  "if_text v f = (if truthy v then [f (the v)] else [])"

definition m3u8_track :: "string \<Rightarrow> nat \<times> track \<Rightarrow> string list" where
  "m3u8_track provider = (\<lambda>(order, t).
     [''#EXTINF:'' @ str_int (case trk_duration_s t of Some d \<Rightarrow> d | None \<Rightarrow> -1) @ '','' @
        one_line (Some (strip_by label_edge (trk_artist t @ '' - '' @ trk_title t))),
      ''#OPE-ORDER:'' @ str_nat order] @
     if_text (Some (trk_artist t)) (\<lambda>v. ''#EXTART:'' @ one_line (Some v)) @
     if_text (trk_album t) (\<lambda>v. ''#EXTALB:'' @ one_line (Some v)) @
     if_text (trk_isrc t) (\<lambda>v. ''#OPE-ISRC:'' @ one_line (Some v)) @
     [''#OPE-MEDIA-TYPE:'' @ media_value (trk_media_type t)] @
     if_text (source_uri t provider) (\<lambda>v. ''#OPE-SOURCE-URI:'' @ one_line (Some v)) @
     (if trk_added_at t = None then [] else [''#OPE-ADDED-AT:'' @ iso (trk_added_at t)]) @
     if_text (trk_artwork_uri t) (\<lambda>v. ''#EXTIMG:'' @ one_line (Some v)) @
     if_text (trk_unsupported_reason t) (\<lambda>v. ''#OPE-UNSUPPORTED:'' @ one_line (Some v)) @
     [if truthy (portable_location t provider) then one_line (portable_location t provider) else ''#OPE-MISSING-URI''])"

definition m3u8_lines :: "playlist \<Rightarrow> string \<Rightarrow> string list" where
  "m3u8_lines p provider =
     [''#EXTM3U'', ''#EXTENC:UTF-8'', ''#OPE-SCHEMA:open-playlist-m3u-v1'', ''#PLAYLIST:'' @ one_line (Some (pl_name p))] @
     if_text (pl_id p) (\<lambda>v. ''#OPE-PLAYLIST-ID:'' @ one_line (Some v)) @
     (if pl_tracks p = [] then [''#OPE-WARNING:empty_playlist''] else []) @
     concat (map (m3u8_track provider) (List.enumerate 1 (pl_tracks p)))"

definition unlines :: "string list \<Rightarrow> string" where
  "unlines ls = concat (map (\<lambda>l. l @ [line_feed]) ls)"

definition write_m3u8 :: "playlist \<Rightarrow> string \<Rightarrow> string" where
  "write_m3u8 p provider = unlines (m3u8_lines p provider)"

section \<open>XSPF\<close>

definition xml_illegal :: "char \<Rightarrow> bool" where
  "xml_illegal c = (let n = ord c in n \<le> 8 \<or> n = 11 \<or> n = 12 \<or> (14 \<le> n \<and> n \<le> 31) \<or> (127 \<le> n \<and> n \<le> 159))"

definition xml_escape :: "string \<Rightarrow> string" where
  "xml_escape s = concat (map (\<lambda>c. if c = CHR ''&'' then ''&amp;'' else if c = CHR ''<'' then ''&lt;''
     else if c = CHR ''>'' then ''&gt;'' else [c]) (filter (\<lambda>c. \<not> xml_illegal c) s))"

definition xml_element :: "nat \<Rightarrow> string \<Rightarrow> string \<Rightarrow> string" where
  "xml_element indent tag v = replicate indent (CHR '' '') @ ''<'' @ tag @ ''>'' @ xml_escape v @ ''</'' @ tag @ ''>''"

definition quoted :: "string \<Rightarrow> string" where
  "quoted s = quote # s @ [quote]"

definition xspf_application :: string where
  "xspf_application = ''<extension application='' @ quoted ''https://openplaylistengine.dev/schemas/export/xspf-v1'' @ ''>''"

definition spaces :: "nat \<Rightarrow> string" where
  "spaces n = replicate n (CHR '' '')"

definition xspf_track :: "string \<Rightarrow> nat \<times> track \<Rightarrow> string list" where
  "xspf_track provider = (\<lambda>(order, t).
     [spaces 4 @ ''<track>''] @
     if_text (portable_location t provider) (xml_element 6 ''location'') @
     if_text (trk_isrc t) (\<lambda>v. xml_element 6 ''identifier'' (''urn:isrc:'' @ v)) @
     [xml_element 6 ''title'' (trk_title t), xml_element 6 ''creator'' (trk_artist t)] @
     if_text (trk_album t) (xml_element 6 ''album'') @
     (case trk_duration_s t of None \<Rightarrow> [] | Some d \<Rightarrow> [xml_element 6 ''duration'' (str_int (d * 1000))]) @
     if_text (trk_artwork_uri t) (xml_element 6 ''image'') @
     [spaces 6 @ xspf_application, xml_element 8 ''ope:order'' (str_nat order)] @
     (case trk_position t of None \<Rightarrow> [] | Some n \<Rightarrow> [xml_element 8 ''ope:sourcePosition'' (str_int n)]) @
     if_text (source_uri t provider) (xml_element 8 ''ope:sourceUri'') @
     (if trk_added_at t = None then [] else [xml_element 8 ''ope:addedAt'' (iso (trk_added_at t))]) @
     [xml_element 8 ''ope:mediaType'' (media_value (trk_media_type t))] @
     if_text (trk_unsupported_reason t) (xml_element 8 ''ope:unsupportedReason'') @
     [spaces 6 @ ''</extension>'', spaces 4 @ ''</track>''])"

definition write_xspf :: "playlist \<Rightarrow> string \<Rightarrow> string" where
  "write_xspf p provider = unlines
     ([''<?xml version='' @ quoted ''1.0'' @ '' encoding='' @ quoted ''UTF-8'' @ ''?>'',
       ''<playlist version='' @ quoted ''1'' @ '' xmlns='' @ quoted ''http://xspf.org/ns/0/'' @ '' xmlns:ope='' @
         quoted ''https://openplaylistengine.dev/ns/export/v1'' @ ''>'',
       xml_element 2 ''title'' (pl_name p)] @
      if_text (pl_description p) (xml_element 2 ''annotation'') @
      if_text (pl_photo p) (xml_element 2 ''image'') @
      [spaces 2 @ xspf_application, xml_element 4 ''ope:schemaVersion'' ''1''] @
      if_text (pl_id p) (xml_element 4 ''ope:playlistId'') @
      [xml_element 4 ''ope:playlistKind'' (kind_value (pl_kind p)), spaces 2 @ ''</extension>'', spaces 2 @ ''<trackList>''] @
      concat (map (xspf_track provider) (List.enumerate 1 (pl_tracks p))) @
      [spaces 2 @ ''</trackList>'', ''</playlist>''])"

section \<open>The JSON bundle\<close>

text \<open>\<open>json.dumps\<close> with compact separators and without ASCII escapes.\<close>

fun compact_dumps :: "json \<Rightarrow> string" where
  "compact_dumps JNull = ''null''"
| "compact_dumps (JBool b) = (if b then ''true'' else ''false'')"
| "compact_dumps (JInt i) = str_int i"
| "compact_dumps (JStr s) = plain_json_string s"
| "compact_dumps (JList vs) = ''['' @ join '','' (map compact_dumps vs) @ '']''"
| "compact_dumps (JObj ms) = ''{'' @ join '','' (map (\<lambda>(k, v). plain_json_string k @ '':'' @ compact_dumps v) ms) @ ''}''"

definition playlist_metadata :: "playlist \<Rightarrow> (string, json) dict" where
  "playlist_metadata p =
     [(''id'', opt_str (pl_id p)), (''name'', JStr (pl_name p)), (''description'', opt_str (pl_description p)),
      (''photo'', opt_str (pl_photo p)), (''owner_id'', opt_str (pl_owner_id p)),
      (''owner_name'', opt_str (pl_owner_name p)), (''is_owned'', opt_bool (pl_is_owned p)),
      (''is_followed'', opt_bool (pl_is_followed p)), (''collaborative'', opt_bool (pl_collaborative p)),
      (''snapshot_id'', opt_str (pl_snapshot_id p)), (''created_at'', opt_str (pl_created_at p)),
      (''updated_at'', opt_str (pl_updated_at p)), (''kind'', JStr (kind_value (pl_kind p)))]"

definition warning_value :: "export_warning \<Rightarrow> json" where
  "warning_value w = JObj [(''code'', JStr (xw_code w)), (''message'', JStr (xw_message w)),
     (''playlist_id'', opt_str (xw_playlist_id w))]"

definition bundle_schema :: string where
  "bundle_schema = ''https://openplaylistengine.dev/schemas/export/open-playlist-bundle-v1.json''"

text \<open>\<open>JsonBundleWriter\<close>: what it has written, and where in the document it is.\<close>

record json_writer =
  jw_text :: string
  jw_first :: bool
  jw_finished :: bool

definition quoted_key :: "string \<Rightarrow> string" where
  "quoted_key k = plain_json_string k @ '':''"

definition start_bundle :: "string \<Rightarrow> json_writer" where
  "start_bundle provider =
     \<lparr>jw_text = ''{'' @ quoted_key ''$schema'' @
        compact_dumps (JStr bundle_schema) @ '','' @ quoted_key ''schema_version'' @ ''1,'' @ quoted_key ''source_provider'' @
        compact_dumps (JStr provider) @ '','' @ quoted_key ''playlists'' @ ''['', jw_first = True, jw_finished = False\<rparr>"

definition bundle_finished :: exn where
  "bundle_finished = RuntimeError ''JSON bundle is already finished''"

definition bundle_playlist :: "playlist \<Rightarrow> json_writer \<Rightarrow> exn + json_writer" where
  "bundle_playlist p w =
     (if jw_finished w then Inl bundle_finished
      else Inr (w\<lparr>jw_first := False, jw_text := jw_text w @ (if jw_first w then [] else '','') @
        butlast (compact_dumps (JObj (playlist_metadata p))) @ '','' @ quoted_key ''tracks'' @ ''['' @
        join '','' (map (\<lambda>t. compact_dumps (track_json t)) (pl_tracks p)) @ '']}''\<rparr>))"

definition finish_bundle :: "export_warning list \<Rightarrow> json_writer \<Rightarrow> exn + json_writer" where
  "finish_bundle warnings w =
     (if jw_finished w then Inl bundle_finished
      else Inr (w\<lparr>jw_finished := True, jw_text := jw_text w @ ''],'' @ quoted_key ''warnings'' @
        compact_dumps (JList (map warning_value warnings)) @ ''}'' @ [line_feed]\<rparr>))"

fun bundle_playlists :: "playlist list \<Rightarrow> json_writer \<Rightarrow> exn + json_writer" where
  "bundle_playlists [] w = Inr w"
| "bundle_playlists (p # ps) w = (case bundle_playlist p w of Inl e \<Rightarrow> Inl e | Inr v \<Rightarrow> bundle_playlists ps v)"

definition write_bundle :: "string \<Rightarrow> playlist list \<Rightarrow> export_warning list \<Rightarrow> exn + string" where
  "write_bundle provider ps warnings =
     (case bundle_playlists ps (start_bundle provider) of
        Inl e \<Rightarrow> Inl e
      | Inr w \<Rightarrow> (case finish_bundle warnings w of Inl e \<Rightarrow> Inl e | Inr v \<Rightarrow> Inr (jw_text v)))"

text \<open>The document the writer streams.\<close>

definition playlist_value :: "playlist \<Rightarrow> json" where
  "playlist_value p = JObj (playlist_metadata p @ [(''tracks'', JList (map track_json (pl_tracks p)))])"

definition bundle_value :: "string \<Rightarrow> playlist list \<Rightarrow> export_warning list \<Rightarrow> json" where
  "bundle_value provider ps warnings = JObj
     [(''$schema'', JStr bundle_schema), (''schema_version'', JInt 1),
      (''source_provider'', JStr provider), (''playlists'', JList (map playlist_value ps)),
      (''warnings'', JList (map warning_value warnings))]"

definition write_playlist :: "export_format \<Rightarrow> playlist \<Rightarrow> string \<Rightarrow> export_warning list \<Rightarrow> exn + string" where
  "write_playlist f p provider warnings =
     (case f of
        X_CSV \<Rightarrow> Inr (write_tabular (CHR '','') p provider)
      | X_TXT \<Rightarrow> Inr (unlines [''# Open Playlist TXT v1'', ''# Encoding: UTF-8''] @ write_tabular tab p provider)
      | X_M3U8 \<Rightarrow> Inr (write_m3u8 p provider)
      | X_XSPF \<Rightarrow> Inr (write_xspf p provider)
      | X_JSON \<Rightarrow> write_bundle provider [p] warnings)"

section \<open>What is exported\<close>

record loaded_playlist =
  lp_playlist :: playlist
  lp_warnings :: "export_warning list"
  lp_status :: string

text \<open>A loader reads a playlist by its identifier; it belongs to the caller.\<close>

type_synonym 'w loader = "string \<Rightarrow> ('w, exn, loaded_playlist) proc"

definition with_unsupported_reason :: "track \<Rightarrow> track" where
  "with_unsupported_reason t =
     (if is_migratable t \<or> truthy (trk_unsupported_reason t) then t
      else t\<lparr>trk_unsupported_reason := Some (''Unsupported media type: '' @ media_value (trk_media_type t))\<rparr>)"

definition warning_of :: "string \<Rightarrow> string \<Rightarrow> string option \<Rightarrow> export_warning" where
  "warning_of code message p = \<lparr>xw_code = code, xw_message = message, xw_playlist_id = p\<rparr>"

definition plural_mark :: "nat \<Rightarrow> string" where
  "plural_mark n = (if n \<noteq> 1 then ''s'' else [])"

definition prepare_playlist :: "loaded_playlist \<Rightarrow> string \<Rightarrow> string set \<Rightarrow> string \<Rightarrow> loaded_playlist" where
  "prepare_playlist loaded p wanted provider =
     (let original = pl_tracks (lp_playlist loaded);
          selected = map with_unsupported_reason (filter (\<lambda>t. track_selected t wanted) original);
          pl = (lp_playlist loaded)\<lparr>pl_tracks := selected\<rparr>; i = Some (or_str (pl_id pl) p); name = pl_name pl;
          unsupported = length (filter (\<lambda>t. \<not> is_migratable t) selected);
          missing = length (filter (\<lambda>t. portable_location t provider = None) selected);
          warnings = lp_warnings loaded @
            (if wanted \<noteq> {} \<and> length selected < length original
             then [warning_of ''partial_selection'' (''Exported '' @ str_nat (length selected) @ '' of '' @
               str_nat (length original) @ '' tracks from '' @ name @ ''.'') i] else []) @
            (if selected = [] then [warning_of ''empty_playlist'' (name @ '' contains no selected tracks.'') i] else []) @
            (if unsupported \<noteq> 0 then [warning_of ''unsupported_items'' (name @ '' contains '' @ str_nat unsupported @
               '' unsupported playlist item'' @ plural_mark unsupported @ ''.'') i] else []) @
            (if missing \<noteq> 0 then [warning_of ''missing_source_uri'' (name @ '' contains '' @ str_nat missing @
               '' item'' @ plural_mark missing @ '' without a provider URI.'') i] else [])
      in \<lparr>lp_playlist = pl, lp_warnings = warnings,
          lp_status = (if lp_status loaded = ''ok'' \<and> warnings \<noteq> [] then ''warning'' else lp_status loaded)\<rparr>)"

definition wanted_tracks :: "playlist_selection \<Rightarrow> string \<Rightarrow> string set" where
  "wanted_tracks sel p = set (case dict_get (psel_tracks sel) p of None \<Rightarrow> [] | Some ts \<Rightarrow> ts)"

definition load_archive_playlist :: "'w loader \<Rightarrow> playlist_selection \<Rightarrow> string \<Rightarrow> string \<Rightarrow> ('w, exn, loaded_playlist) proc" where
  "load_archive_playlist load sel provider p =
     andthen (catching (load p) (\<lambda>e.
       case e of
         AccessDenied m \<Rightarrow> ret \<lparr>lp_playlist = new_playlist (Some p) p [],
           lp_warnings = [warning_of ''playlist_read_failed'' m (Some p)], lp_status = ''error''\<rparr>
       | NotFound m \<Rightarrow> ret \<lparr>lp_playlist = new_playlist (Some p) p [],
           lp_warnings = [warning_of ''playlist_read_failed'' m (Some p)], lp_status = ''error''\<rparr>
       | _ \<Rightarrow> throw e)) (\<lambda>l.
     ret (prepare_playlist l p (wanted_tracks sel p) provider))"

record manifest_entry =
  me_playlist_id :: string
  me_playlist_name :: string
  me_filename :: string
  me_status :: string
  me_track_count :: nat
  me_warning_codes :: "string list"

definition manifest_entry_of :: "loaded_playlist \<Rightarrow> string \<Rightarrow> string \<Rightarrow> manifest_entry" where
  "manifest_entry_of l filename p =
     \<lparr>me_playlist_id = or_str (pl_id (lp_playlist l)) p, me_playlist_name = pl_name (lp_playlist l), me_filename = filename,
      me_status = lp_status l, me_track_count = length (pl_tracks (lp_playlist l)),
      me_warning_codes = map xw_code (lp_warnings l)\<rparr>"

record export_manifest =
  xm_format :: export_format
  xm_source_provider :: string
  xm_playlist_count :: nat
  xm_entries :: "manifest_entry list"
  xm_warnings :: "export_warning list"

text \<open>An artifact: one file, or the members of an archive with their manifest.\<close>

record export_artifact =
  xa_filename :: string
  xa_media_type :: string
  xa_members :: "(string, string) dict"
  xa_manifest :: "export_manifest option"
  xa_warnings :: "export_warning list"

text \<open>\<open>ExportGenerationError\<close>, or an error of the loader or of a writer.\<close>

datatype export_failure = Export_Generation_Error string | Raised exn

type_synonym ('w, 'a) exporter = "('w, export_failure, 'a) proc"

definition lifted :: "('w, exn, 'a) proc \<Rightarrow> ('w, 'a) exporter" where
  "lifted m = (\<lambda>w. case m w of (Inl e, v) \<Rightarrow> (Inl (Raised e), v) | (Inr a, v) \<Rightarrow> (Inr a, v))"

definition validate_export_selection :: "playlist_selection \<Rightarrow> nat \<Rightarrow> export_failure + unit" where
  "validate_export_selection sel max_playlists =
     (let ids = psel_playlist_ids sel in
      if ids = [] then Inl (Export_Generation_Error ''Select at least one playlist to export'')
      else if max_playlists < length ids
      then Inl (Export_Generation_Error (''Select at most '' @ str_nat max_playlists @ '' playlists per export''))
      else if \<not> distinct ids then Inl (Export_Generation_Error ''Playlist selection contains duplicate IDs'')
      else if list_ex (\<lambda>(p, ts). p \<notin> set ids) (psel_tracks sel)
      then Inl (Export_Generation_Error ''Track filters reference playlists that are not selected'')
      else Inr ())"

definition written :: "exn + 'a \<Rightarrow> ('w, 'a) exporter" where
  "written r = lifted (\<lambda>w. (r, w))"

definition single_artifact ::
  "export_format \<Rightarrow> string \<Rightarrow> string \<Rightarrow> playlist_selection \<Rightarrow> 'w loader \<Rightarrow> ('w, export_artifact) exporter"
where
  "single_artifact f provider p sel load =
     andthen (lifted (load p)) (\<lambda>l0.
     let l = prepare_playlist l0 p (wanted_tracks sel p) provider; pl = lp_playlist l in
     andthen (written (write_playlist f pl provider (lp_warnings l))) (\<lambda>text.
     andthen (written (allocate_name [] (pl_name pl) (export_value f) (or_str (pl_id pl) p))) (\<lambda>(name, used).
     ret \<lparr>xa_filename = name, xa_media_type = media_type_of f, xa_members = [(name, text)], xa_manifest = None,
       xa_warnings = lp_warnings l\<rparr>)))"

text \<open>The archive being filled: names used, members, entries, warnings, and playlists read.\<close>

record filling =
  fl_used :: "string list"
  fl_members :: "(string \<times> string) list"
  fl_entries :: "manifest_entry list"
  fl_warnings :: "export_warning list"
  fl_read :: nat

definition nothing_filled :: filling where
  "nothing_filled = \<lparr>fl_used = [], fl_members = [], fl_entries = [], fl_warnings = [], fl_read = 0\<rparr>"

definition note_playlist :: "loaded_playlist \<Rightarrow> string \<Rightarrow> string \<Rightarrow> filling \<Rightarrow> filling" where
  "note_playlist l filename p a =
     a\<lparr>fl_warnings := fl_warnings a @ lp_warnings l, fl_entries := fl_entries a @ [manifest_entry_of l filename p],
       fl_read := fl_read a + (if lp_status l \<noteq> ''error'' then 1 else 0)\<rparr>"

definition archive_playlist ::
  "export_format \<Rightarrow> string \<Rightarrow> playlist_selection \<Rightarrow> 'w loader \<Rightarrow> filling \<Rightarrow> string \<Rightarrow> ('w, filling) exporter"
where
  "archive_playlist f provider sel load a p =
     andthen (lifted (load_archive_playlist load sel provider p)) (\<lambda>l.
     let pl = lp_playlist l in
     andthen (written (allocate_name (fl_used a) (pl_name pl) (export_value f) (or_str (pl_id pl) p))) (\<lambda>(name, used).
     andthen (written (write_playlist f pl provider (lp_warnings l))) (\<lambda>text.
     ret (note_playlist l name p (a\<lparr>fl_used := used, fl_members := fl_members a @ [(name, text)]\<rparr>)))))"

definition bundle_name :: string where
  "bundle_name = ''open-playlist-bundle.json''"

definition archive_bundle ::
  "string \<Rightarrow> playlist_selection \<Rightarrow> 'w loader \<Rightarrow> filling \<times> json_writer \<Rightarrow> string \<Rightarrow> ('w, filling \<times> json_writer) exporter"
where
  "archive_bundle provider sel load = (\<lambda>(a, w) p.
     andthen (lifted (load_archive_playlist load sel provider p)) (\<lambda>l.
     andthen (written (bundle_playlist (lp_playlist l) w)) (\<lambda>v.
     ret (note_playlist l bundle_name p a, v))))"

definition fill_archive ::
  "export_format \<Rightarrow> string \<Rightarrow> playlist_selection \<Rightarrow> 'w loader \<Rightarrow> ('w, filling) exporter"
where
  "fill_archive f provider sel load =
     (if f = X_JSON
      then
        andthen (fold_each (psel_playlist_ids sel) (nothing_filled, start_bundle provider) (archive_bundle provider sel load))
          (\<lambda>(a, w).
        andthen (written (finish_bundle (fl_warnings a) w)) (\<lambda>v. ret (a\<lparr>fl_members := [(bundle_name, jw_text v)]\<rparr>)))
      else fold_each (psel_playlist_ids sel) nothing_filled (archive_playlist f provider sel load))"

definition archive_artifact ::
  "export_format \<Rightarrow> string \<Rightarrow> playlist_selection \<Rightarrow> 'w loader \<Rightarrow> ('w, export_artifact) exporter"
where
  "archive_artifact f provider sel load =
     andthen (fill_archive f provider sel load) (\<lambda>a.
     if fl_read a = 0 then throw (Export_Generation_Error ''None of the selected playlists could be read'')
     else ret \<lparr>xa_filename = export_filename provider ''source'' 96 @ ''-playlists-'' @ export_value f @ ''.zip'',
       xa_media_type = ''application/zip'', xa_members = fl_members a,
       xa_manifest = Some \<lparr>xm_format = f, xm_source_provider = provider, xm_playlist_count = length (psel_playlist_ids sel),
         xm_entries = fl_entries a, xm_warnings = fl_warnings a\<rparr>,
       xa_warnings = fl_warnings a\<rparr>)"

definition build_export_artifact ::
  "export_format \<Rightarrow> string \<Rightarrow> playlist_selection \<Rightarrow> 'w loader \<Rightarrow> nat \<Rightarrow> ('w, export_artifact) exporter"
where
  "build_export_artifact f provider sel load max_playlists =
     andthen (\<lambda>w. (validate_export_selection sel max_playlists, w)) (\<lambda>_.
     case psel_playlist_ids sel of
       [p] \<Rightarrow> single_artifact f provider p sel load
     | _ \<Rightarrow> archive_artifact f provider sel load)"

section \<open>Names are fresh\<close>

lemma casefold_append: "casefold (s @ t) = casefold s @ casefold t"
  by (simp add: casefold_def)

lemma casefold_digits: "casefold (nat_digits n) = nat_digits n"
proof -
  have "lower_char c = c \<and> ord c \<noteq> 223" if "c \<in> set (nat_digits n)" for c
  proof -
    have "is_digit c" using all_digits_nat_digits [of n] that by (auto simp: all_digits_def list_all_iff)
    then show ?thesis by (simp add: is_digit_def lower_char_def Let_def)
  qed
  then have "map (\<lambda>c. if ord c = 223 then ''ss'' else [lower_char c]) (nat_digits n) = map (\<lambda>c. [c]) (nat_digits n)"
    by simp
  then show ?thesis unfolding casefold_def by (simp only: concat_map_singleton map_ident)
qed

lemma casefold_dash: "casefold (CHR ''-'' # s) = CHR ''-'' # casefold s"
  by (simp add: casefold_def lower_char_def Let_def)

lemma numbered_name_inj:
  assumes "casefold (numbered_name base extension m) = casefold (numbered_name base extension n)"
  shows "m = n"
proof -
  obtain x y where "casefold (numbered_name base extension m) = x @ CHR ''-'' # nat_digits m @ casefold (''.'' @ extension)"
    and "casefold (numbered_name base extension n) = y @ CHR ''-'' # nat_digits n @ casefold (''.'' @ extension)"
    by (simp add: numbered_name_def Let_def casefold_append casefold_dash casefold_digits)
  with assms have "(x @ CHR ''-'' # nat_digits m) @ casefold (''.'' @ extension) =
      (y @ CHR ''-'' # nat_digits n) @ casefold (''.'' @ extension)" by simp
  then have "x @ CHR ''-'' # nat_digits m = y @ CHR ''-'' # nat_digits n" by (simp only: append_same_eq)
  moreover have "is_digit (CHR ''-'') = False" by (simp add: is_digit_def)
  ultimately show ?thesis using mark_numeral_inj by blast
qed

lemma free_name_None:
  "free_name used base extension fuel n = None \<Longrightarrow> k < fuel \<Longrightarrow> casefold (numbered_name base extension (n + k)) \<in> set used"
proof (induction fuel arbitrary: n k)
  case (Suc fuel)
  then have used: "casefold (numbered_name base extension n) \<in> set used"
    and rest: "free_name used base extension fuel (Suc n) = None" by (auto simp: Let_def split: if_splits)
  show ?case
  proof (cases k)
    case 0
    with used show ?thesis by simp
  next
    case (Suc j)
    with Suc.IH [OF rest, of j] Suc.prems(2) show ?thesis by simp
  qed
qed simp

lemma free_name_fresh: "free_name used base extension fuel n = Some c \<Longrightarrow> casefold c \<notin> set used"
  by (induction fuel arbitrary: n) (auto simp: Let_def split: if_splits)

lemma free_name_found: "free_name used base extension (Suc (length used)) n \<noteq> None"
proof
  assume none: "free_name used base extension (Suc (length used)) n = None"
  let ?name = "\<lambda>k. casefold (numbered_name base extension (n + k))"
  have "?name ` {..length used} \<subseteq> set used" using free_name_None [OF none] by (auto simp: less_Suc_eq_le)
  moreover have "inj_on ?name {..length used}" by (auto intro!: inj_onI dest: numbered_name_inj)
  ultimately have "card {..length used} \<le> card (set used)" by (meson card_inj_on_le List.finite_set)
  then show False using card_length [of used] by simp
qed

lemma allocate_free:
  "\<exists>c. allocate used v extension fallback = Some (c, casefold c # used) \<and> casefold c \<notin> set used"
proof -
  let ?base = "export_filename v fallback 96"
  show ?thesis
  proof (cases "casefold (?base @ ''.'' @ extension) \<in> set used")
    case False
    then show ?thesis by (simp add: allocate_def Let_def)
  next
    case True
    obtain c where "free_name used ?base extension (Suc (length used)) 2 = Some c"
      using free_name_found [of used ?base extension 2] by blast
    with True free_name_fresh [OF this] show ?thesis by (simp add: allocate_def Let_def del: free_name.simps)
  qed
qed

text \<open>
  C18. Naming a file always ends with a name that differs, even ignoring case, from every name given
  before in the archive: as many numbers as there are names are enough to find a free one.
\<close>

theorem allocate_fresh:
  "\<exists>c. allocate used v extension fallback = Some (c, casefold c # used) \<and> casefold c \<notin> set used"
  by (rule allocate_free)

section \<open>The bundle is one document\<close>

lemma join_append: "join d (xs @ [x]) = (if xs = [] then x else join d xs @ d @ x)"
proof (induction xs)
  case (Cons y xs)
  then show ?case by (cases xs) auto
qed simp

lemma compact_object: "compact_dumps (JObj ms) = ''{'' @ join '','' (map (\<lambda>(k, v). quoted_key k @ compact_dumps v) ms) @ ''}''"
  by (simp add: quoted_key_def case_prod_unfold)

lemma streamed_playlist:
  "butlast (compact_dumps (JObj (playlist_metadata p))) @ '','' @ quoted_key ''tracks'' @ ''['' @
     join '','' (map (\<lambda>t. compact_dumps (track_json t)) ts) @ '']}'' =
   compact_dumps (JObj (playlist_metadata p @ [(''tracks'', JList (map track_json ts))]))"
proof -
  have some: "playlist_metadata p \<noteq> []" by (simp add: playlist_metadata_def)
  show ?thesis unfolding compact_object by (simp add: butlast_append join_append some comp_def)
qed

lemma bundle_playlists_run:
  assumes "\<not> jw_finished w"
  shows "bundle_playlists ps w = Inr (w\<lparr>jw_first := jw_first w \<and> ps = [],
    jw_text := jw_text w @ (if ps = [] then [] else (if jw_first w then [] else '','') @
      join '','' (map (\<lambda>p. compact_dumps (playlist_value p)) ps))\<rparr>)"
  using assms
proof (induction ps arbitrary: w)
  case Nil
  then show ?case by simp
next
  case (Cons p ps)
  let ?v = "w\<lparr>jw_first := False, jw_text := jw_text w @ (if jw_first w then [] else '','') @ compact_dumps (playlist_value p)\<rparr>"
  have b: "bundle_playlist p w = Inr ?v"
    using Cons.prems streamed_playlist [of p "pl_tracks p"] by (simp add: bundle_playlist_def playlist_value_def)
  have "bundle_playlists ps ?v = Inr (?v\<lparr>jw_first := jw_first ?v \<and> ps = [],
    jw_text := jw_text ?v @ (if ps = [] then [] else (if jw_first ?v then [] else '','') @
      join '','' (map (\<lambda>p. compact_dumps (playlist_value p)) ps))\<rparr>)"
    by (rule Cons.IH) (use Cons.prems in simp)
  then show ?case by (cases ps) (simp_all add: b del: compact_dumps.simps)
qed

text \<open>
  C17. The JSON export is written piece by piece, playlist by playlist and track by track; what comes
  out is exactly the serialization of the one document that holds the schema, all playlists with
  their tracks in order, and all warnings, with a line feed after it.
\<close>

theorem bundle_is_one_document:
  "write_bundle provider ps warnings = Inr (compact_dumps (bundle_value provider ps warnings) @ [line_feed])"
proof -
  have "\<not> jw_finished (start_bundle provider)" by (simp add: start_bundle_def)
  note run = bundle_playlists_run [OF this, of ps]
  have one: "compact_dumps (JInt 1) = ''1''" by code_simp
  show ?thesis
    unfolding write_bundle_def run bundle_value_def compact_object
    by (simp add: finish_bundle_def start_bundle_def one [simplified] comp_def)
qed

section \<open>An archive accounts for every playlist\<close>

text \<open>
  What is to be exported of the playlist p, given what its loader answered: the selected tracks of
  what was loaded, or, when the provider denied access or did not know the playlist, an empty
  playlist marked as an error, with a warning that carries the provider's message.
\<close>

definition loaded_as :: "playlist_selection \<Rightarrow> string \<Rightarrow> string \<Rightarrow> exn + loaded_playlist \<Rightarrow> loaded_playlist \<Rightarrow> bool" where
  "loaded_as sel provider p answer l =
     (case answer of
        Inr l0 \<Rightarrow> l = prepare_playlist l0 p (wanted_tracks sel p) provider
      | Inl e \<Rightarrow> lp_status l = ''error'' \<and> pl_id (lp_playlist l) = Some p \<and> pl_name (lp_playlist l) = p \<and>
          pl_tracks (lp_playlist l) = [] \<and>
          (case e of
             AccessDenied m \<Rightarrow> warning_of ''playlist_read_failed'' m (Some p) \<in> set (lp_warnings l)
           | NotFound m \<Rightarrow> warning_of ''playlist_read_failed'' m (Some p) \<in> set (lp_warnings l)
           | _ \<Rightarrow> False))"

text \<open>The playlists are loaded one after the other, each in the world the one before has left.\<close>

fun loaded_in_order ::
  "'w loader \<Rightarrow> playlist_selection \<Rightarrow> string \<Rightarrow> (string \<times> loaded_playlist) list \<Rightarrow> 'w \<Rightarrow> 'w \<Rightarrow> bool"
where
  "loaded_in_order load sel provider [] w v = (v = w)"
| "loaded_in_order load sel provider ((p, l) # pls) w v =
     (case load p w of (answer, u) \<Rightarrow> loaded_as sel provider p answer l \<and> loaded_in_order load sel provider pls u v)"

text \<open>What the manifest says of a playlist, its file apart.\<close>

definition describes :: "string \<times> loaded_playlist \<Rightarrow> manifest_entry \<Rightarrow> bool" where
  "describes = (\<lambda>(p, l) e. me_playlist_id e = or_str (pl_id (lp_playlist l)) p \<and>
     me_playlist_name e = pl_name (lp_playlist l) \<and> me_status e = lp_status l \<and>
     me_track_count e = length (pl_tracks (lp_playlist l)) \<and> me_warning_codes e = map xw_code (lp_warnings l))"

definition warnings_of :: "(string \<times> loaded_playlist) list \<Rightarrow> export_warning list" where
  "warnings_of pls = concat (map (lp_warnings \<circ> snd) pls)"

text \<open>The member that holds a playlist of its own.\<close>

definition holds :: "export_format \<Rightarrow> string \<Rightarrow> string \<times> loaded_playlist \<Rightarrow> string \<times> string \<Rightarrow> bool" where
  "holds f provider = (\<lambda>(p, l) (name, text). write_playlist f (lp_playlist l) provider (lp_warnings l) = Inr text)"

text \<open>
  An archive in the making: an entry for every playlist so far, members under distinct names, and
  every entry's file a member of the archive (in a bundle, the one member still to come).
\<close>

definition archive_ok :: "export_format \<Rightarrow> string \<Rightarrow> (string \<times> loaded_playlist) list \<Rightarrow> filling \<Rightarrow> bool" where
  "archive_ok f provider pls a \<longleftrightarrow> list_all2 describes pls (fl_entries a) \<and> fl_warnings a = warnings_of pls \<and>
     distinct (map (casefold \<circ> fst) (fl_members a)) \<and>
     set (fl_used a) = (casefold \<circ> fst) ` set (fl_members a) \<and>
     (f \<noteq> X_JSON \<longrightarrow> map me_filename (fl_entries a) = map fst (fl_members a) \<and>
        list_all2 (holds f provider) pls (fl_members a)) \<and>
     (f = X_JSON \<longrightarrow> fl_members a = [] \<and> list_all (\<lambda>e. me_filename e = bundle_name) (fl_entries a)) \<and>
     fl_read a = length (filter (\<lambda>e. me_status e \<noteq> ''error'') (fl_entries a))"

lemma ok_lifted: "lifted m w = (Inr a, v) \<longleftrightarrow> m w = (Inr a, v)"
  by (cases "m w") (auto simp: lifted_def split: sum.splits)

lemma ok_written: "written r w = (Inr a, v) \<longleftrightarrow> r = Inr a \<and> v = w"
  by (auto simp: written_def ok_lifted)

lemma loaded_archive_playlist:
  assumes "load_archive_playlist load sel provider p w = (Inr l, v)"
  shows "\<exists>answer. load p w = (answer, v) \<and> loaded_as sel provider p answer l"
proof (cases "load p w")
  case (Pair answer u)
  show ?thesis
  proof (cases answer)
    case (Inr l0)
    with Pair assms show ?thesis by (auto simp: load_archive_playlist_def run_simps loaded_as_def)
  next
    case (Inl e)
    with Pair assms show ?thesis
      by (cases e) (auto simp: load_archive_playlist_def run_simps loaded_as_def prepare_playlist_def Let_def new_playlist_def)
  qed
qed

lemma warnings_of_append [simp]: "warnings_of (pls @ [(p, l)]) = warnings_of pls @ lp_warnings l"
  by (simp add: warnings_of_def)

lemma note_playlist_ok:
  assumes "archive_ok f provider pls a" and "f = X_JSON \<longrightarrow> name = bundle_name \<and> b = a"
    and "f \<noteq> X_JSON \<longrightarrow> casefold name \<notin> set (fl_used a) \<and> holds f provider (p, l) (name, body) \<and>
      b = a\<lparr>fl_used := casefold name # fl_used a, fl_members := fl_members a @ [(name, body)]\<rparr>"
  shows "archive_ok f provider (pls @ [(p, l)]) (note_playlist l name p b)"
proof -
  have "describes (p, l) (manifest_entry_of l name p)" and "me_filename (manifest_entry_of l name p) = name"
    and "me_status (manifest_entry_of l name p) = lp_status l"
    by (simp_all add: describes_def manifest_entry_of_def)
  with assms show ?thesis
    by (cases "f = X_JSON") (auto simp: archive_ok_def note_playlist_def intro!: list_all2_appendI)
qed

lemma archive_playlist_ok:
  assumes "archive_playlist f provider sel load a p w = (Inr b, v)" and "archive_ok f provider pls a" and "f \<noteq> X_JSON"
  shows "\<exists>l. loaded_in_order load sel provider [(p, l)] w v \<and> archive_ok f provider (pls @ [(p, l)]) b"
proof -
  from assms(1) obtain l name used body where ld: "load_archive_playlist load sel provider p w = (Inr l, v)"
    and al: "allocate (fl_used a) (pl_name (lp_playlist l)) (export_value f) (or_str (pl_id (lp_playlist l)) p) = Some (name, used)"
    and wr: "write_playlist f (lp_playlist l) provider (lp_warnings l) = Inr body"
    and b: "b = note_playlist l name p (a\<lparr>fl_used := used, fl_members := fl_members a @ [(name, body)]\<rparr>)"
    by (auto simp: archive_playlist_def allocate_name_def ok_andthen ok_lifted ok_written ok_ret Let_def split: option.splits if_splits)
  from allocate_free [of "fl_used a" "pl_name (lp_playlist l)" "export_value f" "or_str (pl_id (lp_playlist l)) p"] al
  have u: "used = casefold name # fl_used a" "casefold name \<notin> set (fl_used a)" by auto
  have "archive_ok f provider (pls @ [(p, l)]) b"
    unfolding b by (rule note_playlist_ok [OF assms(2)]) (use assms(3) u wr in \<open>simp_all add: holds_def\<close>)
  with loaded_archive_playlist [OF ld] show ?thesis by auto
qed

lemma archive_bundle_ok:
  assumes "archive_bundle provider sel load (a, x) p w = (Inr (b, y), v)" and "archive_ok X_JSON provider pls a"
  shows "\<exists>l. loaded_in_order load sel provider [(p, l)] w v \<and> archive_ok X_JSON provider (pls @ [(p, l)]) b \<and>
    bundle_playlist (lp_playlist l) x = Inr y"
proof -
  from assms(1) obtain l where ld: "load_archive_playlist load sel provider p w = (Inr l, v)"
    and b: "b = note_playlist l bundle_name p a" and y: "bundle_playlist (lp_playlist l) x = Inr y"
    by (auto simp: archive_bundle_def ok_andthen ok_lifted ok_written ok_ret)
  have "archive_ok X_JSON provider (pls @ [(p, l)]) b" unfolding b by (rule note_playlist_ok [OF assms(2)]) simp_all
  with loaded_archive_playlist [OF ld] y show ?thesis by auto
qed

lemma fill_ok:
  assumes "f \<noteq> X_JSON" and "fold_each ps a (archive_playlist f provider sel load) w = (Inr b, v)" and "archive_ok f provider pls a"
  shows "\<exists>new. map fst new = ps \<and> loaded_in_order load sel provider new w v \<and> archive_ok f provider (pls @ new) b"
  using assms(2,3)
proof (induction ps arbitrary: a pls w)
  case (Cons p ps)
  from Cons.prems(1) obtain c u where "archive_playlist f provider sel load a p w = (Inr c, u)"
    and r: "fold_each ps c (archive_playlist f provider sel load) u = (Inr b, v)" by (auto simp: ok_andthen)
  from archive_playlist_ok [OF this(1) Cons.prems(2) assms(1)] obtain l where
    l: "loaded_in_order load sel provider [(p, l)] w u" and c: "archive_ok f provider (pls @ [(p, l)]) c" by blast
  from Cons.IH [OF r c] obtain new where "map fst new = ps" "loaded_in_order load sel provider new u v"
    "archive_ok f provider (pls @ (p, l) # new) b" by auto
  with l show ?case by (intro exI [of _ "(p, l) # new"]) (auto split: prod.splits)
qed (auto simp: ok_ret)

lemma fill_bundle_ok:
  assumes "fold_each ps (a, x) (archive_bundle provider sel load) w = (Inr (b, y), v)" and "archive_ok X_JSON provider pls a"
  shows "\<exists>new. map fst new = ps \<and> loaded_in_order load sel provider new w v \<and> archive_ok X_JSON provider (pls @ new) b \<and>
    bundle_playlists (map (lp_playlist \<circ> snd) new) x = Inr y"
  using assms
proof (induction ps arbitrary: a x pls w)
  case (Cons p ps)
  from Cons.prems(1) obtain c z u where "archive_bundle provider sel load (a, x) p w = (Inr (c, z), u)"
    and r: "fold_each ps (c, z) (archive_bundle provider sel load) u = (Inr (b, y), v)" by (auto simp: ok_andthen)
  from archive_bundle_ok [OF this(1) Cons.prems(2)] obtain l where
    l: "loaded_in_order load sel provider [(p, l)] w u" and c: "archive_ok X_JSON provider (pls @ [(p, l)]) c"
    and z: "bundle_playlist (lp_playlist l) x = Inr z" by blast
  from Cons.IH [OF r c] obtain new where "map fst new = ps" "loaded_in_order load sel provider new u v"
    "archive_ok X_JSON provider (pls @ (p, l) # new) b" "bundle_playlists (map (lp_playlist \<circ> snd) new) z = Inr y"
    by (auto simp: comp_def)
  with l z show ?case by (intro exI [of _ "(p, l) # new"]) (auto simp: comp_def split: prod.splits)
qed (auto simp: ok_ret)

text \<open>What an archive holds of the playlists in it, whatever its format.\<close>

definition archive_holds :: "export_format \<Rightarrow> string \<Rightarrow> (string \<times> loaded_playlist) list \<Rightarrow> (string, string) dict \<Rightarrow> string list \<Rightarrow> bool" where
  "archive_holds f provider pls members names \<longleftrightarrow>
     (if f = X_JSON
      then names = replicate (length pls) bundle_name \<and>
        (\<exists>text. members = [(bundle_name, text)] \<and>
           write_bundle provider (map (lp_playlist \<circ> snd) pls) (warnings_of pls) = Inr text)
      else names = map fst members \<and> list_all2 (holds f provider) pls members)"

lemma filled_archive:
  assumes "fill_archive f provider sel load w = (Inr a, v)"
  shows "\<exists>pls. map fst pls = psel_playlist_ids sel \<and> loaded_in_order load sel provider pls w v \<and>
    list_all2 describes pls (fl_entries a) \<and> fl_warnings a = warnings_of pls \<and>
    archive_holds f provider pls (fl_members a) (map me_filename (fl_entries a)) \<and>
    distinct (map (casefold \<circ> fst) (fl_members a)) \<and>
    fl_read a = length (filter (\<lambda>e. me_status e \<noteq> ''error'') (fl_entries a))"
proof (cases "f = X_JSON")
  case True
  let ?ids = "psel_playlist_ids sel"
  have start: "archive_ok X_JSON provider [] nothing_filled" by (simp add: archive_ok_def nothing_filled_def warnings_of_def)
  from True assms obtain c x y where e: "fold_each ?ids (nothing_filled, start_bundle provider) (archive_bundle provider sel load) w =
      (Inr (c, x), v)" and fin: "finish_bundle (fl_warnings c) x = Inr y" and a: "a = c\<lparr>fl_members := [(bundle_name, jw_text y)]\<rparr>"
    by (auto simp: fill_archive_def ok_andthen ok_written ok_ret)
  from fill_bundle_ok [OF e start] obtain pls where pls: "map fst pls = ?ids" "loaded_in_order load sel provider pls w v"
    and ok: "archive_ok X_JSON provider pls c" and x: "bundle_playlists (map (lp_playlist \<circ> snd) pls) (start_bundle provider) = Inr x"
    by auto
  from ok fin x have "write_bundle provider (map (lp_playlist \<circ> snd) pls) (warnings_of pls) = Inr (jw_text y)"
    by (simp add: write_bundle_def archive_ok_def)
  moreover from ok have "map me_filename (fl_entries c) = replicate (length pls) bundle_name"
    by (auto simp: archive_ok_def list_all_iff list_all2_lengthD intro!: replicate_eqI)
  ultimately show ?thesis using pls ok True by (auto simp: a archive_ok_def archive_holds_def)
next
  case False
  have start: "archive_ok f provider [] nothing_filled" by (simp add: archive_ok_def nothing_filled_def warnings_of_def)
  from False assms have "fold_each (psel_playlist_ids sel) nothing_filled (archive_playlist f provider sel load) w = (Inr a, v)"
    by (simp add: fill_archive_def)
  from fill_ok [OF False this start] False show ?thesis by (auto simp: archive_ok_def archive_holds_def)
qed

text \<open>
  C16. An archive of several playlists accounts for each of them. The selected playlists were loaded
  one after the other; the manifest has one entry for each, in this order, with its identifier, name,
  status, number of tracks and warnings, and one that was denied or not found has an empty entry
  with the status error and the provider's message. The archive holds a file for every entry, written
  from the playlist of the entry, or, as JSON, the one bundle of them all; no two files have names
  that differ at most in case. The warnings of the response are those of all the playlists, and so
  are those of the manifest. At least one playlist was read.
\<close>

theorem archive_complete:
  assumes "build_export_artifact f provider sel load limit w = (Inr a, v)" and "1 < length (psel_playlist_ids sel)"
  shows "\<exists>m pls. xa_manifest a = Some m \<and> xm_playlist_count m = length (psel_playlist_ids sel) \<and>
    map fst pls = psel_playlist_ids sel \<and> loaded_in_order load sel provider pls w v \<and>
    list_all2 describes pls (xm_entries m) \<and>
    archive_holds f provider pls (xa_members a) (map me_filename (xm_entries m)) \<and>
    me_filename ` set (xm_entries m) = fst ` set (xa_members a) \<and>
    distinct (map (casefold \<circ> fst) (xa_members a)) \<and>
    xm_warnings m = warnings_of pls \<and> xa_warnings a = warnings_of pls \<and>
    (\<exists>e \<in> set (xm_entries m). me_status e \<noteq> ''error'') \<and>
    length (psel_playlist_ids sel) \<le> limit \<and> distinct (psel_playlist_ids sel)"
proof -
  let ?ids = "psel_playlist_ids sel"
  from assms(2) obtain p q ps where ids: "?ids = p # q # ps" by (cases ?ids; cases "tl ?ids") auto
  from assms(1) have valid: "length ?ids \<le> limit" "distinct ?ids"
    by (auto simp: build_export_artifact_def ok_andthen validate_export_selection_def Let_def split: if_splits)
  from assms(1) have "archive_artifact f provider sel load w = (Inr a, v)"
    by (auto simp: build_export_artifact_def ok_andthen ids)
  then obtain b where fill: "fill_archive f provider sel load w = (Inr b, v)" and read: "fl_read b \<noteq> 0"
    and a: "xa_members a = fl_members b" "xa_warnings a = fl_warnings b"
      "xa_manifest a = Some \<lparr>xm_format = f, xm_source_provider = provider, xm_playlist_count = length ?ids,
         xm_entries = fl_entries b, xm_warnings = fl_warnings b\<rparr>"
    by (auto simp: archive_artifact_def ok_andthen ok_ret ok_throw split: if_splits)
  from filled_archive [OF fill] obtain pls where pls: "map fst pls = ?ids" "loaded_in_order load sel provider pls w v"
      "list_all2 describes pls (fl_entries b)" "fl_warnings b = warnings_of pls" "distinct (map (casefold \<circ> fst) (fl_members b))"
    and h: "archive_holds f provider pls (fl_members b) (map me_filename (fl_entries b))"
    and n: "fl_read b = length (filter (\<lambda>e. me_status e \<noteq> ''error'') (fl_entries b))" by blast
  have "pls \<noteq> []" using pls(1) ids by auto
  with h have "set (map me_filename (fl_entries b)) = set (map fst (fl_members b))"
    by (cases "f = X_JSON") (auto simp: archive_holds_def simp del: set_map)
  moreover have "\<exists>e \<in> set (fl_entries b). me_status e \<noteq> ''error''" using read n by (auto simp: filter_empty_conv)
  ultimately show ?thesis using pls h valid a by auto
qed

text \<open>A loader that knows only one of the playlists.\<close>

definition sample_loader :: "unit loader" where
  "sample_loader p = (if p = ''p1'' then ret \<lparr>lp_playlist = new_playlist (Some p) p [], lp_warnings = [], lp_status = ''ok''\<rparr>
     else throw (NotFound ''no such playlist''))"

theorem archive_complete_witness:
  "\<exists>a m v. build_export_artifact X_JSON ''fake'' \<lparr>psel_playlist_ids = [''p1'', ''p2''], psel_tracks = []\<rparr> sample_loader 5 () =
     (Inr a, v) \<and> xa_manifest a = Some m \<and> map me_playlist_id (xm_entries m) = [''p1'', ''p2''] \<and>
     map me_status (xm_entries m) = [''warning'', ''error'']"
proof -
  let ?sel = "\<lparr>psel_playlist_ids = [''p1'', ''p2''], psel_tracks = []\<rparr>"
  have load: "\<exists>l. load_archive_playlist sample_loader ?sel ''fake'' p w = (Inr l, w) \<and>
      lp_status l = (if p = ''p1'' then ''warning'' else ''error'')" for p w
    by (simp add: load_archive_playlist_def sample_loader_def run_simps prepare_playlist_def Let_def new_playlist_def)
  obtain l1 where l1: "load_archive_playlist sample_loader ?sel ''fake'' ''p1'' () = (Inr l1, ())" "lp_status l1 = ''warning''"
    using load [of "''p1''" "()"] by auto
  obtain l2 where l2: "load_archive_playlist sample_loader ?sel ''fake'' ''p2'' () = (Inr l2, ())" "lp_status l2 = ''error''"
    using load [of "''p2''" "()"] by auto
  obtain a v where run: "build_export_artifact X_JSON ''fake'' ?sel sample_loader 5 () = (Inr a, v)"
    by (simp add: build_export_artifact_def validate_export_selection_def run_simps archive_artifact_def fill_archive_def archive_bundle_def
        lifted_def written_def l1 l2 bundle_playlist_def finish_bundle_def start_bundle_def note_playlist_def nothing_filled_def
        eval_nat_numeral)
  have "1 < length (psel_playlist_ids ?sel)" by simp
  from archive_complete [OF run this] obtain m pls where m: "xa_manifest a = Some m" and ids: "map fst pls = [''p1'', ''p2'']"
    and ord: "loaded_in_order sample_loader ?sel ''fake'' pls () v" and d: "list_all2 describes pls (xm_entries m)" 
    unfolding playlist_selection.simps by (elim exE conjE) (rule that)
  from ids obtain k1 k2 where pls: "pls = [(''p1'', k1), (''p2'', k2)]" by (auto simp: map_eq_Cons_conv)
  from ord have "lp_status k1 = ''warning''" "lp_status k2 = ''error''" "pl_id (lp_playlist k1) = Some ''p1''" "pl_id (lp_playlist k2) = Some ''p2''"
    by (auto simp: pls sample_loader_def run_simps loaded_as_def prepare_playlist_def Let_def new_playlist_def)
  with run m d show ?thesis by (auto simp: pls describes_def list_all2_Cons1 or_str_def)
qed

end
