(* ===== verification/Export_Import.thy ===== *)
theory Export_Import
  imports File_Limits Export_Formats
begin

text \<open>
  What the writer of \<open>app/exports/serializers.py\<close> and the parser of \<open>app/imports/parsers.py\<close> have to
  agree on: lines, white space around them, separators and durations.
\<close>

section \<open>Lines\<close>

definition plain :: "string \<Rightarrow> bool" where
  "plain s \<longleftrightarrow> s \<noteq> [] \<and> strip s = s \<and> list_all (\<lambda>c. \<not> is_line_end c) s"

lemma merge_ends_plain: "return \<notin> set s \<Longrightarrow> merge_ends False s = s"
  by (induction s) auto

lemma lines_at_line: "list_all (\<lambda>c. \<not> is_line_end c) l \<Longrightarrow>
    lines_at is_line_end cur (l @ line_feed # s) = (cur @ l) # lines_at is_line_end [] s"
  by (induction l arbitrary: cur) (auto simp: is_line_end_def)

lemma text_lines_unlines:
  assumes "list_all (list_all (\<lambda>c. \<not> is_line_end c)) ls"
  shows "text_lines (unlines ls) = ls"
proof -
  have "return \<notin> set (unlines ls)"
    using assms by (auto simp: unlines_def list_all_iff is_line_end_def return_def line_feed_def)
  moreover have "lines_at is_line_end [] (unlines ls) = ls"
    using assms by (induction ls) (auto simp: unlines_def lines_at_line)
  ultimately show ?thesis by (simp add: text_lines_def merge_ends_plain)
qed

lemma strip_idle: "s = [] \<or> \<not> is_space (hd s) \<and> \<not> is_space (last s) \<Longrightarrow> strip s = s"
  unfolding strip_def strip_by_def by (auto simp: lstrip_idle rstrip_idle)

lemma plain_ends: "plain s \<Longrightarrow> s \<noteq> [] \<and> \<not> is_space (hd s) \<and> \<not> is_space (last s)"
  using strip_by_ends [of is_space s] by (auto simp: plain_def strip_def)

lemma rstrip_append: "p \<noteq> [] \<Longrightarrow> \<not> is_space (last p) \<Longrightarrow> rstrip_by is_space (p @ s) = p @ rstrip_by is_space s"
proof -
  assume p: "p \<noteq> []" "\<not> is_space (last p)"
  then have "dropWhile is_space (rev p) = rev p" by (cases p rule: rev_cases) auto
  then show ?thesis unfolding rstrip_by_def by (simp add: dropWhile_append)
qed

lemma strip_prefix:
  assumes "p \<noteq> []" "\<not> is_space (hd p)" "\<not> is_space (last p)"
  shows "strip (p @ s) = p @ rstrip_by is_space s"
  using assms rstrip_append [of p s] by (simp add: strip_def strip_by_def lstrip_idle)

lemma upper_append: "upper (s @ t) = upper s @ upper t"
  by (simp add: upper_def)

lemma partition_first: "c \<notin> set a \<Longrightarrow> partition_on [c] (a @ c # b) = Some (a, b)"
  by (induction a) (auto simp: starts_with_def)

lemma partition_none: "c \<notin> set s \<Longrightarrow> partition_on [c] s = None"
  by (induction s) (auto simp: starts_with_def)

lemma partition_separator:
  assumes "\<not> contains p (a @ butlast p)" and "p \<noteq> []"
  shows "partition_on p (a @ p @ b) = Some (a, b)"
  using assms
proof (induction a)
  case Nil
  then obtain c q where "p = c # q" by (cases p) auto
  then show ?case using starts_with_prefix [of p b] by simp
next
  case (Cons c a)
  have "\<not> starts_with p (c # a @ p @ b)"
  proof
    assume "starts_with p (c # a @ p @ b)"
    moreover have "length p \<le> length (c # a @ butlast p)" using Cons.prems(2) by (cases p) auto
    moreover have "take (length p) (c # a @ p @ b) = take (length p) (c # a @ butlast p)"
    proof -
      have "p @ b = butlast p @ last p # b" using append_butlast_last_id [OF Cons.prems(2)] by (metis append_Cons append_Nil append_assoc)
      then have "c # a @ p @ b = (c # a @ butlast p) @ last p # b" by simp
      moreover have "length p - length (c # a @ butlast p) = 0" using \<open>length p \<le> length (c # a @ butlast p)\<close> by linarith
      ultimately show ?thesis by (simp only: take_append take0 append_Nil2)
    qed
    ultimately have "starts_with p (c # a @ butlast p)" by (simp add: starts_with_def)
    with Cons.prems(1) show False by simp
  qed
  with Cons show ?case by simp
qed

section \<open>Durations\<close>

lemma digits_char: "c \<in> set (nat_digits n) \<Longrightarrow> is_digit c"
  using all_digits_nat_digits [of n] by (auto simp: all_digits_def list_all_iff)

lemma digits_plain:
  "nat_digits n \<noteq> []" "strip (nat_digits n) = nat_digits n" "lower (nat_digits n) = nat_digits n"
  "\<And>c. \<not> is_digit c \<Longrightarrow> c \<notin> set (nat_digits n)"
proof -
  show ne: "nat_digits n \<noteq> []" using all_digits_nat_digits [of n] by (simp add: all_digits_def)
  have "\<not> is_space c" if "is_digit c" for c using that by (auto simp: is_digit_def is_space_def Let_def)
  then have "\<not> is_space (hd (nat_digits n)) \<and> \<not> is_space (last (nat_digits n))"
    using digits_char [OF hd_in_set [OF ne]] digits_char [OF last_in_set [OF ne]] by blast
  then show "strip (nat_digits n) = nat_digits n" by (intro strip_idle) blast
  have "lower_char c = c" if "is_digit c" for c using that by (auto simp: is_digit_def lower_char_def Let_def)
  then show "lower (nat_digits n) = nat_digits n" using digits_char unfolding lower_def by (intro map_idI) auto
  show "\<And>c. \<not> is_digit c \<Longrightarrow> c \<notin> set (nat_digits n)" using digits_char by blast
qed

lemma split_on_none: "d \<notin> set s \<Longrightarrow> split_on d s = [s]"
  by (induction s) auto

lemma digit_groups_digits: "digit_groups (nat_digits n) = Some n"
proof -
  have "CHR ''_'' \<notin> set (nat_digits n)" by (rule digits_plain(4)) (simp add: is_digit_def)
  moreover from this have "filter (\<lambda>c. c \<noteq> CHR ''_'') (nat_digits n) = nat_digits n" by (auto intro: filter_True)
  ultimately show ?thesis by (simp add: digit_groups_def split_on_none all_digits_nat_digits)
qed

lemma py_float_digits:
  assumes "n \<le> 2147483647"
  shows "py_float (nat_digits n) = Some (Finite (of_nat n))"
proof -
  have no: "CHR ''.'' \<notin> set (nat_digits n)" "CHR ''e'' \<notin> set (nat_digits n)"
    by (rule digits_plain(4), simp add: is_digit_def)+
  obtain c s where cs: "nat_digits n = c # s" "is_digit c" using digits_plain(1) [of n] digits_char [of _ n] by (cases "nat_digits n") auto
  then have hd: "c \<noteq> CHR ''-''" "c \<noteq> CHR ''+''" "c \<noteq> CHR ''i''" "c \<noteq> CHR ''n''" by (auto simp: is_digit_def)
  have t: "decimal_text (nat_digits n) = Some (of_nat n)"
    using no by (simp add: decimal_text_def decimal_point_def partition_none digit_groups_digits)
  have "(of_nat n :: rat) \<le> of_nat 2147483647" using assms by (simp only: of_nat_le_iff)
  also have "\<dots> < 2 ^ 1024 - 2 ^ 970" by simp
  finally have "\<not> too_large (of_nat n)" by (simp add: too_large_def)
  moreover have "lower (strip (nat_digits n)) = nat_digits n" by (simp only: digits_plain(2,3))
  ultimately show ?thesis using t hd cs(1) by (simp add: py_float_def Py_Parse.signed_def)
qed

lemma parse_duration_digits:
  assumes "n \<le> 2147483647"
  shows "parse_duration rd (JStr (nat_digits n)) False = Inr (Some (int n))"
proof -
  have "CHR '':'' \<notin> set (nat_digits n)" by (rule digits_plain(4)) (simp add: is_digit_def)
  moreover have "(of_nat n :: rat) \<le> of_nat 2147483647" using assms by (simp only: of_nat_le_iff)
  then have "\<not> (2147483647 :: rat) < of_nat n" by simp
  moreover have "round_half_even (of_nat n) = int n" by (simp add: round_half_even_def Let_def)
  ultimately show ?thesis
    by (simp add: parse_duration_def number_of_def clean_def text_str_def digits_plain(1,2) py_float_digits [OF assms] rounded_seconds_def)
qed

lemma parse_duration_unknown: "parse_duration rd (JStr ''-1'') False = Inr None"
proof -
  have t: "decimal_text ''1'' = Some 1" "lower (strip ''-1'') = ''-1''" "strip ''-1'' = ''-1''" by code_simp+
  have "\<not> too_large 1" by (simp add: too_large_def)
  with t have "py_float ''-1'' = Some (Finite (-1))" by (simp add: py_float_def Py_Parse.signed_def negated_def)
  then show ?thesis using t(3) by (simp add: parse_duration_def number_of_def clean_def text_str_def rounded_seconds_def)
qed

definition shown_duration :: "track \<Rightarrow> string" where
  "shown_duration t = str_int (case trk_duration_s t of Some d \<Rightarrow> d | None \<Rightarrow> -1)"

definition duration_ok :: "track \<Rightarrow> bool" where
  "duration_ok t = (case trk_duration_s t of None \<Rightarrow> True | Some d \<Rightarrow> 0 \<le> d \<and> d \<le> 2147483647)"

lemma str_minus_one: "str_int (-1) = ''-1''"
  by code_simp

lemma shown_duration_back:
  assumes "duration_ok t"
  shows "parse_duration rd (JStr (shown_duration t)) False = Inr (trk_duration_s t)"
proof (cases "trk_duration_s t")
  case None
  then show ?thesis by (simp add: shown_duration_def str_minus_one parse_duration_unknown)
next
  case (Some d)
  with assms have "0 \<le> d" "d \<le> 2147483647" by (simp_all add: duration_ok_def)
  then have "0 \<le> d" "nat d \<le> 2147483647" by linarith+
  with Some parse_duration_digits [of "nat d" rd] show ?thesis by (simp add: shown_duration_def str_int_def)
qed

lemma shown_duration_char: "c \<in> set (shown_duration t) \<Longrightarrow> is_digit c \<or> c = CHR ''-''"
  by (auto simp: shown_duration_def str_int_def dest: digits_char split: option.splits if_splits)

lemma shown_duration_free: "\<not> is_digit c \<Longrightarrow> c \<noteq> CHR ''-'' \<Longrightarrow> c \<notin> set (shown_duration t)"
  using shown_duration_char by blast

end
