(* ===== verification/M3u_Roundtrip.thy ===== *)
theory M3u_Roundtrip
  imports Export_Import
begin

text \<open>
  A playlist exported as M3U8 and imported again: the writer of \<open>app/exports/serializers.py\<close> and
  the parser of \<open>app/imports/parsers.py\<close> agree.
\<close>

section \<open>What the format can carry\<close>

text \<open>
  A title and an artist on one line, without dashes at the outer ends or a separator within the
  artist, a duration in range, and a location of a known provider. What this leaves out is not carried:
  a track without a location is written as a label and a comment, and an import gives the label up
  for that of the next track; an artist with a separator is cut at the first one.
\<close>

definition portable_track :: "string \<Rightarrow> track \<Rightarrow> bool" where
  "portable_track provider t \<longleftrightarrow> plain (trk_title t) \<and> plain (trk_artist t) \<and>
     hd (trk_artist t) \<noteq> CHR ''-'' \<and> last (trk_title t) \<noteq> CHR ''-'' \<and>
     \<not> contains '' - '' (trk_artist t @ '' -'') \<and> duration_ok t \<and>
     list_all (\<lambda>c. \<not> is_line_end c) (iso (trk_added_at t)) \<and>
     (case portable_location t provider of
        None \<Rightarrow> False
      | Some u \<Rightarrow> plain u \<and> hd u \<noteq> CHR ''#'' \<and> provider_for_uri u \<noteq> None)"

definition carried :: "string \<Rightarrow> track \<Rightarrow> track \<Rightarrow> bool" where
  "carried provider t u \<longleftrightarrow> trk_title u = trk_title t \<and> trk_artist u = trk_artist t \<and>
     trk_duration_s u = trk_duration_s t \<and>
     (\<exists>l q. portable_location t provider = Some l \<and> provider_for_uri l = Some q \<and> trk_provider_uris u = [(q, l)]) \<and>
     is_migratable u"

section \<open>Lines\<close>

lemma starts_with_simps: "starts_with [] s" "starts_with (a # p) (b # s) \<longleftrightarrow> a = b \<and> starts_with p s"
  "\<not> starts_with (a # p) []"
  by (auto simp: starts_with_def)

lemma upper_Cons: "upper (c # s) = upper_char c @ upper s"
  by (simp add: upper_def)

lemma upper_hash: "starts_with (CHR ''#'' # w) (upper (c # s)) \<Longrightarrow> c = CHR ''#''"
proof -
  assume *: "starts_with (CHR ''#'' # w) (upper (c # s))"
  have h: "ord (CHR ''#'') = 35" by simp
  have "\<exists>r. upper_char c = CHR ''#'' # r"
  proof -
    have "upper_char c \<noteq> []" by (simp add: upper_char_def Let_def)
    with * show ?thesis by (cases "upper_char c") (auto simp: upper_Cons starts_with_simps)
  qed
  then obtain r where r: "upper_char c = CHR ''#'' # r" by blast
  have "(char_of (ord c - 32) :: char) \<noteq> CHR ''#''" if "97 \<le> ord c" "ord c < 256"
  proof
    assume "(char_of (ord c - 32) :: char) = CHR ''#''"
    then have "ord (char_of (ord c - 32) :: char) = 35" by simp
    moreover have "ord (char_of (ord c - 32) :: char) = ord c - 32" by (rule ord_char_of) (use that in linarith)
    ultimately show False using that by simp
  qed
  with r show ?thesis by (auto simp: upper_char_def Let_def split: if_splits)
qed

definition ignored :: "string \<Rightarrow> bool" where
  "ignored raw \<longleftrightarrow> (let line = strip raw in starts_with ''#'' line \<and> \<not> starts_with ''#PLAYLIST:'' (upper line) \<and>
     \<not> starts_with ''#EXTINF:'' (upper line))"

lemma hash_plain: "\<not> is_space (CHR ''#'')"
  by (simp add: is_space_def)

lemma ignored_comment:
  assumes "\<not> is_space (last (CHR ''#'' # q))" "upper (CHR ''#'' # q) = CHR ''#'' # q"
    "\<And>r. \<not> starts_with ''#PLAYLIST:'' (CHR ''#'' # q @ r)" "\<And>r. \<not> starts_with ''#EXTINF:'' (CHR ''#'' # q @ r)"
  shows "ignored (CHR ''#'' # q @ s)"
proof -
  have strip: "strip (CHR ''#'' # q @ s) = CHR ''#'' # q @ rstrip_by is_space s"
    using strip_prefix [of "CHR ''#'' # q" s] assms(1) hash_plain by simp
  have up: "upper (CHR ''#'' # q @ rstrip_by is_space s) = CHR ''#'' # q @ upper (rstrip_by is_space s)"
    using upper_append [of "CHR ''#'' # q"] assms(2) by simp
  show ?thesis using assms(3,4) by (simp add: ignored_def Let_def strip up starts_with_simps)
qed

lemma comment_upper:
  "upper ''#EXTM3U'' = ''#EXTM3U''" "upper ''#EXTENC:UTF-8'' = ''#EXTENC:UTF-8''" "upper ''#OPE-'' = ''#OPE-''"
  "upper ''#EXTART:'' = ''#EXTART:''" "upper ''#EXTALB:'' = ''#EXTALB:''" "upper ''#EXTIMG:'' = ''#EXTIMG:''"
  by code_simp+

lemma ignored_ope: "ignored (''#OPE-'' @ s)"
  using ignored_comment [of "''OPE-''" s] comment_upper(3) by (simp add: starts_with_simps is_space_def)

lemma ignored_ext: "ignored (''#EXTM3U'' @ s)" "ignored (''#EXTENC:UTF-8'' @ s)" "ignored (''#EXTART:'' @ s)"
  "ignored (''#EXTALB:'' @ s)" "ignored (''#EXTIMG:'' @ s)"
  using ignored_comment [of "''EXTM3U''" s] ignored_comment [of "''EXTENC:UTF-8''" s] ignored_comment [of "''EXTART:''" s]
    ignored_comment [of "''EXTALB:''" s] ignored_comment [of "''EXTIMG:''" s] comment_upper
  by (simp_all add: starts_with_simps is_space_def)

lemma comment_line: "ignored raw \<Longrightarrow> m3u_line rd st (n, raw) c = (Inr st, c)"
  by (cases st) (auto simp: m3u_line_def ignored_def Let_def run_simps starts_with_simps)

lemma comment_lines:
  "list_all ignored ls \<Longrightarrow> fold_each (List.enumerate n ls) st (m3u_line rd) c = (Inr st, c)"
  by (induction ls arbitrary: n) (auto simp: run_simps comment_line)

lemma fold_each_append:
  "fold_each (xs @ ys) b f = andthen (fold_each xs b f) (\<lambda>d. fold_each ys d f)"
  by (induction xs arbitrary: b) (auto simp: fun_eq_iff run_simps split: prod.splits sum.splits)

section \<open>The track of a location\<close>

text \<open>What reading tracks leaves alone, and the count of tracks it adds to.\<close>

definition advanced :: "nat \<Rightarrow> parse_context \<Rightarrow> parse_context \<Rightarrow> bool" where
  "advanced k c d \<longleftrightarrow> pc_parsed_tracks d = pc_parsed_tracks c + k \<and> pc_limits d = pc_limits c \<and>
     pc_playlists d = pc_playlists c \<and> pc_parsed_playlists d = pc_parsed_playlists c \<and>
     pc_track_count d = pc_track_count c \<and> pc_filename d = pc_filename c \<and> pc_format d = pc_format c"

lemma advanced_refl: "advanced 0 c c"
  by (simp add: advanced_def)

lemma advanced_trans: "advanced j c d \<Longrightarrow> advanced k d e \<Longrightarrow> advanced (j + k) c e"
  by (simp add: advanced_def)

lemma malformed_run: "\<exists>d. malformed code m place name raw c = (Inr (), d) \<and> advanced 0 c d"
  by (auto simp: malformed_def add_issue_def run_simps advanced_def)

abbreviation fields :: "string \<Rightarrow> string \<Rightarrow> string \<Rightarrow> string \<Rightarrow> (string, json) dict" where
  "fields d t a u \<equiv> [(''duration'', JStr d), (''title'', JStr t), (''artist'', JStr a), (''uri'', JStr u)]"

lemma keys:
  "normalize_key ''duration'' = ''duration''" "normalize_key ''title'' = ''title''" "normalize_key ''artist'' = ''artist''"
  "normalize_key ''uri'' = ''uri''" "normalize_key ''duration_s'' = ''duration_s''"
  "normalize_key ''duration_seconds'' = ''duration_seconds''"
  by code_simp+

lemma fields_read:
  assumes "d \<noteq> []" "t \<noteq> []" "a \<noteq> []" "u \<noteq> []"
  shows "normalize_mapping (fields d t a u) = fields d t a u"
    and "first_of (fields d t a u) title_aliases = JStr t"
    and "first_of (fields d t a u) artist_aliases = JStr a"
    and "first_of (fields d t a u) uri_aliases = JStr u"
    and "first_with_key (fields d t a u) duration_aliases = (''duration'', JStr d)"
  using assms
  by (simp_all add: normalize_mapping_def keys first_of_def title_aliases_def artist_aliases_def uri_aliases_def duration_aliases_def)

lemma shown_duration_some: "shown_duration t \<noteq> []"
  using digits_plain(1) by (auto simp: shown_duration_def str_int_def)

lemma check_duration_run:
  assumes "duration_ok t" "x \<noteq> []" "a \<noteq> []" "u \<noteq> []"
  shows "\<exists>d. check_duration rd (fields (shown_duration t) x a u) place name raw c = (Inr (trk_duration_s t), d) \<and> advanced 0 c d"
proof -
  have e: "\<not> ends_with ''_ms'' ''duration''" by code_simp
  obtain d where "malformed ''invalid_duration''
      (''Duration value '' @ [CHR 0x27] @ text_str rd (JStr (shown_duration t)) @ [CHR 0x27] @ '' is invalid and was ignored.'')
      (Some place) (Some name) raw c = (Inr (), d)" "advanced 0 c d"
    using malformed_run by blast
  then show ?thesis
    using fields_read(5) [OF shown_duration_some assms(2-4)] shown_duration_back [OF assms(1)] e
    by (cases "trk_duration_s t") (auto simp: check_duration_def run_simps advanced_refl)
qed

lemma track_run:
  assumes "pc_parsed_tracks c < il_max_tracks (pc_limits c)" and "portable_track provider t"
    and "portable_location t provider = Some u"
  shows "\<exists>v d. track_from_mapping rd (fields (shown_duration t) (trk_title t) (trk_artist t) u) place name raw c = (Inr v, d) \<and>
    carried provider t v \<and> advanced 1 c d"
proof -
  let ?m = "fields (shown_duration t) (trk_title t) (trk_artist t) u"
  let ?c = "c\<lparr>pc_parsed_tracks := Suc (pc_parsed_tracks c)\<rparr>"
  from assms(2,3) have p: "plain (trk_title t)" "plain (trk_artist t)" "plain u" "duration_ok t" "provider_for_uri u \<noteq> None"
    by (auto simp: portable_track_def)
  then have ne: "trk_title t \<noteq> []" "trk_artist t \<noteq> []" "u \<noteq> []"
    and st: "strip (trk_title t) = trk_title t" "strip (trk_artist t) = trk_artist t" "strip u = u" by (simp_all add: plain_def)
  obtain q where q: "provider_for_uri u = Some q" using p(5) by blast
  obtain d where d: "check_duration rd ?m place name raw ?c = (Inr (trk_duration_s t), d)" "advanced 0 ?c d"
    using check_duration_run [OF p(4) ne] by blast
  note read = fields_read [OF shown_duration_some ne]
  have pair: "named_pair rd ?m = (trk_title t, trk_artist t)"
    by (simp add: named_pair_def read clean_def text_str_def st ne)
  have local: "looks_like_local_location rd u = Inr False" by (simp add: looks_like_local_location_def q)
  have uri: "clean rd (first_of ?m uri_aliases) = u" by (simp add: read clean_def text_str_def st)
  have "advanced 1 c d" using d(2) by (simp add: advanced_def)
  then show ?thesis using assms(1,3) q
    by (simp add: track_from_mapping_def reserve_track_def run_simps read(1) pair uri local ne d(1) report_track_def Let_def
        carried_def is_migratable_def new_track_def)
qed

section \<open>The lines of a track\<close>

abbreviation flat :: "string \<Rightarrow> bool" where
  "flat s \<equiv> list_all (\<lambda>c. \<not> is_line_end c) s"

lemma one_line_flat: "flat (one_line v)"
  by (auto simp: one_line_def list_all_iff is_line_end_def line_feed_def return_def)

lemma one_line_same: "flat s \<Longrightarrow> one_line (Some s) = s"
  by (auto simp: one_line_def or_str_def list_all_iff intro: map_idI)

definition label :: "track \<Rightarrow> string" where
  "label t = trk_artist t @ '' - '' @ trk_title t"

lemma label_flat: "portable_track provider t \<Longrightarrow> flat (label t)"
  by (auto simp: portable_track_def plain_def label_def is_line_end_def line_feed_def return_def)

lemma label_ends:
  assumes "portable_track provider t"
  shows "label t \<noteq> []" "hd (label t) = hd (trk_artist t)" "last (label t) = last (trk_title t)"
    "\<not> is_space (hd (trk_artist t))" "\<not> is_space (last (trk_title t))"
  using assms plain_ends by (auto simp: portable_track_def label_def plain_def)

lemma label_trimmed:
  assumes "portable_track provider t"
  shows "one_line (Some (strip_by label_edge (label t))) = label t"
proof -
  have "\<not> label_edge (hd (label t))" "\<not> label_edge (last (label t))"
    using assms label_ends [OF assms] by (auto simp: label_edge_def portable_track_def is_space_def)
  then have "strip_by label_edge (label t) = label t"
    unfolding strip_by_def using label_ends(1) [OF assms] by (simp add: lstrip_idle rstrip_idle)
  with one_line_same [OF label_flat [OF assms]] show ?thesis by simp
qed

lemma label_split:
  assumes "portable_track provider t"
  shows "split_artist_title (label t) = (Some (trk_artist t), Some (trk_title t))"
proof -
  have "strip (label t) = label t" by (rule strip_idle) (use label_ends [OF assms] in simp)
  moreover have "partition_on '' - '' (label t) = Some (trk_artist t, trk_title t)"
    unfolding label_def by (rule partition_separator) (use assms in \<open>simp_all add: portable_track_def\<close>)
  ultimately show ?thesis using assms label_ends(1) [OF assms] by (auto simp: split_artist_title_def portable_track_def plain_def)
qed

abbreviation extinf :: "track \<Rightarrow> string" where
  "extinf t \<equiv> ''#EXTINF:'' @ shown_duration t @ CHR '','' # label t"

lemma extinf_fields:
  assumes "portable_track provider t"
  shows "extinf_mapping (extinf t) =
    ([(''duration'', JStr (shown_duration t)), (''title'', JStr (trk_title t)), (''artist'', JStr (trk_artist t))], True)"
proof -
  have "partition_on '':'' (''#EXTINF'' @ CHR '':'' # (shown_duration t @ CHR '','' # label t)) =
      Some (''#EXTINF'', shown_duration t @ CHR '','' # label t)"
    by (rule partition_first) simp
  moreover have "partition_on '','' (shown_duration t @ CHR '','' # label t) = Some (shown_duration t, label t)"
    by (rule partition_first, rule shown_duration_free) (simp_all add: is_digit_def)
  moreover have "trk_title t \<noteq> []" using assms by (simp add: portable_track_def plain_def)
  ultimately show ?thesis
    using label_split [OF assms] by (simp add: extinf_mapping_def or_str_def opt_str_def)
qed

lemma extinf_line:
  assumes "portable_track provider t"
  shows "m3u_line rd (gs, cur, pending) (n, extinf t) c = (Inr (gs, cur, Some
    ([(''duration'', JStr (shown_duration t)), (''title'', JStr (trk_title t)), (''artist'', JStr (trk_artist t))], n)), c)"
proof -
  have up: "upper ''#EXTINF:'' = ''#EXTINF:''" by code_simp
  have "strip (extinf t) = extinf t"
    by (rule strip_idle) (use label_ends [OF assms] hash_plain in simp)
  moreover have "upper (extinf t) = ''#EXTINF:'' @ upper (shown_duration t @ CHR '','' # label t)"
    using upper_append [of "''#EXTINF:''"] up by simp
  ultimately show ?thesis
    using extinf_fields [OF assms] by (simp add: m3u_line_def Let_def starts_with_simps run_simps)
qed

lemma location_line:
  assumes "portable_track provider t" and "portable_location t provider = Some u"
    and "pc_parsed_tracks c < il_max_tracks (pc_limits c)"
  shows "\<exists>v d. m3u_line rd (gs, cur, Some ([(''duration'', JStr (shown_duration t)), (''title'', JStr (trk_title t)),
      (''artist'', JStr (trk_artist t))], k)) (n, u) c = (Inr (dict_append cur v gs, cur, None), d) \<and>
    carried provider t v \<and> advanced 1 c d"
proof -
  have u: "plain u" "hd u \<noteq> CHR ''#''" using assms(1,2) by (auto simp: portable_track_def)
  then obtain x s where xs: "u = x # s" "x \<noteq> CHR ''#''" by (cases u) (auto simp: plain_def)
  have no: "\<not> starts_with (CHR ''#'' # w) (upper u)" for w using upper_hash [of w x s] xs by auto
  have "strip u = u" "\<not> starts_with ''#'' u" using u xs by (simp_all add: plain_def starts_with_simps)
  with no xs track_run [OF assms(3,1,2), of rd n cur "Some u"] show ?thesis
    by (auto simp: m3u_line_def Let_def run_simps)
qed

lemmas comments = ignored_ope [simplified] ignored_ext [simplified]

lemma digits_flat: "flat (nat_digits n)"
  using digits_plain(4) [of line_feed n] digits_plain(4) [of return n]
  by (auto simp: list_all_iff is_digit_def is_line_end_def line_feed_def return_def)

lemma shown_duration_flat: "flat (shown_duration t)"
  using shown_duration_free [of line_feed t] shown_duration_free [of return t]
  by (auto simp: list_all_iff is_digit_def is_line_end_def line_feed_def return_def)

lemma media_flat: "flat (media_value m)"
  by (cases m) (simp_all add: is_line_end_def line_feed_def return_def)

lemma if_text_all: "(\<And>v. P (f v)) \<Longrightarrow> list_all P (if_text x f)"
  by (simp add: if_text_def)

lemma track_shape:
  assumes "portable_track provider t" and "portable_location t provider = Some u"
  shows "\<exists>cs. m3u8_track provider (k, t) = extinf t # cs @ [u] \<and> list_all ignored cs \<and>
    list_all flat (m3u8_track provider (k, t))"
proof -
  have u: "flat u" "u \<noteq> []" and added: "flat (iso (trk_added_at t))" using assms by (auto simp: portable_track_def plain_def)
  have lab: "one_line (Some (strip_by label_edge (trk_artist t @ '' - '' @ trk_title t))) = label t"
    using label_trimmed [OF assms(1)] by (simp add: label_def)
  have first: "''#EXTINF:'' @ str_int (case trk_duration_s t of Some d \<Rightarrow> d | None \<Rightarrow> -1) @ '','' @
      one_line (Some (strip_by label_edge (trk_artist t @ '' - '' @ trk_title t))) = extinf t"
    unfolding lab by (simp add: shown_duration_def)
  have last: "(if truthy (portable_location t provider) then one_line (portable_location t provider) else ''#OPE-MISSING-URI'') = u"
    using assms(2) u one_line_same by (simp add: truthy_def)
  let ?cs = "[''#OPE-ORDER:'' @ str_nat k] @
     if_text (Some (trk_artist t)) (\<lambda>v. ''#EXTART:'' @ one_line (Some v)) @
     if_text (trk_album t) (\<lambda>v. ''#EXTALB:'' @ one_line (Some v)) @
     if_text (trk_isrc t) (\<lambda>v. ''#OPE-ISRC:'' @ one_line (Some v)) @
     [''#OPE-MEDIA-TYPE:'' @ media_value (trk_media_type t)] @
     if_text (source_uri t provider) (\<lambda>v. ''#OPE-SOURCE-URI:'' @ one_line (Some v)) @
     (if trk_added_at t = None then [] else [''#OPE-ADDED-AT:'' @ iso (trk_added_at t)]) @
     if_text (trk_artwork_uri t) (\<lambda>v. ''#EXTIMG:'' @ one_line (Some v)) @
     if_text (trk_unsupported_reason t) (\<lambda>v. ''#OPE-UNSUPPORTED:'' @ one_line (Some v))"
  have "m3u8_track provider (k, t) = extinf t # ?cs @ [u]"
    unfolding m3u8_track_def prod.case first last by simp
  moreover have "list_all ignored ?cs" by (auto simp: comments intro!: if_text_all)
  moreover have "list_all flat ?cs"
    by (auto simp: one_line_flat digits_flat media_flat added intro!: if_text_all) (simp_all add: is_line_end_def line_feed_def return_def)
  moreover have "flat (extinf t)"
    using shown_duration_flat label_flat [OF assms(1)] by (simp add: is_line_end_def line_feed_def return_def)
  ultimately show ?thesis using u(1) by (intro exI [of _ ?cs]) simp
qed

text \<open>The lines of one track, read in any state, add the track to the current group.\<close>

lemma track_lines:
  assumes "portable_track provider t" and "pc_parsed_tracks c < il_max_tracks (pc_limits c)"
  shows "\<exists>v d. fold_each (List.enumerate n (m3u8_track provider (k, t))) (gs, cur, None) (m3u_line rd) c =
      (Inr (dict_append cur v gs, cur, None), d) \<and> carried provider t v \<and> advanced 1 c d"
proof -
  from assms(1) obtain u where u: "portable_location t provider = Some u" by (auto simp: portable_track_def split: option.splits)
  from track_shape [OF assms(1) u, of k] obtain cs where cs: "m3u8_track provider (k, t) = extinf t # cs @ [u]" "list_all ignored cs"
    by blast
  show ?thesis
    using extinf_line [OF assms(1), of rd gs cur None n c] location_line [OF assms(1) u assms(2), of rd gs cur n "Suc (n + length cs)"]
    by (auto simp: cs(1) enumerate_append_eq fold_each_append run_simps comment_lines [OF cs(2)])
qed

text \<open>The groups while only one name is in use.\<close>

definition one_group :: "string \<Rightarrow> track list \<Rightarrow> groups" where
  "one_group cur vs = (if vs = [] then [] else [(cur, vs)])"

lemma one_group_append: "dict_append cur v (one_group cur vs) = one_group cur (vs @ [v])"
  by (simp add: one_group_def dict_append_def)

lemma all_lines:
  assumes "list_all (portable_track provider) ts" and "pc_parsed_tracks c + length ts \<le> il_max_tracks (pc_limits c)"
  shows "\<exists>vs d. fold_each (List.enumerate n (concat (map (m3u8_track provider) (List.enumerate k ts)))) (one_group cur us, cur, None)
      (m3u_line rd) c = (Inr (one_group cur (us @ vs), cur, None), d) \<and> list_all2 (carried provider) ts vs \<and> advanced (length ts) c d"
  using assms
proof (induction ts arbitrary: n k us c)
  case Nil
  then show ?case using advanced_refl by (auto simp: run_simps)
next
  case (Cons t ts)
  from Cons.prems have t: "portable_track provider t" "pc_parsed_tracks c < il_max_tracks (pc_limits c)" by simp_all
  obtain v d where v: "fold_each (List.enumerate n (m3u8_track provider (k, t))) (one_group cur us, cur, None) (m3u_line rd) c =
      (Inr (one_group cur (us @ [v]), cur, None), d)" "carried provider t v" "advanced 1 c d"
    using track_lines [OF t, of n k "one_group cur us" cur rd] unfolding one_group_append by blast
  from v(3) Cons.prems have "pc_parsed_tracks d + length ts \<le> il_max_tracks (pc_limits d)" by (simp add: advanced_def)
  with Cons.IH [of d "n + length (m3u8_track provider (k, t))" "Suc k" "us @ [v]"] Cons.prems(1) obtain vs e
    where e: "fold_each (List.enumerate (n + length (m3u8_track provider (k, t))) (concat (map (m3u8_track provider) (List.enumerate (Suc k) ts))))
        (one_group cur (us @ [v]), cur, None) (m3u_line rd) d = (Inr (one_group cur ((us @ [v]) @ vs), cur, None), e)"
      "list_all2 (carried provider) ts vs" "advanced (length ts) d e" by auto
  have "advanced (length (t # ts)) c e" using advanced_trans [OF v(3) e(3)] by simp
  with v(1,2) e(1,2) show ?case
    by (intro exI [of _ "v # vs"] exI [of _ e]) (simp add: enumerate_append_eq fold_each_append run_simps)
qed

section \<open>The file\<close>

lemma name_line:
  assumes "plain name"
  shows "m3u_line rd (gs, cur, pending) (n, ''#PLAYLIST:'' @ name) c = (Inr (gs, name, pending), c)"
proof -
  have up: "upper ''#PLAYLIST:'' = ''#PLAYLIST:''" by code_simp
  have "strip (''#PLAYLIST:'' @ name) = ''#PLAYLIST:'' @ name"
    by (rule strip_idle) (use plain_ends [OF assms] hash_plain in simp)
  moreover have "upper (''#PLAYLIST:'' @ name) = ''#PLAYLIST:'' @ upper name"
    using upper_append [of "''#PLAYLIST:''"] up by simp
  moreover have "partition_on '':'' (''#PLAYLIST'' @ CHR '':'' # name) = Some (''#PLAYLIST'', name)"
    by (rule partition_first) simp
  ultimately show ?thesis
    using assms by (simp add: m3u_line_def Let_def starts_with_simps run_simps named_line_def plain_def)
qed

definition exportable :: "string \<Rightarrow> playlist \<Rightarrow> bool" where
  "exportable provider p \<longleftrightarrow> plain (pl_name p) \<and> pl_tracks p \<noteq> [] \<and> list_all (portable_track provider) (pl_tracks p)"

definition id_lines :: "playlist \<Rightarrow> string list" where
  "id_lines p = if_text (pl_id p) (\<lambda>v. ''#OPE-PLAYLIST-ID:'' @ one_line (Some v))"

lemma file_lines:
  assumes "exportable provider p"
  shows "m3u8_lines p provider =
    [''#EXTM3U'', ''#EXTENC:UTF-8'', ''#OPE-SCHEMA:open-playlist-m3u-v1''] @ [''#PLAYLIST:'' @ pl_name p] @ id_lines p @
    concat (map (m3u8_track provider) (List.enumerate 1 (pl_tracks p)))"
  using assms one_line_same [of "pl_name p"] by (simp add: m3u8_lines_def id_lines_def exportable_def plain_def)

lemma tracks_flat: "list_all (portable_track provider) ts \<Longrightarrow>
    list_all flat (concat (map (m3u8_track provider) (List.enumerate k ts)))"
proof (induction ts arbitrary: k)
  case (Cons t ts)
  then obtain u where "portable_location t provider = Some u" by (auto simp: portable_track_def split: option.splits)
  with Cons track_shape [of provider t u k] show ?case by auto
qed simp

lemma file_text_lines:
  assumes "exportable provider p"
  shows "text_lines (write_m3u8 p provider) = m3u8_lines p provider"
proof -
  have "flat ''#EXTM3U''" "flat ''#EXTENC:UTF-8''" "flat ''#OPE-SCHEMA:open-playlist-m3u-v1''" "flat ''#PLAYLIST:''"
    "flat ''#OPE-PLAYLIST-ID:''" by (simp_all add: is_line_end_def line_feed_def return_def)
  moreover have "flat (pl_name p)" "list_all (portable_track provider) (pl_tracks p)"
    using assms by (simp_all add: exportable_def plain_def)
  moreover have "list_all flat (id_lines p)"
    unfolding id_lines_def by (rule if_text_all) (use calculation in \<open>simp add: one_line_flat\<close>)
  ultimately have "list_all flat (m3u8_lines p provider)"
    unfolding file_lines [OF assms] by (simp only: list_all_append list.pred_inject tracks_flat simp_thms)
  then show ?thesis unfolding write_m3u8_def by (rule text_lines_unlines)
qed

lemma file_run:
  assumes "exportable provider p" and "pc_parsed_tracks c + length (pl_tracks p) \<le> il_max_tracks (pc_limits c)"
  shows "\<exists>vs d. fold_each (List.enumerate 1 (m3u8_lines p provider)) ([], cur, None) (m3u_line rd) c =
      (Inr ([(pl_name p, vs)], pl_name p, None), d) \<and> list_all2 (carried provider) (pl_tracks p) vs \<and>
      advanced (length (pl_tracks p)) c d"
proof -
  let ?head = "[''#EXTM3U'', ''#EXTENC:UTF-8'', ''#OPE-SCHEMA:open-playlist-m3u-v1'']"
  from assms(1) have p: "plain (pl_name p)" "pl_tracks p \<noteq> []" "list_all (portable_track provider) (pl_tracks p)"
    by (simp_all add: exportable_def)
  have "list_all ignored ?head" using comments(1) [of "''SCHEMA:open-playlist-m3u-v1''"] comments(2,3) [of "[]"] by simp
  moreover have "list_all ignored (id_lines p)" unfolding id_lines_def by (rule if_text_all) (simp add: comments)
  moreover obtain vs d where vs: "fold_each (List.enumerate (Suc (Suc (length ?head) + length (id_lines p)))
      (concat (map (m3u8_track provider) (List.enumerate 1 (pl_tracks p))))) (one_group (pl_name p) [], pl_name p, None) (m3u_line rd) c =
      (Inr (one_group (pl_name p) ([] @ vs), pl_name p, None), d)" "list_all2 (carried provider) (pl_tracks p) vs"
      "advanced (length (pl_tracks p)) c d"
    using all_lines [OF p(3) assms(2)] by blast
  moreover from vs(2) p(2) have "vs \<noteq> []" by auto
  ultimately show ?thesis
    using name_line [OF p(1), of rd "[]" cur None]
    by (intro exI [of _ vs] exI [of _ d])
      (simp add: file_lines [OF assms(1)] enumerate_append_eq fold_each_append comment_line comment_lines run_simps one_group_def)
qed

lemma format_found:
  assumes "format_from_filename name = Some F_M3U8" and "starts_with ''#EXTM3U'' bytes"
    and "starts_with ''#EXTM3U'' (rd_probe rd ''utf-8'' (take 65536 bytes))"
  shows "detect_format rd bytes name = Inr (F_M3U8, Some F_M3U8)"
    and "rd_decode rd ''utf-8'' bytes \<noteq> None \<Longrightarrow> detect_text_encoding rd F_M3U8 bytes = Inr ''utf-8''"
proof -
  obtain a where a: "bytes = ''#EXTM3U'' @ a" using assms(2) starts_with_append by blast
  obtain b where b: "rd_probe rd ''utf-8'' (take 65536 bytes) = ''#EXTM3U'' @ b" using assms(3) starts_with_append by blast
  have t: "take 65536 bytes = CHR ''#'' # take 65535 (''EXTM3U'' @ a)" using a by simp
  have marks: "\<not> starts_with bom_utf8 (CHR ''#'' # s)" "\<not> list_ex (\<lambda>m. starts_with m (CHR ''#'' # s)) bom_utf16"
    "\<not> list_ex (\<lambda>m. starts_with m (CHR ''#'' # s)) bom_utf32" for s
    by (simp_all add: bom_utf8_def bom_utf16_def bom_utf32_def starts_with_simps)
  have probe: "decode_probe rd (take 65536 bytes) = ''#EXTM3U'' @ b"
    using b marks [of "take 65535 (''EXTM3U'' @ a)"] unfolding decode_probe_def t by simp
  have low: "lower ''#EXTM3U'' = ''#extm3u''" by code_simp
  have "lower (''#EXTM3U'' @ b) = ''#extm3u'' @ lower b" using lower_append [of "''#EXTM3U''" b] low by simp
  moreover have "lstrip_by is_space (''#EXTM3U'' @ b) = ''#EXTM3U'' @ b" by (rule lstrip_idle) (simp add: hash_plain)
  ultimately show "detect_format rd bytes name = Inr (F_M3U8, Some F_M3U8)"
    using assms(1) by (simp add: detect_format_def Let_def probe starts_with_simps)
  show "rd_decode rd ''utf-8'' bytes \<noteq> None \<Longrightarrow> detect_text_encoding rd F_M3U8 bytes = Inr ''utf-8''"
    using marks [of "''EXTM3U'' @ a"] by (auto simp: detect_text_encoding_def a)
qed

lemma parse_run:
  assumes "exportable provider p" and "rd_decode rd ''utf-8'' bytes = Some (write_m3u8 p provider)"
    and "detect_text_encoding rd F_M3U8 bytes = Inr ''utf-8''"
    and "1 \<le> il_max_playlists l" and "length (pl_tracks p) \<le> il_max_tracks l"
  shows "\<exists>vs d. parse_m3u rd bytes (new_context F_M3U8 name n l) = (Inr (), d) \<and>
    pc_playlists d = [new_playlist None (pl_name p) vs] \<and> pc_track_count d = length vs \<and>
    list_all2 (carried provider) (pl_tracks p) vs"
proof -
  let ?c = "(new_context F_M3U8 name n l)\<lparr>pc_encoding := Some ''utf-8''\<rparr>"
  have "pc_parsed_tracks ?c + length (pl_tracks p) \<le> il_max_tracks (pc_limits ?c)" using assms(5) by (simp add: new_context_def)
  from file_run [OF assms(1) this, of "default_playlist_name name" rd] obtain vs d
    where d: "fold_each (List.enumerate 1 (m3u8_lines p provider)) ([], default_playlist_name name, None) (m3u_line rd) ?c =
        (Inr ([(pl_name p, vs)], pl_name p, None), d)" "list_all2 (carried provider) (pl_tracks p) vs"
      "advanced (length (pl_tracks p)) ?c d" by blast
  have content: "read_text rd bytes (new_context F_M3U8 name n l) = (Inr (write_m3u8 p provider), ?c)"
    using assms(2,3) by (simp add: read_text_def set_encoding_def lift_def run_simps new_context_def)
  have name: "strip (pl_name p) = pl_name p" "pl_name p \<noteq> []" using assms(1) by (simp_all add: exportable_def plain_def)
  have len: "length vs = length (pl_tracks p)" "vs \<noteq> []"
    using d(2) assms(1) by (auto simp: exportable_def list_all2_lengthD [symmetric])
  have add: "\<exists>e. add_groups [(pl_name p, vs)] d = (Inr (), e) \<and> pc_playlists e = [new_playlist None (pl_name p) vs] \<and>
      pc_track_count e = length vs"
    using d(3) len name assms(4,5) by (simp add: add_groups_def add_playlist_def reserve_playlist_def run_simps advanced_def
        new_context_def Let_def)
  have fn: "pc_filename (new_context F_M3U8 name n l) = name" by (simp add: new_context_def)
  show ?thesis using add d(1,2)
    by (auto simp: parse_m3u_def run_simps fn content file_text_lines [OF assms(1)])
qed

text \<open>
  C14. A playlist that the format can carry comes back when it is exported as M3U8 and the file is
  imported. Carrying it (\<open>exportable\<close>) asks for at least one track and a plain name; of every track, for
  a title and an artist that are one trimmed line, no dash at their outer ends, no separator \<open>" - "\<close> in the
  artist, a duration in range, and a location at a known provider. The file must keep its \<open>.m3u8\<close>
  name, decode as it was written, and stay within the limits. Then the import returns exactly one
  playlist, of the same name, with the same tracks in the same order, each with its title, artist and
  duration, and with the location of the track at its provider, ready to be migrated.
\<close>

theorem m3u8_roundtrip:
  assumes "exportable provider p" and "rd_decode rd ''utf-8'' bytes = Some (write_m3u8 p provider)"
    and "starts_with ''#EXTM3U'' bytes" and "starts_with ''#EXTM3U'' (rd_probe rd ''utf-8'' (take 65536 bytes))"
    and "format_from_filename (sanitize_filename filename) = Some F_M3U8"
    and "length bytes \<le> il_max_upload_bytes l" and "1 \<le> il_max_playlists l" and "length (pl_tracks p) \<le> il_max_tracks l"
  shows "\<exists>r q. parse_playlist_file rd uuid l filename bytes = Inr r \<and> ipr_playlists r = [q] \<and> pl_name q = pl_name p \<and>
    list_all2 (carried provider) (pl_tracks p) (pl_tracks q)"
proof -
  let ?c = "new_context F_M3U8 (sanitize_filename filename) (length bytes) l"
  note format = format_found [OF assms(5,3,4)]
  have enc: "detect_text_encoding rd F_M3U8 bytes = Inr ''utf-8''" using format(2) assms(2) by simp
  obtain vs d where d: "parse_m3u rd bytes ?c = (Inr (), d)" "pc_playlists d = [new_playlist None (pl_name p) vs]"
    "pc_track_count d = length vs" "list_all2 (carried provider) (pl_tracks p) vs"
    using parse_run [OF assms(1,2) enc assms(7,8)] by blast
  have len: "length vs = length (pl_tracks p)" "vs \<noteq> []"
    using d(4) assms(1) by (auto simp: exportable_def list_all2_lengthD [symmetric])
  obtain r0 e where f: "fold_each (List.enumerate 0 (pc_playlists d)) [] (finalize_playlist rd uuid) d = (r0, e)" by force
  from finalize_all [OF f] d(2) obtain q where q: "r0 = Inr [q]" "finalized (''local:'' @ uuid 0) (new_playlist None (pl_name p) vs) q"
    by (auto simp: length_Suc_conv)
  have place: "placed (''local:'' @ uuid 0) vs (pl_tracks q)" "length (pl_tracks q) = length vs" "pl_name q = pl_name p"
    using q(2) by (simp_all add: finalized_def new_playlist_def)
  obtain r where r: "context_result rd uuid d = (Inr r, e)" "ipr_playlists r = [q]"
    using f q(1) d(2,3) len(2) by (auto simp: context_result_def run_simps)
  have "parse_playlist_file rd uuid l filename bytes = Inr r"
    using assms(3,6) format(1) d(1) r(1) by (auto simp: parse_playlist_file_def Let_def run_simps not_less starts_with_def)
  moreover have "list_all2 (carried provider) (pl_tracks p) (pl_tracks q)"
    using d(4) place(1,2) len(1) by (simp add: list_all2_conv_all_nth placed_def carried_def)
  ultimately show ?thesis using r(2) place(3) by blast
qed

definition exported_sample :: playlist where
  "exported_sample = new_playlist (Some ''p1'') ''Mix''
     [(new_track ''One'' ''A'')\<lparr>trk_duration_s := Some 61, trk_provider_uris := [(''spotify'', ''spotify:track:x'')]\<rparr>]"

theorem m3u8_roundtrip_witness:
  "\<exists>r q l. parse_playlist_file plain_readers str_nat l ''a.m3u8'' (write_m3u8 exported_sample ''spotify'') = Inr r \<and>
    ipr_playlists r = [q] \<and> pl_name q = ''Mix'' \<and>
    list_all2 (carried ''spotify'') (pl_tracks exported_sample) (pl_tracks q)"
proof -
  let ?b = "write_m3u8 exported_sample ''spotify''"
  define l where "l = \<lparr>il_max_upload_bytes = length ?b, il_max_playlists = 1, il_max_tracks = 1, il_max_issues = 1\<rparr>"
  have e: "exportable ''spotify'' exported_sample" by code_simp
  have s: "starts_with ''#EXTM3U'' ?b" by code_simp
  then have "starts_with ''#EXTM3U'' (take 65536 ?b)" by (simp add: starts_with_def min_def)
  moreover have "rd_decode plain_readers ''utf-8'' ?b = Some ?b" "rd_probe plain_readers ''utf-8'' (take 65536 ?b) = take 65536 ?b"
    by (simp_all add: plain_readers_def)
  moreover have "format_from_filename (sanitize_filename ''a.m3u8'') = Some F_M3U8" by code_simp
  moreover have "length ?b \<le> il_max_upload_bytes l" "1 \<le> il_max_playlists l" "length (pl_tracks exported_sample) \<le> il_max_tracks l"
    by (simp_all add: l_def exported_sample_def new_playlist_def)
  ultimately have "\<exists>r q. parse_playlist_file plain_readers str_nat l ''a.m3u8'' ?b = Inr r \<and> ipr_playlists r = [q] \<and>
      pl_name q = pl_name exported_sample \<and> list_all2 (carried ''spotify'') (pl_tracks exported_sample) (pl_tracks q)"
    by (intro m3u8_roundtrip [OF e _ s]) simp_all
  moreover have "pl_name exported_sample = ''Mix''" by (simp add: exported_sample_def new_playlist_def)
  ultimately show ?thesis by auto
qed

end
