(* ===== verification/Sync_Diff.thy ===== *)
theory Sync_Diff
  imports Sync_Core "HOL-Library.Multiset" "HOL-Library.Sublist"
begin

text \<open>
  The abstract specification of a difference (\<open>core/sync.py\<close>): a playlist is the multiset of its
  recordings, and what was added and removed are the two differences of multisets.
\<close>

definition recordings :: "snapshot option \<Rightarrow> string multiset" where
  "recordings s = mset (map en_identity (entries s))"

lemma added_entries:
  "\<exists>fs. subseq fs es \<and> added_positions prev c es = map en_position fs \<and>
     (\<forall>i. count_list (map en_identity fs) i = count_list (map en_identity es) i - (prev i - c i))"
proof (induction es arbitrary: c)
  case (Cons e es)
  let ?i = "en_identity e"
  from Cons.IH [of "bump ?i c"] obtain fs where fs: "subseq fs es"
    "added_positions prev (bump ?i c) es = map en_position fs"
    "\<forall>i. count_list (map en_identity fs) i = count_list (map en_identity es) i - (prev i - bump ?i c i)" by blast
  show ?case
  proof (cases "prev ?i \<le> c ?i")
    case True
    with fs show ?thesis by (intro exI [of _ "e # fs"]) (auto simp: Let_def bump_def)
  next
    case False
    with fs show ?thesis by (intro exI [of _ fs]) (auto simp: Let_def bump_def)
  qed
qed simp

text \<open>
  C13. The difference of two snapshots refines the difference of multisets: comparing snapshots the
  program has taken never fails, the positions it reports as added are those of entries of the
  current playlist, in order, whose recordings are exactly the multiset of new ones minus old ones, and
  the number it reports as removed is the size of the multiset of old ones minus new ones.
\<close>

theorem diff_refines_multisets:
  "\<exists>d es. diff_snapshots (taken x) (taken y) = Inr d \<and> subseq es (entries (taken y)) \<and>
     df_added_positions d = map en_position es \<and>
     mset (map en_identity es) = recordings (taken y) - recordings (taken x) \<and>
     df_removed_count d = size (recordings (taken x) - recordings (taken y))"
proof -
  let ?xs = "map en_identity (entries (taken x))" and ?ys = "map en_identity (entries (taken y))"
  obtain d where d: "diff_snapshots (taken x) (taken y) = Inr d"
    and r: "df_removed_count d = (\<Sum>i \<in> set ?xs \<union> set ?ys. count_list ?xs i - count_list ?ys i)"
    by (rule diff_snapshots_result [OF taken_tokens_ok taken_tokens_ok])
  from d have a: "df_added_positions d = added_positions (counter_of ?xs) (\<lambda>_. 0) (entries (taken y))"
    by (auto simp: diff_snapshots_def Let_def split: sum.splits)
  obtain es where es: "subseq es (entries (taken y))" "df_added_positions d = map en_position es"
    "\<forall>i. count_list (map en_identity es) i = count_list ?ys i - count_list ?xs i"
    using added_entries [of "entries (taken y)" "counter_of ?xs" "\<lambda>_. 0"] unfolding a by (auto simp: counter_of_def)
  have "mset (map en_identity es) = recordings (taken y) - recordings (taken x)"
    by (rule multiset_eqI) (use es(3) in \<open>simp add: recordings_def count_mset del: mset_map\<close>)
  moreover have "df_removed_count d = size (recordings (taken x) - recordings (taken y))"
  proof -
    let ?m = "recordings (taken x) - recordings (taken y)"
    have "set_mset ?m \<subseteq> set ?xs \<union> set ?ys" by (auto simp: recordings_def dest: in_diffD)
    then have "size ?m = (\<Sum>i \<in> set ?xs \<union> set ?ys. count ?m i)"
      unfolding size_multiset_overloaded_eq by (intro sum.mono_neutral_left) (auto simp: not_in_iff)
    then show ?thesis by (simp add: r recordings_def count_mset del: mset_map)
  qed
  ultimately show ?thesis using d es(1,2) by blast
qed

end
