(* ===== verification/Spec2Isabelle.thy ===== *)
theory Spec2Isabelle
  imports Rate_Limit Retention Matching Local_Imports Sync_Life Organizer_Api Reviews History_Cleanup M3u_Roundtrip
    Sync_Diff
begin

text \<open>
  The open playlist engine moves playlists, saved albums and followed artists between accounts of
  music providers, keeps playlists synchronized, cleans libraries up, and reads and writes playlist
  files. This development models its backend, \<open>src/backend/app\<close>, and proves what makes it safe to
  let it write to somebody's library.

  \<^bold>\<open>The parts and how they interact.\<close> An endpoint of the API checks a request and adds a row: a
  migration (\<open>api/migrations.py\<close>), a rule or a run of it (\<open>api/syncs.py\<close>), an organizer job
  (\<open>api/organizer.py\<close>), an imported playlist (\<open>imports/service.py\<close>). A worker takes the row and carries
  it out (\<open>jobs/migration.py\<close>, \<open>jobs/sync.py\<close>, \<open>jobs/organizer.py\<close>): it reads the source, matches
  tracks in the target's catalogue (\<open>core/match_service.py\<close>), writes them in batches and records
  what became of each item. A review decides the items the worker was not sure of. A finished
  migration may become a rule (\<open>jobs/continuous_sync.py\<close>), whose runs are migrations of the
  differences of two snapshots (\<open>core/sync.py\<close>). Everything the workers know is in the database
  (\<open>db/\<close>); providers are reached through an adapter (\<open>core/adapter.py\<close>).

  \<^bold>\<open>Theories and code.\<close>
  \<^item> \<open>Prelude\<close>, \<open>Py_Text\<close>, \<open>Py_Parse\<close>, \<open>Json\<close>, \<open>Digest\<close>, \<open>Similarity\<close>: the parts of Python and its
    library that the program uses: dictionaries in insertion order, texts, numerals, lines, URLs,
    CSV records, JSON texts, SHA-256 over 32-bit words, and the ratio of \<open>difflib\<close>. \<open>Prelude\<close> also has
    the computations all handlers are written in (state and exception), their frame calculus
    (\<open>keeps\<close>), and the locale \<open>invariant_system\<close> of state machines with an invariant.
  \<^item> \<open>Models\<close>: the interchange model (\<open>core/models.py\<close>, \<open>core/capabilities.py\<close>) and the JSON form in which the
    fields it declares are stored. Validating a stored track is a library's work and a parameter
    (\<open>env_read_track\<close>); \<open>Track_Codec\<close> has a concrete reader for the sample environment.
  \<^item> \<open>Adapter\<close>, \<open>Fake_Provider\<close>: the provider contract (\<open>core/adapter.py\<close>, \<open>core/registry.py\<close>) as a record
    of operations over a provider state of any type, the locale \<open>playlist_writer\<close> of its write laws,
    and the reference adapter of the conformance tests, which interprets it.
  \<^item> \<open>Track_Keys\<close>, \<open>Matching\<close>: the keys that make tracks comparable (\<open>core/migration_state.py\<close>), and the
    search for a track, album or artist (\<open>core/match_service.py\<close>, \<open>core/library_match.py\<close>).
  \<^item> \<open>Rate_Limit\<close>, \<open>Retention\<close>: \<open>core/rate_limit.py\<close> and \<open>snapshots/retention.py\<close>.
  \<^item> \<open>Database\<close>, \<open>Sample_World\<close>, \<open>Accounts\<close>: the tables and the session (\<open>db/models.py\<close>, \<open>db/base.py\<close>), a
    concrete engine state for the witnesses, accounts and credentials (\<open>db/repositories.py\<close>). The state
    has the committed database, the pending one of the open session, the state of the providers,
    and a counter for fresh identifiers. The locale \<open>worker_frame\<close> carries a frame through every
    operation of the workers.
  \<^item> \<open>Sync_Core\<close>, \<open>Sync_Graph\<close>, \<open>Sync_Rules\<close>, \<open>Sync_Runs\<close>, \<open>Sync_Job\<close>, \<open>Sync_Life\<close>: snapshots and their
    differences (\<open>core/sync.py\<close>; \<open>Sync_Diff\<close> relates them to multisets), the graph of synchronizations (\<open>db/sync_graph.py\<close>), rules
    (\<open>api/syncs.py\<close>), the life of a run and its execution with mirror, rollback, finalization and
    scheduler (\<open>jobs/sync.py\<close>).
  \<^item> \<open>Migration_Start\<close>, \<open>Migration_History\<close>, \<open>Migration_Write\<close>, \<open>Migration_Target\<close>, \<open>Migration_Library\<close>,
    \<open>Migration_Source\<close>, \<open>Migration_Run\<close>, \<open>Continuous_Sync\<close>: a migration from its request
    (\<open>api/migrations.py\<close>) to its end (\<open>jobs/migration.py\<close>, \<open>db/migration_history.py\<close>,
    \<open>imports/source.py\<close>, \<open>exports/history.py\<close>, \<open>jobs/continuous_sync.py\<close>).
  \<^item> \<open>Reviews\<close>, \<open>Job_Views\<close>, \<open>History_Cleanup\<close>: the reviews and the views of \<open>api/migrations.py\<close>, and the
    cleanup of \<open>jobs/history_cleanup.py\<close>.
  \<^item> \<open>Organizer\<close>, \<open>Organizer_Job\<close>, \<open>Organizer_Api\<close>: \<open>core/organizer.py\<close>, \<open>core/organizer_service.py\<close>,
    \<open>jobs/organizer.py\<close>, \<open>api/organizer.py\<close>.
  \<^item> \<open>Local_Imports\<close>, \<open>File_Context\<close>, \<open>File_Parsers\<close>, \<open>File_Limits\<close>: the rows of imported playlists
    (\<open>imports/service.py\<close>) and the parsers of playlist files (\<open>imports/parsers.py\<close>,
    \<open>imports/registry.py\<close>, \<open>imports/models.py\<close>).
  \<^item> \<open>Sharing\<close>, \<open>Export_Formats\<close>: shared snapshots (\<open>core/sharing.py\<close>), export formats and artifacts
    (\<open>exports/serializers.py\<close>, \<open>exports/service.py\<close>). \<open>Export_Import\<close> and \<open>M3u_Roundtrip\<close> join both sides.

  \<^bold>\<open>How code is rendered.\<close> A class is a record, an enumeration a datatype, a method a definition with
  the name it has in the source. Asynchronous handlers are computations \<open>('state, error, 'a) proc\<close>:
  every \<open>raise\<close> is a value, \<open>try\<close> is \<open>catching\<close>, and the state after an error is the state the error
  left. A call of an adapter changes the state of the providers and may fail in any way. Row locks,
  advisory locks and the lock of the rate limiter make what they protect one step; workers
  interleave between steps. So the claim about leases holds in every later state in which the lease
  is the new one, and a round of the rate limiter begins with whatever other callers did to it.
  Strings are lists of characters of the first 256 code points. Floating-point numbers are exact
  rationals, times are whole seconds, and identifiers come from a supply that never repeats.

  \<^bold>\<open>What is shown.\<close> Migrations: a started one ends and is never left running; every track and library
  item of a batch is settled; the target playlist is one the migration may write to; a migration
  starts only when confirmed. Synchronization: a run ends, a mirror that returns matches its source,
  one that fails at the provider restores a target it had read in full, a worker without the lease
  can no longer complete, fail, park or mirror the run, and no accepted rules form a loop.
  Organizer: a preflight answers every wish by what the provider allows, jobs are confirmed as
  requested, only playlists the provider says are owned are deleted, and, with at least one attempt
  allowed, every item is settled. Reviews settle their item and finalize the run once. Imports under a
  lease are exclusive; parsed files stay within the limits; archives account for every
  playlist. History: counts agree between items, summaries and views, and the cleanup does not
  change them. Round trips: CSV texts, and an M3U8 file, of a playlist the format can carry, that is
  exported and imported again. Refinement: differences of snapshots are differences of multisets.
  Rate limiting: levels and rates.

  \<^bold>\<open>Bounds.\<close> Loops follow the structure of a list, with these exceptions. \<open>free_name\<close> tries as many numbers as
  names were given plus one: one of them is free (\<open>allocate_fresh\<close>). Waiting at the rate
  limiter takes as many turns as it is given, and may need any number of them when others take the
  tokens; alone and with exact amounts, two are enough (\<open>acquire_alone\<close>). Retries of the organizer are bounded by its setting. The search for feedback loops
  visits every account at most once, so as many rounds as there are edges suffice.

  \<^bold>\<open>What is not modelled.\<close> The adapters of the providers (\<open>providers/\<close>), whose behaviour is that of remote
  services, are a parameter. So are the validation of stored tracks, encryption, zip archives and their verification, the
  sniffing of CSV dialects, the readers of XML and JSON documents, and the decoding of bytes. The
  playlist cache and its endpoints, sign-in, share links, the generator of playlists and
  downloads from other sites are glue around those or around HTTP. Logging, configuration and the
  frontend carry no state of the modelled parts.
\<close>

end
